(* ===== verification/Prelude.thy ===== *)
theory Prelude
  imports Main "HOL-Library.Word" "HOL-Library.Multiset" "HOL-Library.Sublist" "HOL-Library.Code_Target_Numeral"
    "HOL-Library.Char_ord" "HOL-Library.List_Lexorder" "HOL-Library.Product_Lexorder"
begin

text \<open>
  What every component theory shares: the collections the automation of the development is
  built on, and facts on lists and options that more than one component uses.

  \<^item> \<open>js_str\<close>: simplification rules of the JavaScript string operations (\<open>JsString\<close>).
  \<^item> \<open>db_simps\<close>: simplification rules of the table operations of the database model.
\<close>

named_theorems js_str \<open>rules of the JavaScript string operations\<close>
named_theorems db_simps \<open>rules of the table operations\<close>

section \<open>Lists\<close>

lemma dropWhile_hd: "dropWhile P xs = y # ys \<Longrightarrow> \<not> P y"
  by (induction xs) (auto split: if_splits)

lemma dropWhile_idem [simp]: "dropWhile P (dropWhile P xs) = dropWhile P xs"
  by (induction xs) auto

lemma dropWhile_eq_self_iff: "dropWhile P xs = xs \<longleftrightarrow> (case xs of [] \<Rightarrow> True | x # _ \<Rightarrow> \<not> P x)"
proof (cases xs)
  case (Cons x ys)
  have "length (dropWhile P ys) \<le> length ys"
    by (rule length_dropWhile_le)
  then have "dropWhile P ys \<noteq> x # ys"
    by (metis Suc_n_not_le_n length_Cons)
  with Cons show ?thesis by simp
qed simp

lemma set_take_subset_self: "x \<in> set (take n xs) \<Longrightarrow> x \<in> set xs"
  by (rule in_set_takeD)

lemma list_all_take: "list_all P xs \<Longrightarrow> list_all P (take n xs)"
  by (auto simp: list_all_iff dest: in_set_takeD)

lemma find_None_iff_all: "find P xs = None \<longleftrightarrow> list_all (\<lambda>x. \<not> P x) xs"
  by (auto simp: find_None_iff list_all_iff)

lemma find_SomeD: "find P xs = Some x \<Longrightarrow> x \<in> set xs \<and> P x"
  by (auto simp: find_Some_iff)

lemma sort_key_Nil_iff [simp]: "sort_key f xs = [] \<longleftrightarrow> xs = []"
  by (metis length_0_conv length_sort)

section \<open>Transactions\<close>

text \<open>
  The code's services run inside a database transaction: a step reads and writes the state and
  answers, or throws, and then the transaction rolls back, so the state after a failure is of no
  interest. A step is a function from the state to an error or to the answer with the new state.
\<close>

datatype js_error =
    TenantContextError string
  | JsError string
  | RangeError string
  | NamedError string string

type_synonym ('s, 'a) tx = "'s \<Rightarrow> js_error + ('a \<times> 's)"

definition tx_return :: "'a \<Rightarrow> ('s, 'a) tx" where
  "tx_return x s = Inr (x, s)"

definition tx_throw :: "js_error \<Rightarrow> ('s, 'a) tx" where
  "tx_throw e s = Inl e"

definition tx_bind :: "('s, 'a) tx \<Rightarrow> ('a \<Rightarrow> ('s, 'b) tx) \<Rightarrow> ('s, 'b) tx" where
  "tx_bind m f s = (case m s of Inl e \<Rightarrow> Inl e | Inr (x, s') \<Rightarrow> f x s')"

text \<open>A guard of the code that throws when it fails.\<close>

definition tx_require :: "bool \<Rightarrow> js_error \<Rightarrow> ('s, unit) tx" where
  "tx_require b e = (if b then tx_return () else tx_throw e)"

lemma tx_return_Inr [simp]: "tx_return x s = Inr r \<longleftrightarrow> r = (x, s)"
  by (auto simp: tx_return_def)

lemma tx_throw_not_Inr [simp]: "tx_throw e s \<noteq> Inr r"
  by (simp add: tx_throw_def)

lemma tx_bind_Inr_iff:
  "tx_bind m f s = Inr r \<longleftrightarrow> (\<exists>x s'. m s = Inr (x, s') \<and> f x s' = Inr r)"
  by (auto simp: tx_bind_def split: sum.splits)

lemma tx_bind_return [simp]: "tx_bind (tx_return x) f = f x"
  by (rule ext) (simp add: tx_bind_def tx_return_def)

lemma tx_require_Inr [simp]: "tx_require b e s = Inr r \<longleftrightarrow> b \<and> r = ((), s)"
  by (auto simp: tx_require_def)

lemma tx_require_True [simp]: "tx_require True e = tx_return ()"
  by (simp add: tx_require_def)

lemmas tx_defs = tx_return_def tx_throw_def tx_bind_def tx_require_def

section \<open>Sorting with a comparison function\<close>

text \<open>
  \<open>Array.prototype.sort\<close> with a consistent comparison function: the stable sorted permutation.
\<close>

fun js_insert :: "('a \<Rightarrow> 'a \<Rightarrow> int) \<Rightarrow> 'a \<Rightarrow> 'a list \<Rightarrow> 'a list" where
  "js_insert cmp x [] = [x]"
| "js_insert cmp x (y # ys) = (if cmp x y \<le> 0 then x # y # ys else y # js_insert cmp x ys)"

definition js_sort :: "('a \<Rightarrow> 'a \<Rightarrow> int) \<Rightarrow> 'a list \<Rightarrow> 'a list" where
  "js_sort cmp xs = foldr (js_insert cmp) xs []"

lemma mset_js_insert [simp]: "mset (js_insert cmp x xs) = add_mset x (mset xs)"
  by (induction xs) auto

lemma mset_js_sort [simp]: "mset (js_sort cmp xs) = mset xs"
  by (induction xs) (simp_all add: js_sort_def)

lemma set_js_sort [simp]: "set (js_sort cmp xs) = set xs"
  using mset_eq_setD [OF mset_js_sort] .

lemma length_js_sort [simp]: "length (js_sort cmp xs) = length xs"
  using mset_eq_length [OF mset_js_sort] .

lemma js_sort_Nil_iff [simp]: "js_sort cmp xs = [] \<longleftrightarrow> xs = []"
  by (metis length_0_conv length_js_sort)

lemma js_sort_hd: "js_sort cmp xs = x # ys \<Longrightarrow> x \<in> set xs"
  using set_js_sort [of cmp xs] by auto

lemma js_sort_Nil [simp]: "js_sort cmp [] = []"
  by (simp add: js_sort_def)

lemma js_sort_single [simp]: "js_sort cmp [x] = [x]"
  by (simp add: js_sort_def)

text \<open>A comparison is consistent when it is a total preorder read off the sign of its answer.\<close>

definition consistent_cmp :: "('a \<Rightarrow> 'a \<Rightarrow> int) \<Rightarrow> bool" where
  "consistent_cmp cmp \<longleftrightarrow>
     (\<forall>x y. cmp x y \<le> 0 \<or> cmp y x \<le> 0) \<and>
     (\<forall>x y z. cmp x y \<le> 0 \<longrightarrow> cmp y z \<le> 0 \<longrightarrow> cmp x z \<le> 0)"

lemma sorted_js_insert:
  assumes "consistent_cmp cmp" "sorted_wrt (\<lambda>x y. cmp x y \<le> 0) xs"
  shows "sorted_wrt (\<lambda>x y. cmp x y \<le> 0) (js_insert cmp x xs)"
  using assms(2)
proof (induction xs)
  case (Cons y ys)
  have "set (js_insert cmp x ys) = insert x (set ys)"
    by (metis mset_js_insert set_mset_add_mset_insert set_mset_mset)
  with Cons assms(1) show ?case
    by (auto simp: consistent_cmp_def)
qed simp

lemma sorted_js_sort: "consistent_cmp cmp \<Longrightarrow> sorted_wrt (\<lambda>x y. cmp x y \<le> 0) (js_sort cmp xs)"
  by (induction xs) (simp_all add: js_sort_def sorted_js_insert)

lemma js_insert_front:
  "\<forall>y \<in> set ys. cmp x y \<le> 0 \<Longrightarrow> js_insert cmp x ys = x # ys"
  by (cases ys) auto

lemma js_sort_sorted: "sorted_wrt (\<lambda>x y. cmp x y \<le> 0) xs \<Longrightarrow> js_sort cmp xs = xs"
  by (induction xs) (simp_all add: js_sort_def js_insert_front)

text \<open>Where no two different elements compare equal, the sorted order is the only one.\<close>

lemma sorted_cmp_unique:
  assumes "\<forall>x \<in> set xs. \<forall>y \<in> set xs. cmp x y \<le> 0 \<longrightarrow> cmp y x \<le> 0 \<longrightarrow> x = y"
    and "sorted_wrt (\<lambda>x y. cmp x y \<le> 0) xs" "sorted_wrt (\<lambda>x y. cmp x y \<le> 0) ys" "mset xs = mset ys"
  shows "xs = ys"
  using assms
proof (induction xs arbitrary: ys)
  case (Cons x xs)
  then obtain y ys' where ys: "ys = y # ys'"
    by (cases ys) auto
  have mem: "y \<in> set (x # xs)" "x \<in> set ys"
    using Cons.prems(4) ys by (metis list.set_intros(1) mset_eq_setD)+
  have "x = y"
  proof (cases "x = y")
    case False
    then have "cmp x y \<le> 0" "cmp y x \<le> 0"
      using mem Cons.prems(2,3) ys by auto
    then show ?thesis using Cons.prems(1) mem(1) by auto
  qed simp
  moreover have "xs = ys'"
    by (rule Cons.IH) (use Cons.prems ys \<open>x = y\<close> in auto)
  ultimately show ?case using ys by simp
qed simp

lemma js_sort_mset_cong:
  assumes "consistent_cmp cmp" "mset xs = mset ys"
    and "\<forall>x \<in> set xs. \<forall>y \<in> set xs. cmp x y \<le> 0 \<longrightarrow> cmp y x \<le> 0 \<longrightarrow> x = y"
  shows "js_sort cmp xs = js_sort cmp ys"
  by (rule sorted_cmp_unique [of _ cmp]) (use assms in \<open>simp_all add: sorted_js_sort\<close>)

end
