(* ===== verification/JsString.thy ===== *)
theory JsString
  imports Prelude
begin

text \<open>
  The operations of JavaScript strings the code uses. A string of the model is a JavaScript
  string whose code units lie in \<open>U+0000\<close> to \<open>U+00FF\<close> (a \<^typ>\<open>char\<close> has 8 bits), so
  \<open>length\<close> counts code units and code points alike. On that range the operations below are
  the language's own: \<open>trim\<close> removes the white space and line terminators of the range
  (tab to carriage return, space, no-break space), \<open>toLowerCase\<close> maps \<open>A-Z\<close> and the Latin-1
  capitals (\<open>U+00C0\<close> to \<open>U+00DE\<close> without the multiplication sign) and no other character.
  \<open>Number.parseInt\<close> and \<open>toString(radix)\<close> are given on the digit strings the code passes to them.
\<close>

section \<open>Characters\<close>

definition code_unit :: "char \<Rightarrow> nat" where
  "code_unit c = of_char c"

definition js_digit :: "char \<Rightarrow> bool" where
  "js_digit c \<longleftrightarrow> 48 \<le> code_unit c \<and> code_unit c \<le> 57"

definition js_ascii_lower :: "char \<Rightarrow> bool" where
  "js_ascii_lower c \<longleftrightarrow> 97 \<le> code_unit c \<and> code_unit c \<le> 122"

definition js_ascii_upper :: "char \<Rightarrow> bool" where
  "js_ascii_upper c \<longleftrightarrow> 65 \<le> code_unit c \<and> code_unit c \<le> 90"

definition js_hex_digit :: "char \<Rightarrow> bool" where
  "js_hex_digit c \<longleftrightarrow> js_digit c \<or> (97 \<le> code_unit c \<and> code_unit c \<le> 102) \<or> (65 \<le> code_unit c \<and> code_unit c \<le> 70)"

text \<open>The category \<open>\p{Cc}\<close>: the control characters of the range.\<close>

definition js_control :: "char \<Rightarrow> bool" where
  "js_control c \<longleftrightarrow> code_unit c < 32 \<or> (127 \<le> code_unit c \<and> code_unit c \<le> 159)"

definition js_space :: "char \<Rightarrow> bool" where
  "js_space c \<longleftrightarrow> (9 \<le> code_unit c \<and> code_unit c \<le> 13) \<or> code_unit c = 32 \<or> code_unit c = 160"

lemmas js_char_defs = js_digit_def js_ascii_lower_def js_ascii_upper_def js_hex_digit_def js_control_def js_space_def

section \<open>Lower case and trimming\<close>

definition js_lower_char :: "char \<Rightarrow> char" where
  "js_lower_char c =
     (let n = code_unit c
      in if (65 \<le> n \<and> n \<le> 90) \<or> (192 \<le> n \<and> n \<le> 222 \<and> n \<noteq> 215) then char_of (n + 32) else c)"

definition js_lower :: "string \<Rightarrow> string" where
  "js_lower s = map js_lower_char s"

definition js_trim_start :: "string \<Rightarrow> string" where
  "js_trim_start s = dropWhile js_space s"

definition js_trim_end :: "string \<Rightarrow> string" where
  "js_trim_end s = rev (dropWhile js_space (rev s))"

definition js_trim :: "string \<Rightarrow> string" where
  "js_trim s = js_trim_end (js_trim_start s)"

lemma code_unit_less [simp]: "code_unit c < 256"
  by (simp add: code_unit_def)

lemma code_unit_char_of: "n < 256 \<Longrightarrow> code_unit (char_of n) = n"
  by (simp add: code_unit_def)

lemma code_unit_inject: "code_unit c = code_unit d \<longleftrightarrow> c = d"
  by (simp add: code_unit_def)

lemma code_unit_lower:
  "code_unit (js_lower_char c) =
     (if (65 \<le> code_unit c \<and> code_unit c \<le> 90) \<or> (192 \<le> code_unit c \<and> code_unit c \<le> 222 \<and> code_unit c \<noteq> 215)
      then code_unit c + 32 else code_unit c)"
  by (auto simp: js_lower_char_def Let_def code_unit_char_of)

lemma js_lower_char_idem [simp]: "js_lower_char (js_lower_char c) = js_lower_char c"
  by (auto simp: code_unit_lower simp flip: code_unit_inject)

lemma js_space_lower [simp]: "js_space (js_lower_char c) \<longleftrightarrow> js_space c"
  by (auto simp: js_space_def code_unit_lower)

lemma js_lower_idem [js_str, simp]: "js_lower (js_lower s) = js_lower s"
  by (simp add: js_lower_def)

lemma length_js_lower [simp]: "length (js_lower s) = length s"
  by (simp add: js_lower_def)

lemma js_lower_append: "js_lower (s @ t) = js_lower s @ js_lower t"
  by (simp add: js_lower_def)

lemma js_lower_Nil_iff [simp]: "js_lower s = [] \<longleftrightarrow> s = []"
  by (simp add: js_lower_def)

lemma js_lower_trim_start: "js_lower (js_trim_start s) = js_trim_start (js_lower s)"
  by (induction s) (auto simp: js_lower_def js_trim_start_def)

lemma js_lower_trim_end: "js_lower (js_trim_end s) = js_trim_end (js_lower s)"
  using js_lower_trim_start [of "rev s"]
  by (simp add: js_lower_def js_trim_start_def js_trim_end_def flip: rev_map)

lemma js_lower_trim [js_str]: "js_lower (js_trim s) = js_trim (js_lower s)"
  by (simp add: js_trim_def js_lower_trim_end js_lower_trim_start)

text \<open>A string that begins and ends with no white space is left alone, and trimming yields such a string.\<close>

definition no_edge_space :: "string \<Rightarrow> bool" where
  "no_edge_space s \<longleftrightarrow> (s = [] \<or> (\<not> js_space (hd s) \<and> \<not> js_space (last s)))"

lemma js_trim_start_id: "s = [] \<or> \<not> js_space (hd s) \<Longrightarrow> js_trim_start s = s"
  by (cases s) (auto simp: js_trim_start_def)

lemma js_trim_end_id: "s = [] \<or> \<not> js_space (last s) \<Longrightarrow> js_trim_end s = s"
  by (cases s rule: rev_cases) (auto simp: js_trim_end_def)

lemma js_trim_id: "no_edge_space s \<Longrightarrow> js_trim s = s"
  by (auto simp: js_trim_def no_edge_space_def js_trim_start_id js_trim_end_id)

lemma js_trim_end_prefix: "prefix (js_trim_end s) s"
  by (metis dropWhile_eq_drop js_trim_end_def rev_drop rev_rev_ident take_is_prefix)

lemma js_trim_end_last: "js_trim_end s \<noteq> [] \<Longrightarrow> \<not> js_space (last (js_trim_end s))"
  by (cases "dropWhile js_space (rev s)") (auto simp: js_trim_end_def dest: dropWhile_hd)

lemma js_trim_no_edge [js_str]: "no_edge_space (js_trim s)"
proof (cases "js_trim s")
  case Nil
  then show ?thesis by (simp add: no_edge_space_def)
next
  case (Cons c cs)
  then obtain rest where "js_trim_start s = c # cs @ rest"
    using js_trim_end_prefix [of "js_trim_start s"] by (auto simp: js_trim_def prefix_def)
  then have "\<not> js_space c"
    by (auto simp: js_trim_start_def dest: dropWhile_hd)
  moreover have "\<not> js_space (last (js_trim s))"
    using js_trim_end_last [of "js_trim_start s"] Cons by (simp add: js_trim_def)
  ultimately show ?thesis
    using Cons by (simp add: no_edge_space_def)
qed

lemma js_trim_idem [js_str, simp]: "js_trim (js_trim s) = js_trim s"
  by (rule js_trim_id [OF js_trim_no_edge])

section \<open>Splitting\<close>

text \<open>
  \<open>s.split(sep)\<close> for a non-empty separator: the pieces between its occurrences, found from the
  left without overlap. A string without the separator is one piece.
\<close>

fun js_split_from :: "string \<Rightarrow> string \<Rightarrow> string \<Rightarrow> string list" where
  "js_split_from sep acc [] = [rev acc]"
| "js_split_from sep acc (c # cs) =
     (if prefix sep (c # cs) then rev acc # js_split_from sep [] (drop (length sep - 1) cs)
      else js_split_from sep (c # acc) cs)"

definition js_split :: "string \<Rightarrow> string \<Rightarrow> string list" where
  "js_split sep s = js_split_from sep [] s"

lemma js_split_from_absent:
  assumes "\<not> sublist sep s" "sep \<noteq> []"
  shows "js_split_from sep acc s = [rev acc @ s]"
  using assms
proof (induction s arbitrary: acc)
  case (Cons c cs)
  have "\<not> sublist sep cs"
    using Cons.prems(1) by (metis sublist_Cons_right)
  moreover have "\<not> prefix sep (c # cs)"
    using Cons.prems(1) prefix_imp_sublist by blast
  ultimately show ?case
    using Cons by simp
qed simp

lemma js_split_absent: "\<not> sublist sep s \<Longrightarrow> sep \<noteq> [] \<Longrightarrow> js_split sep s = [s]"
  by (simp add: js_split_def js_split_from_absent)

lemma js_split_from_char_absent: "c \<notin> set s \<Longrightarrow> js_split_from [c] acc s = [rev acc @ s]"
  by (rule js_split_from_absent) (auto dest: set_mono_sublist)

lemma js_split_char_absent: "c \<notin> set s \<Longrightarrow> js_split [c] s = [s]"
  by (simp add: js_split_def js_split_from_char_absent)

lemma js_split_from_char_step:
  "c \<notin> set s \<Longrightarrow> js_split_from [c] acc (s @ c # t) = (rev acc @ s) # js_split_from [c] [] t"
  by (induction s arbitrary: acc) auto

lemma js_split_char_step: "c \<notin> set s \<Longrightarrow> js_split [c] (s @ c # t) = s # js_split [c] t"
  by (simp add: js_split_def js_split_from_char_step)

lemma js_split_from_nonempty [simp]: "js_split_from sep acc s \<noteq> []"
  by (induction sep acc s rule: js_split_from.induct) auto

lemma js_split_nonempty [simp]: "js_split sep s \<noteq> []"
  by (simp add: js_split_def)

lemma js_split_from_pieces:
  "p \<in> set (js_split_from [c] acc s) \<Longrightarrow> c \<notin> set acc \<Longrightarrow> c \<notin> set p"
proof (induction s arbitrary: acc)
  case (Cons d s)
  from Cons.prems Cons.IH [of "[]"] Cons.IH [of "d # acc"] show ?case
    by (cases "d = c") auto
qed auto

lemma js_split_pieces: "p \<in> set (js_split [c] s) \<Longrightarrow> c \<notin> set p"
  by (auto simp: js_split_def dest: js_split_from_pieces)

text \<open>\<open>parts.join(sep)\<close>, and splitting what was joined.\<close>

fun js_join :: "string \<Rightarrow> string list \<Rightarrow> string" where
  "js_join sep [] = []"
| "js_join sep [s] = s"
| "js_join sep (s # t # ts) = s @ sep @ js_join sep (t # ts)"

lemma js_split_join:
  "ts \<noteq> [] \<Longrightarrow> \<forall>t \<in> set ts. c \<notin> set t \<Longrightarrow> js_split [c] (js_join [c] ts) = ts"
  by (induction "[c]" ts rule: js_join.induct) (auto simp: js_split_char_absent js_split_char_step)

lemma set_js_join: "set (js_join sep ts) \<subseteq> (\<Union>t \<in> set ts. set t) \<union> set sep"
  by (induction sep ts rule: js_join.induct) auto

section \<open>Digits\<close>

definition js_digit_val :: "char \<Rightarrow> nat" where
  "js_digit_val c =
     (let n = code_unit c
      in if n \<le> 57 then n - 48 else if n \<le> 70 then n - 55 else n - 87)"

text \<open>\<open>Number.parseInt(s, radix)\<close> on a string of digits of the radix, before it is rounded to a double.\<close>

definition js_parse_digits :: "nat \<Rightarrow> string \<Rightarrow> nat" where
  "js_parse_digits radix s = foldl (\<lambda>acc c. acc * radix + js_digit_val c) 0 s"

definition js_digit_char :: "nat \<Rightarrow> char" where
  "js_digit_char d = char_of (if d < 10 then d + 48 else d + 87)"

text \<open>\<open>n.toString(radix)\<close> for a natural number.\<close>

fun js_to_string :: "nat \<Rightarrow> nat \<Rightarrow> string" where
  "js_to_string radix n =
     (if radix < 2 \<or> n < radix then [js_digit_char n]
      else js_to_string radix (n div radix) @ [js_digit_char (n mod radix)])"

declare js_to_string.simps [simp del]

definition max_safe_integer :: nat where
  "max_safe_integer = 2 ^ 53 - 1"

lemma code_unit_digit_char: "d < 36 \<Longrightarrow> code_unit (js_digit_char d) = (if d < 10 then d + 48 else d + 87)"
  by (simp add: js_digit_char_def code_unit_char_of)

lemma js_digit_val_char [simp]: "d < 36 \<Longrightarrow> js_digit_val (js_digit_char d) = d"
  by (auto simp: js_digit_val_def code_unit_digit_char)

lemma js_parse_digits_append:
  "js_parse_digits r (s @ [c]) = js_parse_digits r s * r + js_digit_val c"
  by (simp add: js_parse_digits_def)

lemma js_parse_to_string:
  "2 \<le> r \<Longrightarrow> r \<le> 36 \<Longrightarrow> js_parse_digits r (js_to_string r n) = n"
proof (induction r n rule: js_to_string.induct)
  case (1 r n)
  show ?case
  proof (cases "n < r")
    case True
    with 1 show ?thesis
      by (simp add: js_to_string.simps [of r n] js_parse_digits_def)
  next
    case False
    moreover have "n mod r < 36"
      using "1.prems" mod_less_divisor [of r n] by linarith
    ultimately show ?thesis
      using 1 by (simp add: js_to_string.simps [of r n] js_parse_digits_append div_mult_mod_eq)
  qed
qed

lemma js_to_string_nonempty [simp]: "js_to_string r n \<noteq> []"
  by (simp add: js_to_string.simps [of r n])

lemma set_js_to_string:
  "2 \<le> r \<Longrightarrow> c \<in> set (js_to_string r n) \<Longrightarrow> \<exists>d < r. c = js_digit_char d"
proof (induction r n rule: js_to_string.induct)
  case (1 r n)
  have "n mod r < r" using "1.prems"(1) by simp
  then have "\<exists>d < r. js_digit_char (n mod r) = js_digit_char d" by blast
  with 1 show ?case
    by (auto simp: js_to_string.simps [of r n] split: if_splits)
qed

lemma hd_js_to_string:
  "2 \<le> r \<Longrightarrow> 0 < n \<Longrightarrow> \<exists>d. 0 < d \<and> d < r \<and> hd (js_to_string r n) = js_digit_char d"
proof (induction r n rule: js_to_string.induct)
  case (1 r n)
  show ?case
  proof (cases "n < r")
    case True
    with 1 show ?thesis by (auto simp: js_to_string.simps [of r n])
  next
    case False
    moreover have "0 < n div r"
      using 1 False by (simp add: div_greater_zero_iff)
    ultimately show ?thesis
      using 1 by (auto simp: js_to_string.simps [of r n])
  qed
qed

lemma length_js_to_string:
  "2 \<le> r \<Longrightarrow> n < r ^ k \<Longrightarrow> 0 < k \<Longrightarrow> length (js_to_string r n) \<le> k"
proof (induction r n arbitrary: k rule: js_to_string.induct)
  case (1 r n)
  show ?case
  proof (cases "n < r")
    case True
    with 1 show ?thesis by (simp add: js_to_string.simps [of r n])
  next
    case False
    with 1 obtain j where k: "k = Suc j" "0 < j"
      by (cases k; cases "k - 1") auto
    have "n div r < r ^ j"
      using 1 k by (simp add: less_mult_imp_div_less mult.commute)
    with 1 False k have "length (js_to_string r (n div r)) \<le> j" by simp
    with 1 False k show ?thesis by (simp add: js_to_string.simps [of r n])
  qed
qed

end
