(* ===== verification/Url.thy ===== *)
theory Url
  imports JsString
begin

text \<open>
  The URL of a bookmark: \<open>packages/core/src/bookmarks/url.ts\<close>. The WHATWG parser behind
  \<open>URL.canParse\<close> and \<open>new URL\<close> belongs to the platform and is a parameter of the model: a
  function that answers the components of a URL, or nothing where the constructor would throw.
  \<open>decodeURIComponent\<close> answers code points, since a percent sequence may denote any of them.
\<close>

definition BOOKMARK_URL_MAX_LENGTH :: nat where
  "BOOKMARK_URL_MAX_LENGTH = 2048"

datatype url_refusal = UrlEmpty | UrlTooLong | UrlNotHttp | UrlMalformed

record bookmark_url =
  bu_url :: string
  bu_canonical :: string
  bu_host :: string

text \<open>The components of a parsed URL the code reads.\<close>

record whatwg_url =
  wu_protocol :: string
  wu_hostname :: string
  wu_host :: string
  wu_pathname :: string
  wu_search :: string
  wu_href :: string

type_synonym url_parser = "string \<Rightarrow> whatwg_url option"

section \<open>decodeURIComponent\<close>

text \<open>One \<open>%XX\<close> octet at the head of the string.\<close>

fun percent_octet :: "string \<Rightarrow> (nat \<times> string) option" where
  "percent_octet (p # h # l # rest) =
     (if p = CHR ''%'' \<and> js_hex_digit h \<and> js_hex_digit l then Some (js_parse_digits 16 [h, l], rest) else None)"
| "percent_octet _ = None"

text \<open>\<open>n\<close> continuation octets (\<open>10xxxxxx\<close>), accumulated onto the bits read so far.\<close>

fun continuation :: "nat \<Rightarrow> nat \<Rightarrow> string \<Rightarrow> (nat \<times> string) option" where
  "continuation 0 acc s = Some (acc, s)"
| "continuation (Suc n) acc s =
     (case percent_octet s of
        Some (b, rest) \<Rightarrow> if 128 \<le> b \<and> b < 192 then continuation n (acc * 64 + (b - 128)) rest else None
      | None \<Rightarrow> None)"

text \<open>The code point one percent-encoded UTF-8 sequence denotes: shortest form, no surrogate, at most \<open>U+10FFFF\<close>.\<close>

definition percent_point :: "string \<Rightarrow> (nat \<times> string) option" where
  "percent_point s =
     (case percent_octet s of
        None \<Rightarrow> None
      | Some (b, rest) \<Rightarrow>
          if b < 128 then Some (b, rest)
          else
            (let (n, lead, least) =
               (if 192 \<le> b \<and> b < 224 then (1, b - 192, 0x80)
                else if 224 \<le> b \<and> b < 240 then (2, b - 224, 0x800)
                else if 240 \<le> b \<and> b < 248 then (3, b - 240, 0x10000)
                else (0, 0, 0))
             in if n = 0 then None
                else case continuation n lead rest of
                  None \<Rightarrow> None
                | Some (v, rest') \<Rightarrow>
                    if least \<le> v \<and> v \<le> 0x10ffff \<and> \<not> (0xd800 \<le> v \<and> v \<le> 0xdfff) then Some (v, rest') else None))"

lemma percent_octet_shorter: "percent_octet s = Some (b, rest) \<Longrightarrow> length rest < length s"
  by (cases s rule: percent_octet.cases) (auto split: if_splits)

lemma continuation_shorter: "continuation n acc s = Some (v, rest) \<Longrightarrow> length rest \<le> length s"
  by (induction n acc s rule: continuation.induct)
     (force split: option.splits if_splits prod.splits dest: percent_octet_shorter)+

lemma percent_point_shorter: "percent_point s = Some (v, rest) \<Longrightarrow> length rest < length s"
  by (auto simp: percent_point_def Let_def split: option.splits if_splits prod.splits
      dest!: percent_octet_shorter continuation_shorter)

function decodeURIComponent :: "string \<Rightarrow> nat list option" where
  "decodeURIComponent [] = Some []"
| "decodeURIComponent (c # cs) =
     (if c \<noteq> CHR ''%'' then map_option (\<lambda>ps. code_unit c # ps) (decodeURIComponent cs)
      else case percent_point (c # cs) of
        None \<Rightarrow> None
      | Some (v, rest) \<Rightarrow> map_option (\<lambda>ps. v # ps) (decodeURIComponent rest))"
  by pat_completeness auto
termination
  by (relation "measure length") (auto dest: percent_point_shorter)

section \<open>The canonical query\<close>

text \<open>\<open>a.split("=")\<close> with the name first and the rest joined again; a pair without \<open>=\<close> has an empty value.\<close>

definition pair_name :: "string \<Rightarrow> string" where
  "pair_name pair = hd (js_split ''='' pair)"

definition pair_value :: "string \<Rightarrow> string" where
  "pair_value pair = js_join ''='' (tl (js_split ''='' pair))"

definition parameterName :: "string \<Rightarrow> nat list" where
  "parameterName pair =
     (let raw = pair_name pair
      in case decodeURIComponent (map (\<lambda>c. if c = CHR ''+'' then CHR '' '' else c) raw) of
           Some name \<Rightarrow> name
         | None \<Rightarrow> map code_unit raw)"

definition ascii_lower_point :: "nat \<Rightarrow> nat" where
  "ascii_lower_point p = (if 65 \<le> p \<and> p \<le> 90 then p + 32 else p)"

definition line_terminator :: "nat \<Rightarrow> bool" where
  "line_terminator p \<longleftrightarrow> p = 10 \<or> p = 13 \<or> p = 0x2028 \<or> p = 0x2029"

text \<open>The pattern \<open>/^(?:utm_.*|fbclid|gclid)$/i\<close>.\<close>

definition tracking_parameter :: "nat list \<Rightarrow> bool" where
  "tracking_parameter name \<longleftrightarrow>
     (let n = map ascii_lower_point name
      in (prefix (map code_unit ''utm_'') n \<and> list_all (\<lambda>p. \<not> line_terminator p) (drop 4 n)) \<or>
         n = map code_unit ''fbclid'' \<or> n = map code_unit ''gclid'')"

definition compareCodeUnits :: "string \<Rightarrow> string \<Rightarrow> int" where
  "compareCodeUnits a b = (if a < b then -1 else if b < a then 1 else 0)"

definition compare_pairs :: "string \<Rightarrow> string \<Rightarrow> int" where
  "compare_pairs a b =
     (let names = compareCodeUnits (pair_name a) (pair_name b)
      in if names \<noteq> 0 then names else compareCodeUnits (pair_value a) (pair_value b))"

definition kept_pairs :: "string \<Rightarrow> string list" where
  "kept_pairs search =
     filter (\<lambda>pair. pair \<noteq> [] \<and> \<not> tracking_parameter (parameterName pair)) (js_split ''&'' (drop 1 search))"

definition canonicalQuery :: "string \<Rightarrow> string" where
  "canonicalQuery search =
     (let pairs = js_sort compare_pairs (kept_pairs search)
      in if pairs = [] then [] else ''?'' @ js_join ''&'' pairs)"

section \<open>Normalisation\<close>

definition edge_whitespace :: "char \<Rightarrow> bool" where
  "edge_whitespace c \<longleftrightarrow> code_unit c \<in> {9, 10, 12, 13, 32}"

text \<open>The two scans of the code, from the start and then from the end.\<close>

definition trimEdgeWhitespace :: "string \<Rightarrow> string" where
  "trimEdgeWhitespace value = rev (dropWhile edge_whitespace (rev (dropWhile edge_whitespace value)))"

text \<open>The patterns \<open>/^https?:\/\//i\<close> and \<open>/[\u0000-\u001f\u007f]/\<close>.\<close>

definition http_prefix :: "string \<Rightarrow> bool" where
  "http_prefix s \<longleftrightarrow> prefix ''http://'' (js_lower s) \<or> prefix ''https://'' (js_lower s)"

definition control_character :: "char \<Rightarrow> bool" where
  "control_character c \<longleftrightarrow> code_unit c < 32 \<or> code_unit c = 127"

definition strip_slashes :: "string \<Rightarrow> string" where
  "strip_slashes path = rev (dropWhile (\<lambda>c. c = CHR ''/'') (rev path))"

definition normalizeBookmarkUrl :: "url_parser \<Rightarrow> string \<Rightarrow> url_refusal + bookmark_url" where
  "normalizeBookmarkUrl parse input =
     (let given = trimEdgeWhitespace input
      in if given = [] then Inl UrlEmpty
         else if \<not> http_prefix given then Inl UrlNotHttp
         else if length given > BOOKMARK_URL_MAX_LENGTH then Inl UrlTooLong
         else if list_ex control_character given then Inl UrlMalformed
         else case parse given of
           None \<Rightarrow> Inl UrlMalformed
         | Some parsed \<Rightarrow>
             if (wu_protocol parsed \<noteq> ''http:'' \<and> wu_protocol parsed \<noteq> ''https:'') \<or> wu_hostname parsed = []
             then Inl UrlMalformed
             else if length (wu_href parsed) > BOOKMARK_URL_MAX_LENGTH then Inl UrlTooLong
             else Inr \<lparr>bu_url = wu_href parsed,
                       bu_canonical = wu_protocol parsed @ ''//'' @ wu_host parsed @ strip_slashes (wu_pathname parsed) @
                                      canonicalQuery (wu_search parsed),
                       bu_host = wu_hostname parsed\<rparr>)"

text \<open>
  What the WHATWG standard says of the parser: the serialisation of a parsed \<open>http\<close> or \<open>https\<close> URL begins with
  its scheme and two slashes, holds no control character and no space, and parses to the same URL again.
\<close>

definition whatwg_parser :: "url_parser \<Rightarrow> bool" where
  "whatwg_parser parse \<longleftrightarrow>
     (\<forall>input u. parse input = Some u \<longrightarrow> wu_protocol u = ''http:'' \<or> wu_protocol u = ''https:'' \<longrightarrow>
        prefix (wu_protocol u @ ''//'') (wu_href u) \<and>
        list_all (\<lambda>c. 32 < code_unit c \<and> code_unit c \<noteq> 127) (wu_href u) \<and> parse (wu_href u) = Some u)"

section \<open>Facts\<close>

lemma normalize_okD:
  "normalizeBookmarkUrl parse input = Inr v \<Longrightarrow>
     \<exists>u. parse (trimEdgeWhitespace input) = Some u \<and> (wu_protocol u = ''http:'' \<or> wu_protocol u = ''https:'') \<and>
         wu_hostname u \<noteq> [] \<and> bu_url v = wu_href u \<and> length (bu_url v) \<le> BOOKMARK_URL_MAX_LENGTH \<and>
         v = \<lparr>bu_url = wu_href u,
              bu_canonical = wu_protocol u @ ''//'' @ wu_host u @ strip_slashes (wu_pathname u) @ canonicalQuery (wu_search u),
              bu_host = wu_hostname u\<rparr>"
  by (auto simp: normalizeBookmarkUrl_def Let_def split: if_splits option.splits)

lemma trimEdge_id:
  assumes "list_all (\<lambda>c. \<not> edge_whitespace c) s"
  shows "trimEdgeWhitespace s = s"
proof -
  have 1: "dropWhile edge_whitespace s = s"
    using assms by (cases s) simp_all
  have 2: "dropWhile edge_whitespace (rev s) = rev s"
    using assms by (cases s rule: rev_cases) simp_all
  show ?thesis by (simp add: trimEdgeWhitespace_def 1 2)
qed

lemma http_prefix_protocol:
  "prefix (p @ ''//'') s \<Longrightarrow> p = ''http:'' \<or> p = ''https:'' \<Longrightarrow> http_prefix s"
  by (auto simp: http_prefix_def prefix_def js_lower_def js_lower_char_def code_unit_def)

text \<open>
  With a parser that behaves as the standard says, a URL the module accepts is an \<open>http\<close> or \<open>https\<close>
  address of at most 2048 characters with no control character, whatever the input was.
\<close>

theorem normalized_url_is_http:
  assumes "whatwg_parser parse" "normalizeBookmarkUrl parse input = Inr v"
  shows "http_prefix (bu_url v) \<and> length (bu_url v) \<le> 2048 \<and> \<not> list_ex control_character (bu_url v) \<and> bu_host v \<noteq> []"
proof -
  obtain u where u: "parse (trimEdgeWhitespace input) = Some u" "wu_protocol u = ''http:'' \<or> wu_protocol u = ''https:''"
      "wu_hostname u \<noteq> []" "bu_url v = wu_href u" "length (bu_url v) \<le> BOOKMARK_URL_MAX_LENGTH" "bu_host v = wu_hostname u"
    using normalize_okD [OF assms(2)] by auto
  then have href: "prefix (wu_protocol u @ ''//'') (wu_href u)"
      "list_all (\<lambda>c. 32 < code_unit c \<and> code_unit c \<noteq> 127) (wu_href u)"
    using assms(1) unfolding whatwg_parser_def by blast+
  then show ?thesis
    using u http_prefix_protocol [OF href(1)]
    by (auto simp: BOOKMARK_URL_MAX_LENGTH_def list_ex_iff list_all_iff control_character_def)
qed

text \<open>Claim C27: normalising a stored URL again gives the same URL, canonical form and host.\<close>

theorem normalize_idempotent:
  assumes "whatwg_parser parse" "normalizeBookmarkUrl parse input = Inr v"
  shows "normalizeBookmarkUrl parse (bu_url v) = Inr v"
proof -
  obtain u where u: "parse (trimEdgeWhitespace input) = Some u" "wu_protocol u = ''http:'' \<or> wu_protocol u = ''https:''"
      "wu_hostname u \<noteq> []" "bu_url v = wu_href u" "length (bu_url v) \<le> BOOKMARK_URL_MAX_LENGTH"
      "v = \<lparr>bu_url = wu_href u,
            bu_canonical = wu_protocol u @ ''//'' @ wu_host u @ strip_slashes (wu_pathname u) @ canonicalQuery (wu_search u),
            bu_host = wu_hostname u\<rparr>"
    using normalize_okD [OF assms(2)] by blast
  then have href: "prefix (wu_protocol u @ ''//'') (wu_href u)"
      "list_all (\<lambda>c. 32 < code_unit c \<and> code_unit c \<noteq> 127) (wu_href u)" "parse (wu_href u) = Some u"
    using assms(1) unfolding whatwg_parser_def by blast+
  have trim: "trimEdgeWhitespace (wu_href u) = wu_href u"
    by (rule trimEdge_id) (use href(2) in \<open>auto simp: list_all_iff edge_whitespace_def\<close>)
  have ctl: "\<not> list_ex control_character (wu_href u)"
    using href(2) by (auto simp: list_ex_iff list_all_iff control_character_def)
  have "http_prefix (wu_href u)" "wu_href u \<noteq> []"
    using http_prefix_protocol [OF href(1) u(2)] href(1) by (auto simp: prefix_def)
  with u href trim ctl show ?thesis
    by (auto simp: normalizeBookmarkUrl_def Let_def)
qed

section \<open>The canonical query is a set of pairs\<close>

lemma compareCodeUnits_le: "compareCodeUnits a b \<le> 0 \<longleftrightarrow> a \<le> b"
  by (auto simp: compareCodeUnits_def)

lemma compareCodeUnits_0: "compareCodeUnits a b = 0 \<longleftrightarrow> a = b"
  by (auto simp: compareCodeUnits_def)

definition pair_key :: "string \<Rightarrow> string \<times> string" where
  "pair_key p = (pair_name p, pair_value p)"

lemma compare_pairs_le: "compare_pairs a b \<le> 0 \<longleftrightarrow> pair_key a \<le> pair_key b"
  by (auto simp: compare_pairs_def pair_key_def Let_def compareCodeUnits_def)

lemma compare_pairs_consistent: "consistent_cmp compare_pairs"
  unfolding consistent_cmp_def compare_pairs_le by (auto intro: linear order_trans)

lemma kept_pairs_pieces: "p \<in> set (kept_pairs search) \<Longrightarrow> CHR ''&'' \<notin> set p \<and> p \<noteq> []"
  by (auto simp: kept_pairs_def dest: js_split_pieces)

lemma kept_pairs_canonical:
  "kept_pairs (canonicalQuery search) = js_sort compare_pairs (kept_pairs search)"
proof (cases "kept_pairs search = []")
  case True
  then show ?thesis by (simp add: canonicalQuery_def kept_pairs_def js_split_def)
next
  case False
  let ?pairs = "js_sort compare_pairs (kept_pairs search)"
  have "js_split ''&'' (js_join ''&'' ?pairs) = ?pairs"
    using False kept_pairs_pieces by (intro js_split_join) auto
  moreover have "filter (\<lambda>pair. pair \<noteq> [] \<and> \<not> tracking_parameter (parameterName pair)) ?pairs = ?pairs"
    by (rule filter_True) (auto simp: kept_pairs_def)
  ultimately show ?thesis
    using False by (simp add: canonicalQuery_def kept_pairs_def Let_def)
qed

text \<open>
  The canonical query is a normal form: computing it again changes nothing, and two queries with the same
  non-tracking parameters in any order have the same one, provided no two different parameters share name and value.
\<close>

theorem canonical_query_normal_form:
  "canonicalQuery (canonicalQuery a) = canonicalQuery a \<and>
   (mset (kept_pairs a) = mset (kept_pairs b) \<longrightarrow> inj_on pair_key (set (kept_pairs a)) \<longrightarrow>
    canonicalQuery a = canonicalQuery b)"
proof (intro conjI impI)
  show "canonicalQuery (canonicalQuery a) = canonicalQuery a"
    by (simp add: canonicalQuery_def [of "canonicalQuery a"] kept_pairs_canonical Let_def
        js_sort_sorted sorted_js_sort compare_pairs_consistent)
       (simp add: canonicalQuery_def Let_def)
next
  assume "mset (kept_pairs a) = mset (kept_pairs b)" "inj_on pair_key (set (kept_pairs a))"
  then have "js_sort compare_pairs (kept_pairs a) = js_sort compare_pairs (kept_pairs b)"
    by (intro js_sort_mset_cong) (auto simp: compare_pairs_consistent compare_pairs_le dest: inj_onD)
  then show "canonicalQuery a = canonicalQuery b"
    by (simp add: canonicalQuery_def)
qed

theorem canonical_query_normal_form_witness:
  "canonicalQuery ''?b=2&utm_source=x&a=1'' = canonicalQuery ''?a=1&b=2&fbclid=9''"
proof -
  have "mset (kept_pairs ''?b=2&utm_source=x&a=1'') = mset (kept_pairs ''?a=1&b=2&fbclid=9'')"
    "inj_on pair_key (set (kept_pairs ''?b=2&utm_source=x&a=1''))"
    by code_simp+
  then show ?thesis using canonical_query_normal_form by blast
qed

definition example_url :: whatwg_url where
  "example_url = \<lparr>wu_protocol = ''https:'', wu_hostname = ''a.example'', wu_host = ''a.example'',
     wu_pathname = ''/x/'', wu_search = [], wu_href = ''https://a.example/x/''\<rparr>"

definition example_parser :: url_parser where
  "example_parser s = (if s = ''https://a.example/x/'' then Some example_url else None)"

lemma example_parser_ok: "whatwg_parser example_parser"
  by (auto simp: whatwg_parser_def example_parser_def example_url_def code_unit_def)

lemma example_normalizes:
  "normalizeBookmarkUrl example_parser '' https://a.example/x/ '' =
     Inr \<lparr>bu_url = ''https://a.example/x/'', bu_canonical = ''https://a.example/x'', bu_host = ''a.example''\<rparr>"
  by code_simp

theorem normalized_url_is_http_witness: "http_prefix ''https://a.example/x/''"
  using normalized_url_is_http [OF example_parser_ok example_normalizes] by simp

theorem normalize_idempotent_witness:
  "normalizeBookmarkUrl example_parser ''https://a.example/x/'' =
     Inr \<lparr>bu_url = ''https://a.example/x/'', bu_canonical = ''https://a.example/x'', bu_host = ''a.example''\<rparr>"
  using normalize_idempotent [OF example_parser_ok example_normalizes] by simp

end
