(* ===== verification/Tables.thy ===== *)
theory Tables
  imports JsString
begin

text \<open>
  The tables of the database the modelled services work on (\<open>packages/db/src/schema/\<close>) and the
  tenant transaction (\<open>packages/db/src/tenant.ts\<close>). A table is the list of its rows; a nullable
  column is an option. An identifier is a UUID: the database holds it in lower case, and a
  parameter cast with \<open>::uuid\<close> is compared in that form (\<open>uuid_cast\<close>). The columns no modelled
  operation reads or writes (search vectors, departure marks, update times) are left out.
\<close>

record bookmark_row =
  bm_id :: string
  bm_workspace_id :: string
  bm_owner_id :: "string option"
  bm_url :: string
  bm_url_canonical :: string
  bm_host :: string
  bm_title :: string
  bm_description :: "string option"
  bm_slug :: "string option"
  bm_forwarding :: bool
  bm_pinned_at :: "nat option"
  bm_plan_archived_at :: "nat option"
  bm_open_count :: nat
  bm_last_opened_at :: "nat option"
  bm_version :: nat
  bm_created_at :: nat

record bookmark_share_row =
  bs_id :: string
  bs_workspace_id :: string
  bs_bookmark_id :: string
  bs_target_account_id :: "string option"
  bs_target_team_id :: "string option"
  bs_granted_by :: "string option"
  bs_created_at :: nat

record folder_share_row =
  fs_id :: string
  fs_workspace_id :: string
  fs_folder_id :: string
  fs_target_account_id :: "string option"
  fs_target_team_id :: "string option"
  fs_granted_by :: "string option"
  fs_created_at :: nat

record folder_bookmark_row =
  fb_workspace_id :: string
  fb_folder_id :: string
  fb_bookmark_id :: string

record team_member_row =
  tm_workspace_id :: string
  tm_team_id :: string
  tm_account_id :: string

record slug_preference_row =
  sp_workspace_id :: string
  sp_account_id :: string
  sp_slug :: string
  sp_bookmark_id :: string

record account_row =
  ac_id :: string
  ac_display_name :: string
  ac_email :: string

record workspace_row =
  ws_id :: string
  ws_name :: string
  ws_entitlement_version :: nat
  ws_bookmark_count :: nat
  ws_deleting_at :: "nat option"

datatype member_role = RoleOwner | RoleAdmin | RoleMember

record workspace_member_row =
  wm_workspace_id :: string
  wm_account_id :: string
  wm_role :: member_role

record tables =
  bookmarks :: "bookmark_row list"
  bookmark_shares :: "bookmark_share_row list"
  folder_shares :: "folder_share_row list"
  folder_bookmarks :: "folder_bookmark_row list"
  team_members :: "team_member_row list"
  slug_preferences :: "slug_preference_row list"
  accounts :: "account_row list"
  workspaces :: "workspace_row list"
  workspace_members :: "workspace_member_row list"

section \<open>The tenant transaction\<close>

record tenant_tx =
  tx_accountId :: string
  tx_workspaceId :: "string option"

definition hex_run :: "nat \<Rightarrow> string \<Rightarrow> bool" where
  "hex_run n s \<longleftrightarrow> length s = n \<and> list_all js_hex_digit s"

text \<open>The pattern \<open>/^[0-9a-f]{8}-[0-9a-f]{4}-[0-9a-f]{4}-[0-9a-f]{4}-[0-9a-f]{12}$/i\<close>.\<close>

definition uuid_pattern :: "string \<Rightarrow> bool" where
  "uuid_pattern s \<longleftrightarrow>
     (case js_split ''-'' s of
        [a, b, c, d, e] \<Rightarrow> hex_run 8 a \<and> hex_run 4 b \<and> hex_run 4 c \<and> hex_run 4 d \<and> hex_run 12 e
      | _ \<Rightarrow> False)"

definition uuid_cast :: "string \<Rightarrow> string" where
  "uuid_cast s = js_lower s"

definition requireIdentifiers :: "string list \<Rightarrow> string \<Rightarrow> ('s, unit) tx" where
  "requireIdentifiers ids action =
     tx_require (list_all uuid_pattern ids) (JsError (action @ '' takes identifiers only''))"

definition requireWorkspace :: "tenant_tx \<Rightarrow> string \<Rightarrow> ('s, string) tx" where
  "requireWorkspace tx action =
     (case tx_workspaceId tx of
        None \<Rightarrow> tx_throw (TenantContextError ''workspace_required'')
      | Some w \<Rightarrow> tx_return w)"

definition requireAccount :: "tenant_tx \<Rightarrow> string \<Rightarrow> string \<Rightarrow> ('s, unit) tx" where
  "requireAccount tx accountId action =
     tx_require (js_lower accountId = js_lower (tx_accountId tx))
       (JsError (''only the account of the transaction '' @ action @ '' for itself''))"

lemma uuid_cast_idem [simp]: "uuid_cast (uuid_cast s) = uuid_cast s"
  by (simp add: uuid_cast_def)

lemma uuid_cast_lower [simp]: "uuid_cast (js_lower s) = uuid_cast s"
  by (simp add: uuid_cast_def)

lemma requireIdentifiers_Inr [simp]:
  "requireIdentifiers ids action s = Inr r \<longleftrightarrow> list_all uuid_pattern ids \<and> r = ((), s)"
  by (simp add: requireIdentifiers_def)

lemma requireWorkspace_Inr [simp]:
  "requireWorkspace tx action s = Inr r \<longleftrightarrow> (\<exists>w. tx_workspaceId tx = Some w \<and> r = (w, s))"
  by (auto simp: requireWorkspace_def split: option.splits)

lemma requireAccount_Inr [simp]:
  "requireAccount tx a action s = Inr r \<longleftrightarrow> js_lower a = js_lower (tx_accountId tx) \<and> r = ((), s)"
  by (simp add: requireAccount_def)

section \<open>Keys\<close>

text \<open>The primary and unique keys of the tables the properties below rely on.\<close>

definition preference_key :: "slug_preference_row \<Rightarrow> string \<times> string \<times> string" where
  "preference_key p = (sp_workspace_id p, sp_account_id p, sp_slug p)"

definition keys_ok :: "tables \<Rightarrow> bool" where
  "keys_ok db \<longleftrightarrow> distinct (map bm_id (bookmarks db)) \<and> distinct (map preference_key (slug_preferences db)) \<and>
     distinct (map ac_id (accounts db))"

lemma distinct_key_eq: "distinct (map f xs) \<Longrightarrow> x \<in> set xs \<Longrightarrow> y \<in> set xs \<Longrightarrow> f x = f y \<Longrightarrow> x = y"
  by (auto simp: distinct_map inj_on_def)

text \<open>\<open>bookmarks_owner_slug_key\<close>: an owner has a slug on one bookmark of a workspace, ownerless bookmarks counting as one owner.\<close>

definition owner_slug_key_ok :: "tables \<Rightarrow> bool" where
  "owner_slug_key_ok db \<longleftrightarrow>
     (\<forall>b \<in> set (bookmarks db). \<forall>c \<in> set (bookmarks db).
        bm_workspace_id b = bm_workspace_id c \<longrightarrow> bm_owner_id b = bm_owner_id c \<longrightarrow>
        bm_slug b \<noteq> None \<longrightarrow> bm_slug b = bm_slug c \<longrightarrow> bm_id b = bm_id c)"

end
