(* ===== verification/Access.thy ===== *)
theory Access
  imports Tables
begin

text \<open>
  Who can read a bookmark: \<open>packages/db/src/repositories/bookmark-access.ts\<close>. The rule is stated
  once in TypeScript (\<open>bookmarkReadableBy\<close>) and again in SQL by the operations that run as
  \<open>slugbase_system\<close> (\<open>src/sql/580\<close>, \<open>600\<close> and \<open>670\<close>), which are to agree with it.
\<close>

datatype go_access = AccOwner | AccDirect | AccTeam | AccFolder

text \<open>The teams the account is in: the subquery \<open>teamsOfAccount\<close>.\<close>

definition teamsOfAccount :: "tables \<Rightarrow> string \<Rightarrow> string \<Rightarrow> string list" where
  "teamsOfAccount db workspaceId accountId =
     map tm_team_id (filter (\<lambda>m. tm_workspace_id m = workspaceId \<and> tm_account_id m = accountId) (team_members db))"

text \<open>A nullable column compared with \<open>IN\<close>: a null is in no list.\<close>

definition sql_in :: "string option \<Rightarrow> string list \<Rightarrow> bool" where
  "sql_in x xs = (case x of None \<Rightarrow> False | Some y \<Rightarrow> y \<in> set xs)"

text \<open>\<open>folder_shares fs JOIN folder_bookmarks fb\<close> on the folder, for the shares a condition picks.\<close>

definition filed_in_shared :: "tables \<Rightarrow> string \<Rightarrow> (folder_share_row \<Rightarrow> bool) \<Rightarrow> string list" where
  "filed_in_shared db workspaceId picked =
     concat (map (\<lambda>fs.
       map fb_bookmark_id
         (filter (\<lambda>fb. fb_workspace_id fb = fs_workspace_id fs \<and> fb_folder_id fb = fs_folder_id fs) (folder_bookmarks db)))
       (filter (\<lambda>fs. fs_workspace_id fs = workspaceId \<and> picked fs) (folder_shares db)))"

text \<open>The rows \<open>(bookmark_id, via)\<close> of the four \<open>UNION ALL\<close> legs.\<close>

definition grantsTo :: "tables \<Rightarrow> string \<Rightarrow> string \<Rightarrow> (string \<times> go_access) list" where
  "grantsTo db accountId workspaceId =
     (let teams = teamsOfAccount db workspaceId accountId
      in map (\<lambda>s. (bs_bookmark_id s, AccDirect))
           (filter (\<lambda>s. bs_workspace_id s = workspaceId \<and> bs_target_account_id s = Some accountId) (bookmark_shares db)) @
         map (\<lambda>s. (bs_bookmark_id s, AccTeam))
           (filter (\<lambda>s. bs_workspace_id s = workspaceId \<and> sql_in (bs_target_team_id s) teams) (bookmark_shares db)) @
         map (\<lambda>b. (b, AccFolder)) (filed_in_shared db workspaceId (\<lambda>fs. fs_target_account_id fs = Some accountId)) @
         map (\<lambda>b. (b, AccFolder)) (filed_in_shared db workspaceId (\<lambda>fs. sql_in (fs_target_team_id fs) teams)))"

definition bookmarkReadableBy :: "tables \<Rightarrow> string \<Rightarrow> bookmark_row \<Rightarrow> bool" where
  "bookmarkReadableBy db accountId row \<longleftrightarrow>
     bm_owner_id row = Some accountId \<or>
     list_ex (\<lambda>g. fst g = bm_id row) (grantsTo db accountId (bm_workspace_id row))"

text \<open>\<open>ORDER BY CASE via WHEN 'direct' THEN 0 WHEN 'team' THEN 1 ELSE 2 END LIMIT 1\<close>.\<close>

fun via_rank :: "go_access \<Rightarrow> nat" where
  "via_rank AccDirect = 0"
| "via_rank AccTeam = 1"
| "via_rank _ = 2"

definition first_via :: "(string \<times> go_access) list \<Rightarrow> string \<Rightarrow> go_access option" where
  "first_via grants bookmarkId =
     (case sort_key via_rank (map snd (filter (\<lambda>g. fst g = bookmarkId) grants)) of
        [] \<Rightarrow> None | v # _ \<Rightarrow> Some v)"

definition bookmarkAccessOf :: "tables \<Rightarrow> string \<Rightarrow> bookmark_row \<Rightarrow> go_access option" where
  "bookmarkAccessOf db accountId row =
     (if bm_owner_id row = Some accountId then Some AccOwner
      else first_via (grantsTo db accountId (bm_workspace_id row)) (bm_id row))"

section \<open>The rule as a predicate\<close>

text \<open>The relation doc and code mean: the ways a bookmark is shared with an account.\<close>

definition member_of_team :: "tables \<Rightarrow> string \<Rightarrow> string \<Rightarrow> string \<Rightarrow> bool" where
  "member_of_team db workspaceId accountId teamId \<longleftrightarrow>
     (\<exists>m \<in> set (team_members db). tm_workspace_id m = workspaceId \<and> tm_account_id m = accountId \<and> tm_team_id m = teamId)"

definition targets :: "tables \<Rightarrow> string \<Rightarrow> string \<Rightarrow> string option \<Rightarrow> string option \<Rightarrow> bool" where
  "targets db workspaceId accountId targetAccount targetTeam \<longleftrightarrow>
     targetAccount = Some accountId \<or>
     (case targetTeam of None \<Rightarrow> False | Some t \<Rightarrow> member_of_team db workspaceId accountId t)"

lemma targets_iff: "targets db w a targetAccount targetTeam \<longleftrightarrow>
    targetAccount = Some a \<or> (\<exists>t. targetTeam = Some t \<and> member_of_team db w a t)"
  by (simp add: targets_def split: option.split)

definition shared_directly :: "tables \<Rightarrow> string \<Rightarrow> bookmark_row \<Rightarrow> bool" where
  "shared_directly db accountId b \<longleftrightarrow>
     (\<exists>s \<in> set (bookmark_shares db). bs_workspace_id s = bm_workspace_id b \<and> bs_bookmark_id s = bm_id b \<and>
        targets db (bm_workspace_id b) accountId (bs_target_account_id s) (bs_target_team_id s))"

definition shared_by_folder :: "tables \<Rightarrow> string \<Rightarrow> bookmark_row \<Rightarrow> bool" where
  "shared_by_folder db accountId b \<longleftrightarrow>
     (\<exists>fs \<in> set (folder_shares db). \<exists>fb \<in> set (folder_bookmarks db).
        fs_workspace_id fs = bm_workspace_id b \<and> fb_workspace_id fb = bm_workspace_id b \<and>
        fb_folder_id fb = fs_folder_id fs \<and> fb_bookmark_id fb = bm_id b \<and>
        targets db (bm_workspace_id b) accountId (fs_target_account_id fs) (fs_target_team_id fs))"

definition may_read :: "tables \<Rightarrow> string \<Rightarrow> bookmark_row \<Rightarrow> bool" where
  "may_read db accountId b \<longleftrightarrow>
     bm_owner_id b = Some accountId \<or> shared_directly db accountId b \<or> shared_by_folder db accountId b"

lemma set_teamsOfAccount: "t \<in> set (teamsOfAccount db w a) \<longleftrightarrow> member_of_team db w a t"
  by (auto simp: teamsOfAccount_def member_of_team_def)

lemma sql_in_teams: "sql_in x (teamsOfAccount db w a) \<longleftrightarrow> (\<exists>t. x = Some t \<and> member_of_team db w a t)"
  by (auto simp: sql_in_def set_teamsOfAccount split: option.splits)

lemma set_filed_in_shared:
  "b \<in> set (filed_in_shared db w picked) \<longleftrightarrow>
     (\<exists>fs \<in> set (folder_shares db). \<exists>fb \<in> set (folder_bookmarks db).
        fs_workspace_id fs = w \<and> picked fs \<and> fb_workspace_id fb = w \<and> fb_folder_id fb = fs_folder_id fs \<and> fb_bookmark_id fb = b)"
  by (auto simp: filed_in_shared_def image_iff)

text \<open>What each leg of the union contributes.\<close>

fun granted_via :: "tables \<Rightarrow> string \<Rightarrow> string \<Rightarrow> string \<Rightarrow> go_access \<Rightarrow> bool" where
  "granted_via db a w b AccOwner = False"
| "granted_via db a w b AccDirect =
     (\<exists>s \<in> set (bookmark_shares db). bs_workspace_id s = w \<and> bs_bookmark_id s = b \<and> bs_target_account_id s = Some a)"
| "granted_via db a w b AccTeam =
     (\<exists>s \<in> set (bookmark_shares db). bs_workspace_id s = w \<and> bs_bookmark_id s = b \<and>
        (\<exists>t. bs_target_team_id s = Some t \<and> member_of_team db w a t))"
| "granted_via db a w b AccFolder =
     (\<exists>fs \<in> set (folder_shares db). \<exists>fb \<in> set (folder_bookmarks db).
        fs_workspace_id fs = w \<and> fb_workspace_id fb = w \<and> fb_folder_id fb = fs_folder_id fs \<and> fb_bookmark_id fb = b \<and>
        targets db w a (fs_target_account_id fs) (fs_target_team_id fs))"

lemma grantsTo_iff: "(b, v) \<in> set (grantsTo db a w) \<longleftrightarrow> granted_via db a w b v"
  by (cases v)
     (auto simp: grantsTo_def Let_def sql_in_teams set_filed_in_shared targets_iff image_iff)

lemma granted_iff:
  "(\<exists>v. granted_via db a (bm_workspace_id b) (bm_id b) v) \<longleftrightarrow> shared_directly db a b \<or> shared_by_folder db a b"
  (is "?l \<longleftrightarrow> ?r")
proof -
  let ?g = "granted_via db a (bm_workspace_id b) (bm_id b)"
  have "?l \<longleftrightarrow> ?g AccDirect \<or> ?g AccTeam \<or> ?g AccFolder"
    by (metis go_access.exhaust granted_via.simps(1))
  also have "\<dots> \<longleftrightarrow> ?r"
    by (auto simp: shared_directly_def shared_by_folder_def targets_iff)
  finally show ?thesis .
qed

lemma bookmarkReadableBy_iff: "bookmarkReadableBy db a b \<longleftrightarrow> may_read db a b"
proof -
  have "list_ex (\<lambda>g. fst g = bm_id b) (grantsTo db a (bm_workspace_id b)) \<longleftrightarrow>
      (\<exists>v. granted_via db a (bm_workspace_id b) (bm_id b) v)"
    by (auto simp: list_ex_iff simp flip: grantsTo_iff) force
  then show ?thesis
    by (simp add: bookmarkReadableBy_def may_read_def granted_iff)
qed

lemma first_via_SomeD: "first_via grants b = Some v \<Longrightarrow> (b, v) \<in> set grants"
proof -
  assume "first_via grants b = Some v"
  then obtain vs where "sort_key via_rank (map snd (filter (\<lambda>g. fst g = b) grants)) = v # vs"
    by (auto simp: first_via_def split: list.splits)
  then have "v \<in> set (sort_key via_rank (map snd (filter (\<lambda>g. fst g = b) grants)))"
    by simp
  then show ?thesis by (auto simp: image_iff)
qed

lemma first_via_least:
  "first_via grants b = Some v \<Longrightarrow> (b, v') \<in> set grants \<Longrightarrow> via_rank v \<le> via_rank v'"
proof -
  assume v: "first_via grants b = Some v" and v': "(b, v') \<in> set grants"
  let ?xs = "sort_key via_rank (map snd (filter (\<lambda>g. fst g = b) grants))"
  obtain vs where vs: "?xs = v # vs"
    using v by (auto simp: first_via_def split: list.splits)
  have "sorted (map via_rank ?xs)" by (rule sorted_sort_key)
  moreover have "v' \<in> set ?xs" using v' by force
  ultimately show ?thesis unfolding vs by auto
qed

lemma first_via_None: "first_via grants b = None \<longleftrightarrow> (\<forall>v. (b, v) \<notin> set grants)"
proof -
  have "first_via grants b = None \<longleftrightarrow> sort_key via_rank (map snd (filter (\<lambda>g. fst g = b) grants)) = []"
    by (auto simp: first_via_def simp del: sort_key_Nil_iff split: list.splits)
  also have "\<dots> \<longleftrightarrow> filter (\<lambda>g. fst g = b) grants = []"
    by simp
  finally show ?thesis by (auto simp: filter_empty_conv)
qed

text \<open>
  The access a readable bookmark is reported with is the owner's for an own bookmark and otherwise
  the strongest route that grants it (direct before team before folder); an unreadable bookmark has none.
\<close>

theorem bookmarkAccessOf_correct:
  "bookmarkAccessOf db a b =
     (if bm_owner_id b = Some a then Some AccOwner
      else if granted_via db a (bm_workspace_id b) (bm_id b) AccDirect then Some AccDirect
      else if granted_via db a (bm_workspace_id b) (bm_id b) AccTeam then Some AccTeam
      else if granted_via db a (bm_workspace_id b) (bm_id b) AccFolder then Some AccFolder
      else None)"
proof (cases "first_via (grantsTo db a (bm_workspace_id b)) (bm_id b)")
  case None
  then show ?thesis
    by (simp add: bookmarkAccessOf_def first_via_None grantsTo_iff del: granted_via.simps)
next
  case (Some v)
  have g: "granted_via db a (bm_workspace_id b) (bm_id b) v"
    using first_via_SomeD [OF Some] by (simp only: grantsTo_iff)
  have least: "granted_via db a (bm_workspace_id b) (bm_id b) v' \<Longrightarrow> via_rank v \<le> via_rank v'" for v'
    using first_via_least [OF Some] by (simp only: grantsTo_iff)
  show ?thesis
    using Some g least [of AccDirect] least [of AccTeam]
    by (cases v) (auto simp add: bookmarkAccessOf_def simp del: granted_via.simps(2-))
qed

lemma bookmarkAccessOf_None_iff: "bookmarkAccessOf db a b = None \<longleftrightarrow> \<not> may_read db a b"
proof -
  have "bookmarkAccessOf db a b = None \<longleftrightarrow>
      bm_owner_id b \<noteq> Some a \<and> \<not> (\<exists>v. granted_via db a (bm_workspace_id b) (bm_id b) v)"
    by (simp add: bookmarkAccessOf_def first_via_None grantsTo_iff del: granted_via.simps)
  then show ?thesis by (auto simp: granted_iff may_read_def)
qed

end
