(* ===== verification/Slug.thy ===== *)
theory Slug
  imports JsString
begin

text \<open>
  The slug rules of \<open>packages/core/src/go/slug.ts\<close>: a slug is trimmed and lower-cased wherever it
  enters and then held to the grammar of \<open>BOOKMARK_SLUG_PATTERN\<close> (1 to 64 lower-case letters,
  digits and hyphens, not starting with a hyphen).
\<close>

definition slug_first_char :: "char \<Rightarrow> bool" where
  "slug_first_char c \<longleftrightarrow> js_ascii_lower c \<or> js_digit c"

definition slug_char :: "char \<Rightarrow> bool" where
  "slug_char c \<longleftrightarrow> slug_first_char c \<or> c = CHR ''-''"

text \<open>The pattern \<open>/^[a-z0-9][a-z0-9-]{0,63}$/\<close>.\<close>

definition bookmark_slug_pattern :: "string \<Rightarrow> bool" where
  "bookmark_slug_pattern s =
     (case s of [] \<Rightarrow> False | c # cs \<Rightarrow> slug_first_char c \<and> list_all slug_char cs \<and> length cs \<le> 63)"

definition normalizeSlug :: "string \<Rightarrow> string" where
  "normalizeSlug input = js_lower (js_trim input)"

definition isValidSlug :: "string \<Rightarrow> bool" where
  "isValidSlug slug = bookmark_slug_pattern slug"

definition parseSlug :: "string \<Rightarrow> string option" where
  "parseSlug input =
     (let slug = normalizeSlug input in if isValidSlug slug then Some slug else None)"

lemma js_space_imp_not_slug_char: "js_space c \<Longrightarrow> \<not> slug_char c"
  by (auto simp: slug_char_def slug_first_char_def js_char_defs code_unit_def)

lemma slug_char_lower [simp]: "slug_char c \<Longrightarrow> js_lower_char c = c"
  by (auto simp: slug_char_def slug_first_char_def js_char_defs js_lower_char_def code_unit_def Let_def)

lemma slug_pattern_iff:
  "bookmark_slug_pattern s \<longleftrightarrow>
     s \<noteq> [] \<and> length s \<le> 64 \<and> (\<forall>c \<in> set s. slug_char c) \<and> hd s \<noteq> CHR ''-''"
  by (cases s)
     (auto simp: bookmark_slug_pattern_def list_all_iff slug_char_def slug_first_char_def js_char_defs code_unit_def)

lemma normalizeSlug_valid: "isValidSlug s \<Longrightarrow> normalizeSlug s = s"
proof -
  assume v: "isValidSlug s"
  then have chars: "\<forall>c \<in> set s. slug_char c" and ne: "s \<noteq> []"
    by (auto simp: isValidSlug_def slug_pattern_iff)
  then have "\<not> js_space (hd s)" "\<not> js_space (last s)"
    using js_space_imp_not_slug_char by (meson hd_in_set last_in_set)+
  then have "js_trim s = s"
    using ne by (simp add: js_trim_id no_edge_space_def)
  moreover have "js_lower s = s"
    using chars by (simp add: js_lower_def map_idI)
  ultimately show ?thesis
    by (simp add: normalizeSlug_def)
qed

lemma normalizeSlug_idem [simp]: "normalizeSlug (normalizeSlug s) = normalizeSlug s"
  by (simp add: normalizeSlug_def js_lower_trim)

lemma parseSlug_Some_iff: "parseSlug input = Some s \<longleftrightarrow> s = normalizeSlug input \<and> isValidSlug s"
  unfolding parseSlug_def Let_def by (metis option.distinct(1) option.inject)

lemma parseSlug_valid: "parseSlug input = Some s \<Longrightarrow> isValidSlug s"
  by (metis parseSlug_Some_iff)

lemma parseSlug_self [simp]: "parseSlug s = Some s \<longleftrightarrow> isValidSlug s"
  by (metis parseSlug_Some_iff normalizeSlug_valid)

lemma parseSlug_again: "parseSlug input = Some s \<Longrightarrow> parseSlug s = Some s"
  by (simp add: parseSlug_valid)

text \<open>Two spellings of a slug that differ in case or in the white space around them are one slug.\<close>

lemma parseSlug_spelling:
  "js_lower (js_trim a) = js_lower (js_trim b) \<Longrightarrow> parseSlug a = parseSlug b"
  by (simp add: parseSlug_def normalizeSlug_def)

end
