(* ===== verification/GoCore.thy ===== *)
theory GoCore
  imports Access Slug Url
begin

text \<open>
  The resolution of slugs: \<open>packages/core/src/go/\<close>. The services are written against a store
  (\<open>GoStore\<close>, \<open>GoPreferenceStore\<close>, \<open>GoSuggestStore\<close>, \<open>SlugAvailabilityStore\<close>), which is a record of
  transaction steps here; the locale \<open>go_store_laws\<close> states what the services rely on of it, and
  \<open>GoDb\<close> interprets it on the repository. \<open>localeCompare(\<dots>, "en")\<close> (the collation of the platform's
  ICU data) is the parameter \<open>localeCompare\<close>; the URL parser is the parameter of \<open>Url\<close>.
\<close>

section \<open>Data\<close>

record go_candidate =
  gc_id :: string
  gc_ownerId :: "string option"
  gc_url :: string
  gc_access :: go_access

record go_candidate_set =
  gcs_candidates :: "go_candidate list"
  gcs_preferredId :: "string option"

record go_bookmark_summary =
  gs_id :: string
  gs_title :: string
  gs_host :: string
  gs_ownerId :: "string option"
  gs_ownerName :: "string option"

record go_workspace =
  gw_id :: string
  gw_name :: string

record go_owner =
  go_accountId :: string
  go_displayName :: string

record go_choice =
  ch_id :: string
  ch_title :: string
  ch_host :: string
  ch_owner :: "go_owner option"
  ch_sharedVia :: "go_access option"

definition GO_OTHER_WORKSPACES_MAX :: nat where
  "GO_OTHER_WORKSPACES_MAX = 20"

record 's go_store =
  st_candidates :: "string \<Rightarrow> string \<Rightarrow> ('s, go_candidate_set) tx"
  st_summaries :: "string list \<Rightarrow> ('s, go_bookmark_summary list) tx"
  st_otherWorkspaces :: "string \<Rightarrow> string \<Rightarrow> ('s, go_workspace list) tx"
  st_remember :: "string \<Rightarrow> string \<Rightarrow> string \<Rightarrow> ('s, bool) tx"
  st_forgetStale :: "string \<Rightarrow> string \<Rightarrow> string \<Rightarrow> ('s, bool) tx"

datatype go_workspace_resolution =
    ResNone
  | ResPreferred go_choice
  | ResSingle go_choice
  | ResMultiple "go_choice list"

datatype go_resolution =
    GoNone "go_workspace list"
  | GoFound go_workspace_resolution

record go_ask =
  ask_accountId :: string
  ask_slug :: string

section \<open>resolve.ts\<close>

definition choiceOf :: "go_candidate \<Rightarrow> go_bookmark_summary \<Rightarrow> go_choice" where
  "choiceOf candidate summary =
     (let own = (gc_access candidate = AccOwner)
      in \<lparr>ch_id = gs_id summary, ch_title = gs_title summary, ch_host = gs_host summary,
          ch_owner = (if own then None
                      else case (gs_ownerId summary, gs_ownerName summary) of
                        (Some i, Some n) \<Rightarrow> Some \<lparr>go_accountId = i, go_displayName = n\<rparr>
                      | _ \<Rightarrow> None),
          ch_sharedVia = (if own then None else Some (gc_access candidate))\<rparr>)"

definition byTitle :: "(string \<Rightarrow> string \<Rightarrow> int) \<Rightarrow> go_choice \<Rightarrow> go_choice \<Rightarrow> int" where
  "byTitle localeCompare a b =
     (let titles = localeCompare (js_lower (ch_title a)) (js_lower (ch_title b))
      in if titles \<noteq> 0 then titles else localeCompare (ch_id a) (ch_id b))"

definition forgetUnlessCandidate :: "'s go_store \<Rightarrow> string \<Rightarrow> string \<Rightarrow> string option \<Rightarrow> ('s, unit) tx" where
  "forgetUnlessCandidate store slug accountId preferredId =
     (case preferredId of
        None \<Rightarrow> tx_return ()
      | Some p \<Rightarrow> tx_bind (st_forgetStale store slug p accountId) (\<lambda>_. tx_return ()))"

text \<open>The map from identifiers to summaries; of two with one identifier the later one stays.\<close>

definition summary_map :: "go_bookmark_summary list \<Rightarrow> string \<Rightarrow> go_bookmark_summary option" where
  "summary_map summaries = map_of (rev (map (\<lambda>s. (gs_id s, s)) summaries))"

definition choices_of :: "go_candidate list \<Rightarrow> go_bookmark_summary list \<Rightarrow> (go_candidate \<times> go_choice) list" where
  "choices_of candidates summaries =
     concat (map (\<lambda>candidate. case summary_map summaries (gc_id candidate) of
                    None \<Rightarrow> [] | Some summary \<Rightarrow> [(candidate, choiceOf candidate summary)]) candidates)"

definition pick_among ::
    "(string \<Rightarrow> string \<Rightarrow> int) \<Rightarrow> string \<Rightarrow> (go_candidate \<times> go_choice) list \<Rightarrow> go_workspace_resolution" where
  "pick_among localeCompare accountId choices =
     (case js_sort (\<lambda>a b. byTitle localeCompare (snd a) (snd b))
            (filter (\<lambda>(candidate, _). gc_access candidate = AccOwner \<and> gc_ownerId candidate = Some accountId) choices) of
        own # _ \<Rightarrow> ResSingle (snd own)
      | [] \<Rightarrow>
          (case map snd (filter (\<lambda>(candidate, _). gc_access candidate \<noteq> AccOwner) choices) of
             [] \<Rightarrow> ResNone
           | [only] \<Rightarrow> ResSingle only
           | shared \<Rightarrow> ResMultiple (js_sort (byTitle localeCompare) shared)))"

definition resolveInWorkspace ::
    "(string \<Rightarrow> string \<Rightarrow> int) \<Rightarrow> 's go_store \<Rightarrow> go_ask \<Rightarrow> ('s, go_workspace_resolution) tx" where
  "resolveInWorkspace localeCompare store ask =
     (let accountId = js_lower (ask_accountId ask)
      in case parseSlug (ask_slug ask) of
           None \<Rightarrow> tx_return ResNone
         | Some slug \<Rightarrow>
             tx_bind (st_candidates store slug accountId) (\<lambda>found.
               if gcs_candidates found = [] then
                 tx_bind (forgetUnlessCandidate store slug accountId (gcs_preferredId found)) (\<lambda>_. tx_return ResNone)
               else
                 tx_bind (st_summaries store (map gc_id (gcs_candidates found))) (\<lambda>summaries.
                   let choices = choices_of (gcs_candidates found) summaries
                   in case (case gcs_preferredId found of
                              None \<Rightarrow> None
                            | Some p \<Rightarrow> find (\<lambda>(_, choice). ch_id choice = p) choices) of
                        Some preferred \<Rightarrow> tx_return (ResPreferred (snd preferred))
                      | None \<Rightarrow>
                          tx_bind (forgetUnlessCandidate store slug accountId (gcs_preferredId found)) (\<lambda>_.
                            tx_return (pick_among localeCompare accountId choices)))))"

definition resolveSlug ::
    "(string \<Rightarrow> string \<Rightarrow> int) \<Rightarrow> 's go_store \<Rightarrow> go_ask \<Rightarrow> ('s, go_resolution) tx" where
  "resolveSlug localeCompare store ask =
     tx_bind (resolveInWorkspace localeCompare store ask) (\<lambda>resolution.
       if resolution \<noteq> ResNone then tx_return (GoFound resolution)
       else case parseSlug (ask_slug ask) of
         None \<Rightarrow> tx_return (GoNone [])
       | Some slug \<Rightarrow>
           tx_bind (st_otherWorkspaces store slug (js_lower (ask_accountId ask))) (\<lambda>otherWorkspaces.
             tx_return (GoNone (take GO_OTHER_WORKSPACES_MAX otherWorkspaces))))"

section \<open>choose.ts and navigate.ts\<close>

record go_choose_ask =
  cho_accountId :: string
  cho_slug :: string
  cho_bookmarkId :: string
  cho_remember :: bool

datatype go_choose_outcome = Chosen string | ChooseNotFound | ChooseUrlRefused

text \<open>\<open>usage.record\<close> is the step \<open>record_use\<close>.\<close>

definition chooseSlugBookmark ::
    "url_parser \<Rightarrow> 's go_store \<Rightarrow> (string \<Rightarrow> ('s, unit) tx) \<Rightarrow> go_choose_ask \<Rightarrow> ('s, go_choose_outcome) tx" where
  "chooseSlugBookmark parse store record_use ask =
     (let accountId = js_lower (cho_accountId ask); bookmarkId = js_lower (cho_bookmarkId ask)
      in case parseSlug (cho_slug ask) of
           None \<Rightarrow> tx_return ChooseNotFound
         | Some slug \<Rightarrow>
             tx_bind (st_candidates store slug accountId) (\<lambda>found.
               case find (\<lambda>candidate. gc_id candidate = bookmarkId) (gcs_candidates found) of
                 None \<Rightarrow> tx_return ChooseNotFound
               | Some chosen \<Rightarrow>
                   (case normalizeBookmarkUrl parse (gc_url chosen) of
                      Inl _ \<Rightarrow> tx_return ChooseUrlRefused
                    | Inr destination \<Rightarrow>
                        tx_bind (if cho_remember ask then st_remember store slug bookmarkId accountId else tx_return True) (\<lambda>kept.
                          if \<not> kept then tx_return ChooseNotFound
                          else tx_bind (record_use bookmarkId) (\<lambda>_. tx_return (Chosen (bu_url destination)))))))"

datatype go_navigation = Forward string | Choose | NavNotFound

definition navigateToSlug ::
    "(string \<Rightarrow> string \<Rightarrow> int) \<Rightarrow> url_parser \<Rightarrow> 's go_store \<Rightarrow> (string \<Rightarrow> ('s, unit) tx) \<Rightarrow> go_ask \<Rightarrow> ('s, go_navigation) tx" where
  "navigateToSlug localeCompare parse store record_use ask =
     (case parseSlug (ask_slug ask) of
        None \<Rightarrow> tx_return NavNotFound
      | Some slug \<Rightarrow>
          tx_bind (resolveInWorkspace localeCompare store \<lparr>ask_accountId = ask_accountId ask, ask_slug = slug\<rparr>) (\<lambda>resolution.
            let forward = (\<lambda>bookmark.
              tx_bind (chooseSlugBookmark parse store record_use
                         \<lparr>cho_accountId = ask_accountId ask, cho_slug = slug, cho_bookmarkId = ch_id bookmark, cho_remember = False\<rparr>)
                (\<lambda>outcome. tx_return (case outcome of Chosen url \<Rightarrow> Forward url | _ \<Rightarrow> NavNotFound)))
            in case resolution of
                 ResNone \<Rightarrow> tx_return NavNotFound
               | ResMultiple _ \<Rightarrow> tx_return Choose
               | ResPreferred bookmark \<Rightarrow> forward bookmark
               | ResSingle bookmark \<Rightarrow> forward bookmark))"

section \<open>preferences.ts\<close>

record go_preference_record =
  pr_slug :: string
  pr_bookmarkId :: string
  pr_title :: string
  pr_host :: string
  pr_ownerId :: "string option"
  pr_ownerName :: "string option"

record go_preference =
  gp_slug :: string
  gp_bookmarkId :: string
  gp_title :: string
  gp_host :: string
  gp_owner :: "go_owner option"

record 's go_preference_store =
  st_listPreferences :: "string \<Rightarrow> string option \<Rightarrow> nat \<Rightarrow> ('s, go_preference_record list) tx"
  st_forgetPreference :: "string \<Rightarrow> string \<Rightarrow> ('s, bool) tx"

text \<open>The signed cursors of the server: \<open>seal\<close> and \<open>open\<close>, each for a scope.\<close>

record go_cursors =
  cur_seal :: "string \<Rightarrow> string \<times> string \<Rightarrow> string"
  cur_open :: "string \<Rightarrow> string \<times> string \<Rightarrow> string option"

record go_preference_list_ask =
  pl_workspaceId :: string
  pl_accountId :: string
  pl_limit :: nat
  pl_cursor :: "string option"

datatype go_preference_list_outcome = Listed "go_preference list" "string option" | BadCursor

text \<open>\<open>JSON.stringify\<close> of the pair is injective, so the scope is the pair itself.\<close>

definition cursorScope :: "go_preference_list_ask \<Rightarrow> string \<times> string" where
  "cursorScope ask = (js_lower (pl_workspaceId ask), js_lower (pl_accountId ask))"

definition preference_of :: "string \<Rightarrow> go_preference_record \<Rightarrow> go_preference" where
  "preference_of accountId r =
     \<lparr>gp_slug = pr_slug r, gp_bookmarkId = pr_bookmarkId r, gp_title = pr_title r, gp_host = pr_host r,
      gp_owner = (case (pr_ownerId r, pr_ownerName r) of
                    (Some i, Some n) \<Rightarrow> if i \<noteq> accountId then Some \<lparr>go_accountId = i, go_displayName = n\<rparr> else None
                  | _ \<Rightarrow> None)\<rparr>"

definition listGoPreferences ::
    "'s go_preference_store \<Rightarrow> go_cursors \<Rightarrow> go_preference_list_ask \<Rightarrow> ('s, go_preference_list_outcome) tx" where
  "listGoPreferences store cursors ask =
     (let accountId = js_lower (pl_accountId ask); scope = cursorScope ask;
          opened = (case pl_cursor ask of
                      None \<Rightarrow> Some None
                    | Some cursor \<Rightarrow>
                        (case cur_open cursors cursor scope of
                           None \<Rightarrow> None
                         | Some slug \<Rightarrow> if parseSlug slug \<noteq> Some slug then None else Some (Some slug)))
      in case opened of
           None \<Rightarrow> tx_return BadCursor
         | Some afterSlug \<Rightarrow>
             tx_bind (st_listPreferences store accountId afterSlug (pl_limit ask + 1)) (\<lambda>fetched.
               let page = take (pl_limit ask) fetched
               in tx_return (Listed (map (preference_of accountId) page)
                    (if length fetched > pl_limit ask \<and> page \<noteq> []
                     then Some (cur_seal cursors (pr_slug (last page)) scope) else None))))"

definition forgetGoPreference :: "'s go_preference_store \<Rightarrow> go_ask \<Rightarrow> ('s, bool) tx" where
  "forgetGoPreference store ask =
     (case parseSlug (ask_slug ask) of
        None \<Rightarrow> tx_return False
      | Some slug \<Rightarrow> st_forgetPreference store slug (js_lower (ask_accountId ask)))"

section \<open>suggest.ts\<close>

definition GO_SUGGEST_MAX :: nat where
  "GO_SUGGEST_MAX = 10"

definition GO_SUGGEST_PREFIX_MAX_LENGTH :: nat where
  "GO_SUGGEST_PREFIX_MAX_LENGTH = 64"

record go_suggestion_record =
  sr_bookmarkId :: string
  sr_slug :: string
  sr_title :: string
  sr_host :: string
  sr_ownerId :: "string option"
  sr_ownerName :: "string option"
  sr_access :: go_access

record go_suggestion =
  sg_slug :: string
  sg_bookmarkId :: string
  sg_title :: string
  sg_host :: string
  sg_owner :: "go_owner option"
  sg_sharedVia :: "go_access option"

definition lookupPrefix :: "string \<Rightarrow> string option" where
  "lookupPrefix input =
     (let p = normalizeSlug input
      in if p = [] \<or> length p > GO_SUGGEST_PREFIX_MAX_LENGTH \<or> list_ex js_control p then None else Some p)"

definition suggestion_of :: "go_suggestion_record \<Rightarrow> go_suggestion" where
  "suggestion_of r =
     \<lparr>sg_slug = sr_slug r, sg_bookmarkId = sr_bookmarkId r, sg_title = sr_title r, sg_host = sr_host r,
      sg_owner = (case (sr_ownerId r, sr_ownerName r) of
                    (Some i, Some n) \<Rightarrow> if sr_access r \<noteq> AccOwner then Some \<lparr>go_accountId = i, go_displayName = n\<rparr> else None
                  | _ \<Rightarrow> None),
      sg_sharedVia = (if sr_access r = AccOwner then None else Some (sr_access r))\<rparr>"

definition suggestSlugs ::
    "(string \<Rightarrow> string \<Rightarrow> nat \<Rightarrow> ('s, go_suggestion_record list) tx) \<Rightarrow> string \<Rightarrow> string \<Rightarrow> ('s, go_suggestion list) tx" where
  "suggestSlugs suggest accountId input =
     (case lookupPrefix input of
        None \<Rightarrow> tx_return []
      | Some p \<Rightarrow>
          tx_bind (suggest p (js_lower accountId) GO_SUGGEST_MAX) (\<lambda>records.
            tx_return (map suggestion_of (take GO_SUGGEST_MAX records))))"

section \<open>availability.ts\<close>

record slug_use =
  su_takenByOwner :: bool
  su_othersUseCount :: nat

text \<open>The two columns of the bookmark \<open>find\<close> answers that the service reads.\<close>

record found_bookmark =
  found_id :: string
  found_ownerId :: "string option"

record 's slug_availability_store =
  st_slugUse :: "string \<Rightarrow> string \<Rightarrow> string option \<Rightarrow> ('s, slug_use) tx"
  st_find :: "string \<Rightarrow> ('s, found_bookmark option) tx"

datatype slug_status = Available | TakenByMe | Invalid

datatype slug_availability_outcome = Checked slug_status nat | AvailabilityBookmarkNotFound

definition check_slug ::
    "'s slug_availability_store \<Rightarrow> string \<Rightarrow> string \<Rightarrow> string option \<Rightarrow> ('s, slug_availability_outcome) tx" where
  "check_slug store accountId given bookmarkId =
     (case parseSlug given of
        None \<Rightarrow> tx_return (Checked Invalid 0)
      | Some slug \<Rightarrow>
          tx_bind (st_slugUse store slug accountId bookmarkId) (\<lambda>use.
            tx_return (Checked (if su_takenByOwner use then TakenByMe else Available) (su_othersUseCount use))))"

definition slugAvailability ::
    "'s slug_availability_store \<Rightarrow> string \<Rightarrow> string \<Rightarrow> string option \<Rightarrow> ('s, slug_availability_outcome) tx" where
  "slugAvailability store askAccountId askSlug askBookmarkId =
     (let accountId = js_lower askAccountId
      in case askBookmarkId of
           None \<Rightarrow> check_slug store accountId askSlug None
         | Some b \<Rightarrow>
             tx_bind (st_find store b) (\<lambda>found.
               case found of
                 None \<Rightarrow> tx_return AvailabilityBookmarkNotFound
               | Some bookmark \<Rightarrow>
                   if found_ownerId bookmark \<noteq> Some accountId then tx_return AvailabilityBookmarkNotFound
                   else check_slug store accountId askSlug (Some (found_id bookmark))))"

end
