(* ===== verification/GoLaws.thy ===== *)
theory GoLaws
  imports GoCore
begin

text \<open>
  What the services of \<open>packages/core/src/go/\<close> rely on of their store, as locales, and what they do
  for any store that keeps to it. \<open>go_read_laws\<close> is the contract of \<open>candidates\<close> and \<open>summaries\<close>,
  \<open>go_resolve_laws\<close> adds that of \<open>forgetStale\<close>, \<open>go_choose_laws\<close> adds those of \<open>remember\<close> and of the
  usage counter. The contract is stated over the state a store gives an account: the candidates of a
  slug, the summary of a bookmark, the remembered choice and the bookmarks the choice may stay on. \<open>GoDb\<close>
  interprets the locales on the repository of the database.
\<close>

section \<open>The order of the titles\<close>

text \<open>What \<open>localeCompare\<close> has to be: antisymmetric in the sign, transitive.\<close>

definition collation_ok :: "(string \<Rightarrow> string \<Rightarrow> int) \<Rightarrow> bool" where
  "collation_ok cmp \<longleftrightarrow>
     (\<forall>x y. sgn (cmp x y) = - sgn (cmp y x)) \<and>
     (\<forall>x y z. cmp x y \<le> 0 \<longrightarrow> cmp y z \<le> 0 \<longrightarrow> cmp x z \<le> 0)"

lemma sgn_opposite: "sgn a = - sgn b \<Longrightarrow> (a \<le> 0 \<longleftrightarrow> 0 \<le> b) \<and> (a = 0 \<longleftrightarrow> b = 0)" for a b :: int
  by (cases a "0 :: int" rule: linorder_cases; cases b "0 :: int" rule: linorder_cases; simp)

lemma collation_opposite: "collation_ok cmp \<Longrightarrow> sgn (cmp x y) = - sgn (cmp y x)"
  unfolding collation_ok_def by (elim conjE allE)

lemma collation_sign:
  assumes "collation_ok cmp"
  shows "cmp x y \<le> 0 \<longleftrightarrow> 0 \<le> cmp y x" "cmp x y = 0 \<longleftrightarrow> cmp y x = 0"
  using sgn_opposite [OF collation_opposite [OF assms]] by blast+

lemma collation_trans: "collation_ok cmp \<Longrightarrow> cmp x y \<le> 0 \<Longrightarrow> cmp y z \<le> 0 \<Longrightarrow> cmp x z \<le> 0"
  unfolding collation_ok_def by blast

lemma collation_eq_trans:
  assumes "collation_ok cmp" "cmp x y = 0" "cmp y z = 0"
  shows "cmp x z = 0"
proof -
  have "cmp x z \<le> 0" "cmp z x \<le> 0"
    using assms collation_trans [OF assms(1), of x y z] collation_trans [OF assms(1), of z y x]
      collation_sign [OF assms(1)] by auto
  then show ?thesis using collation_sign [OF assms(1), of z x] by auto
qed

lemma byTitle_le:
  "byTitle cmp a b \<le> 0 \<longleftrightarrow>
     (let t = cmp (js_lower (ch_title a)) (js_lower (ch_title b)) in t < 0 \<or> t = 0 \<and> cmp (ch_id a) (ch_id b) \<le> 0)"
  by (auto simp: byTitle_def Let_def)

lemma byTitle_consistent:
  assumes "collation_ok cmp"
  shows "consistent_cmp (byTitle cmp)"
proof -
  note sign = collation_sign [OF assms] and trans = collation_trans [OF assms] and eq = collation_eq_trans [OF assms]
  have total: "byTitle cmp a b \<le> 0 \<or> byTitle cmp b a \<le> 0" for a b
    using sign [of "js_lower (ch_title a)" "js_lower (ch_title b)"] sign [of "ch_id a" "ch_id b"]
    by (auto simp: byTitle_le Let_def)
  have "byTitle cmp a c \<le> 0" if ab: "byTitle cmp a b \<le> 0" and bc: "byTitle cmp b c \<le> 0" for a b c
  proof -
    let ?t = "\<lambda>x. js_lower (ch_title x)"
    have le: "cmp (?t a) (?t c) \<le> 0"
      using ab bc by (intro trans [of "?t a" "?t b" "?t c"]) (auto simp: byTitle_le Let_def)
    show ?thesis
    proof (cases "cmp (?t a) (?t c) = 0")
      case True
      have cb: "cmp (?t c) (?t b) \<le> 0" and ba: "cmp (?t b) (?t a) \<le> 0"
        using trans [of "?t c" "?t a" "?t b"] trans [of "?t b" "?t c" "?t a"] True ab bc sign [of "?t a" "?t c"]
        by (auto simp: byTitle_le Let_def)
      then have "cmp (?t a) (?t b) = 0" "cmp (?t b) (?t c) = 0"
        using ab bc sign [of "?t a" "?t b"] sign [of "?t b" "?t c"] by (auto simp: byTitle_le Let_def)
      then show ?thesis
        using ab bc True trans [of "ch_id a" "ch_id b" "ch_id c"] by (auto simp: byTitle_le Let_def)
    qed (use le in \<open>auto simp: byTitle_le Let_def\<close>)
  qed
  then show ?thesis using total by (auto simp: consistent_cmp_def)
qed

section \<open>What a slug resolves to\<close>

text \<open>
  The order of the product's rule (Q25), stated over what the account may resolve to: the remembered choice
  if it is a candidate, else the account's own bookmark, else the only one shared with it, else all that are
  shared with it in the order of their titles, and nothing when there is no candidate.
\<close>

definition choice_for :: "(string \<Rightarrow> go_bookmark_summary option) \<Rightarrow> go_candidate \<Rightarrow> go_choice" where
  "choice_for summary c = choiceOf c (the (summary (gc_id c)))"

definition preferred_among :: "(go_candidate \<Rightarrow> bool) \<Rightarrow> string option \<Rightarrow> bool" where
  "preferred_among candidate preferred \<longleftrightarrow> (\<exists>c. candidate c \<and> preferred = Some (gc_id c))"

fun resolves_to ::
    "(string \<Rightarrow> string \<Rightarrow> int) \<Rightarrow> (go_candidate \<Rightarrow> bool) \<Rightarrow> (string \<Rightarrow> go_bookmark_summary option) \<Rightarrow>
     string option \<Rightarrow> go_workspace_resolution \<Rightarrow> bool" where
  "resolves_to cmp candidate summary preferred ResNone \<longleftrightarrow> (\<forall>c. \<not> candidate c)"
| "resolves_to cmp candidate summary preferred (ResPreferred ch) \<longleftrightarrow>
     (\<exists>c. candidate c \<and> preferred = Some (gc_id c) \<and> ch = choice_for summary c)"
| "resolves_to cmp candidate summary preferred (ResSingle ch) \<longleftrightarrow>
     \<not> preferred_among candidate preferred \<and>
     (\<exists>c. candidate c \<and> ch = choice_for summary c \<and> (gc_access c = AccOwner \<or> (\<forall>d. candidate d \<longrightarrow> d = c)))"
| "resolves_to cmp candidate summary preferred (ResMultiple chs) \<longleftrightarrow>
     \<not> preferred_among candidate preferred \<and> (\<forall>c. candidate c \<longrightarrow> gc_access c \<noteq> AccOwner) \<and>
     2 \<le> length chs \<and> distinct (map ch_id chs) \<and> set chs = choice_for summary ` {c. candidate c} \<and>
     sorted_wrt (\<lambda>a b. byTitle cmp a b \<le> 0) chs"

lemma ch_id_choiceOf [simp]: "ch_id (choiceOf c m) = gs_id m"
  by (simp add: choiceOf_def Let_def)

lemma gs_id_summary_map: "summary_map ms i = Some m \<Longrightarrow> gs_id m = i"
  by (auto simp: summary_map_def dest!: map_of_SomeD)

lemma choices_of_all:
  assumes "\<forall>c \<in> set cs. summary_map ms (gc_id c) = summary (gc_id c) \<and> summary (gc_id c) \<noteq> None"
  shows "choices_of cs ms = map (\<lambda>c. (c, choice_for summary c)) cs"
  using assms by (induction cs) (auto simp: choices_of_def choice_for_def)

section \<open>The contract of the reads\<close>

locale go_read_laws =
  fixes store :: "'s go_store"
    and account :: string
    and ok :: "'s \<Rightarrow> bool"
    and candidate :: "'s \<Rightarrow> string \<Rightarrow> go_candidate \<Rightarrow> bool"
    and summary :: "'s \<Rightarrow> string \<Rightarrow> go_bookmark_summary option"
    and remembered :: "'s \<Rightarrow> string \<Rightarrow> string option"
  assumes candidates_law:
      "ok s \<Longrightarrow> \<exists>found. st_candidates store slug account s = Inr (found, s) \<and>
         set (gcs_candidates found) = {c. candidate s slug c} \<and> distinct (map gc_id (gcs_candidates found)) \<and>
         gcs_preferredId found = remembered s slug"
    and summaries_law:
      "ok s \<Longrightarrow> \<forall>c \<in> set cs. candidate s slug c \<Longrightarrow>
         \<exists>ms. st_summaries store (map gc_id cs) s = Inr (ms, s) \<and>
           (\<forall>c \<in> set cs. summary_map ms (gc_id c) = summary s (gc_id c) \<and> summary s (gc_id c) \<noteq> None)"
    and summary_id: "ok s \<Longrightarrow> summary s i = Some m \<Longrightarrow> gs_id m = i"
    and access_law: "ok s \<Longrightarrow> candidate s slug c \<Longrightarrow> gc_access c = AccOwner \<longleftrightarrow> gc_ownerId c = Some account"
begin

lemma choice_id:
  assumes "ok s" "candidate s slug c"
  shows "ch_id (choice_for (summary s) c) = gc_id c"
proof -
  obtain m where "summary s (gc_id c) = Some m"
    using summaries_law [of s "[c]" slug] assms by auto
  then show ?thesis
    using summary_id [OF assms(1)] by (simp add: choice_for_def)
qed

lemma pick_resolves:
  assumes ok: "ok s" and cmp: "collation_ok cmp"
    and cs: "set cs = {c. candidate s slug c}" "distinct (map gc_id cs)" "cs \<noteq> []"
    and some: "\<forall>c \<in> set cs. summary s (gc_id c) \<noteq> None"
    and pref: "\<not> preferred_among (candidate s slug) preferred"
  shows "resolves_to cmp (candidate s slug) (summary s) preferred
      (pick_among cmp account (map (\<lambda>c. (c, choice_for (summary s) c)) cs))"
proof -
  let ?pairs = "map (\<lambda>c. (c, choice_for (summary s) c)) cs"
  let ?own = "filter (\<lambda>(c, _). gc_access c = AccOwner \<and> gc_ownerId c = Some account) ?pairs"
  let ?shared = "filter (\<lambda>(c, _). gc_access c \<noteq> AccOwner) ?pairs"
  have cand: "c \<in> set cs \<longleftrightarrow> candidate s slug c" for c
    using cs(1) by auto
  show ?thesis
  proof (cases "js_sort (\<lambda>a b. byTitle cmp (snd a) (snd b)) ?own")
    case (Cons own rest)
    then have "own \<in> set ?own"
      by (rule js_sort_hd)
    then obtain c where c: "candidate s slug c" "gc_access c = AccOwner" "own = (c, choice_for (summary s) c)"
      using cand by auto
    have "pick_among cmp account ?pairs = ResSingle (choice_for (summary s) c)"
      unfolding pick_among_def Cons c(3) by simp
    then show ?thesis using pref c by auto
  next
    case Nil
    then have "?own = []"
      by (simp only: js_sort_Nil_iff)
    then have none: "\<forall>c. candidate s slug c \<longrightarrow> gc_access c \<noteq> AccOwner"
      using access_law [OF ok] by (auto simp: filter_empty_conv cand)
    then have shared: "?shared = ?pairs"
      by (auto simp: filter_id_conv cand)
    have pick: "pick_among cmp account ?pairs =
        (case map (choice_for (summary s)) cs of
           [] \<Rightarrow> ResNone | [only] \<Rightarrow> ResSingle only
         | shared \<Rightarrow> ResMultiple (js_sort (byTitle cmp) shared))"
      unfolding pick_among_def Nil shared by (simp add: comp_def)
    show ?thesis
    proof (cases cs)
      case (Cons c rest)
      have ids: "map ch_id (map (choice_for (summary s)) cs) = map gc_id cs"
        using some summary_id [OF ok] by (auto simp: choice_for_def)
      have sorted_ids: "mset (map ch_id (js_sort (byTitle cmp) (map (choice_for (summary s)) cs))) = mset (map gc_id cs)"
        unfolding ids [symmetric] by (simp add: multiset.map_comp)
      show ?thesis
      proof (cases rest)
        case Nil
        have "pick_among cmp account ?pairs = ResSingle (choice_for (summary s) c)"
          unfolding pick by (simp add: Cons Nil)
        moreover have "candidate s slug d \<longleftrightarrow> d = c" for d
          using cs(1) by (auto simp: Cons Nil)
        ultimately show ?thesis using pref by auto
      next
        case (Cons d more)
        have len: "2 \<le> length cs" using Cons \<open>cs = c # rest\<close> by simp
        have "distinct (map ch_id (js_sort (byTitle cmp) (map (choice_for (summary s)) cs)))"
          using mset_eq_imp_distinct_iff [OF sorted_ids] cs(2) by simp
        moreover have "sorted_wrt (\<lambda>a b. byTitle cmp a b \<le> 0) (js_sort (byTitle cmp) (map (choice_for (summary s)) cs))"
          by (rule sorted_js_sort [OF byTitle_consistent [OF cmp]])
        moreover have "pick_among cmp account ?pairs = ResMultiple (js_sort (byTitle cmp) (map (choice_for (summary s)) cs))"
          unfolding pick by (simp add: Cons \<open>cs = c # rest\<close>)
        ultimately show ?thesis
          using pref none len by (simp add: cs(1))
      qed
    qed (use cs(3) in simp)
  qed
qed

end

section \<open>The contract of forgetting\<close>

text \<open>
  \<open>names s slug i\<close>: the bookmark \<open>i\<close> still has the slug, forwards and can be read by the account. A candidate
  does; so does a plan-archived bookmark, which is no candidate. The choice the store forgets names no such bookmark.
\<close>

definition after_forget :: "(string \<Rightarrow> bool) \<Rightarrow> (string \<Rightarrow> string option) \<Rightarrow> string \<Rightarrow> string \<Rightarrow> string option" where
  "after_forget names chosen slug =
     (case chosen slug of
        None \<Rightarrow> chosen
      | Some i \<Rightarrow> if names i then chosen else chosen(slug := None))"

locale go_resolve_laws = go_read_laws +
  fixes names :: "'a \<Rightarrow> string \<Rightarrow> string \<Rightarrow> bool"
    and same :: "'a \<Rightarrow> 'a \<Rightarrow> bool"
  assumes forgetStale_law:
      "ok s \<Longrightarrow> remembered s slug = Some i \<Longrightarrow>
         \<exists>r s'. st_forgetStale store slug i account s = Inr (r, s') \<and> ok s' \<and> same s s' \<and>
           remembered s' = after_forget (names s slug) (remembered s) slug"
    and names_candidate: "ok s \<Longrightarrow> candidate s slug c \<Longrightarrow> names s slug (gc_id c)"
    and same_refl: "same s s"
    and same_frame: "same s s' \<Longrightarrow> candidate s' = candidate s \<and> summary s' = summary s"
begin

lemma forget_total:
  assumes ok: "ok s" and pref: "preferred = remembered s slug"
  shows "\<exists>s'. forgetUnlessCandidate store slug account preferred s = Inr ((), s') \<and> ok s' \<and> same s s' \<and>
     remembered s' = after_forget (names s slug) (remembered s) slug"
proof (cases preferred)
  case None
  then show ?thesis
    using ok pref by (auto simp: forgetUnlessCandidate_def after_forget_def same_refl)
next
  case (Some i)
  then obtain r s' where "st_forgetStale store slug i account s = Inr (r, s')" "ok s'" "same s s'"
      "remembered s' = after_forget (names s slug) (remembered s) slug"
    using forgetStale_law [OF ok, of slug i] pref by auto
  then show ?thesis
    using Some by (auto simp: forgetUnlessCandidate_def tx_bind_Inr_iff)
qed

lemma resolve_total:
  assumes ok: "ok s" and cmp: "collation_ok cmp" and account: "js_lower (ask_accountId ask) = account"
    and slug: "parseSlug (ask_slug ask) = Some slug"
  shows "\<exists>r s'. resolveInWorkspace cmp store ask s = Inr (r, s') \<and> ok s' \<and> same s s' \<and>
     resolves_to cmp (candidate s slug) (summary s) (remembered s slug) r \<and>
     remembered s' = after_forget (names s slug) (remembered s) slug"
proof -
  obtain found where found: "st_candidates store slug account s = Inr (found, s)"
      "set (gcs_candidates found) = {c. candidate s slug c}" "distinct (map gc_id (gcs_candidates found))"
      "gcs_preferredId found = remembered s slug"
    using candidates_law [OF ok] by metis
  let ?cs = "gcs_candidates found"
  obtain f where f: "forgetUnlessCandidate store slug account (gcs_preferredId found) s = Inr ((), f)" "ok f" "same s f"
      "remembered f = after_forget (names s slug) (remembered s) slug"
    using forget_total [OF ok found(4)] by metis
  show ?thesis
  proof (cases "?cs = []")
    case True
    then show ?thesis
      using found f by (auto simp: resolveInWorkspace_def Let_def account slug tx_bind_Inr_iff)
  next
    case False
    obtain ms where ms: "st_summaries store (map gc_id ?cs) s = Inr (ms, s)"
        "\<forall>c \<in> set ?cs. summary_map ms (gc_id c) = summary s (gc_id c) \<and> summary s (gc_id c) \<noteq> None"
      using summaries_law [OF ok, of ?cs slug] found(2) by auto
    let ?pairs = "map (\<lambda>c. (c, choice_for (summary s) c)) ?cs"
    have choices: "choices_of ?cs ms = ?pairs"
      by (rule choices_of_all) (use ms(2) in simp)
    have id: "ch_id (choice_for (summary s) c) = gc_id c" if "c \<in> set ?cs" for c
      using that ms(2) summary_id [OF ok] by (auto simp: choice_for_def)
    let ?pref = "case gcs_preferredId found of None \<Rightarrow> None | Some p \<Rightarrow> find (\<lambda>(_, choice). ch_id choice = p) ?pairs"
    have eq: "resolveInWorkspace cmp store ask s =
        (case ?pref of
           Some preferred \<Rightarrow> Inr (ResPreferred (snd preferred), s)
         | None \<Rightarrow> Inr (pick_among cmp account ?pairs, f))"
      using found(1) ms(1) choices False f(1)
      by (simp add: resolveInWorkspace_def account slug tx_bind_def tx_return_def split: option.split)
    show ?thesis
    proof (cases ?pref)
      case (Some pc)
      then obtain p c where p: "gcs_preferredId found = Some p" and c: "c \<in> set ?cs" "pc = (c, choice_for (summary s) c)" "gc_id c = p"
        using id by (fastforce dest!: find_SomeD split: option.splits)
      have "after_forget (names s slug) (remembered s) slug = remembered s"
        using p c found(2,4) names_candidate [OF ok, of slug c] by (auto simp: after_forget_def)
      moreover have "resolves_to cmp (candidate s slug) (summary s) (remembered s slug) (ResPreferred (snd pc))"
        using c p found(2,4) by auto
      ultimately show ?thesis
        unfolding eq Some using ok same_refl by auto
    next
      case None
      have "\<not> preferred_among (candidate s slug) (remembered s slug)"
        using None found id by (fastforce simp: preferred_among_def find_None_iff split: option.splits)
      then have "resolves_to cmp (candidate s slug) (summary s) (remembered s slug) (pick_among cmp account ?pairs)"
        using pick_resolves [OF ok cmp found(2,3) False] ms(2) by blast
      then show ?thesis
        unfolding eq None using f by auto
    qed
  qed
qed

end

section \<open>What a navigation does\<close>

text \<open>
  A navigation that names one bookmark forwards to its checked address and counts one use of it, or, when the
  address cannot be forwarded to, is a miss that counts nothing.
\<close>

definition forwards_one ::
    "url_parser \<Rightarrow> (go_candidate \<Rightarrow> bool) \<Rightarrow> (string \<Rightarrow> go_bookmark_summary option) \<Rightarrow> (string \<Rightarrow> nat) \<Rightarrow>
     go_choice \<Rightarrow> go_navigation \<Rightarrow> (string \<Rightarrow> nat) \<Rightarrow> bool" where
  "forwards_one parse candidate summary u ch out u' \<longleftrightarrow>
     (\<exists>c. candidate c \<and> ch = choice_for summary c \<and>
        (case normalizeBookmarkUrl parse (gc_url c) of
           Inl _ \<Rightarrow> out = NavNotFound \<and> u' = u
         | Inr d \<Rightarrow> out = Forward (bu_url d) \<and> u' = u(gc_id c := Suc (u (gc_id c)))))"

fun navigates ::
    "url_parser \<Rightarrow> (go_candidate \<Rightarrow> bool) \<Rightarrow> (string \<Rightarrow> go_bookmark_summary option) \<Rightarrow> (string \<Rightarrow> nat) \<Rightarrow>
     go_workspace_resolution \<Rightarrow> go_navigation \<Rightarrow> (string \<Rightarrow> nat) \<Rightarrow> bool" where
  "navigates parse candidate summary u ResNone out u' \<longleftrightarrow> out = NavNotFound \<and> u' = u"
| "navigates parse candidate summary u (ResMultiple _) out u' \<longleftrightarrow> out = Choose \<and> u' = u"
| "navigates parse candidate summary u (ResPreferred ch) out u' \<longleftrightarrow> forwards_one parse candidate summary u ch out u'"
| "navigates parse candidate summary u (ResSingle ch) out u' \<longleftrightarrow> forwards_one parse candidate summary u ch out u'"

section \<open>The contract of choosing\<close>

locale go_choose_laws = go_resolve_laws +
  fixes record_use :: "string \<Rightarrow> ('a, unit) tx"
    and uses :: "'a \<Rightarrow> string \<Rightarrow> nat"
  assumes remember_law:
      "ok s \<Longrightarrow> candidate s slug c \<Longrightarrow>
         \<exists>s'. st_remember store slug (gc_id c) account s = Inr (True, s') \<and> ok s' \<and> same s s' \<and>
           remembered s' = (remembered s)(slug \<mapsto> gc_id c) \<and> uses s' = uses s"
    and record_law:
      "ok s \<Longrightarrow> \<exists>s'. record_use i s = Inr ((), s') \<and> ok s' \<and> same s s' \<and> remembered s' = remembered s \<and>
         uses s' = (uses s)(i := Suc (uses s i))"
    and forget_uses: "ok s \<Longrightarrow> st_forgetStale store slug i account s = Inr (r, s') \<Longrightarrow> uses s' = uses s"
    and same_trans: "same s s' \<Longrightarrow> same s' s'' \<Longrightarrow> same s s''"
    and id_lower: "ok s \<Longrightarrow> candidate s slug c \<Longrightarrow> js_lower (gc_id c) = gc_id c"
begin

definition chosen_effect :: "bool \<Rightarrow> string \<Rightarrow> string \<Rightarrow> 'a \<Rightarrow> 'a \<Rightarrow> bool" where
  "chosen_effect keep slug i s s' \<longleftrightarrow> ok s' \<and> same s s' \<and>
     remembered s' = (if keep then (remembered s)(slug \<mapsto> i) else remembered s) \<and> uses s' = (uses s)(i := Suc (uses s i))"

lemma choose_candidate:
  assumes ok: "ok s" and account: "js_lower (cho_accountId ask) = account" and slug: "parseSlug (cho_slug ask) = Some slug"
    and c: "candidate s slug c" "gc_id c = js_lower (cho_bookmarkId ask)" and d: "normalizeBookmarkUrl parse (gc_url c) = Inr d"
  shows "\<exists>s'. chooseSlugBookmark parse store record_use ask s = Inr (Chosen (bu_url d), s') \<and>
     chosen_effect (cho_remember ask) slug (gc_id c) s s'"
proof -
  obtain found where found: "st_candidates store slug account s = Inr (found, s)"
      "set (gcs_candidates found) = {c. candidate s slug c}" "distinct (map gc_id (gcs_candidates found))"
    using candidates_law [OF ok] by metis
  have pick: "find (\<lambda>candidate. gc_id candidate = js_lower (cho_bookmarkId ask)) (gcs_candidates found) = Some c"
    (is "find ?p ?cs = _")
  proof (cases "find ?p ?cs")
    case None
    then show ?thesis using c found(2) by (auto simp: find_None_iff)
  next
    case (Some c')
    then have "c' \<in> set ?cs" "gc_id c' = gc_id c"
      using c(2) by (auto dest: find_SomeD)
    then show ?thesis
      using Some distinct_key_eq [OF found(3), of c' c] c(1) found(2) by auto
  qed
  obtain k where k: "(if cho_remember ask then st_remember store slug (gc_id c) account else tx_return True) s = Inr (True, k)"
      "ok k" "same s k" "remembered k = (if cho_remember ask then (remembered s)(slug \<mapsto> gc_id c) else remembered s)" "uses k = uses s"
    using remember_law [OF ok c(1)] ok same_refl by (cases "cho_remember ask") auto
  obtain e where e: "record_use (gc_id c) k = Inr ((), e)" "ok e" "same k e" "remembered e = remembered k"
      "uses e = (uses k)(gc_id c := Suc (uses k (gc_id c)))"
    using record_law [OF k(2)] by metis
  have "chooseSlugBookmark parse store record_use ask s = Inr (Chosen (bu_url d), e)"
    using found(1) pick k(1) e(1) c(2) d account slug
    by (cases "cho_remember ask") (simp_all add: chooseSlugBookmark_def Let_def tx_bind_def tx_return_def)
  moreover have "chosen_effect (cho_remember ask) slug (gc_id c) s e"
    using k e same_trans by (auto simp: chosen_effect_def)
  ultimately show ?thesis by blast
qed

lemma choose_refused:
  assumes ok: "ok s" and account: "js_lower (cho_accountId ask) = account" and slug: "parseSlug (cho_slug ask) = Some slug"
    and none: "\<And>c d. candidate s slug c \<Longrightarrow> gc_id c = js_lower (cho_bookmarkId ask) \<Longrightarrow> normalizeBookmarkUrl parse (gc_url c) \<noteq> Inr d"
  shows "chooseSlugBookmark parse store record_use ask s =
     Inr (if \<exists>c. candidate s slug c \<and> gc_id c = js_lower (cho_bookmarkId ask) then ChooseUrlRefused else ChooseNotFound, s)"
proof -
  obtain found where found: "st_candidates store slug account s = Inr (found, s)"
      "set (gcs_candidates found) = {c. candidate s slug c}"
    using candidates_law [OF ok] by metis
  show ?thesis
  proof (cases "find (\<lambda>candidate. gc_id candidate = js_lower (cho_bookmarkId ask)) (gcs_candidates found)")
    case None
    then have "\<not> (\<exists>c. candidate s slug c \<and> gc_id c = js_lower (cho_bookmarkId ask))"
      using found(2) by (auto simp: find_None_iff)
    then show ?thesis
      using None found(1) account slug by (auto simp: chooseSlugBookmark_def Let_def tx_bind_def tx_return_def)
  next
    case (Some c)
    then have c: "candidate s slug c" "gc_id c = js_lower (cho_bookmarkId ask)"
      using found(2) by (auto dest!: find_SomeD)
    then obtain e where "normalizeBookmarkUrl parse (gc_url c) = Inl e"
      using none by (cases "normalizeBookmarkUrl parse (gc_url c)") auto
    then show ?thesis
      using Some c found(1) account slug by (auto simp: chooseSlugBookmark_def Let_def tx_bind_def tx_return_def)
  qed
qed

lemma forgetUnless_uses:
  "ok s \<Longrightarrow> forgetUnlessCandidate store slug account preferred s = Inr (u, s') \<Longrightarrow> uses s' = uses s"
  using forget_uses by (auto simp: forgetUnlessCandidate_def tx_bind_Inr_iff split: option.splits)

lemma resolve_uses:
  assumes ok: "ok s" and account: "js_lower (ask_accountId ask) = account"
    and run: "resolveInWorkspace cmp store ask s = Inr (r, s')"
  shows "uses s' = uses s"
proof (cases "parseSlug (ask_slug ask)")
  case (Some slug)
  obtain found where found: "st_candidates store slug account s = Inr (found, s)"
      "set (gcs_candidates found) = {c. candidate s slug c}"
    using candidates_law [OF ok] by metis
  obtain ms where "st_summaries store (map gc_id (gcs_candidates found)) s = Inr (ms, s)"
    using summaries_law [OF ok, of "gcs_candidates found" slug] found(2) by auto
  then show ?thesis
    using run found Some ok
    by (auto simp: resolveInWorkspace_def Let_def account tx_bind_Inr_iff dest: forgetUnless_uses
        split: if_splits option.splits)
qed (use run in \<open>auto simp: resolveInWorkspace_def\<close>)

lemma forward_one:
  assumes ok: "ok s" and account: "js_lower a = account" and slug: "parseSlug slug = Some slug"
    and c: "candidate s slug c" "ch = choice_for (summary s) c" "ch_id ch = gc_id c"
  shows "\<exists>out s'. tx_bind (chooseSlugBookmark parse store record_use
             \<lparr>cho_accountId = a, cho_slug = slug, cho_bookmarkId = ch_id ch, cho_remember = False\<rparr>)
           (\<lambda>outcome. tx_return (case outcome of Chosen url \<Rightarrow> Forward url | _ \<Rightarrow> NavNotFound)) s = Inr (out, s') \<and>
     ok s' \<and> same s s' \<and> remembered s' = remembered s \<and>
     forwards_one parse (candidate s slug) (summary s) (uses s) ch out (uses s')"
proof -
  let ?ask = "\<lparr>cho_accountId = a, cho_slug = slug, cho_bookmarkId = ch_id ch, cho_remember = False\<rparr>"
  have id: "gc_id c = js_lower (cho_bookmarkId ?ask)"
    using c id_lower [OF ok c(1)] by simp
  show ?thesis
  proof (cases "normalizeBookmarkUrl parse (gc_url c)")
    case (Inr d)
    have "\<exists>s'. chooseSlugBookmark parse store record_use ?ask s = Inr (Chosen (bu_url d), s') \<and>
        chosen_effect (cho_remember ?ask) slug (gc_id c) s s'"
      by (rule choose_candidate [OF ok _ _ c(1) id Inr]) (simp_all add: account slug)
    then obtain s' where run: "chooseSlugBookmark parse store record_use ?ask s = Inr (Chosen (bu_url d), s')"
        and effect: "chosen_effect False slug (gc_id c) s s'"
      by auto
    have "forwards_one parse (candidate s slug) (summary s) (uses s) ch (Forward (bu_url d)) (uses s')"
      unfolding forwards_one_def
      by (rule exI [of _ c]) (use c Inr effect in \<open>simp add: chosen_effect_def\<close>)
    then show ?thesis
      using effect unfolding tx_bind_Inr_iff chosen_effect_def run by auto
  next
    case (Inl e)
    obtain found where found: "st_candidates store slug account s = Inr (found, s)"
        "set (gcs_candidates found) = {c. candidate s slug c}" "distinct (map gc_id (gcs_candidates found))"
      using candidates_law [OF ok] by metis
    have same_id: "c' = c" if "candidate s slug c'" "gc_id c' = js_lower (cho_bookmarkId ?ask)" for c'
      by (rule distinct_key_eq [OF found(3)]) (simp_all only: found(2) mem_Collect_eq that c(1) id)
    have "chooseSlugBookmark parse store record_use ?ask s = Inr (ChooseUrlRefused, s)"
    proof (subst choose_refused [OF ok])
      show "js_lower (cho_accountId ?ask) = account" "parseSlug (cho_slug ?ask) = Some slug"
        using account slug by simp_all
      show "normalizeBookmarkUrl parse (gc_url c') \<noteq> Inr d"
        if "candidate s slug c'" "gc_id c' = js_lower (cho_bookmarkId ?ask)" for c' d
        using same_id [OF that] Inl by simp
    qed (use c(1) id in auto)
    then show ?thesis
      using Inl c ok same_refl by (auto simp: tx_bind_Inr_iff forwards_one_def)
  qed
qed

lemma navigate_total:
  assumes ok: "ok s" and cmp: "collation_ok cmp" and account: "js_lower (ask_accountId ask) = account"
    and slug: "parseSlug (ask_slug ask) = Some slug"
  shows "\<exists>r out s'. navigateToSlug cmp parse store record_use ask s = Inr (out, s') \<and> ok s' \<and> same s s' \<and>
     remembered s' = after_forget (names s slug) (remembered s) slug \<and>
     resolves_to cmp (candidate s slug) (summary s) (remembered s slug) r \<and>
     navigates parse (candidate s slug) (summary s) (uses s) r out (uses s')"
proof -
  let ?ask = "\<lparr>ask_accountId = ask_accountId ask, ask_slug = slug\<rparr>"
  have self: "parseSlug slug = Some slug"
    using parseSlug_again [OF slug] .
  obtain r f where r: "resolveInWorkspace cmp store ?ask s = Inr (r, f)" "ok f" "same s f"
      "resolves_to cmp (candidate s slug) (summary s) (remembered s slug) r"
      "remembered f = after_forget (names s slug) (remembered s) slug"
    using resolve_total [OF ok cmp, of ?ask slug] account self by auto
  have uses: "uses f = uses s"
    using resolve_uses [OF ok _ r(1)] account by simp
  have frame: "candidate f = candidate s" "summary f = summary s"
    using same_frame [OF r(3)] by auto
  have one: "\<exists>out s'. navigateToSlug cmp parse store record_use ask s = Inr (out, s') \<and> ok s' \<and> same s s' \<and>
        remembered s' = remembered f \<and> forwards_one parse (candidate s slug) (summary s) (uses s) ch out (uses s')"
    if which: "r = ResPreferred ch \<or> r = ResSingle ch" for ch
  proof -
    have "\<exists>c. candidate s slug c \<and> ch = choice_for (summary s) c"
      using which by (rule disjE) (use r(4) in \<open>simp, blast\<close>)+
    then obtain c where c: "candidate s slug c" "ch = choice_for (summary s) c"
      by blast
    then have "ch_id ch = gc_id c"
      using choice_id [OF ok c(1)] by simp
    then obtain out s' where fwd: "tx_bind (chooseSlugBookmark parse store record_use
             \<lparr>cho_accountId = ask_accountId ask, cho_slug = slug, cho_bookmarkId = ch_id ch, cho_remember = False\<rparr>)
           (\<lambda>outcome. tx_return (case outcome of Chosen url \<Rightarrow> Forward url | _ \<Rightarrow> NavNotFound)) f = Inr (out, s')"
        "ok s'" "same f s'" "remembered s' = remembered f"
        "forwards_one parse (candidate s slug) (summary s) (uses s) ch out (uses s')"
      using forward_one [OF r(2) account self, of c ch parse] c unfolding frame uses by blast
    have "navigateToSlug cmp parse store record_use ask s = Inr (out, s')"
      using which fwd(1) r(1) by (auto simp: navigateToSlug_def slug tx_bind_def [of "resolveInWorkspace _ _ _"])
    then show ?thesis
      using fwd(2-5) same_trans [OF r(3) fwd(3)] by blast
  qed
  show ?thesis
  proof (cases r)
    case (ResPreferred ch)
    then show ?thesis using one [of ch] r(4,5) by (metis navigates.simps(3))
  next
    case (ResSingle ch)
    then show ?thesis using one [of ch] r(4,5) by (metis navigates.simps(4))
  next
    case ResNone
    then have "navigateToSlug cmp parse store record_use ask s = Inr (NavNotFound, f)"
      using r(1) by (simp add: navigateToSlug_def slug tx_bind_def tx_return_def)
    then show ?thesis using r(2-5) uses ResNone by (metis navigates.simps(1))
  next
    case (ResMultiple chs)
    then have "navigateToSlug cmp parse store record_use ask s = Inr (Choose, f)"
      using r(1) by (simp add: navigateToSlug_def slug tx_bind_def tx_return_def)
    then show ?thesis using r(2-5) uses ResMultiple by (metis navigates.simps(2))
  qed
qed

text \<open>A choice that was remembered is what the slug resolves to from then on.\<close>

lemma remembered_choice_resolves:
  assumes ok: "ok s" and cmp: "collation_ok cmp"
    and ask: "js_lower (cho_accountId ask) = account" "parseSlug (cho_slug ask) = Some slug" "cho_remember ask"
    and run: "chooseSlugBookmark parse store record_use ask s = Inr (Chosen url, s')"
    and again: "js_lower (ask_accountId ask') = account" "parseSlug (ask_slug ask') = Some slug"
  shows "\<exists>ch s''. resolveInWorkspace cmp store ask' s' = Inr (ResPreferred ch, s'') \<and> ch_id ch = js_lower (cho_bookmarkId ask)"
proof -
  obtain c d where c: "candidate s slug c" "gc_id c = js_lower (cho_bookmarkId ask)" "normalizeBookmarkUrl parse (gc_url c) = Inr d"
    using run choose_refused [OF ok ask(1,2), of parse] by (fastforce split: if_splits)
  have effect: "chosen_effect True slug (gc_id c) s s'"
    using choose_candidate [OF ok ask(1,2) c] run ask(3) by auto
  then have s': "ok s'" "candidate s' = candidate s" "summary s' = summary s" "remembered s' slug = Some (gc_id c)"
    using same_frame by (auto simp: chosen_effect_def)
  obtain r s'' where r: "resolveInWorkspace cmp store ask' s' = Inr (r, s'')"
      "resolves_to cmp (candidate s slug) (summary s) (Some (gc_id c)) r"
    using resolve_total [OF s'(1) cmp again] s'(2-4) by auto
  have pref: "preferred_among (candidate s slug) (Some (gc_id c))"
    using c(1) by (auto simp: preferred_among_def)
  have "\<exists>ch. r = ResPreferred ch \<and> ch_id ch = gc_id c"
  proof (cases r)
    case (ResPreferred ch)
    then obtain c' where c': "candidate s slug c'" "gc_id c' = gc_id c" "ch = choice_for (summary s) c'"
      using r(2) by auto
    then show ?thesis
      using ResPreferred choice_id [OF ok c'(1)] by simp
  qed (use r(2) pref c(1) in auto)
  then show ?thesis using r(1) c(2) by auto
qed

end

end
