(* ===== verification/Usage.thy ===== *)
theory Usage
  imports Tables "HOL-Library.Option_ord"
begin

text \<open>
  The counting of opens: the buffer of a server process (\<open>packages/server/src/usage/buffer.ts\<close>), the store it is
  written to (\<open>packages/db/src/system/usage.ts\<close>) and the system operation behind it
  (\<open>packages/db/src/sql/490-bookmark-open-counts.sql\<close>). A process runs one thread, so the buffer changes in the pieces
  between two awaits: each piece is a function on the buffer, and \<open>usage_step\<close> lets them run in every order the code
  allows, with a call of the store that succeeds or fails. Times are milliseconds.
\<close>

section \<open>The system operation\<close>

record open_count =
  oc_bookmarkId :: string
  oc_count :: nat
  oc_lastOpenedAt :: nat

definition USAGE_FLUSH_BATCH_SIZE :: nat where
  "USAGE_FLUSH_BATCH_SIZE = 10000"

definition opens_of :: "string \<Rightarrow> open_count list \<Rightarrow> open_count list" where
  "opens_of i opens = filter (\<lambda>u. uuid_cast (oc_bookmarkId u) = i) opens"

definition opened_count :: "string \<Rightarrow> open_count list \<Rightarrow> nat" where
  "opened_count i opens = sum_list (map oc_count (opens_of i opens))"

definition opened_latest :: "string \<Rightarrow> open_count list \<Rightarrow> nat" where
  "opened_latest i opens = foldr max (map oc_lastOpenedAt (opens_of i opens)) 0"

text \<open>\<open>greatest(last_opened_at, latest)\<close>, which skips a null.\<close>

definition sql_greatest :: "nat option \<Rightarrow> nat \<Rightarrow> nat" where
  "sql_greatest x y = (case x of None \<Rightarrow> y | Some z \<Rightarrow> max z y)"

definition flush_row :: "open_count list \<Rightarrow> bookmark_row \<Rightarrow> bookmark_row" where
  "flush_row opens b =
     (if opens_of (bm_id b) opens = [] then b
      else b\<lparr>bm_open_count := bm_open_count b + opened_count (bm_id b) opens,
             bm_last_opened_at := Some (sql_greatest (bm_last_opened_at b) (opened_latest (bm_id b) opens))\<rparr>)"

definition sys_flush_open_counts :: "open_count list \<Rightarrow> bookmark_row list \<Rightarrow> js_error + bookmark_row list" where
  "sys_flush_open_counts opens rows =
     (if length opens > 10000 then Inl (JsError ''sys_flush_open_counts takes at most 10000 bookmarks'')
      else if list_ex (\<lambda>u. oc_count u < 1) opens then
        Inl (JsError ''sys_flush_open_counts needs a bookmark, a count of at least one and a time at every position'')
      else Inr (map (flush_row opens) rows))"

text \<open>
  \<open>bindUsageStore(\<dots>).flush\<close>: the checks of the wrapper before the call. A count above \<open>2\<^sup>53 - 1\<close> is no safe integer.
\<close>

definition store_flush :: "open_count list \<Rightarrow> bookmark_row list \<Rightarrow> js_error + bookmark_row list" where
  "store_flush opens rows =
     (if length opens > USAGE_FLUSH_BATCH_SIZE then Inl (RangeError ''too many bookmarks are flushed in one call'')
      else if list_ex (\<lambda>u. oc_count u > max_safe_integer \<or> oc_count u < 1) opens then
        Inl (RangeError ''an open count is a whole number of at least one with a valid time'')
      else sys_flush_open_counts opens rows)"

section \<open>The buffer\<close>

record usage_entry =
  ue_count :: nat
  ue_lastOpenedAt :: nat

text \<open>A \<open>Map\<close> iterates in the order its keys were first set.\<close>

type_synonym usage_entries = "(string \<times> usage_entry) list"

fun keep :: "string \<Rightarrow> nat \<Rightarrow> nat \<Rightarrow> usage_entries \<Rightarrow> usage_entries" where
  "keep b n t [] = [(b, \<lparr>ue_count = n, ue_lastOpenedAt = t\<rparr>)]"
| "keep b n t ((b', held) # es) =
     (if b' = b then (b', held\<lparr>ue_count := ue_count held + n, ue_lastOpenedAt := max (ue_lastOpenedAt held) t\<rparr>) # es
      else (b', held) # keep b n t es)"

text \<open>The stages of \<open>stop()\<close>: the last flush waits for one that runs, then runs, then the store ends.\<close>

datatype stop_stage = Running | AwaitingFlush | LastFlush | StoreEnded

record usage_buffer =
  ub_entries :: usage_entries
  ub_flushing :: "open_count list option"
  ub_timer :: bool
  ub_stopping :: stop_stage

definition createUsageBuffer :: usage_buffer where
  "createUsageBuffer = \<lparr>ub_entries = [], ub_flushing = None, ub_timer = False, ub_stopping = Running\<rparr>"

definition usage_record :: "string \<Rightarrow> nat \<Rightarrow> usage_buffer \<Rightarrow> usage_buffer" where
  "usage_record bookmarkId now u =
     (if ub_stopping u = Running then u\<lparr>ub_entries := keep bookmarkId 1 now (ub_entries u)\<rparr> else u)"

definition taken_of :: "usage_entries \<Rightarrow> open_count list" where
  "taken_of es = map (\<lambda>(b, e). \<lparr>oc_bookmarkId = b, oc_count = ue_count e, oc_lastOpenedAt = ue_lastOpenedAt e\<rparr>) es"

text \<open>
  \<open>flush()\<close> joins a flush that runs, and starts \<open>writeOut\<close> otherwise, up to its first await: what is buffered is taken.
  \<open>ub_flushing\<close> is what the running \<open>writeOut\<close> has not written yet.
\<close>

definition usage_flush :: "usage_buffer \<Rightarrow> usage_buffer" where
  "usage_flush u =
     (case ub_flushing u of
        Some _ \<Rightarrow> u
      | None \<Rightarrow> u\<lparr>ub_entries := [], ub_flushing := Some (taken_of (ub_entries u))\<rparr>)"

definition keep_all :: "open_count list \<Rightarrow> usage_entries \<Rightarrow> usage_entries" where
  "keep_all opens es = fold (\<lambda>u. keep (oc_bookmarkId u) (oc_count u) (oc_lastOpenedAt u)) opens es"

text \<open>One turn of the loop of \<open>writeOut\<close>: the next batch, which the store takes or refuses; with nothing left it settles.\<close>

definition batch_written :: "open_count list \<Rightarrow> usage_buffer \<Rightarrow> usage_buffer" where
  "batch_written left u = u\<lparr>ub_flushing := Some (drop USAGE_FLUSH_BATCH_SIZE left)\<rparr>"

definition batch_failed :: "open_count list \<Rightarrow> usage_buffer \<Rightarrow> usage_buffer" where
  "batch_failed left u = u\<lparr>ub_entries := keep_all left (ub_entries u), ub_flushing := None\<rparr>"

definition flush_settled :: "usage_buffer \<Rightarrow> usage_buffer" where
  "flush_settled u = u\<lparr>ub_flushing := None\<rparr>"

definition usage_start :: "usage_buffer \<Rightarrow> usage_buffer" where
  "usage_start u = (if ub_timer u \<or> ub_stopping u \<noteq> Running then u else u\<lparr>ub_timer := True\<rparr>)"

definition usage_stop :: "usage_buffer \<Rightarrow> usage_buffer" where
  "usage_stop u = (if ub_stopping u = Running then u\<lparr>ub_timer := False, ub_stopping := AwaitingFlush\<rparr> else u)"

definition stop_flushes :: "usage_buffer \<Rightarrow> usage_buffer" where
  "stop_flushes u = usage_flush (u\<lparr>ub_stopping := LastFlush\<rparr>)"

definition stop_ends :: "usage_buffer \<Rightarrow> usage_buffer" where
  "stop_ends u = u\<lparr>ub_stopping := StoreEnded\<rparr>"

section \<open>The runs of a process\<close>

text \<open>
  The buffer with the bookmarks of the database and a history the code does not keep: the opens that were counted (\<open>uw_counted\<close>), the
  batches the database wrote though their call was rejected, as when the connection goes before the answer (\<open>uw_unacknowledged\<close>), what
  the process still held when \<open>stop()\<close> ended the store, which it logs as lost (\<open>uw_lost\<close>), and whether a call of that last flush was
  rejected (\<open>uw_refused\<close>). The server flushes on the timer and in \<open>stop()\<close>. A call of the store may be rejected at any time, and always
  is once the store has ended; a call that is rejected before the end has written its batch or nothing.
\<close>

record usage_world =
  uw_buffer :: usage_buffer
  uw_rows :: "bookmark_row list"
  uw_counted :: "open_count list"
  uw_unacknowledged :: "open_count list"
  uw_lost :: "open_count list"
  uw_refused :: bool

definition last_refused :: "usage_world \<Rightarrow> bool" where
  "last_refused w \<longleftrightarrow> uw_refused w \<or> ub_stopping (uw_buffer w) = LastFlush"

definition counted :: "usage_buffer \<Rightarrow> string \<Rightarrow> nat \<Rightarrow> open_count list" where
  "counted u b t = (if ub_stopping u = Running then [\<lparr>oc_bookmarkId = b, oc_count = 1, oc_lastOpenedAt = t\<rparr>] else [])"

inductive usage_step :: "usage_world \<Rightarrow> usage_world \<Rightarrow> bool" where
  step_record:
    "usage_step w (w\<lparr>uw_buffer := usage_record b t (uw_buffer w), uw_counted := counted (uw_buffer w) b t @ uw_counted w\<rparr>)"
| step_start: "usage_step w (w\<lparr>uw_buffer := usage_start (uw_buffer w)\<rparr>)"
| step_flush: "ub_timer (uw_buffer w) \<Longrightarrow> usage_step w (w\<lparr>uw_buffer := usage_flush (uw_buffer w)\<rparr>)"
| step_written:
    "ub_flushing (uw_buffer w) = Some left \<Longrightarrow> left \<noteq> [] \<Longrightarrow> ub_stopping (uw_buffer w) \<noteq> StoreEnded \<Longrightarrow>
     store_flush (take USAGE_FLUSH_BATCH_SIZE left) (uw_rows w) = Inr rows \<Longrightarrow>
     usage_step w (w\<lparr>uw_buffer := batch_written left (uw_buffer w), uw_rows := rows\<rparr>)"
| step_failed:
    "ub_flushing (uw_buffer w) = Some left \<Longrightarrow> left \<noteq> [] \<Longrightarrow>
     usage_step w (w\<lparr>uw_buffer := batch_failed left (uw_buffer w), uw_refused := last_refused w\<rparr>)"
| step_unacknowledged:
    "ub_flushing (uw_buffer w) = Some left \<Longrightarrow> left \<noteq> [] \<Longrightarrow> ub_stopping (uw_buffer w) \<noteq> StoreEnded \<Longrightarrow>
     store_flush (take USAGE_FLUSH_BATCH_SIZE left) (uw_rows w) = Inr rows \<Longrightarrow>
     usage_step w (w\<lparr>uw_buffer := batch_failed left (uw_buffer w), uw_rows := rows,
       uw_unacknowledged := take USAGE_FLUSH_BATCH_SIZE left @ uw_unacknowledged w, uw_refused := last_refused w\<rparr>)"
| step_settled:
    "ub_flushing (uw_buffer w) = Some [] \<Longrightarrow> usage_step w (w\<lparr>uw_buffer := flush_settled (uw_buffer w)\<rparr>)"
| step_stop: "usage_step w (w\<lparr>uw_buffer := usage_stop (uw_buffer w)\<rparr>)"
| step_stop_flushes:
    "ub_stopping (uw_buffer w) = AwaitingFlush \<Longrightarrow> ub_flushing (uw_buffer w) = None \<Longrightarrow>
     usage_step w (w\<lparr>uw_buffer := stop_flushes (uw_buffer w)\<rparr>)"
| step_stop_ends:
    "ub_stopping (uw_buffer w) = LastFlush \<Longrightarrow> ub_flushing (uw_buffer w) = None \<Longrightarrow>
     usage_step w (w\<lparr>uw_buffer := stop_ends (uw_buffer w), uw_lost := taken_of (ub_entries (uw_buffer w))\<rparr>)"

inductive_cases usage_stepE: "usage_step w w'"

text \<open>The states a process reaches from a database and an empty buffer.\<close>

inductive usage_reachable :: "bookmark_row list \<Rightarrow> usage_world \<Rightarrow> bool" for rows where
  usage_init: "usage_reachable rows
    \<lparr>uw_buffer = createUsageBuffer, uw_rows = rows, uw_counted = [], uw_unacknowledged = [], uw_lost = [], uw_refused = False\<rparr>"
| usage_next: "usage_reachable rows w \<Longrightarrow> usage_step w w' \<Longrightarrow> usage_reachable rows w'"

section \<open>Where every open is\<close>

definition in_flight :: "usage_buffer \<Rightarrow> open_count list" where
  "in_flight u = (case ub_flushing u of None \<Rightarrow> [] | Some left \<Rightarrow> left)"

text \<open>What the buffer holds of a bookmark: what is buffered and what the running flush has not written.\<close>

definition pending_count :: "string \<Rightarrow> usage_buffer \<Rightarrow> nat" where
  "pending_count i u = opened_count i (taken_of (ub_entries u)) + opened_count i (in_flight u)"

definition latest :: "string \<Rightarrow> open_count list \<Rightarrow> nat option" where
  "latest i opens = (if opens_of i opens = [] then None else Some (opened_latest i opens))"

definition pending_latest :: "string \<Rightarrow> usage_buffer \<Rightarrow> nat option" where
  "pending_latest i u = max (latest i (taken_of (ub_entries u))) (latest i (in_flight u))"

lemma opens_of_simps [simp]:
  "opens_of i [] = []"
  "opens_of i (u # us) = (if uuid_cast (oc_bookmarkId u) = i then u # opens_of i us else opens_of i us)"
  "opens_of i (us @ vs) = opens_of i us @ opens_of i vs"
  by (simp_all add: opens_of_def)

lemma opened_count_simps [simp]:
  "opened_count i [] = 0"
  "opened_count i (u # us) = (if uuid_cast (oc_bookmarkId u) = i then oc_count u else 0) + opened_count i us"
  "opened_count i (us @ vs) = opened_count i us + opened_count i vs"
  by (simp_all add: opened_count_def)

lemma max_None [simp]: "max None x = (x :: nat option)" "max x None = (x :: nat option)"
  by (cases x; simp add: max_def)+

lemma max_Some [simp]: "max (Some a) (Some b) = Some (max a b :: nat)"
  by (simp add: max_def)

lemma latest_simps [simp]:
  "latest i [] = None"
  "latest i (u # us) = max (if uuid_cast (oc_bookmarkId u) = i then Some (oc_lastOpenedAt u) else None) (latest i us)"
  by (auto simp: latest_def opened_latest_def)

lemma latest_append [simp]: "latest i (us @ vs) = max (latest i us) (latest i vs)"
  by (induction us) (auto simp: max.assoc)

lemma taken_of_simps [simp]:
  "taken_of [] = []"
  "taken_of ((b, e) # es) = \<lparr>oc_bookmarkId = b, oc_count = ue_count e, oc_lastOpenedAt = ue_lastOpenedAt e\<rparr> # taken_of es"
  by (simp_all add: taken_of_def)

lemma keep_count:
  "opened_count i (taken_of (keep b n t es)) = (if uuid_cast b = i then n else 0) + opened_count i (taken_of es)"
  by (induction b n t es rule: keep.induct) auto

lemma keep_latest:
  "latest i (taken_of (keep b n t es)) = max (if uuid_cast b = i then Some t else None) (latest i (taken_of es))"
  by (induction b n t es rule: keep.induct) (auto simp: max.commute max.left_commute max.assoc simp del: max_Some simp flip: max_Some)

lemma keep_all_count: "opened_count i (taken_of (keep_all opens es)) = opened_count i opens + opened_count i (taken_of es)"
  by (induction opens arbitrary: es) (auto simp: keep_all_def keep_count)

lemma keep_all_latest: "latest i (taken_of (keep_all opens es)) = max (latest i opens) (latest i (taken_of es))"
  by (induction opens arbitrary: es) (auto simp: keep_all_def keep_latest max.assoc max.left_commute)

lemma bm_id_flush_row [simp]: "bm_id (flush_row opens b) = bm_id b"
  by (simp add: flush_row_def)

lemma flush_row_count: "bm_open_count (flush_row opens b) = bm_open_count b + opened_count (bm_id b) opens"
  by (simp add: flush_row_def opened_count_def)

lemma flush_row_latest: "bm_last_opened_at (flush_row opens b) = max (bm_last_opened_at b) (latest (bm_id b) opens)"
  by (cases "bm_last_opened_at b") (simp_all add: flush_row_def latest_def sql_greatest_def)

lemma store_flush_rows: "store_flush opens rows = Inr rows' \<Longrightarrow> rows' = map (flush_row opens) rows"
  by (auto simp: store_flush_def sys_flush_open_counts_def split: if_splits)

lemma count_take_drop: "opened_count i (take n us) + opened_count i (drop n us) = opened_count i us"
  by (metis append_take_drop_id opened_count_simps(3))

lemma latest_take_drop: "max (latest i (take n us)) (latest i (drop n us)) = latest i us"
  by (metis append_take_drop_id latest_append)

text \<open>
  A row with what is pending for it carries what it had, what was counted for it, and once more what was written without an answer.
\<close>

definition row_accounts :: "usage_world \<Rightarrow> bookmark_row \<Rightarrow> bookmark_row \<Rightarrow> bool" where
  "row_accounts w b b' \<longleftrightarrow>
     bm_id b' = bm_id b \<and>
     bm_open_count b' + pending_count (bm_id b) (uw_buffer w) =
       bm_open_count b + opened_count (bm_id b) (uw_counted w) + opened_count (bm_id b) (uw_unacknowledged w) \<and>
     max (bm_last_opened_at b') (pending_latest (bm_id b) (uw_buffer w)) = max (bm_last_opened_at b) (latest (bm_id b) (uw_counted w))"

lemmas usage_op_defs = usage_record_def usage_start_def usage_flush_def batch_written_def batch_failed_def
  flush_settled_def usage_stop_def stop_flushes_def stop_ends_def

lemmas pending_defs = pending_count_def pending_latest_def in_flight_def

lemma step_accounts:
  assumes step: "usage_step w w'" and acc: "list_all2 (row_accounts w) rows (uw_rows w)"
  shows "list_all2 (row_accounts w') rows (uw_rows w')"
proof -
  have same: ?thesis
    if "uw_rows w' = uw_rows w" "\<And>b b'. row_accounts w b b' \<Longrightarrow> row_accounts w' b b'"
    using acc that by (auto elim: list_all2_mono)
  show ?thesis
    using step
  proof cases
    case (step_record b t)
    show ?thesis
      by (rule same)
         (auto simp: step_record row_accounts_def pending_defs usage_record_def counted_def keep_count keep_latest
            max.assoc max.left_commute)
  next
    case (step_written left rows')
    let ?batch = "take USAGE_FLUSH_BATCH_SIZE left"
    have rows': "uw_rows w' = map (flush_row ?batch) (uw_rows w)"
      using store_flush_rows step_written by simp
    have "row_accounts w' b (flush_row ?batch b')" if "row_accounts w b b'" for b b'
      using that step_written count_take_drop [of "bm_id b" USAGE_FLUSH_BATCH_SIZE left]
        latest_take_drop [of "bm_id b" USAGE_FLUSH_BATCH_SIZE left]
      by (auto simp: row_accounts_def pending_defs batch_written_def flush_row_count flush_row_latest max.assoc max.left_commute)
    then show ?thesis
      unfolding rows' using acc by (auto simp: list_all2_conv_all_nth)
  next
    case (step_failed left)
    show ?thesis
      by (rule same)
         (use step_failed in \<open>auto simp: row_accounts_def pending_defs batch_failed_def keep_all_count keep_all_latest max.commute\<close>)
  next
    case (step_unacknowledged left rows')
    let ?batch = "take USAGE_FLUSH_BATCH_SIZE left"
    have rows': "uw_rows w' = map (flush_row ?batch) (uw_rows w)"
      using store_flush_rows step_unacknowledged by simp
    have "row_accounts w' b (flush_row ?batch b')" if "row_accounts w b b'" for b b'
    proof -
      have again: "max (latest (bm_id b) ?batch) (latest (bm_id b) left) = latest (bm_id b) left"
        using latest_take_drop [of "bm_id b" USAGE_FLUSH_BATCH_SIZE left] by (metis max.left_idem)
      have "max (max (bm_last_opened_at b') (latest (bm_id b) ?batch)) (max (latest (bm_id b) left) (latest (bm_id b) (taken_of (ub_entries (uw_buffer w))))) =
          max (bm_last_opened_at b') (max (latest (bm_id b) (taken_of (ub_entries (uw_buffer w)))) (latest (bm_id b) left))"
        by (metis again max.assoc max.commute)
      then show ?thesis
        using that step_unacknowledged
        by (auto simp: row_accounts_def pending_defs batch_failed_def flush_row_count flush_row_latest keep_all_count keep_all_latest)
    qed
    then show ?thesis
      unfolding rows' using acc by (auto simp: list_all2_conv_all_nth)
  qed (rule same;
       auto simp: row_accounts_def pending_defs usage_op_defs split: option.splits)+
qed

lemma reachable_accounts: "usage_reachable rows w \<Longrightarrow> list_all2 (row_accounts w) rows (uw_rows w)"
proof (induction rule: usage_reachable.induct)
  case usage_init
  show ?case
    by (auto simp: row_accounts_def pending_defs createUsageBuffer_def intro!: list.rel_refl)
qed (rule step_accounts)

section \<open>Batches and the shutdown\<close>

text \<open>The buffer names a bookmark once and counts at least one open of it, so the operation accepts what a flush takes.\<close>

definition entries_ok :: "usage_entries \<Rightarrow> bool" where
  "entries_ok es \<longleftrightarrow> distinct (map fst es) \<and> (\<forall>e \<in> set es. 1 \<le> ue_count (snd e))"

definition buffer_ok :: "usage_buffer \<Rightarrow> bool" where
  "buffer_ok u \<longleftrightarrow>
     entries_ok (ub_entries u) \<and> distinct (map oc_bookmarkId (in_flight u)) \<and> (\<forall>x \<in> set (in_flight u). 1 \<le> oc_count x) \<and>
     (ub_timer u \<longrightarrow> ub_stopping u = Running) \<and> (ub_stopping u = StoreEnded \<longrightarrow> ub_flushing u = None)"

lemma fst_keep: "fst ` set (keep b n t es) = insert b (fst ` set es)"
  by (induction b n t es rule: keep.induct) auto

lemma entries_ok_keep: "entries_ok es \<Longrightarrow> 1 \<le> n \<Longrightarrow> entries_ok (keep b n t es)"
proof (induction b n t es rule: keep.induct)
  case (2 b n t b' held es)
  then show ?case
    using fst_keep [of b n t es] by (auto simp: entries_ok_def)
qed (simp add: entries_ok_def)

lemma entries_ok_keep_all: "entries_ok es \<Longrightarrow> \<forall>x \<in> set opens. 1 \<le> oc_count x \<Longrightarrow> entries_ok (keep_all opens es)"
  by (induction opens arbitrary: es) (auto simp: keep_all_def entries_ok_keep)

lemma taken_of_ok:
  "entries_ok es \<Longrightarrow> distinct (map oc_bookmarkId (taken_of es)) \<and> (\<forall>x \<in> set (taken_of es). 1 \<le> oc_count x)"
  by (auto simp: entries_ok_def taken_of_def case_prod_beta comp_def)

lemma step_buffer_ok:
  assumes step: "usage_step w w'" and ok: "buffer_ok (uw_buffer w)"
  shows "buffer_ok (uw_buffer w')"
  using step
proof cases
  case (step_written left rows)
  then show ?thesis
    using ok by (auto simp: buffer_ok_def batch_written_def in_flight_def drop_map dest: in_set_dropD simp flip: drop_map)
next
  case (step_failed left)
  then show ?thesis
    using ok by (auto simp: buffer_ok_def batch_failed_def in_flight_def intro: entries_ok_keep_all)
next
  case (step_unacknowledged left rows)
  then show ?thesis
    using ok by (auto simp: buffer_ok_def batch_failed_def in_flight_def intro: entries_ok_keep_all)
qed (use ok taken_of_ok [of "ub_entries (uw_buffer w)"] in
      \<open>auto simp: buffer_ok_def in_flight_def usage_op_defs entries_ok_keep entries_ok_def [of "[]"] split: option.splits\<close>)

lemma reachable_buffer_ok: "usage_reachable rows w \<Longrightarrow> buffer_ok (uw_buffer w)"
proof (induction rule: usage_reachable.induct)
  case usage_init
  show ?case by (simp add: buffer_ok_def createUsageBuffer_def entries_ok_def in_flight_def)
qed (rule step_buffer_ok)

text \<open>
  The opens are lost that the buffer holds when the store ends, and it holds some only when a call of the last flush was rejected: that
  flush takes all there is, and nothing is counted while the process stops.
\<close>

definition lost_ok :: "usage_world \<Rightarrow> bool" where
  "lost_ok w \<longleftrightarrow>
     uw_lost w = (if ub_stopping (uw_buffer w) = StoreEnded then taken_of (ub_entries (uw_buffer w)) else []) \<and>
     (ub_stopping (uw_buffer w) \<in> {LastFlush, StoreEnded} \<and> \<not> uw_refused w \<longrightarrow> ub_entries (uw_buffer w) = [])"

lemma step_lost_ok:
  assumes "usage_step w w'" "buffer_ok (uw_buffer w)" "lost_ok w"
  shows "lost_ok w'"
  using assms by cases (auto simp: lost_ok_def buffer_ok_def usage_op_defs last_refused_def split: option.splits)

lemma reachable_lost_ok: "usage_reachable rows w \<Longrightarrow> lost_ok w"
proof (induction rule: usage_reachable.induct)
  case usage_init
  show ?case by (simp add: lost_ok_def createUsageBuffer_def)
next
  case (usage_next w w')
  then show ?case using step_lost_ok reachable_buffer_ok by blast
qed

text \<open>What a bookmark still waits for: what is pending, until the store has ended.\<close>

definition waiting_count :: "string \<Rightarrow> usage_buffer \<Rightarrow> nat" where
  "waiting_count i u = (if ub_stopping u = StoreEnded then 0 else pending_count i u)"

definition waiting_latest :: "string \<Rightarrow> usage_buffer \<Rightarrow> nat option" where
  "waiting_latest i u = (if ub_stopping u = StoreEnded then None else pending_latest i u)"

text \<open>
  Claim C23: whatever the order of opens, flushes, rejected calls and the shutdown, every open is accounted for: what a bookmark's row
  holds, what is buffered or being written for it and what a shutdown lost add up to what the row had at first and what was counted
  since, with once more what the database wrote though the call was rejected, which the next flush writes again; and the latest of
  their times is the latest of the times counted. Opens are lost only when the store has ended after a call of the last flush was
  rejected.
\<close>

theorem opens_accounted:
  assumes "usage_reachable rows w" "b \<in> set rows"
  shows "\<exists>b' \<in> set (uw_rows w). bm_id b' = bm_id b \<and>
     bm_open_count b' + waiting_count (bm_id b) (uw_buffer w) + opened_count (bm_id b) (uw_lost w) =
       bm_open_count b + opened_count (bm_id b) (uw_counted w) + opened_count (bm_id b) (uw_unacknowledged w) \<and>
     max (bm_last_opened_at b') (max (waiting_latest (bm_id b) (uw_buffer w)) (latest (bm_id b) (uw_lost w))) =
       max (bm_last_opened_at b) (latest (bm_id b) (uw_counted w)) \<and>
     (uw_lost w = [] \<or> ub_stopping (uw_buffer w) = StoreEnded \<and> uw_refused w)"
proof -
  obtain b' where b': "b' \<in> set (uw_rows w)" "row_accounts w b b'"
    using list_all2_conv_all_nth [of "row_accounts w" rows "uw_rows w"] reachable_accounts [OF assms(1)] assms(2)
    by (metis in_set_conv_nth)
  have lost: "lost_ok w" and "ub_stopping (uw_buffer w) = StoreEnded \<Longrightarrow> ub_flushing (uw_buffer w) = None"
    using reachable_lost_ok reachable_buffer_ok assms(1) by (blast, auto simp: buffer_ok_def)
  then have "pending_count i (uw_buffer w) = waiting_count i (uw_buffer w) + opened_count i (uw_lost w)"
      "pending_latest i (uw_buffer w) = max (waiting_latest i (uw_buffer w)) (latest i (uw_lost w))" for i
    by (auto simp: lost_ok_def waiting_count_def waiting_latest_def pending_defs)
  then show ?thesis
    using b' lost by (intro bexI [of _ b']) (auto simp: row_accounts_def lost_ok_def)
qed

definition storable :: "open_count list \<Rightarrow> bool" where
  "storable opens \<longleftrightarrow> list_all (\<lambda>u. 1 \<le> oc_count u \<and> oc_count u \<le> max_safe_integer) opens"

lemma storable_take_drop: "storable opens \<Longrightarrow> storable (take n opens) \<and> storable (drop n opens)"
  by (auto simp: storable_def list_all_iff dest: in_set_takeD in_set_dropD)

lemma store_flush_storable:
  "storable opens \<Longrightarrow> length opens \<le> USAGE_FLUSH_BATCH_SIZE \<Longrightarrow> store_flush opens rows = Inr (map (flush_row opens) rows)"
  by (fastforce simp: storable_def store_flush_def sys_flush_open_counts_def USAGE_FLUSH_BATCH_SIZE_def list_all_iff list_ex_iff)

lemma flush_loop:
  assumes "ub_flushing (uw_buffer w) = Some left" "ub_stopping (uw_buffer w) \<noteq> StoreEnded" "storable left"
  shows "\<exists>rows'. usage_step\<^sup>*\<^sup>* w (w\<lparr>uw_buffer := (uw_buffer w)\<lparr>ub_flushing := None\<rparr>, uw_rows := rows'\<rparr>)"
  using assms
proof (induction "length left" arbitrary: left w rule: less_induct)
  case less
  show ?case
  proof (cases "left = []")
    case True
    then have "usage_step w (w\<lparr>uw_buffer := flush_settled (uw_buffer w)\<rparr>)"
      using less.prems by (auto intro: step_settled)
    moreover have "w\<lparr>uw_buffer := flush_settled (uw_buffer w)\<rparr> =
        w\<lparr>uw_buffer := (uw_buffer w)\<lparr>ub_flushing := None\<rparr>, uw_rows := uw_rows w\<rparr>"
      by (simp add: flush_settled_def)
    ultimately show ?thesis by (metis r_into_rtranclp)
  next
    case False
    let ?batch = "take USAGE_FLUSH_BATCH_SIZE left" and ?rest = "drop USAGE_FLUSH_BATCH_SIZE left"
    let ?w = "w\<lparr>uw_buffer := batch_written left (uw_buffer w), uw_rows := map (flush_row ?batch) (uw_rows w)\<rparr>"
    have st: "usage_step w ?w"
      by (rule step_written) (use less.prems False storable_take_drop store_flush_storable in auto)
    have "length ?rest < length left"
      using False by (simp add: USAGE_FLUSH_BATCH_SIZE_def)
    from less.hyps [OF this, of ?w] less.prems storable_take_drop obtain rows'
      where "usage_step\<^sup>*\<^sup>* ?w (?w\<lparr>uw_buffer := (uw_buffer ?w)\<lparr>ub_flushing := None\<rparr>, uw_rows := rows'\<rparr>)"
      by (auto simp: batch_written_def)
    then show ?thesis
      using st by (auto simp: batch_written_def intro: converse_rtranclp_into_rtranclp)
  qed
qed

text \<open>
  A shutdown during which the database answers writes every open: from a state in which \<open>stop()\<close> has waited
  for the running flush, the process reaches the end of the store with nothing buffered and every counted open in the rows.
\<close>

theorem stop_writes_all:
  assumes "usage_reachable rows w" "ub_stopping (uw_buffer w) = AwaitingFlush" "ub_flushing (uw_buffer w) = None"
    and "\<forall>e \<in> set (ub_entries (uw_buffer w)). ue_count (snd e) \<le> max_safe_integer"
  shows "\<exists>w'. usage_step\<^sup>*\<^sup>* w w' \<and> ub_stopping (uw_buffer w') = StoreEnded \<and> ub_entries (uw_buffer w') = [] \<and>
     uw_counted w' = uw_counted w \<and> uw_unacknowledged w' = uw_unacknowledged w \<and> uw_lost w' = [] \<and>
     list_all2 (\<lambda>b b'. bm_id b' = bm_id b \<and>
         bm_open_count b' = bm_open_count b + opened_count (bm_id b) (uw_counted w') + opened_count (bm_id b) (uw_unacknowledged w'))
       rows (uw_rows w')"
proof -
  let ?u = "uw_buffer w"
  let ?left = "taken_of (ub_entries ?u)"
  let ?v = "w\<lparr>uw_buffer := stop_flushes ?u\<rparr>"
  have s1: "usage_step w ?v"
    by (rule step_stop_flushes) (use assms in auto)
  have ok: "entries_ok (ub_entries ?u)"
    using reachable_buffer_ok [OF assms(1)] by (simp add: buffer_ok_def)
  have "storable ?left"
    using taken_of_ok [OF ok] assms(4) by (auto simp: storable_def list_all_iff taken_of_def)
  then obtain rows' where s2: "usage_step\<^sup>*\<^sup>* ?v (?v\<lparr>uw_buffer := (uw_buffer ?v)\<lparr>ub_flushing := None\<rparr>, uw_rows := rows'\<rparr>)"
      (is "usage_step\<^sup>*\<^sup>* ?v ?x")
    using flush_loop [of ?v ?left] assms(3) by (auto simp: stop_flushes_def usage_flush_def)
  let ?y = "?x\<lparr>uw_buffer := stop_ends (uw_buffer ?x), uw_lost := taken_of (ub_entries (uw_buffer ?x))\<rparr>"
  have s3: "usage_step ?x ?y"
    by (rule step_stop_ends) (use assms(3) in \<open>auto simp: stop_flushes_def usage_flush_def\<close>)
  have run: "usage_step\<^sup>*\<^sup>* w ?y"
    using s1 s2 s3 by (meson converse_rtranclp_into_rtranclp rtranclp.rtrancl_into_rtrancl)
  have y: "ub_stopping (uw_buffer ?y) = StoreEnded" "ub_entries (uw_buffer ?y) = []" "ub_flushing (uw_buffer ?y) = None"
      "uw_counted ?y = uw_counted w" "uw_unacknowledged ?y = uw_unacknowledged w" "uw_lost ?y = []"
    using assms(3) by (simp_all add: stop_flushes_def usage_flush_def stop_ends_def)
  have "usage_reachable rows ?y"
    using run assms(1) by (induction rule: rtranclp_induct) (auto intro: usage_next)
  then have "list_all2 (row_accounts ?y) rows (uw_rows ?y)"
    by (rule reachable_accounts)
  moreover have "pending_count i (uw_buffer ?y) = 0" for i
    unfolding pending_count_def in_flight_def y(2,3) by simp
  ultimately have "list_all2 (\<lambda>b b'. bm_id b' = bm_id b \<and>
      bm_open_count b' = bm_open_count b + opened_count (bm_id b) (uw_counted ?y) + opened_count (bm_id b) (uw_unacknowledged ?y)) rows (uw_rows ?y)"
    by (auto elim!: list_all2_mono simp: row_accounts_def)
  then show ?thesis using run y by blast
qed

section \<open>A concrete run\<close>

definition example_bookmark :: "string \<Rightarrow> bookmark_row" where
  "example_bookmark i =
     \<lparr>bm_id = i, bm_workspace_id = ''w'', bm_owner_id = None, bm_url = ''https://a/'', bm_url_canonical = ''https://a/'',
      bm_host = ''a'', bm_title = ''A'', bm_description = None, bm_slug = None, bm_forwarding = False, bm_pinned_at = None,
      bm_plan_archived_at = None, bm_open_count = 2, bm_last_opened_at = Some 5, bm_version = 1, bm_created_at = 0\<rparr>"

definition example_stopping :: usage_world where
  "example_stopping =
     \<lparr>uw_buffer = usage_stop (usage_record ''b'' 9 createUsageBuffer), uw_rows = [example_bookmark ''b''],
      uw_counted = [\<lparr>oc_bookmarkId = ''b'', oc_count = 1, oc_lastOpenedAt = 9\<rparr>], uw_unacknowledged = [], uw_lost = [], uw_refused = False\<rparr>"

lemma example_stopping_reachable: "usage_reachable [example_bookmark ''b''] example_stopping"
proof -
  let ?w0 = "\<lparr>uw_buffer = createUsageBuffer, uw_rows = [example_bookmark ''b''], uw_counted = [], uw_unacknowledged = [], uw_lost = [], uw_refused = False\<rparr>"
  let ?w1 = "?w0\<lparr>uw_buffer := usage_record ''b'' 9 (uw_buffer ?w0), uw_counted := counted (uw_buffer ?w0) ''b'' 9 @ uw_counted ?w0\<rparr>"
  have "usage_reachable [example_bookmark ''b''] ?w1"
    by (rule usage_next [OF usage_init step_record])
  then have "usage_reachable [example_bookmark ''b''] (?w1\<lparr>uw_buffer := usage_stop (uw_buffer ?w1)\<rparr>)"
    by (rule usage_next [OF _ step_stop])
  then show ?thesis
    by (simp add: example_stopping_def counted_def createUsageBuffer_def)
qed

theorem opens_accounted_witness:
  "\<exists>b' \<in> set (uw_rows example_stopping). bm_id b' = ''b'' \<and> bm_open_count b' + 1 = 3"
  using opens_accounted [OF example_stopping_reachable, of "example_bookmark ''b''"]
  by (auto simp: example_stopping_def example_bookmark_def waiting_count_def pending_count_def in_flight_def usage_record_def usage_stop_def
      createUsageBuffer_def uuid_cast_def js_lower_def js_lower_char_def code_unit_def)

theorem stop_writes_all_witness:
  "\<exists>w'. usage_step\<^sup>*\<^sup>* example_stopping w' \<and> ub_stopping (uw_buffer w') = StoreEnded \<and> ub_entries (uw_buffer w') = []"
proof -
  have "ub_stopping (uw_buffer example_stopping) = AwaitingFlush" "ub_flushing (uw_buffer example_stopping) = None"
      "\<forall>e \<in> set (ub_entries (uw_buffer example_stopping)). ue_count (snd e) \<le> max_safe_integer"
    by (simp_all add: example_stopping_def usage_stop_def usage_record_def createUsageBuffer_def max_safe_integer_def)
  from stop_writes_all [OF example_stopping_reachable this] show ?thesis by blast
qed

end
