(* ===== verification/GoDb.thy ===== *)
theory GoDb
  imports GoLaws Usage
begin

text \<open>
  The store of the slug services on the database: \<open>packages/db/src/repositories/go.ts\<close>, the two reads of
  \<open>packages/db/src/repositories/bookmarks.ts\<close> the availability uses, and the system operations
  \<open>sys_go_other_workspaces\<close> and \<open>sys_go_suggest\<close> of \<open>packages/db/src/sql/\<close>. A transaction runs as one step. The row-level
  policies repeat the workspace and account conditions of these statements and are written out where they restrict
  more (the accounts a member sees). \<open>name_key\<close> is the sort key of the database's default collation;
  \<open>COLLATE "C"\<close> is the order of the code units, and so is the order of identifiers. The interpretation at the end gives the services
  everything \<open>GoLaws\<close> proves.
\<close>

record go_world =
  gw_db :: tables
  gw_usage :: usage_buffer

section \<open>Rows\<close>

text \<open>The condition of the candidate scan: the slug in the workspace, forwarding and not plan-archived.\<close>

definition forwards_slug :: "string \<Rightarrow> string \<Rightarrow> bookmark_row \<Rightarrow> bool" where
  "forwards_slug w slug b \<longleftrightarrow> bm_workspace_id b = w \<and> bm_slug b = Some slug \<and> bm_forwarding b"

definition scanned :: "string \<Rightarrow> string \<Rightarrow> bookmark_row \<Rightarrow> bool" where
  "scanned w slug b \<longleftrightarrow> forwards_slug w slug b \<and> bm_plan_archived_at b = None"

definition candidate_of :: "tables \<Rightarrow> string \<Rightarrow> bookmark_row \<Rightarrow> go_candidate" where
  "candidate_of db a b =
     \<lparr>gc_id = bm_id b, gc_ownerId = bm_owner_id b, gc_url = bm_url b, gc_access = the (bookmarkAccessOf db a b)\<rparr>"

definition candidatesStatement :: "tables \<Rightarrow> string \<Rightarrow> string \<Rightarrow> string \<Rightarrow> go_candidate list" where
  "candidatesStatement db a w slug =
     map (candidate_of db a) (filter (bookmarkReadableBy db a) (filter (scanned w slug) (bookmarks db)))"

definition preference_of_slug :: "string \<Rightarrow> string \<Rightarrow> string \<Rightarrow> slug_preference_row \<Rightarrow> bool" where
  "preference_of_slug w a slug p \<longleftrightarrow> preference_key p = (w, a, slug)"

definition remembered_choice :: "tables \<Rightarrow> string \<Rightarrow> string \<Rightarrow> string \<Rightarrow> string option" where
  "remembered_choice db w a slug = map_option sp_bookmark_id (find (preference_of_slug w a slug) (slug_preferences db))"

text \<open>The policies of \<open>accounts\<close>: the own row, and those of the members of the workspace.\<close>

definition account_visible :: "tables \<Rightarrow> string \<Rightarrow> string \<Rightarrow> account_row \<Rightarrow> bool" where
  "account_visible db a w acct \<longleftrightarrow>
     ac_id acct = a \<or> list_ex (\<lambda>m. wm_workspace_id m = w \<and> wm_account_id m = ac_id acct) (workspace_members db)"

definition owner_name :: "tables \<Rightarrow> (account_row \<Rightarrow> bool) \<Rightarrow> string option \<Rightarrow> string option" where
  "owner_name db visible ownerId =
     (case ownerId of
        None \<Rightarrow> None
      | Some i \<Rightarrow> map_option ac_display_name (find (\<lambda>acct. ac_id acct = i \<and> visible acct) (accounts db)))"

definition summary_of :: "tables \<Rightarrow> string \<Rightarrow> string \<Rightarrow> bookmark_row \<Rightarrow> go_bookmark_summary" where
  "summary_of db a w b =
     \<lparr>gs_id = bm_id b, gs_title = bm_title b, gs_host = bm_host b, gs_ownerId = bm_owner_id b,
      gs_ownerName = owner_name db (account_visible db a w) (bm_owner_id b)\<rparr>"

section \<open>The methods of goRepository\<close>

text \<open>A method of the repository: the identifiers of the transaction, checked, in the form the database compares.\<close>

definition in_workspace :: "tenant_tx \<Rightarrow> string \<Rightarrow> (string \<Rightarrow> (go_world, 'r) tx) \<Rightarrow> (go_world, 'r) tx" where
  "in_workspace tx action f = tx_bind (requireWorkspace tx action) (\<lambda>w. f (uuid_cast w))"

definition as_account :: "tenant_tx \<Rightarrow> string \<Rightarrow> string \<Rightarrow> (string \<Rightarrow> (go_world, 'r) tx) \<Rightarrow> (go_world, 'r) tx" where
  "as_account tx accountId action f = tx_bind (requireAccount tx accountId action) (\<lambda>_. f (uuid_cast accountId))"

definition query :: "(tables \<Rightarrow> 'r) \<Rightarrow> (go_world, 'r) tx" where
  "query q s = Inr (q (gw_db s), s)"

definition db_candidates :: "tenant_tx \<Rightarrow> string \<Rightarrow> string \<Rightarrow> (go_world, go_candidate_set) tx" where
  "db_candidates tx slug accountId =
     in_workspace tx ''resolving a slug'' (\<lambda>w. as_account tx accountId ''resolves a slug'' (\<lambda>a.
       query (\<lambda>db. \<lparr>gcs_candidates = candidatesStatement db a w slug, gcs_preferredId = remembered_choice db w a slug\<rparr>)))"

definition db_summaries :: "tenant_tx \<Rightarrow> string list \<Rightarrow> (go_world, go_bookmark_summary list) tx" where
  "db_summaries tx ids =
     in_workspace tx ''reading the summaries of bookmarks'' (\<lambda>w.
       tx_bind (requireIdentifiers ids ''reading the summaries of bookmarks'') (\<lambda>_.
         if ids = [] then tx_return []
         else let a = uuid_cast (tx_accountId tx)
              in query (\<lambda>db. map (summary_of db a w)
                   (filter (\<lambda>b. bm_workspace_id b = w \<and> bm_id b \<in> set (map uuid_cast ids) \<and> bookmarkReadableBy db a b)
                     (bookmarks db)))))"

definition is_chosen :: "tables \<Rightarrow> string \<Rightarrow> string \<Rightarrow> string \<Rightarrow> string \<Rightarrow> bookmark_row \<Rightarrow> bool" where
  "is_chosen db a w slug bookmarkId b \<longleftrightarrow> scanned w slug b \<and> bm_id b = bookmarkId \<and> bookmarkReadableBy db a b"

text \<open>
  \<open>INSERT \<dots> ON CONFLICT DO UPDATE\<close> of the preference, with the table's constraints: the slug pattern and the key of
  the membership. Two chosen rows would touch one preference twice, which the statement refuses.
\<close>

fun upsert_preference :: "slug_preference_row \<Rightarrow> slug_preference_row list \<Rightarrow> slug_preference_row list" where
  "upsert_preference p [] = [p]"
| "upsert_preference p (q # qs) =
     (if preference_key q = preference_key p then q\<lparr>sp_bookmark_id := sp_bookmark_id p\<rparr> # qs
      else q # upsert_preference p qs)"

definition is_member :: "tables \<Rightarrow> string \<Rightarrow> string \<Rightarrow> bool" where
  "is_member db w a \<longleftrightarrow> list_ex (\<lambda>m. wm_workspace_id m = w \<and> wm_account_id m = a) (workspace_members db)"

definition remember_statement ::
    "string \<Rightarrow> string \<Rightarrow> string \<Rightarrow> string \<Rightarrow> tables \<Rightarrow> js_error + (bool \<times> tables)" where
  "remember_statement w a slug bookmarkId db =
     (case filter (is_chosen db a w slug bookmarkId) (bookmarks db) of
        [] \<Rightarrow> Inr (False, db)
      | [b] \<Rightarrow>
          if \<not> isValidSlug slug then Inl (NamedError ''PostgresError'' ''23514'')
          else if \<not> is_member db w a then Inl (NamedError ''PostgresError'' ''23503'')
          else Inr (True, db\<lparr>slug_preferences := upsert_preference
                 \<lparr>sp_workspace_id = w, sp_account_id = a, sp_slug = slug, sp_bookmark_id = bm_id b\<rparr> (slug_preferences db)\<rparr>)
      | _ \<Rightarrow> Inl (NamedError ''PostgresError'' ''21000''))"

definition statement :: "(tables \<Rightarrow> js_error + ('r \<times> tables)) \<Rightarrow> (go_world, 'r) tx" where
  "statement f s = (case f (gw_db s) of Inl e \<Rightarrow> Inl e | Inr (r, db) \<Rightarrow> Inr (r, s\<lparr>gw_db := db\<rparr>))"

definition db_remember :: "tenant_tx \<Rightarrow> string \<Rightarrow> string \<Rightarrow> string \<Rightarrow> (go_world, bool) tx" where
  "db_remember tx slug bookmarkId accountId =
     in_workspace tx ''remembering a choice'' (\<lambda>w. as_account tx accountId ''remembers a choice'' (\<lambda>a.
       tx_bind (requireIdentifiers [bookmarkId] ''remembering a choice'') (\<lambda>_.
         statement (remember_statement w a slug (uuid_cast bookmarkId)))))"

text \<open>Deleting the preferences a condition picks; the answer is whether exactly one was.\<close>

definition delete_preferences :: "(slug_preference_row \<Rightarrow> bool) \<Rightarrow> tables \<Rightarrow> js_error + (bool \<times> tables)" where
  "delete_preferences picked db =
     Inr (length (filter picked (slug_preferences db)) = 1,
          db\<lparr>slug_preferences := filter (\<lambda>p. \<not> picked p) (slug_preferences db)\<rparr>)"

definition still_named :: "tables \<Rightarrow> string \<Rightarrow> string \<Rightarrow> string \<Rightarrow> string \<Rightarrow> bool" where
  "still_named db a w slug bookmarkId \<longleftrightarrow>
     list_ex (\<lambda>b. forwards_slug w slug b \<and> bm_id b = bookmarkId \<and> bookmarkReadableBy db a b) (bookmarks db)"

definition db_forgetStale :: "tenant_tx \<Rightarrow> string \<Rightarrow> string \<Rightarrow> string \<Rightarrow> (go_world, bool) tx" where
  "db_forgetStale tx slug bookmarkId accountId =
     in_workspace tx ''forgetting a stale choice'' (\<lambda>w. as_account tx accountId ''forgets a stale choice'' (\<lambda>a.
       tx_bind (requireIdentifiers [bookmarkId] ''forgetting a stale choice'') (\<lambda>_.
         statement (\<lambda>db. delete_preferences
           (\<lambda>p. preference_of_slug w a slug p \<and> sp_bookmark_id p = uuid_cast bookmarkId \<and>
              \<not> still_named db a w slug (uuid_cast bookmarkId)) db))))"

definition db_forgetPreference :: "tenant_tx \<Rightarrow> string \<Rightarrow> string \<Rightarrow> (go_world, bool) tx" where
  "db_forgetPreference tx slug accountId =
     in_workspace tx ''forgetting a choice'' (\<lambda>w. as_account tx accountId ''forgets a choice'' (\<lambda>a.
       statement (delete_preferences (preference_of_slug w a slug))))"

text \<open>The inner join of the listing: a preference with the bookmark that is still a candidate of its slug.\<close>

definition preference_rows :: "tables \<Rightarrow> string \<Rightarrow> string \<Rightarrow> go_preference_record list" where
  "preference_rows db w a =
     concat (map (\<lambda>p. map (\<lambda>b. \<lparr>pr_slug = sp_slug p, pr_bookmarkId = bm_id b, pr_title = bm_title b, pr_host = bm_host b,
                                pr_ownerId = bm_owner_id b, pr_ownerName = owner_name db (account_visible db a w) (bm_owner_id b)\<rparr>)
                  (filter (\<lambda>b. scanned (sp_workspace_id p) (sp_slug p) b \<and> bm_id b = sp_bookmark_id p \<and> bookmarkReadableBy db a b)
                    (bookmarks db)))
       (filter (\<lambda>p. sp_workspace_id p = w \<and> sp_account_id p = a) (slug_preferences db)))"

definition db_listPreferences :: "tenant_tx \<Rightarrow> string \<Rightarrow> string option \<Rightarrow> nat \<Rightarrow> (go_world, go_preference_record list) tx" where
  "db_listPreferences tx accountId afterSlug limit =
     in_workspace tx ''listing the remembered choices'' (\<lambda>w. as_account tx accountId ''lists the remembered choices'' (\<lambda>a.
       tx_bind (tx_require (1 \<le> limit) (JsError ''listing the remembered choices takes a positive whole limit'')) (\<lambda>_.
         query (\<lambda>db. take limit (sort_key pr_slug
           (filter (\<lambda>r. case afterSlug of None \<Rightarrow> True | Some s \<Rightarrow> s < pr_slug r) (preference_rows db w a)))))))"

section \<open>sys_go_other_workspaces\<close>

text \<open>The access rule as the system operations write it: five \<open>EXISTS\<close> over the shares of the bookmark.\<close>

definition in_teams :: "tables \<Rightarrow> string \<Rightarrow> string \<Rightarrow> string option \<Rightarrow> bool" where
  "in_teams db w a target \<longleftrightarrow>
     sql_in target (map tm_team_id (filter (\<lambda>t. tm_workspace_id t = w \<and> tm_account_id t = a) (team_members db)))"

definition shared_folder_of :: "tables \<Rightarrow> bookmark_row \<Rightarrow> (folder_share_row \<Rightarrow> bool) \<Rightarrow> bool" where
  "shared_folder_of db b picked \<longleftrightarrow>
     list_ex (\<lambda>fb. fb_workspace_id fb = bm_workspace_id b \<and> fb_bookmark_id fb = bm_id b \<and>
       list_ex (\<lambda>fs. fs_workspace_id fs = fb_workspace_id fb \<and> fs_folder_id fs = fb_folder_id fb \<and> picked fs) (folder_shares db))
       (folder_bookmarks db)"

definition sql_readable :: "tables \<Rightarrow> string \<Rightarrow> bookmark_row \<Rightarrow> bool" where
  "sql_readable db a b \<longleftrightarrow>
     bm_owner_id b = Some a \<or>
     list_ex (\<lambda>s. bs_workspace_id s = bm_workspace_id b \<and> bs_bookmark_id s = bm_id b \<and> bs_target_account_id s = Some a)
       (bookmark_shares db) \<or>
     list_ex (\<lambda>s. bs_workspace_id s = bm_workspace_id b \<and> bs_bookmark_id s = bm_id b \<and>
                  in_teams db (bm_workspace_id b) a (bs_target_team_id s)) (bookmark_shares db) \<or>
     shared_folder_of db b (\<lambda>fs. fs_target_account_id fs = Some a) \<or>
     shared_folder_of db b (\<lambda>fs. in_teams db (bm_workspace_id b) a (fs_target_team_id fs))"

text \<open>\<open>CROSS JOIN LATERAL (\<dots> LIMIT 1)\<close> keeps a membership whose workspace has a readable bookmark, once.\<close>

definition other_workspaces :: "tables \<Rightarrow> string \<Rightarrow> string \<Rightarrow> string \<Rightarrow> workspace_row list" where
  "other_workspaces db a current slug =
     concat (map (\<lambda>m. filter (\<lambda>w. ws_id w = wm_workspace_id m \<and> ws_deleting_at w = None) (workspaces db))
       (filter (\<lambda>m. wm_account_id m = a \<and> wm_workspace_id m \<noteq> current \<and>
                    list_ex (\<lambda>b. scanned (wm_workspace_id m) slug b \<and> sql_readable db a b) (bookmarks db))
         (workspace_members db)))"

definition sys_go_other_workspaces :: "(string \<Rightarrow> string) \<Rightarrow> tables \<Rightarrow> string \<Rightarrow> string \<Rightarrow> string \<Rightarrow> workspace_row list" where
  "sys_go_other_workspaces name_key db a current slug =
     take 20 (sort_key (\<lambda>w. (name_key (ws_name w), ws_id w)) (other_workspaces db a current slug))"

definition db_otherWorkspaces ::
    "(string \<Rightarrow> string) \<Rightarrow> tenant_tx \<Rightarrow> string \<Rightarrow> string \<Rightarrow> (go_world, go_workspace list) tx" where
  "db_otherWorkspaces name_key tx slug accountId =
     in_workspace tx ''looking for a slug in other workspaces'' (\<lambda>w.
       as_account tx accountId ''looks for a slug in other workspaces'' (\<lambda>a.
         query (\<lambda>db. map (\<lambda>x. \<lparr>gw_id = ws_id x, gw_name = ws_name x\<rparr>) (sys_go_other_workspaces name_key db a w slug))))"

section \<open>sys_go_suggest\<close>

text \<open>\<open>LIKE\<close> with the backslash as escape: \<open>%\<close> matches any run of characters, \<open>_\<close> any one.\<close>

fun sql_like :: "string \<Rightarrow> string \<Rightarrow> bool" where
  "sql_like [] s = (s = [])"
| "sql_like (c # p) s =
     (if c = CHR ''%'' then list_ex (sql_like p) (suffixes s)
      else if c = CHR ''_'' then (case s of [] \<Rightarrow> False | _ # s' \<Rightarrow> sql_like p s')
      else if c = CHR 0x5C then
        (case p of [] \<Rightarrow> False | d # p' \<Rightarrow> (case s of [] \<Rightarrow> False | x # s' \<Rightarrow> x = d \<and> sql_like p' s'))
      else (case s of [] \<Rightarrow> False | x # s' \<Rightarrow> x = c \<and> sql_like p s'))"

definition like_special :: "char \<Rightarrow> bool" where
  "like_special c \<longleftrightarrow> c = CHR ''%'' \<or> c = CHR ''_'' \<or> c = CHR 0x5C"

text \<open>The three nested \<open>replace\<close> calls: each of the special characters behind a backslash.\<close>

definition like_escape :: "string \<Rightarrow> string" where
  "like_escape p = concat (map (\<lambda>c. if like_special c then [CHR 0x5C, c] else [c]) p)"

definition sql_btrim :: "string \<Rightarrow> string" where
  "sql_btrim s = rev (dropWhile (\<lambda>c. c = CHR '' '') (rev (dropWhile (\<lambda>c. c = CHR '' '') s)))"

definition suggestible :: "string \<Rightarrow> string \<Rightarrow> bookmark_row \<Rightarrow> bool" where
  "suggestible w pattern b \<longleftrightarrow>
     bm_workspace_id b = w \<and> (case bm_slug b of None \<Rightarrow> False | Some s \<Rightarrow> sql_like (pattern @ ''%'') s) \<and>
     bm_forwarding b \<and> bm_plan_archived_at b = None"

definition bookmark_slug :: "bookmark_row \<Rightarrow> string" where
  "bookmark_slug b = (case bm_slug b of None \<Rightarrow> [] | Some s \<Rightarrow> s)"

definition slug_order :: "bookmark_row \<Rightarrow> string \<times> string" where
  "slug_order b = (bookmark_slug b, bm_id b)"

text \<open>The common table expression \<open>via\<close> joined with the bookmarks: \<open>DISTINCT ON\<close> keeps the first route of a bookmark.\<close>

definition suggest_own :: "tables \<Rightarrow> string \<Rightarrow> string \<Rightarrow> string \<Rightarrow> (bookmark_row \<times> go_access) list" where
  "suggest_own db w a pattern =
     map (\<lambda>b. (b, AccOwner)) (take 10 (sort_key slug_order
       (filter (\<lambda>b. bm_owner_id b = Some a \<and> suggestible w pattern b) (bookmarks db))))"

definition suggest_shared :: "tables \<Rightarrow> string \<Rightarrow> string \<Rightarrow> string \<Rightarrow> (bookmark_row \<times> go_access) list" where
  "suggest_shared db w a pattern =
     (let grants = grantsTo db a w
      in take 10 (sort_key (\<lambda>(b, _). slug_order b)
           (concat (map (\<lambda>b. case first_via grants (bm_id b) of None \<Rightarrow> [] | Some v \<Rightarrow> [(b, v)])
             (filter (\<lambda>b. bm_owner_id b \<noteq> Some a \<and> suggestible w pattern b) (bookmarks db))))))"

definition suggestion_row :: "tables \<Rightarrow> bookmark_row \<times> go_access \<Rightarrow> go_suggestion_record" where
  "suggestion_row db ba =
     (let b = fst ba in
      \<lparr>sr_bookmarkId = bm_id b, sr_slug = bookmark_slug b, sr_title = bm_title b, sr_host = bm_host b,
       sr_ownerId = bm_owner_id b, sr_ownerName = owner_name db (\<lambda>_. True) (bm_owner_id b), sr_access = snd ba\<rparr>)"

definition suggestion_order :: "go_suggestion_record \<Rightarrow> bool \<times> string \<times> string" where
  "suggestion_order r = (sr_access r \<noteq> AccOwner, sr_slug r, sr_bookmarkId r)"

definition sys_go_suggest :: "tables \<Rightarrow> string \<Rightarrow> string \<Rightarrow> string \<Rightarrow> go_suggestion_record list" where
  "sys_go_suggest db w a p =
     (let v = js_lower (sql_btrim p); pattern = like_escape v
      in if v = [] then []
         else take 10 (sort_key suggestion_order
                (map (suggestion_row db) (suggest_own db w a pattern @ suggest_shared db w a pattern))))"

definition SUGGEST_MAX :: nat where
  "SUGGEST_MAX = 10"

definition db_suggest :: "tenant_tx \<Rightarrow> string \<Rightarrow> string \<Rightarrow> nat \<Rightarrow> (go_world, go_suggestion_record list) tx" where
  "db_suggest tx p accountId limit =
     in_workspace tx ''suggesting slugs'' (\<lambda>w. as_account tx accountId ''asks for suggestions'' (\<lambda>a.
       tx_bind (tx_require (1 \<le> limit \<and> limit \<le> SUGGEST_MAX) (JsError ''suggesting slugs takes a whole limit from 1 to 10'')) (\<lambda>_.
         query (\<lambda>db. take limit (sort_key suggestion_order (sys_go_suggest db w a p))))))"

section \<open>The reads of the availability\<close>

definition db_find :: "tenant_tx \<Rightarrow> string \<Rightarrow> (go_world, found_bookmark option) tx" where
  "db_find tx bookmarkId =
     in_workspace tx ''reading a bookmark'' (\<lambda>w.
       let a = uuid_cast (tx_accountId tx)
       in query (\<lambda>db. map_option (\<lambda>b. \<lparr>found_id = bm_id b, found_ownerId = bm_owner_id b\<rparr>)
            (find (\<lambda>b. bm_workspace_id b = w \<and> bm_id b = uuid_cast bookmarkId \<and> bm_plan_archived_at b = None \<and>
                       bookmarkReadableBy db a b) (bookmarks db))))"

definition slug_uses :: "tables \<Rightarrow> string \<Rightarrow> string \<Rightarrow> string \<Rightarrow> string option \<Rightarrow> slug_use" where
  "slug_uses db w a slug except =
     (let named = filter (\<lambda>b. bm_workspace_id b = w \<and> bm_slug b = Some slug) (bookmarks db)
      in \<lparr>su_takenByOwner = length (filter (\<lambda>b. bm_owner_id b = Some a \<and> Some (bm_id b) \<noteq> except) named) > 0,
          su_othersUseCount =
            length (filter (\<lambda>b. bm_owner_id b \<noteq> Some a \<and> bm_plan_archived_at b = None \<and> bookmarkReadableBy db a b) named)\<rparr>)"

definition db_slugUse :: "tenant_tx \<Rightarrow> string \<Rightarrow> string \<Rightarrow> string option \<Rightarrow> (go_world, slug_use) tx" where
  "db_slugUse tx slug ownerId exceptBookmarkId =
     in_workspace tx ''reading the use of a slug'' (\<lambda>w. as_account tx ownerId ''reads the use of a slug for itself'' (\<lambda>a.
       query (\<lambda>db. slug_uses db w a slug (map_option uuid_cast exceptBookmarkId))))"

section \<open>The stores\<close>

definition goRepository :: "(string \<Rightarrow> string) \<Rightarrow> tenant_tx \<Rightarrow> go_world go_store" where
  "goRepository name_key tx =
     \<lparr>st_candidates = db_candidates tx, st_summaries = db_summaries tx, st_otherWorkspaces = db_otherWorkspaces name_key tx,
      st_remember = db_remember tx, st_forgetStale = db_forgetStale tx\<rparr>"

definition goPreferences :: "tenant_tx \<Rightarrow> go_world go_preference_store" where
  "goPreferences tx = \<lparr>st_listPreferences = db_listPreferences tx, st_forgetPreference = db_forgetPreference tx\<rparr>"

definition slugStore :: "tenant_tx \<Rightarrow> go_world slug_availability_store" where
  "slugStore tx = \<lparr>st_slugUse = db_slugUse tx, st_find = db_find tx\<rparr>"

text \<open>\<open>usage.record\<close>, at a time of the process's clock.\<close>

definition record_open :: "nat \<Rightarrow> string \<Rightarrow> (go_world, unit) tx" where
  "record_open now bookmarkId s = Inr ((), s\<lparr>gw_usage := usage_record bookmarkId now (gw_usage s)\<rparr>)"

end
