(* ===== verification/GoDbLaws.thy ===== *)
theory GoDbLaws
  imports GoDb
begin

text \<open>
  The repository keeps to the contract of the slug services: the interpretation of the locales of \<open>GoLaws\<close> on
  \<open>GoDb\<close>, for the transaction of any account and workspace, and what follows for the program.
\<close>

section \<open>Lists of rows\<close>

lemma find_filter: "find P (filter Q xs) = find (\<lambda>x. Q x \<and> P x) xs"
  by (induction xs) auto

lemma find_cong_set: "\<forall>x \<in> set xs. P x = Q x \<Longrightarrow> find P xs = find Q xs"
  by (induction xs) auto

lemma map_of_map_find: "map_of (map (\<lambda>x. (k x, f x)) xs) i = map_option f (find (\<lambda>x. k x = i) xs)"
  by (induction xs) auto

lemma map_of_rev_distinct: "distinct (map fst xs) \<Longrightarrow> map_of (rev xs) = map_of xs"
  by (rule map_of_inject_set [THEN iffD2]) (simp_all add: rev_map [symmetric])

lemma filter_single:
  assumes "distinct (map f xs)" "x \<in> set xs" "P x" "\<And>y. P y \<Longrightarrow> f y = f x"
  shows "filter P xs = [x]"
  using assms(1,2)
proof (induction xs)
  case (Cons y ys)
  have fresh: "f y \<notin> f ` set ys"
    using Cons.prems(1) by simp
  show ?case
  proof (cases "y = x")
    case True
    have "\<not> P z" if "z \<in> set ys" for z
      using fresh imageI [OF that, of f] assms(4) [of z] True by metis
    then show ?thesis
      using True assms(3) by (simp add: filter_empty_conv)
  next
    case False
    then have "x \<in> set ys" using Cons.prems(2) by simp
    then have "\<not> P y"
      using fresh imageI [of x "set ys" f] assms(4) [of y] by metis
    then show ?thesis using Cons.IH Cons.prems(1) \<open>x \<in> set ys\<close> by simp
  qed
qed simp

lemma find_filtered: "find P xs = (case filter P xs of [] \<Rightarrow> None | x # _ \<Rightarrow> Some x)"
  by (induction xs) auto

lemma find_unique:
  assumes "distinct (map f xs)" "x \<in> set xs" "P x" "\<And>y. P y \<Longrightarrow> f y = f x"
  shows "find P xs = Some x"
  by (simp add: find_filtered filter_single [of f xs x P, OF assms])

section \<open>What an account may resolve to\<close>

definition go_candidate_row :: "tables \<Rightarrow> string \<Rightarrow> string \<Rightarrow> string \<Rightarrow> bookmark_row \<Rightarrow> bool" where
  "go_candidate_row db a w slug b \<longleftrightarrow> b \<in> set (bookmarks db) \<and> scanned w slug b \<and> may_read db a b"

definition go_candidate_in :: "string \<Rightarrow> string \<Rightarrow> go_world \<Rightarrow> string \<Rightarrow> go_candidate \<Rightarrow> bool" where
  "go_candidate_in a w s slug c \<longleftrightarrow> (\<exists>b. go_candidate_row (gw_db s) a w slug b \<and> c = candidate_of (gw_db s) a b)"

definition go_summary_in :: "string \<Rightarrow> string \<Rightarrow> go_world \<Rightarrow> string \<Rightarrow> go_bookmark_summary option" where
  "go_summary_in a w s i =
     map_option (summary_of (gw_db s) a w)
       (find (\<lambda>b. bm_workspace_id b = w \<and> bm_id b = i \<and> may_read (gw_db s) a b) (bookmarks (gw_db s)))"

definition go_remembered_in :: "string \<Rightarrow> string \<Rightarrow> go_world \<Rightarrow> string \<Rightarrow> string option" where
  "go_remembered_in a w s slug = remembered_choice (gw_db s) w a slug"

definition go_names_in :: "string \<Rightarrow> string \<Rightarrow> go_world \<Rightarrow> string \<Rightarrow> string \<Rightarrow> bool" where
  "go_names_in a w s slug i \<longleftrightarrow>
     (\<exists>b \<in> set (bookmarks (gw_db s)). forwards_slug w slug b \<and> bm_id b = i \<and> may_read (gw_db s) a b)"

text \<open>Two states of a transaction that differ in nothing but the preferences and the usage.\<close>

definition same_rows :: "go_world \<Rightarrow> go_world \<Rightarrow> bool" where
  "same_rows s s' \<longleftrightarrow> gw_db s' = gw_db s\<lparr>slug_preferences := slug_preferences (gw_db s')\<rparr>"

definition uses_of :: "go_world \<Rightarrow> string \<Rightarrow> nat" where
  "uses_of s i = (case map_of (ub_entries (gw_usage s)) i of None \<Rightarrow> 0 | Some e \<Rightarrow> ue_count e)"

text \<open>The constraints of the tables, the form of identifiers, the membership the transaction acts by, and a server that is not stopping.\<close>

definition identifier_ok :: "string \<Rightarrow> bool" where
  "identifier_ok i \<longleftrightarrow> uuid_pattern i \<and> js_lower i = i"

definition go_db_ok :: "tables \<Rightarrow> bool" where
  "go_db_ok db \<longleftrightarrow> keys_ok db \<and>
     (\<forall>b \<in> set (bookmarks db). identifier_ok (bm_id b) \<and> (case bm_slug b of None \<Rightarrow> True | Some s \<Rightarrow> isValidSlug s)) \<and>
     (\<forall>p \<in> set (slug_preferences db). identifier_ok (sp_bookmark_id p))"

definition go_ok :: "string \<Rightarrow> string \<Rightarrow> go_world \<Rightarrow> bool" where
  "go_ok a w s \<longleftrightarrow> go_db_ok (gw_db s) \<and> is_member (gw_db s) w a \<and> ub_stopping (gw_usage s) = Running"

abbreviation tenant :: "string \<Rightarrow> string \<Rightarrow> tenant_tx" where
  "tenant accountId workspaceId \<equiv> \<lparr>tx_accountId = accountId, tx_workspaceId = Some workspaceId\<rparr>"

lemma may_read_frame: "may_read (db\<lparr>slug_preferences := ps\<rparr>) a b \<longleftrightarrow> may_read db a b"
  by (simp add: may_read_def shared_directly_def shared_by_folder_def targets_iff member_of_team_def)

lemma bookmarkAccessOf_frame: "bookmarkAccessOf (db\<lparr>slug_preferences := ps\<rparr>) a b = bookmarkAccessOf db a b"
  by (simp add: bookmarkAccessOf_def grantsTo_def teamsOfAccount_def filed_in_shared_def)

lemma summary_of_frame: "summary_of (db\<lparr>slug_preferences := ps\<rparr>) a w b = summary_of db a w b"
proof -
  have "account_visible (db\<lparr>slug_preferences := ps\<rparr>) a w = account_visible db a w"
    by (rule ext) (simp add: account_visible_def)
  then show ?thesis by (simp add: summary_of_def owner_name_def split: option.split)
qed

lemma same_rows_frame:
  assumes "same_rows s s'"
  shows "go_candidate_in a w s' = go_candidate_in a w s" "go_summary_in a w s' = go_summary_in a w s"
proof -
  obtain ps where ps: "gw_db s' = gw_db s\<lparr>slug_preferences := ps\<rparr>"
    using assms by (metis same_rows_def)
  show "go_candidate_in a w s' = go_candidate_in a w s"
    by (intro ext) (simp add: go_candidate_in_def go_candidate_row_def ps may_read_frame candidate_of_def bookmarkAccessOf_frame)
  show "go_summary_in a w s' = go_summary_in a w s"
    by (intro ext) (simp add: go_summary_in_def ps may_read_frame summary_of_frame [abs_def])
qed

lemma same_rows_refl: "same_rows s s"
  by (simp add: same_rows_def)

lemma same_rows_trans: "same_rows s s' \<Longrightarrow> same_rows s' s'' \<Longrightarrow> same_rows s s''"
  by (cases "gw_db s"; cases "gw_db s'"; cases "gw_db s''") (simp add: same_rows_def)

section \<open>The reads\<close>

lemma candidatesStatement_set:
  "set (candidatesStatement (gw_db s) a w slug) = {c. go_candidate_in a w s slug c}"
  by (auto simp: candidatesStatement_def go_candidate_in_def go_candidate_row_def bookmarkReadableBy_iff)

lemma candidatesStatement_distinct:
  "keys_ok db \<Longrightarrow> distinct (map gc_id (candidatesStatement db a w slug))"
  by (simp add: candidatesStatement_def candidate_of_def comp_def keys_ok_def distinct_map_filter)

lemma db_candidates_ok:
  "db_candidates (tenant acc ws) slug (js_lower acc) s =
     Inr (\<lparr>gcs_candidates = candidatesStatement (gw_db s) (js_lower acc) (js_lower ws) slug,
           gcs_preferredId = remembered_choice (gw_db s) (js_lower ws) (js_lower acc) slug\<rparr>, s)"
  by (simp add: db_candidates_def in_workspace_def as_account_def requireWorkspace_def requireAccount_def query_def uuid_cast_def)

lemma candidate_identifier:
  assumes "go_ok a w s" "go_candidate_in a w s slug c"
  shows "identifier_ok (gc_id c)" "isValidSlug slug"
  using assms
  by (auto simp: go_ok_def go_db_ok_def go_candidate_in_def go_candidate_row_def candidate_of_def scanned_def forwards_slug_def)

lemma candidate_summary:
  assumes "go_ok a w s" "go_candidate_in a w s slug c"
  shows "go_summary_in a w s (gc_id c) \<noteq> None"
  using assms
  by (auto simp: go_candidate_in_def go_candidate_row_def candidate_of_def scanned_def forwards_slug_def go_summary_in_def
      find_None_iff)

lemma summary_map_filter:
  assumes "distinct (map bm_id bs)"
  shows "summary_map (map (summary_of db a w) (filter P bs)) i =
     map_option (summary_of db a w) (find (\<lambda>b. P b \<and> bm_id b = i) bs)"
proof -
  let ?f = "\<lambda>b. (bm_id b, summary_of db a w b)"
  have "distinct (map fst (map ?f (filter P bs)))"
    using assms by (simp add: comp_def distinct_map_filter)
  then have "summary_map (map (summary_of db a w) (filter P bs)) = map_of (map ?f (filter P bs))"
    using map_of_rev_distinct [of "map ?f (filter P bs)"]
    by (simp add: summary_map_def summary_of_def comp_def)
  then show ?thesis by (simp add: map_of_map_find find_filter)
qed

lemma db_summaries_ok:
  assumes ok: "go_ok (js_lower acc) (js_lower ws) s"
    and cs: "\<forall>c \<in> set cs. go_candidate_in (js_lower acc) (js_lower ws) s slug c"
  shows "\<exists>ms. db_summaries (tenant acc ws) (map gc_id cs) s = Inr (ms, s) \<and>
     (\<forall>c \<in> set cs. summary_map ms (gc_id c) = go_summary_in (js_lower acc) (js_lower ws) s (gc_id c) \<and>
        go_summary_in (js_lower acc) (js_lower ws) s (gc_id c) \<noteq> None)"
proof (cases "cs = []")
  case False
  let ?a = "js_lower acc" and ?w = "js_lower ws"
  let ?P = "\<lambda>b. bm_workspace_id b = ?w \<and> bm_id b \<in> set (map uuid_cast (map gc_id cs)) \<and> bookmarkReadableBy (gw_db s) ?a b"
  let ?ms = "map (summary_of (gw_db s) ?a ?w) (filter ?P (bookmarks (gw_db s)))"
  have ids: "identifier_ok (gc_id c)" if "c \<in> set cs" for c
    using candidate_identifier [OF ok] cs that by blast
  have cast: "uuid_cast (gc_id c) = gc_id c" if "c \<in> set cs" for c
    using ids [OF that] by (simp add: identifier_ok_def uuid_cast_def)
  have "list_all uuid_pattern (map gc_id cs)"
    using ids by (auto simp: list_all_iff identifier_ok_def)
  then have run: "db_summaries (tenant acc ws) (map gc_id cs) s = Inr (?ms, s)"
    using False
    by (simp add: db_summaries_def in_workspace_def requireWorkspace_def requireIdentifiers_def query_def Let_def uuid_cast_def)
  have "summary_map ?ms (gc_id c) = go_summary_in ?a ?w s (gc_id c)" if c: "c \<in> set cs" for c
  proof -
    have "find (\<lambda>b. ?P b \<and> bm_id b = gc_id c) (bookmarks (gw_db s)) =
        find (\<lambda>b. bm_workspace_id b = ?w \<and> bm_id b = gc_id c \<and> may_read (gw_db s) ?a b) (bookmarks (gw_db s))"
      using c cast by (intro find_cong_set) (auto simp: bookmarkReadableBy_iff image_iff intro!: bexI [of _ c])
    moreover have "distinct (map bm_id (bookmarks (gw_db s)))"
      using ok by (simp add: go_ok_def go_db_ok_def keys_ok_def)
    ultimately show ?thesis
      using summary_map_filter [of "bookmarks (gw_db s)" "gw_db s" ?a ?w ?P "gc_id c"]
      by (simp add: go_summary_in_def)
  qed
  then show ?thesis
    using run candidate_summary [OF ok] cs by blast
qed (simp add: db_summaries_def in_workspace_def requireWorkspace_def requireIdentifiers_def)

lemma candidate_access:
  assumes "go_candidate_in a w s slug c"
  shows "gc_access c = AccOwner \<longleftrightarrow> gc_ownerId c = Some a"
proof -
  obtain b where b: "may_read (gw_db s) a b" "c = candidate_of (gw_db s) a b"
    using assms by (auto simp: go_candidate_in_def go_candidate_row_def)
  obtain v where v: "bookmarkAccessOf (gw_db s) a b = Some v"
    using b(1) bookmarkAccessOf_None_iff by (metis option.exhaust)
  have "v = AccOwner \<longleftrightarrow> bm_owner_id b = Some a"
  proof (cases "bm_owner_id b = Some a")
    case False
    then have "first_via (grantsTo (gw_db s) a (bm_workspace_id b)) (bm_id b) = Some v"
      using v by (simp add: bookmarkAccessOf_def)
    then have "granted_via (gw_db s) a (bm_workspace_id b) (bm_id b) v"
      by (simp only: grantsTo_iff [symmetric] first_via_SomeD)
    then show ?thesis using False by (cases v) auto
  qed (use v in \<open>simp add: bookmarkAccessOf_def\<close>)
  then show ?thesis using b(2) v by (simp add: candidate_of_def)
qed

section \<open>The writes\<close>

lemma preference_of_slug_iff: "preference_of_slug w a slug p \<longleftrightarrow> preference_key p = (w, a, slug)"
  by (simp add: preference_of_slug_def)

lemma upsert_find:
  "find (\<lambda>p. preference_key p = k) (upsert_preference q ps) =
     (if preference_key q = k
      then Some (case find (\<lambda>p. preference_key p = k) ps of None \<Rightarrow> q | Some p \<Rightarrow> p\<lparr>sp_bookmark_id := sp_bookmark_id q\<rparr>)
      else find (\<lambda>p. preference_key p = k) ps)"
  by (induction q ps rule: upsert_preference.induct) (auto simp: preference_key_def)

lemma upsert_keys: "map preference_key (upsert_preference q ps) =
    (if preference_key q \<in> set (map preference_key ps) then map preference_key ps else map preference_key ps @ [preference_key q])"
  by (induction q ps rule: upsert_preference.induct) (auto simp: preference_key_def)

lemma upsert_set: "p \<in> set (upsert_preference q ps) \<Longrightarrow> p = q \<or> p \<in> set ps \<or> sp_bookmark_id p = sp_bookmark_id q"
  by (induction q ps rule: upsert_preference.induct) (auto split: if_splits)

lemma remembered_upsert:
  "remembered_choice (db\<lparr>slug_preferences := upsert_preference
       \<lparr>sp_workspace_id = w, sp_account_id = a, sp_slug = slug, sp_bookmark_id = i\<rparr> (slug_preferences db)\<rparr>) w a =
     (remembered_choice db w a)(slug \<mapsto> i)"
proof (rule ext)
  fix slug'
  let ?p = "\<lparr>sp_workspace_id = w, sp_account_id = a, sp_slug = slug, sp_bookmark_id = i\<rparr>"
  have "preference_key ?p = (w, a, slug)"
    by (simp add: preference_key_def)
  then show "remembered_choice (db\<lparr>slug_preferences := upsert_preference ?p (slug_preferences db)\<rparr>) w a slug' =
      ((remembered_choice db w a)(slug \<mapsto> i)) slug'"
    using upsert_find [of "(w, a, slug')" ?p "slug_preferences db"]
    by (auto simp: remembered_choice_def preference_of_slug_iff [abs_def] split: option.split)
qed

lemma go_ok_prefs:
  assumes ok: "go_ok a w s" and distinct: "distinct (map preference_key ps)"
    and ids: "\<forall>p \<in> set ps. identifier_ok (sp_bookmark_id p)"
  shows "go_ok a w (s\<lparr>gw_db := gw_db s\<lparr>slug_preferences := ps\<rparr>\<rparr>)"
  using assms by (simp add: go_ok_def go_db_ok_def keys_ok_def is_member_def)

lemma db_remember_ok:
  assumes ok: "go_ok (js_lower acc) (js_lower ws) s" and c: "go_candidate_in (js_lower acc) (js_lower ws) s slug c"
  shows "\<exists>s'. db_remember (tenant acc ws) slug (gc_id c) (js_lower acc) s = Inr (True, s') \<and>
     go_ok (js_lower acc) (js_lower ws) s' \<and> same_rows s s' \<and>
     go_remembered_in (js_lower acc) (js_lower ws) s' = (go_remembered_in (js_lower acc) (js_lower ws) s)(slug \<mapsto> gc_id c) \<and>
     uses_of s' = uses_of s"
proof -
  let ?a = "js_lower acc" and ?w = "js_lower ws" and ?db = "gw_db s"
  obtain b where b: "b \<in> set (bookmarks ?db)" "scanned ?w slug b" "may_read ?db ?a b" "gc_id c = bm_id b"
    using c by (auto simp: go_candidate_in_def go_candidate_row_def candidate_of_def)
  have id: "identifier_ok (bm_id b)" "isValidSlug slug"
    using candidate_identifier [OF ok c] b(4) by simp_all
  let ?p = "\<lparr>sp_workspace_id = ?w, sp_account_id = ?a, sp_slug = slug, sp_bookmark_id = bm_id b\<rparr>"
  let ?ps = "upsert_preference ?p (slug_preferences ?db)"
  let ?s' = "s\<lparr>gw_db := ?db\<lparr>slug_preferences := ?ps\<rparr>\<rparr>"
  have "filter (is_chosen ?db ?a ?w slug (bm_id b)) (bookmarks ?db) = [b]"
    by (rule filter_single [of bm_id])
       (use ok b in \<open>auto simp: go_ok_def go_db_ok_def keys_ok_def is_chosen_def bookmarkReadableBy_iff\<close>)
  moreover have "is_member ?db ?w ?a"
    using ok by (simp add: go_ok_def)
  ultimately have run: "db_remember (tenant acc ws) slug (gc_id c) ?a s = Inr (True, ?s')"
    using id b(4)
    by (simp add: db_remember_def in_workspace_def as_account_def requireWorkspace_def requireAccount_def requireIdentifiers_def
        identifier_ok_def statement_def remember_statement_def uuid_cast_def)
  have "go_ok ?a ?w ?s'"
    by (rule go_ok_prefs [OF ok])
       (use ok id in \<open>auto simp: upsert_keys go_ok_def go_db_ok_def keys_ok_def dest!: upsert_set\<close>)
  moreover have "go_remembered_in ?a ?w ?s' = (go_remembered_in ?a ?w s)(slug \<mapsto> gc_id c)"
    by (simp add: go_remembered_in_def [abs_def] remembered_upsert b(4))
  ultimately show ?thesis
    using run by (auto simp: same_rows_def uses_of_def [abs_def])
qed

lemma find_remove:
  assumes "distinct (map k ps)"
  shows "find (\<lambda>p. k p = x) (filter (\<lambda>p. \<not> (k p = y \<and> Q p)) ps) =
     (if x = y \<and> (\<exists>p \<in> set ps. k p = y \<and> Q p) then None else find (\<lambda>p. k p = x) ps)"
proof (cases "x = y \<and> (\<exists>p \<in> set ps. k p = y \<and> Q p)")
  case True
  then obtain p where p: "p \<in> set ps" "k p = x" "Q p" "x = y" by blast
  have "\<not> (\<not> (k q = y \<and> Q q) \<and> k q = x)" if "q \<in> set ps" for q
    using distinct_key_eq [OF assms that p(1)] p by auto
  then have "find (\<lambda>p. k p = x) (filter (\<lambda>p. \<not> (k p = y \<and> Q p)) ps) = None"
    unfolding find_filter by (simp only: find_None_iff) blast
  then show ?thesis using True by simp
next
  case False
  then show ?thesis
    unfolding find_filter by (auto intro!: find_cong_set)
qed

lemma db_forgetStale_ok:
  assumes ok: "go_ok (js_lower acc) (js_lower ws) s" and r: "go_remembered_in (js_lower acc) (js_lower ws) s slug = Some i"
  shows "\<exists>r s'. db_forgetStale (tenant acc ws) slug i (js_lower acc) s = Inr (r, s') \<and>
     go_ok (js_lower acc) (js_lower ws) s' \<and> same_rows s s' \<and>
     go_remembered_in (js_lower acc) (js_lower ws) s' =
       after_forget (go_names_in (js_lower acc) (js_lower ws) s slug) (go_remembered_in (js_lower acc) (js_lower ws) s) slug"
proof -
  let ?a = "js_lower acc" and ?w = "js_lower ws" and ?db = "gw_db s"
  let ?key = "(?w, ?a, slug)"
  obtain p where p: "find (preference_of_slug ?w ?a slug) (slug_preferences ?db) = Some p" "sp_bookmark_id p = i"
    using r by (auto simp: go_remembered_in_def remembered_choice_def)
  have mem: "p \<in> set (slug_preferences ?db)" "preference_key p = ?key"
    using find_SomeD [OF p(1)] by (auto simp: preference_of_slug_iff)
  have keys: "distinct (map preference_key (slug_preferences ?db))"
    using ok by (simp add: go_ok_def go_db_ok_def keys_ok_def)
  have id: "identifier_ok i"
    using ok mem p(2) by (auto simp: go_ok_def go_db_ok_def)
  let ?Q = "\<lambda>q. sp_bookmark_id q = i \<and> \<not> still_named ?db ?a ?w slug i"
  let ?ps = "filter (\<lambda>q. \<not> (preference_key q = ?key \<and> ?Q q)) (slug_preferences ?db)"
  let ?s' = "s\<lparr>gw_db := ?db\<lparr>slug_preferences := ?ps\<rparr>\<rparr>"
  have run: "\<exists>r. db_forgetStale (tenant acc ws) slug i ?a s = Inr (r, ?s')"
    using id
    by (simp add: db_forgetStale_def in_workspace_def as_account_def requireWorkspace_def requireAccount_def requireIdentifiers_def
        identifier_ok_def statement_def delete_preferences_def preference_of_slug_iff uuid_cast_def)
  have ok': "go_ok ?a ?w ?s'"
    by (rule go_ok_prefs [OF ok]) (use ok keys in \<open>auto simp: distinct_map_filter go_ok_def go_db_ok_def\<close>)
  have named: "go_names_in ?a ?w s slug i \<longleftrightarrow> still_named ?db ?a ?w slug i"
    by (auto simp: go_names_in_def still_named_def list_ex_iff bookmarkReadableBy_iff)
  have hit: "(\<exists>q \<in> set (slug_preferences ?db). preference_key q = ?key \<and> ?Q q) \<longleftrightarrow> \<not> still_named ?db ?a ?w slug i"
    using mem p(2) by blast
  have "remembered_choice (gw_db ?s') ?w ?a slug' =
      (if slug' = slug \<and> \<not> still_named ?db ?a ?w slug i then None else remembered_choice ?db ?w ?a slug')" for slug'
    using find_remove [OF keys, of "(?w, ?a, slug')" ?key ?Q] unfolding hit
    by (simp add: remembered_choice_def preference_of_slug_iff [abs_def])
  then have "go_remembered_in ?a ?w ?s' = after_forget (go_names_in ?a ?w s slug) (go_remembered_in ?a ?w s) slug"
    using r named by (intro ext) (auto simp: go_remembered_in_def [abs_def] after_forget_def)
  then show ?thesis
    using run ok' by (auto simp: same_rows_def)
qed

lemma map_of_keep:
  "map_of (keep b n t es) i =
     (if i = b
      then Some (case map_of es b of
             None \<Rightarrow> \<lparr>ue_count = n, ue_lastOpenedAt = t\<rparr>
           | Some e \<Rightarrow> e\<lparr>ue_count := ue_count e + n, ue_lastOpenedAt := max (ue_lastOpenedAt e) t\<rparr>)
      else map_of es i)"
  by (induction b n t es rule: keep.induct) auto

lemma record_open_ok:
  assumes "go_ok a w s"
  shows "\<exists>s'. record_open now i s = Inr ((), s') \<and> go_ok a w s' \<and> same_rows s s' \<and>
     go_remembered_in a w s' = go_remembered_in a w s \<and> uses_of s' = (uses_of s)(i := Suc (uses_of s i))"
proof -
  let ?s' = "s\<lparr>gw_usage := usage_record i now (gw_usage s)\<rparr>"
  have run: "ub_stopping (gw_usage s) = Running"
    using assms by (simp add: go_ok_def)
  have "uses_of ?s' = (uses_of s)(i := Suc (uses_of s i))"
    using run by (auto simp: fun_eq_iff uses_of_def usage_record_def map_of_keep split: option.split)
  moreover have "go_ok a w ?s'"
    using assms run by (simp add: go_ok_def usage_record_def)
  ultimately show ?thesis
    by (auto simp: record_open_def same_rows_def go_remembered_in_def [abs_def])
qed

section \<open>The contract holds\<close>

interpretation go_db: go_choose_laws "goRepository name_key (tenant acc ws)" "js_lower acc"
    "go_ok (js_lower acc) (js_lower ws)" "go_candidate_in (js_lower acc) (js_lower ws)"
    "go_summary_in (js_lower acc) (js_lower ws)" "go_remembered_in (js_lower acc) (js_lower ws)"
    "go_names_in (js_lower acc) (js_lower ws)" same_rows "record_open now" uses_of
  for name_key acc ws now
proof unfold_locales
  show "\<exists>found. st_candidates (goRepository name_key (tenant acc ws)) slug (js_lower acc) s = Inr (found, s) \<and>
      set (gcs_candidates found) = {c. go_candidate_in (js_lower acc) (js_lower ws) s slug c} \<and>
      distinct (map gc_id (gcs_candidates found)) \<and>
      gcs_preferredId found = go_remembered_in (js_lower acc) (js_lower ws) s slug"
    if "go_ok (js_lower acc) (js_lower ws) s" for s slug
    using that
    by (simp add: goRepository_def db_candidates_ok candidatesStatement_set candidatesStatement_distinct go_ok_def go_db_ok_def
        go_remembered_in_def)
  show "\<exists>ms. st_summaries (goRepository name_key (tenant acc ws)) (map gc_id cs) s = Inr (ms, s) \<and>
      (\<forall>c \<in> set cs. summary_map ms (gc_id c) = go_summary_in (js_lower acc) (js_lower ws) s (gc_id c) \<and>
         go_summary_in (js_lower acc) (js_lower ws) s (gc_id c) \<noteq> None)"
    if "go_ok (js_lower acc) (js_lower ws) s" "\<forall>c \<in> set cs. go_candidate_in (js_lower acc) (js_lower ws) s slug c" for s cs slug
    using db_summaries_ok [OF that] by (simp add: goRepository_def)
  show "\<exists>r s'. st_forgetStale (goRepository name_key (tenant acc ws)) slug i (js_lower acc) s = Inr (r, s') \<and>
      go_ok (js_lower acc) (js_lower ws) s' \<and> same_rows s s' \<and>
      go_remembered_in (js_lower acc) (js_lower ws) s' =
        after_forget (go_names_in (js_lower acc) (js_lower ws) s slug) (go_remembered_in (js_lower acc) (js_lower ws) s) slug"
    if "go_ok (js_lower acc) (js_lower ws) s" "go_remembered_in (js_lower acc) (js_lower ws) s slug = Some i" for s slug i
    using db_forgetStale_ok [OF that] by (simp add: goRepository_def)
  show "\<exists>s'. st_remember (goRepository name_key (tenant acc ws)) slug (gc_id c) (js_lower acc) s = Inr (True, s') \<and>
      go_ok (js_lower acc) (js_lower ws) s' \<and> same_rows s s' \<and>
      go_remembered_in (js_lower acc) (js_lower ws) s' =
        (go_remembered_in (js_lower acc) (js_lower ws) s)(slug \<mapsto> gc_id c) \<and> uses_of s' = uses_of s"
    if "go_ok (js_lower acc) (js_lower ws) s" "go_candidate_in (js_lower acc) (js_lower ws) s slug c" for s slug c
    using db_remember_ok [OF that] by (simp add: goRepository_def)
  show "uses_of s' = uses_of s"
    if "st_forgetStale (goRepository name_key (tenant acc ws)) slug i (js_lower acc) s = Inr (r, s')" for s slug i r s'
    using that
    by (auto simp: goRepository_def db_forgetStale_def in_workspace_def as_account_def statement_def delete_preferences_def
        tx_bind_Inr_iff uses_of_def [abs_def])
  show "go_names_in (js_lower acc) (js_lower ws) s slug (gc_id c)"
    if "go_candidate_in (js_lower acc) (js_lower ws) s slug c" for s slug c
    using that by (auto simp: go_names_in_def go_candidate_in_def go_candidate_row_def candidate_of_def scanned_def)
  show "js_lower (gc_id c) = gc_id c"
    if "go_ok (js_lower acc) (js_lower ws) s" "go_candidate_in (js_lower acc) (js_lower ws) s slug c" for s slug c
    using candidate_identifier [OF that] by (simp add: identifier_ok_def)
  show "gs_id m = i" if "go_summary_in (js_lower acc) (js_lower ws) s i = Some m" for s i m
    using that by (auto simp: go_summary_in_def summary_of_def dest!: find_SomeD)
  show "gc_access c = AccOwner \<longleftrightarrow> gc_ownerId c = Some (js_lower acc)"
    if "go_candidate_in (js_lower acc) (js_lower ws) s slug c" for s slug c
    by (rule candidate_access [OF that])
  show "\<exists>s'. record_open now i s = Inr ((), s') \<and> go_ok (js_lower acc) (js_lower ws) s' \<and> same_rows s s' \<and>
      go_remembered_in (js_lower acc) (js_lower ws) s' = go_remembered_in (js_lower acc) (js_lower ws) s \<and>
      uses_of s' = (uses_of s)(i := Suc (uses_of s i))"
    if "go_ok (js_lower acc) (js_lower ws) s" for s i
    by (rule record_open_ok [OF that])
  show "same_rows s s" for s
    by (rule same_rows_refl)
  show "go_candidate_in (js_lower acc) (js_lower ws) s' = go_candidate_in (js_lower acc) (js_lower ws) s \<and>
      go_summary_in (js_lower acc) (js_lower ws) s' = go_summary_in (js_lower acc) (js_lower ws) s"
    if "same_rows s s'" for s s'
    using same_rows_frame [OF that] by simp
  show "same_rows s s''" if "same_rows s s'" "same_rows s' s''" for s s' s''
    by (rule same_rows_trans [OF that])
qed

end
