(* ===== verification/GoProperties.thy ===== *)
theory GoProperties
  imports GoDbLaws
begin

text \<open>
  What the slug services do on the database: the facts of the interpretation \<open>go_db\<close> with their statements written out,
  and a concrete database on which they apply.
\<close>

section \<open>A concrete database\<close>

definition example_account :: string where
  "example_account = ''aaaaaaaa-0000-4000-8000-000000000001''"

definition example_owner :: string where
  "example_owner = ''aaaaaaaa-0000-4000-8000-000000000002''"

definition example_workspace :: string where
  "example_workspace = ''cccccccc-0000-4000-8000-000000000001''"

definition example_other :: string where
  "example_other = ''cccccccc-0000-4000-8000-000000000002''"

definition example_shared_id :: string where
  "example_shared_id = ''bbbbbbbb-0000-4000-8000-000000000001''"

definition example_row :: "string \<Rightarrow> string \<Rightarrow> string option \<Rightarrow> string \<Rightarrow> bookmark_row" where
  "example_row i w owner title =
     \<lparr>bm_id = i, bm_workspace_id = w, bm_owner_id = owner, bm_url = ''https://a.example/x/'',
      bm_url_canonical = ''https://a.example/x'', bm_host = ''a.example'', bm_title = title, bm_description = None,
      bm_slug = Some ''docs'', bm_forwarding = True, bm_pinned_at = None, bm_plan_archived_at = None, bm_open_count = 0,
      bm_last_opened_at = None, bm_version = 1, bm_created_at = 0\<rparr>"

text \<open>The account is shared one bookmark of a colleague in its workspace, remembers a choice that is gone, and has a bookmark in another workspace.\<close>

definition example_db :: tables where
  "example_db =
     \<lparr>bookmarks = [example_row example_shared_id example_workspace (Some example_owner) ''Docs'',
        example_row ''bbbbbbbb-0000-4000-8000-000000000002'' example_other (Some example_account) ''Mine''],
      bookmark_shares = [\<lparr>bs_id = ''dddddddd-0000-4000-8000-000000000001'', bs_workspace_id = example_workspace, bs_bookmark_id = example_shared_id,
        bs_target_account_id = Some example_account, bs_target_team_id = None, bs_granted_by = Some example_owner, bs_created_at = 0\<rparr>],
      folder_shares = [], folder_bookmarks = [], team_members = [],
      slug_preferences = [\<lparr>sp_workspace_id = example_workspace, sp_account_id = example_account, sp_slug = ''docs'',
        sp_bookmark_id = ''bbbbbbbb-0000-4000-8000-000000000009''\<rparr>],
      accounts = [\<lparr>ac_id = example_account, ac_display_name = ''Ada'', ac_email = ''ada@a.example''\<rparr>, \<lparr>ac_id = example_owner, ac_display_name = ''Olu'', ac_email = ''olu@a.example''\<rparr>],
      workspaces = [\<lparr>ws_id = example_workspace, ws_name = ''One'', ws_entitlement_version = 0, ws_bookmark_count = 1, ws_deleting_at = None\<rparr>,
        \<lparr>ws_id = example_other, ws_name = ''Two'', ws_entitlement_version = 0, ws_bookmark_count = 1, ws_deleting_at = None\<rparr>],
      workspace_members = [\<lparr>wm_workspace_id = example_workspace, wm_account_id = example_account, wm_role = RoleMember\<rparr>,
        \<lparr>wm_workspace_id = example_workspace, wm_account_id = example_owner, wm_role = RoleOwner\<rparr>,
        \<lparr>wm_workspace_id = example_other, wm_account_id = example_account, wm_role = RoleMember\<rparr>]\<rparr>"

definition example_world :: go_world where
  "example_world = \<lparr>gw_db = example_db, gw_usage = createUsageBuffer\<rparr>"

lemma example_ok: "go_ok (js_lower example_account) (js_lower example_workspace) example_world"
  by code_simp

lemma compareCodeUnits_collation: "collation_ok compareCodeUnits"
  by (auto simp: collation_ok_def compareCodeUnits_def)

section \<open>Resolution\<close>

text \<open>
  Claim C1: resolving a slug in a workspace never fails and follows the product's order: the remembered choice if it is
  one the account may still resolve to, else its own bookmark, else the only one shared with it, else all shared with it
  in the order of their titles, and nothing otherwise. It changes nothing but the remembered choice, which is forgotten
  exactly when its bookmark no longer has the slug, no longer forwards or is no longer readable (a plan-archived one is kept).
\<close>

theorem resolve_in_workspace_correct:
  assumes "go_ok (js_lower acc) (js_lower ws) s" "collation_ok cmp" "parseSlug text = Some slug"
  shows "\<exists>r s'. resolveInWorkspace cmp (goRepository name_key (tenant acc ws)) \<lparr>ask_accountId = acc, ask_slug = text\<rparr> s = Inr (r, s') \<and>
     resolves_to cmp (go_candidate_in (js_lower acc) (js_lower ws) s slug) (go_summary_in (js_lower acc) (js_lower ws) s)
       (go_remembered_in (js_lower acc) (js_lower ws) s slug) r \<and>
     same_rows s s' \<and>
     go_remembered_in (js_lower acc) (js_lower ws) s' =
       after_forget (go_names_in (js_lower acc) (js_lower ws) s slug) (go_remembered_in (js_lower acc) (js_lower ws) s) slug"
  using go_db.resolve_total [OF assms(1,2), of "\<lparr>ask_accountId = acc, ask_slug = text\<rparr>" slug name_key] assms(3) by auto

theorem resolve_in_workspace_correct_witness:
  "\<exists>r s'. resolveInWorkspace compareCodeUnits (goRepository id (tenant example_account example_workspace))
       \<lparr>ask_accountId = example_account, ask_slug = '' DOCS ''\<rparr> example_world = Inr (r, s') \<and>
     go_remembered_in (js_lower example_account) (js_lower example_workspace) s' ''docs'' = None"
proof -
  have slug: "parseSlug '' DOCS '' = Some ''docs''"
    by code_simp
  have gone: "go_names_in (js_lower example_account) (js_lower example_workspace) example_world ''docs''
       ''bbbbbbbb-0000-4000-8000-000000000009'' = False"
      "go_remembered_in (js_lower example_account) (js_lower example_workspace) example_world ''docs'' =
       Some ''bbbbbbbb-0000-4000-8000-000000000009''"
    by code_simp+
  show ?thesis
    using resolve_in_workspace_correct [OF example_ok compareCodeUnits_collation slug, of id] gone
    by (auto simp: after_forget_def)
qed

fun named_choices :: "go_workspace_resolution \<Rightarrow> go_choice list" where
  "named_choices ResNone = []"
| "named_choices (ResPreferred ch) = [ch]"
| "named_choices (ResSingle ch) = [ch]"
| "named_choices (ResMultiple chs) = chs"

lemma resolves_to_candidates: "resolves_to cmp cand summary p r \<Longrightarrow> ch \<in> set (named_choices r) \<Longrightarrow> \<exists>c. cand c \<and> ch = choice_for summary c"
  by (cases r) auto

lemma candidate_choice:
  assumes "go_ok a w s" "go_candidate_in a w s slug c"
  shows "\<exists>b \<in> set (bookmarks (gw_db s)). bm_workspace_id b = w \<and> bm_slug b = Some slug \<and> bm_forwarding b \<and>
     bm_plan_archived_at b = None \<and> may_read (gw_db s) a b \<and>
     ch_id (choice_for (go_summary_in a w s) c) = bm_id b \<and> ch_title (choice_for (go_summary_in a w s) c) = bm_title b"
proof -
  obtain b where b: "b \<in> set (bookmarks (gw_db s))" "scanned w slug b" "may_read (gw_db s) a b" "c = candidate_of (gw_db s) a b"
    using assms(2) by (auto simp: go_candidate_in_def go_candidate_row_def)
  have "find (\<lambda>x. bm_workspace_id x = w \<and> bm_id x = bm_id b \<and> may_read (gw_db s) a x) (bookmarks (gw_db s)) = Some b"
    by (rule find_unique [of bm_id])
       (use assms(1) b in \<open>auto simp: go_ok_def go_db_ok_def keys_ok_def scanned_def forwards_slug_def\<close>)
  then have "choice_for (go_summary_in a w s) c = choiceOf c (summary_of (gw_db s) a w b)"
    using b(4) by (simp add: choice_for_def go_summary_in_def candidate_of_def)
  then show ?thesis
    using b by (auto simp: choiceOf_def Let_def summary_of_def scanned_def forwards_slug_def)
qed

text \<open>
  Claim C2: a resolution names nothing but bookmarks of the workspace that have the slug, forward, are not plan-archived
  and that the account owns or that are shared with it, directly, through a team or through a folder.
\<close>

theorem resolution_names_only_readable:
  assumes ok: "go_ok (js_lower acc) (js_lower ws) s" and cmp: "collation_ok cmp" and slug: "parseSlug text = Some slug"
    and run: "resolveInWorkspace cmp (goRepository name_key (tenant acc ws)) \<lparr>ask_accountId = acc, ask_slug = text\<rparr> s = Inr (r, s')"
    and ch: "ch \<in> set (named_choices r)"
  shows "\<exists>b \<in> set (bookmarks (gw_db s)). bm_workspace_id b = js_lower ws \<and> bm_slug b = Some slug \<and> bm_forwarding b \<and>
     bm_plan_archived_at b = None \<and> may_read (gw_db s) (js_lower acc) b \<and> ch_id ch = bm_id b \<and> ch_title ch = bm_title b"
proof -
  have "resolves_to cmp (go_candidate_in (js_lower acc) (js_lower ws) s slug) (go_summary_in (js_lower acc) (js_lower ws) s)
      (go_remembered_in (js_lower acc) (js_lower ws) s slug) r"
    using go_db.resolve_total [OF ok cmp, of "\<lparr>ask_accountId = acc, ask_slug = text\<rparr>" slug name_key] slug run by auto
  from resolves_to_candidates [OF this ch] show ?thesis
    using candidate_choice [OF ok] by blast
qed

definition example_choice :: go_choice where
  "example_choice =
     \<lparr>ch_id = example_shared_id, ch_title = ''Docs'', ch_host = ''a.example'',
      ch_owner = Some \<lparr>go_accountId = example_owner, go_displayName = ''Olu''\<rparr>, ch_sharedVia = Some AccDirect\<rparr>"

definition example_resolved :: go_world where
  "example_resolved = example_world\<lparr>gw_db := example_db\<lparr>slug_preferences := []\<rparr>\<rparr>"

lemma example_run:
  "resolveInWorkspace compareCodeUnits (goRepository id (tenant example_account example_workspace))
     \<lparr>ask_accountId = example_account, ask_slug = ''docs''\<rparr> example_world = Inr (ResSingle example_choice, example_resolved)"
  by code_simp

theorem resolution_names_only_readable_witness: "\<exists>b \<in> set (bookmarks example_db). bm_title b = ''Docs''"
proof -
  have "parseSlug ''docs'' = Some ''docs''" by code_simp
  from resolution_names_only_readable [OF example_ok compareCodeUnits_collation this example_run, of example_choice]
  show ?thesis by (auto simp: example_choice_def example_world_def)
qed

section \<open>Navigation and choosing\<close>

text \<open>
  Claim C3: a navigation to a slug never fails; it is the resolution of the slug: several shared bookmarks are left to the
  member, one bookmark is forwarded to at its address in the normal form of an \<open>http\<close> or \<open>https\<close> URL with exactly
  one use counted for it, and in every other case nothing is counted. No preference is written but a stale one forgotten.
\<close>

theorem navigate_correct:
  assumes "go_ok (js_lower acc) (js_lower ws) s" "collation_ok cmp" "parseSlug text = Some slug"
  shows "\<exists>r out s'. navigateToSlug cmp parse (goRepository name_key (tenant acc ws)) (record_open now)
         \<lparr>ask_accountId = acc, ask_slug = text\<rparr> s = Inr (out, s') \<and>
     resolves_to cmp (go_candidate_in (js_lower acc) (js_lower ws) s slug) (go_summary_in (js_lower acc) (js_lower ws) s)
       (go_remembered_in (js_lower acc) (js_lower ws) s slug) r \<and>
     navigates parse (go_candidate_in (js_lower acc) (js_lower ws) s slug) (go_summary_in (js_lower acc) (js_lower ws) s)
       (uses_of s) r out (uses_of s') \<and>
     same_rows s s' \<and>
     go_remembered_in (js_lower acc) (js_lower ws) s' =
       after_forget (go_names_in (js_lower acc) (js_lower ws) s slug) (go_remembered_in (js_lower acc) (js_lower ws) s) slug"
  using go_db.navigate_total [OF assms(1,2), of "\<lparr>ask_accountId = acc, ask_slug = text\<rparr>" slug parse name_key now] assms(3)
  by auto

theorem navigate_correct_witness:
  "\<exists>out s'. navigateToSlug compareCodeUnits example_parser (goRepository id (tenant example_account example_workspace)) (record_open 7)
     \<lparr>ask_accountId = example_account, ask_slug = ''docs''\<rparr> example_world = Inr (out, s')"
proof -
  have "parseSlug ''docs'' = Some ''docs''" by code_simp
  from navigate_correct [OF example_ok compareCodeUnits_collation this] show ?thesis by blast
qed

text \<open>
  Claim C4: once a member has chosen a bookmark for a slug and asked to remember it, the slug resolves to that bookmark
  as the preferred one, however the slug is spelled.
\<close>

theorem chosen_bookmark_is_preferred:
  assumes "go_ok (js_lower acc) (js_lower ws) s" "collation_ok cmp" "parseSlug text = Some slug" "parseSlug text' = Some slug"
    and "chooseSlugBookmark parse (goRepository name_key (tenant acc ws)) (record_open now)
       \<lparr>cho_accountId = acc, cho_slug = text, cho_bookmarkId = i, cho_remember = True\<rparr> s = Inr (Chosen url, s')"
  shows "\<exists>ch s''. resolveInWorkspace cmp (goRepository name_key (tenant acc ws)) \<lparr>ask_accountId = acc, ask_slug = text'\<rparr> s' =
       Inr (ResPreferred ch, s'') \<and> ch_id ch = js_lower i"
  using go_db.remembered_choice_resolves [OF assms(1,2) _ _ _ assms(5), of slug "\<lparr>ask_accountId = acc, ask_slug = text'\<rparr>"] assms(3,4)
  by simp

lemma example_chosen:
  "\<exists>s'. chooseSlugBookmark example_parser (goRepository id (tenant example_account example_workspace)) (record_open 7)
     \<lparr>cho_accountId = example_account, cho_slug = ''docs'', cho_bookmarkId = example_shared_id, cho_remember = True\<rparr> example_world =
     Inr (Chosen ''https://a.example/x/'', s')"
proof -
  have "(case chooseSlugBookmark example_parser (goRepository id (tenant example_account example_workspace)) (record_open 7)
     \<lparr>cho_accountId = example_account, cho_slug = ''docs'', cho_bookmarkId = example_shared_id, cho_remember = True\<rparr> example_world of
     Inl _ \<Rightarrow> False | Inr (out, _) \<Rightarrow> out = Chosen ''https://a.example/x/'')"
    by code_simp
  then show ?thesis by (auto split: sum.splits)
qed

theorem chosen_bookmark_is_preferred_witness:
  "\<exists>s ch s''. resolveInWorkspace compareCodeUnits (goRepository id (tenant example_account example_workspace))
     \<lparr>ask_accountId = example_account, ask_slug = ''DOCS''\<rparr> s = Inr (ResPreferred ch, s'') \<and> ch_id ch = js_lower example_shared_id"
proof -
  have "parseSlug ''docs'' = Some ''docs''" "parseSlug ''DOCS'' = Some ''docs''" by code_simp+
  moreover obtain s' where "chooseSlugBookmark example_parser (goRepository id (tenant example_account example_workspace)) (record_open 7)
     \<lparr>cho_accountId = example_account, cho_slug = ''docs'', cho_bookmarkId = example_shared_id, cho_remember = True\<rparr> example_world =
     Inr (Chosen ''https://a.example/x/'', s')"
    using example_chosen by blast
  ultimately show ?thesis
    using chosen_bookmark_is_preferred [OF example_ok compareCodeUnits_collation] by blast
qed

end
