(* ===== verification/GoListings.thy ===== *)
theory GoListings
  imports GoProperties
begin

text \<open>
  The listings of the slug services: the other workspaces a miss names, the suggestions while a slug is typed, the pages of
  the remembered choices and the availability of a slug.
\<close>

section \<open>One access rule\<close>

lemma in_teams_iff: "in_teams db w a target \<longleftrightarrow> (\<exists>t. target = Some t \<and> member_of_team db w a t)"
  using sql_in_teams [of target db w a] by (simp add: in_teams_def teamsOfAccount_def)

lemma shared_folder_of_iff: "shared_folder_of db b picked \<longleftrightarrow>
    (\<exists>fs \<in> set (folder_shares db). \<exists>fb \<in> set (folder_bookmarks db). fs_workspace_id fs = bm_workspace_id b \<and>
       fb_workspace_id fb = bm_workspace_id b \<and> fb_folder_id fb = fs_folder_id fs \<and> fb_bookmark_id fb = bm_id b \<and> picked fs)"
proof
  assume "shared_folder_of db b picked"
  then obtain fb fs where "fb \<in> set (folder_bookmarks db)" "fs \<in> set (folder_shares db)" "fb_workspace_id fb = bm_workspace_id b"
      "fb_bookmark_id fb = bm_id b" "fs_workspace_id fs = fb_workspace_id fb" "fs_folder_id fs = fb_folder_id fb" "picked fs"
    by (auto simp: shared_folder_of_def list_ex_iff)
  then show "\<exists>fs \<in> set (folder_shares db). \<exists>fb \<in> set (folder_bookmarks db). fs_workspace_id fs = bm_workspace_id b \<and>
       fb_workspace_id fb = bm_workspace_id b \<and> fb_folder_id fb = fs_folder_id fs \<and> fb_bookmark_id fb = bm_id b \<and> picked fs"
    by (intro bexI [of _ fs] bexI [of _ fb]) simp_all
next
  assume "\<exists>fs \<in> set (folder_shares db). \<exists>fb \<in> set (folder_bookmarks db). fs_workspace_id fs = bm_workspace_id b \<and>
       fb_workspace_id fb = bm_workspace_id b \<and> fb_folder_id fb = fs_folder_id fs \<and> fb_bookmark_id fb = bm_id b \<and> picked fs"
  then show "shared_folder_of db b picked"
    unfolding shared_folder_of_def list_ex_iff by (elim bexE conjE) (intro bexI conjI; simp)
qed

lemma may_read_sql: "sql_readable db a b \<longleftrightarrow> may_read db a b"
proof -
  let ?w = "bm_workspace_id b"
  have direct: "shared_directly db a b \<longleftrightarrow>
      (\<exists>s \<in> set (bookmark_shares db). bs_workspace_id s = ?w \<and> bs_bookmark_id s = bm_id b \<and> bs_target_account_id s = Some a) \<or>
      (\<exists>s \<in> set (bookmark_shares db). bs_workspace_id s = ?w \<and> bs_bookmark_id s = bm_id b \<and> in_teams db ?w a (bs_target_team_id s))"
    unfolding shared_directly_def targets_iff in_teams_iff by blast
  have folder: "shared_by_folder db a b \<longleftrightarrow>
      shared_folder_of db b (\<lambda>fs. fs_target_account_id fs = Some a) \<or>
      shared_folder_of db b (\<lambda>fs. in_teams db ?w a (fs_target_team_id fs))"
    unfolding shared_by_folder_def shared_folder_of_iff targets_iff in_teams_iff by blast
  show ?thesis
    unfolding sql_readable_def may_read_def direct folder list_ex_iff by (simp only: disj_assoc)
qed

text \<open>Claim C22: the rule the system operations state in SQL picks the same bookmarks as the rule of the repositories.\<close>

theorem sql_access_rule_agrees: "sql_readable db a b \<longleftrightarrow> bookmarkReadableBy db a b"
  by (simp add: bookmarkReadableBy_iff may_read_sql)

section \<open>Other workspaces\<close>

text \<open>A workspace the account is a member of, other than the current one and not being deleted, in which the slug would resolve.\<close>

definition has_slug_elsewhere :: "tables \<Rightarrow> string \<Rightarrow> string \<Rightarrow> string \<Rightarrow> workspace_row \<Rightarrow> bool" where
  "has_slug_elsewhere db a current slug w \<longleftrightarrow>
     w \<in> set (workspaces db) \<and> ws_deleting_at w = None \<and> ws_id w \<noteq> current \<and>
     (\<exists>m \<in> set (workspace_members db). wm_account_id m = a \<and> wm_workspace_id m = ws_id w) \<and>
     (\<exists>b. go_candidate_row db a (ws_id w) slug b)"

lemma set_other_workspaces: "set (other_workspaces db a current slug) = {w. has_slug_elsewhere db a current slug w}"
proof -
  have slug: "list_ex (\<lambda>b. scanned w slug b \<and> sql_readable db a b) (bookmarks db) \<longleftrightarrow> (\<exists>b. go_candidate_row db a w slug b)" for w
    by (auto simp: list_ex_iff go_candidate_row_def may_read_sql)
  show ?thesis
  proof (intro set_eqI iffI)
    fix w assume "w \<in> set (other_workspaces db a current slug)"
    then show "w \<in> {w. has_slug_elsewhere db a current slug w}"
      by (auto simp: other_workspaces_def has_slug_elsewhere_def slug)
  next
    fix w assume "w \<in> {w. has_slug_elsewhere db a current slug w}"
    then obtain m where "m \<in> set (workspace_members db)" "wm_account_id m = a" "wm_workspace_id m = ws_id w" "ws_id w \<noteq> current"
        "w \<in> set (workspaces db)" "ws_deleting_at w = None" "\<exists>b. go_candidate_row db a (ws_id w) slug b"
      by (auto simp: has_slug_elsewhere_def)
    then show "w \<in> set (other_workspaces db a current slug)"
      unfolding other_workspaces_def slug set_concat set_map image_image
      by (intro UN_I [of m]) simp_all
  qed
qed

lemma sorted_take_key: "sorted (map f (take n (sort_key f xs)))"
  by (simp add: sorted_wrt_take flip: take_map)

text \<open>
  A slug that resolves to nothing is looked for in the account's other workspaces: the answer names at most
  twenty of them, in the order of their names, only ones that are not being deleted, that the account is a member of and
  in which it can read a bookmark the slug resolves to; and it names all of these unless there are twenty or more.
\<close>

theorem other_workspaces_exact:
  "\<exists>named. db_otherWorkspaces name_key (tenant acc ws) slug acc s =
       Inr (map (\<lambda>w. \<lparr>gw_id = ws_id w, gw_name = ws_name w\<rparr>) named, s) \<and>
     length named \<le> 20 \<and> sorted (map (\<lambda>w. (name_key (ws_name w), ws_id w)) named) \<and>
     set named \<subseteq> {w. has_slug_elsewhere (gw_db s) (js_lower acc) (js_lower ws) slug w} \<and>
     (length named = 20 \<or> set named = {w. has_slug_elsewhere (gw_db s) (js_lower acc) (js_lower ws) slug w})"
proof (intro exI conjI)
  let ?all = "other_workspaces (gw_db s) (js_lower acc) (js_lower ws) slug"
  let ?key = "\<lambda>w. (name_key (ws_name w), ws_id w)"
  let ?named = "take 20 (sort_key ?key ?all)"
  show "db_otherWorkspaces name_key (tenant acc ws) slug acc s =
      Inr (map (\<lambda>w. \<lparr>gw_id = ws_id w, gw_name = ws_name w\<rparr>) ?named, s)"
    by (simp add: db_otherWorkspaces_def in_workspace_def as_account_def requireWorkspace_def requireAccount_def query_def
        uuid_cast_def sys_go_other_workspaces_def)
  show "length ?named \<le> 20" by simp
  show "sorted (map ?key ?named)" by (rule sorted_take_key)
  show "set ?named \<subseteq> {w. has_slug_elsewhere (gw_db s) (js_lower acc) (js_lower ws) slug w}"
    using set_take_subset [of 20 "sort_key ?key ?all"] by (simp add: set_other_workspaces)
  show "length ?named = 20 \<or> set ?named = {w. has_slug_elsewhere (gw_db s) (js_lower acc) (js_lower ws) slug w}"
    by (cases "length ?all < 20") (simp_all add: set_other_workspaces)
qed

section \<open>Suggestions\<close>

text \<open>What the suggestions are drawn from: every bookmark the account can read whose slug begins with the prefix and resolves.\<close>

definition readable_suggestions :: "tables \<Rightarrow> string \<Rightarrow> string \<Rightarrow> string \<Rightarrow> go_suggestion_record list" where
  "readable_suggestions db w a p =
     concat (map (\<lambda>b. case bookmarkAccessOf db a b of None \<Rightarrow> [] | Some v \<Rightarrow> [suggestion_row db (b, v)])
       (filter (\<lambda>b. bm_workspace_id b = w \<and> bm_slug b \<noteq> None \<and> prefix p (bookmark_slug b) \<and> bm_forwarding b \<and>
                    bm_plan_archived_at b = None) (bookmarks db)))"

lemma like_escape_simps [simp]:
  "like_escape [] = []"
  "like_escape (c # p) = (if like_special c then [CHR 0x5C, c] else [c]) @ like_escape p"
  by (simp_all add: like_escape_def)

lemma like_escape_prefix: "sql_like (like_escape p @ ''%'') s \<longleftrightarrow> prefix p s"
proof (induction p arbitrary: s)
  case Nil
  show ?case by (auto simp: list_ex_iff intro!: bexI [of _ "[]"])
next
  case (Cons c p)
  then show ?case
    by (cases s) (auto simp: like_special_def)
qed

lemma suggestible_iff:
  "suggestible w (like_escape p) b \<longleftrightarrow>
     bm_workspace_id b = w \<and> bm_slug b \<noteq> None \<and> prefix p (bookmark_slug b) \<and> bm_forwarding b \<and> bm_plan_archived_at b = None"
  by (auto simp: suggestible_def like_escape_prefix bookmark_slug_def split: option.splits)

lemma insort_key_map: "insort_key f (g x) (map g xs) = map g (insort_key (\<lambda>y. f (g y)) x xs)"
  by (induction xs) auto

lemma sort_key_map: "sort_key f (map g xs) = map g (sort_key (\<lambda>y. f (g y)) xs)"
  by (induction xs) (simp_all add: insort_key_map)

lemma sort_key_stable_at: "filter (\<lambda>x. c = f x) (sort_key f xs) = filter (\<lambda>x. c = f x) xs"
  using sort_key_stable [of f c xs] by (simp only: eq_commute [of c])

lemma sort_key_split:
  assumes "\<forall>x \<in> set xs. \<forall>y \<in> set xs. P x \<longrightarrow> \<not> P y \<longrightarrow> f x < f y"
  shows "sort_key f xs = sort_key f (filter P xs) @ sort_key f (filter (\<lambda>x. \<not> P x) xs)"
proof (rule properties_for_sort_key)
  show "mset (sort_key f (filter P xs) @ sort_key f (filter (\<lambda>x. \<not> P x) xs)) = mset xs"
    by simp
next
  fix k assume "k \<in> set (sort_key f (filter P xs) @ sort_key f (filter (\<lambda>x. \<not> P x) xs))"
  then have k: "k \<in> set xs" by auto
  show "filter (\<lambda>x. f k = f x) (sort_key f (filter P xs) @ sort_key f (filter (\<lambda>x. \<not> P x) xs)) = filter (\<lambda>x. f k = f x) xs"
  proof (cases "P k")
    case True
    have "filter (\<lambda>x. f k = f x) (filter (\<lambda>x. \<not> P x) xs) = []"
      using assms k True by (fastforce simp: filter_empty_conv)
    moreover have "filter (\<lambda>x. f k = f x) (filter P xs) = filter (\<lambda>x. f k = f x) xs"
      unfolding filter_filter using assms k True by (intro filter_cong) fastforce+
    ultimately show ?thesis
      by (simp add: sort_key_stable_at del: filter_filter)
  next
    case False
    have "filter (\<lambda>x. f k = f x) (filter P xs) = []"
      using assms k False by (fastforce simp: filter_empty_conv)
    moreover have "filter (\<lambda>x. f k = f x) (filter (\<lambda>x. \<not> P x) xs) = filter (\<lambda>x. f k = f x) xs"
      unfolding filter_filter using assms k False by (intro filter_cong) fastforce+
    ultimately show ?thesis
      by (simp add: sort_key_stable_at del: filter_filter)
  qed
next
  show "sorted (map f (sort_key f (filter P xs) @ sort_key f (filter (\<lambda>x. \<not> P x) xs)))"
    using assms by (auto simp: sorted_append intro: less_imp_le)
qed

lemma sort_key_order_cong:
  assumes "\<forall>x \<in> set xs. \<forall>y \<in> set xs. f x \<le> f y \<longleftrightarrow> g x \<le> g y"
  shows "sort_key f xs = sort_key g xs"
proof -
  have insort: "insort_key f x ys = insort_key g x ys" if "\<forall>y \<in> set ys. f x \<le> f y \<longleftrightarrow> g x \<le> g y" for x ys
    using that by (induction ys) auto
  show ?thesis
    using assms
  proof (induction xs)
    case (Cons x xs)
    then show ?case using insort [of "sort_key g xs" x] by simp
  qed simp
qed

lemma sort_key_sorted: "sorted (map f xs) \<Longrightarrow> sort_key f xs = xs"
  by (rule sort_key_id_if_sorted)

lemma take_take_append: "take n (take n xs @ take n ys) = take n (xs @ ys)"
  by (simp add: min_def)

text \<open>Both limits of ten rows, before the union and after, are those of one list.\<close>

lemma take_sorted_parts:
  assumes "\<forall>x \<in> set xs. \<forall>y \<in> set ys. f x < f y"
  shows "take n (sort_key f (take n (sort_key f xs) @ take n (sort_key f ys))) = take n (sort_key f xs @ sort_key f ys)"
proof -
  have "sorted (map f (take n (sort_key f xs) @ take n (sort_key f ys)))"
    using assms sorted_take_key [of f n] by (auto simp: sorted_append dest!: in_set_takeD intro: less_imp_le)
  then show ?thesis by (simp only: sort_key_sorted take_take_append)
qed

definition own_rows :: "tables \<Rightarrow> string \<Rightarrow> string \<Rightarrow> string \<Rightarrow> go_suggestion_record list" where
  "own_rows db w a v =
     map (\<lambda>b. suggestion_row db (b, AccOwner)) (filter (\<lambda>b. bm_owner_id b = Some a \<and> suggestible w (like_escape v) b) (bookmarks db))"

definition shared_rows :: "tables \<Rightarrow> string \<Rightarrow> string \<Rightarrow> string \<Rightarrow> go_suggestion_record list" where
  "shared_rows db w a v =
     map (suggestion_row db) (concat (map (\<lambda>b. case first_via (grantsTo db a w) (bm_id b) of None \<Rightarrow> [] | Some v \<Rightarrow> [(b, v)])
       (filter (\<lambda>b. bm_owner_id b \<noteq> Some a \<and> suggestible w (like_escape v) b) (bookmarks db))))"

lemma first_via_not_owner: "first_via (grantsTo db a w) i = Some v \<Longrightarrow> v \<noteq> AccOwner"
  using first_via_SomeD grantsTo_iff by (metis granted_via.simps(1))

lemma suggestion_order_row [simp]: "suggestion_order (suggestion_row db (b, v)) = (v \<noteq> AccOwner, slug_order b)"
  by (simp add: suggestion_order_def suggestion_row_def Let_def slug_order_def)

lemma sr_access_row [simp]: "sr_access (suggestion_row db (b, v)) = v"
  by (simp add: suggestion_row_def Let_def)

lemma own_rows_sorted:
  "map (suggestion_row db) (suggest_own db w a (like_escape v)) = take 10 (sort_key suggestion_order (own_rows db w a v))"
proof -
  have "sort_key (\<lambda>b. (False, slug_order b)) bs = sort_key slug_order bs" for bs
    by (rule sort_key_order_cong) auto
  then show ?thesis
    by (simp add: suggest_own_def own_rows_def sort_key_map take_map comp_def)
qed

lemma shared_rows_sorted:
  "map (suggestion_row db) (suggest_shared db w a (like_escape v)) = take 10 (sort_key suggestion_order (shared_rows db w a v))"
proof -
  let ?xs = "concat (map (\<lambda>b. case first_via (grantsTo db a w) (bm_id b) of None \<Rightarrow> [] | Some v \<Rightarrow> [(b, v)])
       (filter (\<lambda>b. bm_owner_id b \<noteq> Some a \<and> suggestible w (like_escape v) b) (bookmarks db)))"
  have shared: "snd x \<noteq> AccOwner" if "x \<in> set ?xs" for x
    using that first_via_not_owner by (fastforce split: option.splits)
  have "sort_key (\<lambda>x. suggestion_order (suggestion_row db x)) ?xs = sort_key (\<lambda>(b, _). slug_order b) ?xs"
    by (rule sort_key_order_cong) (use shared in \<open>force simp: case_prod_beta\<close>)
  then show ?thesis
    by (simp add: suggest_shared_def shared_rows_def sort_key_map take_map)
qed

lemma readable_suggestions_parts:
  "filter (\<lambda>r. sr_access r = AccOwner) (readable_suggestions db w a v) = own_rows db w a v"
  "filter (\<lambda>r. sr_access r \<noteq> AccOwner) (readable_suggestions db w a v) = shared_rows db w a v"
proof -
  let ?row = "\<lambda>b. case bookmarkAccessOf db a b of None \<Rightarrow> [] | Some v \<Rightarrow> [suggestion_row db (b, v)]"
  let ?via = "\<lambda>b. case first_via (grantsTo db a w) (bm_id b) of None \<Rightarrow> [] | Some v \<Rightarrow> [(b, v)]"
  have own: "filter (\<lambda>r. sr_access r = AccOwner) (concat (map ?row (filter (suggestible w (like_escape v)) bs))) =
      map (\<lambda>b. suggestion_row db (b, AccOwner)) (filter (\<lambda>b. bm_owner_id b = Some a \<and> suggestible w (like_escape v) b) bs)" for bs
    by (induction bs)
       (auto simp: bookmarkAccessOf_def suggestible_iff split: option.splits dest: first_via_not_owner)
  have shared: "filter (\<lambda>r. sr_access r \<noteq> AccOwner) (concat (map ?row (filter (suggestible w (like_escape v)) bs))) =
      map (suggestion_row db) (concat (map ?via (filter (\<lambda>b. bm_owner_id b \<noteq> Some a \<and> suggestible w (like_escape v) b) bs)))" for bs
    by (induction bs)
       (auto simp: bookmarkAccessOf_def suggestible_iff split: option.splits dest: first_via_not_owner)
  show "filter (\<lambda>r. sr_access r = AccOwner) (readable_suggestions db w a v) = own_rows db w a v"
    using own [of "bookmarks db"] by (simp add: readable_suggestions_def own_rows_def suggestible_iff [abs_def])
  show "filter (\<lambda>r. sr_access r \<noteq> AccOwner) (readable_suggestions db w a v) = shared_rows db w a v"
    using shared [of "bookmarks db"] by (simp add: readable_suggestions_def shared_rows_def suggestible_iff [abs_def])
qed

lemma sys_go_suggest_eq:
  assumes "js_lower (sql_btrim p) = p" "p \<noteq> []"
  shows "sys_go_suggest db w a p = take 10 (sort_key suggestion_order (readable_suggestions db w a p))"
proof -
  have less: "\<forall>x \<in> set (own_rows db w a p). \<forall>y \<in> set (shared_rows db w a p). suggestion_order x < suggestion_order y"
    by (simp flip: readable_suggestions_parts add: suggestion_order_def)
  have "sort_key suggestion_order (readable_suggestions db w a p) =
      sort_key suggestion_order (own_rows db w a p) @ sort_key suggestion_order (shared_rows db w a p)"
    unfolding readable_suggestions_parts [symmetric]
    by (rule sort_key_split) (simp add: suggestion_order_def)
  then show ?thesis
    using assms take_sorted_parts [OF less, of 10]
    by (simp add: sys_go_suggest_def Let_def own_rows_sorted shared_rows_sorted)
qed

lemma sql_btrim_id: "no_edge_space p \<Longrightarrow> sql_btrim p = p"
proof -
  assume edge: "no_edge_space p"
  have space: "js_space (CHR '' '')" by code_simp
  have "dropWhile (\<lambda>c. c = CHR '' '') p = p"
    using edge space by (cases p) (auto simp: no_edge_space_def)
  moreover have "dropWhile (\<lambda>c. c = CHR '' '') (rev p) = rev p"
    using edge space by (cases p rule: rev_cases) (auto simp: no_edge_space_def)
  ultimately show ?thesis by (simp add: sql_btrim_def)
qed

lemma lookupPrefix_SomeD:
  assumes "lookupPrefix input = Some p"
  shows "p = normalizeSlug input" "p \<noteq> []" "js_lower (sql_btrim p) = p"
proof -
  show p: "p = normalizeSlug input" "p \<noteq> []"
    using assms by (auto simp: lookupPrefix_def Let_def split: if_splits)
  have "no_edge_space p"
    using js_trim_no_edge [of "js_lower input"] by (simp add: p normalizeSlug_def js_lower_trim)
  then show "js_lower (sql_btrim p) = p"
    using p(1) by (simp add: sql_btrim_id normalizeSlug_def)
qed

text \<open>
  Claim C20: the suggestions for what a member has typed are the first ten, own bookmarks first and then by slug, of all the
  bookmarks it can read whose slug begins with the normalised text (a percent sign or an underscore stands for itself),
  although the database takes ten own and ten shared ones before it merges them; text that cannot begin a slug has none.
\<close>

theorem suggestions_are_first_ten:
  "suggestSlugs (db_suggest (tenant acc ws)) acc input s =
     Inr (map suggestion_of
            (case lookupPrefix input of
               None \<Rightarrow> []
             | Some p \<Rightarrow> take 10 (sort_key suggestion_order (readable_suggestions (gw_db s) (js_lower ws) (js_lower acc) p))), s)"
proof (cases "lookupPrefix input")
  case None
  then show ?thesis by (simp add: suggestSlugs_def tx_return_def)
next
  case (Some p)
  let ?rows = "sort_key suggestion_order (readable_suggestions (gw_db s) (js_lower ws) (js_lower acc) p)"
  have "sort_key suggestion_order (take 10 ?rows) = take 10 ?rows"
    by (rule sort_key_sorted) (rule sorted_take_key)
  then have "db_suggest (tenant acc ws) p (js_lower acc) GO_SUGGEST_MAX s = Inr (take 10 ?rows, s)"
    using sys_go_suggest_eq [OF lookupPrefix_SomeD(3,2) [OF Some], of "gw_db s" "js_lower ws" "js_lower acc"]
    by (simp add: db_suggest_def in_workspace_def as_account_def requireWorkspace_def requireAccount_def query_def uuid_cast_def
        GO_SUGGEST_MAX_def SUGGEST_MAX_def)
  then show ?thesis
    using Some by (simp add: suggestSlugs_def tx_bind_def tx_return_def GO_SUGGEST_MAX_def)
qed

section \<open>The pages of the remembered choices\<close>

definition all_preferences :: "tables \<Rightarrow> string \<Rightarrow> string \<Rightarrow> go_preference_record list" where
  "all_preferences db w a = sort_key pr_slug (preference_rows db w a)"

lemma preference_row_of:
  assumes "go_db_ok db" "p \<in> set (slug_preferences db)"
  shows "length (filter (\<lambda>b. scanned (sp_workspace_id p) (sp_slug p) b \<and> bm_id b = sp_bookmark_id p \<and> bookmarkReadableBy db a b)
           (bookmarks db)) \<le> 1"
proof -
  let ?P = "\<lambda>b. scanned (sp_workspace_id p) (sp_slug p) b \<and> bm_id b = sp_bookmark_id p \<and> bookmarkReadableBy db a b"
  have d: "distinct (map bm_id (bookmarks db))"
    using assms by (simp add: go_db_ok_def keys_ok_def)
  show ?thesis
  proof (cases "filter ?P (bookmarks db)")
    case (Cons b bs)
    then have "b \<in> set (filter ?P (bookmarks db))"
      by (simp only: list.set_intros)
    then have b: "b \<in> set (bookmarks db)" "?P b"
      by simp_all
    have "filter ?P (bookmarks db) = [b]"
      by (rule filter_single [of bm_id, OF d b(1)]) (use b in auto)
    then show ?thesis by (simp only: list.size)
  qed simp
qed

lemma distinct_concat_single:
  assumes "distinct (map k ps)" "\<And>p r. p \<in> set ps \<Longrightarrow> r \<in> set (f p) \<Longrightarrow> h r = k p" "\<And>p. p \<in> set ps \<Longrightarrow> length (f p) \<le> 1"
  shows "distinct (map h (concat (map f ps)))"
  using assms
proof (induction ps)
  case (Cons p ps)
  have "length (f p) \<le> 1" using Cons.prems(3) [of p] by simp
  then have "distinct (map h (f p))"
    by (cases "f p") auto
  moreover have "h r \<noteq> h r'" if "r \<in> set (f p)" "q \<in> set ps" "r' \<in> set (f q)" for r r' q
    using Cons.prems(1) Cons.prems(2) [of p r] Cons.prems(2) [of q r'] that by auto
  ultimately show ?case using Cons by auto
qed simp

lemma preference_slugs_distinct:
  assumes "go_db_ok db"
  shows "distinct (map pr_slug (preference_rows db w a))"
  unfolding preference_rows_def
proof (rule distinct_concat_single [of sp_slug])
  have "distinct (map preference_key (slug_preferences db))"
    using assms by (simp add: go_db_ok_def keys_ok_def)
  then show "distinct (map sp_slug (filter (\<lambda>p. sp_workspace_id p = w \<and> sp_account_id p = a) (slug_preferences db)))"
    by (auto simp: distinct_map preference_key_def inj_on_def)
qed (use preference_row_of [OF assms] in auto)

lemma all_preferences_strict:
  assumes "go_db_ok db"
  shows "sorted_wrt (\<lambda>x y. pr_slug x < pr_slug y) (all_preferences db w a)"
proof -
  have "sorted_wrt (<) (map pr_slug (all_preferences db w a))"
    unfolding strict_sorted_iff all_preferences_def
    using preference_slugs_distinct [OF assms, of w a] by simp (metis distinct_map mset_map mset_eq_imp_distinct_iff mset_sort set_sort)
  then show ?thesis by (simp add: sorted_wrt_map)
qed

lemma all_preferences_valid:
  assumes "go_db_ok db" "r \<in> set (all_preferences db w a)"
  shows "isValidSlug (pr_slug r)"
  using assms
  by (auto simp: all_preferences_def preference_rows_def go_db_ok_def scanned_def forwards_slug_def split: option.splits)

lemma db_listPreferences_eq:
  "1 \<le> limit \<Longrightarrow> db_listPreferences (tenant acc ws) (js_lower acc) afterSlug limit s =
     Inr (take limit (filter (\<lambda>r. case afterSlug of None \<Rightarrow> True | Some c \<Rightarrow> c < pr_slug r)
            (all_preferences (gw_db s) (js_lower ws) (js_lower acc))), s)"
  by (simp add: db_listPreferences_def in_workspace_def as_account_def requireWorkspace_def requireAccount_def query_def
      uuid_cast_def all_preferences_def filter_sort)

lemma filter_after:
  assumes "sorted_wrt (\<lambda>x y. k x < (k y :: string)) xs" "0 < n" "n \<le> length xs"
  shows "filter (\<lambda>r. k (xs ! (n - 1)) < k r) xs = drop n xs"
proof -
  have lt: "k (xs ! i) < k (xs ! j)" if "i < j" "j < length xs" for i j
    using assms(1) that by (simp add: sorted_wrt_iff_nth_less)
  have "\<not> k (xs ! (n - 1)) < k r" if r: "r \<in> set (take n xs)" for r
  proof -
    obtain i where i: "i < n" "r = xs ! i"
      using r assms(3) by (auto simp: in_set_conv_nth)
    then show ?thesis
      using i lt [of i "n - 1"] assms(2,3) by (cases "i = n - 1") (simp_all add: not_less less_imp_le)
  qed
  then have front: "filter (\<lambda>r. k (xs ! (n - 1)) < k r) (take n xs) = []"
    by (simp only: filter_empty_conv) blast
  have "k (xs ! (n - 1)) < k r" if r: "r \<in> set (drop n xs)" for r
  proof -
    obtain i where i: "i < length (drop n xs)" "r = drop n xs ! i"
      using r unfolding in_set_conv_nth by blast
    then show ?thesis using lt [of "n - 1" "n + i"] assms(2) by simp
  qed
  then have rest: "filter (\<lambda>r. k (xs ! (n - 1)) < k r) (drop n xs) = drop n xs"
    by (simp only: filter_id_conv) blast
  show ?thesis
    using filter_append [of "\<lambda>r. k (xs ! (n - 1)) < k r" "take n xs" "drop n xs"]
    by (simp only: append_take_drop_id front rest append_Nil)
qed

text \<open>A client that follows the cursors, at most \<open>fuel\<close> pages of them.\<close>

fun preference_walk ::
    "nat \<Rightarrow> 's go_preference_store \<Rightarrow> go_cursors \<Rightarrow> go_preference_list_ask \<Rightarrow> 's \<Rightarrow> go_preference list option" where
  "preference_walk 0 store cursors ask s = Some []"
| "preference_walk (Suc fuel) store cursors ask s =
     (case listGoPreferences store cursors ask s of
        Inr (Listed page next, s') \<Rightarrow>
          (case next of
             None \<Rightarrow> Some page
           | Some c \<Rightarrow> map_option ((@) page) (preference_walk fuel store cursors (ask\<lparr>pl_cursor := Some c\<rparr>) s'))
      | _ \<Rightarrow> None)"

text \<open>The signed cursors of the server open for the scope they were sealed for.\<close>

definition cursors_ok :: "go_cursors \<Rightarrow> bool" where
  "cursors_ok cursors \<longleftrightarrow> (\<forall>slug scope. cur_open cursors (cur_seal cursors slug scope) scope = Some slug)"

lemma preference_page:
  assumes ok: "go_db_ok (gw_db s)" and limit: "1 \<le> pl_limit ask" and account: "pl_accountId ask = acc"
    and all: "all = all_preferences (gw_db s) (js_lower ws) (js_lower acc)" and n: "n \<le> length all"
    and at: "(n = 0 \<and> pl_cursor ask = None) \<or>
       (0 < n \<and> (\<exists>c. pl_cursor ask = Some c \<and> cur_open cursors c (cursorScope ask) = Some (pr_slug (all ! (n - 1)))))"
  shows "listGoPreferences (goPreferences (tenant acc ws)) cursors ask s =
     Inr (Listed (map (preference_of (js_lower acc)) (take (pl_limit ask) (drop n all)))
            (if pl_limit ask < length all - n
             then Some (cur_seal cursors (pr_slug (all ! (n + pl_limit ask - 1))) (cursorScope ask)) else None), s)"
proof -
  have strict: "sorted_wrt (\<lambda>x y. pr_slug x < pr_slug y) all"
    unfolding all by (rule all_preferences_strict [OF ok])
  have fetched: "db_listPreferences (tenant acc ws) (js_lower acc) afterSlug (pl_limit ask + 1) s =
      Inr (take (pl_limit ask + 1) (drop n all), s)"
    if "filter (\<lambda>r. case afterSlug of None \<Rightarrow> True | Some c \<Rightarrow> c < pr_slug r) all = drop n all" for afterSlug
    using that by (simp add: db_listPreferences_eq all)
  have last: "pr_slug (last (take (pl_limit ask) (drop n all))) = pr_slug (all ! (n + pl_limit ask - 1))"
    if "pl_limit ask < length all - n"
    using that limit n by (simp add: last_conv_nth)
  have page: ?thesis
    if opened: "(case pl_cursor ask of
          None \<Rightarrow> Some None
        | Some cursor \<Rightarrow> (case cur_open cursors cursor (cursorScope ask) of
            None \<Rightarrow> None | Some slug \<Rightarrow> if parseSlug slug \<noteq> Some slug then None else Some (Some slug))) = Some afterSlug"
      and after: "filter (\<lambda>r. case afterSlug of None \<Rightarrow> True | Some c \<Rightarrow> c < pr_slug r) all = drop n all" for afterSlug
  proof -
    have page: "take (pl_limit ask) (take (pl_limit ask + 1) (drop n all)) = take (pl_limit ask) (drop n all)"
      by simp
    have more: "length (take (pl_limit ask + 1) (drop n all)) > pl_limit ask \<and> take (pl_limit ask) (drop n all) \<noteq> [] \<longleftrightarrow>
        pl_limit ask < length all - n"
      using limit by (auto simp: min_def)
    show ?thesis
      unfolding listGoPreferences_def Let_def opened option.case account
      by (simp only: goPreferences_def go_preference_store.simps tx_bind_def fetched [OF after] sum.case prod.case
          page more tx_return_def last cong: if_cong)
  qed
  show ?thesis
  proof (cases "n = 0")
    case True
    then show ?thesis using at page [of None] by simp
  next
    case False
    then obtain c where c: "pl_cursor ask = Some c" "cur_open cursors c (cursorScope ask) = Some (pr_slug (all ! (n - 1)))"
      using at by auto
    have "all ! (n - 1) \<in> set all" using False n by simp
    then have "isValidSlug (pr_slug (all ! (n - 1)))"
      unfolding all by (rule all_preferences_valid [OF ok])
    then show ?thesis
      using page [of "Some (pr_slug (all ! (n - 1)))"] c filter_after [OF strict, of n] False n by simp
  qed
qed

lemma walk_from:
  assumes ok: "go_db_ok (gw_db s)" and limit: "1 \<le> pl_limit ask" and account: "pl_accountId ask = acc" and cur: "cursors_ok cursors"
    and all: "all = all_preferences (gw_db s) (js_lower ws) (js_lower acc)" and n: "n \<le> length all"
    and at: "(n = 0 \<and> pl_cursor ask = None) \<or>
       (0 < n \<and> (\<exists>c. pl_cursor ask = Some c \<and> cur_open cursors c (cursorScope ask) = Some (pr_slug (all ! (n - 1)))))"
    and fuel: "length all - n \<le> fuel * pl_limit ask"
  shows "preference_walk fuel (goPreferences (tenant acc ws)) cursors ask s = Some (map (preference_of (js_lower acc)) (drop n all))"
  using limit account n at fuel
proof (induction fuel arbitrary: ask n)
  case 0
  then show ?case by simp
next
  case (Suc fuel)
  let ?L = "pl_limit ask"
  note page = preference_page [OF ok Suc.prems(1,2) all Suc.prems(3,4)]
  show ?case
  proof (cases "?L < length all - n")
    case False
    then show ?thesis using page by simp
  next
    case True
    let ?c = "cur_seal cursors (pr_slug (all ! (n + ?L - 1))) (cursorScope ask)"
    let ?next = "ask\<lparr>pl_cursor := Some ?c\<rparr>"
    have scope: "cursorScope ?next = cursorScope ask"
      by (simp add: cursorScope_def)
    have "cur_open cursors ?c (cursorScope ask) = Some (pr_slug (all ! (n + ?L - 1)))"
      using cur unfolding cursors_ok_def by blast
    then have "preference_walk fuel (goPreferences (tenant acc ws)) cursors ?next s =
        Some (map (preference_of (js_lower acc)) (drop (n + ?L) all))"
      using Suc.prems True by (intro Suc.IH) (auto simp: scope [simplified])
    moreover have "take ?L (drop n all) @ drop (n + ?L) all = drop n all"
      by (metis append_take_drop_id drop_drop add.commute)
    ultimately show ?thesis
      using page True by (simp flip: map_append)
  qed
qed

text \<open>
  Following the cursors page by page, with pages of any size, a member gets each of its remembered choices that
  the resolution would follow exactly once, in the order of the slugs; as many pages as the size needs are enough.
\<close>

theorem preference_pages_complete:
  assumes "go_db_ok (gw_db s)" "1 \<le> pl_limit ask" "pl_accountId ask = acc" "pl_cursor ask = None" "cursors_ok cursors"
    and "length (all_preferences (gw_db s) (js_lower ws) (js_lower acc)) \<le> fuel * pl_limit ask"
  shows "preference_walk fuel (goPreferences (tenant acc ws)) cursors ask s =
     Some (map (preference_of (js_lower acc)) (all_preferences (gw_db s) (js_lower ws) (js_lower acc)))"
  using walk_from [OF assms(1-3,5) refl, of 0 ws fuel] assms(4,6) by simp

text \<open>A cursor is the slug and the scope, written one after the other.\<close>

definition plain_cursors :: go_cursors where
  "plain_cursors =
     \<lparr>cur_seal = \<lambda>slug scope. fst scope @ snd scope @ slug,
      cur_open = \<lambda>c scope. if prefix (fst scope @ snd scope) c then Some (drop (length (fst scope @ snd scope)) c) else None\<rparr>"

lemma plain_cursors_ok: "cursors_ok plain_cursors"
  by (simp add: cursors_ok_def plain_cursors_def prefix_def)

theorem preference_pages_complete_witness:
  "preference_walk 1 (goPreferences (tenant example_account example_workspace)) plain_cursors
     \<lparr>pl_workspaceId = example_workspace, pl_accountId = example_account, pl_limit = 2, pl_cursor = None\<rparr> example_world = Some []"
proof -
  have none: "all_preferences (gw_db example_world) (js_lower example_workspace) (js_lower example_account) = []"
    by code_simp
  have ok: "go_db_ok (gw_db example_world)"
    using example_ok by (simp add: go_ok_def)
  show ?thesis
    using preference_pages_complete [OF ok, of "\<lparr>pl_workspaceId = example_workspace, pl_accountId = example_account, pl_limit = 2, pl_cursor = None\<rparr>"
        example_account plain_cursors example_workspace 1] plain_cursors_ok none by simp
qed

section \<open>Availability\<close>

text \<open>
  Giving a bookmark a slug: the statement of an update that sets the slug column of one bookmark of the account.
\<close>

definition give_slug :: "string \<Rightarrow> string \<Rightarrow> tables \<Rightarrow> tables" where
  "give_slug i slug db = db\<lparr>bookmarks := map (\<lambda>b. if bm_id b = i then b\<lparr>bm_slug := Some slug\<rparr> else b) (bookmarks db)\<rparr>"

lemma slugUse_run:
  "st_slugUse (slugStore (tenant acc ws)) slug (js_lower acc) except s =
     Inr (slug_uses (gw_db s) (js_lower ws) (js_lower acc) slug (map_option js_lower except), s)"
  by (simp add: slugStore_def db_slugUse_def in_workspace_def as_account_def requireWorkspace_def requireAccount_def query_def
      uuid_cast_def [abs_def])

definition find_own :: "tables \<Rightarrow> string \<Rightarrow> string \<Rightarrow> string \<Rightarrow> found_bookmark option" where
  "find_own db w a i =
     map_option (\<lambda>b. \<lparr>found_id = bm_id b, found_ownerId = bm_owner_id b\<rparr>)
       (find (\<lambda>b. bm_workspace_id b = w \<and> bm_id b = i \<and> bm_plan_archived_at b = None \<and> bookmarkReadableBy db a b) (bookmarks db))"

lemma find_run:
  "st_find (slugStore (tenant acc ws)) i s = Inr (find_own (gw_db s) (js_lower ws) (js_lower acc) (js_lower i), s)"
  by (simp add: slugStore_def db_find_def in_workspace_def requireWorkspace_def query_def Let_def uuid_cast_def find_own_def)

lemma takenByOwner_iff:
  "su_takenByOwner (slug_uses db w a slug except) \<longleftrightarrow>
     (\<exists>b \<in> set (bookmarks db). bm_workspace_id b = w \<and> bm_slug b = Some slug \<and> bm_owner_id b = Some a \<and> Some (bm_id b) \<noteq> except)"
  by (auto simp: slug_uses_def Let_def filter_empty_conv)

text \<open>
  Claim C21: a slug that the check calls available for one of the account's own bookmarks can be given to the bookmark
  without breaking the key of the table that holds one bookmark per owner and slug, also against plan-archived bookmarks.
\<close>

theorem available_slug_keeps_key:
  assumes ok: "go_db_ok (gw_db s)" "owner_slug_key_ok (gw_db s)"
    and b: "b \<in> set (bookmarks (gw_db s))" "bm_workspace_id b = js_lower ws" "bm_owner_id b = Some (js_lower acc)"
    and run: "slugAvailability (slugStore (tenant acc ws)) acc text (Some (bm_id b)) s = Inr (Checked Available n, s')"
    and slug: "parseSlug text = Some slug"
  shows "owner_slug_key_ok (give_slug (bm_id b) slug (gw_db s))"
proof -
  let ?db = "gw_db s"
  have distinct: "distinct (map bm_id (bookmarks ?db))"
    using ok(1) by (simp add: go_db_ok_def keys_ok_def)
  have id: "js_lower (bm_id b) = bm_id b"
    using ok(1) b(1) by (auto simp: go_db_ok_def identifier_ok_def)
  have find: "st_find (slugStore (tenant acc ws)) (bm_id b) s =
      Inr (find_own ?db (js_lower ws) (js_lower acc) (bm_id b), s)"
    using id by (simp add: find_run)
  have "\<exists>f. find_own ?db (js_lower ws) (js_lower acc) (bm_id b) = Some f \<and> found_id f = bm_id b"
  proof (cases "find_own ?db (js_lower ws) (js_lower acc) (bm_id b)")
    case None
    then show ?thesis
      using run find by (simp add: slugAvailability_def Let_def tx_bind_def tx_return_def)
  next
    case (Some f)
    then have "found_id f = bm_id b" by (auto simp: find_own_def dest!: find_SomeD)
    with Some show ?thesis by simp
  qed
  then have "\<not> su_takenByOwner (slug_uses ?db (js_lower ws) (js_lower acc) slug (Some (bm_id b)))"
    using run slug id find
    by (auto simp: slugAvailability_def check_slug_def Let_def tx_bind_def tx_return_def slugUse_run split: if_splits)
  then have free: "bm_id c = bm_id b" if "c \<in> set (bookmarks ?db)" "bm_workspace_id c = js_lower ws" "bm_slug c = Some slug"
      "bm_owner_id c = Some (js_lower acc)" for c
    using that by (auto simp: takenByOwner_iff)
  let ?g = "\<lambda>x. if bm_id x = bm_id b then x\<lparr>bm_slug := Some slug\<rparr> else x"
  have same: "bm_id (?g x) = bm_id x" "bm_workspace_id (?g x) = bm_workspace_id x" "bm_owner_id (?g x) = bm_owner_id x" for x
    by simp_all
  have one: "bm_id x = bm_id y"
    if xy: "x \<in> set (bookmarks ?db)" "y \<in> set (bookmarks ?db)" "bm_workspace_id x = bm_workspace_id y"
      "bm_owner_id x = bm_owner_id y" "bm_slug (?g x) = bm_slug (?g y)" and x: "bm_id x = bm_id b" for x y
  proof (cases "bm_id y = bm_id b")
    case False
    have "x = b" by (rule distinct_key_eq [OF distinct xy(1) b(1) x])
    then show ?thesis using free [of y] xy b x False by simp
  qed (use x in simp)
  have key: "bm_id x = bm_id y"
    if xy: "x \<in> set (bookmarks ?db)" "y \<in> set (bookmarks ?db)" "bm_workspace_id x = bm_workspace_id y"
      "bm_owner_id x = bm_owner_id y" "bm_slug (?g x) = bm_slug (?g y)" "bm_slug (?g x) \<noteq> None" for x y
  proof (cases "bm_id x = bm_id b")
    case True
    then show ?thesis by (rule one [OF xy(1-5)])
  next
    case x: False
    show ?thesis
    proof (cases "bm_id y = bm_id b")
      case True
      then show ?thesis by (rule one [OF xy(2,1) xy(3,4,5) [symmetric], symmetric])
    next
      case False
      then have "bm_slug x \<noteq> None" "bm_slug x = bm_slug y"
        using xy(5,6) x by simp_all
      then show ?thesis
        using ok(2) xy(1-4) unfolding owner_slug_key_ok_def by blast
    qed
  qed
  have given: "bookmarks (give_slug (bm_id b) slug ?db) = map ?g (bookmarks ?db)"
    by (simp add: give_slug_def)
  show ?thesis
    unfolding owner_slug_key_ok_def given
  proof (intro ballI impI)
    fix x' y'
    assume mem: "x' \<in> set (map ?g (bookmarks ?db))" "y' \<in> set (map ?g (bookmarks ?db))"
      and eqs: "bm_workspace_id x' = bm_workspace_id y'" "bm_owner_id x' = bm_owner_id y'" "bm_slug x' \<noteq> None" "bm_slug x' = bm_slug y'"
    obtain x where x: "x \<in> set (bookmarks ?db)" "x' = ?g x" using mem(1) by auto
    obtain y where y: "y \<in> set (bookmarks ?db)" "y' = ?g y" using mem(2) by auto
    show "bm_id x' = bm_id y'"
      using key [OF x(1) y(1)] eqs unfolding x(2) y(2) same by blast
  qed
qed

definition example_own_db :: tables where
  "example_own_db = example_db\<lparr>bookmarks :=
     [(example_row example_shared_id example_workspace (Some example_account) ''Mine'')\<lparr>bm_slug := None, bm_forwarding := False\<rparr>]\<rparr>"

theorem available_slug_keeps_key_witness:
  "owner_slug_key_ok (give_slug example_shared_id ''notes'' example_own_db)"
proof -
  let ?s = "\<lparr>gw_db = example_own_db, gw_usage = createUsageBuffer\<rparr>"
  let ?b = "(example_row example_shared_id example_workspace (Some example_account) ''Mine'')\<lparr>bm_slug := None, bm_forwarding := False\<rparr>"
  have ok: "go_db_ok (gw_db ?s)" "owner_slug_key_ok (gw_db ?s)"
    by code_simp+
  have b: "?b \<in> set (bookmarks (gw_db ?s))" "bm_workspace_id ?b = js_lower example_workspace"
      "bm_owner_id ?b = Some (js_lower example_account)" "bm_id ?b = example_shared_id"
    by code_simp+
  have run: "slugAvailability (slugStore (tenant example_account example_workspace)) example_account '' Notes '' (Some (bm_id ?b)) ?s =
      Inr (Checked Available 0, ?s)"
    by code_simp
  have "parseSlug '' Notes '' = Some ''notes''"
    by code_simp
  from available_slug_keeps_key [OF ok b(1-3) run this] show ?thesis
    by (simp only: b(4) go_world.simps)
qed

end
