(* ===== verification/Address.thy ===== *)
theory Address
  imports JsString
begin

unbundle bit_operations_syntax

text \<open>
  Address parsing and classification of the egress adapter
  (\<open>packages/adapters/src/egress/address.ts\<close>). A byte array of the code is a list of natural
  numbers; its elements stay below 256 (\<open>wf_address\<close>), which the parsers guarantee. The bitwise
  operators of JavaScript work on 32-bit integers, so they are operations on \<^typ>\<open>32 word\<close> here;
  a shift counts its distance modulo 32. Numbers are doubles in the code: \<open>ipv4Part\<close> refuses a
  value above \<open>Number.MAX_SAFE_INTEGER\<close>, and every number it keeps is exact.
\<close>

section \<open>Parsing IPv4\<close>

datatype family = IPv4 | IPv6

record parsed_address =
  family :: family
  bytes :: "nat list"

definition starts_0x :: "string \<Rightarrow> bool" where
  "starts_0x part \<longleftrightarrow> prefix ''0x'' part \<or> prefix ''0X'' part"

text \<open>The pattern \<open>/^(?:0[xX][0-9a-fA-F]*|[0-9]+)$/\<close>.\<close>

definition ipv4_part_pattern :: "string \<Rightarrow> bool" where
  "ipv4_part_pattern part \<longleftrightarrow>
     (starts_0x part \<and> list_all js_hex_digit (drop 2 part)) \<or> (part \<noteq> [] \<and> list_all js_digit part)"

definition safe_or_none :: "nat \<Rightarrow> nat option" where
  "safe_or_none value = (if value \<le> max_safe_integer then Some value else None)"

definition ipv4Part :: "string \<Rightarrow> nat option" where
  "ipv4Part part =
     (if \<not> ipv4_part_pattern part then None
      else if starts_0x part then
        safe_or_none (if length part = 2 then 0 else js_parse_digits 16 (drop 2 part))
      else if length part > 1 \<and> prefix ''0'' part then
        (if \<exists>c \<in> set part. c = CHR ''8'' \<or> c = CHR ''9'' then None
         else safe_or_none (js_parse_digits 8 part))
      else safe_or_none (js_parse_digits 10 part))"

text \<open>The loop over the parts, which stops at the first part that is no number.\<close>

fun ipv4_values :: "string list \<Rightarrow> nat list option" where
  "ipv4_values [] = Some []"
| "ipv4_values (part # parts) =
     (case ipv4Part part of
        None \<Rightarrow> None
      | Some value \<Rightarrow> map_option (\<lambda>values. value # values) (ipv4_values parts))"

text \<open>The bytes the last part fills: \<open>remaining\<close> of them, the highest first.\<close>

definition last_bytes :: "nat \<Rightarrow> nat \<Rightarrow> nat list" where
  "last_bytes remaining final = map (\<lambda>index. final div 256 ^ index mod 256) (rev [0..<remaining])"

definition parseIPv4 :: "string \<Rightarrow> nat list option" where
  "parseIPv4 text =
     (let parts = js_split ''.'' text
      in if length parts < 1 \<or> length parts > 4 then None
         else case ipv4_values parts of
           None \<Rightarrow> None
         | Some values \<Rightarrow>
             (let final = (if values = [] then 0 else last values);
                  front = butlast values;
                  remaining = 4 - length front
              in if \<exists>value \<in> set front. value > 255 then None
                 else if final \<ge> 256 ^ remaining then None
                 else Some (front @ last_bytes remaining final)))"

section \<open>Parsing IPv6\<close>

text \<open>The pattern \<open>/^(?:0|[1-9][0-9]{0,2})$/\<close> of one decimal byte.\<close>

definition decimal_byte_pattern :: "string \<Rightarrow> bool" where
  "decimal_byte_pattern part =
     (case part of
        [] \<Rightarrow> False
      | c # cs \<Rightarrow> (c = CHR ''0'' \<and> cs = []) \<or>
                 (js_digit c \<and> c \<noteq> CHR ''0'' \<and> list_all js_digit cs \<and> length cs \<le> 2))"

definition dottedQuad :: "string \<Rightarrow> nat list option" where
  "dottedQuad text =
     (let parts = js_split ''.'' text
      in if length parts \<noteq> 4 \<or> \<not> list_all decimal_byte_pattern parts then None
         else let quad = map (js_parse_digits 10) parts
              in if list_all (\<lambda>byte. byte \<le> 255) quad then Some quad else None)"

definition byte_at :: "nat list \<Rightarrow> nat \<Rightarrow> nat" where
  "byte_at bs i = (if i < length bs then bs ! i else 0)"

definition js_shl :: "32 word \<Rightarrow> nat \<Rightarrow> 32 word" where
  "js_shl x n = push_bit (n mod 32) x"

text \<open>\<open>(hi << 8) | lo\<close> for two bytes.\<close>

definition pair16 :: "nat \<Rightarrow> nat \<Rightarrow> nat" where
  "pair16 hi lo = unat (js_shl (of_nat hi) 8 OR of_nat lo)"

text \<open>The pattern \<open>/^[0-9a-fA-F]{1,4}$/\<close>.\<close>

definition hex_group_pattern :: "string \<Rightarrow> bool" where
  "hex_group_pattern part \<longleftrightarrow> part \<noteq> [] \<and> length part \<le> 4 \<and> list_all js_hex_digit part"

fun groups_of :: "string list \<Rightarrow> nat list option" where
  "groups_of [] = Some []"
| "groups_of (part # parts) =
     (if parts = [] \<and> CHR ''.'' \<in> set part then
        (case dottedQuad part of
           None \<Rightarrow> None
         | Some quad \<Rightarrow>
             map_option (\<lambda>rest. pair16 (byte_at quad 0) (byte_at quad 1) # pair16 (byte_at quad 2) (byte_at quad 3) # rest)
               (groups_of parts))
      else if hex_group_pattern part then
        map_option (\<lambda>rest. js_parse_digits 16 part # rest) (groups_of parts)
      else None)"

definition groups :: "string \<Rightarrow> nat list option" where
  "groups text = (if text = [] then Some [] else groups_of (js_split '':'' text))"

definition bytes_of_word :: "nat \<Rightarrow> nat list" where
  "bytes_of_word w = [unat (signed_drop_bit 8 (of_nat w :: 32 word)), unat (of_nat w AND (255 :: 32 word))]"

definition words_to_bytes :: "nat list \<Rightarrow> nat list option" where
  "words_to_bytes words =
     (if length words \<noteq> 8 then None else Some (concat (map bytes_of_word words)))"

definition parseIPv6 :: "string \<Rightarrow> nat list option" where
  "parseIPv6 text =
     (let halves = js_split ''::'' text
      in if length halves > 2 then None
         else let head = groups (halves ! 0);
                  tail = (if length halves = 2 then groups (halves ! 1) else Some [])
              in case (head, tail) of
                   (Some h, Some t) \<Rightarrow>
                     (if length halves = 2 then
                        (let missing = 8 - int (length h) - int (length t)
                         in if missing < 1 then None
                            else words_to_bytes (h @ replicate (nat missing) 0 @ t))
                      else words_to_bytes h)
                 | _ \<Rightarrow> None)"

definition parseAddress :: "string \<Rightarrow> parsed_address option" where
  "parseAddress text =
     (if CHR '':'' \<in> set text
      then map_option (\<lambda>bs. \<lparr>family = IPv6, bytes = bs\<rparr>) (parseIPv6 text)
      else map_option (\<lambda>bs. \<lparr>family = IPv4, bytes = bs\<rparr>) (parseIPv4 text))"

definition formatAddress :: "parsed_address \<Rightarrow> string" where
  "formatAddress a =
     (if family a = IPv4 then js_join ''.'' (map (js_to_string 10) (bytes a))
      else js_join '':''
             (map (\<lambda>i. js_to_string 16 (pair16 (byte_at (bytes a) (2 * i)) (byte_at (bytes a) (2 * i + 1)))) [0..<8]))"

section \<open>Classification\<close>

type_synonym cidr4 = "nat \<times> nat \<times> nat \<times> nat \<times> nat"

definition NON_PUBLIC_V4 :: "cidr4 list" where
  "NON_PUBLIC_V4 =
    [(0, 0, 0, 0, 8), (10, 0, 0, 0, 8), (100, 64, 0, 0, 10), (127, 0, 0, 0, 8), (169, 254, 0, 0, 16),
     (172, 16, 0, 0, 12), (192, 0, 0, 0, 24), (192, 0, 2, 0, 24), (192, 88, 99, 0, 24), (192, 168, 0, 0, 16),
     (198, 18, 0, 0, 15), (198, 51, 100, 0, 24), (203, 0, 113, 0, 24), (224, 0, 0, 0, 4), (240, 0, 0, 0, 4)]"

definition address32 :: "nat \<Rightarrow> nat \<Rightarrow> nat \<Rightarrow> nat \<Rightarrow> 32 word" where
  "address32 a b c d = js_shl (of_nat a) 24 OR js_shl (of_nat b) 16 OR js_shl (of_nat c) 8 OR of_nat d"

fun inCidr4 :: "nat list \<Rightarrow> cidr4 \<Rightarrow> bool" where
  "inCidr4 bs (a, b, c, d, len) =
     (let address = address32 (byte_at bs 0) (byte_at bs 1) (byte_at bs 2) (byte_at bs 3);
          base = address32 a b c d;
          mask = (if len = 0 then 0 else js_shl 0xffffffff (32 - len))
      in address AND mask = base AND mask)"

definition isPublicV4 :: "nat list \<Rightarrow> bool" where
  "isPublicV4 bs \<longleftrightarrow> \<not> list_ex (inCidr4 bs) NON_PUBLIC_V4"

definition startsWith :: "nat list \<Rightarrow> nat list \<Rightarrow> nat \<Rightarrow> bool" where
  "startsWith bs pre bits \<longleftrightarrow>
     list_all (\<lambda>index.
       let byte = index div 8; mask = signed_drop_bit (index mod 8) (0x80 :: 32 word)
       in of_nat (byte_at bs byte) AND mask = of_nat (byte_at pre byte) AND mask) [0..<bits]"

definition NON_PUBLIC_V6 :: "(nat list \<times> nat) list" where
  "NON_PUBLIC_V6 =
    [([0x20, 0x01, 0x00, 0x00], 32), ([0x20, 0x01, 0x00, 0x02, 0x00, 0x00], 48), ([0x20, 0x01, 0x0d, 0xb8], 32),
     ([0x20, 0x01, 0x00, 0x10], 28), ([0x3f, 0xff], 20)]"

text \<open>The prefix \<open>::ffff:0:0/96\<close> of the IPv4-mapped addresses.\<close>

definition MAPPED_V4_PREFIX :: "nat list" where
  "MAPPED_V4_PREFIX = [0, 0, 0, 0, 0, 0, 0, 0, 0, 0, 0xff, 0xff]"

definition isPublicV6 :: "nat list \<Rightarrow> bool" where
  "isPublicV6 bs =
     (if startsWith bs MAPPED_V4_PREFIX 96 then isPublicV4 (drop 12 bs)
      else if \<not> startsWith bs [0x20] 3 then False
      else if startsWith bs [0x20, 0x02] 16 then isPublicV4 (take 4 (drop 2 bs))
      else \<not> list_ex (\<lambda>(pre, bits). startsWith bs pre bits) NON_PUBLIC_V6)"

definition isPublicAddress :: "parsed_address \<Rightarrow> bool" where
  "isPublicAddress a = (if family a = IPv4 then isPublicV4 (bytes a) else isPublicV6 (bytes a))"

definition OPERATOR_PRIVATE_V4 :: "cidr4 list" where
  "OPERATOR_PRIVATE_V4 =
    [(10, 0, 0, 0, 8), (100, 64, 0, 0, 10), (127, 0, 0, 0, 8), (172, 16, 0, 0, 12), (192, 168, 0, 0, 16)]"

definition isOperatorPrivateAddress :: "parsed_address \<Rightarrow> bool" where
  "isOperatorPrivateAddress a =
     (if family a = IPv4 then list_ex (inCidr4 (bytes a)) OPERATOR_PRIVATE_V4
      else if startsWith (bytes a) MAPPED_V4_PREFIX 96
        then list_ex (inCidr4 (drop 12 (bytes a))) OPERATOR_PRIVATE_V4
      else startsWith (bytes a) [0, 0, 0, 0, 0, 0, 0, 0, 0, 0, 0, 0, 0, 0, 0, 1] 128 \<or> startsWith (bytes a) [0xfc] 7)"

definition isPublicAddressText :: "string \<Rightarrow> bool" where
  "isPublicAddressText text =
     (case parseAddress text of None \<Rightarrow> False | Some parsed \<Rightarrow> isPublicAddress parsed)"

section \<open>Addresses as numbers\<close>

text \<open>The number a sequence of bytes denotes, the first byte the most significant.\<close>

definition be_value :: "nat list \<Rightarrow> nat" where
  "be_value bs = foldl (\<lambda>acc b. acc * 256 + b) 0 bs"

definition quad_value :: "nat \<Rightarrow> nat \<Rightarrow> nat \<Rightarrow> nat \<Rightarrow> nat" where
  "quad_value a b c d = ((a * 256 + b) * 256 + c) * 256 + d"

definition wf_bytes :: "nat list \<Rightarrow> bool" where
  "wf_bytes bs \<longleftrightarrow> list_all (\<lambda>b. b < 256) bs"

definition wf_address :: "parsed_address \<Rightarrow> bool" where
  "wf_address a \<longleftrightarrow> wf_bytes (bytes a) \<and> length (bytes a) = (if family a = IPv4 then 4 else 16)"

text \<open>The first and the last address of every special-purpose IPv4 range the classifier refuses.\<close>

definition reserved_v4_ranges :: "(nat list \<times> nat list) list" where
  "reserved_v4_ranges =
    [([0, 0, 0, 0], [0, 255, 255, 255]), ([10, 0, 0, 0], [10, 255, 255, 255]),
     ([100, 64, 0, 0], [100, 127, 255, 255]), ([127, 0, 0, 0], [127, 255, 255, 255]),
     ([169, 254, 0, 0], [169, 254, 255, 255]), ([172, 16, 0, 0], [172, 31, 255, 255]),
     ([192, 0, 0, 0], [192, 0, 0, 255]), ([192, 0, 2, 0], [192, 0, 2, 255]),
     ([192, 88, 99, 0], [192, 88, 99, 255]), ([192, 168, 0, 0], [192, 168, 255, 255]),
     ([198, 18, 0, 0], [198, 19, 255, 255]), ([198, 51, 100, 0], [198, 51, 100, 255]),
     ([203, 0, 113, 0], [203, 0, 113, 255]), ([224, 0, 0, 0], [239, 255, 255, 255]),
     ([240, 0, 0, 0], [255, 255, 255, 255])]"

definition in_ranges :: "(nat list \<times> nat list) list \<Rightarrow> nat list \<Rightarrow> bool" where
  "in_ranges ranges bs \<longleftrightarrow> list_ex (\<lambda>(lo, hi). be_value lo \<le> be_value bs \<and> be_value bs \<le> be_value hi) ranges"

lemma wf_bytes_Nil [simp]: "wf_bytes []"
  and wf_bytes_Cons [simp]: "wf_bytes (b # bs) \<longleftrightarrow> b < 256 \<and> wf_bytes bs"
  and wf_bytes_append [simp]: "wf_bytes (bs @ cs) \<longleftrightarrow> wf_bytes bs \<and> wf_bytes cs"
  by (simp_all add: wf_bytes_def)

lemma be_value_Nil [simp]: "be_value [] = 0"
  and be_value_snoc: "be_value (bs @ [b]) = be_value bs * 256 + b"
  by (simp_all add: be_value_def)

lemma be_value_append: "be_value (bs @ cs) = be_value bs * 256 ^ length cs + be_value cs"
  by (induction cs rule: rev_induct) (simp_all add: be_value_snoc algebra_simps flip: append_assoc)

lemma be_value_Cons: "be_value (b # bs) = b * 256 ^ length bs + be_value bs"
  using be_value_append [of "[b]" bs] be_value_snoc [of "[]" b] by simp

lemma be_value_less: "wf_bytes bs \<Longrightarrow> be_value bs < 256 ^ length bs"
  by (induction bs rule: rev_induct) (auto simp: be_value_snoc)

lemma be_value_inject:
  "length bs = length cs \<Longrightarrow> wf_bytes bs \<Longrightarrow> wf_bytes cs \<Longrightarrow> be_value bs = be_value cs \<Longrightarrow> bs = cs"
proof (induction bs arbitrary: cs rule: rev_induct)
  case (snoc b bs)
  then obtain c cs' where cs: "cs = cs' @ [c]"
    by (cases cs rule: rev_cases) auto
  from snoc.prems cs have eq: "be_value bs * 256 + b = be_value cs' * 256 + c" and lt: "b < 256" "c < 256"
    by (simp_all add: be_value_snoc)
  have "b = c"
    using arg_cong [OF eq, of "\<lambda>n. n mod 256"] lt by simp
  moreover have "be_value bs = be_value cs'"
    using eq \<open>b = c\<close> by simp
  ultimately have "b = c" "be_value bs = be_value cs'" by simp_all
  with snoc cs show ?case by simp
qed simp

lemma be_value_4: "length bs = 4 \<Longrightarrow> be_value bs = quad_value (byte_at bs 0) (byte_at bs 1) (byte_at bs 2) (byte_at bs 3)"
proof -
  assume "length bs = 4"
  then obtain a b c d where "bs = [a, b, c, d]"
    by (auto simp: length_Suc_conv eval_nat_numeral)
  then show ?thesis by (simp add: be_value_def quad_value_def byte_at_def)
qed

lemma byte_at_less: "wf_bytes bs \<Longrightarrow> byte_at bs i < 256"
  by (simp add: byte_at_def wf_bytes_def list_all_length)

section \<open>The bitwise prefix tests are range tests\<close>

lemma push_bit_or_nat: "y < 2 ^ n \<Longrightarrow> push_bit n x OR y = x * 2 ^ n + (y :: nat)"
proof -
  assume y: "y < 2 ^ n"
  have "push_bit n x AND y = 0"
  proof (rule bit_eqI)
    fix m
    have "take_bit n y = y" using y by (simp add: take_bit_nat_eq_self_iff)
    then have "bit y m \<Longrightarrow> m < n" by (metis bit_take_bit_iff)
    then show "bit (push_bit n x AND y) m = bit (0::nat) m"
      by (auto simp: bit_and_iff bit_push_bit_iff)
  qed
  then have "push_bit n x + y = push_bit n x OR y"
    by (rule disjunctive_add_eq_or)
  then show ?thesis by (simp add: push_bit_eq_mult)
qed

lemma and_mask_eq_iff:
  "(v AND push_bit k (- 1)) = (w AND push_bit k (- 1)) \<longleftrightarrow> drop_bit k v = drop_bit k (w :: 'a::len word)"
proof
  assume l: "v AND push_bit k (- 1) = w AND push_bit k (- 1)"
  show "drop_bit k v = drop_bit k w"
  proof (rule bit_word_eqI)
    fix n assume "n < LENGTH('a)"
    show "bit (drop_bit k v) n = bit (drop_bit k w) n"
      using arg_cong [OF l, of "\<lambda>x. bit x (k + n)"]
      by (auto simp: bit_simps dest: bit_imp_le_length)
  qed
next
  assume r: "drop_bit k v = drop_bit k w"
  show "v AND push_bit k (- 1) = w AND push_bit k (- 1)"
  proof (rule bit_word_eqI)
    fix n assume "n < LENGTH('a)"
    show "bit (v AND push_bit k (- 1)) n = bit (w AND push_bit k (- 1)) n"
      using arg_cong [OF r, of "\<lambda>x. bit x (n - k)"]
      by (auto simp: bit_simps)
  qed
qed

lemma unat_shl:
  "a < 256 \<Longrightarrow> n \<le> 24 \<Longrightarrow> unat (js_shl (of_nat a) n) = a * 2 ^ n"
proof -
  assume a: "a < 256" "n \<le> 24"
  have "a * 2 ^ n < 256 * (2 ^ 24 :: nat)"
    by (rule mult_less_le_imp_less) (use a power_increasing [of n 24 "2::nat"] in auto)
  then have "take_bit 32 (push_bit n a) = a * 2 ^ n"
    by (simp add: push_bit_eq_mult take_bit_nat_eq_self_iff)
  then show ?thesis
    using a by (simp add: js_shl_def unsigned_push_bit_eq unat_of_nat del: push_bit_of_nat)
qed

lemma unat_address32:
  assumes "a < 256" "b < 256" "c < 256" "d < 256"
  shows "unat (address32 a b c d) = quad_value a b c d"
proof -
  have b1: "push_bit 8 c OR d = c * 2 ^ 8 + d"
    by (rule push_bit_or_nat) (use assms in simp)
  have b2: "push_bit 16 b OR (c * 2 ^ 8 + d) = b * 2 ^ 16 + (c * 2 ^ 8 + d)"
    by (rule push_bit_or_nat) (use assms in simp)
  have b3: "push_bit 24 a OR (b * 2 ^ 16 + (c * 2 ^ 8 + d)) = a * 2 ^ 24 + (b * 2 ^ 16 + (c * 2 ^ 8 + d))"
    by (rule push_bit_or_nat) (use assms in simp)
  have "unat (address32 a b c d) = ((push_bit 24 a OR push_bit 16 b) OR push_bit 8 c) OR d"
    using assms by (simp add: address32_def unsigned_or_eq unat_shl push_bit_eq_mult unat_of_nat or.assoc)
  also have "\<dots> = push_bit 24 a OR (push_bit 16 b OR (push_bit 8 c OR d))"
    by (simp only: or.assoc)
  finally have "unat (address32 a b c d) = push_bit 24 a OR (push_bit 16 b OR (push_bit 8 c OR d))" .
  then show ?thesis
    by (simp only: b1 b2 b3) (simp add: quad_value_def)
qed

lemma inCidr4_iff:
  assumes "\<forall>i<4. byte_at bs i < 256" "a < 256" "b < 256" "c < 256" "d < 256" "len \<le> 32"
  shows "inCidr4 bs (a, b, c, d, len) \<longleftrightarrow>
    quad_value (byte_at bs 0) (byte_at bs 1) (byte_at bs 2) (byte_at bs 3) div 2 ^ (32 - len)
      = quad_value a b c d div 2 ^ (32 - len)"
proof (cases "len = 0")
  case True
  have "quad_value a b c d < 2 ^ 32" if "a < 256" "b < 256" "c < 256" "d < 256" for a b c d
    using that by (simp add: quad_value_def)
  with True assms show ?thesis by simp
next
  case False
  have m: "js_shl 0xffffffff (32 - len) = push_bit (32 - len) (- 1)"
  proof -
    have "(0xffffffff :: 32 word) = - 1" by simp
    moreover have "(32 - len) mod 32 = 32 - len" using False by simp
    ultimately show ?thesis unfolding js_shl_def by (simp only:)
  qed
  have "inCidr4 bs (a, b, c, d, len) \<longleftrightarrow>
    drop_bit (32 - len) (address32 (byte_at bs 0) (byte_at bs 1) (byte_at bs 2) (byte_at bs 3))
      = drop_bit (32 - len) (address32 a b c d)"
    using False unfolding inCidr4.simps Let_def m by (simp only: and_mask_eq_iff if_False)
  also have "\<dots> \<longleftrightarrow> unat (address32 (byte_at bs 0) (byte_at bs 1) (byte_at bs 2) (byte_at bs 3)) div 2 ^ (32 - len)
     = unat (address32 a b c d) div 2 ^ (32 - len)"
    unfolding word_unat_eq_iff unat_drop_bit_eq by (simp only: drop_bit_eq_div)
  finally show ?thesis
    using assms by (simp add: unat_address32)
qed

lemma inCidr4_be_value:
  assumes "length bs = 4" "wf_bytes bs" "a < 256" "b < 256" "c < 256" "d < 256" "len \<le> 32"
  shows "inCidr4 bs (a, b, c, d, len) \<longleftrightarrow> be_value bs div 2 ^ (32 - len) = quad_value a b c d div 2 ^ (32 - len)"
  using assms by (simp add: inCidr4_iff byte_at_less be_value_4 del: inCidr4.simps)

lemma be_value_quad: "be_value [a, b, c, d] = quad_value a b c d"
  by (simp add: be_value_def quad_value_def)

lemma div_range: "0 < m \<Longrightarrow> (x div m = c) = (c * m \<le> x \<and> x < c * m + m)" for x m c :: nat
  using dividend_less_div_times [of m x] by (auto intro!: div_nat_eqI simp: algebra_simps)

lemma isPublicV4_iff:
  assumes "length bs = 4" "wf_bytes bs"
  shows "isPublicV4 bs \<longleftrightarrow> \<not> in_ranges reserved_v4_ranges bs"
proof -
  have cidr: "inCidr4 bs (a, b, c, d, len) \<longleftrightarrow>
      (quad_value a b c d div 2 ^ (32 - len) * 2 ^ (32 - len) \<le> be_value bs \<and>
       be_value bs < quad_value a b c d div 2 ^ (32 - len) * 2 ^ (32 - len) + 2 ^ (32 - len))"
    if "a < 256" "b < 256" "c < 256" "d < 256" "len \<le> 32" for a b c d len
    using assms that by (simp add: inCidr4_be_value div_range del: inCidr4.simps)
  have "be_value bs < 4294967296"
    using be_value_less [OF assms(2)] assms(1) by simp
  then show ?thesis
    unfolding isPublicV4_def NON_PUBLIC_V4_def in_ranges_def reserved_v4_ranges_def
    by (simp add: cidr be_value_quad quad_value_def less_Suc_eq_le [symmetric] del: inCidr4.simps)
qed

lemma bit_be_value:
  "wf_bytes bs \<Longrightarrow> bit (be_value bs) n \<longleftrightarrow> n < 8 * length bs \<and> bit (byte_at bs (length bs - 1 - n div 8)) (n mod 8)"
proof (induction bs arbitrary: n rule: rev_induct)
  case Nil
  then show ?case by simp
next
  case (snoc b bs)
  then have b: "b < 256" "wf_bytes bs" by simp_all
  have "be_value (bs @ [b]) = push_bit 8 (be_value bs) OR b"
    using push_bit_or_nat [of b 8 "be_value bs"] b by (simp add: be_value_snoc)
  moreover have "take_bit 8 b = b" using b by (simp add: take_bit_nat_eq_self_iff)
  then have "bit b m \<longleftrightarrow> m < 8 \<and> bit b m" for m by (metis bit_take_bit_iff)
  ultimately have bits: "bit (be_value (bs @ [b])) n \<longleftrightarrow> (if n < 8 then bit b n else bit (be_value bs) (n - 8))" for n
    by (auto simp: bit_or_iff bit_push_bit_iff)
  show ?case
  proof (cases "n < 8")
    case True
    then show ?thesis by (simp add: bits byte_at_def nth_append)
  next
    case False
    then obtain m where n: "n = 8 + m" by (metis le_add_diff_inverse not_less)
    have div: "n div 8 = Suc (m div 8)" "n mod 8 = m mod 8" by (simp_all add: n)
    have "byte_at (bs @ [b]) (length bs - Suc (m div 8)) = byte_at bs (length bs - 1 - m div 8)" if "m < 8 * length bs"
    proof -
      have "length bs - Suc (m div 8) < length bs" using that by (cases bs) auto
      then show ?thesis by (simp add: byte_at_def nth_append)
    qed
    then show ?thesis
      using snoc.IH [OF b(2), of m] unfolding bits div by (auto simp: n)
  qed
qed

lemma high_mask: "m < 8 \<Longrightarrow> signed_drop_bit m (0x80 :: 32 word) = push_bit (7 - m) 1"
proof -
  assume "m < 8"
  then have "m \<in> {0, 1, 2, 3, 4, 5, 6, 7}" by auto
  then show ?thesis by auto
qed

lemma and_single_bit: "v AND push_bit k 1 = w AND push_bit k 1 \<longleftrightarrow> bit v k = bit w k"
  if "k < LENGTH('a)" for v w :: "'a::len word"
proof
  assume "v AND push_bit k 1 = w AND push_bit k 1"
  from arg_cong [OF this, of "\<lambda>x. bit x k"] show "bit v k = bit w k"
    using that by (simp add: bit_simps)
next
  assume "bit v k = bit w k"
  then show "v AND push_bit k 1 = w AND push_bit k 1"
    by (intro bit_word_eqI) (auto simp: bit_and_iff bit_exp_iff)
qed

lemma startsWith_bits:
  "startsWith bs pre bits \<longleftrightarrow>
     (\<forall>i < bits. bit (byte_at bs (i div 8)) (7 - i mod 8) = bit (byte_at pre (i div 8)) (7 - i mod 8))"
proof -
  have "of_nat x AND signed_drop_bit (i mod 8) (0x80 :: 32 word) = of_nat y AND signed_drop_bit (i mod 8) 0x80
     \<longleftrightarrow> bit x (7 - i mod 8) = bit y (7 - i mod 8)" for x y i :: nat
  proof -
    have "7 - i mod 8 < 32" by linarith
    then show ?thesis
      by (subst high_mask, simp, subst high_mask, simp, subst and_single_bit) (simp_all add: bit_simps)
  qed
  then show ?thesis
    by (auto simp: startsWith_def list_all_iff Let_def atLeast0LessThan)
qed

definition pad16 :: "nat list \<Rightarrow> nat list" where
  "pad16 pre = pre @ replicate (16 - length pre) 0"

lemma byte_at_pad16: "byte_at (pad16 pre) i = byte_at pre i"
  by (auto simp: pad16_def byte_at_def nth_append)

lemma drop_bit_eq_bits:
  "x < 2 ^ n \<Longrightarrow> y < 2 ^ n \<Longrightarrow> k \<le> n \<Longrightarrow>
   drop_bit (n - k) x = drop_bit (n - k) y \<longleftrightarrow> (\<forall>i < k. bit x (n - 1 - i) = bit y (n - 1 - i))" for x y :: nat
proof -
  assume xy: "x < 2 ^ n" "y < 2 ^ n" and k: "k \<le> n"
  then have "take_bit n x = x" "take_bit n y = y" by (simp_all add: take_bit_nat_eq_self_iff)
  then have hi: "bit x m \<Longrightarrow> m < n" "bit y m \<Longrightarrow> m < n" for m by (metis bit_take_bit_iff)+
  show ?thesis
  proof
    assume eq: "drop_bit (n - k) x = drop_bit (n - k) y"
    show "\<forall>i < k. bit x (n - 1 - i) = bit y (n - 1 - i)"
    proof (intro allI impI)
      fix i assume "i < k"
      then have "n - 1 - i = (n - k) + (k - 1 - i)" using k by simp
      then show "bit x (n - 1 - i) = bit y (n - 1 - i)"
        using arg_cong [OF eq, of "\<lambda>z. bit z (k - 1 - i)"] by (simp add: bit_drop_bit_eq)
    qed
  next
    assume eq: "\<forall>i < k. bit x (n - 1 - i) = bit y (n - 1 - i)"
    show "drop_bit (n - k) x = drop_bit (n - k) y"
    proof (rule bit_eqI)
      fix m
      show "bit (drop_bit (n - k) x) m = bit (drop_bit (n - k) y) m"
      proof (cases "n - k + m < n")
        case True
        with k have "k - 1 - m < k" "n - 1 - (k - 1 - m) = n - k + m" by auto
        with eq show ?thesis by (metis bit_drop_bit_eq comp_apply)
      next
        case False
        with hi show ?thesis by (auto simp: bit_drop_bit_eq)
      qed
    qed
  qed
qed

lemma startsWith_be_value:
  assumes "length bs = 16" "wf_bytes bs" "length pre \<le> 16" "wf_bytes pre" "bits \<le> 128"
  shows "startsWith bs pre bits \<longleftrightarrow> be_value bs div 2 ^ (128 - bits) = be_value (pad16 pre) div 2 ^ (128 - bits)"
proof -
  have pad: "length (pad16 pre) = 16" "wf_bytes (pad16 pre)"
    using assms by (auto simp: pad16_def wf_bytes_def list_all_iff)
  have bit_at: "bit (be_value cs) (127 - i) \<longleftrightarrow> bit (byte_at cs (i div 8)) (7 - i mod 8)"
    if "length cs = 16" "wf_bytes cs" "i < 128" for cs i
  proof -
    define q r where "q = i div 8" and "r = i mod 8"
    have i: "i = 8 * q + r" and qr: "q \<le> 15" "r \<le> 7"
      using that(3) by (simp_all add: q_def r_def less_mult_imp_div_less)
    define p t where "p = 15 - q" and "t = 7 - r"
    have "127 - i = p * 8 + t" using i qr by (simp add: p_def t_def)
    moreover have "t < 8" by (simp add: t_def)
    ultimately have "(127 - i) div 8 = p" "(127 - i) mod 8 = t" by simp_all
    then have "(127 - i) div 8 = 15 - i div 8" "(127 - i) mod 8 = 7 - i mod 8" "i div 8 \<le> 15"
      using qr by (simp_all add: p_def t_def q_def r_def)
    moreover have "127 - i < 128" by linarith
    ultimately show ?thesis
      using that by (simp add: bit_be_value)
  qed
  have lt: "be_value cs < 2 ^ 128" if "length cs = 16" "wf_bytes cs" for cs
    using be_value_less [OF that(2)] that(1) by simp
  have "startsWith bs pre bits \<longleftrightarrow> (\<forall>i < bits. bit (be_value bs) (127 - i) = bit (be_value (pad16 pre)) (127 - i))"
    using assms pad by (auto simp: startsWith_bits bit_at byte_at_pad16)
  also have "\<dots> \<longleftrightarrow> drop_bit (128 - bits) (be_value bs) = drop_bit (128 - bits) (be_value (pad16 pre))"
    using drop_bit_eq_bits [OF lt [OF assms(1,2)] lt [OF pad] assms(5)] by simp
  finally show ?thesis
    by (simp add: drop_bit_eq_div)
qed

section \<open>What the parsers accept\<close>

lemma length_last_bytes [simp]: "length (last_bytes k n) = k"
  by (simp add: last_bytes_def)

lemma wf_last_bytes [simp]: "wf_bytes (last_bytes k n)"
  by (simp add: last_bytes_def wf_bytes_def list_all_iff)

lemma last_bytes_Suc: "last_bytes (Suc k) n = n div 256 ^ k mod 256 # last_bytes k n"
  by (simp add: last_bytes_def)

lemma be_value_last_bytes: "be_value (last_bytes k n) = n mod 256 ^ k"
proof (induction k)
  case (Suc k)
  have "n mod 256 ^ Suc k = 256 ^ k * (n div 256 ^ k mod 256) + n mod 256 ^ k"
    using mod_mult2_eq [of n "256 ^ k" 256] by (simp add: mult.commute)
  with Suc show ?case by (simp add: last_bytes_Suc be_value_Cons)
qed (simp add: last_bytes_def)

lemma ipv4_values_length: "ipv4_values parts = Some vs \<Longrightarrow> length vs = length parts"
  by (induction parts arbitrary: vs) (auto split: option.splits)

definition inet_value :: "nat list \<Rightarrow> nat \<Rightarrow> nat" where
  "inet_value front final = be_value front * 256 ^ (4 - length front) + final"

lemma parseIPv4_Some_iff:
  "parseIPv4 text = Some bs \<longleftrightarrow>
     (\<exists>front final. ipv4_values (js_split ''.'' text) = Some (front @ [final]) \<and> length front \<le> 3 \<and>
        wf_bytes front \<and> final < 256 ^ (4 - length front) \<and> bs = front @ last_bytes (4 - length front) final)"
proof (cases "ipv4_values (js_split ''.'' text)")
  case None
  then show ?thesis by (simp add: parseIPv4_def Let_def)
next
  case (Some vs)
  then have len: "length vs = length (js_split ''.'' text)"
    by (rule ipv4_values_length)
  then obtain front final where v: "vs = front @ [final]"
    by (metis js_split_nonempty length_0_conv rev_exhaust)
  have "wf_bytes front \<longleftrightarrow> \<not> (\<exists>value \<in> set front. value > 255)"
    by (auto simp: wf_bytes_def list_all_iff not_less less_Suc_eq_le)
  then show ?thesis
    using Some len v by (auto simp: parseIPv4_def Let_def not_less)
qed

lemma parseIPv4_wf: "parseIPv4 text = Some bs \<Longrightarrow> length bs = 4 \<and> wf_bytes bs"
  by (auto simp: parseIPv4_Some_iff)

text \<open>
  The IPv4 parser accepts exactly the texts of one to four numbers (decimal, octal, hexadecimal)
  whose leading numbers are bytes and whose last one fits the remaining bytes, and the four bytes it
  answers denote the number the \<open>inet_aton\<close> notation gives the text.
\<close>

theorem parseIPv4_inet_value:
  "parseIPv4 text = Some bs \<longleftrightarrow>
     (\<exists>front final. ipv4_values (js_split ''.'' text) = Some (front @ [final]) \<and> length front \<le> 3 \<and>
        wf_bytes front \<and> final < 256 ^ (4 - length front) \<and>
        length bs = 4 \<and> wf_bytes bs \<and> be_value bs = inet_value front final)"
proof -
  have inet: "be_value (front @ last_bytes (4 - length front) final) = inet_value front final"
    if "final < 256 ^ (4 - length front)" for front final
    using that by (simp add: be_value_append be_value_last_bytes inet_value_def)
  have "bs = front @ last_bytes (4 - length front) final \<longleftrightarrow>
      length bs = 4 \<and> wf_bytes bs \<and> be_value bs = inet_value front final"
    if "length front \<le> 3" "wf_bytes front" "final < 256 ^ (4 - length front)" for front final
    using that inet [of final front]
      be_value_inject [of bs "front @ last_bytes (4 - length front) final"] by auto
  then show ?thesis
    unfolding parseIPv4_Some_iff by blast
qed

lemma pair16_bytes: "hi < 256 \<Longrightarrow> lo < 256 \<Longrightarrow> pair16 hi lo = hi * 256 + lo"
  using push_bit_or_nat [of lo 8 hi]
  by (simp add: pair16_def unsigned_or_eq unat_shl unat_of_nat push_bit_eq_mult)

lemma bytes_of_word: "w < 65536 \<Longrightarrow> bytes_of_word w = [w div 256, w mod 256]"
proof -
  assume w: "w < 65536"
  have "\<not> bit (of_nat w :: 32 word) 31"
    using w bit_imp_le_length by (simp add: bit_simps bit_nat_def)
  then have "signed_drop_bit 8 (of_nat w :: 32 word) = drop_bit 8 (of_nat w)"
    by (intro bit_word_eqI) (auto simp: bit_signed_drop_bit_iff bit_drop_bit_eq dest: bit_imp_le_length)
  then have 1: "unat (signed_drop_bit 8 (of_nat w :: 32 word)) = w div 256"
    using w by (simp only: unat_drop_bit_eq) (simp add: unat_of_nat drop_bit_eq_div)
  have "unat (of_nat w AND (255 :: 32 word)) = w AND 255"
    using w by (simp add: unsigned_and_eq unat_of_nat)
  also have "\<dots> = w mod 256"
    using take_bit_eq_mask [of 8 w] by (simp add: take_bit_eq_mod mask_eq_exp_minus_1)
  finally have 2: "unat (of_nat w AND (255 :: 32 word)) = w mod 256" .
  from 1 2 show ?thesis by (simp add: bytes_of_word_def)
qed


lemma wf_concat_words:
  "list_all (\<lambda>w. w < 65536) ws \<Longrightarrow>
     wf_bytes (concat (map bytes_of_word ws)) \<and> length (concat (map bytes_of_word ws)) = 2 * length ws"
  by (induction ws) (auto simp: bytes_of_word less_mult_imp_div_less)

lemma hex_digit_less: "js_hex_digit c \<Longrightarrow> js_digit_val c < 16"
  by (auto simp: js_char_defs js_digit_val_def)

lemma js_parse_digits_less:
  "\<forall>c \<in> set s. js_digit_val c < r \<Longrightarrow> js_parse_digits r s < r ^ length s"
proof (induction s rule: rev_induct)
  case (snoc c s)
  then have "js_parse_digits r s + 1 \<le> r ^ length s" "js_digit_val c < r" by simp_all
  then have "(js_parse_digits r s + 1) * r \<le> r ^ length s * r" by (intro mult_le_mono1)
  with \<open>js_digit_val c < r\<close> show ?case by (simp add: js_parse_digits_append algebra_simps)
qed (simp add: js_parse_digits_def)

lemma hex_group_less: "hex_group_pattern part \<Longrightarrow> js_parse_digits 16 part < 65536"
proof -
  assume h: "hex_group_pattern part"
  then have "js_parse_digits 16 part < 16 ^ length part"
    by (intro js_parse_digits_less) (auto simp: hex_group_pattern_def list_all_iff hex_digit_less)
  also have "\<dots> \<le> 16 ^ 4"
    using h by (intro power_increasing) (auto simp: hex_group_pattern_def)
  finally show ?thesis by simp
qed

lemma byte_le_255: "n \<le> 255 \<longleftrightarrow> n < (256 :: nat)"
  by auto

lemma dottedQuad_wf: "dottedQuad text = Some quad \<Longrightarrow> length quad = 4 \<and> wf_bytes quad"
  by (auto simp: dottedQuad_def Let_def wf_bytes_def list_all_iff byte_le_255 split: if_splits)

lemma groups_of_less: "groups_of parts = Some ws \<Longrightarrow> list_all (\<lambda>w. w < 65536) ws"
proof (induction parts arbitrary: ws)
  case (Cons part parts)
  have "byte_at quad i < 256" if "dottedQuad part = Some quad" for quad i
    using dottedQuad_wf [OF that] byte_at_less by blast
  then have "pair16 (byte_at quad i) (byte_at quad j) < 65536" if "dottedQuad part = Some quad" for quad i j
  proof -
    assume b: "\<And>quad i. dottedQuad part = Some quad \<Longrightarrow> byte_at quad i < 256"
    have "byte_at quad i < 256" "byte_at quad j < 256" using b that by blast+
    then show ?thesis by (simp add: pair16_bytes)
  qed
  with Cons show ?case
    by (auto simp: hex_group_less split: if_splits option.splits)
qed simp

lemma groups_less: "groups text = Some ws \<Longrightarrow> list_all (\<lambda>w. w < 65536) ws"
  by (auto simp: groups_def groups_of_less split: if_splits)

lemma words_to_bytes_wf:
  "words_to_bytes ws = Some bs \<Longrightarrow> list_all (\<lambda>w. w < 65536) ws \<Longrightarrow> length bs = 16 \<and> wf_bytes bs"
  using wf_concat_words [of ws] by (auto simp: words_to_bytes_def split: if_splits)

lemma parseIPv6_wf: "parseIPv6 text = Some bs \<Longrightarrow> length bs = 16 \<and> wf_bytes bs"
  by (auto simp: parseIPv6_def Let_def list_all_iff
      dest!: groups_less words_to_bytes_wf split: if_splits option.splits)

text \<open>Claim C26: every address the parser accepts is four or sixteen bytes, each below 256.\<close>

theorem parseAddress_wf: "parseAddress text = Some a \<Longrightarrow> wf_address a"
  by (auto simp: parseAddress_def wf_address_def dest!: parseIPv4_wf parseIPv6_wf split: if_splits)

section \<open>Round trip\<close>

lemma digit_char_decimal: "d < 10 \<Longrightarrow> js_digit (js_digit_char d) \<and> (js_digit_char d = CHR ''0'' \<longleftrightarrow> d = 0)"
proof -
  assume "d < 10"
  then have "code_unit (js_digit_char d) = d + 48" by (simp add: code_unit_digit_char)
  moreover have "code_unit CHR ''0'' = 48" by (simp add: code_unit_def)
  ultimately show ?thesis
    using \<open>d < 10\<close> by (auto simp: js_digit_def simp flip: code_unit_inject)
qed

lemma digit_char_hex: "d < 16 \<Longrightarrow> js_hex_digit (js_digit_char d)"
  by (simp add: js_hex_digit_def js_digit_def code_unit_digit_char)

lemma hex_digit_not: "js_hex_digit c \<Longrightarrow> c \<noteq> CHR ''.'' \<and> c \<noteq> CHR '':''"
  by (auto simp: js_char_defs code_unit_def)

lemma decimal_digits: "c \<in> set (js_to_string 10 n) \<Longrightarrow> js_digit c"
  using set_js_to_string [of 10 c n] digit_char_decimal by auto

lemma hex_digits: "c \<in> set (js_to_string 16 n) \<Longrightarrow> js_hex_digit c"
  using set_js_to_string [of 16 c n] digit_char_hex by auto

lemma ipv4Part_decimal:
  assumes "n < 256"
  shows "ipv4Part (js_to_string 10 n) = Some n"
proof (cases "n = 0")
  case True
  have "char_of (48 :: nat) = CHR ''0''" by code_simp
  then have "js_to_string 10 0 = ''0''"
    by (simp add: js_to_string.simps [of 10 0] js_digit_char_def)
  with True show ?thesis
    by (simp add: ipv4Part_def ipv4_part_pattern_def starts_0x_def safe_or_none_def
        js_parse_digits_def js_digit_val_def js_char_defs code_unit_def)
next
  case False
  then obtain d where d: "0 < d" "d < 10" "hd (js_to_string 10 n) = js_digit_char d"
    using hd_js_to_string [of 10 n] by auto
  then have "hd (js_to_string 10 n) \<noteq> CHR ''0''"
    using digit_char_decimal [of d] by simp
  then have nz: "\<not> prefix ''0'' (js_to_string 10 n)" "\<not> starts_0x (js_to_string 10 n)"
    by (cases "js_to_string 10 n"; auto simp: starts_0x_def)+
  have "ipv4_part_pattern (js_to_string 10 n)"
    using decimal_digits by (auto simp: ipv4_part_pattern_def list_all_iff)
  with nz assms show ?thesis
    by (simp add: ipv4Part_def js_parse_to_string safe_or_none_def max_safe_integer_def)
qed

lemma ipv4_values_decimal: "wf_bytes bs \<Longrightarrow> ipv4_values (map (js_to_string 10) bs) = Some bs"
  by (induction bs) (auto simp: ipv4Part_decimal)

lemma parse_format_IPv4:
  assumes "length bs = 4" "wf_bytes bs"
  shows "parseIPv4 (js_join ''.'' (map (js_to_string 10) bs)) = Some bs"
proof -
  obtain front final where bs: "bs = front @ [final]"
    using assms(1) by (cases bs rule: rev_cases) auto
  have "CHR ''.'' \<notin> set (js_to_string 10 b)" for b
    using decimal_digits hex_digit_not by (auto simp: js_hex_digit_def)
  then have "js_split ''.'' (js_join ''.'' (map (js_to_string 10) bs)) = map (js_to_string 10) bs"
    using assms(1) by (intro js_split_join) auto
  then have "ipv4_values (js_split ''.'' (js_join ''.'' (map (js_to_string 10) bs))) = Some (front @ [final])"
    using assms(2) bs by (simp only: ipv4_values_decimal)
  moreover have "last_bytes 1 final = [final]" "final < 256" "length front = 3" "wf_bytes front"
    using assms bs by (simp_all add: last_bytes_def)
  ultimately show ?thesis
    unfolding parseIPv4_Some_iff by (intro exI [of _ front] exI [of _ final]) (simp add: bs)
qed


lemma sublist_pair_successively:
  "successively (\<lambda>x y. x = c \<longrightarrow> y \<noteq> c) s \<Longrightarrow> \<not> sublist [c, c] s"
  by (auto simp: sublist_def successively_append_iff)

lemma successively_no_char:
  "c \<notin> set s \<Longrightarrow> successively (\<lambda>x y. x = c \<longrightarrow> y \<noteq> c) s"
  by (induction s) (auto simp: successively_Cons)

lemma js_join_no_double:
  assumes "\<forall>t \<in> set ts. t \<noteq> [] \<and> c \<notin> set t"
  shows "successively (\<lambda>x y. x = c \<longrightarrow> y \<noteq> c) (js_join [c] ts)"
  using assms
proof (induction "[c]" ts rule: js_join.induct)
  case (3 s t ts)
  then have "js_join [c] (t # ts) \<noteq> []" "hd (js_join [c] (t # ts)) \<noteq> c"
    by (cases ts; auto; cases t; auto)+
  moreover have "last s \<noteq> c"
    using 3 by (metis last_in_set list.set_intros(1))
  moreover have "successively (\<lambda>x y. x = c \<longrightarrow> y \<noteq> c) s"
    using 3 by (simp add: successively_no_char)
  ultimately show ?case
    using 3 by (auto simp: successively_append_iff successively_Cons)
qed (auto simp: successively_no_char)

lemma js_join_nonempty: "ts \<noteq> [] \<Longrightarrow> hd ts \<noteq> [] \<Longrightarrow> js_join sep ts \<noteq> []"
  by (cases "(sep, ts)" rule: js_join.cases) auto

definition words_of :: "nat list \<Rightarrow> nat list" where
  "words_of bs = map (\<lambda>i. pair16 (byte_at bs (2 * i)) (byte_at bs (2 * i + 1))) [0..<8]"

lemma concat_words_of:
  assumes "length bs = 16" "wf_bytes bs"
  shows "concat (map bytes_of_word (words_of bs)) = bs" "list_all (\<lambda>w. w < 65536) (words_of bs)"
proof -
  have b: "byte_at bs i < 256" for i using assms(2) by (rule byte_at_less)
  have "[0..<8] = [0, 1, 2, 3, 4, 5, 6, 7 :: nat]" by (simp add: upt_rec)
  moreover have "bytes_of_word (byte_at bs i * 256 + byte_at bs j) = [byte_at bs i, byte_at bs j]" for i j
    using b [of i] b [of j] by (subst bytes_of_word) auto
  moreover have "bs = map (byte_at bs) [0, 1, 2, 3, 4, 5, 6, 7, 8, 9, 10, 11, 12, 13, 14, 15]"
  proof -
    have "[0, 1, 2, 3, 4, 5, 6, 7, 8, 9, 10, 11, 12, 13, 14, 15] = [0..<length bs]"
      by (simp add: assms(1) upt_rec)
    then show ?thesis
      by (simp only:) (rule nth_equalityI, auto simp: byte_at_def)
  qed
  ultimately show "concat (map bytes_of_word (words_of bs)) = bs"
    using b by (simp add: words_of_def pair16_bytes)
  show "list_all (\<lambda>w. w < 65536) (words_of bs)"
  proof -
    have "byte_at bs i * 256 + byte_at bs j < 65536" for i j
      using b [of i] b [of j] by simp
    then show ?thesis using b by (auto simp: words_of_def list_all_iff pair16_bytes)
  qed
qed

lemma groups_of_hex:
  "list_all (\<lambda>w. w < 65536) ws \<Longrightarrow> groups_of (map (js_to_string 16) ws) = Some ws"
proof (induction ws)
  case (Cons w ws)
  then have "length (js_to_string 16 w) \<le> 4"
    using length_js_to_string [of 16 w 4] by simp
  then have "hex_group_pattern (js_to_string 16 w)"
    using hex_digits by (auto simp: hex_group_pattern_def list_all_iff)
  moreover have "CHR ''.'' \<notin> set (js_to_string 16 w)"
    using hex_digits hex_digit_not by blast
  ultimately show ?case
    using Cons by (simp add: js_parse_to_string)
qed simp

lemma parse_format_IPv6:
  assumes "length bs = 16" "wf_bytes bs"
  shows "parseIPv6 (js_join '':'' (map (js_to_string 16) (words_of bs))) = Some bs"
proof -
  let ?parts = "map (js_to_string 16) (words_of bs)"
  let ?text = "js_join '':'' ?parts"
  have parts: "\<forall>t \<in> set ?parts. t \<noteq> [] \<and> CHR '':'' \<notin> set t" "?parts \<noteq> []"
    using hex_digits hex_digit_not by (auto simp: words_of_def)
  then have "js_split ''::'' ?text = [?text]"
    by (intro js_split_absent sublist_pair_successively js_join_no_double) simp_all
  moreover have "js_split '':'' ?text = ?parts"
    using parts by (intro js_split_join) auto
  moreover have "?text \<noteq> []"
    using parts by (intro js_join_nonempty) (auto simp: words_of_def upt_rec)
  moreover have "length (words_of bs) = 8"
    by (simp add: words_of_def)
  moreover have "groups_of ?parts = Some (words_of bs)"
    by (rule groups_of_hex [OF concat_words_of(2) [OF assms]])
  ultimately show ?thesis
    using concat_words_of(1) [OF assms]
    by (simp add: parseIPv6_def groups_def words_to_bytes_def del: map_map)
qed

text \<open>Claim C25: printing an address and parsing the text gives the address back.\<close>

theorem parse_format_address:
  assumes "wf_address a"
  shows "parseAddress (formatAddress a) = Some a"
proof (cases "family a")
  case IPv4
  have "CHR '':'' \<notin> set (js_to_string 10 b)" for b
    using decimal_digits hex_digit_not by (auto simp: js_hex_digit_def)
  then have "CHR '':'' \<notin> set (js_join ''.'' (map (js_to_string 10) (bytes a)))"
    using set_js_join [of "''.''" "map (js_to_string 10) (bytes a)"] by auto
  with IPv4 assms show ?thesis
    by (simp add: parseAddress_def formatAddress_def wf_address_def parse_format_IPv4)
next
  case IPv6
  have "CHR '':'' \<in> set (formatAddress a)"
    using IPv6 by (simp add: formatAddress_def upt_rec)
  moreover have "formatAddress a = js_join '':'' (map (js_to_string 16) (words_of (bytes a)))"
    using IPv6 by (simp add: formatAddress_def words_of_def comp_def)
  ultimately show ?thesis
    using IPv6 assms by (simp add: parseAddress_def wf_address_def parse_format_IPv6)
qed


section \<open>What the classifier refuses\<close>

text \<open>The IPv6 verdict read off the number of the address; the embedded IPv4 address decides for the mapped and 6to4 forms.\<close>

definition v6_public_spec :: "nat list \<Rightarrow> bool" where
  "v6_public_spec bs =
     (let v = be_value bs
      in if v div 2 ^ 32 = 0xffff then \<not> in_ranges reserved_v4_ranges (drop 12 bs)
         else v div 2 ^ 125 = 1 \<and>
           (if v div 2 ^ 112 = 0x2002 then \<not> in_ranges reserved_v4_ranges (take 4 (drop 2 bs))
            else v div 2 ^ 96 \<noteq> 0x20010000 \<and> v div 2 ^ 80 \<noteq> 0x200100020000 \<and> v div 2 ^ 96 \<noteq> 0x20010db8 \<and>
                 v div 2 ^ 100 \<noteq> 0x2001001 \<and> v div 2 ^ 108 \<noteq> 0x3fff0))"

lemma be_value_zeros [simp]: "be_value (replicate n 0) = 0"
  by (induction n) (simp_all add: be_value_Cons)

lemma be_value_pad16: "be_value (pad16 pre) = be_value pre * 256 ^ (16 - length pre)"
  by (simp add: pad16_def be_value_append)

lemma isPublicV6_iff:
  assumes "length bs = 16" "wf_bytes bs"
  shows "isPublicV6 bs = v6_public_spec bs"
proof -
  define v where "v = be_value bs"
  have sw: "startsWith bs pre bits \<longleftrightarrow> v div 2 ^ (128 - bits) = be_value pre * 256 ^ (16 - length pre) div 2 ^ (128 - bits)"
    if "length pre \<le> 16" "wf_bytes pre" "bits \<le> 128" for pre bits
    using startsWith_be_value [OF assms that] by (simp only: be_value_pad16 v_def)
  have mapped: "startsWith bs MAPPED_V4_PREFIX 96 \<longleftrightarrow> v div 2 ^ 32 = 0xffff"
    unfolding MAPPED_V4_PREFIX_def by (subst sw) (simp_all add: be_value_Cons)
  have global: "startsWith bs [0x20] 3 \<longleftrightarrow> v div 2 ^ 125 = 1"
    by (subst sw) (simp_all add: be_value_Cons)
  have sixtofour: "startsWith bs [0x20, 0x02] 16 \<longleftrightarrow> v div 2 ^ 112 = 0x2002"
    by (subst sw) (simp_all add: be_value_Cons)
  have blocks: "startsWith bs [0x20, 0x01, 0x00, 0x00] 32 \<longleftrightarrow> v div 2 ^ 96 = 0x20010000"
    "startsWith bs [0x20, 0x01, 0x00, 0x02, 0x00, 0x00] 48 \<longleftrightarrow> v div 2 ^ 80 = 0x200100020000"
    "startsWith bs [0x20, 0x01, 0x0d, 0xb8] 32 \<longleftrightarrow> v div 2 ^ 96 = 0x20010db8"
    "startsWith bs [0x20, 0x01, 0x00, 0x10] 28 \<longleftrightarrow> v div 2 ^ 100 = 0x2001001"
    "startsWith bs [0x3f, 0xff] 20 \<longleftrightarrow> v div 2 ^ 108 = 0x3fff0"
    by (subst sw; simp add: be_value_Cons)+
  have "wf_bytes (drop 12 bs)" "wf_bytes (take 4 (drop 2 bs))"
    using assms(2) by (auto simp: wf_bytes_def list_all_iff dest: in_set_takeD in_set_dropD)
  then have quads: "isPublicV4 (drop 12 bs) \<longleftrightarrow> \<not> in_ranges reserved_v4_ranges (drop 12 bs)"
    "isPublicV4 (take 4 (drop 2 bs)) \<longleftrightarrow> \<not> in_ranges reserved_v4_ranges (take 4 (drop 2 bs))"
    using assms(1) by (simp_all add: isPublicV4_iff)
  show ?thesis
    unfolding isPublicV6_def v6_public_spec_def NON_PUBLIC_V6_def mapped global sixtofour quads Let_def v_def [symmetric]
    by (simp only: list_ex_Cons_iff list_ex_Nil_iff prod.case blocks if_bool_eq_conj) blast
qed


text \<open>A dotted quad is taken at the end of either half, so before the \<open>::\<close> too, where RFC 4291 has no such form.\<close>

lemma parseIPv6_dotted_head:
  "parseIPv6 ''1.2.3.4::1'' = Some [1, 2, 3, 4, 0, 0, 0, 0, 0, 0, 0, 0, 0, 0, 0, 1]"
  by code_simp

text \<open>Claim C24: text the classifier calls public denotes an address outside every reserved range.\<close>

theorem public_text_outside_reserved:
  "isPublicAddressText text \<longleftrightarrow>
     (\<exists>bs. (parseAddress text = Some \<lparr>family = IPv4, bytes = bs\<rparr> \<and> \<not> in_ranges reserved_v4_ranges bs) \<or>
           (parseAddress text = Some \<lparr>family = IPv6, bytes = bs\<rparr> \<and> v6_public_spec bs))"
proof (cases "parseAddress text")
  case None
  then show ?thesis by (simp add: isPublicAddressText_def)
next
  case (Some a)
  then have "wf_address a" by (rule parseAddress_wf)
  then have "isPublicAddress a \<longleftrightarrow>
      (family a = IPv4 \<and> \<not> in_ranges reserved_v4_ranges (bytes a)) \<or> (family a = IPv6 \<and> v6_public_spec (bytes a))"
    by (cases "family a") (auto simp: isPublicAddress_def wf_address_def isPublicV4_iff isPublicV6_iff)
  then show ?thesis
    using Some by (cases a) (auto simp: isPublicAddressText_def)
qed

lemma mapped_prefix: "startsWith (MAPPED_V4_PREFIX @ quad) MAPPED_V4_PREFIX 96"
proof -
  have "byte_at (MAPPED_V4_PREFIX @ quad) i = byte_at MAPPED_V4_PREFIX i" if "i < 12" for i
    using that unfolding byte_at_def nth_append by (simp add: MAPPED_V4_PREFIX_def)
  then show ?thesis
    by (simp add: startsWith_def list_all_iff Let_def less_mult_imp_div_less)
qed

text \<open>
  An IPv4-mapped IPv6 address is judged as the IPv4 address it embeds, by the public test and by
  the operator's allowance alike, so the notation cannot change the verdict.
\<close>

theorem mapped_address_judged_as_embedded:
  "isPublicAddress \<lparr>family = IPv6, bytes = MAPPED_V4_PREFIX @ quad\<rparr>
     = isPublicAddress \<lparr>family = IPv4, bytes = quad\<rparr> \<and>
   isOperatorPrivateAddress \<lparr>family = IPv6, bytes = MAPPED_V4_PREFIX @ quad\<rparr>
     = isOperatorPrivateAddress \<lparr>family = IPv4, bytes = quad\<rparr>"
  by (simp add: isPublicAddress_def isOperatorPrivateAddress_def isPublicV6_def mapped_prefix)
     (simp add: MAPPED_V4_PREFIX_def)

lemma startsWith_first: "startsWith bs pre bits \<Longrightarrow> n \<le> bits \<Longrightarrow> startsWith bs pre n"
  by (auto simp: startsWith_def list_all_iff)

lemma startsWith_clash:
  "startsWith bs pre n \<Longrightarrow> \<not> startsWith pre pre' n \<Longrightarrow> \<not> startsWith bs pre' n"
  by (auto simp: startsWith_bits)

text \<open>No address the operator's allowance covers counts as public.\<close>

theorem operator_private_not_public:
  "isOperatorPrivateAddress a \<Longrightarrow> \<not> isPublicAddress a"
proof -
  assume op: "isOperatorPrivateAddress a"
  have quad: "\<not> isPublicV4 bs" if "list_ex (inCidr4 bs) OPERATOR_PRIVATE_V4" for bs
    using that by (auto simp: isPublicV4_def OPERATOR_PRIVATE_V4_def NON_PUBLIC_V4_def simp del: inCidr4.simps)
  let ?loopback = "[0, 0, 0, 0, 0, 0, 0, 0, 0, 0, 0, 0, 0, 0, 0, 1]"
  have "\<not> startsWith ?loopback [0x20] 3"
    unfolding startsWith_bits by (auto intro!: exI [of _ 2] simp: byte_at_def bit_0)
  then have lo: "startsWith (bytes a) ?loopback 128 \<Longrightarrow> \<not> startsWith (bytes a) [0x20] 3"
    using startsWith_clash [OF startsWith_first [of "bytes a" ?loopback 128 3]] by simp
  have "\<not> startsWith [0xfc] [0x20] 3"
    unfolding startsWith_bits by (auto intro!: exI [of _ 0] simp: byte_at_def bit_0)
  then have ula: "startsWith (bytes a) [0xfc] 7 \<Longrightarrow> \<not> startsWith (bytes a) [0x20] 3"
    using startsWith_clash [OF startsWith_first [of "bytes a" "[0xfc]" 7 3]] by simp
  show ?thesis
    using op quad lo ula by (auto simp: isOperatorPrivateAddress_def isPublicAddress_def isPublicV6_def split: if_splits)
qed


theorem parseAddress_wf_witness:
  "parseAddress ''0x7f.1'' = Some \<lparr>family = IPv4, bytes = [127, 0, 0, 1]\<rparr> \<and>
   wf_address \<lparr>family = IPv4, bytes = [127, 0, 0, 1]\<rparr>"
proof -
  have p: "parseAddress ''0x7f.1'' = Some \<lparr>family = IPv4, bytes = [127, 0, 0, 1]\<rparr>"
    by code_simp
  from p parseAddress_wf [OF p] show ?thesis ..
qed

theorem parse_format_address_witness:
  "parseAddress (formatAddress \<lparr>family = IPv6, bytes = [32, 1, 13, 184, 0, 0, 0, 0, 0, 0, 0, 0, 0, 0, 0, 1]\<rparr>)
     = Some \<lparr>family = IPv6, bytes = [32, 1, 13, 184, 0, 0, 0, 0, 0, 0, 0, 0, 0, 0, 0, 1]\<rparr>"
  by (rule parse_format_address) (simp add: wf_address_def)

theorem operator_private_not_public_witness:
  "isOperatorPrivateAddress \<lparr>family = IPv4, bytes = [10, 1, 2, 3]\<rparr> \<and>
   \<not> isPublicAddress \<lparr>family = IPv4, bytes = [10, 1, 2, 3]\<rparr>"
proof -
  have p: "isOperatorPrivateAddress \<lparr>family = IPv4, bytes = [10, 1, 2, 3]\<rparr>"
    by code_simp
  from p operator_private_not_public [OF p] show ?thesis ..
qed

end
