(* ===== verification/Entitlements.thy ===== *)
theory Entitlements
  imports Prelude
begin

text \<open>
  The entitlements of a workspace: \<open>packages/core/src/entitlements/\<close> and its port
  \<open>packages/core/src/ports/entitlements.ts\<close>. The catalog, the checking of what a source answers and the checks of a
  request are functions; the process cache, which many requests fill at the same time, is a state that the pieces of
  \<open>load\<close> between two awaits change, run in every order by \<open>ent_step\<close>. The source and the versions are the environment.
\<close>

section \<open>The catalog (catalog.ts)\<close>

datatype ent_scope = ScopeWorkspace | ScopeAccount
datatype ent_type = TypeFlag | TypeLimit

record entitlement_definition =
  ed_scope :: ent_scope
  ed_type :: ent_type

definition ent_def :: "ent_scope \<Rightarrow> ent_type \<Rightarrow> entitlement_definition" where
  "ent_def s t = \<lparr>ed_scope = s, ed_type = t\<rparr>"

definition ENTITLEMENT_CATALOG :: "(string \<times> entitlement_definition) list" where
  "ENTITLEMENT_CATALOG =
     [(''bookmarks.max'', ent_def ScopeWorkspace TypeLimit),
      (''ai.suggestions'', ent_def ScopeWorkspace TypeFlag),
      (''sharing.members'', ent_def ScopeWorkspace TypeFlag),
      (''sharing.teams'', ent_def ScopeWorkspace TypeFlag),
      (''members.invite'', ent_def ScopeWorkspace TypeFlag),
      (''teams.manage'', ent_def ScopeWorkspace TypeFlag),
      (''audit.log'', ent_def ScopeWorkspace TypeFlag),
      (''seats.max'', ent_def ScopeWorkspace TypeLimit),
      (''workspaces.ownMax'', ent_def ScopeAccount TypeLimit)]"

definition keysOf :: "ent_scope \<Rightarrow> ent_type \<Rightarrow> string list" where
  "keysOf s t = map fst (filter (\<lambda>(_, d). ed_scope d = s \<and> ed_type d = t) ENTITLEMENT_CATALOG)"

definition FLAG_ENTITLEMENTS :: "string list" where
  "FLAG_ENTITLEMENTS = keysOf ScopeWorkspace TypeFlag"

definition WORKSPACE_LIMIT_ENTITLEMENTS :: "string list" where
  "WORKSPACE_LIMIT_ENTITLEMENTS = keysOf ScopeWorkspace TypeLimit"

definition ACCOUNT_LIMIT_ENTITLEMENTS :: "string list" where
  "ACCOUNT_LIMIT_ENTITLEMENTS = keysOf ScopeAccount TypeLimit"

definition isEntitlementKey :: "string \<Rightarrow> bool" where
  "isEntitlementKey key \<longleftrightarrow> map_of ENTITLEMENT_CATALOG key \<noteq> None"

section \<open>What a source answers\<close>

text \<open>
  A JavaScript value, as far as the checks look at it: a number is an integral one or another (a fraction, an infinity
  or no number); an object answers its properties.
\<close>

datatype js_value =
    JsUndefined
  | JsNull
  | JsBool bool
  | JsText string
  | JsIntegral int
  | JsOtherNumber
  | JsObject "(string \<times> js_value) list"

definition reflect_get :: "(string \<times> js_value) list \<Rightarrow> string \<Rightarrow> js_value" where
  "reflect_get props key = (case map_of props key of None \<Rightarrow> JsUndefined | Some v \<Rightarrow> v)"

text \<open>\<open>2\<^sup>53 - 1\<close>, the largest safe integer.\<close>

definition MAX_SAFE :: int where
  "MAX_SAFE = 9007199254740991"

definition isLimit :: "js_value \<Rightarrow> bool" where
  "isLimit v = (case v of JsText t \<Rightarrow> t = ''unlimited'' | JsIntegral n \<Rightarrow> 0 \<le> n \<and> n \<le> MAX_SAFE | _ \<Rightarrow> False)"

definition is_flag :: "js_value \<Rightarrow> bool" where
  "is_flag v = (case v of JsBool _ \<Rightarrow> True | _ \<Rightarrow> False)"

type_synonym ent_values = "(string \<times> js_value) list"

definition EntitlementSourceError :: "string \<Rightarrow> js_error" where
  "EntitlementSourceError message = NamedError ''EntitlementSourceError'' message"

text \<open>
  The loop of the parsers: the keys in order, the first value of the wrong type refusing the answer. The error carries the key;
  the rest of its message (the value as \<open>shown\<close> words it) is for the log and is left out.
\<close>

fun parse_keys :: "(js_value \<Rightarrow> bool) \<Rightarrow> string list \<Rightarrow> (string \<times> js_value) list \<Rightarrow> js_error + ent_values" where
  "parse_keys ok [] props = Inr []"
| "parse_keys ok (key # keys) props =
     (let value = reflect_get props key
      in if \<not> ok value then Inl (EntitlementSourceError key)
         else case parse_keys ok keys props of Inl e \<Rightarrow> Inl e | Inr parsed \<Rightarrow> Inr ((key, value) # parsed))"

definition parseWorkspaceEntitlements :: "js_value \<Rightarrow> js_error + ent_values" where
  "parseWorkspaceEntitlements answer =
     (case answer of
        JsObject props \<Rightarrow>
          (case parse_keys is_flag FLAG_ENTITLEMENTS props of
             Inl e \<Rightarrow> Inl e
           | Inr flags \<Rightarrow>
               (case parse_keys isLimit WORKSPACE_LIMIT_ENTITLEMENTS props of
                  Inl e \<Rightarrow> Inl e | Inr limits \<Rightarrow> Inr (flags @ limits)))
      | _ \<Rightarrow> Inl (EntitlementSourceError ''the entitlement source answered no values for the workspace''))"

definition parseAccountEntitlements :: "js_value \<Rightarrow> js_error + ent_values" where
  "parseAccountEntitlements answer =
     (case answer of
        JsObject props \<Rightarrow> parse_keys isLimit ACCOUNT_LIMIT_ENTITLEMENTS props
      | _ \<Rightarrow> Inl (EntitlementSourceError ''the entitlement source answered no values for the account''))"

record ent_grant =
  eg_values :: js_value
  eg_upgradeAvailable :: js_value

record joining_entitlements =
  je_values :: ent_values
  je_upgradeAvailable :: bool

definition readSource :: "js_error + ent_grant \<Rightarrow> js_error + joining_entitlements" where
  "readSource answer =
     (case answer of
        Inl e \<Rightarrow> Inl e
      | Inr grant \<Rightarrow>
          (case eg_upgradeAvailable grant of
             JsBool up \<Rightarrow>
               (case parseWorkspaceEntitlements (eg_values grant) of
                  Inl e \<Rightarrow> Inl e | Inr values \<Rightarrow> Inr \<lparr>je_values = values, je_upgradeAvailable = up\<rparr>)
           | _ \<Rightarrow> Inl (EntitlementSourceError ''the entitlement source did not say whether an upgrade path exists'')))"

section \<open>The process cache\<close>

record entitlement_set =
  es_workspaceId :: string
  es_version :: nat
  es_values :: ent_values
  es_upgradeAvailable :: bool

text \<open>The \<open>Map\<close> of the cache in its insertion order: workspace, version and set.\<close>

type_synonym ent_cache = "(string \<times> entitlement_set) list"

definition cache_delete :: "string \<Rightarrow> ent_cache \<Rightarrow> ent_cache" where
  "cache_delete w cache = filter (\<lambda>e. fst e \<noteq> w) cache"

definition cached_version :: "ent_cache \<Rightarrow> string \<Rightarrow> nat option" where
  "cached_version cache w = map_option es_version (map_of cache w)"

definition DEFAULT_CACHE_SIZE :: nat where
  "DEFAULT_CACHE_SIZE = 10000"

text \<open>The pieces of \<open>load\<close>: after the version was read, and after the source was asked.\<close>

datatype load_next = LoadDone "entitlement_set option" | AskSource nat

definition load_versioned :: "string \<Rightarrow> nat option \<Rightarrow> ent_cache \<Rightarrow> load_next \<times> ent_cache" where
  "load_versioned w version cache =
     (case version of
        None \<Rightarrow> (LoadDone None, cache_delete w cache)
      | Some v \<Rightarrow>
          (case map_of cache w of
             Some held \<Rightarrow> if es_version held = v then (LoadDone (Some held), cache) else (AskSource v, cache)
           | None \<Rightarrow> (AskSource v, cache)))"

definition set_of :: "string \<Rightarrow> nat \<Rightarrow> joining_entitlements \<Rightarrow> entitlement_set" where
  "set_of w v answer =
     \<lparr>es_workspaceId = w, es_version = v, es_values = je_values answer, es_upgradeAvailable = je_upgradeAvailable answer\<rparr>"

definition load_answered :: "nat \<Rightarrow> string \<Rightarrow> nat \<Rightarrow> joining_entitlements \<Rightarrow> ent_cache \<Rightarrow> entitlement_set \<times> ent_cache" where
  "load_answered cacheSize w v answer cache =
     (let fresh = set_of w v answer;
          held = (case cached_version cache w of None \<Rightarrow> v | Some v' \<Rightarrow> v');
          cache1 = (if held \<le> v then cache_delete w cache @ [(w, fresh)] else cache);
          cache2 = (if length cache1 > cacheSize then drop 1 cache1 else cache1)
      in (fresh, cache2))"

section \<open>Requests side by side\<close>

text \<open>
  The environment has a version and a grant for each workspace; a change raises the version with the grant
  (\<open>withEntitlementChange\<close>), so the grants are kept by version. A load is a task; the memo of a request
  holds the task of each workspace it asked for. \<open>lt_began\<close>, the version when a load began, and \<open>ew_asks\<close>, the asks so far with the version
  the workspace had at each and the load it was answered with, are a history the code does not keep.
\<close>

datatype load_phase =
    Starting
  | Versioned "nat option"
  | Asking nat
  | Answered nat joining_entitlements
  | Loaded "entitlement_set option"
  | LoadFailed

record load_task =
  lt_workspaceId :: string
  lt_began :: nat
  lt_phase :: load_phase

record ent_ask =
  ea_request :: nat
  ea_workspaceId :: string
  ea_version :: nat
  ea_task :: nat

record ent_world =
  ew_version :: "string \<Rightarrow> nat"
  ew_grants :: "string \<Rightarrow> nat \<Rightarrow> ent_grant"
  ew_cache :: ent_cache
  ew_tasks :: "nat \<Rightarrow> load_task option"
  ew_memo :: "nat \<times> string \<Rightarrow> nat option"
  ew_asks :: "ent_ask list"

definition at_phase :: "ent_world \<Rightarrow> nat \<Rightarrow> string \<Rightarrow> load_phase \<Rightarrow> bool" where
  "at_phase w t ws phase \<longleftrightarrow> (\<exists>task. ew_tasks w t = Some task \<and> lt_workspaceId task = ws \<and> lt_phase task = phase)"

definition to_phase :: "nat \<Rightarrow> load_phase \<Rightarrow> ent_world \<Rightarrow> ent_world" where
  "to_phase t phase w = w\<lparr>ew_tasks := (ew_tasks w)(t := map_option (\<lambda>task. task\<lparr>lt_phase := phase\<rparr>) (ew_tasks w t))\<rparr>"

definition change_grant :: "string \<Rightarrow> ent_grant \<Rightarrow> ent_world \<Rightarrow> ent_world" where
  "change_grant ws g w =
     (let v = Suc (ew_version w ws)
      in w\<lparr>ew_version := (ew_version w)(ws := v), ew_grants := (ew_grants w)(ws := (ew_grants w ws)(v := g))\<rparr>)"

text \<open>\<open>forWorkspace\<close> of a request answers the task of its memo, or a new one that starts to load.\<close>

definition forWorkspace :: "nat \<Rightarrow> string \<Rightarrow> nat \<Rightarrow> ent_world \<Rightarrow> nat \<times> ent_world" where
  "forWorkspace request ws t w =
     (case ew_memo w (request, ws) of
        Some memo \<Rightarrow> (memo, w)
      | None \<Rightarrow>
          (t, w\<lparr>ew_tasks := (ew_tasks w)(t \<mapsto> \<lparr>lt_workspaceId = ws, lt_began = ew_version w ws, lt_phase = Starting\<rparr>),
                ew_memo := (ew_memo w)((request, ws) \<mapsto> t)\<rparr>))"

definition ask_logged :: "nat \<Rightarrow> string \<Rightarrow> nat \<Rightarrow> ent_world \<Rightarrow> ent_world" where
  "ask_logged request ws t w =
     (let (memo, w') = forWorkspace request ws t w
      in w'\<lparr>ew_asks := \<lparr>ea_request = request, ea_workspaceId = ws, ea_version = ew_version w ws, ea_task = memo\<rparr> # ew_asks w\<rparr>)"

definition after_versioned :: "nat \<Rightarrow> string \<Rightarrow> nat option \<Rightarrow> ent_world \<Rightarrow> ent_world" where
  "after_versioned t ws version w =
     (let (next, cache) = load_versioned ws version (ew_cache w)
      in to_phase t (case next of LoadDone s \<Rightarrow> Loaded s | AskSource v \<Rightarrow> Asking v) (w\<lparr>ew_cache := cache\<rparr>))"

definition after_answered :: "nat \<Rightarrow> nat \<Rightarrow> string \<Rightarrow> nat \<Rightarrow> joining_entitlements \<Rightarrow> ent_world \<Rightarrow> ent_world" where
  "after_answered cacheSize t ws v answer w =
     (let (s, cache) = load_answered cacheSize ws v answer (ew_cache w)
      in to_phase t (Loaded (Some s)) (w\<lparr>ew_cache := cache\<rparr>))"

definition forget_failed :: "nat \<Rightarrow> string \<Rightarrow> nat \<Rightarrow> ent_world \<Rightarrow> ent_world" where
  "forget_failed request ws t w = (if ew_memo w (request, ws) = Some t then w\<lparr>ew_memo := (ew_memo w)((request, ws) := None)\<rparr> else w)"

inductive ent_step :: "nat \<Rightarrow> ent_world \<Rightarrow> ent_world \<Rightarrow> bool" for cacheSize where
  ent_change: "ent_step cacheSize w (change_grant ws g w)"
| ent_ask: "ew_tasks w t = None \<Longrightarrow> ent_step cacheSize w (ask_logged request ws t w)"
| ent_version: "at_phase w t ws Starting \<Longrightarrow> ent_step cacheSize w (to_phase t (Versioned (Some (ew_version w ws))) w)"
| ent_unseen: "at_phase w t ws Starting \<Longrightarrow> ent_step cacheSize w (to_phase t (Versioned None) w)"
| ent_continue: "at_phase w t ws (Versioned version) \<Longrightarrow> ent_step cacheSize w (after_versioned t ws version w)"
| ent_answer:
    "at_phase w t ws (Asking v) \<Longrightarrow> readSource (Inr (ew_grants w ws (ew_version w ws))) = Inr answer \<Longrightarrow>
     ent_step cacheSize w (to_phase t (Answered v answer) w)"
| ent_store: "at_phase w t ws (Answered v answer) \<Longrightarrow> ent_step cacheSize w (after_answered cacheSize t ws v answer w)"
| ent_fail: "at_phase w t ws phase \<Longrightarrow> phase = Starting \<or> (\<exists>v. phase = Asking v) \<Longrightarrow> ent_step cacheSize w (to_phase t LoadFailed w)"
| ent_forget: "at_phase w t ws LoadFailed \<Longrightarrow> ent_step cacheSize w (forget_failed request ws t w)"

inductive ent_reachable :: "nat \<Rightarrow> ent_world \<Rightarrow> bool" for cacheSize where
  ent_init:
    "ent_reachable cacheSize \<lparr>ew_version = versions, ew_grants = grants, ew_cache = [], ew_tasks = \<lambda>_. None, ew_memo = \<lambda>_. None, ew_asks = []\<rparr>"
| ent_next: "ent_reachable cacheSize w \<Longrightarrow> ent_step cacheSize w w' \<Longrightarrow> ent_reachable cacheSize w'"

section \<open>A set is never older than the ask\<close>

text \<open>The answer is what the source granted under some version from \<open>v\<close> up to the present one.\<close>

definition granted_since :: "ent_world \<Rightarrow> string \<Rightarrow> nat \<Rightarrow> joining_entitlements \<Rightarrow> bool" where
  "granted_since w ws v answer \<longleftrightarrow> (\<exists>v'. v \<le> v' \<and> v' \<le> ew_version w ws \<and> readSource (Inr (ew_grants w ws v')) = Inr answer)"

definition answer_of :: "entitlement_set \<Rightarrow> joining_entitlements" where
  "answer_of s = \<lparr>je_values = es_values s, je_upgradeAvailable = es_upgradeAvailable s\<rparr>"

definition entry_ok :: "ent_world \<Rightarrow> string \<Rightarrow> entitlement_set \<Rightarrow> bool" where
  "entry_ok w ws s \<longleftrightarrow> es_workspaceId s = ws \<and> es_version s \<le> ew_version w ws \<and> granted_since w ws (es_version s) (answer_of s)"

fun phase_ok :: "ent_world \<Rightarrow> string \<Rightarrow> nat \<Rightarrow> load_phase \<Rightarrow> bool" where
  "phase_ok w ws began (Versioned (Some v)) \<longleftrightarrow> began \<le> v \<and> v \<le> ew_version w ws"
| "phase_ok w ws began (Asking v) \<longleftrightarrow> began \<le> v \<and> v \<le> ew_version w ws"
| "phase_ok w ws began (Answered v answer) \<longleftrightarrow> began \<le> v \<and> v \<le> ew_version w ws \<and> granted_since w ws v answer"
| "phase_ok w ws began (Loaded (Some s)) \<longleftrightarrow> began \<le> es_version s \<and> entry_ok w ws s"
| "phase_ok w ws began _ \<longleftrightarrow> True"

definition task_ok :: "ent_world \<Rightarrow> load_task \<Rightarrow> bool" where
  "task_ok w task \<longleftrightarrow>
     lt_began task \<le> ew_version w (lt_workspaceId task) \<and> phase_ok w (lt_workspaceId task) (lt_began task) (lt_phase task)"

definition cache_ok :: "nat \<Rightarrow> ent_world \<Rightarrow> ent_cache \<Rightarrow> bool" where
  "cache_ok cacheSize w cache \<longleftrightarrow>
     distinct (map fst cache) \<and> length cache \<le> cacheSize \<and> (\<forall>e \<in> set cache. entry_ok w (fst e) (snd e))"

definition ent_ok :: "nat \<Rightarrow> ent_world \<Rightarrow> bool" where
  "ent_ok cacheSize w \<longleftrightarrow> cache_ok cacheSize w (ew_cache w) \<and> (\<forall>t task. ew_tasks w t = Some task \<longrightarrow> task_ok w task)"

lemma granted_since_change: "granted_since w ws v a \<Longrightarrow> granted_since (change_grant ws' g w) ws v a"
  unfolding granted_since_def change_grant_def Let_def by (elim exE) (rule_tac x = v' in exI, auto)

lemma entry_ok_change: "entry_ok w ws s \<Longrightarrow> entry_ok (change_grant ws' g w) ws s"
  using granted_since_change by (auto simp: entry_ok_def change_grant_def Let_def)

lemma phase_ok_change: "phase_ok w ws b p \<Longrightarrow> phase_ok (change_grant ws' g w) ws b p"
  using entry_ok_change granted_since_change
  by (cases "(w, ws, b, p)" rule: phase_ok.cases) (auto simp: change_grant_def Let_def)

definition same_env :: "ent_world \<Rightarrow> ent_world \<Rightarrow> bool" where
  "same_env w w' \<longleftrightarrow> ew_version w' = ew_version w \<and> ew_grants w' = ew_grants w"

lemma same_env_version: "same_env w w' \<Longrightarrow> ew_version w' = ew_version w"
  by (simp add: same_env_def)

lemma same_env_entry: "same_env w w' \<Longrightarrow> entry_ok w' ws s \<longleftrightarrow> entry_ok w ws s"
  by (simp add: same_env_def entry_ok_def granted_since_def)

lemma same_env_phase: "same_env w w' \<Longrightarrow> phase_ok w' ws b p \<longleftrightarrow> phase_ok w ws b p"
  using same_env_entry [of w w']
  by (cases "(w, ws, b, p)" rule: phase_ok.cases) (auto simp: same_env_def granted_since_def)

lemma same_env_cache: "same_env w w' \<Longrightarrow> cache_ok n w' c \<longleftrightarrow> cache_ok n w c"
  by (simp add: cache_ok_def same_env_entry)

lemma ent_ok_task: "ent_ok n w \<Longrightarrow> ew_tasks w t = Some task \<Longrightarrow> task_ok w task"
  by (simp add: ent_ok_def)

text \<open>A piece of a load that leaves the environment alone and brings its task to a good phase.\<close>

lemma ent_ok_piece:
  assumes ok: "ent_ok n w" and at: "at_phase w t ws phase" and cache: "cache_ok n w cache"
    and phase: "\<And>began. began \<le> ew_version w ws \<Longrightarrow> phase_ok w ws began phase \<Longrightarrow> phase_ok w ws began phase'"
  shows "ent_ok n (to_phase t phase' (w\<lparr>ew_cache := cache\<rparr>))"
proof -
  let ?w = "to_phase t phase' (w\<lparr>ew_cache := cache\<rparr>)"
  have env: "same_env w ?w"
    by (simp add: same_env_def to_phase_def)
  have "task_ok ?w task" if task: "ew_tasks ?w u = Some task" for u task
  proof (cases "u = t")
    case False
    then have "ew_tasks w u = Some task" using task by (simp add: to_phase_def)
    from ent_ok_task [OF ok this] show ?thesis
      using same_env_version [OF env] by (simp add: task_ok_def same_env_phase [OF env])
  next
    case True
    then obtain old where old: "ew_tasks w t = Some old" "task = old\<lparr>lt_phase := phase'\<rparr>"
      using task by (auto simp: to_phase_def)
    then have "lt_workspaceId old = ws" "lt_phase old = phase"
      using at by (auto simp: at_phase_def)
    then show ?thesis
      using ent_ok_task [OF ok old(1)] phase [of "lt_began old"] old(2) same_env_version [OF env]
      by (simp add: task_ok_def same_env_phase [OF env])
  qed
  moreover have "cache_ok n ?w (ew_cache ?w)"
    using cache same_env_cache [OF env] by (simp add: to_phase_def)
  ultimately show ?thesis by (simp add: ent_ok_def)
qed

lemma cache_ok_delete: "cache_ok n w c \<Longrightarrow> cache_ok n w (cache_delete ws c)"
  by (auto simp: cache_ok_def cache_delete_def distinct_map_filter intro: le_trans [OF length_filter_le])

lemma cache_ok_lookup: "cache_ok n w c \<Longrightarrow> map_of c ws = Some s \<Longrightarrow> entry_ok w ws s"
  by (fastforce simp: cache_ok_def dest: map_of_SomeD)

lemma fst_cache_delete: "fst ` set (cache_delete ws c) = fst ` set c - {ws}"
  by (auto simp: cache_delete_def)

lemma cache_ok_answered:
  assumes ok: "cache_ok n w c" and new: "entry_ok w ws (set_of ws v answer)"
  shows "cache_ok n w (snd (load_answered n ws v answer c))"
proof -
  let ?kept = "cache_delete ws c @ [(ws, set_of ws v answer)]"
  have kept: "distinct (map fst ?kept)" "\<forall>e \<in> set ?kept. entry_ok w (fst e) (snd e)" "length ?kept \<le> Suc n"
    using cache_ok_delete [OF ok, of ws] new fst_cache_delete [of ws c] by (auto simp: cache_ok_def)
  then have "cache_ok n w (if n < length ?kept then drop 1 ?kept else ?kept)"
    unfolding cache_ok_def by (auto simp: distinct_drop simp flip: drop_map simp del: drop_append dest!: in_set_dropD)
  moreover have "snd (load_answered n ws v answer c) =
      (if (case cached_version c ws of None \<Rightarrow> v | Some v' \<Rightarrow> v') \<le> v
       then (if n < length ?kept then drop 1 ?kept else ?kept) else c)"
    using ok unfolding load_answered_def Let_def cache_ok_def by (simp only: snd_conv) (simp split: if_split)
  ultimately show ?thesis using ok by presburger
qed

lemma after_answered_eq:
  "after_answered n t ws v answer w =
     to_phase t (Loaded (Some (set_of ws v answer))) (w\<lparr>ew_cache := snd (load_answered n ws v answer (ew_cache w))\<rparr>)"
proof -
  have "fst (load_answered n ws v answer (ew_cache w)) = set_of ws v answer"
    unfolding load_answered_def Let_def by (rule fst_conv)
  then show ?thesis by (simp only: after_answered_def case_prod_beta Let_def)
qed

lemma step_ent_ok:
  assumes step: "ent_step n w w'" and ok: "ent_ok n w"
  shows "ent_ok n w'"
  using step
proof cases
  case (ent_change ws g)
  have "task_ok w' task" if "ew_tasks w' t = Some task" for t task
  proof -
    have "ew_tasks w t = Some task" using that ent_change by (simp add: change_grant_def Let_def)
    from ent_ok_task [OF ok this] show ?thesis
      using phase_ok_change unfolding ent_change
      by (auto simp: task_ok_def change_grant_def Let_def)
  qed
  moreover have "ew_cache w' = ew_cache w"
    using ent_change by (simp add: change_grant_def Let_def)
  moreover have "cache_ok n w' (ew_cache w)"
    using ok entry_ok_change unfolding ent_change by (auto simp: ent_ok_def cache_ok_def)
  ultimately show ?thesis by (simp add: ent_ok_def)
next
  case (ent_ask t request ws)
  show ?thesis
  proof (cases "ew_memo w (request, ws)")
    case None
    then have env: "same_env w w'"
      using ent_ask by (simp add: ask_logged_def forWorkspace_def same_env_def)
    have "task_ok w' task" if "ew_tasks w' u = Some task" for u task
      using that None ent_ask ent_ok_task [OF ok] same_env_phase [OF env] same_env_version [OF env]
      by (cases "u = t") (auto simp: ask_logged_def forWorkspace_def task_ok_def)
    then show ?thesis
      using None ent_ask ok same_env_cache [OF env] by (simp add: ent_ok_def ask_logged_def forWorkspace_def)
  next
    case (Some memo)
    then have same: "same_env w w'" "ew_tasks w' = ew_tasks w" "ew_cache w' = ew_cache w"
      using ent_ask by (simp_all add: ask_logged_def forWorkspace_def same_env_def)
    then show ?thesis
      using ok by (simp add: ent_ok_def task_ok_def same_env_version [OF same(1)] same_env_phase [OF same(1)] same_env_cache [OF same(1)])
  qed
next
  case (ent_version t ws)
  show ?thesis
    using ent_ok_piece [OF ok ent_version(2), of "ew_cache w" "Versioned (Some (ew_version w ws))"] ok ent_version
    by (simp add: ent_ok_def)
next
  case (ent_unseen t ws)
  show ?thesis
    using ent_ok_piece [OF ok ent_unseen(2), of "ew_cache w" "Versioned None"] ok ent_unseen
    by (simp add: ent_ok_def)
next
  case (ent_continue t ws version)
  let ?next = "fst (load_versioned ws version (ew_cache w))" and ?cache = "snd (load_versioned ws version (ew_cache w))"
  let ?phase = "case ?next of LoadDone s \<Rightarrow> Loaded s | AskSource v \<Rightarrow> Asking v"
  have cache: "cache_ok n w (ew_cache w)" using ok by (simp add: ent_ok_def)
  have "cache_ok n w ?cache"
    using cache cache_ok_delete [OF cache] by (auto simp: load_versioned_def split: option.splits)
  moreover have "phase_ok w ws began ?phase" if "phase_ok w ws began (Versioned version)" for began
    using that cache_ok_lookup [OF cache, of ws] by (auto simp: load_versioned_def split: option.splits)
  ultimately show ?thesis
    using ent_ok_piece [OF ok ent_continue(2), of ?cache ?phase] ent_continue(1)
    by (simp add: after_versioned_def case_prod_beta Let_def)
next
  case (ent_answer t ws v answer)
  have "granted_since w ws v answer" if "v \<le> ew_version w ws"
    using that ent_answer(3) by (auto simp: granted_since_def)
  then show ?thesis
    using ent_ok_piece [OF ok ent_answer(2), of "ew_cache w" "Answered v answer"] ok ent_answer
    by (simp add: ent_ok_def)
next
  case (ent_store t ws v answer)
  have cache: "cache_ok n w (ew_cache w)" using ok by (simp add: ent_ok_def)
  obtain task where task: "ew_tasks w t = Some task" "lt_workspaceId task = ws" "lt_phase task = Answered v answer"
    using ent_store(2) by (auto simp: at_phase_def)
  then have "v \<le> ew_version w ws \<and> granted_since w ws v answer"
    using ent_ok_task [OF ok task(1)] by (simp add: task_ok_def)
  then have new: "entry_ok w ws (set_of ws v answer)"
    by (cases answer) (simp add: entry_ok_def set_of_def answer_of_def)
  have "phase_ok w ws began (Loaded (Some (set_of ws v answer)))" if "phase_ok w ws began (Answered v answer)" for began
    using that new by (simp add: set_of_def)
  then show ?thesis
    using ent_ok_piece [OF ok ent_store(2) cache_ok_answered [OF cache new], of "Loaded (Some (set_of ws v answer))"]
    unfolding ent_store(1) after_answered_eq by blast
next
  case (ent_fail t ws phase)
  show ?thesis
    using ent_ok_piece [OF ok ent_fail(2), of "ew_cache w" LoadFailed] ok ent_fail(1)
    by (simp add: ent_ok_def)
next
  case (ent_forget t ws request)
  have "same_env w w'" "ew_tasks w' = ew_tasks w" "ew_cache w' = ew_cache w"
    using ent_forget by (simp_all add: forget_failed_def same_env_def)
  then show ?thesis
    using ok same_env_cache [of w w'] same_env_phase [of w w'] same_env_version [of w w'] by (simp add: ent_ok_def task_ok_def)
qed

lemma reachable_ent_ok: "ent_reachable n w \<Longrightarrow> ent_ok n w"
proof (induction rule: ent_reachable.induct)
  case (ent_init versions grants)
  show ?case by (simp add: ent_ok_def cache_ok_def)
qed (rule step_ent_ok)

text \<open>
  A memo is of the request and the workspace it is kept for: the load it holds began at an ask of that request for that workspace, and so
  did the load every ask is answered with.
\<close>

definition task_began :: "ent_world \<Rightarrow> nat \<Rightarrow> (string \<times> nat) option" where
  "task_began w t = map_option (\<lambda>task. (lt_workspaceId task, lt_began task)) (ew_tasks w t)"

definition memo_began :: "ent_world \<Rightarrow> nat \<Rightarrow> string \<Rightarrow> nat \<Rightarrow> bool" where
  "memo_began w request ws t \<longleftrightarrow>
     (\<exists>v. task_began w t = Some (ws, v) \<and> \<lparr>ea_request = request, ea_workspaceId = ws, ea_version = v, ea_task = t\<rparr> \<in> set (ew_asks w))"

definition ask_began :: "ent_world \<Rightarrow> ent_ask \<Rightarrow> bool" where
  "ask_began w a \<longleftrightarrow> (\<exists>v. v \<le> ea_version a \<and> task_began w (ea_task a) = Some (ea_workspaceId a, v) \<and> a\<lparr>ea_version := v\<rparr> \<in> set (ew_asks w))"

definition asks_ok :: "ent_world \<Rightarrow> bool" where
  "asks_ok w \<longleftrightarrow> (\<forall>request ws t. ew_memo w (request, ws) = Some t \<longrightarrow> memo_began w request ws t) \<and> (\<forall>a \<in> set (ew_asks w). ask_began w a)"

text \<open>A history that goes on: loads and asks stay.\<close>

definition goes_on :: "ent_world \<Rightarrow> ent_world \<Rightarrow> bool" where
  "goes_on w w' \<longleftrightarrow> (\<forall>u k. task_began w u = Some k \<longrightarrow> task_began w' u = Some k) \<and> set (ew_asks w) \<subseteq> set (ew_asks w')"

lemma began_goes_on:
  assumes "goes_on w w'"
  shows "memo_began w request ws t \<Longrightarrow> memo_began w' request ws t" "ask_began w a \<Longrightarrow> ask_began w' a"
  using assms unfolding goes_on_def memo_began_def ask_began_def by blast+

lemma asks_ok_frame:
  assumes ok: "asks_ok w" and same: "task_began w' = task_began w" "ew_asks w' = ew_asks w"
    and memo: "\<And>k t. ew_memo w' k = Some t \<Longrightarrow> ew_memo w k = Some t"
  shows "asks_ok w'"
proof -
  have "goes_on w w'"
    by (simp add: goes_on_def same)
  from began_goes_on [OF this] ok memo show ?thesis
    unfolding asks_ok_def same by blast
qed

lemma ask_logged_ok:
  assumes ok: "asks_ok w" "ent_ok n w" and fresh: "ew_tasks w t = None"
  shows "asks_ok (ask_logged request ws t w)"
proof (cases "ew_memo w (request, ws)")
  case None
  let ?w = "ask_logged request ws t w" and ?ask = "\<lparr>ea_request = request, ea_workspaceId = ws, ea_version = ew_version w ws, ea_task = t\<rparr>"
  have began: "task_began ?w u = (if u = t then Some (ws, ew_version w ws) else task_began w u)" for u
    using None by (simp add: ask_logged_def forWorkspace_def task_began_def)
  have memo: "ew_memo ?w = (ew_memo w)((request, ws) \<mapsto> t)" and asks: "ew_asks ?w = ?ask # ew_asks w"
    using None by (simp_all add: ask_logged_def forWorkspace_def)
  have on: "goes_on w ?w"
    using fresh by (auto simp: goes_on_def began asks) (simp_all add: task_began_def)
  have new: "memo_began ?w request ws t" "ask_began ?w ?ask"
    by (simp_all add: memo_began_def ask_began_def began asks)
  then show ?thesis
    using ok(1) began_goes_on [OF on] unfolding asks_ok_def memo asks by (auto split: if_splits)
next
  case (Some memo)
  let ?w = "ask_logged request ws t w" and ?ask = "\<lparr>ea_request = request, ea_workspaceId = ws, ea_version = ew_version w ws, ea_task = memo\<rparr>"
  have same: "task_began ?w = task_began w" "ew_memo ?w = ew_memo w" "ew_asks ?w = ?ask # ew_asks w"
    using Some by (simp_all add: ask_logged_def forWorkspace_def task_began_def fun_eq_iff)
  have on: "goes_on w ?w"
    by (auto simp: goes_on_def same)
  obtain v where v: "task_began w memo = Some (ws, v)" "?ask\<lparr>ea_version := v\<rparr> \<in> set (ew_asks w)"
    using ok(1) [unfolded asks_ok_def, THEN conjunct1, rule_format, OF Some] by (auto simp: memo_began_def)
  then have "ask_began ?w ?ask"
    using ent_ok_task [OF ok(2)] unfolding ask_began_def same by (intro exI [of _ v]) (auto simp: task_began_def task_ok_def)
  then show ?thesis
    using ok(1) began_goes_on [OF on] unfolding asks_ok_def same by auto
qed

lemma pieces_history:
  "task_began (to_phase t phase w) = task_began w" "ew_asks (to_phase t phase w) = ew_asks w" "ew_memo (to_phase t phase w) = ew_memo w"
  "task_began (w\<lparr>ew_cache := cache\<rparr>) = task_began w"
  "task_began (change_grant ws g w) = task_began w" "ew_asks (change_grant ws g w) = ew_asks w" "ew_memo (change_grant ws g w) = ew_memo w"
  "task_began (forget_failed request ws t w) = task_began w" "ew_asks (forget_failed request ws t w) = ew_asks w"
  by (auto simp: task_began_def to_phase_def change_grant_def forget_failed_def Let_def fun_eq_iff option.map_comp comp_def split: if_splits)

lemma step_asks_ok:
  assumes step: "ent_step n w w'" and ok: "asks_ok w" "ent_ok n w"
  shows "asks_ok w'"
  using step
proof cases
  case (ent_ask t request ws)
  then show ?thesis using ask_logged_ok [OF ok] by simp
next
  case (ent_forget t ws request)
  show ?thesis
    unfolding ent_forget(1)
    by (rule asks_ok_frame [OF ok(1) pieces_history(8,9)]) (auto simp: forget_failed_def split: if_splits)
qed (rule asks_ok_frame [OF ok(1)]; simp add: pieces_history after_versioned_def after_answered_def case_prod_beta Let_def)+

lemma reachable_asks_ok: "ent_reachable n w \<Longrightarrow> asks_ok w"
proof (induction rule: ent_reachable.induct)
  case (ent_init versions grants)
  show ?case by (simp add: asks_ok_def)
next
  case (ent_next w w')
  then show ?case using step_asks_ok reachable_ent_ok by blast
qed

text \<open>
  Claim C28: however many requests load at the same time while plans change, an ask of a request is answered with a set of the workspace
  it asked for that the source granted at or after an ask of that same request for that workspace, at this one or, when this one is
  answered from the memo of the request, at the earlier one whose load it shares. So a set is never older than the first ask of the
  request, a cached set is not served once the grant has changed before it, and no request gets the memo of another.
\<close>

theorem entitlements_never_stale:
  assumes "ent_reachable n w" "ask \<in> set (ew_asks w)" "ew_tasks w (ea_task ask) = Some task" "lt_phase task = Loaded (Some s)"
  shows "es_workspaceId s = ea_workspaceId ask \<and>
     (\<exists>first \<in> set (ew_asks w). ea_request first = ea_request ask \<and> ea_workspaceId first = ea_workspaceId ask \<and> ea_task first = ea_task ask \<and>
        ea_version first \<le> ea_version ask \<and>
        (\<exists>v. ea_version first \<le> v \<and> v \<le> ew_version w (ea_workspaceId ask) \<and>
           readSource (Inr (ew_grants w (ea_workspaceId ask) v)) = Inr (answer_of s)))"
proof -
  obtain v where v: "v \<le> ea_version ask" "task_began w (ea_task ask) = Some (ea_workspaceId ask, v)" "ask\<lparr>ea_version := v\<rparr> \<in> set (ew_asks w)"
    using reachable_asks_ok [OF assms(1)] assms(2) by (auto simp: asks_ok_def ask_began_def)
  have "task_ok w task"
    using ent_ok_task [OF reachable_ent_ok [OF assms(1)] assms(3)] .
  then show ?thesis
    using assms(3,4) v
    by (intro conjI bexI [of _ "ask\<lparr>ea_version := v\<rparr>"]) (auto simp: task_began_def task_ok_def entry_ok_def granted_since_def intro: order_trans)
qed

lemma cached_version_delete: "cached_version (cache_delete ws' c) ws = (if ws = ws' then None else cached_version c ws)"
proof -
  have "map_of (filter (\<lambda>e. fst e \<noteq> ws') c) ws = (if ws = ws' then None else map_of c ws)"
    by (induction c) auto
  then show ?thesis by (simp add: cached_version_def cache_delete_def)
qed

lemma cached_version_drop: "distinct (map fst c) \<Longrightarrow> cached_version (drop 1 c) ws \<in> {None, cached_version c ws}"
  by (cases c) (auto simp: cached_version_def map_of_eq_None_iff split: if_splits)

definition not_older :: "ent_cache \<Rightarrow> ent_cache \<Rightarrow> bool" where
  "not_older c c' \<longleftrightarrow>
     (\<forall>ws v v'. cached_version c ws = Some v \<longrightarrow> cached_version c' ws = Some v' \<longrightarrow> v \<le> v')"

lemma not_older_drop:
  assumes older: "not_older c d" and distinct: "distinct (map fst d)"
  shows "not_older c (drop 1 d)"
  unfolding not_older_def
proof (intro allI impI)
  fix ws v v' assume v: "cached_version c ws = Some v" and v': "cached_version (drop 1 d) ws = Some v'"
  have "cached_version d ws = Some v'"
    using cached_version_drop [OF distinct, of ws] v' by auto
  then show "v \<le> v'" using older v by (simp add: not_older_def)
qed

lemma not_older_answered:
  assumes "distinct (map fst c)"
  shows "not_older c (snd (load_answered n ws v answer c))"
proof -
  let ?held = "case cached_version c ws of None \<Rightarrow> v | Some v' \<Rightarrow> v'"
  let ?kept = "cache_delete ws c @ [(ws, set_of ws v answer)]"
  let ?c1 = "if ?held \<le> v then ?kept else c"
  have kept: "cached_version ?kept x = (if x = ws then Some v else cached_version c x)" for x
    using cached_version_delete [of ws c x]
    by (auto simp: cached_version_def map_add_def set_of_def split: option.splits)
  have one: "not_older c ?c1"
    using kept by (auto simp: not_older_def split: if_splits)
  have "distinct (map fst ?c1)"
    using assms fst_cache_delete [of ws c] by (auto simp: cache_delete_def distinct_map_filter)
  then have "not_older c (drop 1 ?c1)"
    by (rule not_older_drop [OF one])
  moreover have "snd (load_answered n ws v answer c) = (if n < length ?c1 then drop 1 ?c1 else ?c1)"
    unfolding load_answered_def Let_def by (rule snd_conv)
  ultimately show ?thesis using one by presburger
qed

lemma step_not_older:
  assumes step: "ent_step n w w'" and ok: "ent_ok n w"
  shows "not_older (ew_cache w) (ew_cache w')"
proof -
  have refl: "not_older c c" for c
    by (auto simp: not_older_def)
  have distinct: "distinct (map fst (ew_cache w))"
    using ok by (simp add: ent_ok_def cache_ok_def)
  show ?thesis
    using step
  proof cases
    case (ent_continue t ws version)
    have "not_older c (snd (load_versioned ws version c))" for c
      using refl cached_version_delete [of ws c] by (auto simp: load_versioned_def not_older_def split: option.splits)
    then show ?thesis
      using ent_continue by (simp add: after_versioned_def case_prod_beta Let_def to_phase_def)
  next
    case (ent_store t ws v answer)
    show ?thesis
      using not_older_answered [OF distinct, of n ws v answer] unfolding ent_store(1) after_answered_eq by (simp add: to_phase_def)
  qed (use refl in \<open>auto simp: to_phase_def change_grant_def ask_logged_def forWorkspace_def forget_failed_def Let_def split: option.splits\<close>)
qed

text \<open>
  The process cache holds at most the configured number of workspaces, each once, never a version the workspace
  has not reached, and the entry of a workspace is never replaced by that of an older version.
\<close>

theorem cache_bounded_and_monotone:
  assumes "ent_reachable n w" "ent_step n w w'"
  shows "length (ew_cache w') \<le> n \<and> distinct (map fst (ew_cache w')) \<and>
     (\<forall>e \<in> set (ew_cache w'). es_version (snd e) \<le> ew_version w' (fst e)) \<and> not_older (ew_cache w) (ew_cache w')"
proof -
  have "ent_ok n w" by (rule reachable_ent_ok [OF assms(1)])
  then have "not_older (ew_cache w) (ew_cache w')" "ent_ok n w'"
    using step_not_older step_ent_ok assms(2) by blast+
  then show ?thesis by (auto simp: ent_ok_def cache_ok_def entry_ok_def)
qed

section \<open>A concrete run\<close>

definition full_grant :: ent_grant where
  "full_grant =
     \<lparr>eg_values = JsObject (map (\<lambda>k. (k, JsBool True)) FLAG_ENTITLEMENTS @ map (\<lambda>k. (k, JsText ''unlimited'')) WORKSPACE_LIMIT_ENTITLEMENTS),
      eg_upgradeAvailable = JsBool False\<rparr>"

definition full_answer :: joining_entitlements where
  "full_answer =
     \<lparr>je_values = map (\<lambda>k. (k, JsBool True)) FLAG_ENTITLEMENTS @ map (\<lambda>k. (k, JsText ''unlimited'')) WORKSPACE_LIMIT_ENTITLEMENTS,
      je_upgradeAvailable = False\<rparr>"

lemma read_full: "readSource (Inr full_grant) = Inr full_answer"
  by code_simp

definition ent_start :: ent_world where
  "ent_start = \<lparr>ew_version = \<lambda>_. 3, ew_grants = \<lambda>_ _. full_grant, ew_cache = [], ew_tasks = \<lambda>_. None, ew_memo = \<lambda>_. None, ew_asks = []\<rparr>"

definition ent_before :: ent_world where
  "ent_before =
     to_phase 0 (Answered 3 full_answer) (after_versioned 0 ''w'' (Some 3) (to_phase 0 (Versioned (Some 3)) (ask_logged 7 ''w'' 0 ent_start)))"

definition ent_after :: ent_world where
  "ent_after = after_answered 10 0 ''w'' 3 full_answer ent_before"

lemmas ent_run_defs = ent_start_def ask_logged_def forWorkspace_def to_phase_def after_versioned_def load_versioned_def at_phase_def

lemma ent_before_reachable: "ent_reachable 10 ent_before"
proof -
  have 0: "ent_reachable 10 ent_start"
    unfolding ent_start_def by (rule ent_init)
  have 1: "ent_reachable 10 (ask_logged 7 ''w'' 0 ent_start)"
    by (rule ent_next [OF 0 ent_ask]) (simp add: ent_start_def)
  have "ent_reachable 10 (to_phase 0 (Versioned (Some (ew_version (ask_logged 7 ''w'' 0 ent_start) ''w''))) (ask_logged 7 ''w'' 0 ent_start))"
    by (rule ent_next [OF 1 ent_version]) (simp add: ent_run_defs)
  then have 2: "ent_reachable 10 (to_phase 0 (Versioned (Some 3)) (ask_logged 7 ''w'' 0 ent_start))"
    by (simp add: ent_run_defs)
  have 3: "ent_reachable 10 (after_versioned 0 ''w'' (Some 3) (to_phase 0 (Versioned (Some 3)) (ask_logged 7 ''w'' 0 ent_start)))"
    by (rule ent_next [OF 2 ent_continue]) (simp add: ent_run_defs)
  show ?thesis
    unfolding ent_before_def
    by (rule ent_next [OF 3 ent_answer]) (simp_all add: ent_run_defs read_full)
qed

lemma ent_store_step: "ent_step 10 ent_before ent_after"
  unfolding ent_after_def by (rule ent_store) (simp add: ent_before_def ent_run_defs)

theorem entitlements_never_stale_witness:
  "\<exists>s. es_workspaceId s = ''w'' \<and> es_version s = 3 \<and> readSource (Inr full_grant) = Inr (answer_of s)"
proof -
  have reach: "ent_reachable 10 ent_after"
    by (rule ent_next [OF ent_before_reachable ent_store_step])
  let ?task = "\<lparr>lt_workspaceId = ''w'', lt_began = 3, lt_phase = Loaded (Some (set_of ''w'' 3 full_answer))\<rparr>"
  have "ew_tasks ent_after 0 = Some ?task"
    unfolding ent_after_def after_answered_eq by (simp add: ent_before_def ent_run_defs)
  moreover have "\<lparr>ea_request = 7, ea_workspaceId = ''w'', ea_version = 3, ea_task = 0\<rparr> \<in> set (ew_asks ent_after)"
    unfolding ent_after_def after_answered_eq by (simp add: ent_before_def ent_run_defs)
  ultimately have "readSource (Inr full_grant) = Inr (answer_of (set_of ''w'' 3 full_answer))"
    using entitlements_never_stale [OF reach, of "\<lparr>ea_request = 7, ea_workspaceId = ''w'', ea_version = 3, ea_task = 0\<rparr>" ?task "set_of ''w'' 3 full_answer"]
    unfolding ent_after_def after_answered_eq by (auto simp: ent_before_def ent_run_defs)
  then show ?thesis
    by (intro exI [of _ "set_of ''w'' 3 full_answer"]) (simp add: set_of_def)
qed

theorem cache_bounded_and_monotone_witness: "length (ew_cache ent_after) \<le> 10"
  using cache_bounded_and_monotone [OF ent_before_reachable ent_store_step] by simp

end
