(* ===== verification/EntitlementChecks.thy ===== *)
theory EntitlementChecks
  imports Entitlements Tables
begin

text \<open>
  The checks over the entitlements of a request (\<open>packages/core/src/entitlements/engine.ts\<close>), the source of the Community
  Edition (\<open>packages/adapters/src/entitlements/full.ts\<close>), and the raising of the version in the database
  (\<open>packages/db/src/repositories/entitlements.ts\<close>, \<open>packages/db/src/sql/350-entitlement-version.sql\<close>).
\<close>

section \<open>Checks\<close>

text \<open>What the promises of a request settle to: a rejection is an error.\<close>

record request_entitlements =
  re_forWorkspace :: "string \<Rightarrow> js_error + entitlement_set option"
  re_forJoiningWorkspace :: "string \<Rightarrow> js_error + joining_entitlements"
  re_forAccount :: "js_error + ent_values"

record entitlement_subject =
  sj_workspaceId :: "string option"
  sj_joining :: bool

text \<open>A number that is no integral one never gets here: \<open>isLimit\<close> refuses the answer that holds it.\<close>

definition isHeld :: "js_value \<Rightarrow> bool" where
  "isHeld value =
     (case value of JsBool b \<Rightarrow> b | JsText t \<Rightarrow> t = ''unlimited'' | JsIntegral n \<Rightarrow> 0 < n | _ \<Rightarrow> False)"

definition workspaceSet :: "request_entitlements \<Rightarrow> string \<Rightarrow> bool \<Rightarrow> js_error + joining_entitlements option" where
  "workspaceSet re ws joining =
     (if joining then (case re_forJoiningWorkspace re ws of Inl e \<Rightarrow> Inl e | Inr a \<Rightarrow> Inr (Some a))
      else (case re_forWorkspace re ws of Inl e \<Rightarrow> Inl e | Inr s \<Rightarrow> Inr (map_option answer_of s)))"

definition createEntitlementCheck :: "request_entitlements \<Rightarrow> string \<Rightarrow> entitlement_subject \<Rightarrow> js_error + bool" where
  "createEntitlementCheck re entitlement subject =
     (case map_of ENTITLEMENT_CATALOG entitlement of
        None \<Rightarrow> Inr False
      | Some d \<Rightarrow>
          if ed_scope d = ScopeAccount then
            (case re_forAccount re of Inl e \<Rightarrow> Inl e | Inr values \<Rightarrow> Inr (isHeld (reflect_get values entitlement)))
          else
            (case sj_workspaceId subject of
               None \<Rightarrow> Inr False
             | Some ws \<Rightarrow>
                 (case workspaceSet re ws (sj_joining subject) of
                    Inl e \<Rightarrow> Inl e
                  | Inr None \<Rightarrow> Inr False
                  | Inr (Some a) \<Rightarrow> Inr (isHeld (reflect_get (je_values a) entitlement)))))"

definition createEntitlementUpgradeCheck :: "request_entitlements \<Rightarrow> string \<Rightarrow> entitlement_subject \<Rightarrow> js_error + bool" where
  "createEntitlementUpgradeCheck re entitlement subject =
     (case (map_of ENTITLEMENT_CATALOG entitlement, sj_workspaceId subject) of
        (Some d, Some ws) \<Rightarrow>
          if ed_scope d = ScopeAccount then Inr False
          else (case workspaceSet re ws (sj_joining subject) of
                  Inl e \<Rightarrow> Inl e
                | Inr None \<Rightarrow> Inr False
                | Inr (Some a) \<Rightarrow> Inr (je_upgradeAvailable a))
      | _ \<Rightarrow> Inr False)"

section \<open>Ceilings\<close>

datatype ent_limit = Unlimited | AtMost nat

definition limit_of :: "js_value \<Rightarrow> ent_limit" where
  "limit_of v = (case v of JsIntegral n \<Rightarrow> AtMost (nat n) | _ \<Rightarrow> Unlimited)"

definition owned_limit :: "request_entitlements \<Rightarrow> js_error + ent_limit" where
  "owned_limit re =
     (case re_forAccount re of Inl e \<Rightarrow> Inl e | Inr values \<Rightarrow> Inr (limit_of (reflect_get values ''workspaces.ownMax'')))"

fun owned_upgradeAvailable :: "request_entitlements \<Rightarrow> string list \<Rightarrow> js_error + bool" where
  "owned_upgradeAvailable re [] = Inr False"
| "owned_upgradeAvailable re (ws # rest) =
     (case re_forWorkspace re ws of
        Inl e \<Rightarrow> Inl e
      | Inr (Some s) \<Rightarrow> if es_upgradeAvailable s then Inr True else owned_upgradeAvailable re rest
      | Inr None \<Rightarrow> owned_upgradeAvailable re rest)"

definition seat_limit :: "request_entitlements \<Rightarrow> string \<Rightarrow> js_error + nat option" where
  "seat_limit re ws =
     (case re_forJoiningWorkspace re ws of
        Inl e \<Rightarrow> Inl e
      | Inr a \<Rightarrow> Inr (case limit_of (reflect_get (je_values a) ''seats.max'') of Unlimited \<Rightarrow> None | AtMost n \<Rightarrow> Some n))"

definition bookmark_limit :: "request_entitlements \<Rightarrow> string \<Rightarrow> js_error + ent_limit option" where
  "bookmark_limit re ws =
     (case re_forWorkspace re ws of
        Inl e \<Rightarrow> Inl e | Inr s \<Rightarrow> Inr (map_option (\<lambda>s. limit_of (reflect_get (es_values s) ''bookmarks.max'')) s))"

section \<open>The Community Edition\<close>

definition WORKSPACE_GRANT :: ent_grant where
  "WORKSPACE_GRANT =
     \<lparr>eg_values = JsObject
        [(''bookmarks.max'', JsText ''unlimited''), (''seats.max'', JsText ''unlimited''), (''ai.suggestions'', JsBool True),
         (''sharing.members'', JsBool True), (''sharing.teams'', JsBool True), (''members.invite'', JsBool True),
         (''teams.manage'', JsBool True), (''audit.log'', JsBool True)],
      eg_upgradeAvailable = JsBool False\<rparr>"

definition ACCOUNT_VALUES :: js_value where
  "ACCOUNT_VALUES = JsObject [(''workspaces.ownMax'', JsText ''unlimited'')]"

section \<open>A check grants what the source granted\<close>

text \<open>
  What the source gives a request that asks it, for an account that sees some workspaces: every answer is read afresh. The memo of a request
  and the process cache, which may give an earlier answer of the same source instead, are those of \<open>Entitlements\<close>.
\<close>

definition answers_from ::
    "(string \<Rightarrow> nat option) \<Rightarrow> (string \<Rightarrow> js_error + ent_grant) \<Rightarrow> js_error + js_value \<Rightarrow> request_entitlements" where
  "answers_from seen source account =
     \<lparr>re_forWorkspace = (\<lambda>ws. case seen ws of
          None \<Rightarrow> Inr None
        | Some v \<Rightarrow> (case readSource (source ws) of Inl e \<Rightarrow> Inl e | Inr a \<Rightarrow> Inr (Some (set_of ws v a)))),
      re_forJoiningWorkspace = (\<lambda>ws. readSource (source ws)),
      re_forAccount = (case account of Inl e \<Rightarrow> Inl e | Inr v \<Rightarrow> parseAccountEntitlements v)\<rparr>"

definition granted_value :: "ent_type \<Rightarrow> js_value \<Rightarrow> bool" where
  "granted_value t v =
     (case t of TypeFlag \<Rightarrow> v = JsBool True | TypeLimit \<Rightarrow> v = JsText ''unlimited'' \<or> (\<exists>n. v = JsIntegral n \<and> 0 < n \<and> n \<le> MAX_SAFE))"

text \<open>An answer with a value of the right type for every key it has to answer.\<close>

definition well_typed :: "ent_scope \<Rightarrow> (string \<times> js_value) list \<Rightarrow> bool" where
  "well_typed scope props \<longleftrightarrow>
     (\<forall>(key, d) \<in> set ENTITLEMENT_CATALOG. ed_scope d = scope \<longrightarrow>
        (case ed_type d of TypeFlag \<Rightarrow> is_flag (reflect_get props key) | TypeLimit \<Rightarrow> isLimit (reflect_get props key)))"

lemma parse_keys_eq:
  "parse_keys ok keys props =
     (case find (\<lambda>k. \<not> ok (reflect_get props k)) keys of
        None \<Rightarrow> Inr (map (\<lambda>k. (k, reflect_get props k)) keys)
      | Some k \<Rightarrow> Inl (EntitlementSourceError k))"
  by (induction keys) (auto simp: Let_def split: option.split)

lemma parse_keys_Inr_iff:
  "parse_keys ok keys props = Inr vs \<longleftrightarrow>
     (\<forall>k \<in> set keys. ok (reflect_get props k)) \<and> vs = map (\<lambda>k. (k, reflect_get props k)) keys"
  by (auto simp: parse_keys_eq find_None_iff dest: find_SomeD split: option.splits)

lemma reflect_get_map: "reflect_get (map (\<lambda>k. (k, f k)) keys) key = (if key \<in> set keys then f key else JsUndefined)"
  by (induction keys) (auto simp: reflect_get_def)

lemma catalog_keys:
  "FLAG_ENTITLEMENTS = [''ai.suggestions'', ''sharing.members'', ''sharing.teams'', ''members.invite'', ''teams.manage'', ''audit.log'']"
  "WORKSPACE_LIMIT_ENTITLEMENTS = [''bookmarks.max'', ''seats.max'']"
  "ACCOUNT_LIMIT_ENTITLEMENTS = [''workspaces.ownMax'']"
  by code_simp+

lemma key_parts:
  assumes "map_of ENTITLEMENT_CATALOG key = Some d"
  shows "key \<in> set (keysOf (ed_scope d) (ed_type d))"
    "ed_scope d = ScopeAccount \<Longrightarrow> ed_type d = TypeLimit"
  using assms by (auto simp: keysOf_def ENTITLEMENT_CATALOG_def ent_def_def image_iff split: if_splits)

lemma keysOf_iff: "key \<in> set (keysOf s t) \<longleftrightarrow> (\<exists>d. (key, d) \<in> set ENTITLEMENT_CATALOG \<and> ed_scope d = s \<and> ed_type d = t)"
  by (force simp: keysOf_def)

lemma parseWorkspace_Inr_iff:
  "parseWorkspaceEntitlements answer = Inr values \<longleftrightarrow>
     (\<exists>props. answer = JsObject props \<and> well_typed ScopeWorkspace props \<and>
        values = map (\<lambda>k. (k, reflect_get props k)) (FLAG_ENTITLEMENTS @ WORKSPACE_LIMIT_ENTITLEMENTS))"
proof -
  have typed: "well_typed ScopeWorkspace props \<longleftrightarrow>
      (\<forall>k \<in> set FLAG_ENTITLEMENTS. is_flag (reflect_get props k)) \<and>
      (\<forall>k \<in> set WORKSPACE_LIMIT_ENTITLEMENTS. isLimit (reflect_get props k))" for props
    by (simp add: well_typed_def catalog_keys ENTITLEMENT_CATALOG_def ent_def_def) blast
  have object: "parseWorkspaceEntitlements (JsObject props) = Inr values \<longleftrightarrow>
      (\<exists>flags limits. parse_keys is_flag FLAG_ENTITLEMENTS props = Inr flags \<and>
         parse_keys isLimit WORKSPACE_LIMIT_ENTITLEMENTS props = Inr limits \<and> values = flags @ limits)" for props
    by (auto simp: parseWorkspaceEntitlements_def split: sum.splits)
  show ?thesis
    unfolding typed
    by (cases answer) (simp_all add: object parse_keys_Inr_iff, simp_all add: parseWorkspaceEntitlements_def)
qed

lemma parseAccount_Inr_iff:
  "parseAccountEntitlements answer = Inr values \<longleftrightarrow>
     (\<exists>props. answer = JsObject props \<and> well_typed ScopeAccount props \<and>
        values = map (\<lambda>k. (k, reflect_get props k)) ACCOUNT_LIMIT_ENTITLEMENTS)"
proof -
  have "well_typed ScopeAccount props \<longleftrightarrow> (\<forall>k \<in> set ACCOUNT_LIMIT_ENTITLEMENTS. isLimit (reflect_get props k))" for props
    by (simp add: well_typed_def catalog_keys ENTITLEMENT_CATALOG_def ent_def_def)
  then show ?thesis
    by (cases answer) (simp_all add: parseAccountEntitlements_def parse_keys_Inr_iff)
qed

lemma readSource_Inr_iff:
  "readSource answer = Inr a \<longleftrightarrow>
     (\<exists>grant up props. answer = Inr grant \<and> eg_upgradeAvailable grant = JsBool up \<and> eg_values grant = JsObject props \<and>
        well_typed ScopeWorkspace props \<and>
        a = \<lparr>je_values = map (\<lambda>k. (k, reflect_get props k)) (FLAG_ENTITLEMENTS @ WORKSPACE_LIMIT_ENTITLEMENTS),
             je_upgradeAvailable = up\<rparr>)"
proof (cases answer)
  case (Inr grant)
  show ?thesis
  proof (cases "eg_upgradeAvailable grant")
    case (JsBool up)
    have "readSource answer = Inr a \<longleftrightarrow>
        (\<exists>values. parseWorkspaceEntitlements (eg_values grant) = Inr values \<and> a = \<lparr>je_values = values, je_upgradeAvailable = up\<rparr>)"
      by (auto simp: readSource_def Inr JsBool split: sum.split)
    then show ?thesis
      by (auto simp: parseWorkspace_Inr_iff Inr JsBool)
  qed (simp_all add: readSource_def Inr)
qed (simp add: readSource_def)

lemma held_granted:
  assumes "case t of TypeFlag \<Rightarrow> is_flag v | TypeLimit \<Rightarrow> isLimit v"
  shows "isHeld v \<longleftrightarrow> granted_value t v"
  using assms
  by (cases t; cases v) (auto simp: is_flag_def isLimit_def isHeld_def granted_value_def)

text \<open>What a grant says of a key: the source answered for the workspace or the account with a value of the right type for every key.\<close>

definition source_grants :: "js_error + ent_grant \<Rightarrow> ent_type \<Rightarrow> string \<Rightarrow> bool" where
  "source_grants answer t key \<longleftrightarrow>
     (\<exists>grant up props. answer = Inr grant \<and> eg_upgradeAvailable grant = JsBool up \<and> eg_values grant = JsObject props \<and>
        well_typed ScopeWorkspace props \<and> granted_value t (reflect_get props key))"

definition account_grants :: "js_error + js_value \<Rightarrow> string \<Rightarrow> bool" where
  "account_grants answer key \<longleftrightarrow>
     (\<exists>props. answer = Inr (JsObject props) \<and> well_typed ScopeAccount props \<and> granted_value TypeLimit (reflect_get props key))"

lemma source_held:
  assumes "readSource answer = Inr a" "map_of ENTITLEMENT_CATALOG key = Some d" "ed_scope d = ScopeWorkspace"
  shows "isHeld (reflect_get (je_values a) key) \<longleftrightarrow> source_grants answer (ed_type d) key"
proof -
  obtain grant up props where src: "answer = Inr grant" "eg_upgradeAvailable grant = JsBool up" "eg_values grant = JsObject props"
      "well_typed ScopeWorkspace props"
      "a = \<lparr>je_values = map (\<lambda>k. (k, reflect_get props k)) (FLAG_ENTITLEMENTS @ WORKSPACE_LIMIT_ENTITLEMENTS), je_upgradeAvailable = up\<rparr>"
    using assms(1) unfolding readSource_Inr_iff by blast
  have "key \<in> set (FLAG_ENTITLEMENTS @ WORKSPACE_LIMIT_ENTITLEMENTS)"
    using key_parts(1) [OF assms(2)] assms(3)
    by (cases "ed_type d") (simp_all add: FLAG_ENTITLEMENTS_def WORKSPACE_LIMIT_ENTITLEMENTS_def)
  then have get: "reflect_get (je_values a) key = reflect_get props key"
    unfolding src(5) by (simp only: joining_entitlements.simps reflect_get_map if_True)
  have "case ed_type d of TypeFlag \<Rightarrow> is_flag (reflect_get props key) | TypeLimit \<Rightarrow> isLimit (reflect_get props key)"
    using src(4) assms(2,3) by (auto simp: well_typed_def dest!: map_of_SomeD)
  then show ?thesis
    unfolding get using held_granted src(1-4) by (auto simp: source_grants_def)
qed

lemma account_held:
  assumes "parseAccountEntitlements answer = Inr values" "map_of ENTITLEMENT_CATALOG key = Some d" "ed_scope d = ScopeAccount"
  shows "isHeld (reflect_get values key) \<longleftrightarrow> account_grants (Inr answer) key"
proof -
  obtain props where src: "answer = JsObject props" "well_typed ScopeAccount props"
      "values = map (\<lambda>k. (k, reflect_get props k)) ACCOUNT_LIMIT_ENTITLEMENTS"
    using assms(1) unfolding parseAccount_Inr_iff by blast
  have limit: "ed_type d = TypeLimit"
    by (rule key_parts(2) [OF assms(2,3)])
  then have "key \<in> set ACCOUNT_LIMIT_ENTITLEMENTS"
    using key_parts(1) [OF assms(2)] assms(3) by (simp add: ACCOUNT_LIMIT_ENTITLEMENTS_def)
  then have get: "reflect_get values key = reflect_get props key"
    unfolding src(3) by (simp only: reflect_get_map if_True)
  have "isLimit (reflect_get props key)"
    using src(2) assms(2,3) limit by (auto simp: well_typed_def dest!: map_of_SomeD)
  then show ?thesis
    unfolding get using held_granted [where t = TypeLimit] src(1,2) by (auto simp: account_grants_def)
qed

text \<open>
  Claim C29: a check grants an entitlement exactly when it is a key of the catalog and the source's answer, complete and of the
  right types, has the flag on or a limit above zero: for the account of an account key, and for a workspace the account
  sees, or is joining, of a workspace key. Nothing is granted for another key, without a workspace, for a workspace
  that is not seen, or when the source fails or answers outside the catalog.
\<close>

theorem check_grants_exactly_the_grant:
  "createEntitlementCheck (answers_from seen source account) key subject = Inr True \<longleftrightarrow>
     (case map_of ENTITLEMENT_CATALOG key of
        None \<Rightarrow> False
      | Some d \<Rightarrow>
          if ed_scope d = ScopeAccount then account_grants account key
          else (\<exists>ws. sj_workspaceId subject = Some ws \<and> (sj_joining subject \<or> (\<exists>version. seen ws = Some version)) \<and>
                  source_grants (source ws) (ed_type d) key))"
proof (cases "map_of ENTITLEMENT_CATALOG key")
  case (Some d)
  show ?thesis
  proof (cases "ed_scope d = ScopeAccount")
    case True
    have "account_grants account key \<Longrightarrow> \<exists>v values. account = Inr v \<and> parseAccountEntitlements v = Inr values"
      by (auto simp: account_grants_def parseAccount_Inr_iff)
    then show ?thesis
      using True Some account_held [OF _ Some True]
      by (auto simp: createEntitlementCheck_def answers_from_def split: sum.splits)
  next
    case False
    then have scope: "ed_scope d = ScopeWorkspace" by (cases "ed_scope d") auto
    have ok: "source_grants answer t key \<Longrightarrow> \<exists>a. readSource answer = Inr a" for answer t
      unfolding source_grants_def readSource_Inr_iff by blast
    show ?thesis
    proof (cases "sj_workspaceId subject")
      case (Some ws)
      show ?thesis
      proof (cases "readSource (source ws)")
        case (Inl e)
        then show ?thesis
          using ok [of "source ws"] Some False \<open>map_of ENTITLEMENT_CATALOG key = Some d\<close>
          by (auto simp: createEntitlementCheck_def answers_from_def workspaceSet_def split: option.splits)
      next
        case (Inr a)
        have "answer_of (set_of ws v a) = a" for v
          by (cases a) (simp add: answer_of_def set_of_def)
        then show ?thesis
          using source_held [OF Inr \<open>map_of ENTITLEMENT_CATALOG key = Some d\<close> scope] Inr Some False \<open>map_of ENTITLEMENT_CATALOG key = Some d\<close>
          by (auto simp: createEntitlementCheck_def answers_from_def workspaceSet_def split: option.splits)
      qed
    qed (use Some False in \<open>simp add: createEntitlementCheck_def\<close>)
  qed
qed (simp add: createEntitlementCheck_def)

section \<open>The version in the database\<close>

text \<open>\<open>app_member_workspace_ids()\<close>: the workspaces of the account of the transaction that are not being deleted.\<close>

definition app_member_workspace_ids :: "tables \<Rightarrow> string \<Rightarrow> string list" where
  "app_member_workspace_ids db a =
     concat (map (\<lambda>m. map ws_id (filter (\<lambda>w. ws_id w = wm_workspace_id m \<and> ws_deleting_at w = None) (workspaces db)))
       (filter (\<lambda>m. wm_account_id m = a) (workspace_members db)))"

definition seen_workspace :: "tables \<Rightarrow> string \<Rightarrow> string \<Rightarrow> workspace_row option" where
  "seen_workspace db a i = find (\<lambda>w. ws_id w = i \<and> ws_id w \<in> set (app_member_workspace_ids db a)) (workspaces db)"

definition ent_version :: "tenant_tx \<Rightarrow> (tables, nat option) tx" where
  "ent_version tx =
     tx_bind (requireWorkspace tx ''reading the entitlement version'') (\<lambda>w db.
       Inr (map_option ws_entitlement_version (seen_workspace db (uuid_cast (tx_accountId tx)) (uuid_cast w)), db))"

definition ent_usage :: "tenant_tx \<Rightarrow> (tables, (nat \<times> nat) option) tx" where
  "ent_usage tx =
     tx_bind (requireWorkspace tx ''reading the entitlement usage'') (\<lambda>w db.
       Inr (map_option (\<lambda>row. (ws_bookmark_count row, length (filter (\<lambda>m. wm_workspace_id m = ws_id row) (workspace_members db))))
              (seen_workspace db (uuid_cast (tx_accountId tx)) (uuid_cast w)), db))"

definition ent_ownedWorkspaces :: "tenant_tx \<Rightarrow> (tables, nat) tx" where
  "ent_ownedWorkspaces tx db =
     (let a = uuid_cast (tx_accountId tx)
      in Inr (length (filter (\<lambda>(m, w). wm_workspace_id m = ws_id w \<and> wm_account_id m = a \<and> wm_role m = RoleOwner \<and>
                                  ws_id w \<in> set (app_member_workspace_ids db a))
                (List.product (workspace_members db) (workspaces db))), db))"

definition bump_row :: "string \<Rightarrow> workspace_row \<Rightarrow> workspace_row" where
  "bump_row i w = (if ws_id w = i \<and> ws_deleting_at w = None then w\<lparr>ws_entitlement_version := ws_entitlement_version w + 1\<rparr> else w)"

definition sys_workspace_bump_entitlement_version :: "string \<Rightarrow> string \<Rightarrow> tables \<Rightarrow> nat option \<times> tables" where
  "sys_workspace_bump_entitlement_version a i db =
     (if \<not> list_ex (\<lambda>m. wm_workspace_id m = i \<and> wm_account_id m = a) (workspace_members db) then (None, db)
      else (map_option (\<lambda>w. ws_entitlement_version w + 1) (find (\<lambda>w. ws_id w = i \<and> ws_deleting_at w = None) (workspaces db)),
            db\<lparr>workspaces := map (bump_row i) (workspaces db)\<rparr>))"

definition ent_bump :: "tenant_tx \<Rightarrow> (tables, nat option) tx" where
  "ent_bump tx =
     tx_bind (requireWorkspace tx ''raising the entitlement version'') (\<lambda>w db.
       Inr (sys_workspace_bump_entitlement_version (uuid_cast (tx_accountId tx)) (uuid_cast w) db))"

definition withEntitlementChange :: "('s, nat option) tx \<Rightarrow> ('s, 'r) tx \<Rightarrow> ('s, 'r) tx" where
  "withEntitlementChange bump change =
     tx_bind change (\<lambda>result. tx_bind bump (\<lambda>version.
       if version = None then tx_throw (NamedError ''EntitlementVersionError'' ''the entitlement version of the workspace could not be raised'')
       else tx_return result))"

definition version_in :: "tables \<Rightarrow> string \<Rightarrow> nat option" where
  "version_in db i = map_option ws_entitlement_version (find (\<lambda>w. ws_id w = i) (workspaces db))"

lemma find_map_bump:
  "find (\<lambda>w. ws_id w = i) (map (bump_row i) ws) = map_option (bump_row i) (find (\<lambda>w. ws_id w = i) ws)"
  by (induction ws) (auto simp: bump_row_def)

lemma find_bump:
  assumes "distinct (map ws_id ws)" "find (\<lambda>w. ws_id w = i \<and> ws_deleting_at w = None) ws = Some x"
  shows "find (\<lambda>w. ws_id w = i) ws = Some x"
proof -
  have x: "x \<in> set ws" "ws_id x = i"
    using find_SomeD [OF assms(2)] by auto
  then have "find (\<lambda>w. ws_id w = i) ws \<noteq> None"
    by (auto simp: find_None_iff)
  then obtain y where y: "find (\<lambda>w. ws_id w = i) ws = Some y"
    by blast
  have "y = x"
    by (rule distinct_key_eq [OF assms(1)]) (use find_SomeD [OF y] x in auto)
  then show ?thesis using y by simp
qed

text \<open>
  A change to a workspace's grant that goes through \<open>withEntitlementChange\<close> is committed only together with a
  version that is one above the one it had after the change; when the workspace is being deleted or the account is no
  member of it, the whole transaction fails.
\<close>

theorem change_raises_version:
  assumes "withEntitlementChange (ent_bump \<lparr>tx_accountId = acc, tx_workspaceId = Some ws\<rparr>) change db = Inr (r, db')"
    and "\<And>r1 db1. change db = Inr (r1, db1) \<Longrightarrow> distinct (map ws_id (workspaces db1))"
  shows "\<exists>db1 v. change db = Inr (r, db1) \<and> version_in db1 (js_lower ws) = Some v \<and> version_in db' (js_lower ws) = Some (Suc v) \<and>
     (\<exists>m \<in> set (workspace_members db1). wm_workspace_id m = js_lower ws \<and> wm_account_id m = js_lower acc)"
proof -
  obtain db1 v where c: "change db = Inr (r, db1)"
    and b: "ent_bump \<lparr>tx_accountId = acc, tx_workspaceId = Some ws\<rparr> db1 = Inr (Some v, db')"
    using assms(1) by (auto simp: withEntitlementChange_def tx_bind_Inr_iff split: if_splits)
  let ?w = "js_lower ws" and ?a = "js_lower acc"
  from b have bump: "sys_workspace_bump_entitlement_version ?a ?w db1 = (Some v, db')"
    by (simp add: ent_bump_def tx_bind_def requireWorkspace_def tx_return_def uuid_cast_def)
  then have member: "\<exists>m \<in> set (workspace_members db1). wm_workspace_id m = ?w \<and> wm_account_id m = ?a"
    by (auto simp: sys_workspace_bump_entitlement_version_def list_ex_iff split: if_splits)
  obtain x where x: "find (\<lambda>w. ws_id w = ?w \<and> ws_deleting_at w = None) (workspaces db1) = Some x"
      and db': "db' = db1\<lparr>workspaces := map (bump_row ?w) (workspaces db1)\<rparr>"
    using bump by (auto simp: sys_workspace_bump_entitlement_version_def split: if_splits)
  have find: "find (\<lambda>w. ws_id w = ?w) (workspaces db1) = Some x"
    by (rule find_bump [OF assms(2) [OF c] x])
  have "ws_id x = ?w" "ws_deleting_at x = None"
    using find_SomeD [OF x] by auto
  then have "version_in db' ?w = Some (Suc (ws_entitlement_version x))"
    by (simp add: version_in_def db' find_map_bump find bump_row_def)
  then show ?thesis
    using c member find by (auto simp: version_in_def)
qed

definition example_entitlement_db :: tables where
  "example_entitlement_db =
     \<lparr>bookmarks = [], bookmark_shares = [], folder_shares = [], folder_bookmarks = [], team_members = [], slug_preferences = [],
      accounts = [],
      workspaces = [\<lparr>ws_id = ''w'', ws_name = ''One'', ws_entitlement_version = 4, ws_bookmark_count = 1, ws_deleting_at = None\<rparr>],
      workspace_members = [\<lparr>wm_workspace_id = ''w'', wm_account_id = ''a'', wm_role = RoleOwner\<rparr>]\<rparr>"

theorem change_raises_version_witness:
  "\<exists>db'. version_in db' ''w'' = Some 5"
proof -
  let ?run = "withEntitlementChange (ent_bump \<lparr>tx_accountId = ''a'', tx_workspaceId = Some ''w''\<rparr>) (tx_return ()) example_entitlement_db"
  have "case ?run of Inl _ \<Rightarrow> False | Inr _ \<Rightarrow> True"
    by code_simp
  then obtain r db' where run: "?run = Inr (r, db')"
    by (cases ?run) auto
  have "distinct (map ws_id (workspaces db1))"
    if "tx_return () example_entitlement_db = Inr (r1, db1)" for r1 :: unit and db1
    using that by (auto simp: example_entitlement_db_def)
  from change_raises_version [OF run this] show ?thesis
    by (auto simp: version_in_def example_entitlement_db_def js_lower_def js_lower_char_def code_unit_def)
qed

end
