(* ===== verification/RateLimit.thy ===== *)
theory RateLimit
  imports Prelude Complex_Main
begin

text \<open>
  The rate limiter: the token buckets in the database (\<open>packages/db/src/sql/040-rate-limit.sql\<close>,
  \<open>050-rate-limit-purge.sql\<close>), the wrapper of the two system operations (\<open>packages/db/src/system/rate-limit.ts\<close>) and the
  port over them (\<open>packages/adapters/src/rate-limit/rate-limit.ts\<close>).

  Double-precision arithmetic is exact here (\<^typ>\<open>rat\<close>); the rounding of the 4-byte \<open>real\<close> column is the parameter
  \<open>real4\<close>. The clock is part of the state, and each operation reads it once. SHA-256 is the parameter \<open>sha256\<close>.
\<close>

section \<open>The table of buckets\<close>

record bucket_row =
  br_tokens :: rat
  br_updated_at :: rat

type_synonym buckets = "string \<rightharpoonup> bucket_row"

text \<open>A JavaScript number: finite, or an infinity or no number.\<close>

datatype js_num = Fin rat | NotFinite

record rate_limit_taken =
  tk_allowed :: bool
  tk_remaining :: js_num
  tk_retryAfterSeconds :: js_num

definition refilled :: "rat \<Rightarrow> rat \<Rightarrow> rat \<Rightarrow> bucket_row \<Rightarrow> rat" where
  "refilled capacity refill now row = min capacity (br_tokens row + refill * max 0 (now - br_updated_at row))"

definition take_arguments_ok :: "rat \<Rightarrow> rat \<Rightarrow> rat \<Rightarrow> bool" where
  "take_arguments_ok capacity refill cost \<longleftrightarrow>
     0 < capacity \<and> capacity \<le> 10 ^ 9 \<and> 0 < refill \<and> refill \<le> 10 ^ 9 \<and> 0 < cost \<and> cost \<le> 10 ^ 9"

text \<open>The upsert of the take: the balance it leaves and the table, or \<open>None\<close> when it touches no row.\<close>

definition take_upsert :: "(rat \<Rightarrow> rat) \<Rightarrow> rat \<Rightarrow> string \<Rightarrow> rat \<Rightarrow> rat \<Rightarrow> rat \<Rightarrow> buckets \<Rightarrow> (rat \<times> buckets) option" where
  "take_upsert real4 now key capacity refill cost t =
     (if \<not> cost \<le> capacity then None
      else case t key of
        None \<Rightarrow>
          (let tokens = real4 (capacity - cost) in Some (tokens, t(key \<mapsto> \<lparr>br_tokens = tokens, br_updated_at = now\<rparr>)))
      | Some row \<Rightarrow>
          if refilled capacity refill now row \<ge> cost then
            (let tokens = real4 (refilled capacity refill now row - cost)
             in Some (tokens, t(key \<mapsto> \<lparr>br_tokens = tokens, br_updated_at = max (br_updated_at row) now\<rparr>)))
          else None)"

definition take_available :: "rat \<Rightarrow> string \<Rightarrow> rat \<Rightarrow> rat \<Rightarrow> buckets \<Rightarrow> rat" where
  "take_available now key capacity refill t =
     min capacity (case t key of None \<Rightarrow> capacity | Some row \<Rightarrow> br_tokens row + refill * max 0 (now - br_updated_at row))"

definition sys_rate_limit_take ::
    "(rat \<Rightarrow> rat) \<Rightarrow> rat \<Rightarrow> string \<Rightarrow> rat \<Rightarrow> rat \<Rightarrow> rat \<Rightarrow> buckets \<Rightarrow> (js_error + rate_limit_taken) \<times> buckets" where
  "sys_rate_limit_take real4 now key capacity refill cost t =
     (if \<not> take_arguments_ok capacity refill cost then (Inl (NamedError ''PostgresError'' ''invalid_parameter_value''), t)
      else case take_upsert real4 now key capacity refill cost t of
        Some (tokens, t') \<Rightarrow> (Inr \<lparr>tk_allowed = True, tk_remaining = Fin tokens, tk_retryAfterSeconds = Fin 0\<rparr>, t')
      | None \<Rightarrow>
          (let available = take_available now key capacity refill t
           in (Inr \<lparr>tk_allowed = False, tk_remaining = Fin available,
                    tk_retryAfterSeconds = Fin ((cost - available) / refill)\<rparr>, t)))"

text \<open>\<open>sys_rate_limit_purge()\<close>: the buckets idle for more than an hour are deleted; it answers how many of the keys given.\<close>

definition idle :: "rat \<Rightarrow> bucket_row \<Rightarrow> bool" where
  "idle now row \<longleftrightarrow> br_updated_at row < now - 3600"

definition sys_rate_limit_purge :: "rat \<Rightarrow> buckets \<Rightarrow> buckets" where
  "sys_rate_limit_purge now t = (\<lambda>key. case t key of None \<Rightarrow> None | Some row \<Rightarrow> if idle now row then None else Some row)"

section \<open>The store (packages/db/src/system/rate-limit.ts)\<close>

text \<open>The database as the store sees it: the table, the clock, and whether it answers.\<close>

record rate_db =
  rd_buckets :: buckets
  rd_clock :: rat
  rd_up :: bool

record rate_limit_take =
  rt_key :: string
  rt_capacity :: rat
  rt_refillPerSecond :: rat
  rt_cost :: rat

definition MAX_VALUE :: rat where
  "MAX_VALUE = 10 ^ 9"

definition positive_value :: "rat \<Rightarrow> bool" where
  "positive_value v \<longleftrightarrow> \<not> (v \<le> 0 \<or> v > MAX_VALUE)"

definition PostgresDown :: js_error where
  "PostgresDown = NamedError ''PostgresError'' ''connection''"

definition bindRateLimitStore_take :: "(rat \<Rightarrow> rat) \<Rightarrow> rate_limit_take \<Rightarrow> rate_db \<Rightarrow> (js_error + rate_limit_taken) \<times> rate_db" where
  "bindRateLimitStore_take real4 request db =
     (if rt_key request = [] then (Inl (RangeError ''key must not be empty''), db)
      else if \<not> positive_value (rt_capacity request) then (Inl (RangeError ''capacity''), db)
      else if \<not> positive_value (rt_refillPerSecond request) then (Inl (RangeError ''refillPerSecond''), db)
      else if \<not> positive_value (rt_cost request) then (Inl (RangeError ''cost''), db)
      else if \<not> rd_up db then (Inl PostgresDown, db)
      else let (taken, t) = sys_rate_limit_take real4 (rd_clock db) (rt_key request) (rt_capacity request)
                              (rt_refillPerSecond request) (rt_cost request) (rd_buckets db)
           in (taken, db\<lparr>rd_buckets := t\<rparr>))"

definition bindRateLimitStore_purgeIdle :: "rate_db \<Rightarrow> rate_db" where
  "bindRateLimitStore_purgeIdle db =
     (if rd_up db then db\<lparr>rd_buckets := sys_rate_limit_purge (rd_clock db) (rd_buckets db)\<rparr> else db)"

section \<open>The port (packages/adapters/src/rate-limit/rate-limit.ts)\<close>

record bucket_limit =
  bl_capacity :: rat
  bl_refillPerSecond :: rat

record rate_limit_request =
  rq_bucket :: string
  rq_key :: string
  rq_cost :: "js_num option"

record rate_limit_decision =
  dc_allowed :: bool
  dc_limit :: rat
  dc_remaining :: int
  dc_retryAfterSeconds :: int

definition RateLimitError :: "string \<Rightarrow> js_error" where
  "RateLimitError code = NamedError ''RateLimitError'' code"

definition REAL_PRECISION :: rat where
  "REAL_PRECISION = 1 + 1 / 10 ^ 6"

definition storageKey :: "(string \<Rightarrow> string) \<Rightarrow> string \<Rightarrow> string \<Rightarrow> string" where
  "storageKey sha256 bucket key = bucket @ '':'' @ sha256 key"

definition wellFormed :: "bucket_limit \<Rightarrow> rate_limit_taken \<Rightarrow> bool" where
  "wellFormed limit taken \<longleftrightarrow>
     (case (tk_remaining taken, tk_retryAfterSeconds taken) of
        (Fin remaining, Fin retry) \<Rightarrow>
          0 \<le> remaining \<and> remaining \<le> bl_capacity limit * REAL_PRECISION \<and> (tk_allowed taken \<or> 0 < retry)
      | _ \<Rightarrow> False)"

definition js_floor :: "js_num \<Rightarrow> int" where
  "js_floor n = (case n of Fin v \<Rightarrow> \<lfloor>v\<rfloor> | NotFinite \<Rightarrow> 0)"

definition js_ceil :: "js_num \<Rightarrow> int" where
  "js_ceil n = (case n of Fin v \<Rightarrow> \<lceil>v\<rceil> | NotFinite \<Rightarrow> 0)"

definition decision_of :: "bucket_limit \<Rightarrow> rate_limit_taken \<Rightarrow> rate_limit_decision" where
  "decision_of limit taken =
     \<lparr>dc_allowed = tk_allowed taken, dc_limit = bl_capacity limit, dc_remaining = max 0 (js_floor (tk_remaining taken)),
      dc_retryAfterSeconds = (if tk_allowed taken then 0 else js_ceil (tk_retryAfterSeconds taken))\<rparr>"

definition cost_of :: "rate_limit_request \<Rightarrow> js_num" where
  "cost_of request = (case rq_cost request of None \<Rightarrow> Fin 1 | Some c \<Rightarrow> c)"

text \<open>\<open>consume\<close> over any store; the store and its state are parameters.\<close>

definition createRateLimiter ::
    "(string \<Rightarrow> string) \<Rightarrow> (string \<Rightarrow> bucket_limit option) \<Rightarrow> (rate_limit_take \<Rightarrow> 'w \<Rightarrow> (js_error + rate_limit_taken) \<times> 'w) \<Rightarrow>
     rate_limit_request \<Rightarrow> 'w \<Rightarrow> (js_error + rate_limit_decision) \<times> 'w" where
  "createRateLimiter sha256 limits take_from request w =
     (case cost_of request of
        NotFinite \<Rightarrow> (Inl (RateLimitError ''invalid_request''), w)
      | Fin cost \<Rightarrow>
          if rq_key request = [] \<or> cost \<le> 0 then (Inl (RateLimitError ''invalid_request''), w)
          else case limits (rq_bucket request) of
            None \<Rightarrow> (Inl (RateLimitError ''unknown_bucket''), w)
          | Some limit \<Rightarrow>
              (case take_from \<lparr>rt_key = storageKey sha256 (rq_bucket request) (rq_key request), rt_capacity = bl_capacity limit,
                               rt_refillPerSecond = bl_refillPerSecond limit, rt_cost = cost\<rparr> w of
                 (Inl e, w') \<Rightarrow> (Inl e, w')
               | (Inr taken, w') \<Rightarrow>
                   if wellFormed limit taken then (Inr (decision_of limit taken), w')
                   else (Inl (RateLimitError ''invalid_store_answer''), w')))"

text \<open>The limiter the server runs: the port over the database.\<close>

definition db_limiter ::
    "(rat \<Rightarrow> rat) \<Rightarrow> (string \<Rightarrow> string) \<Rightarrow> (string \<Rightarrow> bucket_limit option) \<Rightarrow>
     rate_limit_request \<Rightarrow> rate_db \<Rightarrow> (js_error + rate_limit_decision) \<times> rate_db" where
  "db_limiter real4 sha256 limits = createRateLimiter sha256 limits (bindRateLimitStore_take real4)"

section \<open>No bucket grants more than it holds and gains\<close>

definition row_of :: "buckets \<Rightarrow> string \<Rightarrow> rat \<Rightarrow> bool" where
  "row_of t key T \<longleftrightarrow> (\<forall>row. t key = Some row \<longrightarrow> br_updated_at row \<le> T)"

text \<open>
  The invariant of one bucket of a period that begins at \<open>t0\<close>: at every moment from the last write and the last purge on, what
  was granted and what the bucket would hold are together at most a full bucket and what it gained since \<open>t0\<close>, up to rounding.
\<close>

definition bucket_inv :: "rat \<Rightarrow> rat \<Rightarrow> string \<Rightarrow> rat \<Rightarrow> rat \<Rightarrow> rat \<Rightarrow> rat \<Rightarrow> buckets \<Rightarrow> bool" where
  "bucket_inv capacity refill key t0 purged slack granted t \<longleftrightarrow>
     t0 \<le> purged \<and> (\<forall>row. t key = Some row \<longrightarrow> 0 \<le> br_tokens row) \<and>
     (\<forall>T \<ge> purged. row_of t key T \<longrightarrow> granted + take_available T key capacity refill t \<le> capacity + refill * (T - t0) + slack)"

lemma available_bounds:
  assumes "\<forall>row. t key = Some row \<longrightarrow> 0 \<le> br_tokens row" "0 \<le> capacity" "0 \<le> refill"
  shows "0 \<le> take_available T key capacity refill t" "take_available T key capacity refill t \<le> capacity"
  using assms by (auto simp: take_available_def split: option.split)

lemma available_grows:
  assumes "t key = Some row" "U \<le> T" "br_updated_at row \<le> U" "0 \<le> refill"
  shows "take_available T key capacity refill t \<le> br_tokens row + refill * (T - br_updated_at row)"
  using assms by (simp add: take_available_def)

lemma upsert_inv:
  assumes inv: "bucket_inv capacity refill key t0 purged slack granted t"
    and up: "take_upsert real4 now key capacity refill cost t = Some (tokens, t')"
    and args: "take_arguments_ok capacity refill cost" and now: "purged \<le> now"
    and round: "\<And>x. 0 \<le> x \<Longrightarrow> x \<le> capacity \<Longrightarrow> 0 \<le> real4 x \<and> real4 x \<le> x + e"
  shows "bucket_inv capacity refill key t0 purged (slack + e) (granted + cost) t' \<and>
     (\<exists>T. T \<le> max now (case t key of None \<Rightarrow> now | Some row \<Rightarrow> br_updated_at row) \<and> granted + cost \<le> capacity + refill * (T - t0) + slack) \<and>
     (\<exists>row. t' key = Some row \<and> br_updated_at row \<le> max now (case t key of None \<Rightarrow> now | Some row \<Rightarrow> br_updated_at row))"
proof -
  let ?U = "case t key of None \<Rightarrow> now | Some row \<Rightarrow> br_updated_at row"
  let ?T0 = "max now ?U"
  let ?a = "take_available ?T0 key capacity refill t"
  let ?b = "take_available now key capacity refill t"
  have same: "?b \<le> ?a"
    by (auto simp: take_available_def max_def min.coboundedI2 split: option.splits)
  have a: "granted + ?a \<le> capacity + refill * (?T0 - t0) + slack"
    using inv now unfolding bucket_inv_def row_of_def by (auto split: option.splits)
  have b: "cost \<le> ?b" and t': "t' = t(key \<mapsto> \<lparr>br_tokens = real4 (?b - cost), br_updated_at = ?T0\<rparr>)"
    using up by (auto simp: take_upsert_def take_available_def refilled_def Let_def max.commute split: option.splits if_splits)
  have cap: "0 \<le> ?b - cost" "?b - cost \<le> capacity"
    using b args available_bounds(2) [of t key capacity refill now] inv by (auto simp: bucket_inv_def take_arguments_ok_def)
  note r = round [OF cap]
  have "granted + cost + take_available T key capacity refill t' \<le> capacity + refill * (T - t0) + (slack + e)" if "?T0 \<le> T" for T
  proof -
    have "take_available T key capacity refill t' \<le> real4 (?b - cost) + refill * (T - ?T0)"
      using available_grows [of t' key _ ?T0 T refill capacity] that args by (simp add: t' take_arguments_ok_def)
    moreover have "refill * (T - t0) = refill * (T - ?T0) + refill * (?T0 - t0)"
      by (simp add: algebra_simps)
    ultimately show ?thesis using r a same by linarith
  qed
  then show ?thesis
    using r inv a b same by (auto simp: bucket_inv_def row_of_def t' intro!: exI [of _ ?T0])
qed

lemma purge_inv:
  assumes "bucket_inv capacity refill key t0 purged slack granted t" "capacity \<le> refill * 3600" "0 \<le> refill"
  shows "bucket_inv capacity refill key t0 (max purged now) slack granted (sys_rate_limit_purge now t)"
proof -
  have "granted + take_available T key capacity refill (sys_rate_limit_purge now t) \<le> capacity + refill * (T - t0) + slack"
    if T: "purged \<le> T" "now \<le> T" "row_of (sys_rate_limit_purge now t) key T" for T
  proof (cases "\<exists>row. t key = Some row \<and> idle now row")
    case True
    then obtain row where row: "t key = Some row" "idle now row" by blast
    then have "3600 \<le> T - br_updated_at row" using T by (simp add: idle_def)
    then have "refill * 3600 \<le> refill * (T - br_updated_at row)" using assms(3) by (rule mult_left_mono)
    moreover have "0 \<le> br_tokens row" "row_of t key T"
      using assms(1) row T by (auto simp: bucket_inv_def row_of_def idle_def)
    ultimately have "take_available T key capacity refill t = capacity"
      using row T assms(2) by (simp add: take_available_def idle_def)
    moreover have "take_available T key capacity refill (sys_rate_limit_purge now t) = capacity"
      using row by (simp add: take_available_def sys_rate_limit_purge_def)
    ultimately show ?thesis
      using assms(1) \<open>row_of t key T\<close> T by (auto simp: bucket_inv_def)
  next
    case False
    then have "sys_rate_limit_purge now t key = t key"
      by (auto simp: sys_rate_limit_purge_def split: option.splits)
    then show ?thesis
      using assms(1) T by (auto simp: bucket_inv_def row_of_def take_available_def)
  qed
  then show ?thesis
    using assms(1) by (auto simp: bucket_inv_def sys_rate_limit_purge_def split: option.splits if_splits)
qed

lemma bucket_inv_weaken:
  "bucket_inv capacity refill key t0 purged slack granted t \<Longrightarrow> slack \<le> slack' \<Longrightarrow> granted' \<le> granted \<Longrightarrow> t' key = t key \<Longrightarrow>
   bucket_inv capacity refill key t0 purged slack' granted' t'"
  by (fastforce simp: bucket_inv_def row_of_def take_available_def)

section \<open>Any sequence of takes and purges\<close>

text \<open>An event has its reading of the clock and whether the database answers; the readings of takes that wait for each other come in any order.\<close>

datatype rate_event = Consume rate_limit_request rat bool | PurgeIdle rat bool

fun rate_run ::
    "(rate_limit_request \<Rightarrow> rate_db \<Rightarrow> (js_error + rate_limit_decision) \<times> rate_db) \<Rightarrow> rate_event list \<Rightarrow> buckets \<Rightarrow>
     (rate_limit_request \<times> (js_error + rate_limit_decision)) list" where
  "rate_run limiter [] t = []"
| "rate_run limiter (Consume request now up # events) t =
     (let (result, db) = limiter request \<lparr>rd_buckets = t, rd_clock = now, rd_up = up\<rparr>
      in (request, result) # rate_run limiter events (rd_buckets db))"
| "rate_run limiter (PurgeIdle now up # events) t =
     rate_run limiter events (rd_buckets (bindRateLimitStore_purgeIdle \<lparr>rd_buckets = t, rd_clock = now, rd_up = up\<rparr>))"

definition cost_if_allowed :: "js_error + rate_limit_decision \<Rightarrow> rate_limit_request \<Rightarrow> rat" where
  "cost_if_allowed result request =
     (case (result, cost_of request) of (Inr d, Fin cost) \<Rightarrow> if dc_allowed d then cost else 0 | _ \<Rightarrow> 0)"

definition granted_to :: "string \<Rightarrow> string \<Rightarrow> (rate_limit_request \<times> (js_error + rate_limit_decision)) list \<Rightarrow> rat" where
  "granted_to bucket key entries =
     sum_list (map (\<lambda>(request, result). if rq_bucket request = bucket \<and> rq_key request = key then cost_if_allowed result request else 0) entries)"

text \<open>Takes read the clock within the period, and none reads it before a purge that came before it.\<close>

fun readings_ok :: "rat \<Rightarrow> rat \<Rightarrow> rate_event list \<Rightarrow> bool" where
  "readings_ok purged t1 [] \<longleftrightarrow> True"
| "readings_ok purged t1 (Consume request now up # events) \<longleftrightarrow> purged \<le> now \<and> now \<le> t1 \<and> readings_ok purged t1 events"
| "readings_ok purged t1 (PurgeIdle now up # events) \<longleftrightarrow> readings_ok (max purged now) t1 events"

lemma granted_to_simps [simp]:
  "granted_to b k [] = 0"
  "granted_to b k ((request, result) # rest) =
     (if rq_bucket request = b \<and> rq_key request = k then cost_if_allowed result request else 0) + granted_to b k rest"
  by (simp_all add: granted_to_def)

lemma storageKey_bucket:
  assumes "\<And>x y. length (sha256 x) = length (sha256 y)" "storageKey sha256 b x = storageKey sha256 b' y"
  shows "b = b'"
  using assms append_eq_append_conv [of "b" b' "'':'' @ sha256 x" "'':'' @ sha256 y"] by (auto simp: storageKey_def)

text \<open>One take of the limiter: the table is unchanged, or a bucket took what the request cost.\<close>

lemma db_limiter_cases:
  assumes "db_limiter real4 sha256 limits request \<lparr>rd_buckets = t, rd_clock = now, rd_up = up\<rparr> = (result, db)"
  shows "(rd_buckets db = t \<and> (case result of Inl _ \<Rightarrow> True | Inr d \<Rightarrow> \<not> dc_allowed d)) \<or>
    (\<exists>l cost tokens. limits (rq_bucket request) = Some l \<and> cost_of request = Fin cost \<and>
       take_arguments_ok (bl_capacity l) (bl_refillPerSecond l) cost \<and>
       take_upsert real4 now (storageKey sha256 (rq_bucket request) (rq_key request)) (bl_capacity l) (bl_refillPerSecond l) cost t
         = Some (tokens, rd_buckets db))"
  using assms
  by (auto simp: db_limiter_def createRateLimiter_def bindRateLimitStore_take_def sys_rate_limit_take_def decision_of_def Let_def
      split: js_num.splits option.splits sum.splits if_splits prod.splits)

lemma upsert_other: "take_upsert real4 now key c r cost t = Some (tokens, t') \<Longrightarrow> key \<noteq> key' \<Longrightarrow> t' key' = t key'"
  by (auto simp: take_upsert_def Let_def split: option.splits if_splits)

lemma limiter_step:
  assumes l: "limits b = Some l" "0 < bl_refillPerSecond l"
    and hash: "\<And>x y. length (sha256 x) = length (sha256 y)"
    and round: "\<And>x. 0 \<le> x \<Longrightarrow> x \<le> bl_capacity l \<Longrightarrow> 0 \<le> real4 x \<and> real4 x \<le> x + e" "0 \<le> e"
    and inv: "bucket_inv (bl_capacity l) (bl_refillPerSecond l) (storageKey sha256 b k) t0 purged slack granted t"
    and row: "row_of t (storageKey sha256 b k) t1"
    and bound: "granted \<le> bl_capacity l + bl_refillPerSecond l * (t1 - t0) + slack"
    and now: "purged \<le> now" "now \<le> t1"
    and run: "db_limiter real4 sha256 limits request \<lparr>rd_buckets = t, rd_clock = now, rd_up = up\<rparr> = (result, db)"
    and c: "c = (if rq_bucket request = b \<and> rq_key request = k then cost_if_allowed result request else 0)"
  shows "bucket_inv (bl_capacity l) (bl_refillPerSecond l) (storageKey sha256 b k) t0 purged (slack + e) (granted + c) (rd_buckets db) \<and>
     row_of (rd_buckets db) (storageKey sha256 b k) t1 \<and> granted + c \<le> bl_capacity l + bl_refillPerSecond l * (t1 - t0) + (slack + e)"
proof -
  let ?key = "storageKey sha256 b k" and ?s = "storageKey sha256 (rq_bucket request) (rq_key request)" and ?t = "rd_buckets db"
  from db_limiter_cases [OF run] show ?thesis
  proof (elim disjE exE conjE)
    assume "?t = t" "case result of Inl _ \<Rightarrow> True | Inr d \<Rightarrow> \<not> dc_allowed d"
    then show ?thesis
      using bucket_inv_weaken [OF inv, of "slack + e" granted ?t] row bound round(2) c
      by (auto simp: cost_if_allowed_def split: sum.splits js_num.splits)
  next
    fix l' cost tokens
    assume req: "limits (rq_bucket request) = Some l'" "cost_of request = Fin cost"
      and args: "take_arguments_ok (bl_capacity l') (bl_refillPerSecond l') cost"
      and up: "take_upsert real4 now ?s (bl_capacity l') (bl_refillPerSecond l') cost t = Some (tokens, ?t)"
    show ?thesis
    proof (cases "?s = ?key")
      case True
      have "rq_bucket request = b"
        using True by (intro storageKey_bucket [of sha256 _ "rq_key request" b k] hash)
      then have eq: "l' = l" using req l by simp
      have T1: "max now (case t ?key of None \<Rightarrow> now | Some row \<Rightarrow> br_updated_at row) \<le> t1"
        using now row by (auto simp: row_of_def split: option.split)
      note after = upsert_inv [OF inv up [unfolded True eq] args [unfolded eq] now(1) round(1)]
      have up': "bucket_inv (bl_capacity l) (bl_refillPerSecond l) ?key t0 purged (slack + e) (granted + cost) ?t"
        using after by blast
      have "\<exists>T. T \<le> t1 \<and> granted + cost \<le> bl_capacity l + bl_refillPerSecond l * (T - t0) + slack"
        using after order_trans [OF _ T1] by blast
      then obtain T where T: "T \<le> t1" "granted + cost \<le> bl_capacity l + bl_refillPerSecond l * (T - t0) + slack"
        by blast
      have row': "row_of ?t ?key t1"
        using after order_trans [OF _ T1] by (auto simp: row_of_def)
      have "bl_refillPerSecond l * (T - t0) \<le> bl_refillPerSecond l * (t1 - t0)"
        using T(1) l(2) by (intro mult_left_mono) auto
      with T have bound': "granted + cost \<le> bl_capacity l + bl_refillPerSecond l * (t1 - t0) + (slack + e)"
        using round(2) by linarith
      have "c \<le> cost"
        using c req args by (auto simp: cost_if_allowed_def take_arguments_ok_def split: sum.splits)
      then show ?thesis
        using bucket_inv_weaken [OF up', of "slack + e" "granted + c" ?t] row' bound' by auto
    next
      case False
      then have "c = 0" "?t ?key = t ?key"
        using c upsert_other [OF up] by auto
      then show ?thesis
        using bucket_inv_weaken [OF inv, of "slack + e" granted ?t] row bound round(2) by (auto simp: row_of_def)
    qed
  qed
qed

lemma run_bound:
  assumes l: "limits b = Some l" "0 < bl_refillPerSecond l" "bl_capacity l \<le> bl_refillPerSecond l * 3600"
    and hash: "\<And>x y. length (sha256 x) = length (sha256 y)"
    and round: "\<And>x. 0 \<le> x \<Longrightarrow> x \<le> bl_capacity l \<Longrightarrow> 0 \<le> real4 x \<and> real4 x \<le> x + e" "0 \<le> e"
    and inv: "bucket_inv (bl_capacity l) (bl_refillPerSecond l) (storageKey sha256 b k) t0 purged slack granted t"
    and row: "row_of t (storageKey sha256 b k) t1"
    and bound: "granted \<le> bl_capacity l + bl_refillPerSecond l * (t1 - t0) + slack"
    and ok: "readings_ok purged t1 events"
  shows "granted + granted_to b k (rate_run (db_limiter real4 sha256 limits) events t)
    \<le> bl_capacity l + bl_refillPerSecond l * (t1 - t0) + slack + e * of_nat (length events)"
  using inv row bound ok
proof (induction events arbitrary: t granted slack purged)
  case (Cons event events)
  show ?case
  proof (cases event)
    case (PurgeIdle now up)
    let ?t = "rd_buckets (bindRateLimitStore_purgeIdle \<lparr>rd_buckets = t, rd_clock = now, rd_up = up\<rparr>)"
    have "bucket_inv (bl_capacity l) (bl_refillPerSecond l) (storageKey sha256 b k) t0 (max purged now) slack granted ?t"
      using purge_inv [OF Cons.prems(1) l(3)] l(2) Cons.prems(1) by (auto simp: bindRateLimitStore_purgeIdle_def bucket_inv_def)
    moreover have "row_of ?t (storageKey sha256 b k) t1"
      using Cons.prems(2) by (auto simp: row_of_def bindRateLimitStore_purgeIdle_def sys_rate_limit_purge_def split: option.splits if_splits)
    ultimately show ?thesis
      using Cons.IH [of "max purged now" slack granted ?t] Cons.prems PurgeIdle round(2) by (simp add: algebra_simps)
  next
    case (Consume request now up)
    obtain result db where run: "db_limiter real4 sha256 limits request \<lparr>rd_buckets = t, rd_clock = now, rd_up = up\<rparr> = (result, db)"
      by fastforce
    let ?c = "if rq_bucket request = b \<and> rq_key request = k then cost_if_allowed result request else 0"
    let ?key = "storageKey sha256 b k" and ?t = "rd_buckets db"
    have now: "purged \<le> now" "now \<le> t1" using Cons.prems(4) Consume by auto
    note step = limiter_step [where c = ?c, OF l(1,2) hash round Cons.prems(1,2,3) now run refl]
    then show ?thesis
      using Cons.IH [of purged "slack + e" "granted + ?c" ?t] Cons.prems(4) Consume by (simp add: run algebra_simps)
  qed
qed simp
section \<open>A purge changes no decision\<close>

text \<open>The table of a database that was purged at \<open>p\<close> beside that of one that was not.\<close>

definition purged_like :: "rat \<Rightarrow> buckets \<Rightarrow> buckets \<Rightarrow> bool" where
  "purged_like p t t' \<longleftrightarrow>
     (\<forall>key. t' key = t key \<or> (t' key = None \<and> (\<exists>row. t key = Some row \<and> 0 \<le> br_tokens row \<and> idle p row)))"

fun readings_from :: "rat \<Rightarrow> rate_event list \<Rightarrow> bool" where
  "readings_from p [] \<longleftrightarrow> True"
| "readings_from p (Consume request now up # events) \<longleftrightarrow> p \<le> now \<and> readings_from p events"
| "readings_from p (PurgeIdle now up # events) \<longleftrightarrow> readings_from p events"

lemma idle_full:
  assumes "t key = Some row" "0 \<le> br_tokens row" "idle p row" "p \<le> now" "0 < refill" "capacity \<le> refill * 3600"
  shows "refilled capacity refill now row = capacity"
    "br_updated_at row < now"
proof -
  have d: "3600 \<le> now - br_updated_at row" "br_updated_at row < now" using assms by (auto simp: idle_def)
  then have "refill * 3600 \<le> refill * (now - br_updated_at row)" using assms(5) by (intro mult_left_mono) auto
  with d show "refilled capacity refill now row = capacity" using assms(2,6) by (simp add: refilled_def)
  show "br_updated_at row < now" by (rule d)
qed

lemma purged_like_take:
  assumes "purged_like p t t'" "p \<le> now" "capacity \<le> refill * 3600"
  shows "fst (sys_rate_limit_take real4 now key capacity refill cost t') = fst (sys_rate_limit_take real4 now key capacity refill cost t) \<and>
     purged_like p (snd (sys_rate_limit_take real4 now key capacity refill cost t)) (snd (sys_rate_limit_take real4 now key capacity refill cost t'))"
proof (cases "take_arguments_ok capacity refill cost")
  case True
  then have args: "0 < refill" by (simp add: take_arguments_ok_def)
  consider "t' key = t key" | row where "t' key = None" "t key = Some row" "0 \<le> br_tokens row" "idle p row"
    using assms(1) by (auto simp: purged_like_def)
  then show ?thesis
  proof cases
    case 1
    then show ?thesis
      using assms(1) by (auto simp: sys_rate_limit_take_def take_upsert_def take_available_def purged_like_def Let_def split: option.splits)
  next
    case 2
    note full = idle_full [of t key, OF 2(2,3,4) assms(2) args assms(3)]
    have av: "br_tokens row + refill * max 0 (now - br_updated_at row) \<ge> capacity"
      using full(1) by (simp add: refilled_def)
    show ?thesis
      using 2(1,2) full assms(1) av by (auto simp: sys_rate_limit_take_def take_upsert_def take_available_def purged_like_def Let_def)
  qed
qed (use assms(1) in \<open>simp add: sys_rate_limit_take_def\<close>)

lemma purged_like_purge: "purged_like p t t' \<Longrightarrow> purged_like p (sys_rate_limit_purge now t) (sys_rate_limit_purge now t')"
  unfolding purged_like_def
proof (rule allI)
  fix key
  assume "\<forall>key. t' key = t key \<or> t' key = None \<and> (\<exists>row. t key = Some row \<and> 0 \<le> br_tokens row \<and> idle p row)"
  then have "t' key = t key \<or> t' key = None \<and> (\<exists>row. t key = Some row \<and> 0 \<le> br_tokens row \<and> idle p row)" ..
  then show "sys_rate_limit_purge now t' key = sys_rate_limit_purge now t key \<or>
      sys_rate_limit_purge now t' key = None \<and> (\<exists>row. sys_rate_limit_purge now t key = Some row \<and> 0 \<le> br_tokens row \<and> idle p row)"
    by (auto simp: sys_rate_limit_purge_def)
qed

lemma purged_like_limiter:
  assumes "purged_like p t t'" "p \<le> now" and win: "\<And>b l. limits b = Some l \<Longrightarrow> bl_capacity l \<le> bl_refillPerSecond l * 3600"
  shows "fst (db_limiter real4 sha256 limits request \<lparr>rd_buckets = t', rd_clock = now, rd_up = up\<rparr>) =
           fst (db_limiter real4 sha256 limits request \<lparr>rd_buckets = t, rd_clock = now, rd_up = up\<rparr>) \<and>
     purged_like p (rd_buckets (snd (db_limiter real4 sha256 limits request \<lparr>rd_buckets = t, rd_clock = now, rd_up = up\<rparr>)))
       (rd_buckets (snd (db_limiter real4 sha256 limits request \<lparr>rd_buckets = t', rd_clock = now, rd_up = up\<rparr>)))"
proof (cases "limits (rq_bucket request)")
  case (Some l)
  show ?thesis
    using purged_like_take [OF assms(1,2) win [OF Some], of real4 "storageKey sha256 (rq_bucket request) (rq_key request)"] assms(1)
    by (auto simp: db_limiter_def createRateLimiter_def bindRateLimitStore_take_def Some prod_eq_iff
        split: js_num.splits sum.splits prod.splits)
qed (use assms(1) in \<open>auto simp: db_limiter_def createRateLimiter_def split: js_num.splits\<close>)

lemma purged_like_run:
  assumes "purged_like p t t'" "readings_from p events" and win: "\<And>b l. limits b = Some l \<Longrightarrow> bl_capacity l \<le> bl_refillPerSecond l * 3600"
  shows "rate_run (db_limiter real4 sha256 limits) events t' = rate_run (db_limiter real4 sha256 limits) events t"
  using assms(1,2)
proof (induction events arbitrary: t t')
  case (Cons event events)
  show ?case
  proof (cases event)
    case (Consume request now up)
    then show ?thesis
      using purged_like_limiter [of p t t' now limits real4 sha256 request up, OF Cons.prems(1) _ win] Cons.IH Cons.prems(2)
      by (auto simp: case_prod_beta)
  next
    case (PurgeIdle now up)
    then show ?thesis
      using purged_like_purge [OF Cons.prems(1), of now] Cons.IH Cons.prems by (auto simp: bindRateLimitStore_purgeIdle_def)
  qed
qed simp

end
