(* ===== verification/RateRegistry.thy ===== *)
theory RateRegistry
  imports RateLimit Address
begin

text \<open>
  The registry of the rate-limit buckets (\<open>packages/server/src/config/rate-limits.ts\<close>), and the address of a client and the key it
  is counted under (\<open>packages/server/src/http/trusted-proxy.ts\<close>); \<open>isIP\<close> of \<open>node:net\<close> is a parameter.
\<close>

section \<open>The registry\<close>

datatype rate_scope = RateIp | RateAccount | RateWorkspace | RateEmail

definition RATE_LIMIT_SCOPES :: "rate_scope list" where
  "RATE_LIMIT_SCOPES = [RateIp, RateAccount, RateWorkspace, RateEmail]"

fun scope_text :: "rate_scope \<Rightarrow> string" where
  "scope_text RateIp = ''ip''"
| "scope_text RateAccount = ''account''"
| "scope_text RateWorkspace = ''workspace''"
| "scope_text RateEmail = ''email''"

record rate_limit_spec =
  rl_count :: nat
  rl_windowSeconds :: nat

definition PERIOD_SECONDS :: "string \<Rightarrow> nat option" where
  "PERIOD_SECONDS unit =
     (if unit = ''sec'' then Some 1 else if unit = ''min'' then Some 60 else if unit = ''hour'' then Some 3600 else None)"

text \<open>\<open>/^(\d{1,7})\/(sec|min|hour)$/\<close>, whose first group ends at the first character that is no digit.\<close>

definition parseSpec :: "string \<Rightarrow> rate_limit_spec option" where
  "parseSpec text =
     (let digits = takeWhile js_digit text; rest = dropWhile js_digit text
      in if length digits < 1 \<or> length digits > 7 \<or> \<not> prefix ''/'' rest then None
         else case PERIOD_SECONDS (tl rest) of
           None \<Rightarrow> None
         | Some seconds \<Rightarrow>
             (let count = js_parse_digits 10 digits
              in if 1 \<le> count then Some \<lparr>rl_count = count, rl_windowSeconds = seconds\<rparr> else None))"

definition RATE_LIMIT_DEFAULTS :: "(string \<times> (rate_scope \<times> string) list) list" where
  "RATE_LIMIT_DEFAULTS =
     [(''login'', [(RateIp, ''10/min''), (RateEmail, ''20/hour'')]),
      (''mfa'', [(RateIp, ''10/min''), (RateAccount, ''30/hour'')]),
      (''register'', [(RateIp, ''5/hour'')]),
      (''reset'', [(RateIp, ''5/hour''), (RateEmail, ''3/hour'')]),
      (''token_redeem'', [(RateIp, ''10/hour''), (RateAccount, ''10/hour'')]),
      (''token_create'', [(RateIp, ''20/hour''), (RateAccount, ''20/hour'')]),
      (''setup'', [(RateIp, ''10/hour'')]),
      (''go'', [(RateIp, ''600/min''), (RateAccount, ''300/min'')]),
      (''read'', [(RateIp, ''1200/min''), (RateAccount, ''1200/min'')]),
      (''write'', [(RateIp, ''300/min''), (RateAccount, ''120/min'')]),
      (''bulk'', [(RateIp, ''20/hour''), (RateAccount, ''20/hour'')]),
      (''fetch'', [(RateIp, ''120/min''), (RateAccount, ''60/min'')]),
      (''ai'', [(RateIp, ''60/hour''), (RateAccount, ''60/hour''), (RateWorkspace, ''600/hour'')]),
      (''public'', [(RateIp, ''300/min'')])]"

text \<open>The value of a key of the environment, an empty one counting as unset; \<open>None\<close> when it is no limit.\<close>

definition limitField :: "string \<Rightarrow> string option \<Rightarrow> rate_limit_spec option" where
  "limitField fallback given =
     (case given of None \<Rightarrow> parseSpec fallback | Some text \<Rightarrow> if text = [] then parseSpec fallback else parseSpec text)"

definition js_upper :: "string \<Rightarrow> string" where
  "js_upper s = map (\<lambda>c. if js_ascii_lower c then char_of (code_unit c - 32) else c) s"

definition rateLimitKey :: "string \<Rightarrow> rate_scope \<Rightarrow> string" where
  "rateLimitKey bucket scope = ''RATE_LIMIT_'' @ js_upper bucket @ ''_'' @ js_upper (scope_text scope)"

definition limitName :: "string \<Rightarrow> rate_scope \<Rightarrow> string" where
  "limitName bucket scope = (if scope = RateIp then bucket else bucket @ '':'' @ scope_text scope)"

text \<open>The configuration of a process: every key of the registry, or \<open>None\<close> when a value is no limit.\<close>

definition SHAPE :: "(string \<times> string) list" where
  "SHAPE = concat (map (\<lambda>(bucket, scopes). map (\<lambda>(scope, fallback). (rateLimitKey bucket scope, fallback)) scopes) RATE_LIMIT_DEFAULTS)"

definition rateLimitFragment :: "(string \<Rightarrow> string option) \<Rightarrow> (string \<times> rate_limit_spec) list option" where
  "rateLimitFragment env =
     those (map (\<lambda>(key, fallback). map_option (Pair key) (limitField fallback (env key))) SHAPE)"

record scope_limit =
  sl_scope :: rate_scope
  sl_name :: string
  sl_spec :: rate_limit_spec

record rate_limit_registry =
  rr_byBucket :: "(string \<times> scope_limit list) list"
  rr_byName :: "(string \<times> rate_limit_spec) list"

definition limits_of_bucket :: "(string \<Rightarrow> rate_limit_spec) \<Rightarrow> string \<Rightarrow> (rate_scope \<times> string) list \<Rightarrow> scope_limit list" where
  "limits_of_bucket config bucket declared =
     map (\<lambda>scope. \<lparr>sl_scope = scope, sl_name = limitName bucket scope, sl_spec = config (rateLimitKey bucket scope)\<rparr>)
       (filter (\<lambda>scope. scope \<in> set (map fst declared)) RATE_LIMIT_SCOPES)"

definition createRateLimitRegistry :: "(string \<Rightarrow> rate_limit_spec) \<Rightarrow> rate_limit_registry" where
  "createRateLimitRegistry config =
     (let buckets = map (\<lambda>(bucket, declared). (bucket, limits_of_bucket config bucket declared)) RATE_LIMIT_DEFAULTS
      in \<lparr>rr_byBucket = buckets, rr_byName = concat (map (\<lambda>(_, limits). map (\<lambda>l. (sl_name l, sl_spec l)) limits) buckets)\<rparr>)"

definition scopesOf :: "rate_limit_registry \<Rightarrow> string \<Rightarrow> scope_limit list option" where
  "scopesOf registry bucket = map_of (rev (rr_byBucket registry)) bucket"

definition rate_window :: "rate_limit_registry \<Rightarrow> string \<Rightarrow> bucket_limit option" where
  "rate_window registry name =
     map_option (\<lambda>spec. \<lparr>bl_capacity = of_nat (rl_count spec), bl_refillPerSecond = of_nat (rl_count spec) / of_nat (rl_windowSeconds spec)\<rparr>)
       (map_of (rev (rr_byName registry)) name)"

section \<open>The key of an address (trusted-proxy.ts)\<close>

definition clientIpOf :: "(string \<Rightarrow> nat) \<Rightarrow> string option \<Rightarrow> string option \<Rightarrow> nat \<Rightarrow> string option" where
  "clientIpOf isIP socketAddress forwardedFor trustedHops =
     (case forwardedFor of
        None \<Rightarrow> socketAddress
      | Some header \<Rightarrow>
          if trustedHops = 0 then socketAddress
          else (let entries = js_split '','' header
                in if length entries < trustedHops then socketAddress
                   else let entry = js_trim (entries ! (length entries - trustedHops))
                        in if isIP entry \<noteq> 0 then Some entry else socketAddress))"

definition IPV6_GROUPS :: nat where
  "IPV6_GROUPS = 8"

definition IPV4_MAPPED_GROUP :: nat where
  "IPV4_MAPPED_GROUP = 0xffff"

text \<open>
  \<open>Number(octet)\<close> and \<open>Number.parseInt(group, 16)\<close> for the texts the function meets, which \<open>isIP\<close> accepted: digits of the radix
  (what is no number is 0 under the shift of the code).
\<close>

definition octet_number :: "string \<Rightarrow> nat" where
  "octet_number s = (if s \<noteq> [] \<and> list_all js_digit s then js_parse_digits 10 s else 0)"

definition parseInt16 :: "string \<Rightarrow> nat option" where
  "parseInt16 s = (let digits = takeWhile js_hex_digit s in if digits = [] then None else Some (js_parse_digits 16 digits))"

definition or_zero :: "nat list \<Rightarrow> nat \<Rightarrow> nat" where
  "or_zero ns i = (if i < length ns then ns ! i else 0)"

text \<open>The text with its dotted tail written as two groups: \<open>head @ tail\<close> where the tail follows the last colon.\<close>

definition after_last_colon :: "string \<Rightarrow> string" where
  "after_last_colon text = rev (takeWhile (\<lambda>c. c \<noteq> CHR '':'') (rev text))"

definition undotted :: "string \<Rightarrow> string" where
  "undotted text =
     (if CHR ''.'' \<in> set text then
        (let tail = after_last_colon text; octets = map octet_number (js_split ''.'' tail)
         in take (length text - length tail) text @ js_to_string 16 (pair16 (or_zero octets 0) (or_zero octets 1)) @ '':'' @
              js_to_string 16 (pair16 (or_zero octets 2) (or_zero octets 3)))
      else text)"

definition half_groups :: "string \<Rightarrow> string list" where
  "half_groups s = (if s = [] then [] else js_split '':'' s)"

definition ipv6GroupsOf :: "string \<Rightarrow> nat list option" where
  "ipv6GroupsOf address =
     (let text = undotted (takeWhile (\<lambda>c. c \<noteq> CHR ''%'') address);
          halves = js_split ''::'' text;
          head = half_groups (halves ! 0);
          tail = (if length halves < 2 then [] else half_groups (halves ! 1))
      in if length halves > 2 \<or>
            (if length halves = 1 then length head \<noteq> IPV6_GROUPS else length head + length tail \<ge> IPV6_GROUPS) then None
         else let zeros = replicate (IPV6_GROUPS - length head - length tail) ''0'';
                  ws = map parseInt16 (head @ (if length halves = 2 then zeros else []) @ tail)
              in if length ws = IPV6_GROUPS then those ws else None)"

definition rateLimitKeyOf :: "(string \<Rightarrow> nat) \<Rightarrow> string \<Rightarrow> string" where
  "rateLimitKeyOf isIP address =
     (if isIP address \<noteq> 6 then address
      else case ipv6GroupsOf address of
        None \<Rightarrow> address
      | Some ws \<Rightarrow>
          if list_all (\<lambda>g. g = 0) (take 5 ws) \<and> ws ! 5 = IPV4_MAPPED_GROUP then
            (let high = or_zero ws 6; low = or_zero ws 7
             in js_join ''.'' (map (js_to_string 10) [high div 256, high mod 256, low div 256, low mod 256]))
          else js_join '':'' (map (js_to_string 16) (take 4 ws)) @ ''::/64'')"

definition network_prefix_v4 :: "string \<Rightarrow> string" where
  "network_prefix_v4 address = js_join ''.'' (take 2 (js_split ''.'' address)) @ ''.0.0/16''"

definition networkPrefixOf :: "(string \<Rightarrow> nat) \<Rightarrow> string option \<Rightarrow> string option" where
  "networkPrefixOf isIP address =
     (case address of
        None \<Rightarrow> None
      | Some a \<Rightarrow>
          if isIP a = 4 then Some (network_prefix_v4 a)
          else if isIP a \<noteq> 6 then None
          else let mapped = rateLimitKeyOf isIP a
               in if isIP mapped = 4 then Some (network_prefix_v4 mapped)
                  else map_option (\<lambda>ws. js_join '':'' (map (js_to_string 16) (take 3 ws)) @ ''::/48'') (ipv6GroupsOf a))"

end
