(* ===== verification/HttpProblem.thy ===== *)
theory HttpProblem
  imports Tables Url Complex_Main
begin

text \<open>
  Problems and responses: the catalog (\<open>packages/contracts/src/problem.ts\<close>), how an error becomes a problem document, and the
  checks a response passes before it is sent (\<open>packages/server/src/http/problem.ts\<close>). A schema is a function of the Zod
  library: it answers the parsed value or its issues. A JSON text is held as the value it is the text of.
\<close>

section \<open>Values and schemas\<close>

text \<open>
  A string value is the list of its code points. Member names differ from those every object inherits; the members of an object
  come in order, each name once.
\<close>

datatype js_value =
    JUndefined | JNull | JBool bool | JNum rat | JStr "nat list" | JArr "js_value list" | JObj "(string \<times> js_value) list"

datatype zod_issue =
  ZodIssue (issue_code: string) (issue_path: "string list") (issue_keys: "string list") (issue_errors: "zod_issue list list")

type_synonym schema = "js_value \<Rightarrow> zod_issue list + js_value"

definition js_text :: "string \<Rightarrow> js_value" where
  "js_text s = JStr (map code_unit s)"

fun member :: "string \<Rightarrow> js_value \<Rightarrow> js_value option" where
  "member name (JObj members) = map_of members name"
| "member name _ = None"

text \<open>A member that is written again keeps its place.\<close>

fun set_member :: "string \<Rightarrow> 'a \<Rightarrow> (string \<times> 'a) list \<Rightarrow> (string \<times> 'a) list" where
  "set_member name v [] = [(name, v)]"
| "set_member name v ((n, u) # members) = (if n = name then (n, v) # members else (n, u) # set_member name v members)"

section \<open>The catalog\<close>

definition PROBLEM_CATALOG :: "(nat \<times> string) list" where
  "PROBLEM_CATALOG =
     [(400, ''bad_request''), (401, ''unauthenticated''), (401, ''mfa_required''), (401, ''reauth_required''),
      (403, ''forbidden''), (403, ''registration_refused''), (403, ''cross_site_request''), (403, ''token_scope''),
      (403, ''account_export_only''), (403, ''entitlement_required''), (403, ''email_unverified''), (403, ''registration_closed''),
      (403, ''setup_completed''), (404, ''not_found''), (404, ''slug_not_found''), (409, ''slug_taken''), (409, ''name_taken''),
      (409, ''email_taken''), (409, ''already_member''), (409, ''last_owner''), (409, ''workspace_has_owner''),
      (409, ''idempotency_conflict''), (409, ''billing_active''), (410, ''token_expired''), (412, ''precondition_failed''),
      (413, ''payload_too_large''), (415, ''unsupported_media_type''), (422, ''validation_failed''),
      (422, ''bookmark_limit_reached''), (422, ''seat_limit_reached''), (422, ''workspace_limit_reached''), (422, ''weak_password''),
      (422, ''invalid_code''), (422, ''url_not_allowed''), (429, ''rate_limited''), (500, ''internal''), (502, ''upstream_failed''),
      (503, ''unavailable''), (503, ''mail_unavailable''), (503, ''ai_unavailable''), (503, ''billing_unavailable'')]"

text \<open>The status of a code; \<open>None\<close> for a code outside the catalog, where the code throws.\<close>

definition problemStatus :: "string \<Rightarrow> nat option" where
  "problemStatus code = map_of (rev (map (\<lambda>(status, c). (c, status)) PROBLEM_CATALOG)) code"

definition PROBLEM_TYPE_BASE :: string where
  "PROBLEM_TYPE_BASE = ''https://slugbase.app/problems/''"

definition PROBLEM_CONTENT_TYPE :: string where
  "PROBLEM_CONTENT_TYPE = ''application/problem+json''"

definition REQUEST_ID_HEADER :: string where
  "REQUEST_ID_HEADER = ''x-request-id''"

definition PROBLEM_TITLES :: "(string \<times> string) list" where
  "PROBLEM_TITLES =
     [(''bad_request'', ''Bad request''), (''unauthenticated'', ''Authentication required''),
      (''mfa_required'', ''Second factor required''), (''reauth_required'', ''Re-authentication required''),
      (''forbidden'', ''Forbidden''), (''registration_refused'', ''Registration refused''),
      (''cross_site_request'', ''Cross-site request refused''), (''token_scope'', ''Token scope insufficient''),
      (''account_export_only'', ''Account is export-only''), (''entitlement_required'', ''Plan does not include this feature''),
      (''email_unverified'', ''Email address not verified''), (''registration_closed'', ''Registration closed''),
      (''setup_completed'', ''Setup already completed''), (''not_found'', ''Not found''), (''slug_not_found'', ''Slug not found''),
      (''slug_taken'', ''Slug already in use''), (''name_taken'', ''Name already in use''),
      (''email_taken'', ''Email address already in use''), (''already_member'', ''Already a member''),
      (''last_owner'', ''Last owner''), (''workspace_has_owner'', ''Workspace has an owner''),
      (''idempotency_conflict'', ''Idempotency key conflict''), (''billing_active'', ''Billing is active''),
      (''token_expired'', ''Token unknown or expired''), (''precondition_failed'', ''Precondition failed''),
      (''payload_too_large'', ''Payload too large''), (''unsupported_media_type'', ''Unsupported media type''),
      (''validation_failed'', ''Validation failed''), (''bookmark_limit_reached'', ''Bookmark limit reached''),
      (''seat_limit_reached'', ''Seat limit reached''), (''workspace_limit_reached'', ''Workspace limit reached''),
      (''weak_password'', ''Password too weak''), (''invalid_code'', ''Invalid code''), (''url_not_allowed'', ''URL not allowed''),
      (''rate_limited'', ''Too many requests''), (''internal'', ''Internal error''), (''upstream_failed'', ''Upstream service failed''),
      (''unavailable'', ''Service unavailable''), (''mail_unavailable'', ''Email delivery unavailable''),
      (''ai_unavailable'', ''AI suggestions unavailable''), (''billing_unavailable'', ''Billing unavailable'')]"

definition MAPPED_DETAILS :: "string \<Rightarrow> string" where
  "MAPPED_DETAILS code =
     (case map_of [(''not_found'', ''No such resource.''), (''internal'', ''The request could not be completed.''),
         (''validation_failed'', ''The request did not pass validation.''), (''unavailable'', ''The service is temporarily unavailable.''),
         (''mail_unavailable'', ''Email delivery is not available on this instance.''),
         (''ai_unavailable'', ''AI suggestions are not available on this instance.''),
         (''billing_unavailable'', ''Billing is not available on this instance.'')] code of
        None \<Rightarrow> [] | Some detail \<Rightarrow> detail)"

section \<open>Errors\<close>

record field_error =
  fe_path :: string
  fe_code :: string

text \<open>
  What a stage or a handler throws: a problem written for the caller, a failed parse, a port that is not configured, a response
  that differs from its declaration, or anything else.
\<close>

datatype http_error =
    ProblemError (pe_code: string) (pe_detail: string) (pe_errors: "field_error list option") (pe_members: "(string \<times> js_value) list")
  | ZodError "zod_issue list"
  | PortUnavailable string
  | ResponseMismatchError "field_error list"
  | UnexpectedError js_error

abbreviation problem_error :: "string \<Rightarrow> string \<Rightarrow> http_error" where
  "problem_error code detail \<equiv> ProblemError code detail None []"

record mapped_problem =
  mp_code :: string
  mp_detail :: string
  mp_errors :: "field_error list option"
  mp_members :: "(string \<times> js_value) list"

definition mapped :: "string \<Rightarrow> string \<Rightarrow> field_error list option \<Rightarrow> (string \<times> js_value) list \<Rightarrow> mapped_problem" where
  "mapped code detail errors members = \<lparr>mp_code = code, mp_detail = detail, mp_errors = errors, mp_members = members\<rparr>"

definition fieldPath :: "string list \<Rightarrow> string" where
  "fieldPath path = js_join ''.'' path"

definition MAX_FIELD_ERRORS :: nat where
  "MAX_FIELD_ERRORS = 100"

text \<open>The one branch of a failed union the value could have been.\<close>

definition type_mismatch_only :: "zod_issue list \<Rightarrow> bool" where
  "type_mismatch_only branch \<longleftrightarrow> (case branch of [issue] \<Rightarrow> issue_code issue = ''invalid_type'' \<and> issue_path issue = [] | _ \<Rightarrow> False)"

definition matchingBranch :: "zod_issue \<Rightarrow> zod_issue list option" where
  "matchingBranch issue = (case filter (\<lambda>branch. \<not> type_mismatch_only branch) (issue_errors issue) of [branch] \<Rightarrow> Some branch | _ \<Rightarrow> None)"

definition union_branch :: "zod_issue \<Rightarrow> zod_issue list option" where
  "union_branch issue = (if issue_code issue = ''invalid_union'' then matchingBranch issue else None)"

lemma union_branch_smaller: "union_branch issue = Some branch \<Longrightarrow> size_list size branch < size issue"
proof -
  assume "union_branch issue = Some branch"
  then have "branch \<in> set (issue_errors issue)"
    by (auto simp: union_branch_def matchingBranch_def split: if_splits list.splits) (metis filter_eq_ConsD in_set_conv_decomp)
  then show ?thesis
    by (cases issue) (auto dest!: size_list_estimation' [where f = "size_list size" and y = "size_list size branch"])
qed

function fieldEntries :: "zod_issue list \<Rightarrow> string list \<Rightarrow> field_error list" where
  "fieldEntries [] base = []"
| "fieldEntries (issue # issues) base =
     (let path = base @ issue_path issue
      in (case union_branch issue of
            Some branch \<Rightarrow> fieldEntries branch path
          | None \<Rightarrow>
              if issue_code issue = ''unrecognized_keys'' then
                map (\<lambda>key. \<lparr>fe_path = fieldPath (path @ [key]), fe_code = issue_code issue\<rparr>) (issue_keys issue)
              else [\<lparr>fe_path = fieldPath path, fe_code = issue_code issue\<rparr>]) @
         fieldEntries issues base)"
  by pat_completeness auto
termination
  by (relation "measure (\<lambda>(issues, base). size_list size issues)") (auto dest!: union_branch_smaller)

definition fieldErrors :: "zod_issue list \<Rightarrow> field_error list" where
  "fieldErrors issues = take MAX_FIELD_ERRORS (fieldEntries issues [])"

definition mapError :: "http_error \<Rightarrow> mapped_problem" where
  "mapError e =
     (case e of
        ProblemError code detail errors members \<Rightarrow> mapped code detail errors members
      | ZodError issues \<Rightarrow> mapped ''validation_failed'' (MAPPED_DETAILS ''validation_failed'') (Some (fieldErrors issues)) []
      | PortUnavailable code \<Rightarrow> mapped code (MAPPED_DETAILS code) None []
      | _ \<Rightarrow> mapped ''internal'' (MAPPED_DETAILS ''internal'') None [])"

section \<open>Responses\<close>

text \<open>A body is absent (or empty), a JSON text, or bytes that are no JSON text. Header names are in lower case, each once.\<close>

datatype response_body = NoBody | JsonBody js_value | BytesBody string

record http_response =
  rs_status :: nat
  rs_headers :: "(string \<times> string) list"
  rs_body :: response_body

definition response_header :: "string \<Rightarrow> http_response \<Rightarrow> string option" where
  "response_header name response = map_of (rs_headers response) name"

text \<open>\<open>headers.set\<close> for each of the pairs, and \<open>headers.delete\<close>.\<close>

definition set_headers :: "(string \<times> string) list \<Rightarrow> http_response \<Rightarrow> http_response" where
  "set_headers new response =
     response\<lparr>rs_headers := foldl (\<lambda>headers (name, text). set_member name text headers) (rs_headers response) new\<rparr>"

definition delete_headers :: "(string \<Rightarrow> bool) \<Rightarrow> http_response \<Rightarrow> http_response" where
  "delete_headers P response = response\<lparr>rs_headers := filter (\<lambda>(name, text). \<not> P name) (rs_headers response)\<rparr>"

definition error_value :: "field_error \<Rightarrow> js_value" where
  "error_value e = JObj [(''path'', js_text (fe_path e)), (''code'', js_text (fe_code e))]"

definition status_of :: "string \<Rightarrow> nat" where
  "status_of code = (case problemStatus code of None \<Rightarrow> 500 | Some status \<Rightarrow> status)"

definition problem_members :: "string \<Rightarrow> mapped_problem \<Rightarrow> (string \<times> js_value) list" where
  "problem_members requestId p =
     foldl (\<lambda>members (name, v). set_member name v members) (mp_members p)
       ([(''type'', js_text (PROBLEM_TYPE_BASE @ mp_code p)),
         (''title'', case map_of PROBLEM_TITLES (mp_code p) of None \<Rightarrow> JUndefined | Some title \<Rightarrow> js_text title),
         (''status'', JNum (of_nat (status_of (mp_code p)))), (''code'', js_text (mp_code p)), (''detail'', js_text (mp_detail p)),
         (''requestId'', js_text requestId)] @
        (case mp_errors p of None \<Rightarrow> [] | Some errors \<Rightarrow> [(''errors'', JArr (map error_value errors))]))"

definition problemDocument :: "string \<Rightarrow> mapped_problem \<Rightarrow> http_response" where
  "problemDocument requestId p =
     \<lparr>rs_status = status_of (mp_code p),
      rs_headers = [(''content-type'', PROBLEM_CONTENT_TYPE), (REQUEST_ID_HEADER, requestId)],
      rs_body = JsonBody (JObj (problem_members requestId p))\<rparr>"

text \<open>What a stage refuses with, and what a failure answers.\<close>

definition problem_response :: "string \<Rightarrow> string \<Rightarrow> string \<Rightarrow> http_response" where
  "problem_response requestId code detail = problemDocument requestId (mapped code detail None [])"

definition failRequest :: "string \<Rightarrow> http_error \<Rightarrow> http_response" where
  "failRequest requestId e = problemDocument requestId (mapError e)"

section \<open>Checking a response\<close>

datatype response_validation = ThrowMismatch | StripUndeclared

text \<open>The documented headers of a response, with the text of those whose schema is one literal.\<close>

type_synonym declared_headers = "(string \<times> string option) list"

datatype declared_response =
    JsonResponse schema declared_headers
  | EmptyResponse
  | ProblemResponse
  | BinaryResponse string bool declared_headers

definition mismatch :: "string \<Rightarrow> string \<Rightarrow> http_error" where
  "mismatch path code = ResponseMismatchError [\<lparr>fe_path = path, fe_code = code\<rparr>]"

fun sameJson :: "js_value \<Rightarrow> js_value \<Rightarrow> bool" and same_items :: "js_value list \<Rightarrow> js_value list \<Rightarrow> bool"
  and same_members :: "(string \<times> js_value) list \<Rightarrow> (string \<times> js_value) list \<Rightarrow> bool" where
  "sameJson (JArr xs) b = (case b of JArr ys \<Rightarrow> length xs = length ys \<and> same_items xs ys | _ \<Rightarrow> False)"
| "sameJson (JObj ms) b = (case b of JObj ns \<Rightarrow> length ms = length ns \<and> same_members ms ns | _ \<Rightarrow> False)"
| "sameJson a b = (a = b)"
| "same_items (x # xs) (y # ys) = (sameJson x y \<and> same_items xs ys)"
| "same_items _ _ = True"
| "same_members [] ns = True"
| "same_members ((key, x) # ms) ns = (case map_of ns key of None \<Rightarrow> False | Some y \<Rightarrow> sameJson x y \<and> same_members ms ns)"

primrec removeKeys :: "string list \<Rightarrow> string list \<Rightarrow> js_value \<Rightarrow> js_value" where
  "removeKeys keys [] target =
     (case target of JObj members \<Rightarrow> JObj (filter (\<lambda>(name, v). name \<notin> set keys) members) | _ \<Rightarrow> target)"
| "removeKeys keys (segment # path) target =
     (case target of
        JObj members \<Rightarrow> JObj (map (\<lambda>(name, v). (name, if name = segment then removeKeys keys path v else v)) members)
      | JArr items \<Rightarrow> JArr (map (\<lambda>(i, v). if js_to_string 10 i = segment then removeKeys keys path v else v) (enumerate 0 items))
      | _ \<Rightarrow> target)"

definition MAX_STRIP_PASSES :: nat where
  "MAX_STRIP_PASSES = 4"

fun strip_passes :: "nat \<Rightarrow> schema \<Rightarrow> js_value \<Rightarrow> zod_issue list + js_value" where
  "strip_passes 0 schema body = schema body"
| "strip_passes (Suc passes) schema body =
     (case schema body of
        Inr data \<Rightarrow> Inr data
      | Inl issues \<Rightarrow>
          (let unrecognized = filter (\<lambda>issue. issue_code issue = ''unrecognized_keys'') issues
           in if unrecognized = [] then Inl issues
              else strip_passes passes schema (foldl (\<lambda>b issue. removeKeys (issue_keys issue) (issue_path issue) b) body unrecognized)))"

definition stripUndeclared :: "schema \<Rightarrow> js_value \<Rightarrow> zod_issue list + js_value" where
  "stripUndeclared schema body = strip_passes MAX_STRIP_PASSES schema body"

definition issuesOf :: "zod_issue list \<Rightarrow> field_error list" where
  "issuesOf issues = map (\<lambda>issue. \<lparr>fe_path = fieldPath (issue_path issue), fe_code = issue_code issue\<rparr>) issues"

definition parseBody :: "response_body \<Rightarrow> http_error + js_value" where
  "parseBody body = (case body of JsonBody v \<Rightarrow> Inr v | _ \<Rightarrow> Inl (mismatch [] ''invalid_json''))"

text \<open>\<open>ProblemSchema\<close>: the members every problem document has.\<close>

definition is_string :: "js_value option \<Rightarrow> bool" where
  "is_string v \<longleftrightarrow> (case v of Some (JStr _) \<Rightarrow> True | _ \<Rightarrow> False)"

definition ProblemFieldErrorSchema :: "js_value \<Rightarrow> bool" where
  "ProblemFieldErrorSchema v \<longleftrightarrow> is_string (member ''path'' v) \<and> is_string (member ''code'' v)"

definition ProblemSchema :: "js_value \<Rightarrow> bool" where
  "ProblemSchema v \<longleftrightarrow>
     list_all (\<lambda>name. is_string (member name v)) [''type'', ''title'', ''detail'', ''requestId''] \<and>
     (case member ''status'' v of Some (JNum n) \<Rightarrow> n \<in> \<int> \<and> 100 \<le> n \<and> n \<le> 599 | _ \<Rightarrow> False) \<and>
     (case member ''code'' v of Some (JStr code) \<Rightarrow> code \<in> set (map (map code_unit \<circ> snd) PROBLEM_CATALOG) | _ \<Rightarrow> False) \<and>
     (case member ''errors'' v of None \<Rightarrow> True | Some (JArr errors) \<Rightarrow> list_all ProblemFieldErrorSchema errors
        | Some u \<Rightarrow> u = JUndefined)"

text \<open>A code of the catalog read back as a string of the model.\<close>

definition latin1 :: "nat list \<Rightarrow> string" where
  "latin1 points = map char_of points"

definition checkProblem :: "http_response \<Rightarrow> http_error + unit" where
  "checkProblem response =
     (case parseBody (rs_body response) of
        Inl e \<Rightarrow> Inl e
      | Inr v \<Rightarrow>
          if \<not> ProblemSchema v then Inl (mismatch [] ''problem'')
          else case (member ''status'' v, member ''code'' v, member ''type'' v, member ''requestId'' v) of
            (Some (JNum status), Some (JStr code), Some (JStr type), Some (JStr requestId)) \<Rightarrow>
              if status \<noteq> of_nat (rs_status response) \<or> problemStatus (latin1 code) \<noteq> Some (rs_status response) then Inl (mismatch ''status'' ''wrong_status'')
              else if type \<noteq> map code_unit PROBLEM_TYPE_BASE @ code then Inl (mismatch ''type'' ''wrong_type'')
              else if map_option (map code_unit) (response_header REQUEST_ID_HEADER response) \<noteq> Some requestId then Inl (mismatch ''requestId'' ''request_id_mismatch'')
              else Inr ()
          | _ \<Rightarrow> Inl (mismatch [] ''problem''))"

definition content_type :: "http_response \<Rightarrow> string" where
  "content_type response = (case response_header ''content-type'' response of None \<Rightarrow> [] | Some t \<Rightarrow> t)"

definition media_type :: "string \<Rightarrow> string" where
  "media_type contentType = js_lower (js_trim (hd (js_split '';'' contentType)))"

definition checkJson :: "schema \<Rightarrow> response_validation \<Rightarrow> http_response \<Rightarrow> http_error + js_value" where
  "checkJson schema validation response =
     (if \<not> prefix ''application/json'' (js_lower (content_type response)) then Inl (mismatch [] ''wrong_content_type'')
      else case parseBody (rs_body response) of
        Inl e \<Rightarrow> Inl e
      | Inr body \<Rightarrow>
          (case validation of
             ThrowMismatch \<Rightarrow>
               (case schema body of
                  Inl issues \<Rightarrow> Inl (ResponseMismatchError (issuesOf issues))
                | Inr data \<Rightarrow> if sameJson data body then Inr body else Inl (mismatch [] ''undeclared_fields''))
           | StripUndeclared \<Rightarrow>
               (case stripUndeclared schema body of
                  Inl issues \<Rightarrow> Inl (ResponseMismatchError (issuesOf issues))
                | Inr data \<Rightarrow> Inr data)))"

definition isProblemContentType :: "http_response \<Rightarrow> bool" where
  "isProblemContentType response \<longleftrightarrow> prefix PROBLEM_CONTENT_TYPE (js_lower (content_type response))"

text \<open>
  Stage 11 on the responses the route of the request declares (\<open>None\<close> without a route). The header \<open>content-length\<close> is
  deleted when the body changes.
\<close>

definition responseStage ::
    "response_validation \<Rightarrow> (nat \<times> declared_response) list option \<Rightarrow> http_response \<Rightarrow> http_error + http_response" where
  "responseStage validation declared response =
     (if isProblemContentType response then map_sum id (\<lambda>_. response) (checkProblem response)
      else case declared of
        None \<Rightarrow> Inr response
      | Some responses \<Rightarrow>
          (case map_of responses (rs_status response) of
             None \<Rightarrow> Inl (mismatch ''status'' ''undeclared_status'')
           | Some (BinaryResponse mediaType stream _) \<Rightarrow>
               if media_type (content_type response) \<noteq> mediaType then Inl (mismatch [] ''wrong_content_type'')
               else if \<not> stream \<and> rs_body response = NoBody then Inl (mismatch [] ''empty_body'')
               else Inr response
           | Some (JsonResponse schema _) \<Rightarrow>
               (case checkJson schema validation response of
                  Inl e \<Rightarrow> Inl e
                | Inr v \<Rightarrow>
                    Inr (if JsonBody v = rs_body response then response
                         else delete_headers (\<lambda>name. name = ''content-length'') (response\<lparr>rs_body := JsonBody v\<rparr>)))
           | Some EmptyResponse \<Rightarrow> if rs_body response \<noteq> NoBody then Inl (mismatch [] ''unexpected_body'') else Inr response
           | Some ProblemResponse \<Rightarrow> Inl (mismatch [] ''wrong_content_type'')))"

end
