(* ===== verification/HttpContext.thy ===== *)
theory HttpContext
  imports RateRegistry HttpProblem
begin

text \<open>
  What the stages of the request chain share (\<open>packages/server/src/http/chain.ts\<close>): the operation of a request with the policy
  its contract declares (\<open>packages/contracts/src/operations/define.ts\<close>), the principal, the request context and the route table.
\<close>

section \<open>Operations\<close>

datatype auth_policy =
    AuthAnonymous | AuthPartial | AuthAccount | AuthMember | AuthAdmin | AuthOwner
  | AuthInstanceAdmin | AuthInstanceAdminWithoutSecondFactor | AuthMachine

datatype token_scope = ScopeRead | ScopeWrite
datatype audience = AudienceMachine | AudienceMarketingForm

record operation_definition =
  op_method :: string
  op_path :: string
  op_operationId :: string
  op_auth :: auth_policy
  op_rate :: string
  op_scope :: "token_scope option"
  op_entitlement :: "string option"
  op_reauth :: bool
  op_audience :: "audience option"
  op_idempotency :: bool
  op_params :: "schema option"
  op_query :: "schema option"
  op_body :: "schema option"
  op_maxBodyBytes :: "nat option"
  op_rateTakenByHandler :: bool
  op_responses :: "(nat \<times> declared_response) list"

section \<open>Principals\<close>

record session_principal =
  se_accountId :: string
  se_activeWorkspaceId :: "string option"
  se_sessionId :: string
  se_instanceAdmin :: bool
  se_mfaPending :: bool
  se_reauthAt :: "int option"

datatype api_token_access = TokenRead | TokenReadWrite

record api_token_principal =
  at_accountId :: string
  at_workspaceId :: string
  at_tokenId :: string
  at_scope :: api_token_access

datatype principal = Session session_principal | ApiToken api_token_principal

fun principal_accountId :: "principal \<Rightarrow> string" where
  "principal_accountId (Session s) = se_accountId s"
| "principal_accountId (ApiToken t) = at_accountId t"

section \<open>The context of a request\<close>

text \<open>
  The header names are in lower case, each once, as \<open>Headers\<close> gives them; the path and the query pairs are the URL parser's;
  the body comes in pieces.
\<close>

record http_request =
  hr_method :: string
  hr_path :: string
  hr_query :: "(string \<times> nat list) list"
  hr_headers :: "(string \<times> string) list"
  hr_body :: "string list option"
  hr_socket :: "string option"

record matched_route =
  mr_operation :: operation_definition
  mr_params :: "(string \<times> nat list) list"
  mr_acceptsMultipart :: bool
  mr_marketingOrigin :: "string option"

record taken_limit =
  tl_name :: string
  tl_window :: bucket_limit
  tl_limit :: rat
  tl_remaining :: int

record rate_limit_state =
  rs_taken :: "taken_limit list"
  rs_retryAfterSeconds :: "int option"

datatype handler_limits = NoHandlerLimits | EmailAndAccountLimits | BucketLimits

record request_tenant =
  rt_accountId :: string
  rt_workspaceId :: string
  rt_memberId :: string
  rt_role :: member_role

record validated_input =
  vi_params :: "js_value option"
  vi_query :: "js_value option"
  vi_body :: "js_value option"

text \<open>\<open>cx_freshId\<close> is the UUID the request is given when its caller sends no safe request ID.\<close>

record chain_context =
  cx_freshId :: string
  cx_requestId :: "string option"
  cx_request :: http_request
  cx_route :: "matched_route option"
  cx_clientIp :: "string option"
  cx_principal :: "principal option"
  cx_rateLimit :: "rate_limit_state option"
  cx_handlerLimits :: handler_limits
  cx_tenant :: "request_tenant option"
  cx_input :: "validated_input option"

definition requestIdOf :: "chain_context \<Rightarrow> string" where
  "requestIdOf cx = (case cx_requestId cx of None \<Rightarrow> cx_freshId cx | Some requestId \<Rightarrow> requestId)"

definition header :: "string \<Rightarrow> http_request \<Rightarrow> string option" where
  "header name request = map_of (hr_headers request) name"

definition operation_of :: "chain_context \<Rightarrow> operation_definition option" where
  "operation_of cx = map_option mr_operation (cx_route cx)"

text \<open>
  A request stage either calls \<open>next\<close> or answers, or throws; the context it changes outlives a throw. \<open>'w\<close> is the world the
  dependencies of the chain act on: the database, the limiter, the session store.
\<close>

datatype stage_result = CallNext | Answer http_response

type_synonym 'w stage = "chain_context \<Rightarrow> 'w \<Rightarrow> (http_error + stage_result) \<times> chain_context \<times> 'w"

fun run_stages :: "'w stage list \<Rightarrow> 'w stage" where
  "run_stages [] cx w = (Inr CallNext, cx, w)"
| "run_stages (stage # stages) cx w =
     (case stage cx w of
        (Inr CallNext, cx', w') \<Rightarrow> run_stages stages cx' w'
      | stopped \<Rightarrow> stopped)"

section \<open>Matching a route\<close>

record route_binding =
  rb_operation :: operation_definition
  rb_acceptsMultipart :: bool
  rb_marketingOrigin :: "string option"

record compiled_route =
  cr_method :: string
  cr_segments :: "string list"
  cr_parameters :: nat
  cr_rest :: bool
  cr_binding :: route_binding

definition segmentsOf :: "string \<Rightarrow> string list" where
  "segmentsOf path = drop 1 (js_split ''/'' path)"

definition name_start :: "char \<Rightarrow> bool" where
  "name_start c \<longleftrightarrow> js_ascii_lower c \<or> js_ascii_upper c \<or> c = CHR ''_''"

text \<open>The name of a segment \<open>{name}\<close>: the pattern \<open>/^\{([A-Za-z_][A-Za-z0-9_]*)\}$/\<close>.\<close>

definition parameter_of :: "string \<Rightarrow> string option" where
  "parameter_of segment =
     (if length segment \<ge> 3 \<and> hd segment = CHR ''{'' \<and> last segment = CHR ''}'' then
        (let name = butlast (tl segment)
         in if name_start (hd name) \<and> list_all (\<lambda>c. name_start c \<or> js_digit c) name then Some name else None)
      else None)"

definition compile_route :: "route_binding \<Rightarrow> compiled_route" where
  "compile_route binding =
     (let template = segmentsOf (op_path (rb_operation binding));
          rest = (template \<noteq> [] \<and> last template = ''*'');
          segments = (if rest then butlast template else template)
      in \<lparr>cr_method = js_upper (op_method (rb_operation binding)), cr_segments = segments,
          cr_parameters = length (filter (\<lambda>s. parameter_of s \<noteq> None) segments), cr_rest = rest, cr_binding = binding\<rparr>)"

definition compare_routes :: "compiled_route \<Rightarrow> compiled_route \<Rightarrow> int" where
  "compare_routes a b =
     (if cr_rest a \<noteq> cr_rest b then of_bool (cr_rest a) - of_bool (cr_rest b) else int (cr_parameters a) - int (cr_parameters b))"

definition RouteTable :: "route_binding list \<Rightarrow> compiled_route list" where
  "RouteTable bindings = js_sort compare_routes (map compile_route bindings)"

text \<open>A decoded segment is the list of its code points.\<close>

fun match_segments_from :: "string list \<Rightarrow> string list \<Rightarrow> (string \<times> nat list) list \<Rightarrow> (string \<times> nat list) list option" where
  "match_segments_from [] requested params = Some params"
| "match_segments_from (expected # template) [] params = None"
| "match_segments_from (expected # template) (raw # requested) params =
     (if raw = [] then None
      else case decodeURIComponent raw of
        None \<Rightarrow> None
      | Some text \<Rightarrow>
          (case parameter_of expected of
             None \<Rightarrow> if text \<noteq> map code_unit expected then None else match_segments_from template requested params
           | Some name \<Rightarrow> match_segments_from template requested (set_member name text params)))"

definition matchSegments :: "string list \<Rightarrow> string list \<Rightarrow> (string \<times> nat list) list option" where
  "matchSegments template requested = match_segments_from template requested []"

fun match_routes :: "compiled_route list \<Rightarrow> string \<Rightarrow> string list \<Rightarrow> matched_route option" where
  "match_routes [] upper requested = None"
| "match_routes (route # routes) upper requested =
     (if cr_method route \<noteq> upper \<or>
         (if cr_rest route then length requested \<le> length (cr_segments route) else length requested \<noteq> length (cr_segments route))
      then match_routes routes upper requested
      else case matchSegments (cr_segments route) requested of
        None \<Rightarrow> match_routes routes upper requested
      | Some params \<Rightarrow>
          Some \<lparr>mr_operation = rb_operation (cr_binding route), mr_params = params,
                mr_acceptsMultipart = rb_acceptsMultipart (cr_binding route),
                mr_marketingOrigin = rb_marketingOrigin (cr_binding route)\<rparr>)"

definition match_route :: "compiled_route list \<Rightarrow> string \<Rightarrow> string \<Rightarrow> matched_route option" where
  "match_route routes method path = match_routes routes (js_upper method) (segmentsOf path)"

end
