(* ===== verification/HttpRate.thy ===== *)
theory HttpRate
  imports HttpContext
begin

text \<open>
  The rate-limiting stages of the chain and the limits a handler takes itself (\<open>packages/server/src/http/rate-limit.ts\<close>,
  \<open>packages/server/src/auth/token-redeem-limit.ts\<close>). The limiter is an argument: the port of \<open>RateLimit\<close> over the
  database, or any other. Log lines, error reports and the count of rejections change no answer and are left out.
\<close>

section \<open>Taking from the buckets\<close>

type_synonym 'w limiter = "rate_limit_request \<Rightarrow> 'w \<Rightarrow> (js_error + rate_limit_decision) \<times> 'w"

definition UNKNOWN_CLIENT :: string where
  "UNKNOWN_CLIENT = ''unknown''"

definition HANDLER_TAKEN_STAGE_BUCKET :: string where
  "HANDLER_TAKEN_STAGE_BUCKET = ''read''"

definition FAILED_DETAIL :: string where
  "FAILED_DETAIL = ''The service is temporarily unavailable.''"

definition DENIED_DETAIL :: string where
  "DENIED_DETAIL = ''Too many requests. Try again later.''"

definition limiterFailure :: http_error where
  "limiterFailure = problem_error ''unavailable'' FAILED_DETAIL"

definition client_key :: "(string \<Rightarrow> nat) \<Rightarrow> chain_context \<Rightarrow> string" where
  "client_key isIP cx = rateLimitKeyOf isIP (case cx_clientIp cx of None \<Rightarrow> UNKNOWN_CLIENT | Some ip \<Rightarrow> ip)"

text \<open>An anonymous operation is limited per address only, whatever credential a caller sends along.\<close>

definition limited_principal :: "chain_context \<Rightarrow> principal option" where
  "limited_principal cx =
     (case operation_of cx of
        Some operation \<Rightarrow> if op_auth operation = AuthAnonymous then None else cx_principal cx
      | None \<Rightarrow> cx_principal cx)"

definition principal_workspace :: "principal \<Rightarrow> string option" where
  "principal_workspace p = (case p of ApiToken t \<Rightarrow> Some (at_workspaceId t) | Session s \<Rightarrow> se_activeWorkspaceId s)"

definition subjectOf :: "(string \<Rightarrow> nat) \<Rightarrow> chain_context \<Rightarrow> scope_limit \<Rightarrow> string option" where
  "subjectOf isIP cx limit =
     (case sl_scope limit of
        RateIp \<Rightarrow> Some (client_key isIP cx)
      | RateAccount \<Rightarrow> map_option principal_accountId (limited_principal cx)
      | RateWorkspace \<Rightarrow> (case limited_principal cx of None \<Rightarrow> None | Some p \<Rightarrow> principal_workspace p)
      | RateEmail \<Rightarrow> None)"

definition limit_request :: "scope_limit \<Rightarrow> string \<Rightarrow> rate_limit_request" where
  "limit_request limit key = \<lparr>rq_bucket = sl_name limit, rq_key = key, rq_cost = None\<rparr>"

text \<open>The loop of \<open>consume\<close>: what was taken, and the wait when a bucket denied.\<close>

fun consume_entries ::
    "rate_limit_registry \<Rightarrow> 'w limiter \<Rightarrow> (scope_limit \<times> string) list \<Rightarrow> taken_limit list \<Rightarrow> 'w \<Rightarrow>
     (http_error + taken_limit list \<times> int option) \<times> 'w" where
  "consume_entries registry limiter [] taken w = (Inr (taken, None), w)"
| "consume_entries registry limiter ((limit, key) # entries) taken w =
     (case rate_window registry (sl_name limit) of
        None \<Rightarrow> (Inl limiterFailure, w)
      | Some window \<Rightarrow>
          (case limiter (limit_request limit key) w of
             (Inl e, w') \<Rightarrow> (Inl limiterFailure, w')
           | (Inr decision, w') \<Rightarrow>
               (let taken' = taken @ [\<lparr>tl_name = sl_name limit, tl_window = window, tl_limit = dc_limit decision, tl_remaining = dc_remaining decision\<rparr>]
                in if \<not> dc_allowed decision then (Inr (taken', Some (dc_retryAfterSeconds decision)), w')
                   else consume_entries registry limiter entries taken' w')))"

definition taken_so_far :: "chain_context \<Rightarrow> taken_limit list" where
  "taken_so_far cx = (case cx_rateLimit cx of None \<Rightarrow> [] | Some state \<Rightarrow> rs_taken state)"

text \<open>Whether a bucket denied the request; the refusal is kept on the context.\<close>

definition rate_consume ::
    "rate_limit_registry \<Rightarrow> 'w limiter \<Rightarrow> (scope_limit \<times> string) list \<Rightarrow> chain_context \<Rightarrow> 'w \<Rightarrow>
     (http_error + bool) \<times> chain_context \<times> 'w" where
  "rate_consume registry limiter entries cx w =
     (case consume_entries registry limiter entries (taken_so_far cx) w of
        (Inl e, w') \<Rightarrow> (Inl e, cx, w')
      | (Inr (taken, Some retry), w') \<Rightarrow>
          (Inr True, cx\<lparr>cx_rateLimit := Some \<lparr>rs_taken = taken, rs_retryAfterSeconds = Some retry\<rparr>\<rparr>, w')
      | (Inr (taken, None), w') \<Rightarrow>
          (Inr False, (if taken = [] then cx else cx\<lparr>cx_rateLimit := Some \<lparr>rs_taken = taken, rs_retryAfterSeconds = None\<rparr>\<rparr>), w'))"

definition declaredBucket :: "rate_limit_registry \<Rightarrow> chain_context \<Rightarrow> string option \<Rightarrow> http_error + (string \<times> scope_limit list) option" where
  "declaredBucket registry cx named =
     (case operation_of cx of
        None \<Rightarrow> Inr None
      | Some operation \<Rightarrow>
          if op_rate operation = ''none'' \<or> op_audience operation = Some AudienceMachine then Inr None
          else let bucket = (case named of None \<Rightarrow> op_rate operation | Some n \<Rightarrow> n)
               in case scopesOf registry bucket of None \<Rightarrow> Inl limiterFailure | Some limits \<Rightarrow> Inr (Some (bucket, limits)))"

definition taken_by_handler :: "chain_context \<Rightarrow> bool" where
  "taken_by_handler cx = (case operation_of cx of None \<Rightarrow> False | Some operation \<Rightarrow> op_rateTakenByHandler operation)"

definition limitedOperation :: "rate_limit_registry \<Rightarrow> chain_context \<Rightarrow> http_error + (string \<times> scope_limit list) option" where
  "limitedOperation registry cx =
     declaredBucket registry cx (if taken_by_handler cx then Some HANDLER_TAKEN_STAGE_BUCKET else None)"

definition entries_of :: "(string \<Rightarrow> nat) \<Rightarrow> chain_context \<Rightarrow> scope_limit list \<Rightarrow> (scope_limit \<times> string) list" where
  "entries_of isIP cx limits =
     concat (map (\<lambda>limit. case subjectOf isIP cx limit of None \<Rightarrow> [] | Some key \<Rightarrow> [(limit, key)]) limits)"

section \<open>The headers\<close>

text \<open>The counts are whole numbers here, and a window divides out to whole seconds.\<close>

definition show_count :: "rat \<Rightarrow> string" where
  "show_count v = js_to_string 10 (nat \<lfloor>v\<rfloor>)"

definition windowSeconds :: "bucket_limit \<Rightarrow> int" where
  "windowSeconds window = \<lfloor>bl_capacity window / bl_refillPerSecond window + 1 / 2\<rfloor>"

definition secondsToFull :: "taken_limit \<Rightarrow> int" where
  "secondsToFull taken =
     (if of_int (tl_remaining taken) \<ge> tl_limit taken then 0
      else \<lceil>(tl_limit taken - of_int (tl_remaining taken)) / bl_refillPerSecond (tl_window taken)\<rceil>)"

definition policy_of :: "taken_limit \<Rightarrow> string" where
  "policy_of taken =
     ''\"'' @ tl_name taken @ ''\";q='' @ show_count (tl_limit taken) @ '';w='' @ show_count (of_int (windowSeconds (tl_window taken)))"

definition balance_of :: "taken_limit \<Rightarrow> string" where
  "balance_of taken =
     ''\"'' @ tl_name taken @ ''\";r='' @ show_count (of_int (tl_remaining taken)) @ '';t='' @ show_count (of_int (secondsToFull taken))"

definition headersOf :: "rate_limit_state \<Rightarrow> (string \<times> string) list" where
  "headersOf state =
     [(''ratelimit-policy'', js_join '', '' (map policy_of (rs_taken state))), (''ratelimit'', js_join '', '' (map balance_of (rs_taken state)))] @
     (case rs_retryAfterSeconds state of None \<Rightarrow> [] | Some s \<Rightarrow> [(''retry-after'', show_count (of_int s))])"

definition rate_apply :: "chain_context \<Rightarrow> http_response \<Rightarrow> http_response" where
  "rate_apply cx response = (case cx_rateLimit cx of None \<Rightarrow> response | Some state \<Rightarrow> set_headers (headersOf state) response)"

section \<open>The stages\<close>

definition denied_response :: "chain_context \<Rightarrow> http_response" where
  "denied_response cx = rate_apply cx (problem_response (requestIdOf cx) ''rate_limited'' DENIED_DETAIL)"

definition rate_take ::
    "(string \<Rightarrow> nat) \<Rightarrow> rate_limit_registry \<Rightarrow> 'w limiter \<Rightarrow> (scope_limit \<Rightarrow> bool) \<Rightarrow> chain_context \<Rightarrow> 'w \<Rightarrow>
     (http_error + http_response option) \<times> chain_context \<times> 'w" where
  "rate_take isIP registry limiter included cx w =
     (case limitedOperation registry cx of
        Inl e \<Rightarrow> (Inl e, cx, w)
      | Inr None \<Rightarrow> (Inr None, cx, w)
      | Inr (Some (bucket, limits)) \<Rightarrow>
          (case rate_consume registry limiter (entries_of isIP cx (filter included limits)) cx w of
             (Inl e, cx', w') \<Rightarrow> (Inl e, cx', w')
           | (Inr False, cx', w') \<Rightarrow> (Inr None, cx', w')
           | (Inr True, cx', w') \<Rightarrow> (Inr (Some (denied_response cx')), cx', w')))"

definition ipStage :: "(string \<Rightarrow> nat) \<Rightarrow> rate_limit_registry \<Rightarrow> 'w limiter \<Rightarrow> 'w stage" where
  "ipStage isIP registry limiter cx w =
     (case rate_take isIP registry limiter (\<lambda>limit. sl_scope limit = RateIp) cx w of
        (Inl e, cx', w') \<Rightarrow> (Inl e, cx', w')
      | (Inr None, cx', w') \<Rightarrow> (Inr CallNext, cx', w')
      | (Inr (Some refusal), cx', w') \<Rightarrow> (Inr (Answer refusal), cx', w'))"

definition rateStage :: "(string \<Rightarrow> nat) \<Rightarrow> rate_limit_registry \<Rightarrow> 'w limiter \<Rightarrow> 'w stage" where
  "rateStage isIP registry limiter cx w =
     (case rate_take isIP registry limiter (\<lambda>limit. sl_scope limit \<noteq> RateIp) cx w of
        (Inl e, cx', w') \<Rightarrow> (Inl e, cx', w')
      | (Inr (Some refusal), cx', w') \<Rightarrow> (Inr (Answer refusal), cx', w')
      | (Inr None, cx', w') \<Rightarrow>
          if taken_by_handler cx' then (Inr CallNext, cx'\<lparr>cx_handlerLimits := BucketLimits\<rparr>, w')
          else (case limitedOperation registry cx' of
                  Inl e \<Rightarrow> (Inl e, cx', w')
                | Inr None \<Rightarrow> (Inr CallNext, cx', w')
                | Inr (Some _) \<Rightarrow> (Inr CallNext, cx'\<lparr>cx_handlerLimits := EmailAndAccountLimits\<rparr>, w')))"

section \<open>The limits a handler takes\<close>

definition denied_error :: http_error where
  "denied_error = problem_error ''rate_limited'' DENIED_DETAIL"

definition consume_or_deny ::
    "rate_limit_registry \<Rightarrow> 'w limiter \<Rightarrow> (scope_limit \<times> string) list \<Rightarrow> chain_context \<Rightarrow> 'w \<Rightarrow>
     (http_error + unit) \<times> chain_context \<times> 'w" where
  "consume_or_deny registry limiter entries cx w =
     (case rate_consume registry limiter entries cx w of
        (Inl e, cx', w') \<Rightarrow> (Inl e, cx', w')
      | (Inr True, cx', w') \<Rightarrow> (Inl denied_error, cx', w')
      | (Inr False, cx', w') \<Rightarrow> (Inr (), cx', w'))"

definition take_scope ::
    "rate_scope \<Rightarrow> rate_limit_registry \<Rightarrow> 'w limiter \<Rightarrow> string \<Rightarrow> chain_context \<Rightarrow> 'w \<Rightarrow> (http_error + unit) \<times> chain_context \<times> 'w" where
  "take_scope scope registry limiter key cx w =
     (case limitedOperation registry cx of
        Inl e \<Rightarrow> (Inl e, cx, w)
      | Inr None \<Rightarrow> (Inl limiterFailure, cx, w)
      | Inr (Some (bucket, limits)) \<Rightarrow>
          (case find (\<lambda>candidate. sl_scope candidate = scope) limits of
             None \<Rightarrow> (Inl limiterFailure, cx, w)
           | Some limit \<Rightarrow> consume_or_deny registry limiter [(limit, key)] cx w))"

definition takeEmail :: "rate_limit_registry \<Rightarrow> 'w limiter \<Rightarrow> string \<Rightarrow> chain_context \<Rightarrow> 'w \<Rightarrow> (http_error + unit) \<times> chain_context \<times> 'w" where
  "takeEmail = take_scope RateEmail"

definition takeAccount :: "rate_limit_registry \<Rightarrow> 'w limiter \<Rightarrow> string \<Rightarrow> chain_context \<Rightarrow> 'w \<Rightarrow> (http_error + unit) \<times> chain_context \<times> 'w" where
  "takeAccount = take_scope RateAccount"

definition takeBucket ::
    "(string \<Rightarrow> nat) \<Rightarrow> rate_limit_registry \<Rightarrow> 'w limiter \<Rightarrow> chain_context \<Rightarrow> 'w \<Rightarrow> (http_error + unit) \<times> chain_context \<times> 'w" where
  "takeBucket isIP registry limiter cx w =
     (case declaredBucket registry cx None of
        Inl e \<Rightarrow> (Inl e, cx, w)
      | Inr None \<Rightarrow> (Inl limiterFailure, cx, w)
      | Inr (Some (bucket, limits)) \<Rightarrow> consume_or_deny registry limiter (entries_of isIP cx limits) cx w)"

text \<open>The limits of \<open>token_redeem\<close>, for the start of a provider sign-in that carries an invitation token.\<close>

definition REDEEM_BUCKET :: string where
  "REDEEM_BUCKET = ''token_redeem''"

definition redeem_key :: "(string \<Rightarrow> nat) \<Rightarrow> chain_context \<Rightarrow> string option \<Rightarrow> scope_limit \<Rightarrow> string option" where
  "redeem_key isIP cx accountId limit =
     (case sl_scope limit of RateIp \<Rightarrow> Some (client_key isIP cx) | RateAccount \<Rightarrow> accountId | _ \<Rightarrow> None)"

definition createTokenRedeemLimit ::
    "(string \<Rightarrow> nat) \<Rightarrow> rate_limit_registry \<Rightarrow> 'w limiter \<Rightarrow> string option \<Rightarrow> chain_context \<Rightarrow> 'w \<Rightarrow>
     (http_error + unit) \<times> chain_context \<times> 'w" where
  "createTokenRedeemLimit isIP registry limiter accountId cx w =
     (case scopesOf registry REDEEM_BUCKET of
        None \<Rightarrow> (Inl limiterFailure, cx, w)
      | Some limits \<Rightarrow>
          consume_or_deny registry limiter
            (concat (map (\<lambda>limit. case redeem_key isIP cx accountId limit of None \<Rightarrow> [] | Some key \<Rightarrow> [(limit, key)]) limits)) cx w)"

end
