(* ===== verification/HttpStages.thy ===== *)
theory HttpStages
  imports HttpRate
begin

text \<open>
  The request stages of the chain up to tenant resolution: the request context (\<open>packages/server/src/http/request-context.ts\<close>),
  the body limits (\<open>body-limits.ts\<close>), authentication with the access-mode check (\<open>authenticate.ts\<close>, \<open>access-mode.ts\<close>), the
  cross-site protection (\<open>cross-site.ts\<close>) and tenant resolution (\<open>tenant.ts\<close>). What a port or a resolver throws is its own;
  log lines, spans and metrics change no answer and are left out.
\<close>

text \<open>
  What the platform does with bytes and addresses: \<open>isIP\<close>, the decoding of UTF-8 (replacing, or \<open>None\<close> for malformed input)
  and \<open>JSON.parse\<close>.
\<close>

record platform =
  pf_isIP :: "string \<Rightarrow> nat"
  pf_decode :: "string \<Rightarrow> nat list"
  pf_decodeFatal :: "string \<Rightarrow> nat list option"
  pf_parseJson :: "nat list \<Rightarrow> js_value option"

section \<open>Stage 1: the request context\<close>

definition safe_id_char :: "char \<Rightarrow> bool" where
  "safe_id_char c \<longleftrightarrow> js_ascii_lower c \<or> js_ascii_upper c \<or> js_digit c \<or> c = CHR ''.'' \<or> c = CHR ''_'' \<or> c = CHR ''-''"

definition SAFE_REQUEST_ID :: "string \<Rightarrow> bool" where
  "SAFE_REQUEST_ID s \<longleftrightarrow> 8 \<le> length s \<and> length s \<le> 64 \<and> list_all safe_id_char s"

definition requestIdFrom :: "string \<Rightarrow> string option \<Rightarrow> string" where
  "requestIdFrom freshId given = (case given of None \<Rightarrow> freshId | Some h \<Rightarrow> if SAFE_REQUEST_ID h then h else freshId)"

definition requestContextStage :: "platform \<Rightarrow> nat \<Rightarrow> 'w stage" where
  "requestContextStage pf trustedProxyHops cx w =
     (Inr CallNext,
      cx\<lparr>cx_requestId := Some (requestIdFrom (cx_freshId cx) (header REQUEST_ID_HEADER (cx_request cx))),
         cx_clientIp := clientIpOf (pf_isIP pf) (hr_socket (cx_request cx)) (header ''x-forwarded-for'' (cx_request cx)) trustedProxyHops\<rparr>,
      w)"

section \<open>Stage 3: the body limits\<close>

definition DEFAULT_MAX_BODY_BYTES :: nat where
  "DEFAULT_MAX_BODY_BYTES = 64 * 1024"

definition MUTATIONS :: "string list" where
  "MUTATIONS = [''POST'', ''PUT'', ''PATCH'', ''DELETE'']"

text \<open>The pattern \<open>/^bearer\s/i\<close>.\<close>

definition bearer_pattern :: "string \<Rightarrow> bool" where
  "bearer_pattern s \<longleftrightarrow> map js_lower_char (take 6 s) = ''bearer'' \<and> 6 < length s \<and> js_space (s ! 6)"

definition isJson :: "string option \<Rightarrow> bool" where
  "isJson contentType \<longleftrightarrow> (case contentType of None \<Rightarrow> False | Some t \<Rightarrow> media_type t = ''application/json'')"

definition declaredLength :: "http_request \<Rightarrow> nat option" where
  "declaredLength request =
     (case header ''content-length'' request of
        None \<Rightarrow> None
      | Some text \<Rightarrow>
          if header ''transfer-encoding'' request \<noteq> None \<or> \<not> (text \<noteq> [] \<and> list_all js_digit text) then None
          else Some (js_parse_digits 10 text))"

text \<open>The bytes of the pieces, or \<open>None\<close> at the first piece that passes the limit; \<open>got\<close> bytes have been read before.\<close>

fun read_from :: "nat \<Rightarrow> nat \<Rightarrow> string list \<Rightarrow> string option" where
  "read_from limit got [] = Some []"
| "read_from limit got (piece # pieces) =
     (if got + length piece > limit then None
      else map_option (\<lambda>rest. piece @ rest) (read_from limit (got + length piece) pieces))"

definition readUpTo :: "string list \<Rightarrow> nat \<Rightarrow> string option" where
  "readUpTo body limit = read_from limit 0 body"

definition isWellFormedJson :: "platform \<Rightarrow> string \<Rightarrow> bool" where
  "isWellFormedJson pf octets \<longleftrightarrow>
     (case pf_decodeFatal pf octets of None \<Rightarrow> False | Some text \<Rightarrow> pf_parseJson pf text \<noteq> None)"

definition body_detail :: "string \<Rightarrow> string" where
  "body_detail code =
     (if code = ''payload_too_large'' then ''The request body is larger than this route accepts.''
      else if code = ''bad_request'' then ''The request body is not valid JSON.''
      else ''This request must be sent as application/json.'')"

definition refuse_body :: "chain_context \<Rightarrow> string \<Rightarrow> http_response" where
  "refuse_body cx code =
     (let response = problem_response (requestIdOf cx) code (body_detail code)
      in if code = ''payload_too_large'' then set_headers [(''connection'', ''close'')] response else response)"

definition body_limit :: "chain_context \<Rightarrow> nat" where
  "body_limit cx =
     (case operation_of cx of
        None \<Rightarrow> DEFAULT_MAX_BODY_BYTES
      | Some operation \<Rightarrow> (case op_maxBodyBytes operation of None \<Rightarrow> DEFAULT_MAX_BODY_BYTES | Some n \<Rightarrow> n))"

definition declares_body :: "chain_context \<Rightarrow> bool" where
  "declares_body cx =
     (case operation_of cx of None \<Rightarrow> False | Some operation \<Rightarrow> (case op_body operation of None \<Rightarrow> False | Some _ \<Rightarrow> True))"

definition bearer_request :: "http_request \<Rightarrow> bool" where
  "bearer_request request \<longleftrightarrow> (case header ''authorization'' request of None \<Rightarrow> False | Some a \<Rightarrow> bearer_pattern a)"

definition bodyLimits :: "platform \<Rightarrow> 'w stage" where
  "bodyLimits pf cx w =
     (let request = cx_request cx
      in case hr_body request of
        None \<Rightarrow> (Inr CallNext, cx, w)
      | Some pieces \<Rightarrow>
          (case (case declaredLength request of
                   Some n \<Rightarrow> if n > body_limit cx then None else readUpTo pieces (body_limit cx)
                 | None \<Rightarrow> readUpTo pieces (body_limit cx)) of
             None \<Rightarrow> (Inr (Answer (refuse_body cx ''payload_too_large'')), cx, w)
           | Some octets \<Rightarrow>
               if octets \<noteq> [] \<and> bearer_request request \<and> js_upper (hr_method request) \<in> set MUTATIONS \<and>
                  \<not> isJson (header ''content-type'' request) then
                 (Inr (Answer (refuse_body cx ''unsupported_media_type'')), cx, w)
               else if octets \<noteq> [] \<and> declares_body cx \<and> isJson (header ''content-type'' request) \<and> \<not> isWellFormedJson pf octets then
                 (Inr (Answer (refuse_body cx ''bad_request'')), cx, w)
               else (Inr CallNext, cx\<lparr>cx_request := request\<lparr>hr_body := (if octets = [] then None else Some [octets])\<rparr>\<rparr>, w)))"

section \<open>Stage 4: authentication\<close>

text \<open>A resolver of a credential: of the \<open>Authorization\<close> header with the client address, or of the \<open>Cookie\<close> header.\<close>

datatype 'w authenticator =
    BearerAuthenticator "string \<Rightarrow> string option \<Rightarrow> 'w \<Rightarrow> (http_error + api_token_principal option) \<times> 'w"
  | CookieAuthenticator "string \<Rightarrow> 'w \<Rightarrow> (http_error + session_principal option) \<times> 'w"

definition unauthenticated :: http_error where
  "unauthenticated = problem_error ''unauthenticated'' ''The credential was not accepted.''"

text \<open>The two loops: the first authenticator that accepts decides.\<close>

fun ask_bearers :: "'w authenticator list \<Rightarrow> string \<Rightarrow> string option \<Rightarrow> 'w \<Rightarrow> (http_error + api_token_principal option) \<times> 'w" where
  "ask_bearers [] authorization clientIp w = (Inr None, w)"
| "ask_bearers (CookieAuthenticator _ # rest) authorization clientIp w = ask_bearers rest authorization clientIp w"
| "ask_bearers (BearerAuthenticator authenticate # rest) authorization clientIp w =
     (case authenticate authorization clientIp w of
        (Inr None, w') \<Rightarrow> ask_bearers rest authorization clientIp w'
      | decided \<Rightarrow> decided)"

fun ask_cookies :: "'w authenticator list \<Rightarrow> string \<Rightarrow> 'w \<Rightarrow> (http_error + session_principal option) \<times> 'w" where
  "ask_cookies [] cookies w = (Inr None, w)"
| "ask_cookies (BearerAuthenticator _ # rest) cookies w = ask_cookies rest cookies w"
| "ask_cookies (CookieAuthenticator authenticate # rest) cookies w =
     (case authenticate cookies w of
        (Inr None, w') \<Rightarrow> ask_cookies rest cookies w'
      | decided \<Rightarrow> decided)"

fun is_bearer :: "'w authenticator \<Rightarrow> bool" where
  "is_bearer (BearerAuthenticator _) = True"
| "is_bearer (CookieAuthenticator _) = False"

definition resolves_no_credential :: "chain_context \<Rightarrow> bool" where
  "resolves_no_credential cx \<longleftrightarrow>
     (case operation_of cx of
        None \<Rightarrow> True
      | Some operation \<Rightarrow>
          op_audience operation \<noteq> None \<or> (op_rate operation = ''none'' \<and> op_auth operation = AuthAnonymous))"

definition createAuthentication :: "'w authenticator list \<Rightarrow> 'w stage" where
  "createAuthentication authenticators cx w =
     (if (case authenticators of [] \<Rightarrow> True | _ \<Rightarrow> False) \<or> resolves_no_credential cx then (Inr CallNext, cx, w)
      else case header ''authorization'' (cx_request cx) of
        Some authorization \<Rightarrow>
          if \<not> list_ex is_bearer authenticators then (Inr CallNext, cx, w)
          else (case ask_bearers authenticators authorization (cx_clientIp cx) w of
                  (Inl e, w') \<Rightarrow> (Inl e, cx, w')
                | (Inr None, w') \<Rightarrow> (Inl unauthenticated, cx, w')
                | (Inr (Some p), w') \<Rightarrow> (Inr CallNext, cx\<lparr>cx_principal := Some (ApiToken p)\<rparr>, w'))
      | None \<Rightarrow>
          (case header ''cookie'' (cx_request cx) of
             None \<Rightarrow> (Inr CallNext, cx, w)
           | Some cookies \<Rightarrow>
               (case ask_cookies authenticators cookies w of
                  (Inl e, w') \<Rightarrow> (Inl e, cx, w')
                | (Inr None, w') \<Rightarrow> (Inr CallNext, cx, w')
                | (Inr (Some p), w') \<Rightarrow> (Inr CallNext, cx\<lparr>cx_principal := Some (Session p)\<rparr>, w'))))"

subsection \<open>The access mode\<close>

datatype access_mode = FullAccess | ExportOnlyUntil string

definition EXPORT_ONLY_OPERATIONS :: "string list" where
  "EXPORT_ONLY_OPERATIONS =
     [''verifyMfa'', ''logout'', ''startOidcSignIn'', ''completeOidcSignIn'', ''getApiConfig'', ''getMe'', ''listWorkspaces'',
      ''getWorkspace'', ''setActiveWorkspace'', ''listBookmarks'', ''listBookmarkIds'', ''getBookmark'', ''listFolders'',
      ''getFolder'', ''listTags'', ''getTagStats'', ''exportJson'', ''exportNetscape'', ''reauthenticate'', ''deleteMe'']"

type_synonym 'w access_mode_source = "string \<Rightarrow> 'w \<Rightarrow> (http_error + access_mode option) \<times> 'w"

definition refuseExportOnly :: "'w access_mode_source \<Rightarrow> string \<Rightarrow> 'w \<Rightarrow> (http_error + unit) \<times> 'w" where
  "refuseExportOnly source accountId w =
     (case source accountId w of
        (Inl e, w') \<Rightarrow> (Inl e, w')
      | (Inr None, w') \<Rightarrow> (Inl unauthenticated, w')
      | (Inr (Some (ExportOnlyUntil until)), w') \<Rightarrow>
          (Inl (ProblemError ''account_export_only'' ''This account can only read and export its data until its access ends.'' None
                  [(''until'', js_text until)]), w')
      | (Inr (Some FullAccess), w') \<Rightarrow> (Inr (), w'))"

definition createAccessModeCheck :: "'w access_mode_source \<Rightarrow> 'w stage" where
  "createAccessModeCheck source cx w =
     (case (cx_principal cx, operation_of cx) of
        (Some who, Some operation) \<Rightarrow>
          if (case who of Session _ \<Rightarrow> op_operationId operation \<in> set EXPORT_ONLY_OPERATIONS | ApiToken _ \<Rightarrow> False) then
            (Inr CallNext, cx, w)
          else (case refuseExportOnly source (principal_accountId who) w of
                  (Inl e, w') \<Rightarrow> (Inl e, cx, w')
                | (Inr _, w') \<Rightarrow> (Inr CallNext, cx, w'))
      | _ \<Rightarrow> (Inr CallNext, cx, w))"

section \<open>Stage 5: cross-site protection\<close>

definition isApiPath :: "string \<Rightarrow> bool" where
  "isApiPath path \<longleftrightarrow> path = ''/api'' \<or> prefix ''/api/'' path"

definition without_cookie :: "http_request \<Rightarrow> http_request" where
  "without_cookie request = request\<lparr>hr_headers := filter (\<lambda>(name, text). name \<noteq> ''cookie'') (hr_headers request)\<rparr>"

definition withoutCookies :: "chain_context \<Rightarrow> chain_context" where
  "withoutCookies cx = cx\<lparr>cx_request := without_cookie (cx_request cx)\<rparr>"

definition request_media_type :: "http_request \<Rightarrow> string option" where
  "request_media_type request = map_option media_type (header ''content-type'' request)"

definition cross_site_detail :: "string \<Rightarrow> string" where
  "cross_site_detail reason =
     (if reason = ''content_type'' then ''This request must be sent as application/json.''
      else if reason = ''preflight'' then ''Cross-origin requests are not accepted.''
      else ''This request must come from the application itself.'')"

definition refuse_cross_site :: "chain_context \<Rightarrow> string \<Rightarrow> stage_result" where
  "refuse_cross_site cx reason = Answer (problem_response (requestIdOf cx) ''cross_site_request'' (cross_site_detail reason))"

definition CHALLENGE_SOLUTION_HEADER :: string where
  "CHALLENGE_SOLUTION_HEADER = ''x-challenge-solution''"

text \<open>The port of the bot protection.\<close>

type_synonym 'w challenge = "string option \<Rightarrow> 'w \<Rightarrow> (http_error + bool) \<times> 'w"

definition accepts_multipart :: "chain_context \<Rightarrow> bool" where
  "accepts_multipart cx = (case cx_route cx of None \<Rightarrow> False | Some route \<Rightarrow> mr_acceptsMultipart route)"

definition marketing_form :: "'w challenge \<Rightarrow> 'w stage" where
  "marketing_form challenge cx w =
     (let cx' = withoutCookies cx; request = cx_request cx'; origin = header ''origin'' request
      in if (case cx_route cx of None \<Rightarrow> True | Some route \<Rightarrow> mr_marketingOrigin route = None \<or> origin \<noteq> mr_marketingOrigin route) then
           (Inr (refuse_cross_site cx' (if origin = None then ''missing_origin'' else ''origin_mismatch'')), cx', w)
         else if request_media_type request \<noteq> Some ''application/json'' then (Inr (refuse_cross_site cx' ''content_type''), cx', w)
         else (case challenge (header CHALLENGE_SOLUTION_HEADER request) w of
                 (Inl e, w') \<Rightarrow> (Inl e, cx', w')
               | (Inr False, w') \<Rightarrow>
                   (Inr (Answer (problem_response (requestIdOf cx') ''forbidden'' ''The challenge was not solved.'')), cx', w')
               | (Inr True, w') \<Rightarrow> (Inr CallNext, cx', w')))"

definition mutation_check :: "string \<Rightarrow> 'w stage" where
  "mutation_check expectedOrigin cx w =
     (let request = cx_request cx; site = header ''sec-fetch-site'' request; mediaType = request_media_type request
      in case header ''origin'' request of
        None \<Rightarrow> (Inr (refuse_cross_site cx ''missing_origin''), cx, w)
      | Some origin \<Rightarrow>
          if origin \<noteq> expectedOrigin then (Inr (refuse_cross_site cx ''origin_mismatch''), cx, w)
          else if site \<noteq> None \<and> site \<noteq> Some ''same-origin'' then (Inr (refuse_cross_site cx ''cross_site_fetch''), cx, w)
          else if mediaType \<noteq> Some ''application/json'' \<and> \<not> (accepts_multipart cx \<and> mediaType = Some ''multipart/form-data'') then
            (Inr (refuse_cross_site cx ''content_type''), cx, w)
          else (Inr CallNext, cx, w))"

definition createCrossSiteProtection :: "string \<Rightarrow> 'w challenge \<Rightarrow> 'w stage" where
  "createCrossSiteProtection expectedOrigin challenge cx w =
     (let request = cx_request cx;
          upper = js_upper (hr_method request);
          audience = (case operation_of cx of None \<Rightarrow> None | Some operation \<Rightarrow> op_audience operation)
      in if upper = ''OPTIONS'' \<and> isApiPath (hr_path request) then (Inr (refuse_cross_site cx ''preflight''), cx, w)
         else if audience = Some AudienceMachine then (Inr CallNext, withoutCookies cx, w)
         else if audience = Some AudienceMarketingForm then marketing_form challenge cx w
         else
           (let cx' = (if header ''authorization'' request \<noteq> None then withoutCookies cx else cx)
            in if bearer_request request then (Inr CallNext, cx', w)
               else if upper \<notin> set MUTATIONS then (Inr CallNext, cx', w)
               else mutation_check expectedOrigin cx' w))"

section \<open>Stage 7: tenant resolution\<close>

record tenant_resolution =
  tr_workspaceId :: string
  tr_memberId :: string
  tr_role :: member_role

type_synonym 'w tenant_resolver = "principal \<Rightarrow> string \<Rightarrow> 'w \<Rightarrow> (http_error + tenant_resolution option) \<times> 'w"

definition second_factor_pending :: "principal \<Rightarrow> bool" where
  "second_factor_pending p = (case p of Session s \<Rightarrow> se_mfaPending s | ApiToken _ \<Rightarrow> False)"

definition createTenantResolution :: "'w tenant_resolver \<Rightarrow> 'w stage" where
  "createTenantResolution resolver cx w =
     (case cx_principal cx of
        None \<Rightarrow> (Inr CallNext, cx, w)
      | Some who \<Rightarrow>
          if second_factor_pending who then (Inr CallNext, cx, w)
          else (case resolver who (requestIdOf cx) w of
                  (Inl e, w') \<Rightarrow> (Inl e, cx, w')
                | (Inr None, w') \<Rightarrow>
                    (case who of
                       ApiToken _ \<Rightarrow> (Inl unauthenticated, cx, w')
                     | Session _ \<Rightarrow> (Inr CallNext, cx, w'))
                | (Inr (Some found), w') \<Rightarrow>
                    if (case who of
                          ApiToken t \<Rightarrow> js_lower (tr_workspaceId found) \<noteq> js_lower (at_workspaceId t)
                        | Session _ \<Rightarrow> False) then
                      (Inl (UnexpectedError (JsError ''the tenant resolver answered a workspace other than the one the token is bound to'')), cx, w')
                    else
                      (Inr CallNext,
                       cx\<lparr>cx_tenant := Some \<lparr>rt_accountId = principal_accountId who, rt_workspaceId = tr_workspaceId found,
                                              rt_memberId = tr_memberId found, rt_role = tr_role found\<rparr>\<rparr>, w')))"

end
