(* ===== verification/HttpPolicy.thy ===== *)
theory HttpPolicy
  imports HttpStages
begin

text \<open>
  Validation (\<open>packages/server/src/http/validation.ts\<close>), authorization (\<open>authorize.ts\<close>, \<open>packages/core/src/auth/reauth.ts\<close>) and
  the security headers (\<open>headers.ts\<close>). The strict form of a schema is the library's.
\<close>

section \<open>Uncallable tokens\<close>

definition forbidden :: http_error where
  "forbidden = problem_error ''forbidden'' ''You do not have access to this resource.''"

definition refuseUncallableToken :: "principal option \<Rightarrow> operation_definition \<Rightarrow> http_error + unit" where
  "refuseUncallableToken who operation =
     (case who of
        Some (ApiToken _) \<Rightarrow>
          if op_auth operation = AuthAnonymous \<or> op_auth operation = AuthMachine then Inr ()
          else if op_scope operation = None \<or> op_reauth operation then Inl forbidden
          else Inr ()
      | _ \<Rightarrow> Inr ())"

section \<open>Stage 8: validation\<close>

text \<open>A query name that comes again turns its value into the array of its values.\<close>

definition query_add :: "(string \<times> js_value) list \<Rightarrow> string \<times> nat list \<Rightarrow> (string \<times> js_value) list" where
  "query_add query pair =
     (let (name, text) = pair
      in set_member name
           (case map_of query name of
              None \<Rightarrow> JStr text
            | Some (JArr seen) \<Rightarrow> JArr (seen @ [JStr text])
            | Some seen \<Rightarrow> JArr [seen, JStr text]) query)"

definition queryOf :: "http_request \<Rightarrow> js_value" where
  "queryOf request = JObj (foldl query_add [] (hr_query request))"

definition params_value :: "matched_route \<Rightarrow> js_value" where
  "params_value route = JObj (map (\<lambda>(name, text). (name, JStr text)) (mr_params route))"

definition body_octets :: "http_request \<Rightarrow> string" where
  "body_octets request = (case hr_body request of None \<Rightarrow> [] | Some pieces \<Rightarrow> concat pieces)"

definition bodyOf :: "platform \<Rightarrow> http_request \<Rightarrow> http_error + js_value" where
  "bodyOf pf request =
     (let text = pf_decode pf (body_octets request)
      in if text = [] then Inr JUndefined
         else if request_media_type request \<noteq> Some ''application/json'' then
           Inl (problem_error ''unsupported_media_type'' ''This request must be sent as application/json.'')
         else case pf_parseJson pf text of
           None \<Rightarrow> Inl (problem_error ''bad_request'' ''The request body is not valid JSON.'')
         | Some v \<Rightarrow> Inr v)"

text \<open>One part: what the schema answers, or the field errors of its issues.\<close>

definition check_part :: "schema \<Rightarrow> js_value \<Rightarrow> js_value option \<times> field_error list" where
  "check_part schema v = (case schema v of Inr data \<Rightarrow> (Some data, []) | Inl issues \<Rightarrow> (None, fieldErrors issues))"

definition check_declared :: "schema option \<Rightarrow> js_value \<Rightarrow> js_value option \<times> field_error list" where
  "check_declared declared v = (case declared of None \<Rightarrow> (None, []) | Some schema \<Rightarrow> check_part schema v)"

definition check_body :: "platform \<Rightarrow> http_request \<Rightarrow> matched_route \<Rightarrow> http_error + js_value option \<times> field_error list" where
  "check_body pf request route =
     (case op_body (mr_operation route) of
        None \<Rightarrow> Inr (None, [])
      | Some schema \<Rightarrow>
          if mr_acceptsMultipart route then Inr (None, [])
          else map_sum id (check_part schema) (bodyOf pf request))"

definition validate :: "platform \<Rightarrow> (schema \<Rightarrow> schema) \<Rightarrow> http_request \<Rightarrow> matched_route \<Rightarrow> http_error + validated_input" where
  "validate pf strict request route =
     (let (params, errors1) = check_declared (map_option strict (op_params (mr_operation route))) (params_value route);
          (query, errors2) = check_declared (map_option strict (op_query (mr_operation route))) (queryOf request)
      in case check_body pf request route of
           Inl e \<Rightarrow> Inl e
         | Inr (body, errors3) \<Rightarrow>
             (let errors = errors1 @ errors2 @ errors3
              in if errors \<noteq> [] then
                   Inl (ProblemError ''validation_failed'' (MAPPED_DETAILS ''validation_failed'') (Some (take MAX_FIELD_ERRORS errors)) [])
                 else Inr \<lparr>vi_params = params, vi_query = query, vi_body = body\<rparr>))"

definition validation :: "platform \<Rightarrow> (schema \<Rightarrow> schema) \<Rightarrow> 'w stage" where
  "validation pf strict cx w =
     (case cx_route cx of
        None \<Rightarrow> (Inr CallNext, cx, w)
      | Some route \<Rightarrow>
          (case refuseUncallableToken (cx_principal cx) (mr_operation route) of
             Inl e \<Rightarrow> (Inl e, cx, w)
           | Inr _ \<Rightarrow>
               (case validate pf strict (cx_request cx) route of
                  Inl e \<Rightarrow> (Inl e, cx, w)
                | Inr input \<Rightarrow> (Inr CallNext, cx\<lparr>cx_input := Some input\<rparr>, w))))"

section \<open>Stage 9: authorization\<close>

definition REAUTH_WINDOW_MS :: int where
  "REAUTH_WINDOW_MS = 10 * 60 * 1000"

definition CLOCK_SKEW_MS :: int where
  "CLOCK_SKEW_MS = 5000"

definition reauthenticatedRecently :: "int option \<Rightarrow> int \<Rightarrow> bool" where
  "reauthenticatedRecently reauthAt nowMs =
     (case reauthAt of
        None \<Rightarrow> False
      | Some stamp \<Rightarrow> (let age = nowMs - stamp in age \<ge> - CLOCK_SKEW_MS \<and> age \<le> REAUTH_WINDOW_MS))"

fun ROLE_RANK :: "member_role \<Rightarrow> nat" where
  "ROLE_RANK RoleMember = 1"
| "ROLE_RANK RoleAdmin = 2"
| "ROLE_RANK RoleOwner = 3"

fun ROLE_REQUIRED :: "auth_policy \<Rightarrow> member_role option" where
  "ROLE_REQUIRED AuthMember = Some RoleMember"
| "ROLE_REQUIRED AuthAdmin = Some RoleAdmin"
| "ROLE_REQUIRED AuthOwner = Some RoleOwner"
| "ROLE_REQUIRED _ = None"

definition entitlementRequired :: "string \<Rightarrow> bool \<Rightarrow> http_error" where
  "entitlementRequired entitlement upgradeAvailable =
     ProblemError ''entitlement_required'' ''This feature is not available.'' None
       [(''entitlement'', js_text entitlement), (''upgradeAvailable'', JBool upgradeAvailable)]"

definition reauthRequired :: http_error where
  "reauthRequired = problem_error ''reauth_required'' ''Recent re-authentication is required.''"

text \<open>The checks stage 9 asks: an entitlement of an account in a workspace, whether a better plan offers it, the second factor, the clock.\<close>

record 'w authorization_options =
  ao_entitlements :: "string \<Rightarrow> string \<Rightarrow> string option \<Rightarrow> 'w \<Rightarrow> (http_error + bool) \<times> 'w"
  ao_upgradeAvailable :: "string \<Rightarrow> string \<Rightarrow> string option \<Rightarrow> 'w \<Rightarrow> (http_error + bool) \<times> 'w"
  ao_secondFactor :: "string \<Rightarrow> string \<Rightarrow> 'w \<Rightarrow> (http_error + bool) \<times> 'w"
  ao_now :: "'w \<Rightarrow> int"

definition denyEntitlements :: "string \<Rightarrow> string \<Rightarrow> string option \<Rightarrow> 'w \<Rightarrow> (http_error + bool) \<times> 'w" where
  "denyEntitlements entitlement accountId workspaceId w = (Inr False, w)"

definition noUpgradeAvailable :: "string \<Rightarrow> string \<Rightarrow> string option \<Rightarrow> 'w \<Rightarrow> (http_error + bool) \<times> 'w" where
  "noUpgradeAvailable entitlement accountId workspaceId w = (Inr False, w)"

definition denySecondFactor :: "string \<Rightarrow> string \<Rightarrow> 'w \<Rightarrow> (http_error + bool) \<times> 'w" where
  "denySecondFactor accountId requestId w = (Inr False, w)"

text \<open>The checks on the credential alone: a complete session or a token the operation takes.\<close>

definition credential_check :: "principal \<Rightarrow> operation_definition \<Rightarrow> http_error + unit" where
  "credential_check who operation =
     (case who of
        Session s \<Rightarrow>
          if se_mfaPending s \<and> op_auth operation \<noteq> AuthPartial then
            Inl (problem_error ''mfa_required'' ''A second factor is required.'')
          else Inr ()
      | ApiToken t \<Rightarrow>
          (case refuseUncallableToken (Some who) operation of
             Inl e \<Rightarrow> Inl e
           | Inr _ \<Rightarrow>
               if op_scope operation = Some ScopeWrite \<and> at_scope t \<noteq> TokenReadWrite then
                 Inl (problem_error ''token_scope'' ''This token's scope does not allow this operation.'')
               else Inr ()))"

definition role_check :: "request_tenant option \<Rightarrow> operation_definition \<Rightarrow> http_error + unit" where
  "role_check tenant operation =
     (case ROLE_REQUIRED (op_auth operation) of
        None \<Rightarrow> Inr ()
      | Some role \<Rightarrow>
          (case tenant of
             None \<Rightarrow> Inl (problem_error ''not_found'' ''No such resource.'')
           | Some t \<Rightarrow> if \<not> ROLE_RANK (rt_role t) \<ge> ROLE_RANK role then Inl forbidden else Inr ()))"

definition is_instance_admin :: "principal \<Rightarrow> bool" where
  "is_instance_admin who = (case who of Session s \<Rightarrow> se_instanceAdmin s | ApiToken _ \<Rightarrow> False)"

definition instance_check ::
    "'w authorization_options \<Rightarrow> string \<Rightarrow> principal \<Rightarrow> operation_definition \<Rightarrow> 'w \<Rightarrow> (http_error + unit) \<times> 'w" where
  "instance_check options requestId who operation w =
     (if op_auth operation = AuthInstanceAdmin then
        if \<not> is_instance_admin who then (Inl forbidden, w)
        else (case ao_secondFactor options (principal_accountId who) requestId w of
                (Inl e, w') \<Rightarrow> (Inl e, w')
              | (Inr enrolled, w') \<Rightarrow> ((if enrolled then Inr () else Inl forbidden), w'))
      else if op_auth operation = AuthInstanceAdminWithoutSecondFactor \<and> \<not> is_instance_admin who then (Inl forbidden, w)
      else (Inr (), w))"

definition recently :: "principal \<Rightarrow> int \<Rightarrow> bool" where
  "recently who now = (case who of Session s \<Rightarrow> reauthenticatedRecently (se_reauthAt s) now | ApiToken _ \<Rightarrow> False)"

definition entitlement_check ::
    "'w authorization_options \<Rightarrow> principal \<Rightarrow> request_tenant option \<Rightarrow> operation_definition \<Rightarrow> 'w \<Rightarrow> (http_error + unit) \<times> 'w" where
  "entitlement_check options who tenant operation w =
     (case op_entitlement operation of
        None \<Rightarrow> (Inr (), w)
      | Some entitlement \<Rightarrow>
          (let accountId = principal_accountId who; workspaceId = map_option rt_workspaceId tenant
           in case ao_entitlements options entitlement accountId workspaceId w of
                (Inl e, w') \<Rightarrow> (Inl e, w')
              | (Inr True, w') \<Rightarrow> (Inr (), w')
              | (Inr False, w') \<Rightarrow>
                  (case ao_upgradeAvailable options entitlement accountId workspaceId w' of
                     (Inl e, w'') \<Rightarrow> (Inl e, w'')
                   | (Inr upgrade, w'') \<Rightarrow> (Inl (entitlementRequired entitlement upgrade), w''))))"

definition authorize_principal ::
    "'w authorization_options \<Rightarrow> chain_context \<Rightarrow> operation_definition \<Rightarrow> principal \<Rightarrow> 'w \<Rightarrow> (http_error + unit) \<times> 'w" where
  "authorize_principal options cx operation who w =
     (case credential_check who operation of
        Inl e \<Rightarrow> (Inl e, w)
      | Inr _ \<Rightarrow>
          (case role_check (cx_tenant cx) operation of
             Inl e \<Rightarrow> (Inl e, w)
           | Inr _ \<Rightarrow>
               (case instance_check options (requestIdOf cx) who operation w of
                  (Inl e, w') \<Rightarrow> (Inl e, w')
                | (Inr _, w') \<Rightarrow>
                    if op_reauth operation \<and> \<not> recently who (ao_now options w') then (Inl reauthRequired, w')
                    else entitlement_check options who (cx_tenant cx) operation w')))"

definition createAuthorization :: "'w authorization_options \<Rightarrow> 'w stage" where
  "createAuthorization options cx w =
     (case operation_of cx of
        None \<Rightarrow> (Inr CallNext, cx, w)
      | Some operation \<Rightarrow>
          if op_auth operation = AuthAnonymous \<or> op_auth operation = AuthMachine then
            (case op_entitlement operation of
               Some entitlement \<Rightarrow> (Inl (entitlementRequired entitlement False), cx, w)
             | None \<Rightarrow> (Inr CallNext, cx, w))
          else (case cx_principal cx of
                  None \<Rightarrow> (Inl (problem_error ''unauthenticated'' ''Authentication is required.''), cx, w)
                | Some who \<Rightarrow>
                    (case authorize_principal options cx operation who w of
                       (Inl e, w') \<Rightarrow> (Inl e, cx, w')
                     | (Inr _, w') \<Rightarrow> (Inr CallNext, cx, w'))))"

section \<open>Stage 2: the security headers\<close>

definition quoted :: "string \<Rightarrow> string" where
  "quoted s = CHR 0x27 # s @ [CHR 0x27]"

definition CONTENT_SECURITY_POLICY :: string where
  "CONTENT_SECURITY_POLICY =
     js_join ''; ''
       [''default-src '' @ quoted ''self'', ''script-src '' @ quoted ''self'', ''img-src '' @ quoted ''self'' @ '' data:'',
        ''object-src '' @ quoted ''none'', ''base-uri '' @ quoted ''self'', ''frame-ancestors '' @ quoted ''none'']"

definition NO_STORE :: string where
  "NO_STORE = ''no-store''"

definition BASE_HEADERS :: "(string \<times> string) list" where
  "BASE_HEADERS =
     [(''content-security-policy'', CONTENT_SECURITY_POLICY), (''referrer-policy'', ''strict-origin-when-cross-origin''),
      (''x-content-type-options'', ''nosniff''), (''cross-origin-opener-policy'', ''same-origin''),
      (''permissions-policy'', ''camera=(), microphone=(), geolocation=()'')]"

definition STRICT_TRANSPORT_SECURITY :: string where
  "STRICT_TRANSPORT_SECURITY = ''max-age=31536000''"

record header_rule =
  hl_applies :: "nat list \<Rightarrow> bool"
  hl_headers :: "(string \<times> string) list"

definition points :: "string \<Rightarrow> nat list" where
  "points s = map code_unit s"

definition under :: "string \<Rightarrow> nat list \<Rightarrow> bool" where
  "under base path \<longleftrightarrow> path = points base \<or> prefix (points (base @ ''/'')) path"

definition PROBE_PATHS :: "string list" where
  "PROBE_PATHS = [''/health'', ''/ready'', ''/version'']"

definition HEADER_RULES :: "header_rule list" where
  "HEADER_RULES =
     [\<lparr>hl_applies = under ''/api'', hl_headers = [(''cache-control'', NO_STORE)]\<rparr>,
      \<lparr>hl_applies = (\<lambda>path. path \<in> set (map points PROBE_PATHS)), hl_headers = [(''cache-control'', NO_STORE)]\<rparr>,
      \<lparr>hl_applies = under ''/go'', hl_headers = [(''cache-control'', NO_STORE), (''referrer-policy'', ''no-referrer'')]\<rparr>]"

definition declared_headers_of :: "declared_response \<Rightarrow> declared_headers option" where
  "declared_headers_of declared =
     (case declared of JsonResponse _ headers \<Rightarrow> Some headers | BinaryResponse _ _ headers \<Rightarrow> Some headers | _ \<Rightarrow> None)"

text \<open>The text of the \<open>Cache-Control\<close> header the operation declares for the status; \<open>None\<close> when its schema is no literal.\<close>

definition declaredCachePolicy :: "operation_definition \<Rightarrow> nat \<Rightarrow> string option" where
  "declaredCachePolicy operation status =
     (case map_of (op_responses operation) status of
        None \<Rightarrow> None
      | Some declared \<Rightarrow>
          (case declared_headers_of declared of
             None \<Rightarrow> None
           | Some headers \<Rightarrow>
               (case find (\<lambda>(name, text). js_lower name = ''cache-control'') headers of None \<Rightarrow> None | Some (name, text) \<Rightarrow> text)))"

definition appliesTo :: "header_rule \<Rightarrow> string \<Rightarrow> bool" where
  "appliesTo rule path \<longleftrightarrow>
     hl_applies rule (points path) \<or> (case decodeURIComponent path of None \<Rightarrow> False | Some decoded \<Rightarrow> hl_applies rule decoded)"

text \<open>\<open>Object.assign\<close>.\<close>

definition assign :: "(string \<times> string) list \<Rightarrow> (string \<times> string) list \<Rightarrow> (string \<times> string) list" where
  "assign target source = foldl (\<lambda>headers (name, text). set_member name text headers) target source"

definition transport_headers :: "bool \<Rightarrow> (string \<times> string) list" where
  "transport_headers https = (if https then [(''strict-transport-security'', STRICT_TRANSPORT_SECURITY)] else [])"

definition ruled_headers :: "bool \<Rightarrow> string \<Rightarrow> (string \<times> string) list" where
  "ruled_headers https path =
     foldl (\<lambda>wanted rule. if appliesTo rule path then assign wanted (hl_headers rule) else wanted)
       (BASE_HEADERS @ transport_headers https) HEADER_RULES"

definition declared_policy :: "chain_context \<Rightarrow> nat \<Rightarrow> string option" where
  "declared_policy cx status = (case operation_of cx of None \<Rightarrow> None | Some operation \<Rightarrow> declaredCachePolicy operation status)"

definition wanted_headers :: "bool \<Rightarrow> chain_context \<Rightarrow> http_response \<Rightarrow> (string \<times> string) list" where
  "wanted_headers https cx response =
     (let ruled = ruled_headers https (hr_path (cx_request cx))
      in if isProblemContentType response then assign ruled [(''cache-control'', NO_STORE)]
         else case declared_policy cx (rs_status response) of
           None \<Rightarrow> ruled
         | Some declared \<Rightarrow> assign ruled [(''cache-control'', declared)])"

definition security_apply :: "bool \<Rightarrow> chain_context \<Rightarrow> http_response \<Rightarrow> http_response" where
  "security_apply https cx response =
     set_headers (wanted_headers https cx response) (delete_headers (prefix ''access-control-'') response)"

end
