(* ===== verification/Idempotency.thy ===== *)
theory Idempotency
  imports HttpPolicy
begin

text \<open>
  Idempotency keys: the repository (\<open>packages/db/src/repositories/idempotency.ts\<close>), stage 9a of the chain
  (\<open>packages/server/src/http/idempotency.ts\<close>), and concurrent requests as a step relation over the same operations.
\<close>

section \<open>The table\<close>

text \<open>A body is \<open>JNull\<close> for a response without one.\<close>

record stored_response =
  sr_status :: nat
  sr_body :: js_value

record idempotency_row =
  ik_operation :: string
  ik_requestHash :: string
  ik_response :: "stored_response option"
  ik_expiresAt :: int

text \<open>The key is the account and the key; a row without a response is in progress.\<close>

type_synonym idempotency_keys = "string \<times> string \<rightharpoonup> idempotency_row"

record idempotency_claim =
  ic_key :: string
  ic_operation :: string
  ic_requestHash :: string

datatype idempotency_outcome = Claimed | Replay stored_response | Conflict

text \<open>24 hours, in the unit of the clock (seconds).\<close>

definition EXPIRY :: int where
  "EXPIRY = 24 * 3600"

text \<open>The insert with its conflict clause; \<open>now\<close> is the start of the transaction.\<close>

definition claim_insert :: "string \<Rightarrow> idempotency_claim \<Rightarrow> int \<Rightarrow> idempotency_keys \<Rightarrow> idempotency_keys option" where
  "claim_insert accountId claim now keys =
     (let row = \<lparr>ik_operation = ic_operation claim, ik_requestHash = ic_requestHash claim, ik_response = None, ik_expiresAt = now + EXPIRY\<rparr>
      in case keys (accountId, ic_key claim) of
           None \<Rightarrow> Some (keys((accountId, ic_key claim) \<mapsto> row))
         | Some old \<Rightarrow> if ik_expiresAt old \<le> now then Some (keys((accountId, ic_key claim) \<mapsto> row)) else None)"

definition claim_key :: "string \<Rightarrow> idempotency_claim \<Rightarrow> int \<Rightarrow> idempotency_keys \<Rightarrow> js_error + idempotency_outcome \<times> idempotency_keys" where
  "claim_key accountId claim now keys =
     (case claim_insert accountId claim now keys of
        Some keys' \<Rightarrow> Inr (Claimed, keys')
      | None \<Rightarrow>
          (case keys (accountId, ic_key claim) of
             None \<Rightarrow> Inl (JsError ''an idempotency key that conflicted is not there'')
           | Some row \<Rightarrow>
               if ik_operation row \<noteq> ic_operation claim \<or> ik_requestHash row \<noteq> ic_requestHash claim then Inr (Conflict, keys)
               else (case ik_response row of
                       None \<Rightarrow> Inl (JsError ''an idempotency key is in progress in a transaction that has ended'')
                     | Some response \<Rightarrow> Inr (Replay response, keys))))"

definition complete_key :: "string \<Rightarrow> string \<Rightarrow> stored_response \<Rightarrow> idempotency_keys \<Rightarrow> js_error + idempotency_keys" where
  "complete_key accountId key response keys =
     (case keys (accountId, key) of
        Some row \<Rightarrow>
          if ik_response row = None then Inr (keys((accountId, key) \<mapsto> row\<lparr>ik_response := Some response\<rparr>))
          else Inl (JsError ''completing an idempotency key did not change exactly one row'')
      | None \<Rightarrow> Inl (JsError ''completing an idempotency key did not change exactly one row''))"

section \<open>The hash of a request\<close>

text \<open>
  SHA-256 as lower-case hexadecimal text, \<open>JSON.stringify\<close>, and the parts of a multipart body (name, whether it is a file,
  content, all as bytes), or \<open>None\<close> for a body that is not multipart.
\<close>

record digests =
  dg_sha256 :: "string \<Rightarrow> string"
  dg_stringify :: "js_value \<Rightarrow> string"
  dg_formData :: "http_request \<Rightarrow> (string \<times> bool \<times> string) list option"

definition by_name :: "string \<times> 'a \<Rightarrow> string \<times> 'a \<Rightarrow> int" where
  "by_name a b = compareCodeUnits (fst a) (fst b)"

lemma member_smaller:
  assumes "(name, v) \<in> set (js_sort by_name members)"
  shows "size v < Suc (size_list (size_prod (\<lambda>_. 0) size) members)"
proof -
  have "(name, v) \<in> set members" using assms by simp
  then show ?thesis by (induction members) auto
qed

function canonical :: "js_value \<Rightarrow> js_value" where
  "canonical (JArr items) = JArr (map canonical items)"
| "canonical (JObj members) = JObj (map (\<lambda>(name, v). (name, canonical v)) (js_sort by_name members))"
| "canonical JUndefined = JNull"
| "canonical JNull = JNull"
| "canonical (JBool b) = JBool b"
| "canonical (JNum n) = JNum n"
| "canonical (JStr s) = JStr s"
  by pat_completeness auto
termination
  by (relation "measure size") (auto dest: member_smaller simp: less_Suc_eq_le size_list_estimation')

definition or_undefined :: "js_value option \<Rightarrow> js_value" where
  "or_undefined v = (case v of None \<Rightarrow> JUndefined | Some u \<Rightarrow> u)"

definition input_part :: "(validated_input \<Rightarrow> js_value option) \<Rightarrow> chain_context \<Rightarrow> js_value" where
  "input_part part cx = (case cx_input cx of None \<Rightarrow> JUndefined | Some input \<Rightarrow> or_undefined (part input))"

definition asked :: "chain_context \<Rightarrow> string \<Rightarrow> string option \<Rightarrow> js_value" where
  "asked cx operationId upload =
     JArr ([js_text operationId,
            (case cx_tenant cx of None \<Rightarrow> JNull | Some tenant \<Rightarrow> js_text (rt_workspaceId tenant)),
            input_part vi_params cx, input_part vi_query cx, input_part vi_body cx] @
           (case upload of None \<Rightarrow> [] | Some digest \<Rightarrow> [js_text digest]))"

definition requestHash :: "digests \<Rightarrow> chain_context \<Rightarrow> string \<Rightarrow> string option \<Rightarrow> string" where
  "requestHash dg cx operationId upload = dg_sha256 dg (dg_stringify dg (canonical (asked cx operationId upload)))"

definition length_prefixed :: "string \<Rightarrow> string" where
  "length_prefixed octets = js_to_string 10 (length octets) @ '':'' @ octets"

definition part_text :: "string \<times> bool \<times> string \<Rightarrow> string" where
  "part_text part = (let (name, file, content) = part in length_prefixed name @ (if file then ''f'' else ''s'') @ length_prefixed content)"

definition uploadDigest :: "digests \<Rightarrow> http_request \<Rightarrow> string" where
  "uploadDigest dg request =
     (case dg_formData dg request of
        Some parts \<Rightarrow> ''parts:'' @ dg_sha256 dg (concat (map part_text parts))
      | None \<Rightarrow> ''bytes:'' @ dg_sha256 dg (body_octets request))"

section \<open>Stage 9a\<close>

text \<open>
  The world of the chain: the keys and the other data of the database, which a transaction writes and rolls back together, its
  clock, and everything else (the buckets, the sessions, the challenges), which no rollback touches. \<open>cw_busy\<close> says whether
  another request holds the key beyond the wait.
\<close>

record ('d, 'o) chain_world =
  cw_keys :: idempotency_keys
  cw_data :: 'd
  cw_now :: int
  cw_busy :: "string \<times> string \<Rightarrow> bool"
  cw_other :: 'o

definition rolled_back :: "('d, 'o) chain_world \<Rightarrow> ('d, 'o) chain_world \<Rightarrow> ('d, 'o) chain_world" where
  "rolled_back before after = after\<lparr>cw_keys := cw_keys before, cw_data := cw_data before\<rparr>"

type_synonym 'w runner = "chain_context \<Rightarrow> 'w \<Rightarrow> (http_error + http_response) \<times> chain_context \<times> 'w"

definition IDEMPOTENCY_KEY_HEADER :: string where
  "IDEMPOTENCY_KEY_HEADER = ''idempotency-key''"

definition IDEMPOTENCY_REPLAYED_HEADER :: string where
  "IDEMPOTENCY_REPLAYED_HEADER = ''idempotency-replayed''"

definition replay_response :: "stored_response \<Rightarrow> http_response" where
  "replay_response stored =
     (if sr_body stored = JNull then
        \<lparr>rs_status = sr_status stored, rs_headers = [(IDEMPOTENCY_REPLAYED_HEADER, ''true'')], rs_body = NoBody\<rparr>
      else
        \<lparr>rs_status = sr_status stored,
         rs_headers = [(''content-type'', ''application/json; charset=utf-8''), (IDEMPOTENCY_REPLAYED_HEADER, ''true'')],
         rs_body = JsonBody (sr_body stored)\<rparr>)"

definition storable_response :: "http_response \<Rightarrow> http_error + stored_response" where
  "storable_response response =
     (case rs_body response of
        NoBody \<Rightarrow> Inr \<lparr>sr_status = rs_status response, sr_body = JNull\<rparr>
      | JsonBody v \<Rightarrow> Inr \<lparr>sr_status = rs_status response, sr_body = v\<rparr>
      | BytesBody _ \<Rightarrow> Inl (UnexpectedError (NamedError ''SyntaxError'' ''JSON.parse'')))"

definition successful :: "http_response \<Rightarrow> bool" where
  "successful response \<longleftrightarrow> \<not> (rs_status response < 200 \<or> rs_status response > 299)"

definition idempotency_conflict :: http_error where
  "idempotency_conflict = problem_error ''idempotency_conflict'' ''Idempotency-Key was used for another request.''"

text \<open>The handler in the transaction of the claim: its response is stored in the commit, or everything is rolled back.\<close>

definition run_claimed ::
    "string \<Rightarrow> idempotency_claim \<Rightarrow> idempotency_keys \<Rightarrow> ('d, 'o) chain_world runner \<Rightarrow> ('d, 'o) chain_world runner" where
  "run_claimed accountId claim keys handler cx w =
     (case handler cx (w\<lparr>cw_keys := keys\<rparr>) of
        (Inl e, cx', w') \<Rightarrow> (Inl e, cx', rolled_back w w')
      | (Inr response, cx', w') \<Rightarrow>
          if \<not> successful response then (Inr response, cx', rolled_back w w')
          else (case storable_response response of
                  Inl e \<Rightarrow> (Inl e, cx', rolled_back w w')
                | Inr stored \<Rightarrow>
                    (case complete_key accountId (ic_key claim) stored (cw_keys w') of
                       Inl e \<Rightarrow> (Inl (UnexpectedError e), cx', rolled_back w w')
                     | Inr keys' \<Rightarrow> (Inr response, cx', w'\<lparr>cw_keys := keys'\<rparr>))))"

text \<open>
  The claim on the keys as they are when it is decided. A request whose key another transaction holds waits for that transaction in the
  database: either the wait is given up (\<open>cw_busy\<close>), or it ends and the claim is decided on the keys that transaction left, which are then
  those of the state here. The wait itself, with what other requests do meanwhile, is in the steps of concurrent requests below.
\<close>

definition in_transaction ::
    "string \<Rightarrow> idempotency_claim \<Rightarrow> ('d, 'o) chain_world runner \<Rightarrow> ('d, 'o) chain_world runner" where
  "in_transaction accountId claim handler cx w =
     (if cw_busy w (accountId, ic_key claim) then
        (Inl (problem_error ''unavailable'' ''A request with this Idempotency-Key is still running.''), cx, w)
      else case claim_key accountId claim (cw_now w) (cw_keys w) of
        Inl e \<Rightarrow> (Inl (UnexpectedError e), cx, w)
      | Inr (Conflict, _) \<Rightarrow> (Inl idempotency_conflict, cx, w)
      | Inr (Replay stored, _) \<Rightarrow> (Inr (replay_response stored), cx, w)
      | Inr (Claimed, keys) \<Rightarrow> run_claimed accountId claim keys handler cx w)"

definition acts_in_workspace :: "operation_definition \<Rightarrow> bool" where
  "acts_in_workspace operation \<longleftrightarrow> op_auth operation \<in> {AuthMember, AuthAdmin, AuthOwner}"

definition claim_of :: "digests \<Rightarrow> chain_context \<Rightarrow> matched_route \<Rightarrow> string \<Rightarrow> idempotency_claim" where
  "claim_of dg cx route given =
     (let operationId = op_operationId (mr_operation route)
      in \<lparr>ic_key = js_lower given, ic_operation = operationId,
          ic_requestHash =
            requestHash dg cx operationId (if mr_acceptsMultipart route then Some (uploadDigest dg (cx_request cx)) else None)\<rparr>)"

definition createIdempotency :: "digests \<Rightarrow> ('d, 'o) chain_world runner \<Rightarrow> ('d, 'o) chain_world runner" where
  "createIdempotency dg handler cx w =
     (case (cx_route cx, header IDEMPOTENCY_KEY_HEADER (cx_request cx)) of
        (Some route, Some given) \<Rightarrow>
          if \<not> op_idempotency (mr_operation route) then handler cx w
          else if \<not> uuid_pattern given then (Inl (problem_error ''bad_request'' ''Idempotency-Key must be a single UUID.''), cx, w)
          else (case cx_principal cx of
                  None \<Rightarrow> (Inl (UnexpectedError (JsError ''declares idempotency and was reached without a principal'')), cx, w)
                | Some who \<Rightarrow>
                    if acts_in_workspace (mr_operation route) \<and> cx_tenant cx = None then
                      (Inl (UnexpectedError (JsError ''declares idempotency in a workspace and was reached without one'')), cx, w)
                    else in_transaction (js_lower (principal_accountId who)) (claim_of dg cx route given) handler cx w)
      | _ \<Rightarrow> handler cx w)"

section \<open>Concurrent requests\<close>

text \<open>
  The requests of all processes on one database. A transaction begins at \<open>ir_started\<close> and claims its key at
  \<open>ir_claimedAt\<close>; it holds the key until it commits the response or rolls back, and a claim of a key that is held waits, so it
  is made when the key is free again or not at all (\<open>Busy\<close>). The purge deletes expired rows no transaction holds
  (\<open>packages/db/src/sql/110-retention-purge.sql\<close>).
\<close>

record idem_run =
  ir_account :: string
  ir_claim :: idempotency_claim
  ir_started :: int
  ir_claimedAt :: int

datatype idem_event =
    Ran idem_run stored_response | Replayed idem_run stored_response | Conflicted idem_run | RolledBack idem_run | Busy idem_run

record idem_state =
  is_keys :: idempotency_keys
  is_running :: "idem_run list"
  is_log :: "idem_event list"
  is_now :: int

definition run_key :: "idem_run \<Rightarrow> string \<times> string" where
  "run_key r = (ir_account r, ic_key (ir_claim r))"

definition key_free :: "idem_state \<Rightarrow> string \<times> string \<Rightarrow> bool" where
  "key_free s k \<longleftrightarrow> (\<forall>r \<in> set (is_running s). run_key r \<noteq> k)"

definition purge_expired :: "(string \<times> string) list \<Rightarrow> int \<Rightarrow> idempotency_keys \<Rightarrow> idempotency_keys" where
  "purge_expired batch now keys =
     (\<lambda>k. case keys k of None \<Rightarrow> None | Some row \<Rightarrow> if k \<in> set batch \<and> ik_expiresAt row \<le> now then None else Some row)"

definition logged :: "idem_event \<Rightarrow> idem_state \<Rightarrow> idem_state" where
  "logged event s = s\<lparr>is_log := event # is_log s\<rparr>"

inductive idem_step :: "idem_state \<Rightarrow> idem_state \<Rightarrow> bool" where
  clock: "is_now s \<le> now \<Longrightarrow> idem_step s (s\<lparr>is_now := now\<rparr>)"
| purge: "\<forall>k \<in> set batch. key_free s k \<Longrightarrow> idem_step s (s\<lparr>is_keys := purge_expired batch (is_now s) (is_keys s)\<rparr>)"
| claimed: "key_free s (run_key r) \<Longrightarrow> ir_started r \<le> is_now s \<Longrightarrow> ir_claimedAt r = is_now s \<Longrightarrow>
    claim_key (ir_account r) (ir_claim r) (ir_started r) (is_keys s) = Inr (Claimed, keys) \<Longrightarrow>
    idem_step s (s\<lparr>is_running := r # is_running s\<rparr>)"
| replayed: "key_free s (run_key r) \<Longrightarrow> ir_started r \<le> is_now s \<Longrightarrow> ir_claimedAt r = is_now s \<Longrightarrow>
    claim_key (ir_account r) (ir_claim r) (ir_started r) (is_keys s) = Inr (Replay response, keys) \<Longrightarrow>
    idem_step s (logged (Replayed r response) s)"
| conflict: "key_free s (run_key r) \<Longrightarrow> ir_started r \<le> is_now s \<Longrightarrow> ir_claimedAt r = is_now s \<Longrightarrow>
    claim_key (ir_account r) (ir_claim r) (ir_started r) (is_keys s) = Inr (Conflict, keys) \<Longrightarrow>
    idem_step s (logged (Conflicted r) s)"
| busy: "\<not> key_free s (run_key r) \<Longrightarrow> idem_step s (logged (Busy r) s)"
| commit: "r \<in> set (is_running s) \<Longrightarrow>
    claim_insert (ir_account r) (ir_claim r) (ir_started r) (is_keys s) = Some keys \<Longrightarrow>
    complete_key (ir_account r) (ic_key (ir_claim r)) response keys = Inr keys' \<Longrightarrow>
    idem_step s (logged (Ran r response) (s\<lparr>is_keys := keys', is_running := remove1 r (is_running s)\<rparr>))"
| rollback: "r \<in> set (is_running s) \<Longrightarrow>
    idem_step s (logged (RolledBack r) (s\<lparr>is_running := remove1 r (is_running s)\<rparr>))"

inductive_cases idem_stepE: "idem_step s s'"

definition idem_initial :: "int \<Rightarrow> idem_state" where
  "idem_initial now = \<lparr>is_keys = Map.empty, is_running = [], is_log = [], is_now = now\<rparr>"

inductive idem_reachable :: "int \<Rightarrow> idem_state \<Rightarrow> bool" for now where
  initial: "idem_reachable now (idem_initial now)"
| step: "idem_reachable now s \<Longrightarrow> idem_step s s' \<Longrightarrow> idem_reachable now s'"

text \<open>Every committed row carries a response that was answered when its request ran; a run that was answered is still on record or expired.\<close>

definition row_recorded :: "idem_event list \<Rightarrow> string \<times> string \<Rightarrow> idempotency_row \<Rightarrow> bool" where
  "row_recorded entries k row \<longleftrightarrow>
     (\<exists>r response. Ran r response \<in> set entries \<and> run_key r = k \<and> ik_operation row = ic_operation (ir_claim r) \<and>
        ik_requestHash row = ic_requestHash (ir_claim r) \<and> ik_response row = Some response \<and> ik_expiresAt row = ir_started r + EXPIRY)"

definition run_settled :: "idem_state \<Rightarrow> idem_run \<Rightarrow> bool" where
  "run_settled s r \<longleftrightarrow>
     ir_started r + EXPIRY \<le> is_now s \<or> (\<exists>row. is_keys s (run_key r) = Some row \<and> ik_expiresAt row = ir_started r + EXPIRY)"

text \<open>In the log, newest first: a run was claimed when every earlier run of its key had expired; a replay repeats an earlier run.\<close>

fun log_ok :: "idem_event list \<Rightarrow> bool" where
  "log_ok [] \<longleftrightarrow> True"
| "log_ok (Ran q response # earlier) \<longleftrightarrow> log_ok earlier \<and>
     (\<forall>r answer. Ran r answer \<in> set earlier \<longrightarrow> run_key r = run_key q \<longrightarrow> ir_started r + EXPIRY \<le> ir_claimedAt q)"
| "log_ok (Replayed q response # earlier) \<longleftrightarrow> log_ok earlier \<and>
     (\<exists>r. Ran r response \<in> set earlier \<and> run_key r = run_key q \<and> ic_operation (ir_claim r) = ic_operation (ir_claim q) \<and>
        ic_requestHash (ir_claim r) = ic_requestHash (ir_claim q))"
| "log_ok (_ # earlier) \<longleftrightarrow> log_ok earlier"

definition idem_inv :: "idem_state \<Rightarrow> bool" where
  "idem_inv s \<longleftrightarrow>
     distinct (map run_key (is_running s)) \<and>
     (\<forall>k row. is_keys s k = Some row \<longrightarrow> row_recorded (is_log s) k row) \<and>
     (\<forall>r response. Ran r response \<in> set (is_log s) \<longrightarrow> run_settled s r) \<and>
     (\<forall>q \<in> set (is_running s). ir_claimedAt q \<le> is_now s \<and>
        (\<forall>row. is_keys s (run_key q) = Some row \<longrightarrow> ik_expiresAt row \<le> ir_started q) \<and>
        (\<forall>r response. Ran r response \<in> set (is_log s) \<longrightarrow> run_key r = run_key q \<longrightarrow> ir_started r + EXPIRY \<le> ir_claimedAt q)) \<and>
     log_ok (is_log s)"

lemma claim_insert_Some:
  "claim_insert accountId claim now keys = Some keys' \<longleftrightarrow>
     (case keys (accountId, ic_key claim) of None \<Rightarrow> True | Some old \<Rightarrow> ik_expiresAt old \<le> now) \<and>
     keys' = keys((accountId, ic_key claim) \<mapsto>
       \<lparr>ik_operation = ic_operation claim, ik_requestHash = ic_requestHash claim, ik_response = None, ik_expiresAt = now + EXPIRY\<rparr>)"
  by (auto simp: claim_insert_def Let_def split: option.splits)

lemma claim_key_cases:
  "claim_key accountId claim now keys = Inr (Claimed, keys') \<longleftrightarrow> claim_insert accountId claim now keys = Some keys'"
  "claim_key accountId claim now keys = Inr (Replay response, keys') \<longleftrightarrow>
     claim_insert accountId claim now keys = None \<and> keys' = keys \<and>
     (\<exists>row. keys (accountId, ic_key claim) = Some row \<and> ik_operation row = ic_operation claim \<and>
        ik_requestHash row = ic_requestHash claim \<and> ik_response row = Some response)"
  by (auto simp: claim_key_def split: option.splits if_splits)

lemma row_recorded_mono: "row_recorded entries k row \<Longrightarrow> row_recorded (event # entries) k row"
  unfolding row_recorded_def by (metis list.set_intros(2))

lemma idem_invD:
  assumes "idem_inv s"
  shows "log_ok (is_log s)" "q \<in> set (is_running s) \<Longrightarrow> ir_claimedAt q \<le> is_now s"
    "q \<in> set (is_running s) \<Longrightarrow> Ran r response \<in> set (is_log s) \<Longrightarrow> run_key r = run_key q \<Longrightarrow> ir_started r + EXPIRY \<le> ir_claimedAt q"
    "is_keys s k = Some row \<Longrightarrow> row_recorded (is_log s) k row" "Ran r response \<in> set (is_log s) \<Longrightarrow> run_settled s r"
    "q \<in> set (is_running s) \<Longrightarrow> is_keys s (run_key q) = Some row \<Longrightarrow> ik_expiresAt row \<le> ir_started q"
    "distinct (map run_key (is_running s))"
  using assms unfolding idem_inv_def by blast+

lemma idem_invI:
  assumes "distinct (map run_key (is_running s))" "\<And>k row. is_keys s k = Some row \<Longrightarrow> row_recorded (is_log s) k row"
    "\<And>r response. Ran r response \<in> set (is_log s) \<Longrightarrow> run_settled s r"
    "\<And>q. q \<in> set (is_running s) \<Longrightarrow> ir_claimedAt q \<le> is_now s"
    "\<And>q row. q \<in> set (is_running s) \<Longrightarrow> is_keys s (run_key q) = Some row \<Longrightarrow> ik_expiresAt row \<le> ir_started q"
    "\<And>q r response. q \<in> set (is_running s) \<Longrightarrow> Ran r response \<in> set (is_log s) \<Longrightarrow> run_key r = run_key q \<Longrightarrow>
       ir_started r + EXPIRY \<le> ir_claimedAt q"
    "log_ok (is_log s)"
  shows "idem_inv s"
  using assms unfolding idem_inv_def by blast

lemma idem_inv_initial: "idem_inv (idem_initial now)"
  by (simp add: idem_inv_def idem_initial_def)

text \<open>An event that is no run changes nothing the invariant reads but the log.\<close>

lemma idem_inv_logged:
  assumes inv: "idem_inv s" and ev: "\<And>r response. event \<noteq> Ran r response" and ok: "log_ok (event # is_log s)"
  shows "idem_inv (logged event s)"
proof -
  have ran: "Ran r response \<in> set (is_log (logged event s)) \<Longrightarrow> Ran r response \<in> set (is_log s)" for r response
    using ev [of r response] by (auto simp: logged_def)
  show ?thesis
  proof (rule idem_invI)
    show "row_recorded (is_log (logged event s)) k row" if "is_keys (logged event s) k = Some row" for k row
      using row_recorded_mono [OF idem_invD(4) [OF inv]] that by (simp add: logged_def)
    show "run_settled (logged event s) r" if "Ran r response \<in> set (is_log (logged event s))" for r response
      using idem_invD(5) [OF inv ran [OF that]] by (simp add: logged_def run_settled_def)
    show "ir_started r + EXPIRY \<le> ir_claimedAt q"
      if "q \<in> set (is_running (logged event s))" "Ran r response \<in> set (is_log (logged event s))" "run_key r = run_key q" for q r response
      using idem_invD(3) [OF inv _ ran [OF that(2)] that(3)] that(1) by (simp add: logged_def)
  qed (use idem_invD [OF inv] ok in \<open>auto simp: logged_def\<close>)
qed

text \<open>A state with the same clock and log whose runs are among those of another, and whose rows are, but for expired ones.\<close>

lemma idem_inv_smaller:
  assumes inv: "idem_inv s" and log: "is_log t = is_log s" and now: "is_now s \<le> is_now t"
    and running: "set (is_running t) \<subseteq> set (is_running s)" "distinct (map run_key (is_running t))"
    and keys: "\<And>k row. is_keys t k = Some row \<Longrightarrow> is_keys s k = Some row"
      "\<And>k row. is_keys s k = Some row \<Longrightarrow> is_keys t k = None \<Longrightarrow> ik_expiresAt row \<le> is_now t"
  shows "idem_inv t"
proof (rule idem_invI)
  show "run_settled t r" if "Ran r response \<in> set (is_log t)" for r response
  proof -
    have "run_settled s r" using idem_invD(5) [OF inv] that log by simp
    then consider "ir_started r + EXPIRY \<le> is_now s" | row where "is_keys s (run_key r) = Some row" "ik_expiresAt row = ir_started r + EXPIRY"
      by (auto simp: run_settled_def)
    then show ?thesis
    proof cases
      case 2
      then show ?thesis
        using keys(1) [of "run_key r"] keys(2) [of "run_key r" row] by (cases "is_keys t (run_key r)") (auto simp: run_settled_def)
    qed (use now in \<open>simp add: run_settled_def\<close>)
  qed
  show "ir_claimedAt q \<le> is_now t" if "q \<in> set (is_running t)" for q
    using order_trans [OF idem_invD(2) [OF inv] now] running(1) that by blast
qed (use idem_invD [OF inv] log running keys(1) in \<open>auto simp: subset_iff\<close>)

lemma idem_inv_remove:
  assumes "idem_inv s"
  shows "idem_inv (s\<lparr>is_running := remove1 r (is_running s)\<rparr>)"
proof (rule idem_inv_smaller [OF assms])
  show "distinct (map run_key (is_running (s\<lparr>is_running := remove1 r (is_running s)\<rparr>)))"
    using idem_invD(7) [OF assms] by (simp add: distinct_map inj_on_diff)
qed (simp_all add: set_remove1_subset)

lemma idem_inv_clock: "idem_inv s \<Longrightarrow> is_now s \<le> now \<Longrightarrow> idem_inv (s\<lparr>is_now := now\<rparr>)"
  by (rule idem_inv_smaller [of s]) (auto dest: idem_invD(7))

lemma idem_inv_purge: "idem_inv s \<Longrightarrow> idem_inv (s\<lparr>is_keys := purge_expired batch (is_now s) (is_keys s)\<rparr>)"
  by (rule idem_inv_smaller [of s]) (auto dest: idem_invD(7) simp: purge_expired_def split: option.splits if_splits)

lemma idem_inv_claimed:
  assumes inv: "idem_inv s" and free: "key_free s (run_key r)" and now: "ir_started r \<le> is_now s" "ir_claimedAt r = is_now s"
    and ins: "claim_insert (ir_account r) (ir_claim r) (ir_started r) (is_keys s) = Some keys"
  shows "idem_inv (s\<lparr>is_running := r # is_running s\<rparr>)"
proof -
  have old: "ik_expiresAt row \<le> ir_started r" if "is_keys s (run_key r) = Some row" for row
    using ins that by (simp add: claim_insert_Some run_key_def)
  have new: "ir_started q + EXPIRY \<le> is_now s" if "Ran q response \<in> set (is_log s)" "run_key q = run_key r" for q response
    using idem_invD(5) [OF inv that(1)] old now(1) that(2) by (fastforce simp: run_settled_def)
  show ?thesis
    by (rule idem_invI)
       (use idem_invD(1,3,4,7) [OF inv] idem_invD(2,5,6) [OF inv] old new now free in
         \<open>auto simp: key_free_def run_settled_def\<close>)
qed

lemma idem_inv_commit:
  assumes inv: "idem_inv s" and run: "r \<in> set (is_running s)"
    and ins: "claim_insert (ir_account r) (ir_claim r) (ir_started r) (is_keys s) = Some keys"
    and com: "complete_key (ir_account r) (ic_key (ir_claim r)) response keys = Inr keys'"
  shows "idem_inv (logged (Ran r response) (s\<lparr>is_keys := keys', is_running := remove1 r (is_running s)\<rparr>))" (is "idem_inv ?s")
proof -
  let ?row = "\<lparr>ik_operation = ic_operation (ir_claim r), ik_requestHash = ic_requestHash (ir_claim r), ik_response = Some response,
                ik_expiresAt = ir_started r + EXPIRY\<rparr>"
  have keys': "keys' = (is_keys s)(run_key r \<mapsto> ?row)"
    using ins com by (auto simp: claim_insert_Some complete_key_def run_key_def split: option.splits if_splits)
  note dist = idem_invD(7) [OF inv]
  have others: "q \<in> set (is_running s) \<and> run_key q \<noteq> run_key r" if "q \<in> set (is_running ?s)" for q
    using that dist run by (auto simp: distinct_map inj_on_def logged_def)
  have earlier: "ir_started q + EXPIRY \<le> ir_claimedAt r" "ir_claimedAt r \<le> is_now s"
    if "Ran q answer \<in> set (is_log s)" "run_key q = run_key r" for q answer
    using idem_invD(2,3) [OF inv run] that by blast+
  show ?thesis
  proof (rule idem_invI)
    show "row_recorded (is_log ?s) k row" if row: "is_keys ?s k = Some row" for k row
    proof (cases "k = run_key r")
      case True
      with row have "row = ?row" by (simp add: keys' logged_def)
      with True show ?thesis by (auto simp: row_recorded_def logged_def)
    next
      case False
      with row have "is_keys s k = Some row" by (simp add: keys' logged_def)
      from row_recorded_mono [OF idem_invD(4) [OF inv this]] show ?thesis by (simp add: logged_def)
    qed
    show "run_settled ?s q" if "Ran q answer \<in> set (is_log ?s)" for q answer
    proof (cases "run_key q = run_key r")
      case True
      with that earlier show ?thesis by (force simp: run_settled_def logged_def keys')
    next
      case False
      with that have "run_settled s q" using idem_invD(5) [OF inv] by (auto simp: logged_def)
      with False show ?thesis by (simp add: run_settled_def logged_def keys')
    qed
    show "ir_started p + EXPIRY \<le> ir_claimedAt q"
      if q: "q \<in> set (is_running ?s)" and "Ran p answer \<in> set (is_log ?s)" "run_key p = run_key q" for q p answer
      using others [OF q] that(2,3) idem_invD(3) [OF inv] by (auto simp: logged_def)
    show "ir_claimedAt q \<le> is_now ?s" if "q \<in> set (is_running ?s)" for q
      using idem_invD(2) [OF inv] others [OF that] by (simp add: logged_def)
    show "ik_expiresAt row \<le> ir_started q" if "q \<in> set (is_running ?s)" "is_keys ?s (run_key q) = Some row" for q row
      using idem_invD(6) [OF inv] others [OF that(1)] that(2) by (simp add: logged_def keys')
    show "distinct (map run_key (is_running ?s))"
      using dist by (simp add: logged_def distinct_map inj_on_diff)
    show "log_ok (is_log ?s)"
      using idem_invD(1) [OF inv] earlier(1) by (simp add: logged_def)
  qed
qed

lemma idem_inv_replayed:
  assumes "idem_inv s" "claim_key (ir_account r) (ir_claim r) (ir_started r) (is_keys s) = Inr (Replay response, keys)"
  shows "idem_inv (logged (Replayed r response) s)"
proof (rule idem_inv_logged [OF assms(1)])
  obtain row where "is_keys s (run_key r) = Some row" "ik_operation row = ic_operation (ir_claim r)"
    "ik_requestHash row = ic_requestHash (ir_claim r)" "ik_response row = Some response"
    using assms(2) by (auto simp: claim_key_cases run_key_def)
  then show "log_ok (Replayed r response # is_log s)"
    using idem_invD(1,4) [OF assms(1)] by (fastforce simp: row_recorded_def)
qed simp

lemma idem_inv_step:
  assumes "idem_inv s" "idem_step s s'"
  shows "idem_inv s'"
  using assms(2)
proof (cases rule: idem_step.cases)
  case (clock now)
  with assms(1) show ?thesis by (simp add: idem_inv_clock)
next
  case (purge batch)
  with assms(1) show ?thesis by (simp add: idem_inv_purge)
next
  case (claimed r keys)
  with assms(1) idem_inv_claimed show ?thesis by (simp add: claim_key_cases)
next
  case (replayed r response keys)
  with assms(1) idem_inv_replayed show ?thesis by simp
next
  case (commit r keys response keys')
  with assms(1) idem_inv_commit show ?thesis by simp
next
  case (rollback r)
  have "log_ok (is_log (s\<lparr>is_running := remove1 r (is_running s)\<rparr>))" using idem_invD(1) [OF assms(1)] by simp
  then show ?thesis using rollback idem_inv_logged [OF idem_inv_remove [OF assms(1)], of "RolledBack r" r] by simp
qed (simp_all add: idem_inv_logged [OF assms(1)] idem_invD(1) [OF assms(1)])

lemma idem_inv_reachable: "idem_reachable now s \<Longrightarrow> idem_inv s"
  by (induction rule: idem_reachable.induct) (auto intro: idem_inv_initial idem_inv_step)

end
