(* ===== verification/HttpChain.thy ===== *)
theory HttpChain
  imports Idempotency
begin

text \<open>
  The chain of one request (\<open>installChain\<close> of \<open>packages/server/src/http/chain.ts\<close>): the request stages in their fixed order, the
  handler, the response stages. A stage that calls \<open>next\<close> first and works on the answer afterwards (the security headers, the
  idempotency keys) is a function around the rest of the chain.
\<close>

record ('d, 'o) chain_dependencies =
  cd_platform :: platform
  cd_strict :: "schema \<Rightarrow> schema"
  cd_digests :: digests
  cd_routes :: "compiled_route list"
  cd_handlers :: "string \<Rightarrow> ('d, 'o) chain_world runner"
  cd_trustedProxyHops :: nat
  cd_origin :: string
  cd_https :: bool
  cd_challenge :: "('d, 'o) chain_world challenge"
  cd_limiter :: "('d, 'o) chain_world limiter"
  cd_rateLimits :: rate_limit_registry
  cd_authenticators :: "('d, 'o) chain_world authenticator list"
  cd_accessMode :: "('d, 'o) chain_world access_mode_source"
  cd_tenantResolver :: "('d, 'o) chain_world tenant_resolver"
  cd_authorization :: "('d, 'o) chain_world authorization_options"
  cd_responseValidation :: response_validation

section \<open>The stages in order\<close>

text \<open>Stage 4 is the authentication with the access-mode check as its \<open>next\<close>.\<close>

definition authentication_stage :: "('d, 'o) chain_dependencies \<Rightarrow> ('d, 'o) chain_world stage" where
  "authentication_stage cd = run_stages [createAuthentication (cd_authenticators cd), createAccessModeCheck (cd_accessMode cd)]"

definition before_authentication :: "('d, 'o) chain_dependencies \<Rightarrow> ('d, 'o) chain_world stage list" where
  "before_authentication cd =
     [requestContextStage (cd_platform cd) (cd_trustedProxyHops cd),
      bodyLimits (cd_platform cd),
      ipStage (pf_isIP (cd_platform cd)) (cd_rateLimits cd) (cd_limiter cd)]"

definition after_authentication :: "('d, 'o) chain_dependencies \<Rightarrow> ('d, 'o) chain_world stage list" where
  "after_authentication cd =
     [createCrossSiteProtection (cd_origin cd) (cd_challenge cd),
      rateStage (pf_isIP (cd_platform cd)) (cd_rateLimits cd) (cd_limiter cd),
      createTenantResolution (cd_tenantResolver cd),
      validation (cd_platform cd) (cd_strict cd),
      createAuthorization (cd_authorization cd)]"

definition REQUEST_STAGES :: "('d, 'o) chain_dependencies \<Rightarrow> ('d, 'o) chain_world stage list" where
  "REQUEST_STAGES cd = before_authentication cd @ authentication_stage cd # after_authentication cd"

section \<open>The handler\<close>

definition notFoundProblem :: "chain_context \<Rightarrow> http_response" where
  "notFoundProblem cx = problem_response (requestIdOf cx) ''not_found'' (MAPPED_DETAILS ''not_found'')"

definition handler_stage :: "('d, 'o) chain_dependencies \<Rightarrow> ('d, 'o) chain_world runner" where
  "handler_stage cd cx w =
     (case cx_route cx of
        None \<Rightarrow> (Inr (notFoundProblem cx), cx, w)
      | Some route \<Rightarrow> cd_handlers cd (op_operationId (mr_operation route)) cx w)"

text \<open>\<open>dispatch(0)\<close>: what the stages, the idempotency stage and the handler answer together.\<close>

definition dispatch :: "('d, 'o) chain_dependencies \<Rightarrow> ('d, 'o) chain_world runner" where
  "dispatch cd cx w =
     (case run_stages (REQUEST_STAGES cd) cx w of
        (Inl e, cx', w') \<Rightarrow> (Inl e, cx', w')
      | (Inr (Answer response), cx', w') \<Rightarrow> (Inr response, cx', w')
      | (Inr CallNext, cx', w') \<Rightarrow> createIdempotency (cd_digests cd) (handler_stage cd) cx' w')"

section \<open>The answer\<close>

definition fail_response :: "('d, 'o) chain_dependencies \<Rightarrow> chain_context \<Rightarrow> http_error \<Rightarrow> http_response" where
  "fail_response cd cx e = security_apply (cd_https cd) cx (failRequest (requestIdOf cx) e)"

definition declared_responses :: "chain_context \<Rightarrow> (nat \<times> declared_response) list option" where
  "declared_responses cx = map_option op_responses (operation_of cx)"

definition initial_context :: "('d, 'o) chain_dependencies \<Rightarrow> string \<Rightarrow> http_request \<Rightarrow> chain_context" where
  "initial_context cd freshId request =
     \<lparr>cx_freshId = freshId, cx_requestId = None, cx_request = request,
      cx_route = match_route (cd_routes cd) (hr_method request) (hr_path request), cx_clientIp = None, cx_principal = None,
      cx_rateLimit = None, cx_handlerLimits = NoHandlerLimits, cx_tenant = None, cx_input = None\<rparr>"

text \<open>\<open>finish\<close>: the answer carries the request ID.\<close>

definition finish_request :: "chain_context \<Rightarrow> http_response \<Rightarrow> http_response" where
  "finish_request cx response =
     (case cx_requestId cx of
        None \<Rightarrow> response
      | Some requestId \<Rightarrow>
          if response_header REQUEST_ID_HEADER response = Some requestId then response
          else set_headers [(REQUEST_ID_HEADER, requestId)] response)"

text \<open>Before the response stages: the security headers are on whatever answered, then the headers of the buckets.\<close>

definition answered :: "('d, 'o) chain_dependencies \<Rightarrow> chain_context \<Rightarrow> http_error + http_response \<Rightarrow> http_response" where
  "answered cd cx result =
     rate_apply cx
       (case result of
          Inl e \<Rightarrow> fail_response cd cx e
        | Inr response \<Rightarrow> security_apply (cd_https cd) cx response)"

definition checked :: "('d, 'o) chain_dependencies \<Rightarrow> chain_context \<Rightarrow> http_response \<Rightarrow> http_response" where
  "checked cd cx response =
     (case responseStage (cd_responseValidation cd) (declared_responses cx) response of
        Inl e \<Rightarrow> fail_response cd cx e
      | Inr sent \<Rightarrow> sent)"

definition serve :: "('d, 'o) chain_dependencies \<Rightarrow> string \<Rightarrow> http_request \<Rightarrow> ('d, 'o) chain_world \<Rightarrow> http_response \<times> ('d, 'o) chain_world" where
  "serve cd freshId request w =
     (let (result, cx, w') = dispatch cd (initial_context cd freshId request) w
      in (finish_request cx (checked cd cx (answered cd cx result)), w'))"

end
