(* ===== verification/HttpLaws.thy ===== *)
theory HttpLaws
  imports HttpChain
begin

text \<open>
  What each stage of the chain guarantees when it calls \<open>next\<close>, and what it leaves alone: the lemmas the properties of the whole
  chain rest on.
\<close>

section \<open>Running stages\<close>

lemma run_stages_next [simp]:
  "run_stages (stage # stages) cx w = (Inr CallNext, cx', w') \<longleftrightarrow>
     (\<exists>cx1 w1. stage cx w = (Inr CallNext, cx1, w1) \<and> run_stages stages cx1 w1 = (Inr CallNext, cx', w'))"
  by (auto split: prod.splits sum.splits stage_result.splits)

lemma run_stages_append:
  "run_stages (xs @ ys) cx w = (Inr CallNext, cx', w') \<longleftrightarrow>
     (\<exists>cx1 w1. run_stages xs cx w = (Inr CallNext, cx1, w1) \<and> run_stages ys cx1 w1 = (Inr CallNext, cx', w'))"
  by (induction xs arbitrary: cx w) (auto simp del: run_stages.simps(2))

text \<open>The headers but for the cookies, and the rest of the request but for the body.\<close>

definition same_request :: "http_request \<Rightarrow> http_request \<Rightarrow> bool" where
  "same_request r r' \<longleftrightarrow>
     hr_method r' = hr_method r \<and> hr_path r' = hr_path r \<and> hr_query r' = hr_query r \<and>
     (\<forall>name. name \<noteq> ''cookie'' \<longrightarrow> header name r' = header name r)"

lemma same_request_refl [simp]: "same_request r r"
  by (simp add: same_request_def)

lemma same_request_trans [trans]: "same_request r s \<Longrightarrow> same_request s t \<Longrightarrow> same_request r t"
  by (simp add: same_request_def)

lemma header_without_cookie [simp]:
  "header name (without_cookie r) = (if name = ''cookie'' then None else header name r)"
proof -
  have "map_of (filter (\<lambda>(n, t). n \<noteq> ''cookie'') hs) name = (if name = ''cookie'' then None else map_of hs name)" for hs :: "(string \<times> string) list"
    by (induction hs) auto
  then show ?thesis by (simp add: header_def without_cookie_def)
qed

lemma same_request_without_cookie [simp]: "same_request r (without_cookie r)"
  by (simp add: same_request_def) (simp add: without_cookie_def)

lemma same_request_body [simp]: "same_request r (r\<lparr>hr_body := b\<rparr>)"
  by (simp add: same_request_def header_def)

lemma body_without_cookie [simp]: "hr_body (without_cookie r) = hr_body r"
  by (simp add: without_cookie_def)

lemma same_request_simps:
  assumes "same_request r r'"
  shows "hr_method r' = hr_method r" "hr_path r' = hr_path r" "hr_query r' = hr_query r"
    "name \<noteq> ''cookie'' \<Longrightarrow> header name r' = header name r" "bearer_request r' = bearer_request r"
    "request_media_type r' = request_media_type r"
  using assms by (auto simp: same_request_def bearer_request_def request_media_type_def)

section \<open>Each stage\<close>

lemma requestContextStage_next:
  assumes "requestContextStage pf hops cx w = (Inr CallNext, cx', w')"
  shows "cx' = cx\<lparr>cx_requestId := cx_requestId cx', cx_clientIp := clientIpOf (pf_isIP pf) (hr_socket (cx_request cx)) (header ''x-forwarded-for'' (cx_request cx)) hops\<rparr>"
    "cx_requestId cx' \<noteq> None" "w' = w"
  using assms by (auto simp: requestContextStage_def)

lemma read_from_concat: "read_from limit got pieces = Some octets \<Longrightarrow> octets = concat pieces \<and> (pieces = [] \<or> got + length octets \<le> limit)"
proof (induction pieces arbitrary: got octets)
  case (Cons piece pieces)
  then obtain rest where rest: "read_from limit (got + length piece) pieces = Some rest" "octets = piece @ rest" "got + length piece \<le> limit"
    by (auto split: if_splits)
  with Cons.IH [OF rest(1)] show ?case by (cases "pieces = []") auto
qed auto

lemma readUpTo_Some: "readUpTo pieces limit = Some octets \<longleftrightarrow> octets = concat pieces \<and> length (concat pieces) \<le> limit"
proof -
  have "read_from limit got pieces = Some (concat pieces)" if "got + length (concat pieces) \<le> limit" for got
    using that by (induction pieces arbitrary: got) auto
  then show ?thesis
    using read_from_concat [of limit 0 pieces octets] by (auto simp: readUpTo_def)
qed

lemma bodyLimits_next:
  assumes "bodyLimits pf cx w = (Inr CallNext, cx', w')"
  shows "cx' = cx\<lparr>cx_request := cx_request cx'\<rparr>" "same_request (cx_request cx) (cx_request cx')"
    "body_octets (cx_request cx') = body_octets (cx_request cx)" "length (body_octets (cx_request cx')) \<le> body_limit cx"
    "hr_headers (cx_request cx') = hr_headers (cx_request cx)" "w' = w"
  using assms
  by (auto simp: bodyLimits_def body_octets_def Let_def readUpTo_Some split: option.splits if_splits)

lemma rate_consume_context:
  assumes "rate_consume registry limiter entries cx w = (r, cx', w')"
  shows "cx' = cx\<lparr>cx_rateLimit := cx_rateLimit cx'\<rparr>"
  using assms by (auto simp: rate_consume_def split: prod.splits sum.splits option.splits if_splits)

lemma rate_take_context:
  assumes "rate_take isIP registry limiter included cx w = (r, cx', w')"
  shows "cx' = cx\<lparr>cx_rateLimit := cx_rateLimit cx'\<rparr>"
  using assms
  by (auto simp: rate_take_def split: prod.splits sum.splits option.splits bool.splits dest!: rate_consume_context)

lemma ipStage_next:
  assumes "ipStage isIP registry limiter cx w = (Inr CallNext, cx', w')"
  shows "cx' = cx\<lparr>cx_rateLimit := cx_rateLimit cx'\<rparr>" "rate_take isIP registry limiter (\<lambda>limit. sl_scope limit = RateIp) cx w = (Inr None, cx', w')"
  using assms
  by (auto simp: ipStage_def split: prod.splits sum.splits option.splits dest: rate_take_context)

lemma rateStage_next:
  assumes "rateStage isIP registry limiter cx w = (Inr CallNext, cx', w')"
  shows "cx' = cx\<lparr>cx_rateLimit := cx_rateLimit cx', cx_handlerLimits := cx_handlerLimits cx'\<rparr>"
    "\<exists>cx1. rate_take isIP registry limiter (\<lambda>limit. sl_scope limit \<noteq> RateIp) cx w = (Inr None, cx1, w')"
  using assms
  by (auto simp: rateStage_def split: prod.splits sum.splits option.splits if_splits dest!: rate_take_context)

text \<open>The limiter grants one token of each entry, one call after the other: the state each call leaves is the state the next one is made in.\<close>

fun granted :: "'w limiter \<Rightarrow> (scope_limit \<times> string) list \<Rightarrow> 'w \<Rightarrow> 'w \<Rightarrow> bool" where
  "granted limiter [] w w' \<longleftrightarrow> w' = w"
| "granted limiter ((limit, key) # entries) w w' \<longleftrightarrow>
     (\<exists>decision w1. limiter (limit_request limit key) w = (Inr decision, w1) \<and> dc_allowed decision \<and> granted limiter entries w1 w')"

lemma consume_granted:
  "consume_entries registry limiter entries so_far w = (Inr (taken, None), w') \<Longrightarrow> granted limiter entries w w'"
  by (induction registry limiter entries so_far w rule: consume_entries.induct)
     (auto split: option.splits sum.splits prod.splits if_splits simp: Let_def)

lemma rate_take_granted:
  assumes "rate_take isIP registry limiter included cx w = (Inr None, cx', w')" "limitedOperation registry cx = Inr (Some (bucket, limits))"
  shows "granted limiter (entries_of isIP cx (filter included limits)) w w'"
  using assms
  by (auto simp: rate_take_def rate_consume_def dest: consume_granted split: prod.splits sum.splits option.splits bool.splits if_splits)

definition accepted_token :: "'w authenticator list \<Rightarrow> string \<Rightarrow> string option \<Rightarrow> api_token_principal \<Rightarrow> bool" where
  "accepted_token authenticators authorization clientIp t \<longleftrightarrow>
     (\<exists>authenticate w. BearerAuthenticator authenticate \<in> set authenticators \<and> fst (authenticate authorization clientIp w) = Inr (Some t))"

definition accepted_session :: "'w authenticator list \<Rightarrow> string \<Rightarrow> session_principal \<Rightarrow> bool" where
  "accepted_session authenticators cookies s \<longleftrightarrow>
     (\<exists>authenticate w. CookieAuthenticator authenticate \<in> set authenticators \<and> fst (authenticate cookies w) = Inr (Some s))"

lemma ask_bearers_accepted:
  "ask_bearers authenticators authorization clientIp w = (Inr (Some t), w') \<Longrightarrow> accepted_token authenticators authorization clientIp t"
proof (induction authenticators authorization clientIp w rule: ask_bearers.induct)
  case (3 authenticate rest authorization clientIp w)
  show ?case
  proof (cases "\<exists>w1. authenticate authorization clientIp w = (Inr None, w1)")
    case True
    with 3 show ?thesis by (fastforce simp: accepted_token_def)
  next
    case False
    with 3(2) have "fst (authenticate authorization clientIp w) = Inr (Some t)"
      by (auto split: prod.splits sum.splits option.splits)
    then show ?thesis unfolding accepted_token_def by (meson list.set_intros(1))
  qed
qed (auto simp: accepted_token_def)

lemma ask_cookies_accepted:
  "ask_cookies authenticators cookies w = (Inr (Some s), w') \<Longrightarrow> accepted_session authenticators cookies s"
proof (induction authenticators cookies w rule: ask_cookies.induct)
  case (3 authenticate rest cookies w)
  show ?case
  proof (cases "\<exists>w1. authenticate cookies w = (Inr None, w1)")
    case True
    with 3 show ?thesis by (fastforce simp: accepted_session_def)
  next
    case False
    with 3(2) have "fst (authenticate cookies w) = Inr (Some s)"
      by (auto split: prod.splits sum.splits option.splits)
    then show ?thesis unfolding accepted_session_def by (meson list.set_intros(1))
  qed
qed (auto simp: accepted_session_def)

text \<open>The credential a principal was derived from: a token from the \<open>Authorization\<close> header, a session from the cookies of a request without one.\<close>

definition credential_of :: "'w authenticator list \<Rightarrow> http_request \<Rightarrow> string option \<Rightarrow> principal \<Rightarrow> bool" where
  "credential_of authenticators request clientIp who \<longleftrightarrow>
     (case who of
        ApiToken t \<Rightarrow> (\<exists>a. header ''authorization'' request = Some a \<and> accepted_token authenticators a clientIp t)
      | Session s \<Rightarrow> header ''authorization'' request = None \<and>
          (\<exists>c. header ''cookie'' request = Some c \<and> accepted_session authenticators c s))"

lemma createAuthentication_next:
  assumes "createAuthentication authenticators cx w = (Inr CallNext, cx', w')"
  shows "cx' = cx\<lparr>cx_principal := cx_principal cx'\<rparr>"
    "cx_principal cx' = cx_principal cx \<or>
      (\<not> resolves_no_credential cx \<and> (\<exists>who. cx_principal cx' = Some who \<and> credential_of authenticators (cx_request cx) (cx_clientIp cx) who))"
  using assms
  by (auto simp: createAuthentication_def credential_of_def split: list.splits if_splits option.splits prod.splits sum.splits
      dest!: ask_bearers_accepted ask_cookies_accepted)

lemma createAccessModeCheck_next:
  assumes "createAccessModeCheck source cx w = (Inr CallNext, cx', w')"
  shows "cx' = cx"
    "cx_principal cx = Some who \<Longrightarrow> operation_of cx = Some operation \<Longrightarrow>
      (\<exists>s. who = Session s \<and> op_operationId operation \<in> set EXPORT_ONLY_OPERATIONS) \<or>
      (\<exists>w0. fst (source (principal_accountId who) w0) = Inr (Some FullAccess))"
proof -
  show "cx' = cx"
    using assms
    by (cases "cx_principal cx"; cases "operation_of cx")
       (auto simp: createAccessModeCheck_def split: if_splits prod.splits sum.splits)
  assume "cx_principal cx = Some who" "operation_of cx = Some operation"
  then show "(\<exists>s. who = Session s \<and> op_operationId operation \<in> set EXPORT_ONLY_OPERATIONS) \<or>
      (\<exists>w0. fst (source (principal_accountId who) w0) = Inr (Some FullAccess))"
    using assms
    by (cases "source (principal_accountId who) w"; cases who)
       (auto simp: createAccessModeCheck_def refuseExportOnly_def split: option.splits if_splits sum.splits access_mode.splits
         intro: exI [of _ w])
qed

text \<open>What the cross-site stage lets pass as coming from the application itself.\<close>

definition own_origin :: "string \<Rightarrow> chain_context \<Rightarrow> bool" where
  "own_origin expectedOrigin cx \<longleftrightarrow>
     header ''origin'' (cx_request cx) = Some expectedOrigin \<and>
     header ''sec-fetch-site'' (cx_request cx) \<in> {None, Some ''same-origin''} \<and>
     (request_media_type (cx_request cx) = Some ''application/json'' \<or>
      accepts_multipart cx \<and> request_media_type (cx_request cx) = Some ''multipart/form-data'')"

definition audience_of :: "chain_context \<Rightarrow> audience option" where
  "audience_of cx = (case operation_of cx of None \<Rightarrow> None | Some operation \<Rightarrow> op_audience operation)"

lemma createCrossSiteProtection_next:
  assumes "createCrossSiteProtection expectedOrigin challenge cx w = (Inr CallNext, cx', w')"
  shows "cx' = cx\<lparr>cx_request := cx_request cx'\<rparr>" "same_request (cx_request cx) (cx_request cx')"
    "body_octets (cx_request cx') = body_octets (cx_request cx)"
    "audience_of cx = None \<Longrightarrow> \<not> bearer_request (cx_request cx) \<Longrightarrow> js_upper (hr_method (cx_request cx)) \<in> set MUTATIONS \<Longrightarrow>
      own_origin expectedOrigin cx"
    "\<not> (js_upper (hr_method (cx_request cx)) = ''OPTIONS'' \<and> isApiPath (hr_path (cx_request cx)))"
  using assms
  by (auto simp: createCrossSiteProtection_def marketing_form_def mutation_check_def withoutCookies_def refuse_cross_site_def Let_def
      own_origin_def audience_of_def accepts_multipart_def operation_of_def request_media_type_def body_octets_def
      split: if_splits option.splits prod.splits sum.splits bool.splits)

text \<open>What it lets pass from a form of the marketing site: JSON from the origin of that form, with the challenge solved.\<close>

definition marketing_sent :: "'w challenge \<Rightarrow> chain_context \<Rightarrow> bool" where
  "marketing_sent challenge cx \<longleftrightarrow>
     (\<exists>route origin. cx_route cx = Some route \<and> mr_marketingOrigin route = Some origin \<and> header ''origin'' (cx_request cx) = Some origin) \<and>
     request_media_type (cx_request cx) = Some ''application/json'' \<and>
     (\<exists>w. fst (challenge (header CHALLENGE_SOLUTION_HEADER (cx_request cx)) w) = Inr True)"

text \<open>The checks look at no cookie: a request without an own origin goes on without any.\<close>

lemma no_cookie [simp]: "header ''cookie'' (cx_request (withoutCookies cx)) = None"
  by (induction "hr_headers (cx_request cx)") (auto simp: header_def withoutCookies_def without_cookie_def map_of_eq_None_iff)

lemma without_cookies_route [simp]: "cx_route (withoutCookies cx) = cx_route cx"
  by (simp add: withoutCookies_def)

lemma bearer_authorization: "bearer_request request \<Longrightarrow> header ''authorization'' request \<noteq> None"
  by (auto simp: bearer_request_def split: option.splits)

lemma createCrossSiteProtection_foreign:
  assumes "createCrossSiteProtection expectedOrigin challenge cx w = (Inr CallNext, cx', w')"
  shows "audience_of cx \<noteq> None \<or> bearer_request (cx_request cx) \<Longrightarrow> header ''cookie'' (cx_request cx') = None"
    "audience_of cx = Some AudienceMarketingForm \<Longrightarrow> marketing_sent challenge cx'"
proof -
  show "header ''cookie'' (cx_request cx') = None" if "audience_of cx \<noteq> None \<or> bearer_request (cx_request cx)"
    using assms that bearer_authorization [of "cx_request cx"]
    by (auto simp: createCrossSiteProtection_def marketing_form_def mutation_check_def audience_of_def Let_def refuse_cross_site_def
        split: if_splits option.splits prod.splits sum.splits bool.splits) (metis audience.exhaust)+
  assume form: "audience_of cx = Some AudienceMarketingForm"
  then have "marketing_form challenge cx w = (Inr CallNext, cx', w')"
    using assms by (auto simp: createCrossSiteProtection_def audience_of_def Let_def refuse_cross_site_def split: if_splits option.splits)
  then show "marketing_sent challenge cx'"
    by (cases "challenge (header CHALLENGE_SOLUTION_HEADER (cx_request (withoutCookies cx))) w")
       (auto simp: marketing_form_def marketing_sent_def Let_def refuse_cross_site_def intro!: exI [of _ w]
         split: if_splits option.splits sum.splits bool.splits)
qed

lemma createTenantResolution_next:
  assumes "createTenantResolution resolver cx w = (Inr CallNext, cx', w')"
  shows "cx' = cx\<lparr>cx_tenant := cx_tenant cx'\<rparr>"
    "cx_tenant cx = None \<Longrightarrow> cx_tenant cx' = Some tenant \<Longrightarrow>
      \<exists>who found. cx_principal cx = Some who \<and> \<not> second_factor_pending who \<and>
        (\<exists>w0. fst (resolver who (requestIdOf cx) w0) = Inr (Some found)) \<and>
        tenant = \<lparr>rt_accountId = principal_accountId who, rt_workspaceId = tr_workspaceId found, rt_memberId = tr_memberId found,
                  rt_role = tr_role found\<rparr> \<and>
        (\<forall>t. who = ApiToken t \<longrightarrow> js_lower (tr_workspaceId found) = js_lower (at_workspaceId t))"
    "cx_principal cx = Some (ApiToken t) \<Longrightarrow> cx_tenant cx' \<noteq> None"
proof -
  show "cx' = cx\<lparr>cx_tenant := cx_tenant cx'\<rparr>" "cx_principal cx = Some (ApiToken t) \<Longrightarrow> cx_tenant cx' \<noteq> None"
    using assms by (auto simp: createTenantResolution_def second_factor_pending_def split: option.splits if_splits prod.splits sum.splits principal.splits)
  assume "cx_tenant cx = None" "cx_tenant cx' = Some tenant"
  then show "\<exists>who found. cx_principal cx = Some who \<and> \<not> second_factor_pending who \<and>
        (\<exists>w0. fst (resolver who (requestIdOf cx) w0) = Inr (Some found)) \<and>
        tenant = \<lparr>rt_accountId = principal_accountId who, rt_workspaceId = tr_workspaceId found, rt_memberId = tr_memberId found,
                  rt_role = tr_role found\<rparr> \<and>
        (\<forall>t. who = ApiToken t \<longrightarrow> js_lower (tr_workspaceId found) = js_lower (at_workspaceId t))"
    using assms
    by (cases "cx_principal cx"; cases "resolver (the (cx_principal cx)) (requestIdOf cx) w")
       (auto simp: createTenantResolution_def split: option.splits if_splits sum.splits principal.splits
         intro!: exI [of _ "the (projr (fst (resolver (the (cx_principal cx)) (requestIdOf cx) w)))"] exI [of _ w])
qed

lemma validation_next:
  assumes "validation pf strict cx w = (Inr CallNext, cx', w')"
  shows "cx' = cx\<lparr>cx_input := cx_input cx'\<rparr>"
    "cx_route cx = Some route \<Longrightarrow> \<exists>input. validate pf strict (cx_request cx) route = Inr input \<and> cx_input cx' = Some input"
  using assms
  by (auto simp: validation_def split: option.splits sum.splits)

section \<open>Authorization\<close>

text \<open>What the policy of an operation asks of the principal and the workspace, as the contract states it.\<close>

definition credential_allowed :: "operation_definition \<Rightarrow> principal \<Rightarrow> bool" where
  "credential_allowed operation who \<longleftrightarrow>
     (case who of
        Session s \<Rightarrow> se_mfaPending s \<longrightarrow> op_auth operation = AuthPartial
      | ApiToken t \<Rightarrow>
          op_scope operation \<noteq> None \<and> \<not> op_reauth operation \<and> (op_scope operation = Some ScopeWrite \<longrightarrow> at_scope t = TokenReadWrite))"

definition role_allowed :: "auth_policy \<Rightarrow> member_role option \<Rightarrow> bool" where
  "role_allowed policy role \<longleftrightarrow>
     (case policy of
        AuthMember \<Rightarrow> role \<noteq> None
      | AuthAdmin \<Rightarrow> role \<in> {Some RoleAdmin, Some RoleOwner}
      | AuthOwner \<Rightarrow> role = Some RoleOwner
      | _ \<Rightarrow> True)"

definition authorized :: "'w authorization_options \<Rightarrow> chain_context \<Rightarrow> operation_definition \<Rightarrow> principal \<Rightarrow> bool" where
  "authorized options cx operation who \<longleftrightarrow>
     credential_allowed operation who \<and>
     role_allowed (op_auth operation) (map_option rt_role (cx_tenant cx)) \<and>
     (op_auth operation \<in> {AuthInstanceAdmin, AuthInstanceAdminWithoutSecondFactor} \<longrightarrow> (\<exists>s. who = Session s \<and> se_instanceAdmin s)) \<and>
     (op_auth operation = AuthInstanceAdmin \<longrightarrow>
        (\<exists>w. fst (ao_secondFactor options (principal_accountId who) (requestIdOf cx) w) = Inr True)) \<and>
     (op_reauth operation \<longrightarrow>
        (\<exists>s stamp w. who = Session s \<and> se_reauthAt s = Some stamp \<and>
           stamp \<le> ao_now options w + 5000 \<and> ao_now options w \<le> stamp + 600000)) \<and>
     (\<forall>entitlement. op_entitlement operation = Some entitlement \<longrightarrow>
        (\<exists>w. fst (ao_entitlements options entitlement (principal_accountId who) (map_option rt_workspaceId (cx_tenant cx)) w) = Inr True))"

lemma credential_check_ok:
  "op_auth operation \<noteq> AuthAnonymous \<Longrightarrow> op_auth operation \<noteq> AuthMachine \<Longrightarrow>
    credential_check who operation = Inr u \<longleftrightarrow> credential_allowed operation who"
  by (cases who) (auto simp: credential_check_def credential_allowed_def refuseUncallableToken_def split: api_token_access.splits)

lemma role_check_ok: "role_check tenant operation = Inr u \<longleftrightarrow> role_allowed (op_auth operation) (map_option rt_role tenant)"
proof (cases tenant)
  case None
  then show ?thesis by (cases "op_auth operation") (auto simp: role_check_def role_allowed_def)
next
  case (Some t)
  then show ?thesis by (cases "op_auth operation"; cases "rt_role t") (auto simp: role_check_def role_allowed_def)
qed

lemma instance_check_ok:
  assumes "instance_check options requestId who operation w = (Inr u, w')"
  shows "op_auth operation \<in> {AuthInstanceAdmin, AuthInstanceAdminWithoutSecondFactor} \<Longrightarrow> \<exists>s. who = Session s \<and> se_instanceAdmin s"
    "op_auth operation = AuthInstanceAdmin \<Longrightarrow> \<exists>w0. fst (ao_secondFactor options (principal_accountId who) requestId w0) = Inr True"
  using assms
  by (auto simp: instance_check_def is_instance_admin_def split: if_splits principal.splits prod.splits sum.splits intro!: exI [of _ w])

lemma recently_ok:
  "recently who now \<longleftrightarrow>
     (\<exists>s stamp. who = Session s \<and> se_reauthAt s = Some stamp \<and> stamp \<le> now + 5000 \<and> now \<le> stamp + 600000)"
  by (cases who) (auto simp: recently_def reauthenticatedRecently_def CLOCK_SKEW_MS_def REAUTH_WINDOW_MS_def Let_def split: option.splits)

lemma entitlement_check_ok:
  assumes "entitlement_check options who tenant operation w = (Inr u, w')" "op_entitlement operation = Some entitlement"
  shows "\<exists>w0. fst (ao_entitlements options entitlement (principal_accountId who) (map_option rt_workspaceId tenant) w0) = Inr True"
  using assms
  by (auto simp: entitlement_check_def Let_def split: prod.splits sum.splits bool.splits intro!: exI [of _ w])

lemma authorize_principal_ok:
  assumes "authorize_principal options cx operation who w = (Inr u, w')" "op_auth operation \<notin> {AuthAnonymous, AuthMachine}"
  shows "authorized options cx operation who"
proof -
  obtain u1 u2 u3 w1 where steps: "credential_check who operation = Inr u1" "role_check (cx_tenant cx) operation = Inr u2"
    "instance_check options (requestIdOf cx) who operation w = (Inr u3, w1)" "op_reauth operation \<longrightarrow> recently who (ao_now options w1)"
    "entitlement_check options who (cx_tenant cx) operation w1 = (Inr u, w')"
    using assms(1) by (auto simp: authorize_principal_def split: sum.splits prod.splits if_splits)
  have "credential_allowed operation who" "role_allowed (op_auth operation) (map_option rt_role (cx_tenant cx))"
    using steps(1,2) assms(2) by (simp_all add: credential_check_ok role_check_ok)
  moreover have "op_reauth operation \<longrightarrow> (\<exists>s stamp w. who = Session s \<and> se_reauthAt s = Some stamp \<and>
           stamp \<le> ao_now options w + 5000 \<and> ao_now options w \<le> stamp + 600000)"
    using steps(4) by (auto simp: recently_ok)
  ultimately show ?thesis
    unfolding authorized_def using instance_check_ok [OF steps(3)] entitlement_check_ok [OF steps(5)] by blast
qed

lemma createAuthorization_next:
  assumes "createAuthorization options cx w = (Inr CallNext, cx', w')"
  shows "cx' = cx"
    "operation_of cx = Some operation \<Longrightarrow> op_auth operation \<in> {AuthAnonymous, AuthMachine} \<Longrightarrow> op_entitlement operation = None"
    "operation_of cx = Some operation \<Longrightarrow> op_auth operation \<notin> {AuthAnonymous, AuthMachine} \<Longrightarrow>
      \<exists>who. cx_principal cx = Some who \<and> authorized options cx operation who"
  using assms
  by (auto simp: createAuthorization_def split: if_splits option.splits prod.splits sum.splits dest!: authorize_principal_ok)

section \<open>The whole chain\<close>

lemma operation_of_route [simp]: "operation_of (cx\<lparr>cx_request := r\<rparr>) = operation_of cx" "operation_of (cx\<lparr>cx_principal := p\<rparr>) = operation_of cx"
  "operation_of (cx\<lparr>cx_rateLimit := l\<rparr>) = operation_of cx" "operation_of (cx\<lparr>cx_handlerLimits := h\<rparr>) = operation_of cx"
  "operation_of (cx\<lparr>cx_tenant := t\<rparr>) = operation_of cx" "operation_of (cx\<lparr>cx_input := i\<rparr>) = operation_of cx"
  "operation_of (cx\<lparr>cx_requestId := n\<rparr>) = operation_of cx" "operation_of (cx\<lparr>cx_clientIp := c\<rparr>) = operation_of cx"
  by (simp_all add: operation_of_def)

text \<open>
  A request whose stages all called \<open>next\<close>, with the contexts the facts of its stages are about: \<open>cx3\<close> after the limits per
  address, \<open>cx4\<close> with the principal, \<open>cx5\<close> after the cross-site check, \<open>cx7\<close> with the tenant.
\<close>

lemma stages_passed:
  assumes "run_stages (REQUEST_STAGES cd) (initial_context cd freshId request) w = (Inr CallNext, cx, w')"
  obtains cx1 cx2 cx3 cx4 cx5 cx6 cx7 w1 w2 w3 w4 w5 w6 w7 w8 where
    "requestContextStage (cd_platform cd) (cd_trustedProxyHops cd) (initial_context cd freshId request) w = (Inr CallNext, cx1, w1)"
    "bodyLimits (cd_platform cd) cx1 w1 = (Inr CallNext, cx2, w2)"
    "ipStage (pf_isIP (cd_platform cd)) (cd_rateLimits cd) (cd_limiter cd) cx2 w2 = (Inr CallNext, cx3, w3)"
    "createAuthentication (cd_authenticators cd) cx3 w3 = (Inr CallNext, cx4, w4)"
    "createAccessModeCheck (cd_accessMode cd) cx4 w4 = (Inr CallNext, cx4, w5)"
    "createCrossSiteProtection (cd_origin cd) (cd_challenge cd) cx4 w5 = (Inr CallNext, cx5, w6)"
    "rateStage (pf_isIP (cd_platform cd)) (cd_rateLimits cd) (cd_limiter cd) cx5 w6 = (Inr CallNext, cx6, w7)"
    "createTenantResolution (cd_tenantResolver cd) cx6 w7 = (Inr CallNext, cx7, w8)"
    "\<exists>w9. validation (cd_platform cd) (cd_strict cd) cx7 w8 = (Inr CallNext, cx, w9) \<and>
       createAuthorization (cd_authorization cd) cx w9 = (Inr CallNext, cx, w')"
proof -
  have end_of: "run_stages [] x v = (Inr CallNext, x', v') \<longleftrightarrow> x' = x \<and> v' = v" for x v x' and v' :: "('a, 'b) chain_world"
    by auto
  from assms obtain cx1 cx2 cx3 cx4 cxa cx5 cx6 cx7 cxv w1 w2 w3 w4 w5 w6 w7 w8 w9 where steps:
    "requestContextStage (cd_platform cd) (cd_trustedProxyHops cd) (initial_context cd freshId request) w = (Inr CallNext, cx1, w1)"
    "bodyLimits (cd_platform cd) cx1 w1 = (Inr CallNext, cx2, w2)"
    "ipStage (pf_isIP (cd_platform cd)) (cd_rateLimits cd) (cd_limiter cd) cx2 w2 = (Inr CallNext, cx3, w3)"
    "createAuthentication (cd_authenticators cd) cx3 w3 = (Inr CallNext, cx4, w4)"
    "createAccessModeCheck (cd_accessMode cd) cx4 w4 = (Inr CallNext, cxa, w5)"
    "createCrossSiteProtection (cd_origin cd) (cd_challenge cd) cxa w5 = (Inr CallNext, cx5, w6)"
    "rateStage (pf_isIP (cd_platform cd)) (cd_rateLimits cd) (cd_limiter cd) cx5 w6 = (Inr CallNext, cx6, w7)"
    "createTenantResolution (cd_tenantResolver cd) cx6 w7 = (Inr CallNext, cx7, w8)"
    "validation (cd_platform cd) (cd_strict cd) cx7 w8 = (Inr CallNext, cxv, w9)"
    "createAuthorization (cd_authorization cd) cxv w9 = (Inr CallNext, cx, w')"
    unfolding REQUEST_STAGES_def before_authentication_def after_authentication_def authentication_stage_def run_stages_append
    by (simp only: run_stages_next end_of append_Cons append_Nil) (elim exE conjE, simp only:)
  have "cxa = cx4" "cx = cxv"
    using createAccessModeCheck_next(1) [OF steps(5)] createAuthorization_next(1) [OF steps(10)] by simp_all
  with steps show ?thesis by (intro that [of cx1 w1 cx2 w2 cx3 w3 cx4 w4 w5 cx5 w6 cx6 w7 cx7 w8]) auto
qed

text \<open>What is known of a request that reaches the handler of its route, from the request as it arrived.\<close>

definition reaches :: "('d, 'o) chain_dependencies \<Rightarrow> http_request \<Rightarrow> chain_context \<Rightarrow> bool" where
  "reaches cd request cx \<longleftrightarrow>
     (\<exists>freshId w w'. run_stages (REQUEST_STAGES cd) (initial_context cd freshId request) w = (Inr CallNext, cx, w'))"

definition client_of :: "('d, 'o) chain_dependencies \<Rightarrow> http_request \<Rightarrow> string option" where
  "client_of cd request =
     clientIpOf (pf_isIP (cd_platform cd)) (hr_socket request) (header ''x-forwarded-for'' request) (cd_trustedProxyHops cd)"

lemma header_of_headers: "hr_headers r = hr_headers r' \<Longrightarrow> header name r = header name r'"
  by (simp add: header_def)

lemma reaches_facts:
  assumes "reaches cd request cx"
  shows "cx_route cx = match_route (cd_routes cd) (hr_method request) (hr_path request)"
    "same_request request (cx_request cx)"
    "body_octets (cx_request cx) = body_octets request" "length (body_octets request) \<le> body_limit cx"
    "cx_clientIp cx = client_of cd request"
    "cx_principal cx = Some who \<Longrightarrow> credential_of (cd_authenticators cd) request (client_of cd request) who \<and> \<not> resolves_no_credential cx"
    "cx_principal cx = Some who \<Longrightarrow> operation_of cx = Some operation \<Longrightarrow>
      (\<exists>s. who = Session s \<and> op_operationId operation \<in> set EXPORT_ONLY_OPERATIONS) \<or>
      (\<exists>w. fst (cd_accessMode cd (principal_accountId who) w) = Inr (Some FullAccess))"
    "audience_of cx = None \<Longrightarrow> \<not> bearer_request request \<Longrightarrow> js_upper (hr_method request) \<in> set MUTATIONS \<Longrightarrow> own_origin (cd_origin cd) cx"
    "cx_tenant cx = Some tenant \<Longrightarrow>
      \<exists>who found. cx_principal cx = Some who \<and> \<not> second_factor_pending who \<and>
        (\<exists>w. fst (cd_tenantResolver cd who (requestIdOf cx) w) = Inr (Some found)) \<and>
        tenant = \<lparr>rt_accountId = principal_accountId who, rt_workspaceId = tr_workspaceId found, rt_memberId = tr_memberId found,
                  rt_role = tr_role found\<rparr> \<and>
        (\<forall>t. who = ApiToken t \<longrightarrow> js_lower (tr_workspaceId found) = js_lower (at_workspaceId t))"
    "cx_principal cx = Some (ApiToken t) \<Longrightarrow> cx_tenant cx \<noteq> None"
    "operation_of cx = Some operation \<Longrightarrow> op_auth operation \<notin> {AuthAnonymous, AuthMachine} \<Longrightarrow>
      \<exists>who. cx_principal cx = Some who \<and> authorized (cd_authorization cd) cx operation who"
    "operation_of cx = Some operation \<Longrightarrow> op_auth operation \<in> {AuthAnonymous, AuthMachine} \<Longrightarrow> op_entitlement operation = None"
    "cx_requestId cx \<noteq> None"
    "cx_route cx = Some route \<Longrightarrow> \<exists>input. validate (cd_platform cd) (cd_strict cd) (cx_request cx) route = Inr input \<and> cx_input cx = Some input"
    "audience_of cx \<noteq> None \<or> bearer_request request \<Longrightarrow> header ''cookie'' (cx_request cx) = None"
    "audience_of cx = Some AudienceMarketingForm \<Longrightarrow> marketing_sent (cd_challenge cd) cx"
proof -
  from assms obtain freshId w w' where "run_stages (REQUEST_STAGES cd) (initial_context cd freshId request) w = (Inr CallNext, cx, w')"
    by (auto simp: reaches_def)
  then obtain cx1 cx2 cx3 cx4 cx5 cx6 cx7 w1 w2 w3 w4 w5 w6 w7 w8 w9 where steps:
    "requestContextStage (cd_platform cd) (cd_trustedProxyHops cd) (initial_context cd freshId request) w = (Inr CallNext, cx1, w1)"
    "bodyLimits (cd_platform cd) cx1 w1 = (Inr CallNext, cx2, w2)"
    "ipStage (pf_isIP (cd_platform cd)) (cd_rateLimits cd) (cd_limiter cd) cx2 w2 = (Inr CallNext, cx3, w3)"
    "createAuthentication (cd_authenticators cd) cx3 w3 = (Inr CallNext, cx4, w4)"
    "createAccessModeCheck (cd_accessMode cd) cx4 w4 = (Inr CallNext, cx4, w5)"
    "createCrossSiteProtection (cd_origin cd) (cd_challenge cd) cx4 w5 = (Inr CallNext, cx5, w6)"
    "rateStage (pf_isIP (cd_platform cd)) (cd_rateLimits cd) (cd_limiter cd) cx5 w6 = (Inr CallNext, cx6, w7)"
    "createTenantResolution (cd_tenantResolver cd) cx6 w7 = (Inr CallNext, cx7, w8)"
    "validation (cd_platform cd) (cd_strict cd) cx7 w8 = (Inr CallNext, cx, w9)"
    "createAuthorization (cd_authorization cd) cx w9 = (Inr CallNext, cx, w')"
    by (rule stages_passed) blast
  note c1 = requestContextStage_next [OF steps(1)] and c2 = bodyLimits_next [OF steps(2)] and c3 = ipStage_next(1) [OF steps(3)]
    and c4 = createAuthentication_next [OF steps(4)] and c5 = createCrossSiteProtection_next [OF steps(6)]
    and c6 = rateStage_next(1) [OF steps(7)] and c7 = createTenantResolution_next [OF steps(8)] and c8 = validation_next [OF steps(9)]
  have r1: "cx_request cx1 = request" "cx_route cx1 = match_route (cd_routes cd) (hr_method request) (hr_path request)"
    "cx_principal cx1 = None" "cx_tenant cx1 = None" "cx_clientIp cx1 = client_of cd request"
    by (subst c1(1), simp add: initial_context_def client_of_def)+
  have r2: "cx_route cx2 = cx_route cx1" "cx_principal cx2 = None" "cx_tenant cx2 = None" "cx_clientIp cx2 = client_of cd request"
    "cx_requestId cx2 = cx_requestId cx1"
    by (subst c2(1), simp add: r1)+
  have r3: "cx_request cx3 = cx_request cx2" "cx_route cx3 = cx_route cx1" "cx_principal cx3 = None" "cx_tenant cx3 = None"
    "cx_clientIp cx3 = client_of cd request" "cx_requestId cx3 = cx_requestId cx1"
    by (subst c3, simp add: r2)+
  have r4: "cx_request cx4 = cx_request cx2" "cx_route cx4 = cx_route cx1" "cx_tenant cx4 = None" "cx_clientIp cx4 = client_of cd request"
    "cx_requestId cx4 = cx_requestId cx1"
    by (subst c4(1), simp add: r3)+
  have r5: "cx_route cx5 = cx_route cx1" "cx_tenant cx5 = None" "cx_clientIp cx5 = client_of cd request" "cx_principal cx5 = cx_principal cx4"
    "cx_requestId cx5 = cx_requestId cx1"
    by (subst c5(1), simp add: r4)+
  have r6: "cx_request cx6 = cx_request cx5" "cx_route cx6 = cx_route cx1" "cx_tenant cx6 = None" "cx_clientIp cx6 = client_of cd request"
    "cx_principal cx6 = cx_principal cx4" "cx_requestId cx6 = cx_requestId cx1"
    by (subst c6, simp add: r5)+
  have r7: "cx_request cx7 = cx_request cx5" "cx_route cx7 = cx_route cx1" "cx_clientIp cx7 = client_of cd request"
    "cx_principal cx7 = cx_principal cx4" "cx_requestId cx7 = cx_requestId cx1"
    by (subst c7(1), simp add: r6)+
  have r8: "cx_request cx = cx_request cx5" "cx_route cx = cx_route cx1" "cx_clientIp cx = client_of cd request"
    "cx_principal cx = cx_principal cx4" "cx_requestId cx = cx_requestId cx1" "cx_tenant cx = cx_tenant cx7"
    by (subst c8(1), simp add: r7)+
  have ops: "operation_of x = operation_of cx" "audience_of x = audience_of cx" if "cx_route x = cx_route cx1" for x
    using that r8(2) by (simp_all add: operation_of_def audience_of_def)
  have same: "same_request request (cx_request cx2)" "same_request (cx_request cx2) (cx_request cx)"
    using c2(2) c5(2) r1(1) r4(1) r8(1) by simp_all
  then show all: "same_request request (cx_request cx)" by (rule same_request_trans)
  show "cx_route cx = match_route (cd_routes cd) (hr_method request) (hr_path request)" "cx_clientIp cx = client_of cd request"
    "cx_requestId cx \<noteq> None"
    using r8 r1 c1(2) by simp_all
  show "body_octets (cx_request cx) = body_octets request"
    using c5(3) c2(3) r8(1) r4(1) r1(1) by simp
  have "body_limit cx1 = body_limit cx" using ops(1) [OF refl] by (simp add: body_limit_def)
  then show "length (body_octets request) \<le> body_limit cx"
    using c2(3,4) r1(1) by simp
  show "credential_of (cd_authenticators cd) request (client_of cd request) who \<and> \<not> resolves_no_credential cx" if "cx_principal cx = Some who"
  proof -
    have cred: "credential_of (cd_authenticators cd) (cx_request cx3) (cx_clientIp cx3) who" "\<not> resolves_no_credential cx3"
      using c4(2) that r8(4) r3(3) by auto
    have hdr: "header name (cx_request cx3) = header name request" for name
      using c2(5) r3(1) r1(1) by (simp add: header_def)
    show ?thesis
      using cred ops(1) [OF r3(2)] r3(5) by (cases who) (simp_all add: credential_of_def resolves_no_credential_def hdr)
  qed
  show "(\<exists>s. who = Session s \<and> op_operationId operation \<in> set EXPORT_ONLY_OPERATIONS) \<or>
      (\<exists>w. fst (cd_accessMode cd (principal_accountId who) w) = Inr (Some FullAccess))"
    if "cx_principal cx = Some who" "operation_of cx = Some operation"
    using createAccessModeCheck_next(2) [OF steps(5)] that ops(1) [OF r4(2)] r8(4) by simp
  show "own_origin (cd_origin cd) cx"
    if "audience_of cx = None" "\<not> bearer_request request" "js_upper (hr_method request) \<in> set MUTATIONS"
  proof -
    have "own_origin (cd_origin cd) cx4"
      using c5(4) that ops(2) [OF r4(2)] same_request_simps(1,5) [OF same(1)] r4(1) by simp
    then show ?thesis
      using same_request_simps(4,6) [OF same(2)] r4(1,2) r8(2) by (simp add: own_origin_def accepts_multipart_def)
  qed
  show "\<exists>who found. cx_principal cx = Some who \<and> \<not> second_factor_pending who \<and>
        (\<exists>w. fst (cd_tenantResolver cd who (requestIdOf cx) w) = Inr (Some found)) \<and>
        tenant = \<lparr>rt_accountId = principal_accountId who, rt_workspaceId = tr_workspaceId found, rt_memberId = tr_memberId found,
                  rt_role = tr_role found\<rparr> \<and>
        (\<forall>t. who = ApiToken t \<longrightarrow> js_lower (tr_workspaceId found) = js_lower (at_workspaceId t))" if "cx_tenant cx = Some tenant"
  proof -
    have id: "requestIdOf cx = requestIdOf cx6" using r8(5) r6(6) c1(2) by (auto simp: requestIdOf_def)
    show ?thesis using c7(2) [OF r6(3)] that r8(4,6) r6(5) by (simp add: id)
  qed
  show "cx_tenant cx \<noteq> None" if "cx_principal cx = Some (ApiToken t)"
    using c7(3) that r8(4,6) r6(5) by simp
  show "\<exists>who. cx_principal cx = Some who \<and> authorized (cd_authorization cd) cx operation who"
    if "operation_of cx = Some operation" "op_auth operation \<notin> {AuthAnonymous, AuthMachine}"
    using createAuthorization_next(3) [OF steps(10)] that by blast
  show "op_entitlement operation = None" if "operation_of cx = Some operation" "op_auth operation \<in> {AuthAnonymous, AuthMachine}"
    using createAuthorization_next(2) [OF steps(10)] that by blast
  show "\<exists>input. validate (cd_platform cd) (cd_strict cd) (cx_request cx) route = Inr input \<and> cx_input cx = Some input"
    if "cx_route cx = Some route"
    using c8(2) that r8(1,2) r7(1,2) by simp
  have audience4: "audience_of cx4 = audience_of cx" and bearer4: "bearer_request (cx_request cx4) = bearer_request request"
    using ops(2) [OF r4(2)] same_request_simps(5) [OF same(1)] r4(1) by simp_all
  show "header ''cookie'' (cx_request cx) = None" if "audience_of cx \<noteq> None \<or> bearer_request request"
    using createCrossSiteProtection_foreign(1) [OF steps(6)] that r8(1) audience4 bearer4 by simp
  show "marketing_sent (cd_challenge cd) cx" if "audience_of cx = Some AudienceMarketingForm"
    using createCrossSiteProtection_foreign(2) [OF steps(6)] that audience4 r8(1,2) r5(1) by (simp add: marketing_sent_def)
qed

end
