(* ===== verification/HttpAnswers.thy ===== *)
theory HttpAnswers
  imports HttpLaws
begin

text \<open>
  The answers of the chain: the headers on them, the problem documents failures become, and the idempotency stage as steps of
  concurrent requests.
\<close>

section \<open>Members and headers\<close>

lemma map_of_set_member: "map_of (set_member name v members) n = (if n = name then Some v else map_of members n)"
  by (induction members) auto

lemma map_of_foldl_set_member:
  "map_of (foldl (\<lambda>members (name, v). set_member name v members) members new) n =
     (case map_of (rev new) n of None \<Rightarrow> map_of members n | Some v \<Rightarrow> Some v)"
  by (induction new arbitrary: members) (auto simp: map_of_set_member map_add_def split: option.splits)

lemma set_member_keys: "fst ` set (set_member name v members) = insert name (fst ` set members)"
  by (simp flip: dom_map_of_conv_image_fst add: dom_def map_of_set_member) auto

lemma distinct_set_member: "distinct (map fst members) \<Longrightarrow> distinct (map fst (set_member name v members))"
  by (induction members) (auto simp: set_member_keys)

lemma distinct_assign: "distinct (map fst target) \<Longrightarrow> distinct (map fst (assign target source))"
  unfolding assign_def by (induction source arbitrary: target) (auto simp: distinct_set_member)

lemma map_of_assign: "map_of (assign target source) n = (case map_of (rev source) n of None \<Rightarrow> map_of target n | Some v \<Rightarrow> Some v)"
  by (simp add: assign_def map_of_foldl_set_member)

lemma map_of_rev: "distinct (map fst xs) \<Longrightarrow> map_of (rev xs) = map_of xs"
  by (subst map_of_inject_set) (simp_all add: rev_map [symmetric])

lemma response_header_set_headers:
  "response_header name (set_headers new response) =
     (case map_of (rev new) name of None \<Rightarrow> response_header name response | Some t \<Rightarrow> Some t)"
  by (simp add: response_header_def set_headers_def map_of_foldl_set_member split: option.split)

lemma set_headers_simps [simp]: "rs_status (set_headers new r) = rs_status r" "rs_body (set_headers new r) = rs_body r"
  "rs_status (delete_headers P r) = rs_status r" "rs_body (delete_headers P r) = rs_body r"
  by (simp_all add: set_headers_def delete_headers_def)

lemma response_header_delete:
  "response_header name (delete_headers P response) = (if P name then None else response_header name response)"
proof -
  have "map_of (filter (\<lambda>(n, t). \<not> P n) hs) name = (if P name then None else map_of hs name)" for hs :: "(string \<times> string) list"
    by (induction hs) auto
  then show ?thesis by (simp add: response_header_def delete_headers_def)
qed

section \<open>The security headers\<close>

lemma distinct_ruled: "distinct (map fst (ruled_headers https path))"
proof -
  have "distinct (map fst target) \<Longrightarrow>
      distinct (map fst (foldl (\<lambda>wanted rule. if appliesTo rule path then assign wanted (hl_headers rule) else wanted) target rules))"
    for target rules
    by (induction rules arbitrary: target) (auto simp: distinct_assign)
  then show ?thesis
    by (simp add: ruled_headers_def BASE_HEADERS_def transport_headers_def)
qed

lemma map_of_ruled:
  assumes "name \<noteq> ''cache-control''" "name \<noteq> ''referrer-policy''"
  shows "map_of (ruled_headers https path) name = map_of (BASE_HEADERS @ transport_headers https) name"
proof -
  have fold: "(\<And>rule. rule \<in> set rules \<Longrightarrow> map_of (rev (hl_headers rule)) name = None) \<Longrightarrow>
      map_of (foldl (\<lambda>wanted rule. if appliesTo rule path then assign wanted (hl_headers rule) else wanted) target rules) name =
      map_of target name" for target rules
    by (induction rules arbitrary: target) (auto simp: map_of_assign)
  have "map_of (rev (hl_headers rule)) name = None" if "rule \<in> set HEADER_RULES" for rule
    using that assms by (auto simp: HEADER_RULES_def)
  then show ?thesis
    unfolding ruled_headers_def by (rule fold)
qed

lemma distinct_wanted: "distinct (map fst (wanted_headers https cx response))"
  by (simp add: wanted_headers_def Let_def distinct_assign distinct_ruled split: option.split)

lemma map_of_wanted:
  "name \<noteq> ''cache-control'' \<Longrightarrow> map_of (wanted_headers https cx response) name = map_of (ruled_headers https (hr_path (cx_request cx))) name"
  by (simp add: wanted_headers_def Let_def map_of_assign split: option.split)

definition ALWAYS_SENT :: "(string \<times> string) list" where
  "ALWAYS_SENT =
     [(''content-security-policy'', CONTENT_SECURITY_POLICY), (''x-content-type-options'', ''nosniff''),
      (''cross-origin-opener-policy'', ''same-origin''), (''permissions-policy'', ''camera=(), microphone=(), geolocation=()'')]"

lemma wanted_always:
  assumes "(name, text) \<in> set ALWAYS_SENT"
  shows "map_of (wanted_headers https cx response) name = Some text"
proof -
  have "name \<noteq> ''cache-control''" "name \<noteq> ''referrer-policy''" "map_of BASE_HEADERS name = Some text"
    using assms by (auto simp: ALWAYS_SENT_def BASE_HEADERS_def)
  then show ?thesis
    by (simp add: map_of_wanted map_of_ruled map_add_def split: option.split)
qed

definition ALL_NAMES :: "string list" where
  "ALL_NAMES =
     map fst BASE_HEADERS @ [''strict-transport-security'', ''cache-control''] @ concat (map (map fst \<circ> hl_headers) HEADER_RULES)"

lemma assign_keys: "fst ` set (assign target source) = fst ` set target \<union> fst ` set source"
  unfolding assign_def by (induction source arbitrary: target) (simp_all add: set_member_keys case_prod_beta)

lemma ruled_keys: "fst ` set (ruled_headers https path) \<subseteq> set ALL_NAMES"
proof -
  have fold: "fst ` set (foldl (\<lambda>wanted rule. if appliesTo rule path then assign wanted (hl_headers rule) else wanted) target rules) \<subseteq>
      fst ` set target \<union> (\<Union>rule \<in> set rules. fst ` set (hl_headers rule))" for target rules
  proof (induction rules arbitrary: target)
    case (Cons rule rules)
    show ?case
      using Cons.IH [of target] Cons.IH [of "assign target (hl_headers rule)"] by (auto simp: assign_keys)
  qed simp
  have "fst ` set (BASE_HEADERS @ transport_headers https) \<union> (\<Union>rule \<in> set HEADER_RULES. fst ` set (hl_headers rule)) \<subseteq> set ALL_NAMES"
    by (auto simp: ALL_NAMES_def image_iff transport_headers_def)
  then show ?thesis
    unfolding ruled_headers_def by (rule order_trans [OF fold])
qed

lemma wanted_keys: "fst ` set (wanted_headers https cx response) \<subseteq> set ALL_NAMES"
  using ruled_keys [of https "hr_path (cx_request cx)"]
  by (simp add: wanted_headers_def Let_def assign_keys split: option.split) (simp add: ALL_NAMES_def)

lemma no_cors_name: "list_all (\<lambda>name. \<not> prefix ''access-control-'' name) ALL_NAMES"
  by code_simp

lemma wanted_no_cors: "prefix ''access-control-'' name \<Longrightarrow> map_of (wanted_headers https cx response) name = None"
  using wanted_keys [of https cx response] no_cors_name by (force simp: map_of_eq_None_iff list_all_iff)

lemma security_apply_header:
  "response_header name (security_apply https cx response) =
     (case map_of (wanted_headers https cx response) name of
        Some t \<Rightarrow> Some t
      | None \<Rightarrow> if prefix ''access-control-'' name then None else response_header name response)"
  by (auto simp: security_apply_def response_header_set_headers map_of_rev [OF distinct_wanted] response_header_delete split: option.splits)

lemma wanted_problem:
  assumes "isProblemContentType response"
  shows "map_of (wanted_headers https cx response) ''cache-control'' = Some ''no-store''"
  using assms by (simp add: wanted_headers_def Let_def map_of_assign NO_STORE_def)

lemma wanted_none: "map_of (wanted_headers https cx response) ''content-type'' = None" "map_of (wanted_headers https cx response) REQUEST_ID_HEADER = None"
  by (simp_all add: map_of_wanted map_of_ruled REQUEST_ID_HEADER_def BASE_HEADERS_def transport_headers_def)

lemma content_type_problem: "response_header ''content-type'' response = Some PROBLEM_CONTENT_TYPE \<Longrightarrow> isProblemContentType response"
  unfolding isProblemContentType_def content_type_def PROBLEM_CONTENT_TYPE_def by simp code_simp

lemma problemDocument_simps [simp]:
  "rs_status (problemDocument requestId p) = status_of (mp_code p)"
  "rs_body (problemDocument requestId p) = JsonBody (JObj (problem_members requestId p))"
  "response_header ''content-type'' (problemDocument requestId p) = Some PROBLEM_CONTENT_TYPE"
  "response_header REQUEST_ID_HEADER (problemDocument requestId p) = Some requestId"
  by (simp_all add: problemDocument_def response_header_def REQUEST_ID_HEADER_def)

text \<open>The headers the later steps may set or delete.\<close>

definition late_header :: "string \<Rightarrow> bool" where
  "late_header name \<longleftrightarrow> name \<in> {''ratelimit-policy'', ''ratelimit'', ''retry-after'', ''content-length'', REQUEST_ID_HEADER}"

lemma rate_apply_header: "\<not> late_header name \<Longrightarrow> response_header name (rate_apply cx response) = response_header name response"
  by (auto simp: rate_apply_def response_header_set_headers headersOf_def late_header_def split: option.splits)

lemma rate_apply_simps [simp]: "rs_status (rate_apply cx r) = rs_status r" "rs_body (rate_apply cx r) = rs_body r"
  "response_header REQUEST_ID_HEADER (rate_apply cx r) = response_header REQUEST_ID_HEADER r"
  by (auto simp: rate_apply_def response_header_set_headers headersOf_def REQUEST_ID_HEADER_def split: option.splits)

lemma responseStage_header:
  assumes "responseStage v declared response = Inr sent" "\<not> late_header name"
  shows "response_header name sent = response_header name response"
proof (cases "isProblemContentType response")
  case True
  with assms(1) have "sent = response" by (cases "checkProblem response") (auto simp: responseStage_def)
  then show ?thesis by simp
next
  case False
  have body: "response_header name (r\<lparr>rs_body := b\<rparr>) = response_header name r" for r b
    by (simp add: response_header_def)
  show ?thesis
    using assms False
    by (auto simp: responseStage_def late_header_def response_header_delete body
        split: if_splits option.splits sum.splits declared_response.splits)
qed

lemma finish_request_header: "\<not> late_header name \<Longrightarrow> response_header name (finish_request cx response) = response_header name response"
  by (auto simp: finish_request_def response_header_set_headers late_header_def split: option.splits)

lemma checked_header:
  assumes "\<not> late_header name"
  shows "(\<exists>e. checked cd cx response = fail_response cd cx e) \<or>
    response_header name (checked cd cx response) = response_header name response \<and> rs_status (checked cd cx response) = rs_status response"
proof (cases "responseStage (cd_responseValidation cd) (declared_responses cx) response")
  case (Inr sent)
  have "rs_status sent = rs_status response"
    using Inr by (cases "checkProblem response") (auto simp: responseStage_def split: if_splits option.splits sum.splits declared_response.splits)
  then show ?thesis
    using responseStage_header [OF Inr assms] by (simp add: checked_def Inr)
next
  case (Inl e)
  then show ?thesis
    by (intro disjI1 exI [of _ e]) (simp add: checked_def)
qed

lemma finish_request_simps [simp]: "rs_status (finish_request cx r) = rs_status r" "rs_body (finish_request cx r) = rs_body r"
  by (auto simp: finish_request_def split: option.splits)

text \<open>
  A header the later steps leave alone, and the status, are those of a response the security headers were put on in the context the
  dispatch ended in: the answer of a stage or the handler, or the document of a failure.
\<close>

lemma serve_header:
  assumes "dispatch cd (initial_context cd freshId request) w = (result, cx, w')"
  obtains response where
    "rs_status (fst (serve cd freshId request w)) = rs_status response"
    "\<And>name. \<not> late_header name \<Longrightarrow>
       response_header name (fst (serve cd freshId request w)) = response_header name (security_apply (cd_https cd) cx response)"
proof -
  let ?answered = "answered cd cx result"
  obtain given where given: "?answered = rate_apply cx (security_apply (cd_https cd) cx given)"
    by (cases result) (simp_all add: answered_def fail_response_def)
  have sent: "fst (serve cd freshId request w) = finish_request cx (checked cd cx ?answered)"
    by (simp add: serve_def assms)
  show thesis
  proof (cases "\<exists>e. checked cd cx ?answered = fail_response cd cx e")
    case True
    then obtain e where "checked cd cx ?answered = security_apply (cd_https cd) cx (failRequest (requestIdOf cx) e)"
      by (auto simp: fail_response_def)
    then show thesis
      by (intro that [of "failRequest (requestIdOf cx) e"]) (simp_all add: sent finish_request_header security_apply_def)
  next
    case False
    then have same: "response_header name (checked cd cx ?answered) = response_header name ?answered"
        "rs_status (checked cd cx ?answered) = rs_status ?answered" if "\<not> late_header name" for name
      using checked_header [OF that, of cd cx ?answered] by blast+
    have "\<not> late_header ''content-type''"
      by (simp add: late_header_def REQUEST_ID_HEADER_def)
    then show thesis
      using same by (intro that [of given]) (simp_all add: sent finish_request_header given rate_apply_header security_apply_def)
  qed
qed

section \<open>The headers of a path\<close>

text \<open>A path is in an area as it is written, or as it reads once decoded.\<close>

definition in_area :: "string \<Rightarrow> string \<Rightarrow> bool" where
  "in_area base path \<longleftrightarrow> under base (points path) \<or> (\<exists>decoded. decodeURIComponent path = Some decoded \<and> under base decoded)"

definition is_probe :: "string \<Rightarrow> bool" where
  "is_probe path \<longleftrightarrow> (\<exists>probe \<in> {''/health'', ''/ready'', ''/version''}. points path = points probe \<or> decodeURIComponent path = Some (points probe))"

definition never_cached :: "string \<Rightarrow> bool" where
  "never_cached path \<longleftrightarrow> in_area ''/api'' path \<or> in_area ''/go'' path \<or> is_probe path"

lemma rules_apply:
  "appliesTo \<lparr>hl_applies = under base, hl_headers = hs\<rparr> path \<longleftrightarrow> in_area base path"
  "appliesTo \<lparr>hl_applies = (\<lambda>p. p \<in> points ` set PROBE_PATHS), hl_headers = hs\<rparr> path \<longleftrightarrow> is_probe path"
  by (auto simp: appliesTo_def in_area_def is_probe_def PROBE_PATHS_def split: option.splits)

lemma ruled_by_path:
  "map_of (ruled_headers https path) ''referrer-policy'' =
     Some (if in_area ''/go'' path then ''no-referrer'' else ''strict-origin-when-cross-origin'')"
  "map_of (ruled_headers https path) ''cache-control'' = (if never_cached path then Some ''no-store'' else None)"
  by (simp_all add: ruled_headers_def HEADER_RULES_def rules_apply never_cached_def map_of_assign map_add_def NO_STORE_def BASE_HEADERS_def
      transport_headers_def)

lemma wanted_by_path:
  "map_of (wanted_headers https cx response) ''referrer-policy'' =
     Some (if in_area ''/go'' (hr_path (cx_request cx)) then ''no-referrer'' else ''strict-origin-when-cross-origin'')"
  "https \<Longrightarrow> map_of (wanted_headers https cx response) ''strict-transport-security'' = Some ''max-age=31536000''"
  "never_cached (hr_path (cx_request cx)) \<Longrightarrow>
     map_of (wanted_headers https cx response) ''cache-control'' =
       Some (case declared_policy cx (rs_status response) of Some policy \<Rightarrow> if isProblemContentType response then ''no-store'' else policy | None \<Rightarrow> ''no-store'')"
  by (simp_all add: map_of_wanted ruled_by_path map_of_ruled map_add_def BASE_HEADERS_def transport_headers_def STRICT_TRANSPORT_SECURITY_def)
     (simp add: wanted_headers_def Let_def map_of_assign ruled_by_path NO_STORE_def split: option.split)

lemma finish_request_id: "cx_requestId cx = Some i \<Longrightarrow> response_header REQUEST_ID_HEADER (finish_request cx response) = Some i"
  by (simp add: finish_request_def response_header_set_headers)

section \<open>The request an answer is for\<close>

text \<open>No stage moves a request to another path or route, and none but the first gives it an ID.\<close>

definition place_kept :: "chain_context \<Rightarrow> chain_context \<Rightarrow> bool" where
  "place_kept cx cx' \<longleftrightarrow>
     cx_route cx' = cx_route cx \<and> hr_path (cx_request cx') = hr_path (cx_request cx) \<and> cx_requestId cx' = cx_requestId cx"

definition keeps_place :: "(chain_context \<Rightarrow> 'w \<Rightarrow> 'r \<times> chain_context \<times> 'w) \<Rightarrow> bool" where
  "keeps_place stage \<longleftrightarrow> (\<forall>cx w r cx' w'. stage cx w = (r, cx', w') \<longrightarrow> place_kept cx cx')"

text \<open>A handler may keep things on the context, but the request it is given is the one it answers.\<close>

definition handlers_stay :: "('d, 'o) chain_dependencies \<Rightarrow> bool" where
  "handlers_stay cd \<longleftrightarrow> (\<forall>operationId. keeps_place (cd_handlers cd operationId))"

lemma place_kept_refl [simp]: "place_kept cx cx"
  by (simp add: place_kept_def)

lemma place_kept_trans: "place_kept cx cx1 \<Longrightarrow> place_kept cx1 cx2 \<Longrightarrow> place_kept cx cx2"
  by (simp add: place_kept_def)

lemma place_kept_updates [simp]:
  "place_kept cx (cx\<lparr>cx_principal := p\<rparr>)" "place_kept cx (cx\<lparr>cx_rateLimit := l\<rparr>)" "place_kept cx (cx\<lparr>cx_handlerLimits := h\<rparr>)"
  "place_kept cx (cx\<lparr>cx_tenant := t\<rparr>)" "place_kept cx (cx\<lparr>cx_input := i\<rparr>)" "place_kept cx (withoutCookies cx)"
  "place_kept cx (cx\<lparr>cx_rateLimit := l, cx_handlerLimits := h\<rparr>)" "place_kept cx (cx\<lparr>cx_request := (cx_request cx)\<lparr>hr_body := b\<rparr>\<rparr>)"
  by (simp_all add: place_kept_def withoutCookies_def without_cookie_def)

lemma staysI: "(\<And>cx w r cx' w'. stage cx w = (r, cx', w') \<Longrightarrow> place_kept cx cx') \<Longrightarrow> keeps_place stage"
  by (auto simp: keeps_place_def)

lemma staysD: "keeps_place stage \<Longrightarrow> stage cx w = (r, cx', w') \<Longrightarrow> place_kept cx cx'"
  unfolding keeps_place_def by blast

lemma stays_run: "\<forall>stage \<in> set stages. keeps_place stage \<Longrightarrow> keeps_place (run_stages stages)"
proof (induction stages)
  case (Cons stage stages)
  then have "keeps_place stage" "keeps_place (run_stages stages)" by simp_all
  then show ?case
    by (intro staysI) (auto dest: staysD split: prod.splits sum.splits stage_result.splits intro: place_kept_trans)
qed (auto intro: staysI)

lemma stays_rate: "keeps_place (rate_take isIP registry limiter included)"
  by (rule staysI) (drule rate_take_context, metis place_kept_updates(2))

lemma stays_stages:
  "keeps_place (bodyLimits pf)" "keeps_place (ipStage isIP registry limiter)" "keeps_place (createAuthentication authenticators)"
  "keeps_place (createAccessModeCheck source)" "keeps_place (createCrossSiteProtection origin challenge)" "keeps_place (rateStage isIP registry limiter)"
  "keeps_place (createTenantResolution resolver)" "keeps_place (validation pf strict)" "keeps_place (createAuthorization options)"
proof -
  show "keeps_place (bodyLimits pf)"
    by (rule staysI) (auto simp: bodyLimits_def Let_def split: option.splits if_splits)
  show "keeps_place (ipStage isIP registry limiter)"
    by (rule staysI) (auto simp: ipStage_def dest: staysD [OF stays_rate] split: prod.splits sum.splits option.splits)
  show "keeps_place (createAuthentication authenticators)"
    by (rule staysI) (auto simp: createAuthentication_def split: list.splits if_splits option.splits prod.splits sum.splits)
  show "keeps_place (createAccessModeCheck source)"
    by (rule staysI) (auto simp: createAccessModeCheck_def split: if_splits option.splits prod.splits sum.splits)
  show "keeps_place (createCrossSiteProtection origin challenge)"
    by (rule staysI)
       (auto simp: createCrossSiteProtection_def marketing_form_def mutation_check_def Let_def
          split: if_splits option.splits prod.splits sum.splits bool.splits)
  show "keeps_place (rateStage isIP registry limiter)"
  proof (rule staysI)
    fix cx w r cx' w'
    assume stage: "rateStage isIP registry limiter cx w = (r, cx', w')"
    obtain r1 cx1 w1 where take: "rate_take isIP registry limiter (\<lambda>limit. sl_scope limit \<noteq> RateIp) cx w = (r1, cx1, w1)"
      by (rule prod_cases3)
    then have "place_kept cx cx1"
      by (rule staysD [OF stays_rate])
    then show "place_kept cx cx'"
      using stage take by (auto simp: rateStage_def place_kept_def split: if_splits option.splits sum.splits)
  qed
  show "keeps_place (createTenantResolution resolver)"
    by (rule staysI) (auto simp: createTenantResolution_def split: if_splits option.splits prod.splits sum.splits principal.splits)
  show "keeps_place (validation pf strict)"
    by (rule staysI) (auto simp: validation_def split: option.splits sum.splits)
  show "keeps_place (createAuthorization options)"
    by (rule staysI) (auto simp: createAuthorization_def split: if_splits option.splits prod.splits sum.splits)
qed

lemma stays_idempotency:
  assumes "keeps_place handler"
  shows "keeps_place (createIdempotency dg handler)"
proof (rule staysI)
  fix cx w r cx' w'
  assume run: "createIdempotency dg handler cx w = (r, cx', w')"
  have handled: "handler x v = (y, x', v') \<Longrightarrow> place_kept x x'" for x v y x' v'
    using assms by (rule staysD)
  have claimed: "run_claimed a claim keys handler x v = (y, x', v') \<Longrightarrow> place_kept x x'" for a claim keys x v y x' v'
    by (auto simp: run_claimed_def dest!: handled split: prod.splits sum.splits if_splits)
  have transaction: "in_transaction a claim handler x v = (y, x', v') \<Longrightarrow> place_kept x x'" for a claim x v y x' v'
    by (auto simp: in_transaction_def dest!: claimed split: prod.splits sum.splits if_splits idempotency_outcome.splits)
  from run show "place_kept cx cx'"
    by (auto simp: createIdempotency_def dest!: transaction handled split: option.splits if_splits)
qed

lemma dispatched_place:
  assumes "handlers_stay cd" "dispatch cd (initial_context cd freshId request) w = (result, cx, w')"
  shows "cx_route cx = match_route (cd_routes cd) (hr_method request) (hr_path request)" "hr_path (cx_request cx) = hr_path request"
    "cx_requestId cx = Some (requestIdFrom freshId (header REQUEST_ID_HEADER request))"
proof -
  define later where "later = [bodyLimits (cd_platform cd), ipStage (pf_isIP (cd_platform cd)) (cd_rateLimits cd) (cd_limiter cd)] @
      authentication_stage cd # after_authentication cd"
  obtain cx1 where first: "requestContextStage (cd_platform cd) (cd_trustedProxyHops cd) (initial_context cd freshId request) w = (Inr CallNext, cx1, w)"
      "cx_route cx1 = match_route (cd_routes cd) (hr_method request) (hr_path request)" "hr_path (cx_request cx1) = hr_path request"
      "cx_requestId cx1 = Some (requestIdFrom freshId (header REQUEST_ID_HEADER request))"
    by (simp add: requestContextStage_def initial_context_def)
  have "keeps_place (authentication_stage cd)"
    unfolding authentication_stage_def by (rule stays_run) (simp add: stays_stages)
  then have "keeps_place (run_stages later)"
    by (intro stays_run) (auto simp: later_def after_authentication_def stays_stages)
  moreover have "keeps_place (createIdempotency (cd_digests cd) (handler_stage cd))"
  proof (rule stays_idempotency, rule staysI)
    fix x v y x' v'
    assume "handler_stage cd x v = (y, x', v')"
    then show "place_kept x x'"
      using assms(1) by (auto simp: handler_stage_def handlers_stay_def dest: staysD split: option.splits)
  qed
  moreover have "run_stages (REQUEST_STAGES cd) (initial_context cd freshId request) w = run_stages later cx1 w"
    by (simp add: REQUEST_STAGES_def before_authentication_def later_def first(1))
  ultimately have "place_kept cx1 cx"
    using assms(2) by (auto simp: dispatch_def dest!: staysD split: prod.splits sum.splits stage_result.splits intro: place_kept_trans)
  then show "cx_route cx = match_route (cd_routes cd) (hr_method request) (hr_path request)" "hr_path (cx_request cx) = hr_path request"
    "cx_requestId cx = Some (requestIdFrom freshId (header REQUEST_ID_HEADER request))"
    using first(2-4) by (simp_all add: place_kept_def)
qed

section \<open>Problem documents pass the check of the response stage\<close>

definition standard_members :: "string list" where
  "standard_members = [''type'', ''title'', ''status'', ''code'', ''detail'', ''requestId'', ''errors'']"

definition catalogued :: "mapped_problem \<Rightarrow> bool" where
  "catalogued p \<longleftrightarrow> problemStatus (mp_code p) \<noteq> None \<and> (\<forall>name \<in> set (map fst (mp_members p)). name \<notin> set standard_members)"

lemma catalog_entries:
  "list_all (\<lambda>(status, code). 400 \<le> status \<and> status \<le> 599 \<and> map_of PROBLEM_TITLES code \<noteq> None) PROBLEM_CATALOG"
  by code_simp

lemma problemStatus_Some:
  assumes "problemStatus code = Some status"
  shows "code \<in> set (map snd PROBLEM_CATALOG)" "400 \<le> status" "status \<le> 599" "map_of PROBLEM_TITLES code \<noteq> None"
proof -
  have "(code, status) \<in> set (rev (map (\<lambda>(status, c). (c, status)) PROBLEM_CATALOG))"
    using assms unfolding problemStatus_def by (rule map_of_SomeD)
  then have "(status, code) \<in> set PROBLEM_CATALOG" by auto
  then show "code \<in> set (map snd PROBLEM_CATALOG)" "400 \<le> status" "status \<le> 599" "map_of PROBLEM_TITLES code \<noteq> None"
    using catalog_entries by (force simp: list_all_iff)+
qed

lemma latin1_points [simp]: "latin1 (map code_unit s) = s"
  by (induction s) (simp_all add: latin1_def code_unit_def)

lemma member_problem:
  "map_of (problem_members requestId p) name =
     (if name = ''errors'' \<and> mp_errors p \<noteq> None then Some (JArr (map error_value (the (mp_errors p))))
      else if name = ''requestId'' then Some (js_text requestId)
      else if name = ''detail'' then Some (js_text (mp_detail p))
      else if name = ''code'' then Some (js_text (mp_code p))
      else if name = ''status'' then Some (JNum (of_nat (status_of (mp_code p))))
      else if name = ''title'' then Some (case map_of PROBLEM_TITLES (mp_code p) of None \<Rightarrow> JUndefined | Some title \<Rightarrow> js_text title)
      else if name = ''type'' then Some (js_text (PROBLEM_TYPE_BASE @ mp_code p))
      else map_of (mp_members p) name)"
  by (simp add: problem_members_def map_of_set_member split: option.split)

lemma ProblemSchema_document:
  assumes "catalogued p"
  shows "ProblemSchema (JObj (problem_members requestId p))"
proof -
  obtain status where status: "problemStatus (mp_code p) = Some status"
    using assms by (auto simp: catalogued_def)
  have errors: "map_of (mp_members p) ''errors'' = None"
    using assms by (auto simp: catalogued_def standard_members_def map_of_eq_None_iff)
  have code: "map code_unit (mp_code p) \<in> (map code_unit \<circ> snd) ` set PROBLEM_CATALOG"
    using problemStatus_Some(1) [OF status] by force
  show ?thesis
    using problemStatus_Some(2,3,4) [OF status] code errors
    by (auto simp: ProblemSchema_def member_problem is_string_def js_text_def status_of_def status error_value_def
        ProblemFieldErrorSchema_def list_all_iff split: option.split)
qed

lemma checkProblem_document:
  assumes "catalogued p" "rs_body r = JsonBody (JObj (problem_members requestId p))" "rs_status r = status_of (mp_code p)"
    "response_header REQUEST_ID_HEADER r = Some requestId"
  shows "checkProblem r = Inr ()"
proof -
  obtain status where "problemStatus (mp_code p) = Some status"
    using assms(1) by (auto simp: catalogued_def)
  then show ?thesis
    using assms ProblemSchema_document [OF assms(1)]
    by (simp add: checkProblem_def parseBody_def member_problem js_text_def status_of_def)
qed

text \<open>The document every failure that is no problem becomes.\<close>

definition INTERNAL_PROBLEM :: mapped_problem where
  "INTERNAL_PROBLEM = \<lparr>mp_code = ''internal'', mp_detail = ''The request could not be completed.'', mp_errors = None, mp_members = []\<rparr>"

lemma internal_problem: "problemStatus ''internal'' = Some 500" "catalogued INTERNAL_PROBLEM"
proof -
  show "problemStatus ''internal'' = Some 500" by code_simp
  then show "catalogued INTERNAL_PROBLEM" by (simp add: catalogued_def INTERNAL_PROBLEM_def)
qed

lemma mapError_internal:
  "(\<nexists>c d m es. e = ProblemError c d es m) \<Longrightarrow> (\<nexists>issues. e = ZodError issues) \<Longrightarrow> (\<nexists>c. e = PortUnavailable c) \<Longrightarrow> mapError e = INTERNAL_PROBLEM"
  by (cases e) (simp_all add: mapError_def mapped_def MAPPED_DETAILS_def INTERNAL_PROBLEM_def)

text \<open>Whatever the check of a response finds wrong is no problem.\<close>

lemma mismatch_found:
  "checkProblem response = Inl e \<Longrightarrow> mapError e = INTERNAL_PROBLEM"
  "responseStage v declared response = Inl e \<Longrightarrow> mapError e = INTERNAL_PROBLEM"
proof -
  have found: "mapError (mismatch path code) = INTERNAL_PROBLEM" "mapError (ResponseMismatchError es) = INTERNAL_PROBLEM" for path code es
    by (simp_all add: mapError_internal mismatch_def)
  have body: "parseBody b = Inl e \<Longrightarrow> mapError e = INTERNAL_PROBLEM" for b e
    by (auto simp: parseBody_def found split: response_body.splits)
  show checked: "checkProblem response = Inl e \<Longrightarrow> mapError e = INTERNAL_PROBLEM" for response e
    by (auto simp: checkProblem_def found split: sum.splits if_splits option.splits js_value.splits dest: body)
  have json: "checkJson schema v response = Inl e \<Longrightarrow> mapError e = INTERNAL_PROBLEM" for schema e
    by (auto simp: checkJson_def found split: sum.splits if_splits response_validation.splits dest: body)
  show "responseStage v declared response = Inl e \<Longrightarrow> mapError e = INTERNAL_PROBLEM"
    by (cases "checkProblem response")
       (auto simp: responseStage_def found split: if_splits option.splits sum.splits declared_response.splits dest: checked json)
qed

text \<open>The answer is the problem document of \<open>p\<close>: its status of the catalog, its media type, never cached, with the request ID.\<close>

definition problem_sent :: "chain_context \<Rightarrow> mapped_problem \<Rightarrow> http_response \<Rightarrow> bool" where
  "problem_sent cx p answer \<longleftrightarrow>
     problemStatus (mp_code p) = Some (rs_status answer) \<and> 400 \<le> rs_status answer \<and>
     rs_body answer = JsonBody (JObj (problem_members (requestIdOf cx) p)) \<and>
     response_header ''content-type'' answer = Some ''application/problem+json'' \<and>
     response_header ''cache-control'' answer = Some ''no-store'' \<and>
     response_header ''x-request-id'' answer = Some (requestIdOf cx)"

lemma fail_document:
  "rs_status (fail_response cd cx e) = status_of (mp_code (mapError e))"
  "rs_body (fail_response cd cx e) = JsonBody (JObj (problem_members (requestIdOf cx) (mapError e)))"
  "response_header ''content-type'' (fail_response cd cx e) = Some PROBLEM_CONTENT_TYPE"
  "response_header ''cache-control'' (fail_response cd cx e) = Some ''no-store''"
  "response_header REQUEST_ID_HEADER (fail_response cd cx e) = Some (requestIdOf cx)"
proof -
  have "isProblemContentType (failRequest (requestIdOf cx) e)"
    by (rule content_type_problem) (simp add: failRequest_def)
  then show "response_header ''cache-control'' (fail_response cd cx e) = Some ''no-store''"
    by (simp add: fail_response_def security_apply_header wanted_problem)
  show "response_header ''content-type'' (fail_response cd cx e) = Some PROBLEM_CONTENT_TYPE"
    by (simp add: fail_response_def security_apply_header wanted_none failRequest_def)
  have "\<not> prefix ''access-control-'' REQUEST_ID_HEADER"
    by (simp add: REQUEST_ID_HEADER_def)
  then show "response_header REQUEST_ID_HEADER (fail_response cd cx e) = Some (requestIdOf cx)"
    by (simp add: fail_response_def security_apply_header wanted_none failRequest_def)
  show "rs_status (fail_response cd cx e) = status_of (mp_code (mapError e))"
    "rs_body (fail_response cd cx e) = JsonBody (JObj (problem_members (requestIdOf cx) (mapError e)))"
    by (simp_all add: fail_response_def security_apply_def failRequest_def)
qed

text \<open>A response with that document, and with what the headers of the buckets add, is sent as it is.\<close>

lemma document_sent:
  assumes doc: "rs_status r = status_of (mp_code p)" "rs_body r = JsonBody (JObj (problem_members (requestIdOf cx) p))"
      "response_header ''content-type'' r = Some PROBLEM_CONTENT_TYPE" "response_header ''cache-control'' r = Some ''no-store''"
      "response_header REQUEST_ID_HEADER r = Some (requestIdOf cx)"
    and known: "problemStatus (mp_code p) = Some (rs_status r)"
  shows "problem_sent cx p (finish_request cx r)"
proof -
  have "finish_request cx r = r"
    using doc(5) by (simp add: finish_request_def requestIdOf_def split: option.split)
  then show ?thesis
    using doc known problemStatus_Some(2) [OF known] by (simp add: problem_sent_def PROBLEM_CONTENT_TYPE_def REQUEST_ID_HEADER_def)
qed

lemma checkProblem_status:
  assumes "checkProblem r = Inr ()" "rs_body r = JsonBody (JObj (problem_members requestId p))"
  shows "problemStatus (mp_code p) = Some (rs_status r)"
  using assms by (auto simp: checkProblem_def parseBody_def member_problem js_text_def split: if_splits option.splits js_value.splits)

lemma internal_sent:
  assumes "mapError e = INTERNAL_PROBLEM"
  shows "problem_sent cx INTERNAL_PROBLEM (finish_request cx (fail_response cd cx e))"
  using fail_document [of cd cx e] internal_problem(1) unfolding assms
  by (intro document_sent) (simp_all add: INTERNAL_PROBLEM_def status_of_def)

lemma failed_sent:
  fixes cd cx e
  defines "answer \<equiv> finish_request cx (checked cd cx (rate_apply cx (fail_response cd cx e)))"
  shows "problem_sent cx (mapError e) answer \<or> \<not> catalogued (mapError e) \<and> problem_sent cx INTERNAL_PROBLEM answer"
proof -
  let ?r = "rate_apply cx (fail_response cd cx e)"
  have doc: "rs_status ?r = status_of (mp_code (mapError e))" "rs_body ?r = JsonBody (JObj (problem_members (requestIdOf cx) (mapError e)))"
      "response_header ''content-type'' ?r = Some PROBLEM_CONTENT_TYPE" "response_header ''cache-control'' ?r = Some ''no-store''"
      "response_header REQUEST_ID_HEADER ?r = Some (requestIdOf cx)"
    using fail_document [of cd cx e] by (simp_all add: rate_apply_header late_header_def REQUEST_ID_HEADER_def)
       (metis REQUEST_ID_HEADER_def rate_apply_simps(3))
  have stage: "responseStage v declared ?r = map_sum id (\<lambda>_. ?r) (checkProblem ?r)" for v declared
    using content_type_problem [OF doc(3)] by (simp add: responseStage_def)
  show ?thesis
  proof (cases "checkProblem ?r")
    case (Inr u)
    then have "problemStatus (mp_code (mapError e)) = Some (rs_status ?r)"
      by (intro checkProblem_status [OF _ doc(2)]) simp
    from document_sent [OF doc this] show ?thesis
      by (simp add: answer_def checked_def stage Inr)
  next
    case (Inl e')
    then have "\<not> catalogued (mapError e)"
      using checkProblem_document [of "mapError e" ?r "requestIdOf cx"] doc by auto
    moreover have "problem_sent cx INTERNAL_PROBLEM (finish_request cx (fail_response cd cx e'))"
      by (rule internal_sent [OF mismatch_found(1) [OF Inl]])
    ultimately show ?thesis
      by (simp add: answer_def checked_def stage Inl)
  qed
qed

end
