(* ===== verification/HttpProperties.thy ===== *)
theory HttpProperties
  imports HttpAnswers
begin

text \<open>
  The properties of the request chain, with a concrete chain and requests they are applied to.
\<close>

section \<open>A chain to apply the properties to\<close>

text \<open>One operation, a session for every cookie, a limiter that allows, a resolver that answers an administrator's workspace.\<close>

definition demo_operation :: operation_definition where
  "demo_operation =
     \<lparr>op_method = ''post'', op_path = ''/api/v1/bookmarks'', op_operationId = ''createBookmark'', op_auth = AuthMember,
      op_rate = ''write'', op_scope = Some ScopeWrite, op_entitlement = None, op_reauth = False, op_audience = None,
      op_idempotency = True, op_params = None, op_query = None, op_body = Some (\<lambda>v. Inr v), op_maxBodyBytes = None,
      op_rateTakenByHandler = False, op_responses = [(201, JsonResponse (\<lambda>v. Inr v) [])]\<rparr>"

definition demo_session :: session_principal where
  "demo_session =
     \<lparr>se_accountId = ''account'', se_activeWorkspaceId = Some ''workspace'', se_sessionId = ''session'', se_instanceAdmin = False,
      se_mfaPending = False, se_reauthAt = None\<rparr>"

definition demo_chain :: "(unit, unit) chain_dependencies" where
  "demo_chain =
     \<lparr>cd_platform = \<lparr>pf_isIP = (\<lambda>_. 4), pf_decode = map code_unit, pf_decodeFatal = (\<lambda>s. Some (map code_unit s)),
                     pf_parseJson = (\<lambda>_. Some (JObj []))\<rparr>,
      cd_strict = id,
      cd_digests = \<lparr>dg_sha256 = (\<lambda>s. s), dg_stringify = (\<lambda>_. ''json''), dg_formData = (\<lambda>_. None)\<rparr>,
      cd_routes = RouteTable [\<lparr>rb_operation = demo_operation, rb_acceptsMultipart = False, rb_marketingOrigin = None\<rparr>],
      cd_handlers = (\<lambda>_ cx w. (Inr \<lparr>rs_status = 201, rs_headers = [(''content-type'', ''application/json'')], rs_body = JsonBody (JObj [])\<rparr>, cx, w)),
      cd_trustedProxyHops = 0, cd_origin = ''https://app.example'', cd_https = True,
      cd_challenge = (\<lambda>_ w. (Inr False, w)),
      cd_limiter = (\<lambda>_ w. (Inr \<lparr>dc_allowed = True, dc_limit = 120, dc_remaining = 119, dc_retryAfterSeconds = 0\<rparr>, w)),
      cd_rateLimits = createRateLimitRegistry (\<lambda>_. \<lparr>rl_count = 120, rl_windowSeconds = 60\<rparr>),
      cd_authenticators = [CookieAuthenticator (\<lambda>_ w. (Inr (Some demo_session), w))],
      cd_accessMode = (\<lambda>_ w. (Inr (Some FullAccess), w)),
      cd_tenantResolver = (\<lambda>_ _ w. (Inr (Some \<lparr>tr_workspaceId = ''workspace'', tr_memberId = ''member'', tr_role = RoleAdmin\<rparr>), w)),
      cd_authorization =
        \<lparr>ao_entitlements = denyEntitlements, ao_upgradeAvailable = noUpgradeAvailable, ao_secondFactor = denySecondFactor, ao_now = (\<lambda>_. 0)\<rparr>,
      cd_responseValidation = ThrowMismatch\<rparr>"

definition demo_request :: http_request where
  "demo_request =
     \<lparr>hr_method = ''POST'', hr_path = ''/api/v1/bookmarks'', hr_query = [],
      hr_headers = [(''cookie'', ''session=1''), (''origin'', ''https://app.example''), (''content-type'', ''application/json'')],
      hr_body = Some [''{}''], hr_socket = Some ''192.0.2.1''\<rparr>"

definition demo_world :: "(unit, unit) chain_world" where
  "demo_world = \<lparr>cw_keys = Map.empty, cw_data = (), cw_now = 0, cw_busy = (\<lambda>_. False), cw_other = ()\<rparr>"

definition demo_context :: chain_context where
  "demo_context = fst (snd (run_stages (REQUEST_STAGES demo_chain) (initial_context demo_chain ''fresh'' demo_request) demo_world))"

lemma demo_passes: "fst (run_stages (REQUEST_STAGES demo_chain) (initial_context demo_chain ''fresh'' demo_request) demo_world) = Inr CallNext"
  by code_simp

lemma demo_reaches: "reaches demo_chain demo_request demo_context"
  using demo_passes unfolding reaches_def demo_context_def by (metis prod.collapse)

lemma demo_route:
  "map_option (op_operationId \<circ> mr_operation) (cx_route demo_context) = Some ''createBookmark''"
  "map_option (op_auth \<circ> mr_operation) (cx_route demo_context) = Some AuthMember"
  "cx_principal demo_context = Some (Session demo_session)" "bearer_request demo_request = False"
  "js_upper (hr_method demo_request) = ''POST''" "audience_of demo_context = None"
  by code_simp+

section \<open>Authorization\<close>

text \<open>
  Claim C30: the handler of a matched operation runs only for a request its contract allows: the operation is open to anonymous
  or machine callers and names no entitlement, or the request carries a credential an authenticator accepted (a token in the
  \<open>Authorization\<close> header, or a session cookie of a request without that header) whose principal satisfies the declared policy:
  token scope, pending second factor, role in the resolved workspace, instance administration with its second factor,
  re-authentication in the last ten minutes, entitlement; and a token acts in the workspace it is bound to only.
\<close>

theorem handler_runs_only_if_authorized:
  assumes "reaches cd request cx" "cx_route cx = Some route"
  shows "match_route (cd_routes cd) (hr_method request) (hr_path request) = Some route \<and>
    (if op_auth (mr_operation route) \<in> {AuthAnonymous, AuthMachine} then op_entitlement (mr_operation route) = None
     else \<exists>who. cx_principal cx = Some who \<and> credential_of (cd_authenticators cd) request (client_of cd request) who \<and>
       authorized (cd_authorization cd) cx (mr_operation route) who \<and>
       (\<forall>t. who = ApiToken t \<longrightarrow>
          (\<exists>tenant. cx_tenant cx = Some tenant \<and> rt_accountId tenant = at_accountId t \<and>
             js_lower (rt_workspaceId tenant) = js_lower (at_workspaceId t))))"
proof -
  note facts = reaches_facts [OF assms(1)]
  have operation: "operation_of cx = Some (mr_operation route)" using assms(2) by (simp add: operation_of_def)
  have bound: "\<exists>tenant. cx_tenant cx = Some tenant \<and> rt_accountId tenant = at_accountId t \<and>
      js_lower (rt_workspaceId tenant) = js_lower (at_workspaceId t)" if who: "cx_principal cx = Some (ApiToken t)" for t
  proof -
    obtain tenant where "cx_tenant cx = Some tenant" using facts(10) [OF who] by blast
    then show ?thesis using facts(9) [of tenant] who by auto
  qed
  show ?thesis
    using facts(1,6) facts(11,12) [OF operation] bound assms(2) by auto
qed

lemma handler_runs_only_if_authorized_witness:
  "\<exists>who. cx_principal demo_context = Some who \<and>
     authorized (cd_authorization demo_chain) demo_context (mr_operation (the (cx_route demo_context))) who"
proof -
  obtain route where route: "cx_route demo_context = Some route" "op_auth (mr_operation route) = AuthMember"
    using demo_route(2) by auto
  show ?thesis using handler_runs_only_if_authorized [OF demo_reaches route(1)] route by auto
qed

text \<open>
  Claim C31: a mutation reaches a handler only when it comes from the application's own origin, is not marked as cross-site by the
  browser, and is sent as JSON (or as the multipart upload its route accepts), or when no browser session stands behind it and no cookie
  goes with it: then it carries a bearer token, or is on a machine route, or on the route of a marketing form, from the origin of that
  form, as JSON, with the challenge solved.
\<close>

theorem browser_mutations_come_from_own_origin:
  assumes "reaches cd request cx" "js_upper (hr_method request) \<in> {''POST'', ''PUT'', ''PATCH'', ''DELETE''}"
  shows "own_origin (cd_origin cd) cx \<or>
    (\<forall>s. cx_principal cx \<noteq> Some (Session s)) \<and> header ''cookie'' (cx_request cx) = None \<and>
    (bearer_request request \<or> audience_of cx = Some AudienceMachine \<or>
     audience_of cx = Some AudienceMarketingForm \<and> marketing_sent (cd_challenge cd) cx)"
proof (cases "audience_of cx = None \<and> \<not> bearer_request request")
  case True
  then show ?thesis
    using reaches_facts(8) [OF assms(1)] assms(2) by (auto simp: MUTATIONS_def)
next
  case False
  note facts = reaches_facts [OF assms(1)]
  have "cx_principal cx \<noteq> Some (Session s)" for s
  proof
    assume "cx_principal cx = Some (Session s)"
    from facts(6) [OF this] False show False
      by (auto simp: credential_of_def bearer_request_def resolves_no_credential_def audience_of_def split: option.splits)
  qed
  moreover have "header ''cookie'' (cx_request cx) = None"
    by (rule facts(15)) (use False in auto)
  moreover have "audience_of cx \<in> {None, Some AudienceMachine, Some AudienceMarketingForm}"
  proof (cases "audience_of cx")
    case (Some a)
    then show ?thesis by (cases a) simp_all
  qed simp
  ultimately show ?thesis
    using facts(16) False by auto
qed

lemma browser_mutations_come_from_own_origin_witness: "own_origin ''https://app.example'' demo_context"
  using browser_mutations_come_from_own_origin [OF demo_reaches] demo_route(3,5) by (simp add: demo_chain_def)

text \<open>
  No request of an account in the export-only mode reaches a handler, but for a session that calls one of the listed
  operations: with any other operation, or with an API token, the source must have answered that the account has full access.
\<close>

theorem export_only_accounts_are_held_back:
  assumes "reaches cd request cx" "cx_principal cx = Some who" "cx_route cx = Some route"
    and export: "\<And>w. fst (cd_accessMode cd (principal_accountId who) w) \<noteq> Inr (Some FullAccess)"
  shows "(\<exists>s. who = Session s) \<and> op_operationId (mr_operation route) \<in> set EXPORT_ONLY_OPERATIONS"
  using reaches_facts(7) [OF assms(1,2), of "mr_operation route"] assms(3) export by (auto simp: operation_of_def)

definition export_chain :: "(unit, unit) chain_dependencies" where
  "export_chain =
     demo_chain\<lparr>cd_accessMode := (\<lambda>_ w. (Inr (Some (ExportOnlyUntil ''2026-01-01'')), w)),
       cd_routes := RouteTable [\<lparr>rb_operation = demo_operation\<lparr>op_operationId := ''getBookmark''\<rparr>, rb_acceptsMultipart = False,
                                 rb_marketingOrigin = None\<rparr>]\<rparr>"

definition export_context :: chain_context where
  "export_context = fst (snd (run_stages (REQUEST_STAGES export_chain) (initial_context export_chain ''fresh'' demo_request) demo_world))"

lemma export_passes: "fst (run_stages (REQUEST_STAGES export_chain) (initial_context export_chain ''fresh'' demo_request) demo_world) = Inr CallNext"
  "cx_principal export_context = Some (Session demo_session)" "cx_route export_context \<noteq> None"
  by code_simp+

lemma export_only_accounts_are_held_back_witness:
  "op_operationId (mr_operation (the (cx_route export_context))) \<in> set EXPORT_ONLY_OPERATIONS"
proof -
  have "reaches export_chain demo_request export_context"
    using export_passes(1) unfolding reaches_def export_context_def by (metis prod.collapse)
  from export_only_accounts_are_held_back [OF this export_passes(2)] export_passes(3) show ?thesis
    by (auto simp: export_chain_def)
qed

section \<open>Bounds\<close>

text \<open>
  Claim C36: a handler is given at most as many bytes of body as its operation declares, or 64 KiB, whatever length the request
  claims and however it is cut into pieces; the bytes are those that were sent.
\<close>

theorem body_is_bounded:
  assumes "reaches cd request cx"
  shows "body_octets (cx_request cx) = body_octets request \<and>
    length (body_octets (cx_request cx)) \<le>
      (case cx_route cx of
         None \<Rightarrow> 65536
       | Some route \<Rightarrow> (case op_maxBodyBytes (mr_operation route) of None \<Rightarrow> 65536 | Some n \<Rightarrow> n))"
  using reaches_facts(3,4) [OF assms]
  by (cases "cx_route cx") (auto simp: body_limit_def operation_of_def DEFAULT_MAX_BODY_BYTES_def split: option.splits)

lemma body_is_bounded_witness: "body_octets (cx_request demo_context) = ''{}''"
  using body_is_bounded [OF demo_reaches] by (simp add: body_octets_def demo_request_def)

section \<open>Rate limits\<close>

text \<open>
  Claim C37: a request whose stages let it through to the handler of an operation with a rate bucket was granted one token of every limit of
  the bucket that counts per client address, under the key of the address of the client, which nothing but the entry of the trusted
  proxy, or the socket, decides: the limiter was asked for each of these limits in turn, from the state the request came in, it allowed
  each, and the later stages ran from the state these calls left. A limiter that fails or denies never lets the request through.
\<close>

theorem ip_limits_are_taken:
  assumes run: "run_stages (REQUEST_STAGES cd) (initial_context cd freshId request) w = (Inr CallNext, cx, w')"
    and route: "match_route (cd_routes cd) (hr_method request) (hr_path request) = Some route"
    and rate: "op_rate (mr_operation route) \<noteq> ''none''" "op_audience (mr_operation route) \<noteq> Some AudienceMachine"
    and limits: "scopesOf (cd_rateLimits cd) (if op_rateTakenByHandler (mr_operation route) then ''read'' else op_rate (mr_operation route)) = Some limits"
    and key: "key = rateLimitKeyOf (pf_isIP (cd_platform cd)) (case client_of cd request of None \<Rightarrow> ''unknown'' | Some ip \<Rightarrow> ip)"
  shows "\<exists>cx1 w1. granted (cd_limiter cd) (map (\<lambda>limit. (limit, key)) (filter (\<lambda>limit. sl_scope limit = RateIp) limits)) w w1 \<and>
    run_stages (authentication_stage cd # after_authentication cd) cx1 w1 = (Inr CallNext, cx, w')"
proof -
  obtain cx1 cx2 cx3 w1 w2 w3 where steps:
    "requestContextStage (cd_platform cd) (cd_trustedProxyHops cd) (initial_context cd freshId request) w = (Inr CallNext, cx1, w1)"
    "bodyLimits (cd_platform cd) cx1 w1 = (Inr CallNext, cx2, w2)"
    "ipStage (pf_isIP (cd_platform cd)) (cd_rateLimits cd) (cd_limiter cd) cx2 w2 = (Inr CallNext, cx3, w3)"
    "run_stages (authentication_stage cd # after_authentication cd) cx3 w3 = (Inr CallNext, cx, w')"
    using run unfolding REQUEST_STAGES_def before_authentication_def run_stages_append
    by (simp only: run_stages_next run_stages.simps(1)) (elim exE conjE, simp)
  have "cx_route cx1 = Some route" "cx_clientIp cx1 = client_of cd request"
    using route by (subst requestContextStage_next(1) [OF steps(1)], simp add: initial_context_def client_of_def)+
  then have cx2: "operation_of cx2 = Some (mr_operation route)" "cx_clientIp cx2 = client_of cd request"
    by (subst bodyLimits_next(1) [OF steps(2)], simp add: operation_of_def)+
  have "limitedOperation (cd_rateLimits cd) cx2 =
      Inr (Some (if op_rateTakenByHandler (mr_operation route) then ''read'' else op_rate (mr_operation route), limits))"
    using rate limits cx2(1)
    by (simp add: limitedOperation_def declaredBucket_def taken_by_handler_def HANDLER_TAKEN_STAGE_BUCKET_def split: if_splits)
  then have "granted (cd_limiter cd) (entries_of (pf_isIP (cd_platform cd)) cx2 (filter (\<lambda>limit. sl_scope limit = RateIp) limits)) w2 w3"
    by (rule rate_take_granted [OF ipStage_next(2) [OF steps(3)]])
  moreover have "entries_of (pf_isIP (cd_platform cd)) cx2 (filter (\<lambda>limit. sl_scope limit = RateIp) limits) =
      map (\<lambda>limit. (limit, key)) (filter (\<lambda>limit. sl_scope limit = RateIp) limits)"
    unfolding key entries_of_def
    by (induction limits) (auto simp: subjectOf_def client_key_def UNKNOWN_CLIENT_def cx2(2) split: option.split)
  moreover have "w2 = w"
    using requestContextStage_next(3) [OF steps(1)] bodyLimits_next(6) [OF steps(2)] by simp
  ultimately show ?thesis
    using steps(4) by metis
qed

text \<open>A chain whose limiter counts down what is left for the addresses, at a request that finds two tokens.\<close>

definition counting_chain :: "(unit, nat) chain_dependencies" where
  "counting_chain =
     \<lparr>cd_platform = cd_platform demo_chain, cd_strict = id, cd_digests = cd_digests demo_chain, cd_routes = cd_routes demo_chain,
      cd_handlers = (\<lambda>_ cx w. (Inr \<lparr>rs_status = 201, rs_headers = [(''content-type'', ''application/json'')], rs_body = JsonBody (JObj [])\<rparr>, cx, w)),
      cd_trustedProxyHops = 0, cd_origin = ''https://app.example'', cd_https = True, cd_challenge = (\<lambda>_ w. (Inr False, w)),
      cd_limiter = (\<lambda>_ w. (Inr \<lparr>dc_allowed = 0 < cw_other w, dc_limit = 120, dc_remaining = int (cw_other w - 1), dc_retryAfterSeconds = 0\<rparr>,
        w\<lparr>cw_other := cw_other w - 1\<rparr>)),
      cd_rateLimits = cd_rateLimits demo_chain, cd_authenticators = [CookieAuthenticator (\<lambda>_ w. (Inr (Some demo_session), w))],
      cd_accessMode = (\<lambda>_ w. (Inr (Some FullAccess), w)),
      cd_tenantResolver = (\<lambda>_ _ w. (Inr (Some \<lparr>tr_workspaceId = ''workspace'', tr_memberId = ''member'', tr_role = RoleAdmin\<rparr>), w)),
      cd_authorization =
        \<lparr>ao_entitlements = denyEntitlements, ao_upgradeAvailable = noUpgradeAvailable, ao_secondFactor = denySecondFactor, ao_now = (\<lambda>_. 0)\<rparr>,
      cd_responseValidation = ThrowMismatch\<rparr>"

definition counting_world :: "(unit, nat) chain_world" where
  "counting_world = \<lparr>cw_keys = Map.empty, cw_data = (), cw_now = 0, cw_busy = (\<lambda>_. False), cw_other = 5\<rparr>"


lemma counting_facts:
  "fst (run_stages (REQUEST_STAGES counting_chain) (initial_context counting_chain ''fresh'' demo_request) counting_world) = Inr CallNext"
  "map_option (\<lambda>route. (op_rate (mr_operation route), op_audience (mr_operation route), op_rateTakenByHandler (mr_operation route)))
     (match_route (cd_routes counting_chain) (hr_method demo_request) (hr_path demo_request)) = Some (''write'', None, False)"
  "map_option (map (\<lambda>limit. (limit, ''192.0.2.1'')) \<circ> filter (\<lambda>limit. sl_scope limit = RateIp)) (scopesOf (cd_rateLimits counting_chain) ''write'') =
     Some [(\<lparr>sl_scope = RateIp, sl_name = ''write'', sl_spec = \<lparr>rl_count = 120, rl_windowSeconds = 60\<rparr>\<rparr>, ''192.0.2.1'')]"
  "rateLimitKeyOf (pf_isIP (cd_platform counting_chain)) (case client_of counting_chain demo_request of None \<Rightarrow> ''unknown'' | Some ip \<Rightarrow> ip) = ''192.0.2.1''"
  by code_simp+

lemma ip_limits_are_taken_witness:
  "\<exists>cx1 w1. cw_other w1 = 4 \<and> fst (run_stages (authentication_stage counting_chain # after_authentication counting_chain) cx1 w1) = Inr CallNext"
proof -
  obtain cx w' where run: "run_stages (REQUEST_STAGES counting_chain) (initial_context counting_chain ''fresh'' demo_request) counting_world =
      (Inr CallNext, cx, w')"
    using counting_facts(1) by (metis prod.collapse)
  obtain route where route: "match_route (cd_routes counting_chain) (hr_method demo_request) (hr_path demo_request) = Some route"
      "op_rate (mr_operation route) = ''write''" "op_audience (mr_operation route) = None" "\<not> op_rateTakenByHandler (mr_operation route)"
    using counting_facts(2) by auto
  obtain limits where limits: "scopesOf (cd_rateLimits counting_chain) ''write'' = Some limits"
      "map (\<lambda>limit. (limit, ''192.0.2.1'')) (filter (\<lambda>limit. sl_scope limit = RateIp) limits) =
         [(\<lparr>sl_scope = RateIp, sl_name = ''write'', sl_spec = \<lparr>rl_count = 120, rl_windowSeconds = 60\<rparr>\<rparr>, ''192.0.2.1'')]"
    using counting_facts(3) by auto
  obtain cx1 w1 where "granted (cd_limiter counting_chain)
        [(\<lparr>sl_scope = RateIp, sl_name = ''write'', sl_spec = \<lparr>rl_count = 120, rl_windowSeconds = 60\<rparr>\<rparr>, ''192.0.2.1'')] counting_world w1"
      "run_stages (authentication_stage counting_chain # after_authentication counting_chain) cx1 w1 = (Inr CallNext, cx, w')"
    using ip_limits_are_taken [OF run route(1), of limits "''192.0.2.1''"] route limits counting_facts(4) by auto
  moreover from this(1) have "cw_other w1 = 4"
    by (simp add: counting_chain_def counting_world_def)
  ultimately show ?thesis by (intro exI [of _ cx1] exI [of _ w1]) simp
qed

section \<open>Answers\<close>

text \<open>
  Claim C34: whatever a request is answered with, by whichever stage, handler or failure, the answer carries the content security policy
  and the other fixed security headers, the referrer policy of its path, the transport header when the deployment is on HTTPS, and no
  header that grants cross-origin access. Under \<open>/api\<close> and \<open>/go\<close> and on the probe paths, written or percent-encoded, it is never stored,
  but for a status for which the operation declares a cache policy of its own, which it carries instead unless it is a problem. It carries
  the ID of the request: the one the request came with when that is safe, and the fresh one otherwise. The handlers leave the request,
  its route and its ID as they are.
\<close>

theorem every_answer_is_hardened:
  assumes "handlers_stay cd"
  shows "let answer = fst (serve cd freshId request w); sent = (\<lambda>name. response_header name answer) in
    (\<forall>(name, text) \<in> set [(''content-security-policy'', CONTENT_SECURITY_POLICY), (''x-content-type-options'', ''nosniff''),
        (''cross-origin-opener-policy'', ''same-origin''), (''permissions-policy'', ''camera=(), microphone=(), geolocation=()'')].
       sent name = Some text) \<and>
    sent ''referrer-policy'' = Some (if in_area ''/go'' (hr_path request) then ''no-referrer'' else ''strict-origin-when-cross-origin'') \<and>
    (cd_https cd \<longrightarrow> sent ''strict-transport-security'' = Some ''max-age=31536000'') \<and>
    (never_cached (hr_path request) \<longrightarrow> sent ''cache-control'' = Some ''no-store'' \<or>
       \<not> isProblemContentType answer \<and>
       (\<exists>route policy. match_route (cd_routes cd) (hr_method request) (hr_path request) = Some route \<and>
          declaredCachePolicy (mr_operation route) (rs_status answer) = Some policy \<and> sent ''cache-control'' = Some policy)) \<and>
    sent ''x-request-id'' = Some (requestIdFrom freshId (header ''x-request-id'' request)) \<and>
    sent (''access-control-'' @ rest) = None"
proof -
  let ?answer = "fst (serve cd freshId request w)"
  obtain result cx w' where run: "dispatch cd (initial_context cd freshId request) w = (result, cx, w')"
    by (rule prod_cases3)
  note place = dispatched_place [OF assms run]
  obtain response where status: "rs_status ?answer = rs_status response"
    and sent: "\<And>name. \<not> late_header name \<Longrightarrow> response_header name ?answer = response_header name (security_apply (cd_https cd) cx response)"
    using serve_header [OF run] by blast
  have set_by: "response_header name ?answer = Some t" if "map_of (wanted_headers (cd_https cd) cx response) name = Some t" "\<not> late_header name" for name t
    using that by (simp add: sent security_apply_header)
  have early: "\<not> late_header name" if "name \<in> {''referrer-policy'', ''strict-transport-security'', ''cache-control'', ''content-type''}" for name
    using that by (auto simp: late_header_def REQUEST_ID_HEADER_def)
  have always: "response_header name ?answer = Some t" if "(name, t) \<in> set ALWAYS_SENT" for name t
    using that by (intro set_by wanted_always) (auto simp: ALWAYS_SENT_def late_header_def REQUEST_ID_HEADER_def)
  moreover have "response_header (''access-control-'' @ rest) ?answer = None"
    by (subst sent) (simp_all add: late_header_def REQUEST_ID_HEADER_def security_apply_header wanted_no_cors)
  moreover have "response_header ''x-request-id'' ?answer = Some (requestIdFrom freshId (header ''x-request-id'' request))"
    using finish_request_id [OF place(3)] by (simp add: serve_def run REQUEST_ID_HEADER_def)
  moreover have "isProblemContentType ?answer \<longleftrightarrow> isProblemContentType response"
    by (simp add: isProblemContentType_def content_type_def sent [OF early] security_apply_header wanted_none(1))
  moreover have "declared_policy cx status = Some policy \<longleftrightarrow>
      (\<exists>route. match_route (cd_routes cd) (hr_method request) (hr_path request) = Some route \<and> declaredCachePolicy (mr_operation route) status = Some policy)"
    for status policy
    by (auto simp: declared_policy_def operation_of_def place(1) split: option.split)
  moreover note wanted = wanted_by_path [where https = "cd_https cd" and cx = cx and response = response, unfolded place(2)]
  have "response_header ''referrer-policy'' ?answer =
      Some (if in_area ''/go'' (hr_path request) then ''no-referrer'' else ''strict-origin-when-cross-origin'')"
    by (rule set_by [OF wanted(1) early]) simp
  moreover have "cd_https cd \<Longrightarrow> response_header ''strict-transport-security'' ?answer = Some ''max-age=31536000''"
    by (rule set_by [OF wanted(2) early]) simp_all
  moreover have "never_cached (hr_path request) \<Longrightarrow> response_header ''cache-control'' ?answer =
      Some (case declared_policy cx (rs_status response) of Some policy \<Rightarrow> if isProblemContentType response then ''no-store'' else policy | None \<Rightarrow> ''no-store'')"
    by (rule set_by [OF wanted(3) early]) simp_all
  ultimately show ?thesis
    using status unfolding ALWAYS_SENT_def Let_def by (auto split: option.splits)
qed

lemma every_answer_is_hardened_witness:
  "response_header ''x-request-id'' (fst (serve demo_chain ''fresh'' demo_request demo_world)) = Some ''fresh'' \<and>
   response_header ''cache-control'' (fst (serve demo_chain ''fresh'' demo_request demo_world)) = Some ''no-store''"
proof -
  have "handlers_stay demo_chain"
    by (simp add: handlers_stay_def keeps_place_def demo_chain_def)
  moreover have "requestIdFrom ''fresh'' (header ''x-request-id'' demo_request) = ''fresh''"
    by code_simp
  moreover have "under ''/api'' (points (hr_path demo_request))"
    by code_simp
  then have "never_cached (hr_path demo_request)"
    by (simp add: never_cached_def in_area_def)
  moreover have "case match_route (cd_routes demo_chain) (hr_method demo_request) (hr_path demo_request) of
      None \<Rightarrow> True | Some route \<Rightarrow> list_all (\<lambda>(status, declared). case declared of JsonResponse _ headers \<Rightarrow> headers = [] | _ \<Rightarrow> False) (op_responses (mr_operation route))"
    by code_simp
  then have "\<nexists>route policy status. match_route (cd_routes demo_chain) (hr_method demo_request) (hr_path demo_request) = Some route \<and>
      declaredCachePolicy (mr_operation route) status = Some policy"
    by (auto simp: declaredCachePolicy_def declared_headers_of_def list_all_iff split: option.splits declared_response.splits dest!: map_of_SomeD)
  ultimately show ?thesis
    using every_answer_is_hardened [of demo_chain "''fresh''" demo_request demo_world] unfolding Let_def by metis
qed

text \<open>
  Claim C35: whatever a stage or the handler throws, and whatever the check of the response finds wrong with an answer, the request is
  answered with a problem document: the status the catalog has for its code, the problem media type, never cached, with the code and the
  request ID in the body. It is the document of the error that was thrown, unless that error has no entry in the catalog or a member of a
  standard name, which may be \<open>500 internal\<close> then; it is \<open>500 internal\<close> for what the check finds and for every error that is no problem,
  and nothing of the error but that code is in it. An answer the check accepts is sent.
\<close>

theorem failure_is_answered_by_its_problem:
  assumes run: "dispatch cd (initial_context cd freshId request) w = (result, cx, w')"
  shows "let answer = fst (serve cd freshId request w) in
    (case result of
       Inl e \<Rightarrow>
         (problem_sent cx (mapError e) answer \<or> \<not> catalogued (mapError e) \<and> problem_sent cx INTERNAL_PROBLEM answer) \<and>
         ((\<nexists>c d m es. e = ProblemError c d es m) \<longrightarrow> (\<nexists>issues. e = ZodError issues) \<longrightarrow> (\<nexists>c. e = PortUnavailable c) \<longrightarrow>
            mapError e = INTERNAL_PROBLEM)
     | Inr response \<Rightarrow>
         (case responseStage (cd_responseValidation cd) (declared_responses cx) (answered cd cx result) of
            Inl _ \<Rightarrow> problem_sent cx INTERNAL_PROBLEM answer
          | Inr sent \<Rightarrow> answer = finish_request cx sent))"
proof (cases result)
  case (Inl e)
  then show ?thesis
    using failed_sent [of cx e cd] mapError_internal [of e] by (auto simp: serve_def run answered_def Let_def)
next
  case (Inr response)
  have sent: "fst (serve cd freshId request w) = finish_request cx (checked cd cx (answered cd cx result))"
    by (simp add: serve_def run)
  show ?thesis
  proof (cases "responseStage (cd_responseValidation cd) (declared_responses cx) (answered cd cx result)")
    case (Inl e)
    then have "problem_sent cx INTERNAL_PROBLEM (fst (serve cd freshId request w))"
      using internal_sent [OF mismatch_found(2) [OF Inl]] by (simp add: sent checked_def)
    then show ?thesis
      using Inl \<open>result = Inr response\<close> by simp
  next
    case (Inr ok)
    then show ?thesis
      using \<open>result = Inr response\<close> by (simp add: sent checked_def)
  qed
qed

definition failing_chain :: "(unit, unit) chain_dependencies" where
  "failing_chain = demo_chain\<lparr>cd_handlers := (\<lambda>_ cx w. (Inl (UnexpectedError (JsError ''boom'')), cx, w))\<rparr>"

lemma failing_dispatch:
  "map_sum id (\<lambda>_. ()) (fst (dispatch failing_chain (initial_context failing_chain ''fresh'' demo_request) demo_world)) =
     Inl (UnexpectedError (JsError ''boom''))"
  by code_simp

text \<open>A handler that answers a status its operation does not declare.\<close>

definition undeclared_chain :: "(unit, unit) chain_dependencies" where
  "undeclared_chain = demo_chain\<lparr>cd_handlers := (\<lambda>_ cx w. (Inr \<lparr>rs_status = 204, rs_headers = [], rs_body = NoBody\<rparr>, cx, w))\<rparr>"

lemma undeclared_dispatch:
  "(case dispatch undeclared_chain (initial_context undeclared_chain ''fresh'' demo_request) demo_world of
      (Inr response, cx, _) \<Rightarrow>
        (case responseStage (cd_responseValidation undeclared_chain) (declared_responses cx) (answered undeclared_chain cx (Inr response)) of
           Inl _ \<Rightarrow> True | Inr _ \<Rightarrow> False)
    | _ \<Rightarrow> False)"
  by code_simp

lemma failure_is_answered_by_its_problem_witness:
  "rs_status (fst (serve failing_chain ''fresh'' demo_request demo_world)) = 500 \<and>
   rs_status (fst (serve undeclared_chain ''fresh'' demo_request demo_world)) = 500"
proof
  obtain cx w' where "dispatch failing_chain (initial_context failing_chain ''fresh'' demo_request) demo_world =
      (Inl (UnexpectedError (JsError ''boom'')), cx, w')"
    using failing_dispatch
    by (cases "dispatch failing_chain (initial_context failing_chain ''fresh'' demo_request) demo_world";
        cases "fst (dispatch failing_chain (initial_context failing_chain ''fresh'' demo_request) demo_world)") auto
  from failure_is_answered_by_its_problem [OF this] show "rs_status (fst (serve failing_chain ''fresh'' demo_request demo_world)) = 500"
    by (auto simp: problem_sent_def Let_def INTERNAL_PROBLEM_def internal_problem)
next
  obtain r cx0 v where "dispatch undeclared_chain (initial_context undeclared_chain ''fresh'' demo_request) demo_world = (r, cx0, v)"
    by (rule prod_cases3)
  then obtain response cx w' where "dispatch undeclared_chain (initial_context undeclared_chain ''fresh'' demo_request) demo_world = (Inr response, cx, w')"
      "\<exists>e. responseStage (cd_responseValidation undeclared_chain) (declared_responses cx) (answered undeclared_chain cx (Inr response)) = Inl e"
    using undeclared_dispatch
    by (cases r; cases "responseStage (cd_responseValidation undeclared_chain) (declared_responses cx0) (answered undeclared_chain cx0 (Inr (projr r)))") auto
  from failure_is_answered_by_its_problem [OF this(1)] this(2)
  show "rs_status (fst (serve undeclared_chain ''fresh'' demo_request demo_world)) = 500"
    by (auto simp: problem_sent_def Let_def INTERNAL_PROBLEM_def internal_problem)
qed

section \<open>Idempotency keys\<close>

text \<open>
  Claim C32: of the requests of any processes, however their transactions interleave and whenever expired keys are purged, two
  that sent the same key for the same account ran only when the second claimed the key at least 24 hours after the first began;
  and a request that was answered without running was answered with the stored response of an earlier run of the same operation
  and the same request. (The log has the newest event first.)
\<close>

theorem idempotent_requests_run_once:
  assumes "idem_reachable now s" "is_log s = later @ event # earlier"
  shows "(\<forall>q response r answer. event = Ran q response \<longrightarrow> Ran r answer \<in> set earlier \<longrightarrow> run_key r = run_key q \<longrightarrow>
       ir_started r + 24 * 3600 \<le> ir_claimedAt q) \<and>
    (\<forall>q response. event = Replayed q response \<longrightarrow>
       (\<exists>r. Ran r response \<in> set earlier \<and> run_key r = run_key q \<and> ic_operation (ir_claim r) = ic_operation (ir_claim q) \<and>
          ic_requestHash (ir_claim r) = ic_requestHash (ir_claim q)))"
proof -
  have "log_ok (is_log s)" by (rule idem_invD(1) [OF idem_inv_reachable [OF assms(1)]])
  then have "log_ok (event # earlier)"
    unfolding assms(2)
  proof (induction later)
    case (Cons e later)
    then show ?case by (cases e) auto
  qed simp
  then show ?thesis
    by (cases event) (auto simp: EXPIRY_def)
qed

definition demo_run :: idem_run where
  "demo_run =
     \<lparr>ir_account = ''account'', ir_claim = \<lparr>ic_key = ''key'', ic_operation = ''createBookmark'', ic_requestHash = ''hash''\<rparr>,
      ir_started = 5, ir_claimedAt = 5\<rparr>"

definition demo_response :: stored_response where
  "demo_response = \<lparr>sr_status = 201, sr_body = JNull\<rparr>"

definition demo_row :: idempotency_row where
  "demo_row = \<lparr>ik_operation = ''createBookmark'', ik_requestHash = ''hash'', ik_response = Some demo_response, ik_expiresAt = 5 + EXPIRY\<rparr>"

definition demo_state :: idem_state where
  "demo_state =
     \<lparr>is_keys = [(''account'', ''key'') \<mapsto> demo_row], is_running = [],
      is_log = [Replayed demo_run demo_response, Ran demo_run demo_response], is_now = 5\<rparr>"

lemma demo_state_reachable: "idem_reachable 5 demo_state"
proof -
  let ?s0 = "idem_initial 5"
  let ?s1 = "?s0\<lparr>is_running := demo_run # is_running ?s0\<rparr>"
  let ?s2 = "logged (Ran demo_run demo_response) (?s1\<lparr>is_keys := [(''account'', ''key'') \<mapsto> demo_row],
    is_running := remove1 demo_run (is_running ?s1)\<rparr>)"
  note defs = idem_initial_def key_free_def demo_run_def claim_key_def claim_insert_def Let_def logged_def complete_key_def demo_row_def
    EXPIRY_def demo_response_def
  have "idem_step ?s0 ?s1"
    by (rule idem_step.claimed [where keys = "[(''account'', ''key'') \<mapsto> demo_row\<lparr>ik_response := None\<rparr>]"]) (simp_all add: defs)
  moreover have "idem_step ?s1 ?s2"
    by (rule idem_step.commit [where keys = "[(''account'', ''key'') \<mapsto> demo_row\<lparr>ik_response := None\<rparr>]"]) (simp_all add: defs)
  moreover have "idem_step ?s2 (logged (Replayed demo_run demo_response) ?s2)"
    by (rule idem_step.replayed [where keys = "[(''account'', ''key'') \<mapsto> demo_row]"]) (simp_all add: defs)
  moreover have "logged (Replayed demo_run demo_response) ?s2 = demo_state"
    by (simp add: demo_state_def logged_def idem_initial_def)
  ultimately show ?thesis
    using idem_reachable.step [OF idem_reachable.step [OF idem_reachable.step [OF idem_reachable.initial]]] by simp
qed

lemma idempotent_requests_run_once_witness: "\<exists>r. Ran r demo_response \<in> {Ran demo_run demo_response} \<and> run_key r = run_key demo_run"
  using idempotent_requests_run_once [OF demo_state_reachable, of "[]" "Replayed demo_run demo_response" "[Ran demo_run demo_response]"]
  by (auto simp: demo_state_def)

text \<open>What an event says the request was answered.\<close>

fun answers :: "idem_event \<Rightarrow> http_error + http_response \<Rightarrow> bool" where
  "answers (Ran r stored) result \<longleftrightarrow> (\<exists>response. result = Inr response \<and> successful response \<and> storable_response response = Inr stored)"
| "answers (Replayed r stored) result \<longleftrightarrow> result = Inr (replay_response stored)"
| "answers (Conflicted r) result \<longleftrightarrow> result = Inl idempotency_conflict"
| "answers (Busy r) result \<longleftrightarrow> (\<exists>detail. result = Inl (problem_error ''unavailable'' detail))"
| "answers (RolledBack r) result \<longleftrightarrow>
     (case result of Inl e \<Rightarrow> True | Inr response \<Rightarrow> \<not> successful response)"

text \<open>The handler writes no idempotency key itself.\<close>

definition keeps_keys :: "('d, 'o) chain_world runner \<Rightarrow> bool" where
  "keeps_keys handler \<longleftrightarrow> (\<forall>cx w. cw_keys (snd (snd (handler cx w))) = cw_keys w)"

lemma idem_steps2: "idem_step s t \<Longrightarrow> idem_step t u \<Longrightarrow> idem_step\<^sup>*\<^sup>* s u"
  by (meson converse_rtranclp_into_rtranclp r_into_rtranclp)

lemma run_claimed_steps:
  assumes claim: "claim_insert accountId claim (cw_now w) (cw_keys w) = Some keys"
    and handler: "keeps_keys handler"
    and run: "run_claimed accountId claim keys handler cx w = (result, cx', w')"
    and s: "is_keys s = cw_keys w" "is_now s = cw_now w"
    and r: "r = \<lparr>ir_account = accountId, ir_claim = claim, ir_started = cw_now w, ir_claimedAt = cw_now w\<rparr>"
  shows "(\<exists>stored. answers (Ran r stored) result \<and>
      idem_step (s\<lparr>is_running := r # is_running s\<rparr>) (logged (Ran r stored) (s\<lparr>is_keys := cw_keys w'\<rparr>))) \<or>
    (answers (RolledBack r) result \<and> cw_keys w' = cw_keys w \<and> cw_data w' = cw_data w \<and>
      idem_step (s\<lparr>is_running := r # is_running s\<rparr>) (logged (RolledBack r) s))"
proof -
  let ?s = "s\<lparr>is_running := r # is_running s\<rparr>"
  obtain result1 cx1 w1 where h: "handler cx (w\<lparr>cw_keys := keys\<rparr>) = (result1, cx1, w1)" by (metis prod_cases3)
  have keys1: "cw_keys w1 = keys" using handler [unfolded keeps_keys_def, rule_format, of cx "w\<lparr>cw_keys := keys\<rparr>"] h by simp
  have undone: "idem_step ?s (logged (RolledBack r) s)"
    using idem_step.rollback [of r ?s] by simp
  have row: "keys (accountId, ic_key claim) = Some \<lparr>ik_operation = ic_operation claim, ik_requestHash = ic_requestHash claim,
      ik_response = None, ik_expiresAt = cw_now w + EXPIRY\<rparr>"
    using claim by (simp add: claim_insert_Some)
  show ?thesis
  proof (cases "\<exists>response stored. result1 = Inr response \<and> successful response \<and> storable_response response = Inr stored")
    case True
    then obtain response stored where ok: "result1 = Inr response" "successful response" "storable_response response = Inr stored" by blast
    obtain keys' where completed: "complete_key accountId (ic_key claim) stored keys = Inr keys'"
      using row by (simp add: complete_key_def)
    have "result = Inr response" "cw_keys w' = keys'"
      using run h ok completed keys1 by (auto simp: run_claimed_def)
    moreover have "idem_step ?s (logged (Ran r stored) (?s\<lparr>is_keys := keys', is_running := remove1 r (is_running ?s)\<rparr>))"
      by (rule idem_step.commit [where keys = keys]) (use claim completed s in \<open>simp_all add: r\<close>)
    ultimately show ?thesis
      using ok by auto
  next
    case False
    then have "cw_keys w' = cw_keys w" "cw_data w' = cw_data w" "answers (RolledBack r) result"
      using run h by (auto simp: run_claimed_def rolled_back_def split: sum.splits if_splits)
    with undone show ?thesis by blast
  qed
qed

text \<open>
  Claim C33: the stage implements the step relation: a request with a key, in a state of concurrent requests with the same committed
  keys and clock, where the database makes it wait in vain exactly when another request holds its key, takes steps of the relation
  that end in the keys it leaves committed, log one event that says what it is answered, and leave no run of its own open; and a
  request that did not run successfully leaves the data of the database as it found them.
\<close>

theorem stage_refines_steps:
  assumes reachable: "idem_reachable start s"
    and s: "is_keys s = cw_keys w" "is_now s = cw_now w" "cw_busy w (accountId, ic_key claim) \<longleftrightarrow> \<not> key_free s (accountId, ic_key claim)"
    and handler: "keeps_keys handler"
    and run: "in_transaction accountId claim handler cx w = (result, cx', w')"
    and r: "r = \<lparr>ir_account = accountId, ir_claim = claim, ir_started = cw_now w, ir_claimedAt = cw_now w\<rparr>"
  shows "\<exists>event s'. idem_step\<^sup>*\<^sup>* s s' \<and> is_keys s' = cw_keys w' \<and> is_running s' = is_running s \<and>
    is_log s' = event # is_log s \<and> answers event result \<and> ((\<exists>stored. event = Ran r stored) \<or> cw_data w' = cw_data w)"
proof -
  have inv: "idem_inv s" by (rule idem_inv_reachable [OF reachable])
  have key: "run_key r = (accountId, ic_key claim)" by (simp add: r run_key_def)
  show ?thesis
  proof (cases "cw_busy w (accountId, ic_key claim)")
    case True
    then have "idem_step s (logged (Busy r) s)" using s(3) by (intro idem_step.busy) (simp add: key)
    then have "idem_step\<^sup>*\<^sup>* s (logged (Busy r) s)" by (rule r_into_rtranclp)
    then show ?thesis
      using True run s(1) by (intro exI [of _ "Busy r"] exI [of _ "logged (Busy r) s"]) (auto simp: in_transaction_def logged_def)
  next
    case False
    then have free: "key_free s (run_key r)" using s(3) by (simp add: key)
    show ?thesis
    proof (cases "claim_insert accountId claim (cw_now w) (cw_keys w)")
      case (Some keys)
      have "idem_step s (s\<lparr>is_running := r # is_running s\<rparr>)"
        by (rule idem_step.claimed [where keys = keys]) (use free Some s in \<open>simp_all add: claim_key_cases r\<close>)
      note steps = idem_steps2 [OF this]
      have rc: "run_claimed accountId claim keys handler cx w = (result, cx', w')"
        using run False Some by (simp add: in_transaction_def claim_key_def)
      from run_claimed_steps [OF Some handler rc s(1,2) r] show ?thesis
      proof (elim disjE exE conjE)
        fix stored
        assume "answers (Ran r stored) result"
          "idem_step (s\<lparr>is_running := r # is_running s\<rparr>) (logged (Ran r stored) (s\<lparr>is_keys := cw_keys w'\<rparr>))"
        then show ?thesis
          using steps by (intro exI [of _ "Ran r stored"] exI [of _ "logged (Ran r stored) (s\<lparr>is_keys := cw_keys w'\<rparr>)"]) (auto simp: logged_def)
      next
        assume "answers (RolledBack r) result" "cw_keys w' = cw_keys w" "cw_data w' = cw_data w"
          "idem_step (s\<lparr>is_running := r # is_running s\<rparr>) (logged (RolledBack r) s)"
        then show ?thesis
          using steps s(1) by (intro exI [of _ "RolledBack r"] exI [of _ "logged (RolledBack r) s"]) (auto simp: logged_def)
      qed
    next
      case None
      then obtain row where row: "is_keys s (run_key r) = Some row"
        using s(1) by (auto simp: claim_insert_def key Let_def split: option.splits)
      obtain stored where stored: "ik_response row = Some stored"
        using idem_invD(4) [OF inv row] by (auto simp: row_recorded_def)
      show ?thesis
      proof (cases "ik_operation row \<noteq> ic_operation claim \<or> ik_requestHash row \<noteq> ic_requestHash claim")
        case True
        then have c: "claim_key accountId claim (cw_now w) (cw_keys w) = Inr (Conflict, cw_keys w)"
          using None row s(1) by (auto simp: claim_key_def key)
        have "idem_step s (logged (Conflicted r) s)"
          by (rule idem_step.conflict) (use free c s in \<open>simp_all add: r\<close>)
        then have "idem_step\<^sup>*\<^sup>* s (logged (Conflicted r) s)" by (rule r_into_rtranclp)
        then show ?thesis
          using run False c s(1) by (intro exI [of _ "Conflicted r"] exI [of _ "logged (Conflicted r) s"]) (auto simp: in_transaction_def logged_def)
      next
        case same: False
        then have c: "claim_key accountId claim (cw_now w) (cw_keys w) = Inr (Replay stored, cw_keys w)"
          using None row stored s(1) by (auto simp: claim_key_def key)
        have "idem_step s (logged (Replayed r stored) s)"
          by (rule idem_step.replayed) (use free c s in \<open>simp_all add: r\<close>)
        then have "idem_step\<^sup>*\<^sup>* s (logged (Replayed r stored) s)" by (rule r_into_rtranclp)
        then show ?thesis
          using run False c s(1)
          by (intro exI [of _ "Replayed r stored"] exI [of _ "logged (Replayed r stored) s"]) (auto simp: in_transaction_def logged_def)
      qed
    qed
  qed
qed

lemma stage_refines_steps_witness:
  "\<exists>event s'. idem_step\<^sup>*\<^sup>* (idem_initial 0) s' \<and> is_log s' = [event] \<and> event \<noteq> Busy demo_run"
proof -
  let ?claim = "\<lparr>ic_key = ''key'', ic_operation = ''createBookmark'', ic_requestHash = ''hash''\<rparr>"
  let ?handler = "\<lambda>cx w :: (unit, unit) chain_world. (Inr \<lparr>rs_status = 201, rs_headers = [], rs_body = NoBody\<rparr>, cx, w)"
  obtain result cx' w' where run: "in_transaction ''account'' ?claim ?handler demo_context demo_world = (result, cx', w')"
    by (metis prod_cases3)
  have "keeps_keys ?handler" by (simp add: keeps_keys_def)
  note refined = stage_refines_steps [OF idem_reachable.initial [of 0] _ _ _ this run refl]
  have "result = Inr \<lparr>rs_status = 201, rs_headers = [], rs_body = NoBody\<rparr>"
    using run by (auto simp: in_transaction_def demo_world_def claim_key_def claim_insert_def run_claimed_def successful_def
        storable_response_def complete_key_def Let_def)
  with refined show ?thesis
    by (force simp: idem_initial_def demo_world_def key_free_def)
qed

end
