(* ===== verification/RequestHash.thy ===== *)
theory RequestHash
  imports Idempotency
begin

text \<open>
  What the hash of an idempotent request tells apart: two inputs have the same canonical form exactly when they are the same JSON
  (the order of members aside), and the digest of an upload is over a text that determines its parts.
\<close>

section \<open>Canonical forms\<close>

text \<open>A JSON value: no \<open>undefined\<close>, every member name once.\<close>

fun json_value :: "js_value \<Rightarrow> bool" where
  "json_value JUndefined = False"
| "json_value (JArr items) = list_all json_value items"
| "json_value (JObj members) = (distinct (map fst members) \<and> list_all (\<lambda>(name, v). json_value v) members)"
| "json_value _ = True"

lemma consistent_by_name: "consistent_cmp by_name"
  by (auto simp: consistent_cmp_def by_name_def compareCodeUnits_def split: if_splits)

lemma js_insert_map: "(\<And>x y. cmp (f x) (f y) = cmp x y) \<Longrightarrow> js_insert cmp (f x) (map f xs) = map f (js_insert cmp x xs)"
  by (induction xs) auto

lemma js_sort_map:
  assumes "\<And>x y. cmp (f x) (f y) = cmp x y"
  shows "js_sort cmp (map f xs) = map f (js_sort cmp xs)"
proof (induction xs)
  case (Cons x xs)
  have "js_sort cmp (y # ys) = js_insert cmp y (js_sort cmp ys)" for y ys by (simp add: js_sort_def)
  with Cons show ?case by (simp add: js_insert_map [where f = f and cmp = cmp, OF assms])
qed simp

lemma distinct_of_map: "distinct (map f xs) \<Longrightarrow> distinct xs"
  by (simp add: distinct_map)

definition canonical_member :: "string \<times> js_value \<Rightarrow> string \<times> js_value" where
  "canonical_member m = (fst m, canonical (snd m))"

lemma canonical_obj: "canonical (JObj members) = JObj (js_sort by_name (map canonical_member members))"
proof -
  have "js_sort by_name (map canonical_member members) = map canonical_member (js_sort by_name members)"
    by (rule js_sort_map) (simp add: by_name_def canonical_member_def)
  then show ?thesis by (simp add: canonical_member_def case_prod_beta)
qed

lemma js_sort_by_name_eq:
  assumes "distinct (map fst xs)" "distinct (map fst ys)"
  shows "js_sort by_name xs = js_sort by_name ys \<longleftrightarrow> set xs = set ys"
proof
  assume "js_sort by_name xs = js_sort by_name ys"
  then show "set xs = set ys" by (metis set_js_sort)
next
  assume eq: "set xs = set ys"
  have "distinct xs" "distinct ys" using assms by (simp_all add: distinct_map)
  with eq have "mset xs = mset ys" by (simp add: set_eq_iff_mset_eq_distinct)
  moreover have "x = y" if "x \<in> set xs" "y \<in> set xs" "by_name x y \<le> 0" "by_name y x \<le> 0" for x y
    using that assms(1) by (auto simp: by_name_def compareCodeUnits_def distinct_map inj_on_def split: if_splits)
  ultimately show "js_sort by_name xs = js_sort by_name ys"
    by (intro js_sort_mset_cong [OF consistent_by_name]) auto
qed

lemma fst_canonical [simp]: "fst \<circ> canonical_member = fst"
  by (simp add: canonical_member_def fun_eq_iff)

lemma map_fst_canonical: "map fst (map canonical_member members) = map fst members"
  by simp

lemma members_agree:
  assumes "distinct (map fst ms)" "distinct (map fst ns)" "length ms = length ns"
  shows "(\<forall>(name, v) \<in> set ms. \<exists>u. map_of ns name = Some u \<and> canonical v = canonical u) \<longleftrightarrow>
     set (map canonical_member ms) = set (map canonical_member ns)" (is "?l \<longleftrightarrow> ?r")
proof
  assume ?l
  have sub: "set (map canonical_member ms) \<subseteq> set (map canonical_member ns)"
  proof
    fix p
    assume "p \<in> set (map canonical_member ms)"
    then obtain name v where p: "(name, v) \<in> set ms" "p = canonical_member (name, v)" by auto
    with \<open>?l\<close> obtain u where "map_of ns name = Some u" "canonical v = canonical u" by blast
    then have "(name, u) \<in> set ns" "p = canonical_member (name, u)" by (auto dest: map_of_SomeD simp: p canonical_member_def)
    then show "p \<in> set (map canonical_member ns)" by auto
  qed
  have "card (set (map canonical_member ms)) = length ms" "card (set (map canonical_member ns)) = length ns"
    using assms(1,2) distinct_card [of "map canonical_member ms"] distinct_card [of "map canonical_member ns"]
      distinct_of_map [of fst "map canonical_member ms"] distinct_of_map [of fst "map canonical_member ns"]
    by simp_all
  with sub assms(3) show ?r by (metis List.finite_set card_subset_eq)
next
  assume r: ?r
  show ?l
  proof (clarify)
    fix name v
    assume "(name, v) \<in> set ms"
    then have "canonical_member (name, v) \<in> set (map canonical_member ns)" using r by auto
    then obtain u where "(name, u) \<in> set ns" "canonical v = canonical u" by (auto simp: canonical_member_def)
    then show "\<exists>u. map_of ns name = Some u \<and> canonical v = canonical u" using assms(2) by auto
  qed
qed

lemma canonical_scalar:
  "JNull = canonical b \<longleftrightarrow> b = JNull \<or> b = JUndefined" "JBool v = canonical b \<longleftrightarrow> b = JBool v"
  "JNum n = canonical b \<longleftrightarrow> b = JNum n" "JStr s = canonical b \<longleftrightarrow> b = JStr s"
  by (cases b; auto)+

lemma sameJson_canonical:
  "json_value a \<Longrightarrow> json_value b \<Longrightarrow> sameJson a b \<longleftrightarrow> canonical a = canonical b"
  "list_all json_value xs \<Longrightarrow> list_all json_value ys \<Longrightarrow> length xs = length ys \<Longrightarrow> same_items xs ys \<longleftrightarrow> map canonical xs = map canonical ys"
  "list_all (\<lambda>(name, v). json_value v) ms \<Longrightarrow> list_all (\<lambda>(name, v). json_value v) ns \<Longrightarrow>
    same_members ms ns \<longleftrightarrow> (\<forall>(name, v) \<in> set ms. \<exists>u. map_of ns name = Some u \<and> canonical v = canonical u)"
proof (induction a b and xs ys and ms ns rule: sameJson_same_items_same_members.induct)
  case (1 xs b)
  then show ?case by (cases b) (auto dest: map_eq_imp_length_eq)
next
  case (2 ms b)
  show ?case
  proof (cases b)
    case (JObj ns)
    have d: "distinct (map fst ms)" "distinct (map fst ns)" using 2 JObj by auto
    have "length ms = length ns \<and> same_members ms ns \<longleftrightarrow> set (map canonical_member ms) = set (map canonical_member ns)"
    proof (cases "length ms = length ns")
      case True
      then show ?thesis using 2 JObj members_agree [OF d True] by auto
    next
      case False
      have "distinct (map canonical_member ms)" "distinct (map canonical_member ns)"
        using d distinct_of_map [of fst "map canonical_member ms"] distinct_of_map [of fst "map canonical_member ns"] by simp_all
      then show ?thesis using False by (metis distinct_card length_map)
    qed
    then show ?thesis
      using js_sort_by_name_eq [of "map canonical_member ms" "map canonical_member ns"] d unfolding JObj canonical_obj map_fst_canonical
      by (simp only: sameJson.simps js_value.case js_value.inject)
  qed (use 2 in \<open>auto\<close>)
next
  case (4 x xs y ys)
  then show ?case by auto
next
  case (7 key x ms ns)
  show ?case
  proof (cases "map_of ns key")
    case (Some y)
    then have "json_value y" using 7(4) by (auto simp: list_all_iff dest: map_of_SomeD)
    with 7 Some show ?thesis by auto
  qed auto
qed (auto simp: canonical_scalar)

text \<open>
  Claim C39: two JSON values have the same canonical form exactly when the comparison of the response check calls them the same:
  arrays item by item, objects member by member in any order. So an idempotent request that spells its members in another order
  is the same request, and no two that differ in a value share the text that is hashed.
\<close>

theorem canonical_form_is_same_json:
  assumes "json_value a" "json_value b"
  shows "canonical a = canonical b \<longleftrightarrow> sameJson a b"
  using sameJson_canonical(1) [OF assms] by simp

lemma canonical_form_is_same_json_witness:
  "canonical (JObj [(''a'', JNull), (''b'', JBool True)]) = canonical (JObj [(''b'', JBool True), (''a'', JNull)])"
  using canonical_form_is_same_json [of "JObj [(''a'', JNull), (''b'', JBool True)]" "JObj [(''b'', JBool True), (''a'', JNull)]"] by simp

section \<open>Uploads\<close>

lemma digit_not_colon: "c \<in> set (js_to_string 10 n) \<Longrightarrow> c \<noteq> CHR '':''"
proof
  assume "c \<in> set (js_to_string 10 n)" "c = CHR '':''"
  then obtain d where "d < 10" "CHR '':'' = js_digit_char d" using set_js_to_string [of 10 c n] by auto
  then show False by (auto simp: js_digit_char_def code_unit_def dest: arg_cong [where f = code_unit])
qed

lemma length_prefixed_inject: "length_prefixed x @ r = length_prefixed y @ s \<longleftrightarrow> x = y \<and> r = s"
proof
  assume eq: "length_prefixed x @ r = length_prefixed y @ s"
  have head: "takeWhile (\<lambda>c. c \<noteq> CHR '':'') (length_prefixed z @ q) = js_to_string 10 (length z)"
    "dropWhile (\<lambda>c. c \<noteq> CHR '':'') (length_prefixed z @ q) = '':'' @ z @ q" for z q
    using digit_not_colon by (auto simp: length_prefixed_def takeWhile_append2 dropWhile_append2)
  have prefixes: "js_to_string 10 (length x) = js_to_string 10 (length y)" and rests: "'':'' @ x @ r = '':'' @ y @ s"
    using arg_cong [OF eq, of "takeWhile (\<lambda>c. c \<noteq> CHR '':'')"] arg_cong [OF eq, of "dropWhile (\<lambda>c. c \<noteq> CHR '':'')"]
    by (simp_all only: head)
  have "length x = length y"
    using arg_cong [OF prefixes, of "js_parse_digits 10"] by (simp add: js_parse_to_string)
  with rests show "x = y \<and> r = s" by simp
qed simp

lemma part_text_append:
  "part_text (n, f, c) @ r = length_prefixed n @ (if f then ''f'' else ''s'') @ length_prefixed c @ r"
  by (simp add: part_text_def)

text \<open>
  The text the digest of an upload is taken of determines the parts of the upload: their names, whether each is a file,
  and their contents, in order. Two uploads that differ in any of these never share the text.
\<close>

theorem upload_text_determines_parts: "concat (map part_text parts) = concat (map part_text parts') \<Longrightarrow> parts = parts'"
proof (induction parts arbitrary: parts')
  case Nil
  then show ?case by (cases parts') (auto simp: part_text_def length_prefixed_def Let_def split: prod.splits)
next
  case (Cons p parts)
  then obtain q rest where parts': "parts' = q # rest"
    by (cases parts') (auto simp: part_text_def length_prefixed_def Let_def split: prod.splits)
  obtain n f c n' f' c' where pq: "p = (n, f, c)" "q = (n', f', c')" by (metis prod_cases3)
  have "length_prefixed n @ (if f then ''f'' else ''s'') @ length_prefixed c @ concat (map part_text parts) =
      length_prefixed n' @ (if f' then ''f'' else ''s'') @ length_prefixed c' @ concat (map part_text rest)"
    using Cons.prems by (simp only: parts' pq list.map concat.simps part_text_append)
  then have "n = n'" "(if f then ''f'' else ''s'') @ length_prefixed c @ concat (map part_text parts) =
      (if f' then ''f'' else ''s'') @ length_prefixed c' @ concat (map part_text rest)"
    by (simp_all only: length_prefixed_inject)
  then have "f = f'" "length_prefixed c @ concat (map part_text parts) = length_prefixed c' @ concat (map part_text rest)"
    by (auto split: if_splits)
  with Cons.IH [of rest] \<open>n = n'\<close> show ?case by (simp add: parts' pq length_prefixed_inject)
qed

lemma upload_text_determines_parts_witness:
  "concat (map part_text [(''file'', True, ''1:f'')]) = concat (map part_text [(''file'', True, ''1:f'')]) \<and> [(''file'', True, ''1:f'')] = [(''file'', True, ''1:f'')]"
  using upload_text_determines_parts [of "[(''file'', True, ''1:f'')]" "[(''file'', True, ''1:f'')]"] by simp

end
