(* ===== verification/RateProperties.thy ===== *)
theory RateProperties
  imports RateRegistry
begin

text \<open>
  The properties of the rate limiter: what a bucket of the registry grants over a period, that the purge changes no decision, and
  which addresses share a bucket.
\<close>

section \<open>The windows of the registry\<close>

definition valid_spec :: "rate_limit_spec \<Rightarrow> bool" where
  "valid_spec spec \<longleftrightarrow> 1 \<le> rl_count spec \<and> rl_windowSeconds spec \<in> {1, 60, 3600}"

lemma parseSpec_valid: "parseSpec s = Some spec \<Longrightarrow> valid_spec spec"
  by (auto simp: parseSpec_def PERIOD_SECONDS_def valid_spec_def Let_def split: if_splits option.splits)

lemma limitField_valid: "limitField fallback given = Some spec \<Longrightarrow> valid_spec spec"
  by (auto simp: limitField_def parseSpec_valid split: option.splits if_splits)

lemma those_map_Some:
  "those (map f xs) = Some ys \<longleftrightarrow> list_all2 (\<lambda>x y. f x = Some y) xs ys"
  by (induction xs arbitrary: ys) (auto simp: list_all2_Cons1 split: option.splits)

text \<open>The configuration the environment gives: every limit of the registry has a valid one.\<close>

definition config_of :: "(string \<times> rate_limit_spec) list \<Rightarrow> string \<Rightarrow> rate_limit_spec" where
  "config_of pairs key = the (map_of pairs key)"

lemma fragment_entry:
  assumes "rateLimitFragment env = Some pairs" "(key, fallback) \<in> set SHAPE"
  shows "valid_spec (config_of pairs key)"
proof -
  have "list_all2 (\<lambda>x pair. fst pair = fst x \<and> limitField (snd x) (env (fst x)) = Some (snd pair)) SHAPE pairs"
    using assms(1) by (auto simp: rateLimitFragment_def those_map_Some case_prod_beta elim!: list_all2_mono)
  then have len: "length SHAPE = length pairs"
    and entry: "\<And>i. i < length pairs \<Longrightarrow> fst (pairs ! i) = fst (SHAPE ! i) \<and> limitField (snd (SHAPE ! i)) (env (fst (SHAPE ! i))) = Some (snd (pairs ! i))"
    by (simp_all add: list_all2_conv_all_nth)
  have valid: "valid_spec spec" if "(k, spec) \<in> set pairs" for k spec
    using that entry limitField_valid by (metis in_set_conv_nth snd_conv)
  obtain i where "i < length pairs" "fst (pairs ! i) = key"
    using assms(2) len entry by (metis in_set_conv_nth fst_conv)
  then have "key \<in> fst ` set pairs" by force
  then obtain spec where "map_of pairs key = Some spec"
    by (meson map_of_eq_None_iff not_Some_eq)
  then show ?thesis
    using valid map_of_SomeD by (fastforce simp: config_of_def)
qed

lemma registry_spec:
  assumes "map_of (rev (rr_byName (createRateLimitRegistry config))) name = Some spec"
  shows "\<exists>key fallback. (key, fallback) \<in> set SHAPE \<and> spec = config key"
proof -
  have "(name, spec) \<in> set (rr_byName (createRateLimitRegistry config))"
    using map_of_SomeD [OF assms] by simp
  then show ?thesis
    by (force simp: createRateLimitRegistry_def limits_of_bucket_def SHAPE_def Let_def)
qed

lemma registry_window:
  assumes "rateLimitFragment env = Some pairs" "rate_window (createRateLimitRegistry (config_of pairs)) name = Some window"
  shows "\<exists>spec. valid_spec spec \<and> bl_capacity window = of_nat (rl_count spec) \<and>
     bl_refillPerSecond window = of_nat (rl_count spec) / of_nat (rl_windowSeconds spec)"
proof -
  obtain spec where spec: "map_of (rev (rr_byName (createRateLimitRegistry (config_of pairs)))) name = Some spec"
    "bl_capacity window = of_nat (rl_count spec)" "bl_refillPerSecond window = of_nat (rl_count spec) / of_nat (rl_windowSeconds spec)"
    using assms(2) by (auto simp: rate_window_def)
  with registry_spec [OF spec(1)] fragment_entry [OF assms(1)] show ?thesis by blast
qed

lemma registry_refill:
  assumes "rateLimitFragment env = Some pairs" "rate_window (createRateLimitRegistry (config_of pairs)) name = Some window"
  shows "0 < bl_refillPerSecond window" "bl_capacity window \<le> bl_refillPerSecond window * 3600" "0 < bl_capacity window"
  using registry_window [OF assms] by (auto simp: valid_spec_def field_simps)

section \<open>The bound\<close>

text \<open>
  Claim C38: over any period, whatever requests take from whatever buckets in whatever order, from processes whose clock readings lie
  in the period, with idle buckets purged at any time: a key of a bucket of the configured registry is granted at most the
  tokens of a full bucket and what the bucket gains in the period, and, for every event, the rounding error of one balance in the
  4-byte column. Failed and denied requests are granted nothing.
\<close>

theorem bucket_grants_are_bounded:
  assumes registry: "rateLimitFragment env = Some pairs" "rate_window (createRateLimitRegistry (config_of pairs)) bucket = Some window"
    and hash: "\<And>x y. length (sha256 x) = length (sha256 y)"
    and round: "\<And>x. 0 \<le> x \<Longrightarrow> x \<le> bl_capacity window \<Longrightarrow> 0 \<le> real4 x \<and> real4 x \<le> x + e" "0 \<le> e"
    and table: "\<And>row. t (storageKey sha256 bucket key) = Some row \<Longrightarrow> 0 \<le> br_tokens row \<and> br_updated_at row \<le> t1"
    and period: "t0 \<le> t1" "readings_ok t0 t1 events"
  shows "granted_to bucket key (rate_run (db_limiter real4 sha256 (rate_window (createRateLimitRegistry (config_of pairs)))) events t)
     \<le> bl_capacity window + bl_refillPerSecond window * (t1 - t0) + e * of_nat (length events)"
proof -
  note refill = registry_refill [OF registry]
  let ?key = "storageKey sha256 bucket key"
  have grow: "bl_capacity window \<le> bl_capacity window + bl_refillPerSecond window * (T - t0)" if "t0 \<le> T" for T
    using refill(1) that by simp
  have inv: "bucket_inv (bl_capacity window) (bl_refillPerSecond window) ?key t0 t0 0 0 t"
    unfolding bucket_inv_def
    using table available_bounds(2) [of t ?key "bl_capacity window" "bl_refillPerSecond window"] refill(1,3)
    by (auto intro: order_trans [OF _ grow])
  have row: "row_of t ?key t1" using table by (simp add: row_of_def)
  have "0 \<le> bl_capacity window + bl_refillPerSecond window * (t1 - t0) + 0"
    using refill(1,3) period(1) by simp
  from run_bound [of "rate_window (createRateLimitRegistry (config_of pairs))" bucket window sha256 real4 e key t0 t0 0 0 t t1 events,
      OF registry(2) refill(1,2) hash round inv row this period(2)]
  show ?thesis by simp
qed

text \<open>Twelve requests of one address at once, of which ten pass.\<close>

definition burst :: "rate_event list" where
  "burst = replicate 12 (Consume \<lparr>rq_bucket = ''login'', rq_key = ''192.0.2.1'', rq_cost = None\<rparr> 0 True)"

definition default_pairs :: "(string \<times> rate_limit_spec) list" where
  "default_pairs = the (rateLimitFragment (\<lambda>_. None))"

lemma default_pairs: "rateLimitFragment (\<lambda>_. None) = Some default_pairs"
proof -
  have "rateLimitFragment (\<lambda>_. None) \<noteq> None" by code_simp
  then show ?thesis by (simp add: default_pairs_def)
qed

lemma login_window:
  "rate_window (createRateLimitRegistry (config_of default_pairs)) ''login'' = Some \<lparr>bl_capacity = 10, bl_refillPerSecond = 1 / 6\<rparr>"
  by code_simp

theorem bucket_grants_are_bounded_witness:
  "granted_to ''login'' ''192.0.2.1''
     (rate_run (db_limiter id (\<lambda>_. ''h'') (rate_window (createRateLimitRegistry (config_of default_pairs)))) burst Map.empty) \<le> 10 + 1 / 6 * (60 - 0)"
proof -
  have "readings_ok 0 60 burst" by (simp add: burst_def numeral_eq_Suc)
  with bucket_grants_are_bounded [OF default_pairs login_window, of "\<lambda>_. ''h''" id 0 Map.empty "''192.0.2.1''" 60 0 burst]
  show ?thesis by simp
qed

section \<open>The purge\<close>

lemma purged_like_self:
  assumes "\<And>key row. t key = Some row \<Longrightarrow> 0 \<le> br_tokens row"
  shows "purged_like now t (sys_rate_limit_purge now t)"
  unfolding purged_like_def
proof
  fix key
  show "sys_rate_limit_purge now t key = t key \<or>
      (sys_rate_limit_purge now t key = None \<and> (\<exists>row. t key = Some row \<and> 0 \<le> br_tokens row \<and> idle now row))"
    using assms by (cases "t key") (auto simp: sys_rate_limit_purge_def)
qed

text \<open>
  Deleting the buckets that were idle for more than an hour changes no answer of the limiter with the configured
  registry, ever: every later sequence of requests and purges gets the same results from the purged table as from the table it
  was purged from.
\<close>

theorem purge_changes_no_decision:
  assumes "rateLimitFragment env = Some pairs" "\<And>key row. t key = Some row \<Longrightarrow> 0 \<le> br_tokens row" "readings_from now events"
  shows "rate_run (db_limiter real4 sha256 (rate_window (createRateLimitRegistry (config_of pairs)))) events (sys_rate_limit_purge now t) =
    rate_run (db_limiter real4 sha256 (rate_window (createRateLimitRegistry (config_of pairs)))) events t"
  by (rule purged_like_run [OF purged_like_self [OF assms(2)] assms(3) registry_refill(2) [OF assms(1)]])

theorem purge_changes_no_decision_witness:
  "rate_run (db_limiter id id (rate_window (createRateLimitRegistry (config_of default_pairs)))) [PurgeIdle 4000 True, Consume \<lparr>rq_bucket = ''login'', rq_key = ''192.0.2.1'', rq_cost = None\<rparr> 4001 True]
     (sys_rate_limit_purge 4000 [''login'' \<mapsto> \<lparr>br_tokens = 1, br_updated_at = 0\<rparr>]) =
   rate_run (db_limiter id id (rate_window (createRateLimitRegistry (config_of default_pairs)))) [PurgeIdle 4000 True, Consume \<lparr>rq_bucket = ''login'', rq_key = ''192.0.2.1'', rq_cost = None\<rparr> 4001 True]
     [''login'' \<mapsto> \<lparr>br_tokens = 1, br_updated_at = 0\<rparr>]"
  by (rule purge_changes_no_decision [OF default_pairs]) (auto split: if_splits)

end
