(* ===== verification/AuditLog.thy ===== *)
theory AuditLog
  imports Entitlements Tables
begin

text \<open>
  The audit log of a workspace: the catalog of its actions (\<open>packages/core/src/audit/catalog.ts\<close>), the writer
  (\<open>writer.ts\<close>), the listing (\<open>list.ts\<close>) and its table (\<open>packages/db/src/repositories/audit-events.ts\<close>,
  \<open>packages/db/src/schema/audit.ts\<close>, \<open>packages/db/src/sql/250-audit-events.sql\<close>).
\<close>

section \<open>The catalog\<close>

definition AUDIT_CATEGORIES :: "string list" where
  "AUDIT_CATEGORIES = [''workspace'', ''member'', ''invitation'', ''team'', ''bookmark'', ''share'', ''export'', ''import'']"

datatype audit_field = FieldText nat nat | FieldUuid | FieldCount

record audit_action_definition =
  ad_category :: string
  ad_metadata :: "(string \<times> audit_field) list"

definition WORKSPACE_NAME :: audit_field where "WORKSPACE_NAME = FieldText 1 64"
definition TEAM_NAME :: audit_field where "TEAM_NAME = FieldText 1 64"
definition SHARE_TARGET_KIND :: audit_field where "SHARE_TARGET_KIND = FieldText 4 6"
definition SHARE_TARGET_NAME :: audit_field where "SHARE_TARGET_NAME = FieldText 1 100"
definition SETTING_NAME :: audit_field where "SETTING_NAME = FieldText 1 64"
definition SETTING_VALUE :: audit_field where "SETTING_VALUE = FieldText 1 64"
definition MEMBER_ROLE :: audit_field where "MEMBER_ROLE = FieldText 5 6"
definition FLAG_FIELD :: audit_field where "FLAG_FIELD = FieldText 4 5"
definition CONTENT_CHOICE :: audit_field where "CONTENT_CHOICE = FieldText 6 8"

definition action_def :: "string \<Rightarrow> (string \<times> audit_field) list \<Rightarrow> audit_action_definition" where
  "action_def category declared = \<lparr>ad_category = category, ad_metadata = declared\<rparr>"

definition AUDIT_ACTIONS :: "(string \<times> audit_action_definition) list" where
  "AUDIT_ACTIONS =
     [(''workspace.created'', action_def ''workspace'' [(''name'', WORKSPACE_NAME)]),
      (''workspace.renamed'', action_def ''workspace'' [(''from'', WORKSPACE_NAME), (''to'', WORKSPACE_NAME)]),
      (''workspace.settings_changed'', action_def ''workspace'' [(''setting'', SETTING_NAME), (''from'', SETTING_VALUE), (''to'', SETTING_VALUE)]),
      (''workspace.deletion_requested'', action_def ''workspace'' []),
      (''workspace.ownership_transferred'', action_def ''workspace'' [(''demoteSelf'', FLAG_FIELD)]),
      (''member.role_changed'', action_def ''member'' [(''from'', MEMBER_ROLE), (''to'', MEMBER_ROLE)]),
      (''member.removed'', action_def ''member'' [(''content'', CONTENT_CHOICE), (''transferTo'', FieldUuid)]),
      (''member.left'', action_def ''member'' [(''content'', CONTENT_CHOICE), (''transferTo'', FieldUuid)]),
      (''member.joined'', action_def ''member'' [(''role'', MEMBER_ROLE)]),
      (''member.instance_admin_joined'', action_def ''member'' [(''role'', MEMBER_ROLE)]),
      (''invitation.created'', action_def ''invitation'' [(''role'', MEMBER_ROLE)]),
      (''invitation.resent'', action_def ''invitation'' [(''role'', MEMBER_ROLE)]),
      (''invitation.link_created'', action_def ''invitation'' [(''role'', MEMBER_ROLE)]),
      (''invitation.revoked'', action_def ''invitation'' [(''role'', MEMBER_ROLE)]),
      (''team.created'', action_def ''team'' [(''name'', TEAM_NAME)]),
      (''team.updated'', action_def ''team'' [(''from'', TEAM_NAME), (''to'', TEAM_NAME)]),
      (''team.deleted'', action_def ''team'' [(''name'', TEAM_NAME)]),
      (''team.members_changed'', action_def ''team'' [(''name'', TEAM_NAME)]),
      (''bookmark.archived'', action_def ''bookmark'' [(''count'', FieldCount)]),
      (''bookmark.restored'', action_def ''bookmark'' [(''count'', FieldCount)]),
      (''bookmark.bulk_deleted'', action_def ''bookmark'' [(''count'', FieldCount)]),
      (''share.granted'', action_def ''share'' [(''targetKind'', SHARE_TARGET_KIND), (''targetId'', FieldUuid), (''targetName'', SHARE_TARGET_NAME)]),
      (''share.revoked'', action_def ''share'' [(''targetKind'', SHARE_TARGET_KIND), (''targetId'', FieldUuid), (''targetName'', SHARE_TARGET_NAME)]),
      (''share.bulk_granted'', action_def ''share''
         [(''count'', FieldCount), (''targetKind'', SHARE_TARGET_KIND), (''targetId'', FieldUuid), (''targetName'', SHARE_TARGET_NAME)]),
      (''export.created'', action_def ''export''
         [(''bookmarks'', FieldCount), (''folders'', FieldCount), (''tags'', FieldCount), (''shared'', FieldCount)]),
      (''import.completed'', action_def ''import''
         [(''created'', FieldCount), (''skipped'', FieldCount), (''failed'', FieldCount), (''slugsDropped'', FieldCount),
          (''foldersCreated'', FieldCount), (''tagsCreated'', FieldCount)])]"

definition AUDIT_ACTION_NAMES :: "string list" where
  "AUDIT_ACTION_NAMES = map fst AUDIT_ACTIONS"

definition isAuditAction :: "string \<Rightarrow> bool" where
  "isAuditAction name \<longleftrightarrow> map_of AUDIT_ACTIONS name \<noteq> None"

text \<open>The pattern \<open>/^(?:0|[1-9][0-9]{0,8})$/\<close>.\<close>

definition count_text :: "string \<Rightarrow> bool" where
  "count_text s \<longleftrightarrow>
     s = ''0'' \<or> (case s of [] \<Rightarrow> False | c # cs \<Rightarrow> js_digit c \<and> c \<noteq> CHR ''0'' \<and> list_all js_digit cs \<and> length cs \<le> 8)"

definition AuditMetadataError :: "string \<Rightarrow> js_error" where
  "AuditMetadataError problem = NamedError ''AuditMetadataError'' (''the audit event '' @ problem)"

definition audit_fits :: "audit_field \<Rightarrow> js_value \<Rightarrow> bool" where
  "audit_fits field v =
     (case v of
        JsText s \<Rightarrow>
          (case field of FieldUuid \<Rightarrow> uuid_pattern s | FieldCount \<Rightarrow> count_text s | FieldText lo hi \<Rightarrow> lo \<le> length s \<and> length s \<le> hi)
      | _ \<Rightarrow> False)"

text \<open>The loop over the fields the catalog declares.\<close>

fun parse_fields :: "string \<Rightarrow> (string \<times> audit_field) list \<Rightarrow> (string \<times> js_value) list \<Rightarrow> js_error + (string \<times> js_value) list" where
  "parse_fields name [] given = Inr []"
| "parse_fields name ((key, field) # declared) given =
     (let item = reflect_get given key
      in if \<not> audit_fits field item then Inl (AuditMetadataError (''of '' @ name @ '' has no valid metadata field '' @ key))
         else case parse_fields name declared given of Inl e \<Rightarrow> Inl e | Inr parsed \<Rightarrow> Inr ((key, item) # parsed))"

definition parseAuditMetadata :: "string \<Rightarrow> js_value \<Rightarrow> js_error + (string \<times> js_value) list" where
  "parseAuditMetadata name v =
     (case map_of AUDIT_ACTIONS name of
        None \<Rightarrow> Inl (AuditMetadataError ''names an action outside the catalog'')
      | Some definition_of \<Rightarrow>
          (case v of
             JsObject given \<Rightarrow>
               (case find (\<lambda>key. key \<notin> set (map fst (ad_metadata definition_of))) (map fst given) of
                  Some key \<Rightarrow> Inl (AuditMetadataError (''of '' @ name @ '' has the metadata field '' @ key @ '', which the catalog does not declare''))
                | None \<Rightarrow> parse_fields name (ad_metadata definition_of) given)
           | _ \<Rightarrow> Inl (AuditMetadataError (''of '' @ name @ '' must have metadata that is an object''))))"

section \<open>The writer\<close>

datatype audit_actor =
    ActorAccount string string
  | ActorToken string string string
  | ActorSystem string

fun actor_label :: "audit_actor \<Rightarrow> string" where
  "actor_label (ActorAccount accountId label) = label"
| "actor_label (ActorToken accountId tokenId label) = label"
| "actor_label (ActorSystem label) = label"

fun actor_type :: "audit_actor \<Rightarrow> string" where
  "actor_type (ActorAccount accountId label) = ''account''"
| "actor_type (ActorToken accountId tokenId label) = ''api_token''"
| "actor_type (ActorSystem label) = ''system''"

fun actor_account :: "audit_actor \<Rightarrow> string option" where
  "actor_account (ActorAccount accountId label) = Some accountId"
| "actor_account (ActorToken accountId tokenId label) = Some accountId"
| "actor_account (ActorSystem label) = None"

fun actor_token :: "audit_actor \<Rightarrow> string option" where
  "actor_token (ActorToken accountId tokenId label) = Some tokenId"
| "actor_token _ = None"

record audit_input =
  av_action :: string
  av_workspaceId :: string
  av_actor :: audit_actor
  av_entity :: "(string \<times> string) option"
  av_metadata :: js_value
  av_ipPrefix :: "string option"

record audit_record =
  ar_id :: string
  ar_workspaceId :: string
  ar_actorType :: string
  ar_actorAccountId :: "string option"
  ar_actorLabel :: string
  ar_actorTokenId :: "string option"
  ar_action :: string
  ar_entityType :: "string option"
  ar_entityId :: "string option"
  ar_metadata :: "(string \<times> js_value) list"
  ar_ipPrefix :: "string option"

definition MAX_LABEL_LENGTH :: nat where "MAX_LABEL_LENGTH = 200"
definition MAX_ENTITY_TYPE_LENGTH :: nat where "MAX_ENTITY_TYPE_LENGTH = 64"

definition opt_identifier :: "string option \<Rightarrow> bool" where
  "opt_identifier i = (case i of None \<Rightarrow> True | Some s \<Rightarrow> uuid_pattern s)"

text \<open>\<open>newId\<close> is the fresh identifier the writer asks for.\<close>

definition prepareAuditRecord :: "audit_input \<Rightarrow> string \<Rightarrow> js_error + audit_record" where
  "prepareAuditRecord event newId =
     (let label = js_trim (actor_label (av_actor event))
      in if \<not> isAuditAction (av_action event) then Inl (AuditMetadataError ''names an action outside the catalog'')
         else if \<not> uuid_pattern (av_workspaceId event) then Inl (AuditMetadataError ''has no valid workspace identifier'')
         else if label = [] \<or> length label > MAX_LABEL_LENGTH then Inl (AuditMetadataError ''has no valid actor label'')
         else if \<not> opt_identifier (actor_account (av_actor event)) then Inl (AuditMetadataError ''has no valid actor account identifier'')
         else if \<not> opt_identifier (actor_token (av_actor event)) then Inl (AuditMetadataError ''has no valid actor token identifier'')
         else if (case av_entity event of None \<Rightarrow> False | Some (t, _) \<Rightarrow> t = [] \<or> length t > MAX_ENTITY_TYPE_LENGTH) then
           Inl (AuditMetadataError ''has no valid entity type'')
         else if \<not> opt_identifier (map_option snd (av_entity event)) then Inl (AuditMetadataError ''has no valid entity identifier'')
         else case parseAuditMetadata (av_action event) (av_metadata event) of
           Inl e \<Rightarrow> Inl e
         | Inr metadata \<Rightarrow> Inr
             \<lparr>ar_id = newId, ar_workspaceId = av_workspaceId event, ar_actorType = actor_type (av_actor event),
              ar_actorAccountId = actor_account (av_actor event), ar_actorLabel = label, ar_actorTokenId = actor_token (av_actor event),
              ar_action = av_action event, ar_entityType = map_option fst (av_entity event), ar_entityId = map_option snd (av_entity event),
              ar_metadata = metadata, ar_ipPrefix = av_ipPrefix event\<rparr>)"

definition audit_write :: "(audit_record \<Rightarrow> ('s, unit) tx) \<Rightarrow> string \<Rightarrow> audit_input \<Rightarrow> ('s, unit) tx" where
  "audit_write put newId event = (case prepareAuditRecord event newId of Inl e \<Rightarrow> tx_throw e | Inr r \<Rightarrow> put r)"

section \<open>The table\<close>

record audit_row =
  ae_id :: string
  ae_workspace_id :: "string option"
  ae_actor_type :: string
  ae_actor_account_id :: "string option"
  ae_actor_label :: string
  ae_actor_token_id :: "string option"
  ae_action :: string
  ae_entity_type :: "string option"
  ae_entity_id :: "string option"
  ae_metadata :: js_value
  ae_ip_prefix :: "string option"
  ae_created_at :: nat

definition row_of_record :: "nat \<Rightarrow> audit_record \<Rightarrow> audit_row" where
  "row_of_record now r =
     \<lparr>ae_id = uuid_cast (ar_id r), ae_workspace_id = Some (uuid_cast (ar_workspaceId r)), ae_actor_type = ar_actorType r,
      ae_actor_account_id = map_option uuid_cast (ar_actorAccountId r), ae_actor_label = ar_actorLabel r,
      ae_actor_token_id = map_option uuid_cast (ar_actorTokenId r), ae_action = ar_action r, ae_entity_type = ar_entityType r,
      ae_entity_id = map_option uuid_cast (ar_entityId r), ae_metadata = JsObject (ar_metadata r), ae_ip_prefix = ar_ipPrefix r,
      ae_created_at = now\<rparr>"

text \<open>The insert policy, the checks and the keys of the table.\<close>

definition audit_insert_policy :: "tables \<Rightarrow> tenant_tx \<Rightarrow> string \<Rightarrow> bool" where
  "audit_insert_policy db tx w \<longleftrightarrow>
     (case tx_workspaceId tx of
        Some active \<Rightarrow> w = uuid_cast active
      | None \<Rightarrow> list_ex (\<lambda>m. wm_workspace_id m = w \<and> wm_account_id m = uuid_cast (tx_accountId tx) \<and>
                   list_ex (\<lambda>x. ws_id x = w \<and> ws_deleting_at x = None) (workspaces db)) (workspace_members db))"

definition audit_checks :: "audit_row \<Rightarrow> bool" where
  "audit_checks r \<longleftrightarrow>
     ae_actor_type r \<in> {''account'', ''api_token'', ''system''} \<and> 1 \<le> length (ae_actor_label r) \<and> length (ae_actor_label r) \<le> 200 \<and>
     1 \<le> length (ae_action r) \<and> length (ae_action r) \<le> 64"

definition audit_references :: "tables \<Rightarrow> audit_row \<Rightarrow> bool" where
  "audit_references db r \<longleftrightarrow>
     (case ae_workspace_id r of None \<Rightarrow> True | Some w \<Rightarrow> list_ex (\<lambda>x. ws_id x = w) (workspaces db)) \<and>
     (case ae_actor_account_id r of None \<Rightarrow> True | Some a \<Rightarrow> list_ex (\<lambda>x. ac_id x = a) (accounts db))"

definition audit_insert :: "tables \<Rightarrow> nat \<Rightarrow> tenant_tx \<Rightarrow> audit_record \<Rightarrow> (audit_row list, unit) tx" where
  "audit_insert db now tx r log =
     (if (case tx_workspaceId tx of None \<Rightarrow> False | Some w \<Rightarrow> js_lower (ar_workspaceId r) \<noteq> w) then Inl (TenantContextError ''foreign_workspace'')
      else (let row = row_of_record now r
            in if \<not> audit_insert_policy db tx (uuid_cast (ar_workspaceId r)) then Inl (NamedError ''PostgresError'' ''42501'')
               else if \<not> audit_checks row then Inl (NamedError ''PostgresError'' ''23514'')
               else if list_ex (\<lambda>x. ae_id x = ae_id row) log then Inl (NamedError ''PostgresError'' ''23505'')
               else if \<not> audit_references db row then Inl (NamedError ''PostgresError'' ''23503'')
               else Inr ((), log @ [row])))"

section \<open>The listing\<close>

record audit_event_record =
  er_id :: string
  er_createdAt :: string
  er_actorType :: string
  er_actorAccountId :: "string option"
  er_actorLabel :: string
  er_action :: string
  er_entityType :: "string option"
  er_entityId :: "string option"
  er_metadata :: "(string \<times> string) list"

record audit_position =
  ap_createdAt :: string
  ap_id :: string

record audit_filter =
  af_actorAccountId :: "string option"
  af_actions :: "string list option"
  af_entityType :: "string option"
  af_entityId :: "string option"
  af_from :: "string option"
  af_to :: "string option"

type_synonym 's audit_reader = "audit_filter \<Rightarrow> audit_position option \<Rightarrow> nat \<Rightarrow> ('s, audit_event_record list) tx"

text \<open>What a cursor is bound to, which \<open>JSON.stringify\<close> writes so that no two scopes are alike.\<close>

type_synonym audit_scope = "string \<times> audit_filter"

record audit_cursors =
  ac_seal :: "audit_position \<Rightarrow> audit_scope \<Rightarrow> string"
  ac_open :: "string \<Rightarrow> audit_scope \<Rightarrow> audit_position option"

record audit_list_ask =
  aa_workspaceId :: string
  aa_actorAccountId :: "string option"
  aa_actions :: "string list option"
  aa_categories :: "string list option"
  aa_entityType :: "string option"
  aa_entityId :: "string option"
  aa_from :: "string option"
  aa_to :: "string option"
  aa_limit :: nat
  aa_cursor :: "string option"

datatype audit_list_outcome = AuditListed "audit_event_record list" "string option" | AuditBadCursor

definition auditCategoryOf :: "string \<Rightarrow> string option" where
  "auditCategoryOf action = map_option ad_category (map_of AUDIT_ACTIONS action)"

definition in_categories :: "string list \<Rightarrow> string list" where
  "in_categories categories = filter (\<lambda>name. list_ex (\<lambda>c. auditCategoryOf name = Some c) categories) AUDIT_ACTION_NAMES"

definition admittedActions :: "string list option \<Rightarrow> string list option \<Rightarrow> string list option" where
  "admittedActions actions categories =
     (case actions of
        None \<Rightarrow> map_option in_categories categories
      | Some xs \<Rightarrow>
          (let named = sort (remdups xs)
           in case categories of None \<Rightarrow> Some named | Some cs \<Rightarrow> Some (filter (\<lambda>name. name \<in> set (in_categories cs)) named)))"

definition audit_filter_of :: "audit_list_ask \<Rightarrow> audit_filter" where
  "audit_filter_of ask =
     \<lparr>af_actorAccountId = map_option js_lower (aa_actorAccountId ask), af_actions = admittedActions (aa_actions ask) (aa_categories ask),
      af_entityType = aa_entityType ask, af_entityId = map_option js_lower (aa_entityId ask), af_from = aa_from ask, af_to = aa_to ask\<rparr>"

definition audit_scope_of :: "audit_list_ask \<Rightarrow> audit_scope" where
  "audit_scope_of ask = (js_lower (aa_workspaceId ask), audit_filter_of ask)"

definition position_of :: "audit_event_record \<Rightarrow> audit_position" where
  "position_of r = \<lparr>ap_createdAt = er_createdAt r, ap_id = er_id r\<rparr>"

definition listAuditEvents :: "'s audit_reader \<Rightarrow> audit_cursors \<Rightarrow> audit_list_ask \<Rightarrow> ('s, audit_list_outcome) tx" where
  "listAuditEvents list_events cursors ask =
     (let scope = audit_scope_of ask;
          opened = (case aa_cursor ask of None \<Rightarrow> Some None | Some c \<Rightarrow> map_option Some (ac_open cursors c scope))
      in case opened of
           None \<Rightarrow> tx_return AuditBadCursor
         | Some after \<Rightarrow>
             if admittedActions (aa_actions ask) (aa_categories ask) = Some [] then tx_return (AuditListed [] None)
             else tx_bind (list_events (audit_filter_of ask) after (aa_limit ask + 1)) (\<lambda>fetched.
               let items = take (aa_limit ask) fetched
               in tx_return (AuditListed items
                    (if length fetched > aa_limit ask \<and> items \<noteq> [] then Some (ac_seal cursors (position_of (last items)) scope) else None))))"

text \<open>
  The statement: \<open>instant\<close> is the cast of a text to a point in time and \<open>show_instant\<close> its RFC 3339 text with
  the microseconds.
\<close>

definition audit_matches :: "(string \<Rightarrow> nat) \<Rightarrow> string \<Rightarrow> audit_filter \<Rightarrow> audit_row \<Rightarrow> bool" where
  "audit_matches instant w f r \<longleftrightarrow>
     ae_workspace_id r = Some w \<and>
     (case af_actorAccountId f of None \<Rightarrow> True | Some a \<Rightarrow> ae_actor_account_id r = Some (uuid_cast a)) \<and>
     (case af_actions f of None \<Rightarrow> True | Some names \<Rightarrow> ae_action r \<in> set names) \<and>
     (case af_entityType f of None \<Rightarrow> True | Some t \<Rightarrow> ae_entity_type r = Some t) \<and>
     (case af_entityId f of None \<Rightarrow> True | Some i \<Rightarrow> ae_entity_id r = Some (uuid_cast i)) \<and>
     (case af_from f of None \<Rightarrow> True | Some t \<Rightarrow> instant t \<le> ae_created_at r) \<and>
     (case af_to f of None \<Rightarrow> True | Some t \<Rightarrow> ae_created_at r < instant t)"

definition audit_key :: "audit_row \<Rightarrow> nat \<times> string" where
  "audit_key r = (ae_created_at r, ae_id r)"

definition newest_first :: "audit_row list \<Rightarrow> audit_row list" where
  "newest_first rows = rev (sort_key audit_key rows)"

definition listAuditEventsStatement ::
    "(string \<Rightarrow> nat) \<Rightarrow> string \<Rightarrow> audit_filter \<Rightarrow> audit_position option \<Rightarrow> nat \<Rightarrow> audit_row list \<Rightarrow> audit_row list" where
  "listAuditEventsStatement instant w f after limit log =
     take limit (newest_first (filter (\<lambda>r. audit_matches instant w f r \<and>
       (case after of None \<Rightarrow> True | Some p \<Rightarrow> audit_key r < (instant (ap_createdAt p), uuid_cast (ap_id p)))) log))"

definition actorTypeOf :: "string \<Rightarrow> js_error + string" where
  "actorTypeOf t =
     (if t \<in> {''account'', ''api_token'', ''system''} then Inr t
      else Inl (JsError ''an audit event has an actor type the table does not allow''))"

definition text_entry :: "string \<times> js_value \<Rightarrow> (string \<times> string) list" where
  "text_entry entry = (case snd entry of JsText s \<Rightarrow> [(fst entry, s)] | _ \<Rightarrow> [])"

definition metadataOf :: "js_value \<Rightarrow> (string \<times> string) list" where
  "metadataOf v = (case v of JsObject entries \<Rightarrow> concat (map text_entry entries) | _ \<Rightarrow> [])"

definition event_of_row :: "(nat \<Rightarrow> string) \<Rightarrow> audit_row \<Rightarrow> audit_event_record" where
  "event_of_row show_instant r =
     \<lparr>er_id = ae_id r, er_createdAt = show_instant (ae_created_at r), er_actorType = ae_actor_type r,
      er_actorAccountId = ae_actor_account_id r, er_actorLabel = ae_actor_label r, er_action = ae_action r,
      er_entityType = ae_entity_type r, er_entityId = ae_entity_id r, er_metadata = metadataOf (ae_metadata r)\<rparr>"

fun events_of_rows :: "(nat \<Rightarrow> string) \<Rightarrow> audit_row list \<Rightarrow> js_error + audit_event_record list" where
  "events_of_rows show_instant [] = Inr []"
| "events_of_rows show_instant (r # rows) =
     (case actorTypeOf (ae_actor_type r) of
        Inl e \<Rightarrow> Inl e
      | Inr _ \<Rightarrow> map_sum id (\<lambda>events. event_of_row show_instant r # events) (events_of_rows show_instant rows))"

definition audit_list :: "(string \<Rightarrow> nat) \<Rightarrow> (nat \<Rightarrow> string) \<Rightarrow> tenant_tx \<Rightarrow> audit_row list audit_reader" where
  "audit_list instant show_instant tx f after limit =
     tx_bind (requireWorkspace tx ''listing audit events'') (\<lambda>w log.
       case events_of_rows show_instant (listAuditEventsStatement instant (uuid_cast w) f after limit log) of
         Inl e \<Rightarrow> Inl e | Inr events \<Rightarrow> Inr (events, log))"

end
