(* ===== verification/Keyset.thy ===== *)
theory Keyset
  imports Prelude
begin

text \<open>
  Lists that are read page by page from a position (a keyset): the store answers the first rows after the position of the last row
  of the page before. The interface a listing relies on is the locale \<open>keyset\<close>; its provider is the statement of a repository.
\<close>

text \<open>A reader who follows the positions, at most \<open>fuel\<close> pages of \<open>limit\<close> rows, each fetched with one row more.\<close>

fun keyset_walk :: "('p option \<Rightarrow> nat \<Rightarrow> 'r list) \<Rightarrow> ('r \<Rightarrow> 'p) \<Rightarrow> nat \<Rightarrow> nat \<Rightarrow> 'p option \<Rightarrow> 'r list" where
  "keyset_walk fetch key limit 0 after = []"
| "keyset_walk fetch key limit (Suc fuel) after =
     (let fetched = fetch after (limit + 1); page = take limit fetched
      in if length fetched > limit \<and> page \<noteq> [] then page @ keyset_walk fetch key limit fuel (Some (key (last page))) else page)"

text \<open>Whether that reader comes to a page that no other follows within \<open>fuel\<close> pages.\<close>

fun keyset_ends :: "('p option \<Rightarrow> nat \<Rightarrow> 'r list) \<Rightarrow> ('r \<Rightarrow> 'p) \<Rightarrow> nat \<Rightarrow> nat \<Rightarrow> 'p option \<Rightarrow> bool" where
  "keyset_ends fetch key limit 0 after = False"
| "keyset_ends fetch key limit (Suc fuel) after =
     (let fetched = fetch after (limit + 1); page = take limit fetched
      in if length fetched > limit \<and> page \<noteq> [] then keyset_ends fetch key limit fuel (Some (key (last page))) else True)"

text \<open>
  \<open>precedes\<close> orders the positions; \<open>rows\<close> are the rows in that order, and \<open>fetch\<close> answers the first of them after a position.
\<close>

locale keyset =
  fixes precedes :: "'p \<Rightarrow> 'p \<Rightarrow> bool"
    and key :: "'r \<Rightarrow> 'p"
    and rows :: "'r list"
    and fetch :: "'p option \<Rightarrow> nat \<Rightarrow> 'r list"
  assumes irrefl: "\<not> precedes p p"
    and trans: "precedes p q \<Longrightarrow> precedes q r \<Longrightarrow> precedes p r"
    and linear: "p \<noteq> q \<Longrightarrow> precedes p q \<or> precedes q p"
    and sorted: "sorted_wrt (\<lambda>x y. \<not> precedes (key y) (key x)) rows"
    and fetched: "fetch after n = take n (filter (\<lambda>r. case after of None \<Rightarrow> True | Some p \<Rightarrow> precedes p (key r)) rows)"
begin

lemma strict:
  assumes "distinct (map key rows)"
  shows "sorted_wrt (\<lambda>x y. precedes (key x) (key y)) rows"
proof -
  have "precedes (key (rows ! i)) (key (rows ! j))" if "i < j" "j < length rows" for i j
  proof -
    have "key (rows ! i) \<noteq> key (rows ! j)"
      using assms that by (simp add: distinct_map distinct_conv_nth inj_on_def)
    moreover have "\<not> precedes (key (rows ! j)) (key (rows ! i))"
      using sorted that by (simp add: sorted_wrt_iff_nth_less)
    ultimately show ?thesis using linear by blast
  qed
  then show ?thesis by (simp add: sorted_wrt_iff_nth_less)
qed

lemma after_drop:
  assumes "distinct (map key rows)" "0 < n" "n \<le> length rows"
  shows "filter (\<lambda>r. precedes (key (rows ! (n - 1))) (key r)) rows = drop n rows"
proof -
  let ?P = "\<lambda>r. precedes (key (rows ! (n - 1))) (key r)"
  have lt: "precedes (key (rows ! i)) (key (rows ! j))" if "i < j" "j < length rows" for i j
    using strict [OF assms(1)] that by (simp add: sorted_wrt_iff_nth_less)
  have "\<not> ?P (rows ! i)" if "i < n" for i
    proof (cases "i = n - 1")
    case False
    then have "precedes (key (rows ! i)) (key (rows ! (n - 1)))"
      using that assms(2,3) by (intro lt) auto
    then show ?thesis using irrefl trans by blast
  qed (use irrefl in simp)
  then have "filter ?P (take n rows) = []"
    using assms(3) by (auto simp: filter_empty_conv in_set_conv_nth)
  moreover have "filter ?P (drop n rows) = drop n rows"
    using lt assms(2,3) by (auto simp: filter_id_conv in_set_conv_nth)
  ultimately show ?thesis
    using filter_append [of ?P "take n rows" "drop n rows"] by simp
qed

lemma keyset_from:
  assumes "distinct (map key rows)" "1 \<le> limit"
  shows "n \<le> length rows \<Longrightarrow> after = (if n = 0 then None else Some (key (rows ! (n - 1)))) \<Longrightarrow> length rows - n \<le> fuel * limit \<Longrightarrow>
    keyset_walk fetch key limit fuel after = drop n rows \<and> (0 < fuel \<longrightarrow> keyset_ends fetch key limit fuel after)"
proof (induction fuel arbitrary: n after)
  case (Suc fuel)
  have got: "fetch after (Suc limit) = take (Suc limit) (drop n rows)"
    using Suc.prems(1,2) after_drop [OF assms(1), of n] by (simp add: fetched)
  show ?case
  proof (cases "limit < length rows - n")
    case True
    then have last: "last (take limit (drop n rows)) = rows ! (n + limit - 1)"
      using assms(2) by (simp add: last_conv_nth)
    have "0 < fuel"
      using True Suc.prems(3) by (cases fuel) auto
    moreover have "keyset_walk fetch key limit fuel (Some (key (rows ! (n + limit - 1)))) = drop (n + limit) rows \<and>
        (0 < fuel \<longrightarrow> keyset_ends fetch key limit fuel (Some (key (rows ! (n + limit - 1)))))"
      using True Suc.prems(3) assms(2) by (intro Suc.IH) auto
    moreover have "take limit (drop n rows) @ drop (n + limit) rows = drop n rows"
      by (metis append_take_drop_id drop_drop add.commute)
    moreover have "drop n rows \<noteq> []"
      using True by simp
    ultimately show ?thesis
      using True assms(2) by (simp add: got last min_def Let_def del: append_take_drop_id)
  next
    case False
    then show ?thesis by (simp add: got Let_def)
  qed
qed simp

text \<open>Every row once, in order: as many pages as the rows need are enough.\<close>

lemma walk_complete:
  "distinct (map key rows) \<Longrightarrow> 1 \<le> limit \<Longrightarrow> length rows \<le> fuel * limit \<Longrightarrow> keyset_walk fetch key limit fuel None = rows"
  using keyset_from [of limit 0 None fuel] by simp

text \<open>They are enough to come to the end, too: there is at least one page, and an empty one is the last.\<close>

lemma walk_ends:
  "distinct (map key rows) \<Longrightarrow> 1 \<le> limit \<Longrightarrow> length rows \<le> fuel * limit \<Longrightarrow> 1 \<le> fuel \<Longrightarrow> keyset_ends fetch key limit fuel None"
  using keyset_from [of limit 0 None fuel] by simp

end

section \<open>Readers that follow cursors\<close>

text \<open>
  \<open>page\<close> answers the items of a page and the cursor of the next, or nothing when it refuses. The reader has the list only when a page
  without a cursor was reached: a walk that has \<open>fuel\<close> pages behind it and a cursor still to follow is not a list.
\<close>

fun cursor_walk :: "('c option \<Rightarrow> ('i list \<times> 'c option) option) \<Rightarrow> nat \<Rightarrow> 'c option \<Rightarrow> 'i list option" where
  "cursor_walk page 0 c = None"
| "cursor_walk page (Suc fuel) c =
     (case page c of
        None \<Rightarrow> None
      | Some (items, None) \<Rightarrow> Some items
      | Some (items, Some c') \<Rightarrow> map_option ((@) items) (cursor_walk page fuel (Some c')))"

text \<open>A page that shows what a keyset answers, and whose cursor opens at its last row, is walked as the keyset is.\<close>

lemma cursor_walk_keyset:
  assumes page: "\<And>c after. opens c after \<Longrightarrow> \<exists>c'. page c = Some (map view (take limit (fetch after (limit + 1))),
      if length (fetch after (limit + 1)) > limit \<and> take limit (fetch after (limit + 1)) \<noteq> [] then Some c' else None) \<and>
      (length (fetch after (limit + 1)) > limit \<and> take limit (fetch after (limit + 1)) \<noteq> [] \<longrightarrow>
         opens (Some c') (Some (key (last (take limit (fetch after (limit + 1)))))))"
  shows "opens c after \<Longrightarrow> cursor_walk page fuel c =
    (if keyset_ends fetch key limit fuel after then Some (map view (keyset_walk fetch key limit fuel after)) else None)"
proof (induction fuel arbitrary: c after)
  case (Suc fuel)
  let ?rows = "fetch after (limit + 1)"
  obtain c' where at: "page c = Some (map view (take limit ?rows), if length ?rows > limit \<and> take limit ?rows \<noteq> [] then Some c' else None)"
    and more: "length ?rows > limit \<and> take limit ?rows \<noteq> [] \<Longrightarrow> opens (Some c') (Some (key (last (take limit ?rows))))"
    using page [OF Suc.prems] by blast
  show ?case
  proof (cases "length ?rows > limit \<and> take limit ?rows \<noteq> []")
    case True
    then show ?thesis
      using Suc.IH [OF more [OF True]] at by (simp add: Let_def)
  next
    case False
    then show ?thesis
      using at by (auto simp: Let_def)
  qed
qed simp

end
