(* ===== verification/AuditProperties.thy ===== *)
theory AuditProperties
  imports AuditLog Keyset
begin

text \<open>
  What the audit log promises: an event that is written carries the fields its action declares and no other, and a reader who
  follows the cursors gets every matching event of the workspace once. The listing rests on the interface \<open>keyset\<close>,
  interpreted on the statement of the repository.
\<close>

section \<open>The catalog is closed\<close>

lemma parse_fields_eq:
  "parse_fields name declared given =
     (case find (\<lambda>(key, field). \<not> audit_fits field (reflect_get given key)) declared of
        Some (key, _) \<Rightarrow> Inl (AuditMetadataError (''of '' @ name @ '' has no valid metadata field '' @ key))
      | None \<Rightarrow> Inr (map (\<lambda>(key, field). (key, reflect_get given key)) declared))"
  by (induction declared) (auto simp: Let_def split: option.split)

lemma parse_fields_Inr:
  "parse_fields name declared given = Inr m \<longleftrightarrow>
     list_all (\<lambda>(key, field). audit_fits field (reflect_get given key)) declared \<and>
     m = map (\<lambda>(key, field). (key, reflect_get given key)) declared"
proof (cases "find (\<lambda>(key, field). \<not> audit_fits field (reflect_get given key)) declared")
  case None
  then have "list_all (\<lambda>(key, field). audit_fits field (reflect_get given key)) declared"
    by (simp add: find_None_iff_all case_prod_unfold)
  then show ?thesis
    using None by (auto simp: parse_fields_eq)
next
  case (Some entry)
  then have "\<not> list_all (\<lambda>(key, field). audit_fits field (reflect_get given key)) declared"
    by (auto simp: list_all_iff dest!: find_SomeD)
  then show ?thesis
    using Some by (cases entry) (simp add: parse_fields_eq)
qed

text \<open>The metadata is accepted exactly when the object has the declared fields, each of its kind, and no other.\<close>

lemma audit_metadata_is_closed:
  "parseAuditMetadata name (JsObject given) = Inr m \<longleftrightarrow>
     (\<exists>d. map_of AUDIT_ACTIONS name = Some d \<and> set (map fst given) \<subseteq> set (map fst (ad_metadata d)) \<and>
          list_all (\<lambda>(key, field). audit_fits field (reflect_get given key)) (ad_metadata d) \<and>
          m = map (\<lambda>(key, field). (key, reflect_get given key)) (ad_metadata d))"
proof (cases "map_of AUDIT_ACTIONS name")
  case (Some d)
  have declared: "find (\<lambda>key. key \<notin> set (map fst (ad_metadata d))) (map fst given) = None \<longleftrightarrow>
      set (map fst given) \<subseteq> set (map fst (ad_metadata d))"
    by (auto simp: find_None_iff)
  show ?thesis
  proof (cases "find (\<lambda>key. key \<notin> set (map fst (ad_metadata d))) (map fst given)")
    case None
    moreover from None have "set (map fst given) \<subseteq> set (map fst (ad_metadata d))"
      by (simp only: declared)
    ultimately show ?thesis
      using Some by (simp add: parseAuditMetadata_def parse_fields_Inr del: set_map)
  next
    case (Some key)
    moreover from Some have "\<not> set (map fst given) \<subseteq> set (map fst (ad_metadata d))"
      using declared by simp
    ultimately show ?thesis
      using \<open>map_of AUDIT_ACTIONS name = Some d\<close> by (simp add: parseAuditMetadata_def del: set_map)
  qed
qed (simp add: parseAuditMetadata_def)

lemma reflect_get_declared:
  "(key, field) \<in> set declared \<Longrightarrow> reflect_get (map (\<lambda>(key, field). (key, f key)) declared) key = f key"
  by (induction declared) (auto simp: reflect_get_def split: if_splits)

definition declared_metadata :: "(string \<times> audit_field) list \<Rightarrow> js_value \<Rightarrow> bool" where
  "declared_metadata declared v \<longleftrightarrow>
     (case v of
        JsObject m \<Rightarrow> map fst m = map fst declared \<and> list_all (\<lambda>(key, field). audit_fits field (reflect_get m key)) declared
      | _ \<Rightarrow> False)"

lemma parsed_is_declared:
  assumes "parseAuditMetadata name v = Inr m"
  shows "\<exists>d. map_of AUDIT_ACTIONS name = Some d \<and> declared_metadata (ad_metadata d) (JsObject m)"
proof -
  obtain given where "v = JsObject given"
    using assms by (auto simp: parseAuditMetadata_def split: option.splits js_value.splits)
  then obtain d where d: "map_of AUDIT_ACTIONS name = Some d" "m = map (\<lambda>(key, field). (key, reflect_get given key)) (ad_metadata d)"
      "list_all (\<lambda>(key, field). audit_fits field (reflect_get given key)) (ad_metadata d)"
    using assms by (auto simp: audit_metadata_is_closed)
  have "map fst m = map fst (ad_metadata d)"
    unfolding d(2) by (simp add: case_prod_unfold)
  moreover have "list_all (\<lambda>(key, field). audit_fits field (reflect_get m key)) (ad_metadata d)"
    using d(3) unfolding d(2) by (auto simp: list_all_iff reflect_get_declared)
  ultimately show ?thesis
    using d(1) by (simp add: declared_metadata_def)
qed

lemma prepareAuditRecord_Inr:
  assumes "prepareAuditRecord event newId = Inr r"
  shows "parseAuditMetadata (av_action event) (av_metadata event) = Inr (ar_metadata r) \<and> ar_action r = av_action event \<and>
    ar_workspaceId r = av_workspaceId event \<and> ar_id r = newId"
  using assms by (auto simp: prepareAuditRecord_def Let_def split: if_splits sum.splits)

section \<open>The log\<close>

definition audit_row_ok :: "audit_row \<Rightarrow> bool" where
  "audit_row_ok r \<longleftrightarrow> audit_checks r \<and> uuid_cast (ae_id r) = ae_id r"

definition audit_log_ok :: "audit_row list \<Rightarrow> bool" where
  "audit_log_ok log \<longleftrightarrow> distinct (map ae_id log) \<and> list_all audit_row_ok log"

lemma audit_insert_Inr:
  "audit_insert db now tx r log = Inr (u, log') \<longleftrightarrow>
     (case tx_workspaceId tx of None \<Rightarrow> True | Some w \<Rightarrow> js_lower (ar_workspaceId r) = w) \<and>
     audit_insert_policy db tx (uuid_cast (ar_workspaceId r)) \<and> audit_checks (row_of_record now r) \<and>
     uuid_cast (ar_id r) \<notin> set (map ae_id log) \<and> audit_references db (row_of_record now r) \<and> log' = log @ [row_of_record now r]"
proof -
  have "ae_id (row_of_record now r) = uuid_cast (ar_id r)"
    by (simp add: row_of_record_def)
  moreover have "list_ex (\<lambda>x. ae_id x = i) log \<longleftrightarrow> i \<in> set (map ae_id log)" for i
    by (auto simp: list_ex_iff)
  ultimately show ?thesis
    by (auto simp: audit_insert_def Let_def split: option.splits)
qed

lemma audit_insert_keeps_ok:
  "audit_log_ok log \<Longrightarrow> audit_insert db now tx r log = Inr (u, log') \<Longrightarrow> audit_log_ok log'"
  by (auto simp: audit_insert_Inr audit_log_ok_def audit_row_ok_def row_of_record_def)

text \<open>
  Writing an audit event adds one row to the log and changes no other; its action is in the catalog, its metadata holds
  exactly the fields the action declares, each of its kind, and a transaction of a workspace writes to the log of that workspace.
\<close>

theorem audit_write_adds_declared_event:
  assumes "audit_write (audit_insert db now tx) newId event log = Inr (u, log')" "audit_log_ok log"
  shows "\<exists>r d. log' = log @ [r] \<and> audit_log_ok log' \<and> ae_action r = av_action event \<and> map_of AUDIT_ACTIONS (ae_action r) = Some d \<and>
    declared_metadata (ad_metadata d) (ae_metadata r) \<and> ae_workspace_id r = Some (js_lower (av_workspaceId event)) \<and>
    (tx_workspaceId tx = None \<or> tx_workspaceId tx = ae_workspace_id r)"
proof -
  obtain r where prepared: "prepareAuditRecord event newId = Inr r" and put: "audit_insert db now tx r log = Inr (u, log')"
    using assms(1) by (auto simp: audit_write_def split: sum.splits)
  note r = prepareAuditRecord_Inr [OF prepared]
  from r obtain d where d: "map_of AUDIT_ACTIONS (av_action event) = Some d" "declared_metadata (ad_metadata d) (JsObject (ar_metadata r))"
    using parsed_is_declared by blast
  have row: "log' = log @ [row_of_record now r]" "tx_workspaceId tx = None \<or> tx_workspaceId tx = Some (js_lower (ar_workspaceId r))"
    using put by (auto simp: audit_insert_Inr split: option.splits)
  show ?thesis
    by (rule exI [of _ "row_of_record now r"], rule exI [of _ d])
       (use row d r audit_insert_keeps_ok [OF assms(2) put] in \<open>simp add: row_of_record_def uuid_cast_def\<close>)
qed

section \<open>Pages\<close>

definition audit_selected :: "(string \<Rightarrow> nat) \<Rightarrow> string \<Rightarrow> audit_filter \<Rightarrow> audit_row list \<Rightarrow> audit_row list" where
  "audit_selected instant w f log = newest_first (filter (audit_matches instant w f) log)"

definition audit_fetch :: "(string \<Rightarrow> nat) \<Rightarrow> string \<Rightarrow> audit_filter \<Rightarrow> audit_row list \<Rightarrow> (nat \<times> string) option \<Rightarrow> nat \<Rightarrow> audit_row list" where
  "audit_fetch instant w f log after limit =
     take limit (newest_first (filter (\<lambda>r. audit_matches instant w f r \<and> (case after of None \<Rightarrow> True | Some p \<Rightarrow> audit_key r < p)) log))"

lemma newest_first_filter: "newest_first (filter P rows) = filter P (newest_first rows)"
  by (simp add: newest_first_def filter_sort flip: rev_filter)

lemma set_newest_first [simp]: "set (newest_first rows) = set rows"
  by (simp add: newest_first_def)

lemma newest_first_sorted: "sorted_wrt (\<lambda>x y. \<not> audit_key x < audit_key y) (newest_first rows)"
proof -
  have "sorted_wrt (\<lambda>x y. audit_key x \<le> audit_key y) (sort_key audit_key rows)"
    using sorted_sort_key [of audit_key rows] by (simp only: sorted_map)
  then show ?thesis
    by (simp add: newest_first_def sorted_wrt_rev not_less)
qed

interpretation audit_pages: keyset "\<lambda>p q. q < p" audit_key "audit_selected instant w f log" "audit_fetch instant w f log"
  for instant w f log
proof unfold_locales
  show "sorted_wrt (\<lambda>x y. \<not> audit_key x < audit_key y) (audit_selected instant w f log)"
    unfolding audit_selected_def by (rule newest_first_sorted)
  show "audit_fetch instant w f log after n =
      take n (filter (\<lambda>r. case after of None \<Rightarrow> True | Some p \<Rightarrow> audit_key r < p) (audit_selected instant w f log))" for after n
    by (simp add: audit_fetch_def audit_selected_def newest_first_filter conj_commute flip: filter_filter)
qed auto

text \<open>A client that follows the cursors, at most \<open>fuel\<close> pages of them.\<close>

fun audit_walk :: "nat \<Rightarrow> 's audit_reader \<Rightarrow> audit_cursors \<Rightarrow> audit_list_ask \<Rightarrow> 's \<Rightarrow> audit_event_record list option" where
  "audit_walk 0 list_events cursors ask s = Some []"
| "audit_walk (Suc fuel) list_events cursors ask s =
     (case listAuditEvents list_events cursors ask s of
        Inr (AuditListed items next_cursor, s') \<Rightarrow>
          (case next_cursor of
             None \<Rightarrow> Some items
           | Some c \<Rightarrow> map_option ((@) items) (audit_walk fuel list_events cursors (ask\<lparr>aa_cursor := Some c\<rparr>) s'))
      | _ \<Rightarrow> None)"

definition audit_cursors_ok :: "audit_cursors \<Rightarrow> bool" where
  "audit_cursors_ok cursors \<longleftrightarrow> (\<forall>p scope. ac_open cursors (ac_seal cursors p scope) scope = Some p)"

lemma audit_cursors_open: "audit_cursors_ok cursors \<Longrightarrow> ac_open cursors (ac_seal cursors p scope) scope = Some p"
  unfolding audit_cursors_ok_def by blast

text \<open>The text of a time is cast to that time again.\<close>

definition times_ok :: "(string \<Rightarrow> nat) \<Rightarrow> (nat \<Rightarrow> string) \<Rightarrow> bool" where
  "times_ok instant show_instant \<longleftrightarrow> (\<forall>t. instant (show_instant t) = t)"

lemma events_of_rows_ok:
  "list_all audit_row_ok rows \<Longrightarrow> events_of_rows show_instant rows = Inr (map (event_of_row show_instant) rows)"
  by (induction rows) (auto simp: audit_row_ok_def audit_checks_def actorTypeOf_def)

lemma set_audit_fetch: "set (audit_fetch instant w f log after n) \<subseteq> set log"
  by (auto simp: audit_fetch_def dest: in_set_takeD)

definition key_of_position :: "(string \<Rightarrow> nat) \<Rightarrow> audit_position \<Rightarrow> nat \<times> string" where
  "key_of_position instant p = (instant (ap_createdAt p), uuid_cast (ap_id p))"

lemma audit_list_eq:
  assumes "audit_log_ok log" "tx_workspaceId tx = Some w"
  shows "audit_list instant show_instant tx f after n log =
    Inr (map (event_of_row show_instant) (audit_fetch instant (uuid_cast w) f log (map_option (key_of_position instant) after) n), log)"
proof -
  have "listAuditEventsStatement instant (uuid_cast w) f after n log =
      audit_fetch instant (uuid_cast w) f log (map_option (key_of_position instant) after) n"
    by (cases after) (simp_all add: listAuditEventsStatement_def audit_fetch_def key_of_position_def)
  moreover have "list_all audit_row_ok (audit_fetch instant (uuid_cast w) f log after' n)" for after'
    using assms(1) set_audit_fetch [of instant "uuid_cast w" f log after' n] by (auto simp: audit_log_ok_def list_all_iff)
  ultimately show ?thesis
    using assms(2) by (simp add: audit_list_def requireWorkspace_def events_of_rows_ok)
qed

lemma position_of_event:
  "times_ok instant show_instant \<Longrightarrow> audit_row_ok r \<Longrightarrow> key_of_position instant (position_of (event_of_row show_instant r)) = audit_key r"
  by (simp add: key_of_position_def position_of_def event_of_row_def audit_key_def times_ok_def audit_row_ok_def)

lemma next_page_scope [simp]:
  "audit_scope_of (ask\<lparr>aa_cursor := c\<rparr>) = audit_scope_of ask"
  "audit_filter_of (ask\<lparr>aa_cursor := c\<rparr>) = audit_filter_of ask"
  by (simp_all add: audit_scope_of_def audit_filter_of_def)

lemma audit_walk_keyset:
  assumes ok: "audit_log_ok log" "tx_workspaceId tx = Some w" "times_ok instant show_instant" "audit_cursors_ok cursors"
    and some: "admittedActions (aa_actions ask) (aa_categories ask) \<noteq> Some []"
    and at: "(case aa_cursor ask of None \<Rightarrow> Some None | Some c \<Rightarrow> map_option Some (ac_open cursors c (audit_scope_of ask))) = Some after"
  shows "audit_walk fuel (audit_list instant show_instant tx) cursors ask log =
    Some (map (event_of_row show_instant)
      (keyset_walk (audit_fetch instant (uuid_cast w) (audit_filter_of ask) log) audit_key (aa_limit ask) fuel
        (map_option (key_of_position instant) after)))"
  using some at
proof (induction fuel arbitrary: ask after)
  case (Suc fuel)
  define rows where
    "rows = audit_fetch instant (uuid_cast w) (audit_filter_of ask) log (map_option (key_of_position instant) after) (Suc (aa_limit ask))"
  define page where "page = take (aa_limit ask) rows"
  define c where "c = ac_seal cursors (position_of (event_of_row show_instant (last page))) (audit_scope_of ask)"
  have step: "listAuditEvents (audit_list instant show_instant tx) cursors ask log =
      Inr (AuditListed (map (event_of_row show_instant) page) (if length rows > aa_limit ask \<and> page \<noteq> [] then Some c else None), log)"
    unfolding listAuditEvents_def Let_def Suc.prems(2) option.case
    using Suc.prems(1)
    by (simp add: tx_bind_def audit_list_eq [OF ok(1,2)] tx_return_def rows_def [symmetric] page_def c_def take_map last_map)
  have walk: "keyset_walk (audit_fetch instant (uuid_cast w) (audit_filter_of ask) log) audit_key (aa_limit ask) (Suc fuel)
        (map_option (key_of_position instant) after) =
      (if length rows > aa_limit ask \<and> page \<noteq> []
       then page @ keyset_walk (audit_fetch instant (uuid_cast w) (audit_filter_of ask) log) audit_key (aa_limit ask) fuel (Some (audit_key (last page)))
       else page)"
    by (simp add: Let_def page_def rows_def)
  show ?case
  proof (cases "length rows > aa_limit ask \<and> page \<noteq> []")
    case True
    have "set page \<subseteq> set log"
      unfolding page_def rows_def using set_audit_fetch in_set_takeD by (metis subsetI subsetD)
    then have "audit_row_ok (last page)"
      using True ok(1) last_in_set [of page] unfolding audit_log_ok_def list_all_iff by blast
    then have key: "key_of_position instant (position_of (event_of_row show_instant (last page))) = audit_key (last page)"
      by (rule position_of_event [OF ok(3)])
    have "audit_walk fuel (audit_list instant show_instant tx) cursors (ask\<lparr>aa_cursor := Some c\<rparr>) log =
        Some (map (event_of_row show_instant)
          (keyset_walk (audit_fetch instant (uuid_cast w) (audit_filter_of (ask\<lparr>aa_cursor := Some c\<rparr>)) log) audit_key
            (aa_limit (ask\<lparr>aa_cursor := Some c\<rparr>)) fuel
            (map_option (key_of_position instant) (Some (position_of (event_of_row show_instant (last page)))))))"
      using Suc.prems(1) by (intro Suc.IH) (simp_all add: audit_cursors_open [OF ok(4)] c_def)
    then show ?thesis
      using True unfolding walk by (simp add: step key)
  next
    case False
    then show ?thesis
      unfolding walk by (auto simp add: step)
  qed
qed simp

lemma distinct_audit_keys:
  assumes "audit_log_ok log"
  shows "distinct (map audit_key (audit_selected instant w f log))"
proof -
  have "distinct (map ae_id (filter P log))" for P
    using assms by (simp add: audit_log_ok_def distinct_map_filter)
  then have "distinct (map ae_id (newest_first (filter P log)))" for P
    unfolding newest_first_def rev_map [symmetric] distinct_rev
    by (metis mset_map mset_eq_imp_distinct_iff mset_sort)
  then show ?thesis
    unfolding audit_selected_def by (auto simp: distinct_map audit_key_def inj_on_def)
qed

lemma no_action_selects_nothing: "af_actions f = Some [] \<Longrightarrow> audit_selected instant w f log = []"
  by (simp add: audit_selected_def audit_matches_def newest_first_def)

text \<open>
  Claim C40: following the cursors page by page, with pages of any size, a reader gets every event of the workspace of the
  transaction that the filters admit, each exactly once and the newest first, and no event of another workspace.
\<close>

theorem audit_pages_complete:
  assumes "audit_log_ok log" "tx_workspaceId tx = Some w" "times_ok instant show_instant" "audit_cursors_ok cursors"
    and "1 \<le> aa_limit ask" "aa_cursor ask = None"
    and "length (audit_selected instant (uuid_cast w) (audit_filter_of ask) log) < fuel * aa_limit ask"
  shows "audit_walk fuel (audit_list instant show_instant tx) cursors ask log =
     Some (map (event_of_row show_instant) (audit_selected instant (uuid_cast w) (audit_filter_of ask) log))"
proof (cases "admittedActions (aa_actions ask) (aa_categories ask) = Some []")
  case True
  obtain n where "fuel = Suc n"
    using assms(7) by (cases fuel) auto
  moreover have "af_actions (audit_filter_of ask) = Some []"
    using True by (simp add: audit_filter_of_def)
  ultimately show ?thesis
    using assms(6) True by (simp add: listAuditEvents_def no_action_selects_nothing tx_return_def)
next
  case False
  then show ?thesis
    using audit_walk_keyset [OF assms(1-4) False, of None fuel] assms(5,6,7)
      audit_pages.walk_complete [OF distinct_audit_keys [OF assms(1)] assms(5)] by simp
qed

section \<open>Examples\<close>

definition example_log_workspace :: string where
  "example_log_workspace = ''0190a000-0000-7000-8000-00000000000a''"

definition example_event :: audit_input where
  "example_event =
     \<lparr>av_action = ''bookmark.archived'', av_workspaceId = example_log_workspace, av_actor = ActorSystem ''system'', av_entity = None,
      av_metadata = JsObject [(''count'', JsText ''2'')], av_ipPrefix = None\<rparr>"

definition example_log_tables :: tables where
  "example_log_tables =
     \<lparr>bookmarks = [], bookmark_shares = [], folder_shares = [], folder_bookmarks = [], team_members = [], slug_preferences = [],
      accounts = [],
      workspaces = [\<lparr>ws_id = example_log_workspace, ws_name = ''Team'', ws_entitlement_version = 1, ws_bookmark_count = 0, ws_deleting_at = None\<rparr>],
      workspace_members = []\<rparr>"

definition example_log_tx :: tenant_tx where
  "example_log_tx = \<lparr>tx_accountId = ''0190a000-0000-7000-8000-00000000000b'', tx_workspaceId = Some example_log_workspace\<rparr>"

definition example_log_row :: "nat \<Rightarrow> string \<Rightarrow> audit_row" where
  "example_log_row now newId =
     row_of_record now \<lparr>ar_id = newId, ar_workspaceId = example_log_workspace, ar_actorType = ''system'', ar_actorAccountId = None,
      ar_actorLabel = ''system'', ar_actorTokenId = None, ar_action = ''bookmark.archived'', ar_entityType = None, ar_entityId = None,
      ar_metadata = [(''count'', JsText ''2'')], ar_ipPrefix = None\<rparr>"

definition example_log :: "audit_row list" where
  "example_log = [example_log_row 5 ''0190a000-0000-7000-8000-000000000001'', example_log_row 7 ''0190a000-0000-7000-8000-000000000002'']"

theorem audit_write_adds_declared_event_witness:
  "\<exists>d. map_of AUDIT_ACTIONS ''bookmark.archived'' = Some d \<and>
     declared_metadata (ad_metadata d) (ae_metadata (example_log_row 9 ''0190a000-0000-7000-8000-000000000003''))"
proof -
  have run: "audit_write (audit_insert example_log_tables 9 example_log_tx) ''0190A000-0000-7000-8000-000000000003'' example_event example_log =
      Inr ((), example_log @ [example_log_row 9 ''0190a000-0000-7000-8000-000000000003''])"
    by code_simp
  have "audit_log_ok example_log"
    by code_simp
  moreover have "ae_action (example_log_row 9 i) = ''bookmark.archived''" for i
    by (simp add: example_log_row_def row_of_record_def)
  ultimately show ?thesis
    using audit_write_adds_declared_event [OF run] by auto
qed

text \<open>A cursor that writes the time behind its length.\<close>

definition plain_audit_cursors :: audit_cursors where
  "plain_audit_cursors =
     \<lparr>ac_seal = \<lambda>p scope. replicate (length (ap_createdAt p)) CHR ''i'' @ ''.'' @ ap_createdAt p @ ap_id p,
      ac_open = \<lambda>c scope.
        let n = length (takeWhile (\<lambda>x. x = CHR ''i'') c); rest = drop (Suc n) c
        in Some \<lparr>ap_createdAt = take n rest, ap_id = drop n rest\<rparr>\<rparr>"

lemma plain_audit_cursors_ok: "audit_cursors_ok plain_audit_cursors"
  by (simp add: audit_cursors_ok_def plain_audit_cursors_def Let_def takeWhile_tail del: split_paired_All)

lemma decimal_times_ok: "times_ok (js_parse_digits 10) (js_to_string 10)"
  by (simp add: times_ok_def js_parse_to_string)

definition example_log_ask :: audit_list_ask where
  "example_log_ask =
     \<lparr>aa_workspaceId = example_log_workspace, aa_actorAccountId = None, aa_actions = None, aa_categories = Some [''bookmark'', ''share''],
      aa_entityType = None, aa_entityId = None, aa_from = Some ''3'', aa_to = None, aa_limit = 1, aa_cursor = None\<rparr>"

theorem audit_pages_complete_witness:
  "audit_walk 3 (audit_list (js_parse_digits 10) (js_to_string 10) example_log_tx) plain_audit_cursors example_log_ask example_log =
     Some (map (event_of_row (js_to_string 10)) (rev example_log))"
proof -
  have "audit_log_ok example_log"
    by code_simp
  moreover have "tx_workspaceId example_log_tx = Some example_log_workspace" "1 \<le> aa_limit example_log_ask" "aa_cursor example_log_ask = None"
    by (simp_all add: example_log_tx_def example_log_ask_def)
  moreover have rows: "audit_selected (js_parse_digits 10) (uuid_cast example_log_workspace) (audit_filter_of example_log_ask) example_log = rev example_log"
    by code_simp
  moreover have "length (rev example_log) < 3 * aa_limit example_log_ask"
    by code_simp
  ultimately show ?thesis
    using audit_pages_complete [of example_log example_log_tx example_log_workspace "js_parse_digits 10" "js_to_string 10"
        plain_audit_cursors example_log_ask 3] decimal_times_ok plain_audit_cursors_ok by simp
qed

end
