(* ===== verification/Events.thy ===== *)
theory Events
  imports Entitlements Tables
begin

text \<open>
  The domain events: the catalog of their payloads (\<open>packages/core/src/events/catalog.ts\<close>) and the job that announces one
  (\<open>packages/server/src/events/publish.ts\<close>).
\<close>

datatype event_field = EventUuid | EventEnum "string list"

definition ACCOUNT_CREATION_PATHS :: "string list" where
  "ACCOUNT_CREATION_PATHS = [''self-registration'', ''invitation'', ''oidc'', ''setup'']"

definition MEMBER_CONTENT_CHOICES :: "string list" where
  "MEMBER_CONTENT_CHOICES = [''transfer'', ''delete'']"

definition MEMBER_ROLES :: "string list" where
  "MEMBER_ROLES = [''owner'', ''admin'', ''member'']"

definition DOMAIN_EVENTS :: "(string \<times> (string \<times> event_field) list) list" where
  "DOMAIN_EVENTS =
     [(''account.created'', [(''accountId'', EventUuid), (''path'', EventEnum ACCOUNT_CREATION_PATHS)]),
      (''account.deleted'', [(''accountId'', EventUuid)]),
      (''workspace.created'', [(''workspaceId'', EventUuid), (''accountId'', EventUuid)]),
      (''workspace.deleted'', [(''workspaceId'', EventUuid)]),
      (''member.left'', [(''workspaceId'', EventUuid), (''accountId'', EventUuid), (''content'', EventEnum MEMBER_CONTENT_CHOICES), (''transferTo'', EventUuid)]),
      (''member.joined'', [(''workspaceId'', EventUuid), (''accountId'', EventUuid), (''role'', EventEnum MEMBER_ROLES)]),
      (''bookmark.created'', [(''workspaceId'', EventUuid), (''bookmarkId'', EventUuid), (''accountId'', EventUuid)])]"

record domain_event =
  de_eventId :: string
  de_name :: string
  de_payload :: js_value

definition isDomainEventName :: "string \<Rightarrow> bool" where
  "isDomainEventName name \<longleftrightarrow> map_of DOMAIN_EVENTS name \<noteq> None"

definition DomainEventPayloadError :: "string \<Rightarrow> string \<Rightarrow> js_error" where
  "DomainEventPayloadError name problem = NamedError ''DomainEventPayloadError'' (''the payload of '' @ name @ '' '' @ problem)"

definition event_fits :: "event_field \<Rightarrow> js_value \<Rightarrow> bool" where
  "event_fits field v =
     (case v of
        JsText s \<Rightarrow> (case field of EventUuid \<Rightarrow> uuid_pattern s | EventEnum listed \<Rightarrow> s \<in> set listed)
      | _ \<Rightarrow> False)"

text \<open>The name is one of the catalog by its type; the payload is handed on as it was given.\<close>

definition parseDomainEventPayload :: "string \<Rightarrow> js_value \<Rightarrow> js_error + (string \<times> js_value) list" where
  "parseDomainEventPayload name v =
     (let declared = the (map_of DOMAIN_EVENTS name)
      in case v of
           JsObject given \<Rightarrow>
             (case find (\<lambda>key. key \<notin> set (map fst declared)) (map fst given) of
                Some key \<Rightarrow> Inl (DomainEventPayloadError name (''has the field '' @ key @ '', which the catalog does not declare''))
              | None \<Rightarrow>
                  (case find (\<lambda>(key, field). \<not> event_fits field (reflect_get given key)) declared of
                     Some (key, _) \<Rightarrow> Inl (DomainEventPayloadError name (''has no valid '' @ key))
                   | None \<Rightarrow> Inr given))
         | _ \<Rightarrow> Inl (DomainEventPayloadError name ''must be an object''))"

section \<open>Jobs\<close>

text \<open>A job that waits in a queue.\<close>

record queued_job =
  qj_id :: string
  qj_queue :: string
  qj_data :: "(string \<times> js_value) list"
  qj_singletonKey :: "string option"

definition eventJobName :: "string \<Rightarrow> string" where
  "eventJobName name = ''event.'' @ name"

definition queueDomainEvent :: "string \<Rightarrow> string \<Rightarrow> js_value \<Rightarrow> js_error + queued_job" where
  "queueDomainEvent eventId name payload =
     (case parseDomainEventPayload name payload of
        Inl e \<Rightarrow> Inl e
      | Inr checked \<Rightarrow>
          Inr \<lparr>qj_id = eventId, qj_queue = eventJobName name, qj_data = (''eventId'', JsText eventId) # checked, qj_singletonKey = None\<rparr>)"

lemma queueDomainEvent_Inr:
  "queueDomainEvent eventId name payload = Inr job \<longleftrightarrow>
     (\<exists>checked. parseDomainEventPayload name payload = Inr checked \<and>
        job = \<lparr>qj_id = eventId, qj_queue = eventJobName name, qj_data = (''eventId'', JsText eventId) # checked, qj_singletonKey = None\<rparr>)"
  by (auto simp: queueDomainEvent_def split: sum.splits)

end
