(* ===== verification/LibraryTables.thy ===== *)
theory LibraryTables
  imports Access Url Slug AuditLog Events
begin

text \<open>
  The tables a member's bookmarks are kept in beside those of \<open>Tables\<close> (\<open>packages/db/src/schema/folders.ts\<close>, \<open>tags.ts\<close>, \<open>teams.ts\<close>), the
  statements on them with their constraints and policies, and the system operations that move a workspace's
  \<open>bookmark_count\<close> (\<open>packages/db/src/sql/470-bookmarks.sql\<close>, \<open>480-bookmark-archive.sql\<close>, \<open>500-bookmark-bulk-delete.sql\<close>).
\<close>

section \<open>Tables\<close>

record folder_row =
  fo_id :: string
  fo_workspace_id :: string
  fo_owner_id :: "string option"
  fo_name :: string
  fo_icon :: string
  fo_color :: nat
  fo_version :: nat
  fo_updated_at :: nat

record tag_row =
  tg_id :: string
  tg_workspace_id :: string
  tg_owner_id :: string
  tg_name :: string

record bookmark_tag_row =
  bt_workspace_id :: string
  bt_bookmark_id :: string
  bt_tag_id :: string

record team_row =
  te_id :: string
  te_workspace_id :: string
  te_name :: string
  te_description :: string
  te_version :: nat
  te_members_version :: nat

text \<open>The count of the fields a save took from a suggestion (\<open>packages/db/src/schema/ai.ts\<close>).\<close>

record ai_usage_row =
  au_id :: string
  au_workspace_id :: string
  au_account_id :: string
  au_bookmark_id :: "string option"
  au_fields_used :: "string list"

text \<open>The queues, with whether one has the \<open>short\<close> policy: it holds one waiting job of a singleton key.\<close>

record library = tables +
  lb_folders :: "folder_row list"
  lb_tags :: "tag_row list"
  lb_bookmark_tags :: "bookmark_tag_row list"
  lb_teams :: "team_row list"
  lb_queues :: "(string \<times> bool) list"
  lb_jobs :: "queued_job list"
  lb_audit :: "audit_row list"
  lb_ai_usage :: "ai_usage_row list"
  lb_now :: nat

abbreviation library_tables :: "library \<Rightarrow> tables" where
  "library_tables db \<equiv> tables.truncate db"

definition postgres_error :: "string \<Rightarrow> js_error" where
  "postgres_error code = NamedError ''PostgresError'' code"

text \<open>\<open>citext\<close>: names are compared without regard to case.\<close>

definition same_name :: "string \<Rightarrow> string \<Rightarrow> bool" where
  "same_name a b \<longleftrightarrow> js_lower a = js_lower b"

section \<open>Writing a bookmark\<close>

text \<open>The checks of the table, and its keys against the other rows.\<close>

definition bookmark_checks :: "bookmark_row \<Rightarrow> bool" where
  "bookmark_checks b \<longleftrightarrow>
     http_prefix (bm_url b) \<and> length (bm_url b) \<le> 2048 \<and>
     1 \<le> length (bm_title b) \<and> length (bm_title b) \<le> 300 \<and>
     (case bm_description b of None \<Rightarrow> True | Some d \<Rightarrow> length d \<le> 1000) \<and>
     (case bm_slug b of None \<Rightarrow> \<not> bm_forwarding b | Some slug \<Rightarrow> bookmark_slug_pattern slug)"

definition slug_clash :: "bookmark_row \<Rightarrow> bookmark_row \<Rightarrow> bool" where
  "slug_clash b c \<longleftrightarrow>
     bm_workspace_id c = bm_workspace_id b \<and> bm_owner_id c = bm_owner_id b \<and> bm_slug b \<noteq> None \<and> bm_slug c = bm_slug b"

definition owner_is_member :: "library \<Rightarrow> bookmark_row \<Rightarrow> bool" where
  "owner_is_member db b \<longleftrightarrow>
     (case bm_owner_id b of
        None \<Rightarrow> True
      | Some owner \<Rightarrow> list_ex (\<lambda>m. wm_workspace_id m = bm_workspace_id b \<and> wm_account_id m = owner) (workspace_members db))"

definition insert_bookmark :: "bookmark_row \<Rightarrow> library \<Rightarrow> js_error + library" where
  "insert_bookmark b db =
     (if \<not> bookmark_checks b then Inl (postgres_error ''23514'')
      else if list_ex (\<lambda>c. bm_id c = bm_id b) (bookmarks db) then Inl (postgres_error ''23505'')
      else if list_ex (slug_clash b) (bookmarks db) then Inl (NamedError ''PostgresError'' ''bookmarks_owner_slug_key'')
      else if \<not> owner_is_member db b then Inl (postgres_error ''23503'')
      else Inr (db\<lparr>bookmarks := bookmarks db @ [b]\<rparr>))"

text \<open>The trigger \<open>bookmarks_bump_version\<close>: the version moves when a column a member sees changes.\<close>

definition seen_columns :: "bookmark_row \<Rightarrow> bookmark_row" where
  "seen_columns b = b\<lparr>bm_open_count := 0, bm_last_opened_at := None, bm_version := 0\<rparr>"

definition bump_version :: "bookmark_row \<Rightarrow> bookmark_row \<Rightarrow> bookmark_row" where
  "bump_version old new =
     new\<lparr>bm_version := (if seen_columns new \<noteq> seen_columns old then bm_version old + 1 else bm_version old)\<rparr>"

definition write_bookmark :: "string \<Rightarrow> string \<Rightarrow> (bookmark_row \<Rightarrow> bookmark_row) \<Rightarrow> library \<Rightarrow> js_error + bookmark_row option \<times> library" where
  "write_bookmark w bookmarkId change db =
     (case find (\<lambda>b. bm_workspace_id b = w \<and> bm_id b = bookmarkId) (bookmarks db) of
        None \<Rightarrow> Inr (None, db)
      | Some old \<Rightarrow>
          (let new = bump_version old (change old)
           in if \<not> bookmark_checks new then Inl (postgres_error ''23514'')
              else if list_ex (\<lambda>c. bm_id c \<noteq> bookmarkId \<and> slug_clash new c) (bookmarks db) then
                Inl (NamedError ''PostgresError'' ''bookmarks_owner_slug_key'')
              else Inr (Some new, db\<lparr>bookmarks := map (\<lambda>b. if bm_id b = bookmarkId then new else b) (bookmarks db)\<rparr>)))"

text \<open>A deletion takes the rows that reference the bookmark with it.\<close>

definition delete_bookmarks :: "(bookmark_row \<Rightarrow> bool) \<Rightarrow> library \<Rightarrow> library" where
  "delete_bookmarks P db =
     (let gone = map bm_id (filter P (bookmarks db))
      in db\<lparr>bookmarks := filter (\<lambda>b. \<not> P b) (bookmarks db),
            bookmark_shares := filter (\<lambda>s. bs_bookmark_id s \<notin> set gone) (bookmark_shares db),
            folder_bookmarks := filter (\<lambda>l. fb_bookmark_id l \<notin> set gone) (folder_bookmarks db),
            slug_preferences := filter (\<lambda>p. sp_bookmark_id p \<notin> set gone) (slug_preferences db),
            lb_bookmark_tags := filter (\<lambda>l. bt_bookmark_id l \<notin> set gone) (lb_bookmark_tags db)\<rparr>)"

section \<open>The system operations\<close>

definition is_member_of :: "library \<Rightarrow> string \<Rightarrow> string \<Rightarrow> bool" where
  "is_member_of db w a \<longleftrightarrow> list_ex (\<lambda>m. wm_workspace_id m = w \<and> wm_account_id m = a) (workspace_members db)"

definition live_workspace :: "library \<Rightarrow> string \<Rightarrow> workspace_row option" where
  "live_workspace db w = find (\<lambda>x. ws_id x = w \<and> ws_deleting_at x = None) (workspaces db)"

definition move_count :: "string \<Rightarrow> (nat \<Rightarrow> nat) \<Rightarrow> library \<Rightarrow> library" where
  "move_count w f db =
     db\<lparr>workspaces := map (\<lambda>x. if ws_id x = w then x\<lparr>ws_bookmark_count := f (ws_bookmark_count x)\<rparr> else x) (workspaces db)\<rparr>"

text \<open>The check of the counter: it is never below zero.\<close>

definition lower_count :: "string \<Rightarrow> nat \<Rightarrow> library \<Rightarrow> js_error + library" where
  "lower_count w n db =
     (if list_ex (\<lambda>x. ws_id x = w \<and> ws_bookmark_count x < n) (workspaces db) then Inl (postgres_error ''23514'')
      else Inr (move_count w (\<lambda>c. c - n) db))"

datatype count_taken = Taken nat | LimitReached nat | Unavailable

definition sys_bookmark_count_take :: "string \<Rightarrow> string \<Rightarrow> nat option \<Rightarrow> library \<Rightarrow> count_taken \<times> library" where
  "sys_bookmark_count_take a w ceiling db =
     (if \<not> is_member_of db w a then (Unavailable, db)
      else case live_workspace db w of
        None \<Rightarrow> (Unavailable, db)
      | Some x \<Rightarrow>
          if (case ceiling of None \<Rightarrow> False | Some m \<Rightarrow> ws_bookmark_count x + 1 > m) then (LimitReached (ws_bookmark_count x), db)
          else (Taken (ws_bookmark_count x + 1), move_count w (\<lambda>c. c + 1) db))"

definition owned_here :: "string \<Rightarrow> string \<Rightarrow> bookmark_row \<Rightarrow> bool" where
  "owned_here a w b \<longleftrightarrow> bm_workspace_id b = w \<and> bm_owner_id b = Some a"

definition sys_bookmark_delete :: "string \<Rightarrow> string \<Rightarrow> string \<Rightarrow> library \<Rightarrow> js_error + bool \<times> library" where
  "sys_bookmark_delete a w bookmarkId db =
     (if live_workspace db w = None then Inr (False, db)
      else case find (\<lambda>b. bm_id b = bookmarkId \<and> owned_here a w b) (bookmarks db) of
        None \<Rightarrow> Inr (False, db)
      | Some b \<Rightarrow>
          (let db' = delete_bookmarks (\<lambda>c. bm_id c = bookmarkId \<and> owned_here a w c) db
           in if bm_plan_archived_at b = None then map_sum id (Pair True) (lower_count w 1 db') else Inr (True, db')))"

definition BULK_DELETE_MAX :: nat where
  "BULK_DELETE_MAX = 5000"

text \<open>\<open>None\<close> where the workspace cannot be reached.\<close>

definition sys_bookmark_delete_many :: "string \<Rightarrow> string \<Rightarrow> string list \<Rightarrow> library \<Rightarrow> js_error + nat option \<times> library" where
  "sys_bookmark_delete_many a w ids db =
     (if length ids > BULK_DELETE_MAX then Inl (postgres_error ''invalid_parameter_value'')
      else if live_workspace db w = None then Inr (None, db)
      else (let doomed = filter (\<lambda>b. owned_here a w b \<and> bm_id b \<in> set ids) (bookmarks db);
                released = length (filter (\<lambda>b. bm_plan_archived_at b = None) doomed);
                db' = delete_bookmarks (\<lambda>b. owned_here a w b \<and> bm_id b \<in> set ids) db
            in if released > 0 then map_sum id (Pair (Some (length doomed))) (lower_count w released db')
               else Inr (Some (length doomed), db')))"

definition archive_row :: "nat \<Rightarrow> bool \<Rightarrow> bookmark_row \<Rightarrow> bookmark_row" where
  "archive_row now archive b = bump_version b (b\<lparr>bm_plan_archived_at := (if archive then Some now else None)\<rparr>)"

definition archive_differs :: "string \<Rightarrow> string list \<Rightarrow> bool \<Rightarrow> bookmark_row \<Rightarrow> bool" where
  "archive_differs w ids archive b \<longleftrightarrow>
     bm_workspace_id b = w \<and> bm_id b \<in> set ids \<and> (bm_plan_archived_at b = None \<longleftrightarrow> archive)"

definition sys_bookmark_archive_set :: "string \<Rightarrow> string \<Rightarrow> string list \<Rightarrow> bool \<Rightarrow> library \<Rightarrow> js_error + nat option \<times> library" where
  "sys_bookmark_archive_set a w ids archive db =
     (if \<not> is_member_of db w a \<or> live_workspace db w = None then Inr (None, db)
      else (let changed = length (filter (archive_differs w ids archive) (bookmarks db));
                db' = db\<lparr>bookmarks := map (\<lambda>b. if archive_differs w ids archive b then archive_row (lb_now db) archive b else b) (bookmarks db)\<rparr>
            in map_sum id (Pair (Some changed))
                 (if archive then lower_count w changed db' else Inr (move_count w (\<lambda>c. c + changed) db'))))"

end
