(* ===== verification/LibraryLinks.thy ===== *)
theory LibraryLinks
  imports LibraryTables
begin

text \<open>
  The links between a member's bookmarks and the member's folders (\<open>packages/db/src/repositories/folder-links.ts\<close>) and tags
  (\<open>tag-links.ts\<close>). A locking read of a transaction that runs alone is a read; what other transactions commit between two of its
  statements is applied where the code guards against it (\<open>interference\<close>). \<open>name_key\<close> is the sort key of the collation of
  the names.
\<close>

section \<open>Identifiers\<close>

text \<open>\<open>[...new Set(xs)]\<close> keeps the first of equal elements.\<close>

definition js_unique :: "'a list \<Rightarrow> 'a list" where
  "js_unique xs = rev (remdups (rev xs))"

definition distinctIdentifiers :: "string list \<Rightarrow> string list" where
  "distinctIdentifiers ids = sort (js_unique (map js_lower ids))"

lemma set_js_unique [simp]: "set (js_unique xs) = set xs"
  by (simp add: js_unique_def)

lemma distinct_js_unique [simp]: "distinct (js_unique xs)"
  by (simp add: js_unique_def)

lemma set_distinctIdentifiers [simp]: "set (distinctIdentifiers ids) = js_lower ` set ids"
  by (simp add: distinctIdentifiers_def)

lemma distinct_distinctIdentifiers [simp]: "distinct (distinctIdentifiers ids)"
  by (simp add: distinctIdentifiers_def)

text \<open>A transaction acts in its workspace, in the form the database compares.\<close>

definition with_workspace :: "tenant_tx \<Rightarrow> string \<Rightarrow> (string \<Rightarrow> ('s, 'r) tx) \<Rightarrow> ('s, 'r) tx" where
  "with_workspace tx action f = tx_bind (requireWorkspace tx action) (\<lambda>w. f (uuid_cast w))"

definition read_db :: "('s \<Rightarrow> 'r) \<Rightarrow> ('s, 'r) tx" where
  "read_db q db = Inr (q db, db)"

section \<open>Folders\<close>

definition owned_folder :: "string \<Rightarrow> string \<Rightarrow> folder_row \<Rightarrow> bool" where
  "owned_folder w owner f \<longleftrightarrow> fo_workspace_id f = w \<and> fo_owner_id f = Some owner"

definition lockOwnedFolders :: "tenant_tx \<Rightarrow> string \<Rightarrow> string list \<Rightarrow> (library, bool) tx" where
  "lockOwnedFolders tx ownerId folderIds =
     with_workspace tx ''filing bookmarks'' (\<lambda>w.
       let wanted = distinctIdentifiers folderIds
       in tx_bind (requireIdentifiers wanted ''filing bookmarks'') (\<lambda>_.
            if wanted = [] then tx_return True
            else read_db (\<lambda>db.
              length (filter (\<lambda>f. owned_folder w (uuid_cast ownerId) f \<and> fo_id f \<in> set wanted) (lb_folders db)) = length wanted)))"

definition lockOwnedBookmarks :: "tenant_tx \<Rightarrow> string \<Rightarrow> string list \<Rightarrow> bool \<Rightarrow> (library, bool) tx" where
  "lockOwnedBookmarks tx ownerId bookmarkIds includeArchived =
     with_workspace tx ''filing bookmarks'' (\<lambda>w.
       let wanted = distinctIdentifiers bookmarkIds
       in tx_bind (requireIdentifiers wanted ''filing bookmarks'') (\<lambda>_.
            if wanted = [] then tx_return True
            else read_db (\<lambda>db.
              length (filter (\<lambda>b. owned_here (uuid_cast ownerId) w b \<and> (includeArchived \<or> bm_plan_archived_at b = None) \<and> bm_id b \<in> set wanted)
                (bookmarks db)) = length wanted)))"

text \<open>The policies of \<open>folder_bookmarks\<close>: the folder and the bookmark are the account's own in the workspace.\<close>

definition own_bookmark_id :: "library \<Rightarrow> string \<Rightarrow> string \<Rightarrow> string \<Rightarrow> bool" where
  "own_bookmark_id db a w bookmarkId \<longleftrightarrow> list_ex (\<lambda>b. owned_here a w b \<and> bm_id b = bookmarkId) (bookmarks db)"

definition own_folder_link :: "library \<Rightarrow> string \<Rightarrow> string \<Rightarrow> folder_bookmark_row \<Rightarrow> bool" where
  "own_folder_link db a w l \<longleftrightarrow>
     fb_workspace_id l = w \<and> list_ex (\<lambda>f. owned_folder w a f \<and> fo_id f = fb_folder_id l) (lb_folders db) \<and>
     own_bookmark_id db a w (fb_bookmark_id l)"

text \<open>\<open>INSERT \<dots> ON CONFLICT (folder_id, bookmark_id) DO NOTHING\<close>: the new links.\<close>

definition link_key :: "folder_bookmark_row \<Rightarrow> string \<times> string" where
  "link_key l = (fb_folder_id l, fb_bookmark_id l)"

definition insert_folder_links :: "tenant_tx \<Rightarrow> folder_bookmark_row list \<Rightarrow> (library, nat) tx" where
  "insert_folder_links tx rows =
     with_workspace tx ''filing bookmarks'' (\<lambda>w db.
       if \<not> list_all (own_folder_link db (uuid_cast (tx_accountId tx)) w) rows then Inl (postgres_error ''42501'')
       else let new = filter (\<lambda>l. link_key l \<notin> set (map link_key (folder_bookmarks db))) rows
            in Inr (length new, db\<lparr>folder_bookmarks := folder_bookmarks db @ new\<rparr>))"

definition insertLinks :: "tenant_tx \<Rightarrow> string list \<Rightarrow> string list \<Rightarrow> (library, nat) tx" where
  "insertLinks tx folderIds bookmarkIds =
     with_workspace tx ''filing bookmarks'' (\<lambda>w.
       let folderList = distinctIdentifiers folderIds; bookmarkList = distinctIdentifiers bookmarkIds
       in tx_bind (requireIdentifiers folderList ''filing bookmarks'') (\<lambda>_.
          tx_bind (requireIdentifiers bookmarkList ''filing bookmarks'') (\<lambda>_.
            if folderList = [] \<or> bookmarkList = [] then tx_return 0
            else insert_folder_links tx
              (concat (map (\<lambda>f. map (\<lambda>b. \<lparr>fb_workspace_id = w, fb_folder_id = f, fb_bookmark_id = b\<rparr>) bookmarkList) folderList)))))"

text \<open>A delete sees the rows the policy shows.\<close>

definition delete_folder_links :: "tenant_tx \<Rightarrow> string \<Rightarrow> (folder_bookmark_row \<Rightarrow> bool) \<Rightarrow> (library, nat) tx" where
  "delete_folder_links tx w picked db =
     (let hit = (\<lambda>l. own_folder_link db (uuid_cast (tx_accountId tx)) w l \<and> picked l)
      in Inr (length (filter hit (folder_bookmarks db)), db\<lparr>folder_bookmarks := filter (\<lambda>l. \<not> hit l) (folder_bookmarks db)\<rparr>))"

definition deleteLinks :: "tenant_tx \<Rightarrow> string list \<Rightarrow> string list \<Rightarrow> (library, nat) tx" where
  "deleteLinks tx folderIds bookmarkIds =
     with_workspace tx ''unfiling bookmarks'' (\<lambda>w.
       let folderList = distinctIdentifiers folderIds; bookmarkList = distinctIdentifiers bookmarkIds
       in tx_bind (requireIdentifiers folderList ''unfiling bookmarks'') (\<lambda>_.
          tx_bind (requireIdentifiers bookmarkList ''unfiling bookmarks'') (\<lambda>_.
            if folderList = [] \<or> bookmarkList = [] then tx_return 0
            else delete_folder_links tx w (\<lambda>l. fb_folder_id l \<in> set folderList \<and> fb_bookmark_id l \<in> set bookmarkList))))"

definition deleteLinksOutside :: "tenant_tx \<Rightarrow> string \<Rightarrow> string list \<Rightarrow> (library, nat) tx" where
  "deleteLinksOutside tx keepFolderId bookmarkIds =
     with_workspace tx ''unfiling bookmarks'' (\<lambda>w.
       let bookmarkList = distinctIdentifiers bookmarkIds
       in tx_bind (requireIdentifiers [keepFolderId] ''unfiling bookmarks'') (\<lambda>_.
          tx_bind (requireIdentifiers bookmarkList ''unfiling bookmarks'') (\<lambda>_.
            if bookmarkList = [] then tx_return 0
            else delete_folder_links tx w (\<lambda>l. fb_folder_id l \<noteq> uuid_cast keepFolderId \<and> fb_bookmark_id l \<in> set bookmarkList))))"

record folder_ref =
  fr_id :: string
  fr_name :: string
  fr_icon :: string
  fr_color :: nat

definition folder_ref_of :: "folder_row \<Rightarrow> folder_ref" where
  "folder_ref_of f = \<lparr>fr_id = fo_id f, fr_name = fo_name f, fr_icon = fo_icon f, fr_color = fo_color f\<rparr>"

text \<open>The list the map holds for a bookmark: its links joined with the owner's folders, by name and identifier.\<close>

definition foldersOfBookmark :: "(string \<Rightarrow> string) \<Rightarrow> string \<Rightarrow> string \<Rightarrow> string \<Rightarrow> library \<Rightarrow> folder_ref list" where
  "foldersOfBookmark name_key w owner bookmarkId db =
     map folder_ref_of (sort_key (\<lambda>f. (name_key (fo_name f), fo_id f))
       (filter (\<lambda>f. owned_folder w owner f \<and>
                 list_ex (\<lambda>l. fb_workspace_id l = w \<and> fb_folder_id l = fo_id f \<and> fb_bookmark_id l = bookmarkId) (folder_bookmarks db))
         (lb_folders db)))"

section \<open>Tags\<close>

record tag_name =
  tn_name :: string
  tn_newId :: string

record tag_selection =
  ts_ids :: "string list"
  ts_names :: "tag_name list"

record tag_ref =
  tr_id :: string
  tr_name :: string

definition owned_tag :: "string \<Rightarrow> string \<Rightarrow> tag_row \<Rightarrow> bool" where
  "owned_tag w owner t \<longleftrightarrow> tg_workspace_id t = w \<and> tg_owner_id t = owner"

definition ownedTagsExist :: "tenant_tx \<Rightarrow> string \<Rightarrow> string list \<Rightarrow> (library, bool) tx" where
  "ownedTagsExist tx ownerId tagIds =
     with_workspace tx ''tagging bookmarks'' (\<lambda>w.
       let wanted = distinctIdentifiers tagIds
       in tx_bind (requireIdentifiers wanted ''tagging bookmarks'') (\<lambda>_.
            if wanted = [] then tx_return True
            else read_db (\<lambda>db.
              length (filter (\<lambda>t. owned_tag w (uuid_cast ownerId) t \<and> tg_id t \<in> set wanted) (lb_tags db)) = length wanted)))"

definition lockTaggingOwner :: "tenant_tx \<Rightarrow> string \<Rightarrow> (library, bool) tx" where
  "lockTaggingOwner tx ownerId =
     with_workspace tx ''tagging bookmarks'' (\<lambda>w.
       tx_bind (requireIdentifiers [ownerId] ''tagging bookmarks'') (\<lambda>_.
         read_db (\<lambda>db. list_ex (\<lambda>x. ws_id x = w) (workspaces db) \<and> is_member_of db w (uuid_cast ownerId))))"

definition lockTaggingTags :: "tenant_tx \<Rightarrow> string \<Rightarrow> tag_selection \<Rightarrow> (library, bool) tx" where
  "lockTaggingTags tx ownerId tagging =
     with_workspace tx ''tagging bookmarks'' (\<lambda>w.
       let wanted = distinctIdentifiers (ts_ids tagging)
       in tx_bind (requireIdentifiers wanted ''tagging bookmarks'') (\<lambda>_.
            if wanted = [] \<and> ts_names tagging = [] then tx_return True
            else read_db (\<lambda>db.
              let locked = filter (\<lambda>t. owned_tag w (uuid_cast ownerId) t \<and>
                    (tg_id t \<in> set wanted \<or> list_ex (\<lambda>n. same_name (tg_name t) (tn_name n)) (ts_names tagging))) (lb_tags db)
              in list_all (\<lambda>i. i \<in> set (map tg_id locked)) wanted)))"

text \<open>The tag each of the names stands for.\<close>

definition tagsByName :: "library \<Rightarrow> string \<Rightarrow> string \<Rightarrow> tag_name list \<Rightarrow> string option list" where
  "tagsByName db w owner names =
     map (\<lambda>n. map_option tg_id (find (\<lambda>t. owned_tag w owner t \<and> same_name (tg_name t) (tn_name n)) (lb_tags db))) names"

text \<open>The names without a tag, in the order of their lower-cased form.\<close>

definition missing_names :: "string option list \<Rightarrow> tag_name list \<Rightarrow> tag_name list" where
  "missing_names found names = sort_key (\<lambda>n. js_lower (tn_name n)) (map snd (filter (\<lambda>(tag, n). tag = None) (zip found names)))"

text \<open>\<open>INSERT \<dots> ON CONFLICT (workspace_id, owner_id, name) DO NOTHING\<close>, one row after the other.\<close>

fun insert_tags :: "string \<Rightarrow> string \<Rightarrow> string \<Rightarrow> tag_name list \<Rightarrow> library \<Rightarrow> js_error + library" where
  "insert_tags account w owner [] db = Inr db"
| "insert_tags account w owner (n # names) db =
     (if owner \<noteq> account then Inl (postgres_error ''42501'')
      else if length (tn_name n) < 1 \<or> length (tn_name n) > 40 then Inl (postgres_error ''23514'')
      else if list_ex (\<lambda>t. owned_tag w owner t \<and> same_name (tg_name t) (tn_name n)) (lb_tags db) then insert_tags account w owner names db
      else if list_ex (\<lambda>t. tg_id t = uuid_cast (tn_newId n)) (lb_tags db) then Inl (postgres_error ''23505'')
      else if \<not> is_member_of db w owner then Inl (postgres_error ''23503'')
      else insert_tags account w owner names
        (db\<lparr>lb_tags := lb_tags db @ [\<lparr>tg_id = uuid_cast (tn_newId n), tg_workspace_id = w, tg_owner_id = owner, tg_name = tn_name n\<rparr>]\<rparr>))"

text \<open>
  What other transactions commit before the call locks its folders and tags (\<open>if_locks\<close>), and between the insertion of new tags
  and their being read back (\<open>if_names\<close>).
\<close>

record interference =
  if_locks :: "library \<Rightarrow> library"
  if_names :: "library \<Rightarrow> library"

definition resolveTagNames :: "interference \<Rightarrow> tenant_tx \<Rightarrow> string \<Rightarrow> tag_name list \<Rightarrow> (library, string list option) tx" where
  "resolveTagNames others tx ownerId names =
     with_workspace tx ''tagging bookmarks'' (\<lambda>w db.
       let owner = uuid_cast ownerId; found = tagsByName db w owner names; missing = missing_names found names
       in if names = [] then Inr (Some [], db)
          else if missing = [] then Inr (Some (distinctIdentifiers (map the found)), db)
          else tx_bind (requireIdentifiers (map tn_newId missing) ''creating tags'') (\<lambda>_ savepoint.
            case insert_tags (uuid_cast (tx_accountId tx)) w owner missing savepoint of
              Inl e \<Rightarrow> Inl e
            | Inr created \<Rightarrow>
                (let read_back = if_names others created; again = tagsByName read_back w owner names
                 in if None \<in> set again then Inr (None, if_names others savepoint)
                    else Inr (Some (distinctIdentifiers (map the again)), read_back))) db)"

definition tagIdsOf :: "interference \<Rightarrow> tenant_tx \<Rightarrow> string \<Rightarrow> tag_selection \<Rightarrow> (library, string list option) tx" where
  "tagIdsOf others tx ownerId tagging =
     tx_bind (resolveTagNames others tx ownerId (ts_names tagging)) (\<lambda>named.
       tx_return (map_option (\<lambda>ids. distinctIdentifiers (ts_ids tagging @ ids)) named))"

text \<open>The policies of \<open>bookmark_tags\<close>.\<close>

definition own_tag_link :: "library \<Rightarrow> string \<Rightarrow> string \<Rightarrow> bookmark_tag_row \<Rightarrow> bool" where
  "own_tag_link db a w l \<longleftrightarrow>
     bt_workspace_id l = w \<and> list_ex (\<lambda>t. owned_tag w a t \<and> tg_id t = bt_tag_id l) (lb_tags db) \<and> own_bookmark_id db a w (bt_bookmark_id l)"

definition tag_link_key :: "bookmark_tag_row \<Rightarrow> string \<times> string" where
  "tag_link_key l = (bt_bookmark_id l, bt_tag_id l)"

definition insert_tag_links :: "tenant_tx \<Rightarrow> string \<Rightarrow> bookmark_tag_row list \<Rightarrow> (library, nat) tx" where
  "insert_tag_links tx w rows db =
     (if \<not> list_all (own_tag_link db (uuid_cast (tx_accountId tx)) w) rows then Inl (postgres_error ''42501'')
      else let new = filter (\<lambda>l. tag_link_key l \<notin> set (map tag_link_key (lb_bookmark_tags db))) rows
           in Inr (length new, db\<lparr>lb_bookmark_tags := lb_bookmark_tags db @ new\<rparr>))"

definition insertTagLinksMany :: "tenant_tx \<Rightarrow> string list \<Rightarrow> string list \<Rightarrow> (library, nat) tx" where
  "insertTagLinksMany tx bookmarkIds tagIds =
     with_workspace tx ''tagging bookmarks'' (\<lambda>w.
       let bookmarkList = distinctIdentifiers bookmarkIds; tagList = distinctIdentifiers tagIds
       in tx_bind (requireIdentifiers bookmarkList ''tagging bookmarks'') (\<lambda>_.
          tx_bind (requireIdentifiers tagList ''tagging bookmarks'') (\<lambda>_.
            if bookmarkList = [] \<or> tagList = [] then tx_return 0
            else insert_tag_links tx w
              (concat (map (\<lambda>b. map (\<lambda>t. \<lparr>bt_workspace_id = w, bt_bookmark_id = b, bt_tag_id = t\<rparr>) tagList) bookmarkList)))))"

definition insertTagLinks :: "tenant_tx \<Rightarrow> string \<Rightarrow> string list \<Rightarrow> (library, nat) tx" where
  "insertTagLinks tx bookmarkId tagIds =
     with_workspace tx ''tagging bookmarks'' (\<lambda>w.
       let tagList = distinctIdentifiers tagIds
       in tx_bind (requireIdentifiers tagList ''tagging bookmarks'') (\<lambda>_.
          tx_bind (requireIdentifiers [bookmarkId] ''tagging bookmarks'') (\<lambda>_.
            if tagList = [] then tx_return 0
            else insert_tag_links tx w
              (map (\<lambda>t. \<lparr>bt_workspace_id = w, bt_bookmark_id = uuid_cast bookmarkId, bt_tag_id = t\<rparr>) tagList))))"

definition delete_tag_links :: "tenant_tx \<Rightarrow> string \<Rightarrow> (bookmark_tag_row \<Rightarrow> bool) \<Rightarrow> (library, nat) tx" where
  "delete_tag_links tx w picked db =
     (let hit = (\<lambda>l. own_tag_link db (uuid_cast (tx_accountId tx)) w l \<and> picked l)
      in Inr (length (filter hit (lb_bookmark_tags db)), db\<lparr>lb_bookmark_tags := filter (\<lambda>l. \<not> hit l) (lb_bookmark_tags db)\<rparr>))"

definition deleteTagLinksMany :: "tenant_tx \<Rightarrow> string list \<Rightarrow> string list \<Rightarrow> (library, nat) tx" where
  "deleteTagLinksMany tx bookmarkIds tagIds =
     with_workspace tx ''untagging bookmarks'' (\<lambda>w.
       let bookmarkList = distinctIdentifiers bookmarkIds; tagList = distinctIdentifiers tagIds
       in tx_bind (requireIdentifiers bookmarkList ''untagging bookmarks'') (\<lambda>_.
          tx_bind (requireIdentifiers tagList ''untagging bookmarks'') (\<lambda>_.
            if bookmarkList = [] \<or> tagList = [] then tx_return 0
            else delete_tag_links tx w (\<lambda>l. bt_bookmark_id l \<in> set bookmarkList \<and> bt_tag_id l \<in> set tagList))))"

definition deleteTagLinks :: "tenant_tx \<Rightarrow> string \<Rightarrow> string list \<Rightarrow> (library, nat) tx" where
  "deleteTagLinks tx bookmarkId tagIds =
     with_workspace tx ''untagging bookmarks'' (\<lambda>w.
       let tagList = distinctIdentifiers tagIds
       in tx_bind (requireIdentifiers tagList ''untagging bookmarks'') (\<lambda>_.
          tx_bind (requireIdentifiers [bookmarkId] ''untagging bookmarks'') (\<lambda>_.
            if tagList = [] then tx_return 0
            else delete_tag_links tx w (\<lambda>l. bt_bookmark_id l = uuid_cast bookmarkId \<and> bt_tag_id l \<in> set tagList))))"

definition tag_ref_of :: "tag_row \<Rightarrow> tag_ref" where
  "tag_ref_of t = \<lparr>tr_id = tg_id t, tr_name = tg_name t\<rparr>"

definition tagsOfBookmark :: "(string \<Rightarrow> string) \<Rightarrow> string \<Rightarrow> string \<Rightarrow> string \<Rightarrow> library \<Rightarrow> tag_ref list" where
  "tagsOfBookmark name_key w owner bookmarkId db =
     map tag_ref_of (sort_key (\<lambda>t. (name_key (tg_name t), tg_id t))
       (filter (\<lambda>t. owned_tag w owner t \<and>
                 list_ex (\<lambda>l. bt_workspace_id l = w \<and> bt_tag_id l = tg_id t \<and> bt_bookmark_id l = bookmarkId) (lb_bookmark_tags db))
         (lb_tags db)))"

definition ownedTags :: "(string \<Rightarrow> string) \<Rightarrow> tenant_tx \<Rightarrow> string \<Rightarrow> string list \<Rightarrow> (library, tag_ref list) tx" where
  "ownedTags name_key tx ownerId tagIds =
     with_workspace tx ''tagging bookmarks'' (\<lambda>w.
       let wanted = distinctIdentifiers tagIds
       in tx_bind (requireIdentifiers wanted ''tagging bookmarks'') (\<lambda>_.
            if wanted = [] then tx_return []
            else read_db (\<lambda>db. map tag_ref_of (sort_key (\<lambda>t. (name_key (tg_name t), tg_id t))
              (filter (\<lambda>t. owned_tag w (uuid_cast ownerId) t \<and> tg_id t \<in> set wanted) (lb_tags db))))))"

end
