(* ===== verification/LibraryDb.thy ===== *)
theory LibraryDb
  imports LibraryLinks
begin

text \<open>
  The repository of bookmarks (\<open>bookmarkRepository\<close> of \<open>packages/db/src/repositories/bookmarks.ts\<close>) but for its lists: creating,
  reading, changing, deleting, pinning, filing, tagging and archiving, and the jobs a write queues
  (\<open>packages/db/src/system/queue.ts\<close>). The audit times of a record are left out.
\<close>

section \<open>Records\<close>

record bookmark_owner =
  bo_accountId :: string
  bo_displayName :: string

record bookmark_record =
  bk_id :: string
  bk_ownerId :: "string option"
  bk_url :: string
  bk_host :: string
  bk_title :: string
  bk_description :: "string option"
  bk_slug :: "string option"
  bk_forwarding :: bool
  bk_pinned :: bool
  bk_openCount :: nat
  bk_lastOpenedAt :: "nat option"
  bk_owner :: "bookmark_owner option"
  bk_sharedVia :: "go_access option"
  bk_folders :: "folder_ref list"
  bk_tags :: "tag_ref list"
  bk_version :: nat

definition recordOf :: "bookmark_row \<Rightarrow> folder_ref list \<Rightarrow> tag_ref list \<Rightarrow> (bookmark_owner option \<times> go_access) option \<Rightarrow> bookmark_record" where
  "recordOf row filed carried sharing =
     \<lparr>bk_id = bm_id row, bk_ownerId = bm_owner_id row, bk_url = bm_url row, bk_host = bm_host row, bk_title = bm_title row,
      bk_description = bm_description row, bk_slug = bm_slug row, bk_forwarding = bm_forwarding row,
      bk_pinned = (sharing = None \<and> bm_pinned_at row \<noteq> None), bk_openCount = bm_open_count row,
      bk_lastOpenedAt = bm_last_opened_at row,
      bk_owner = (case sharing of None \<Rightarrow> None | Some (owner, _) \<Rightarrow> owner), bk_sharedVia = map_option snd sharing,
      bk_folders = filed, bk_tags = carried, bk_version = bm_version row\<rparr>"

text \<open>
  How a bookmark of someone else is shared with the viewer: the first route of \<open>sharedViaOf\<close>, with the owner's name where the
  policies of \<open>accounts\<close> show the account.
\<close>

definition visible_account :: "library \<Rightarrow> string \<Rightarrow> string \<Rightarrow> account_row \<Rightarrow> bool" where
  "visible_account db viewer w acct \<longleftrightarrow> ac_id acct = viewer \<or> is_member_of db w (ac_id acct)"

definition bookmark_owner_of :: "library \<Rightarrow> string \<Rightarrow> string \<Rightarrow> string option \<Rightarrow> bookmark_owner option" where
  "bookmark_owner_of db viewer w ownerId =
     (case ownerId of
        None \<Rightarrow> None
      | Some i \<Rightarrow> map_option (\<lambda>acct. \<lparr>bo_accountId = i, bo_displayName = ac_display_name acct\<rparr>)
          (find (\<lambda>acct. ac_id acct = i \<and> visible_account db viewer w acct) (accounts db)))"

definition sharingOf :: "library \<Rightarrow> string \<Rightarrow> string \<Rightarrow> bookmark_row \<Rightarrow> (bookmark_owner option \<times> go_access) option" where
  "sharingOf db viewer w row =
     map_option (\<lambda>via. (bookmark_owner_of db viewer w (bm_owner_id row), via)) (first_via (grantsTo (library_tables db) viewer w) (bm_id row))"

definition recordsOf :: "(string \<Rightarrow> string) \<Rightarrow> string \<Rightarrow> string \<Rightarrow> bookmark_row list \<Rightarrow> library \<Rightarrow> bookmark_record list" where
  "recordsOf name_key viewer w rows db =
     concat (map (\<lambda>row.
       let filed = foldersOfBookmark name_key w viewer (bm_id row) db; carried = tagsOfBookmark name_key w viewer (bm_id row) db
       in if bm_owner_id row = Some viewer then [recordOf row filed carried None]
          else case sharingOf db viewer w row of
            None \<Rightarrow> []
          | Some route \<Rightarrow> [recordOf row filed carried (Some route)]) rows)"

section \<open>Jobs\<close>

definition enqueueInTenantTransaction :: "queued_job \<Rightarrow> (library, unit) tx" where
  "enqueueInTenantTransaction job db =
     (if \<not> uuid_pattern (qj_id job) then Inl (RangeError ''the id of a job must be a UUID'')
      else case map_of (lb_queues db) (qj_queue job) of
        None \<Rightarrow> Inl (NamedError ''QueueMissingError'' (qj_queue job))
      | Some short \<Rightarrow>
          if short \<and> qj_singletonKey job \<noteq> None \<and>
             list_ex (\<lambda>j. qj_queue j = qj_queue job \<and> qj_singletonKey j = qj_singletonKey job) (lb_jobs db) then Inr ((), db)
          else Inr ((), db\<lparr>lb_jobs := lb_jobs db @ [job]\<rparr>))"

fun enqueue_jobs :: "queued_job list \<Rightarrow> (library, unit) tx" where
  "enqueue_jobs [] = tx_return ()"
| "enqueue_jobs (job # rest) = tx_bind (enqueueInTenantTransaction job) (\<lambda>_. enqueue_jobs rest)"

section \<open>Creating\<close>

record new_bookmark =
  nb_id :: string
  nb_ownerId :: string
  nb_url :: string
  nb_urlCanonical :: string
  nb_host :: string
  nb_title :: string
  nb_description :: "string option"
  nb_pinned :: bool
  nb_slug :: "string option"
  nb_forwarding :: "bool option"

record bookmark_creation =
  bc_bookmark :: new_bookmark
  bc_ceiling :: "nat option"
  bc_jobs :: "queued_job list"
  bc_folderIds :: "string list"
  bc_tags :: tag_selection

datatype creation_result =
    Created bookmark_record
  | CreationLimit nat
  | CreationUnavailable
  | CreationFolderNotFound
  | CreationTagNotFound
  | CreationSlugTaken

definition owner_has_slug :: "library \<Rightarrow> string \<Rightarrow> string \<Rightarrow> string \<Rightarrow> string option \<Rightarrow> bool" where
  "owner_has_slug db w owner slug except \<longleftrightarrow>
     list_ex (\<lambda>b. owned_here owner w b \<and> bm_slug b = Some slug \<and> (case except of None \<Rightarrow> True | Some i \<Rightarrow> bm_id b \<noteq> i)) (bookmarks db)"

definition row_of_new :: "string \<Rightarrow> nat \<Rightarrow> new_bookmark \<Rightarrow> bookmark_row" where
  "row_of_new w now b =
     \<lparr>bm_id = uuid_cast (nb_id b), bm_workspace_id = w, bm_owner_id = Some (uuid_cast (nb_ownerId b)), bm_url = nb_url b,
      bm_url_canonical = nb_urlCanonical b, bm_host = nb_host b, bm_title = nb_title b, bm_description = nb_description b,
      bm_slug = nb_slug b, bm_forwarding = (case nb_forwarding b of None \<Rightarrow> False | Some f \<Rightarrow> f),
      bm_pinned_at = (if nb_pinned b then Some now else None), bm_plan_archived_at = None, bm_open_count = 0,
      bm_last_opened_at = None, bm_version = 1, bm_created_at = now\<rparr>"

text \<open>
  After the insert: the folders and tags are locked, and the links written. A folder or tag that is gone by then undoes everything
  since the savepoint, while what other transactions committed stays.
\<close>

definition create_links :: "interference \<Rightarrow> tenant_tx \<Rightarrow> bookmark_creation \<Rightarrow> string \<Rightarrow> library \<Rightarrow> (library, creation_result option) tx" where
  "create_links others tx creation bookmarkId savepoint =
     (let owner = nb_ownerId (bc_bookmark creation);
          undone = (\<lambda>result. \<lambda>_. Inr (Some result, if_locks others savepoint))
      in tx_bind (lockOwnedFolders tx owner (bc_folderIds creation)) (\<lambda>folders.
         if \<not> folders then undone CreationFolderNotFound
         else tx_bind (insertLinks tx (bc_folderIds creation) [bookmarkId]) (\<lambda>_.
              tx_bind (lockTaggingTags tx owner (bc_tags creation)) (\<lambda>locked.
              if \<not> locked then undone CreationTagNotFound
              else tx_bind (tagIdsOf others tx owner (bc_tags creation)) (\<lambda>tagIds.
                   case tagIds of
                     None \<Rightarrow> (\<lambda>_. Inr (Some CreationTagNotFound, if_names others (if_locks others savepoint)))
                   | Some ids \<Rightarrow> tx_bind (insertTagLinks tx bookmarkId ids) (\<lambda>_. tx_return None))))))"

definition create_place :: "interference \<Rightarrow> (string \<Rightarrow> string) \<Rightarrow> tenant_tx \<Rightarrow> string \<Rightarrow> bookmark_creation \<Rightarrow> (library, creation_result) tx" where
  "create_place others name_key tx w creation savepoint =
     (case sys_bookmark_count_take (uuid_cast (tx_accountId tx)) w (bc_ceiling creation) savepoint of
        (Unavailable, db) \<Rightarrow> Inr (CreationUnavailable, db)
      | (LimitReached used, db) \<Rightarrow> Inr (CreationLimit used, db)
      | (Taken _, db) \<Rightarrow>
          (let row = row_of_new w (lb_now db) (bc_bookmark creation); owner = uuid_cast (nb_ownerId (bc_bookmark creation))
           in case insert_bookmark row db of
                Inl e \<Rightarrow> Inl e
              | Inr db' \<Rightarrow>
                  tx_bind (create_links others tx creation (bm_id row) savepoint) (\<lambda>refused.
                    case refused of
                      Some result \<Rightarrow> tx_return result
                    | None \<Rightarrow>
                        tx_bind (enqueue_jobs (bc_jobs creation)) (\<lambda>_. read_db (\<lambda>db.
                          Created (recordOf row (foldersOfBookmark name_key w owner (bm_id row) db) (tagsOfBookmark name_key w owner (bm_id row) db) None))))
                    (if_locks others db')))"

definition db_create :: "interference \<Rightarrow> (string \<Rightarrow> string) \<Rightarrow> tenant_tx \<Rightarrow> bookmark_creation \<Rightarrow> (library, creation_result) tx" where
  "db_create others name_key tx creation =
     with_workspace tx ''creating a bookmark'' (\<lambda>w.
       let b = bc_bookmark creation
       in tx_bind (lockOwnedFolders tx (nb_ownerId b) (bc_folderIds creation)) (\<lambda>folders.
          if \<not> folders then tx_return CreationFolderNotFound
          else tx_bind (ownedTagsExist tx (nb_ownerId b) (ts_ids (bc_tags creation))) (\<lambda>tags.
          if \<not> tags then tx_return CreationTagNotFound
          else tx_bind (read_db (\<lambda>db. case nb_slug b of None \<Rightarrow> False | Some slug \<Rightarrow> owner_has_slug db w (uuid_cast (nb_ownerId b)) slug None)) (\<lambda>taken.
          if taken then tx_return CreationSlugTaken
          else create_place others name_key tx w creation))))"

section \<open>Reading\<close>

definition readable_row :: "library \<Rightarrow> string \<Rightarrow> string \<Rightarrow> string \<Rightarrow> bookmark_row \<Rightarrow> bool" where
  "readable_row db w viewer bookmarkId b \<longleftrightarrow>
     bm_workspace_id b = w \<and> bm_id b = bookmarkId \<and> bm_plan_archived_at b = None \<and> bookmarkReadableBy (library_tables db) viewer b"

definition find_bookmark :: "(string \<Rightarrow> string) \<Rightarrow> tenant_tx \<Rightarrow> string \<Rightarrow> (library, bookmark_record option) tx" where
  "find_bookmark name_key tx bookmarkId =
     with_workspace tx ''reading a bookmark'' (\<lambda>w. read_db (\<lambda>db.
       let viewer = uuid_cast (tx_accountId tx)
       in case find (readable_row db w viewer (uuid_cast bookmarkId)) (bookmarks db) of
            None \<Rightarrow> None
          | Some row \<Rightarrow> (case recordsOf name_key viewer w [row] db of [] \<Rightarrow> None | r # _ \<Rightarrow> Some r)))"

definition require_own_account :: "tenant_tx \<Rightarrow> string \<Rightarrow> string \<Rightarrow> ('s, unit) tx" where
  "require_own_account tx ownerId action =
     tx_require (js_lower ownerId = js_lower (tx_accountId tx)) (JsError (''only the account of the transaction '' @ action @ '' its own bookmarks''))"

definition shared_row :: "library \<Rightarrow> string \<Rightarrow> string \<Rightarrow> bookmark_row \<Rightarrow> bool" where
  "shared_row db w a b \<longleftrightarrow>
     bm_workspace_id b = w \<and> bm_plan_archived_at b = None \<and> bm_owner_id b \<noteq> Some a \<and> bookmarkReadableBy (library_tables db) a b"

definition db_sharedWith :: "tenant_tx \<Rightarrow> string \<Rightarrow> string \<Rightarrow> (library, bool) tx" where
  "db_sharedWith tx bookmarkId accountId =
     tx_bind (require_own_account tx accountId ''asks whether it is shared with it'') (\<lambda>_.
       with_workspace tx ''reading a bookmark'' (\<lambda>w. read_db (\<lambda>db.
         list_ex (\<lambda>b. bm_id b = uuid_cast bookmarkId \<and> shared_row db w (uuid_cast accountId) b) (bookmarks db))))"

definition db_sharedAmong :: "tenant_tx \<Rightarrow> string list \<Rightarrow> string \<Rightarrow> (library, string list) tx" where
  "db_sharedAmong tx bookmarkIds accountId =
     with_workspace tx ''asking which bookmarks are shared'' (\<lambda>w.
       tx_bind (require_own_account tx accountId ''asks which bookmarks are shared with it'') (\<lambda>_.
       tx_bind (requireIdentifiers bookmarkIds ''asking which bookmarks are shared'') (\<lambda>_.
         if bookmarkIds = [] then tx_return []
         else read_db (\<lambda>db. map bm_id
           (filter (\<lambda>b. bm_id b \<in> set (distinctIdentifiers bookmarkIds) \<and> shared_row db w (uuid_cast accountId) b) (bookmarks db))))))"

section \<open>Changing\<close>

record bookmark_changes =
  ch_url :: "bookmark_url option"
  ch_title :: "string option"
  ch_description :: "string option option"
  ch_pinned :: "bool option"
  ch_slug :: "string option option"
  ch_forwarding :: "bool option"
  ch_folderIds :: "string list option"
  ch_tags :: "tag_selection option"

record bookmark_update =
  bp_bookmarkId :: string
  bp_ownerId :: string
  bp_changes :: bookmark_changes
  bp_expectedVersions :: "nat list option"
  bp_jobsOnUrlChange :: "queued_job list"

datatype update_result =
    Updated bookmark_record
  | Unchanged bookmark_record
  | UpdateFolderNotFound
  | UpdateTagNotFound
  | UpdateSlugTaken
  | UpdateForwardingRequiresSlug
  | UpdateStale
  | UpdateNotFound

text \<open>The members of \<open>set\<close>: what each column that differs is set to.\<close>

definition url_differs :: "bookmark_changes \<Rightarrow> bookmark_row \<Rightarrow> bool" where
  "url_differs changes b =
     (case ch_url changes of None \<Rightarrow> False | Some u \<Rightarrow> bu_url u \<noteq> bm_url b \<or> bu_canonical u \<noteq> bm_url_canonical b \<or> bu_host u \<noteq> bm_host b)"

definition set_url :: "bookmark_url \<Rightarrow> bookmark_row \<Rightarrow> bookmark_row" where
  "set_url u b = b\<lparr>bm_url := bu_url u, bm_url_canonical := bu_canonical u, bm_host := bu_host u\<rparr>"

definition when_differs :: "'v option \<Rightarrow> 'v \<Rightarrow> ('v \<Rightarrow> bookmark_row \<Rightarrow> bookmark_row) \<Rightarrow> (bookmark_row \<Rightarrow> bookmark_row) list" where
  "when_differs wanted current put = (case wanted of None \<Rightarrow> [] | Some v \<Rightarrow> if v \<noteq> current then [put v] else [])"

definition column_sets :: "nat \<Rightarrow> bookmark_changes \<Rightarrow> bookmark_row \<Rightarrow> (bookmark_row \<Rightarrow> bookmark_row) list" where
  "column_sets now changes b =
     (if url_differs changes b then [set_url (the (ch_url changes))] else []) @
     when_differs (ch_title changes) (bm_title b) (\<lambda>v b. b\<lparr>bm_title := v\<rparr>) @
     when_differs (ch_description changes) (bm_description b) (\<lambda>v b. b\<lparr>bm_description := v\<rparr>) @
     when_differs (ch_slug changes) (bm_slug b) (\<lambda>v b. b\<lparr>bm_slug := v\<rparr>) @
     when_differs (ch_forwarding changes) (bm_forwarding b) (\<lambda>v b. b\<lparr>bm_forwarding := v\<rparr>) @
     when_differs (ch_pinned changes) (bm_pinned_at b \<noteq> None) (\<lambda>v b. b\<lparr>bm_pinned_at := (if v then Some now else None)\<rparr>)"

definition apply_sets :: "(bookmark_row \<Rightarrow> bookmark_row) list \<Rightarrow> bookmark_row \<Rightarrow> bookmark_row" where
  "apply_sets sets b = fold (\<lambda>put b. put b) sets b"

text \<open>The checks before the first write, in their order, on the row under its lock.\<close>

definition wanted_slug :: "bookmark_changes \<Rightarrow> bookmark_row \<Rightarrow> string option" where
  "wanted_slug changes b = (case ch_slug changes of None \<Rightarrow> bm_slug b | Some slug \<Rightarrow> slug)"

definition wanted_forwarding :: "bookmark_changes \<Rightarrow> bookmark_row \<Rightarrow> bool" where
  "wanted_forwarding changes b = (case ch_forwarding changes of None \<Rightarrow> bm_forwarding b | Some f \<Rightarrow> f)"

definition new_slug :: "bookmark_changes \<Rightarrow> bookmark_row \<Rightarrow> string option" where
  "new_slug changes b = (case ch_slug changes of Some (Some slug) \<Rightarrow> if Some slug \<noteq> bm_slug b then Some slug else None | _ \<Rightarrow> None)"

definition check_change :: "tenant_tx \<Rightarrow> string \<Rightarrow> bookmark_update \<Rightarrow> bookmark_row \<Rightarrow> (library, update_result option) tx" where
  "check_change tx w request current =
     (let changes = bp_changes request; owner = bp_ownerId request
      in if (case bp_expectedVersions request of None \<Rightarrow> False | Some versions \<Rightarrow> bm_version current \<notin> set versions) then tx_return (Some UpdateStale)
         else if wanted_forwarding changes current \<and> wanted_slug changes current = None then tx_return (Some UpdateForwardingRequiresSlug)
         else tx_bind (read_db (\<lambda>db. case new_slug changes current of
                  None \<Rightarrow> False | Some slug \<Rightarrow> owner_has_slug db w (uuid_cast owner) slug (Some (uuid_cast (bp_bookmarkId request))))) (\<lambda>taken.
              if taken then tx_return (Some UpdateSlugTaken)
              else tx_bind (case ch_folderIds changes of None \<Rightarrow> tx_return True | Some ids \<Rightarrow> lockOwnedFolders tx owner ids) (\<lambda>folders.
              if \<not> folders then tx_return (Some UpdateFolderNotFound)
              else tx_bind (case ch_tags changes of None \<Rightarrow> tx_return True | Some tagging \<Rightarrow> lockTaggingTags tx owner tagging) (\<lambda>tags.
              tx_return (if tags then None else Some UpdateTagNotFound)))))"

text \<open>The identifiers of the second list that the first has not.\<close>

definition outside :: "string list \<Rightarrow> string list \<Rightarrow> string list" where
  "outside xs ys = filter (\<lambda>y. y \<notin> set xs) ys"

definition write_links :: "bool \<Rightarrow> ('s, 'r) tx \<Rightarrow> ('s, unit) tx" where
  "write_links needed m = (if needed then tx_bind m (\<lambda>_. tx_return ()) else tx_return ())"

definition change_row :: "string \<Rightarrow> string \<Rightarrow> (bookmark_row \<Rightarrow> bookmark_row) list \<Rightarrow> bookmark_row \<Rightarrow> (library, bookmark_row) tx" where
  "change_row w bookmarkId sets current =
     (if sets = [] then tx_return current
      else (\<lambda>db. case write_bookmark w bookmarkId (apply_sets sets) db of
              Inl e \<Rightarrow> Inl e
            | Inr (None, db') \<Rightarrow> Inl (JsError ''changing a locked bookmark did not update exactly one row'')
            | Inr (Some row, db') \<Rightarrow> Inr (row, db')))"

text \<open>
  The folders and tags of the bookmarks come as maps, whose keys are identifiers as the database writes them; \<open>update\<close> looks
  its bookmark up by the identifier of the request, as it was given.
\<close>

definition got_by :: "string \<Rightarrow> 'a list \<Rightarrow> 'a list" where
  "got_by bookmarkId found = (if bookmarkId = uuid_cast bookmarkId then found else [])"

definition apply_change ::
    "(string \<Rightarrow> string) \<Rightarrow> tenant_tx \<Rightarrow> string \<Rightarrow> bookmark_update \<Rightarrow> bookmark_row \<Rightarrow> string list option \<Rightarrow>
     folder_ref list \<Rightarrow> tag_ref list \<Rightarrow> nat \<Rightarrow> (library, update_result) tx" where
  "apply_change name_key tx w request current wantedTags filedBefore carriedBefore now =
     (let changes = bp_changes request; owner = uuid_cast (bp_ownerId request); bookmarkId = uuid_cast (bp_bookmarkId request);
          sets = column_sets now changes current;
          carried = map tr_id carriedBefore; filed = map fr_id filedBefore;
          detaching = (case wantedTags of None \<Rightarrow> [] | Some ids \<Rightarrow> outside ids carried);
          attaching = (case wantedTags of None \<Rightarrow> [] | Some ids \<Rightarrow> outside carried ids);
          leaving = (case ch_folderIds changes of None \<Rightarrow> [] | Some ids \<Rightarrow> outside (distinctIdentifiers ids) filed);
          joining = (case ch_folderIds changes of None \<Rightarrow> [] | Some ids \<Rightarrow> outside filed (distinctIdentifiers ids))
      in if sets = [] \<and> leaving = [] \<and> joining = [] \<and> detaching = [] \<and> attaching = [] then
           tx_return (Unchanged (recordOf current filedBefore carriedBefore None))
         else tx_bind (change_row w bookmarkId sets current) (\<lambda>row.
              tx_bind (if url_differs changes current then enqueue_jobs (bp_jobsOnUrlChange request) else tx_return ()) (\<lambda>_.
              tx_bind (write_links (leaving \<noteq> []) (deleteLinks tx leaving [bookmarkId])) (\<lambda>_.
              tx_bind (write_links (joining \<noteq> []) (insertLinks tx joining [bookmarkId])) (\<lambda>_.
              tx_bind (write_links (detaching \<noteq> []) (deleteTagLinks tx bookmarkId detaching)) (\<lambda>_.
              tx_bind (write_links (attaching \<noteq> []) (insertTagLinks tx bookmarkId attaching)) (\<lambda>_.
              read_db (\<lambda>db. Updated (recordOf row
                (if leaving = [] \<and> joining = [] then filedBefore else got_by (bp_bookmarkId request) (foldersOfBookmark name_key w owner bookmarkId db))
                (if detaching = [] \<and> attaching = [] then carriedBefore else got_by (bp_bookmarkId request) (tagsOfBookmark name_key w owner bookmarkId db)) None)))))))))"

definition own_live_row :: "string \<Rightarrow> string \<Rightarrow> string \<Rightarrow> bookmark_row \<Rightarrow> bool" where
  "own_live_row w owner bookmarkId b \<longleftrightarrow> owned_here owner w b \<and> bm_id b = bookmarkId \<and> bm_plan_archived_at b = None"

definition names_new_tags :: "bookmark_changes \<Rightarrow> bool" where
  "names_new_tags changes \<longleftrightarrow> (case ch_tags changes of None \<Rightarrow> False | Some tagging \<Rightarrow> ts_names tagging \<noteq> [])"

definition db_update :: "interference \<Rightarrow> (string \<Rightarrow> string) \<Rightarrow> tenant_tx \<Rightarrow> bookmark_update \<Rightarrow> (library, update_result) tx" where
  "db_update others name_key tx request =
     with_workspace tx ''changing a bookmark'' (\<lambda>w.
       let changes = bp_changes request; owner = uuid_cast (bp_ownerId request); bookmarkId = uuid_cast (bp_bookmarkId request)
       in tx_bind (if names_new_tags changes then lockTaggingOwner tx (bp_ownerId request) else tx_return True) (\<lambda>member.
          if \<not> member then tx_return UpdateNotFound
          else tx_bind (read_db (\<lambda>db. find (own_live_row w owner bookmarkId) (bookmarks db))) (\<lambda>found.
          case found of
            None \<Rightarrow> tx_return UpdateNotFound
          | Some current \<Rightarrow>
              tx_bind (check_change tx w request current) (\<lambda>refused.
              case refused of
                Some result \<Rightarrow> tx_return result
              | None \<Rightarrow>
                  tx_bind (read_db (\<lambda>db. (got_by (bp_bookmarkId request) (foldersOfBookmark name_key w owner bookmarkId db),
                      got_by (bp_bookmarkId request) (tagsOfBookmark name_key w owner bookmarkId db), lb_now db)))
                    (\<lambda>(filedBefore, carriedBefore, now).
                  tx_bind (case ch_tags changes of None \<Rightarrow> tx_return (Some None) | Some tagging \<Rightarrow> tx_bind (tagIdsOf others tx (bp_ownerId request) tagging) (\<lambda>ids. tx_return (map_option Some ids)))
                    (\<lambda>wantedTags.
                  case wantedTags of
                    None \<Rightarrow> tx_return UpdateTagNotFound
                  | Some wanted \<Rightarrow> apply_change name_key tx w request current wanted filedBefore carriedBefore now))))))"

section \<open>Deleting, pinning, filing, tagging, archiving\<close>

definition db_remove :: "tenant_tx \<Rightarrow> string \<Rightarrow> string \<Rightarrow> (library, bool) tx" where
  "db_remove tx bookmarkId ownerId =
     with_workspace tx ''deleting a bookmark'' (\<lambda>w.
       tx_bind (tx_require (js_lower ownerId = js_lower (tx_accountId tx)) (JsError ''only the account of the transaction deletes its own bookmark'')) (\<lambda>_.
         sys_bookmark_delete (uuid_cast (tx_accountId tx)) w (uuid_cast bookmarkId)))"

definition db_removeMany :: "tenant_tx \<Rightarrow> string list \<Rightarrow> (library, nat option) tx" where
  "db_removeMany tx bookmarkIds =
     with_workspace tx ''deleting bookmarks'' (\<lambda>w.
       tx_bind (requireIdentifiers bookmarkIds ''deleting bookmarks'') (\<lambda>_.
         sys_bookmark_delete_many (uuid_cast (tx_accountId tx)) w (map uuid_cast bookmarkIds)))"

definition pin_row :: "nat \<Rightarrow> bool \<Rightarrow> bookmark_row \<Rightarrow> bookmark_row" where
  "pin_row now pinned b = bump_version b (b\<lparr>bm_pinned_at := (if pinned then Some now else None)\<rparr>)"

definition db_setPinned :: "tenant_tx \<Rightarrow> string list \<Rightarrow> string \<Rightarrow> bool \<Rightarrow> (library, nat) tx" where
  "db_setPinned tx bookmarkIds ownerId pinned =
     with_workspace tx ''pinning bookmarks'' (\<lambda>w.
       tx_bind (tx_require (js_lower ownerId = js_lower (tx_accountId tx)) (JsError ''only the account of the transaction pins its own bookmarks'')) (\<lambda>_.
       tx_bind (requireIdentifiers bookmarkIds ''pinning bookmarks'') (\<lambda>_ db.
         let picked = (\<lambda>b. owned_here (uuid_cast ownerId) w b \<and> bm_plan_archived_at b = None \<and> bm_id b \<in> uuid_cast ` set bookmarkIds);
             owned = filter picked (bookmarks db)
         in Inr (length owned,
                 db\<lparr>bookmarks := map (\<lambda>b. if picked b \<and> (bm_pinned_at b \<noteq> None) \<noteq> pinned then pin_row (lb_now db) pinned b else b) (bookmarks db)\<rparr>))))"

definition ownedLiveBookmarks :: "string \<Rightarrow> string \<Rightarrow> string list \<Rightarrow> (library, string list) tx" where
  "ownedLiveBookmarks w ownerId bookmarkIds =
     (let wanted = distinctIdentifiers bookmarkIds
      in tx_bind (requireIdentifiers wanted ''acting on bookmarks'') (\<lambda>_.
           if wanted = [] then tx_return []
           else read_db (\<lambda>db. sort (map bm_id
             (filter (\<lambda>b. owned_here (uuid_cast ownerId) w b \<and> bm_plan_archived_at b = None \<and> bm_id b \<in> set wanted) (bookmarks db))))))"

datatype linking_result = LinkingDone nat | TargetNotFound
datatype filing_mode = FileAdd | FileMove | FileRemove
datatype tagging_mode = TagAdd | TagRemove

definition db_fileIn :: "tenant_tx \<Rightarrow> string list \<Rightarrow> string \<Rightarrow> string \<Rightarrow> filing_mode \<Rightarrow> (library, linking_result) tx" where
  "db_fileIn tx bookmarkIds ownerId folderId mode =
     with_workspace tx ''filing bookmarks'' (\<lambda>w.
       tx_bind (require_own_account tx ownerId ''files'') (\<lambda>_.
       tx_bind (requireIdentifiers [folderId] ''filing bookmarks'') (\<lambda>_.
       tx_bind (ownedLiveBookmarks w ownerId bookmarkIds) (\<lambda>owned.
       tx_bind (lockOwnedFolders tx ownerId [folderId]) (\<lambda>folder.
         if \<not> folder then tx_return TargetNotFound
         else tx_bind (if mode = FileRemove then deleteLinks tx [folderId] owned
                       else tx_bind (write_links (mode = FileMove) (deleteLinksOutside tx folderId owned)) (\<lambda>_. insertLinks tx [folderId] owned)) (\<lambda>_.
              tx_return (LinkingDone (length owned))))))))"

definition db_tag :: "tenant_tx \<Rightarrow> string list \<Rightarrow> string \<Rightarrow> string list \<Rightarrow> tagging_mode \<Rightarrow> (library, linking_result) tx" where
  "db_tag tx bookmarkIds ownerId tagIds mode =
     with_workspace tx ''tagging bookmarks'' (\<lambda>w.
       tx_bind (require_own_account tx ownerId ''tags'') (\<lambda>_.
       tx_bind (ownedLiveBookmarks w ownerId bookmarkIds) (\<lambda>owned.
       tx_bind (lockTaggingTags tx ownerId \<lparr>ts_ids = tagIds, ts_names = []\<rparr>) (\<lambda>tags.
         if \<not> tags then tx_return TargetNotFound
         else tx_bind (if mode = TagAdd then insertTagLinksMany tx owned tagIds else deleteTagLinksMany tx owned tagIds) (\<lambda>_.
              tx_return (LinkingDone (length owned)))))))"

definition db_setArchived :: "tenant_tx \<Rightarrow> string list \<Rightarrow> bool \<Rightarrow> (library, nat option) tx" where
  "db_setArchived tx bookmarkIds archived =
     with_workspace tx ''archiving bookmarks'' (\<lambda>w.
       tx_bind (tx_require (list_all uuid_pattern bookmarkIds) (JsError ''archiving bookmarks takes identifiers only'')) (\<lambda>_.
         sys_bookmark_archive_set (uuid_cast (tx_accountId tx)) w (map uuid_cast bookmarkIds) archived))"

end
