(* ===== verification/LibraryServices.thy ===== *)
theory LibraryServices
  imports LibraryDb EntitlementChecks
begin

text \<open>
  The services of the bookmarks (\<open>packages/core/src/bookmarks\<close>): creating, changing, deleting, reading, opening and archiving,
  with the tags a request names (\<open>tagging.ts\<close>, \<open>packages/core/src/tags/create.ts\<close>) and the count of accepted
  suggestions (\<open>packages/core/src/ai/usage.ts\<close>), over a store; and the store a request gets (\<open>storeOf\<close> of
  \<open>packages/server/src/routes/bookmarks/index.ts\<close>). \<open>newId\<close> is the stream of fresh identifiers in the order they are asked for.
\<close>

section \<open>Tags by name\<close>

definition TAG_NAME_MAX_LENGTH :: nat where
  "TAG_NAME_MAX_LENGTH = 40"

datatype name_refusal = NameEmpty | NameTooLong

definition normalizeTagName :: "string \<Rightarrow> name_refusal + string" where
  "normalizeTagName name =
     (let trimmed = js_trim name
      in if length trimmed < 1 then Inl NameEmpty
         else if length trimmed > TAG_NAME_MAX_LENGTH then Inl NameTooLong
         else Inr trimmed)"

text \<open>The loop of \<open>bookmarkTagSelection\<close>: the names so far, by their lower-cased form, and the number of identifiers used.\<close>

fun select_names :: "(nat \<Rightarrow> string) \<Rightarrow> string list \<Rightarrow> tag_name list \<Rightarrow> nat \<Rightarrow> js_error + tag_name list \<times> nat" where
  "select_names newId [] names used = Inr (names, used)"
| "select_names newId (given # rest) names used =
     (case normalizeTagName given of
        Inl _ \<Rightarrow> Inl (RangeError ''a tag name has 1 to 40 characters'')
      | Inr name \<Rightarrow>
          if list_ex (\<lambda>n. js_lower (tn_name n) = js_lower name) names then select_names newId rest names used
          else select_names newId rest (names @ [\<lparr>tn_name = name, tn_newId = newId used\<rparr>]) (Suc used))"

definition opt_list :: "'a list option \<Rightarrow> 'a list" where
  "opt_list xs = (case xs of None \<Rightarrow> [] | Some ys \<Rightarrow> ys)"

definition bookmarkTagSelection ::
    "(nat \<Rightarrow> string) \<Rightarrow> nat \<Rightarrow> string list option \<Rightarrow> string list option \<Rightarrow> js_error + tag_selection option \<times> nat" where
  "bookmarkTagSelection newId used tagIds tagNames =
     (if tagIds = None \<and> tagNames = None then Inr (None, used)
      else case select_names newId (opt_list tagNames) [] used of
        Inl e \<Rightarrow> Inl e
      | Inr (names, used') \<Rightarrow> Inr (Some \<lparr>ts_ids = js_unique (map js_lower (opt_list tagIds)), ts_names = names\<rparr>, used'))"

section \<open>Accepted suggestions\<close>

definition AI_FIELDS :: "string list" where
  "AI_FIELDS = [''title'', ''slug'', ''tags'']"

definition aiFieldsOf :: "string list option \<Rightarrow> string list" where
  "aiFieldsOf named = (case named of None \<Rightarrow> [] | Some fs \<Rightarrow> filter (\<lambda>f. f \<in> set fs) AI_FIELDS)"

record 's ai_recorder =
  ai_hold :: "('s, bool) tx"
  ai_record :: "string \<Rightarrow> string list \<Rightarrow> ('s, unit) tx"

section \<open>The store\<close>

record creation_request =
  cq_bookmark :: new_bookmark
  cq_ceiling :: ent_limit
  cq_events :: "domain_event list"
  cq_folderIds :: "string list"
  cq_tags :: tag_selection

record update_request =
  uq_bookmarkId :: string
  uq_ownerId :: string
  uq_changes :: bookmark_changes
  uq_expectedVersions :: "nat list option"

record 's bookmark_store =
  st_create :: "creation_request \<Rightarrow> ('s, creation_result) tx"
  st_find :: "string \<Rightarrow> ('s, bookmark_record option) tx"
  st_sharedWith :: "string \<Rightarrow> string \<Rightarrow> ('s, bool) tx"
  st_update :: "update_request \<Rightarrow> ('s, update_result) tx"
  st_remove :: "string \<Rightarrow> string \<Rightarrow> ('s, bool) tx"

section \<open>Creating\<close>

definition BOOKMARK_TITLE_MAX_LENGTH :: nat where
  "BOOKMARK_TITLE_MAX_LENGTH = 300"

definition BOOKMARK_DESCRIPTION_MAX_LENGTH :: nat where
  "BOOKMARK_DESCRIPTION_MAX_LENGTH = 1000"

definition checkLength :: "string \<Rightarrow> string \<Rightarrow> nat \<Rightarrow> nat \<Rightarrow> ('s, unit) tx" where
  "checkLength field v lo hi =
     tx_require (lo \<le> length v \<and> length v \<le> hi) (RangeError (''the length of a bookmark '' @ field))"

definition check_description :: "string option \<Rightarrow> ('s, unit) tx" where
  "check_description d = (case d of None \<Rightarrow> tx_return () | Some v \<Rightarrow> checkLength ''description'' v 1 BOOKMARK_DESCRIPTION_MAX_LENGTH)"

text \<open>An empty description is none.\<close>

definition stored_description :: "string option \<Rightarrow> string option" where
  "stored_description d = (if d = Some [] then None else d)"

record creation_ask =
  ca_workspaceId :: string
  ca_accountId :: string
  ca_url :: string
  ca_title :: string
  ca_description :: "string option"
  ca_pinned :: "bool option"
  ca_slug :: "string option"
  ca_forwarding :: "bool option"
  ca_folderIds :: "string list option"
  ca_tagIds :: "string list option"
  ca_tagNames :: "string list option"
  ca_aiFields :: "string list option"
  ca_ceiling :: ent_limit

datatype creation_outcome =
    CreateDone bookmark_record
  | CreateUrlRefused url_refusal
  | CreateLimitReached nat nat
  | CreateUnavailable
  | CreateFolderNotFound
  | CreateTagNotFound
  | CreateSlugInvalid
  | CreateForwardingRequiresSlug
  | CreateSlugTaken

definition created_event :: "string \<Rightarrow> string \<Rightarrow> creation_ask \<Rightarrow> domain_event" where
  "created_event eventId bookmarkId ask =
     \<lparr>de_eventId = eventId, de_name = ''bookmark.created'',
      de_payload = JsObject [(''workspaceId'', JsText (ca_workspaceId ask)), (''bookmarkId'', JsText bookmarkId), (''accountId'', JsText (ca_accountId ask))]\<rparr>"

definition new_bookmark_of :: "string \<Rightarrow> creation_ask \<Rightarrow> bookmark_url \<Rightarrow> string option \<Rightarrow> new_bookmark" where
  "new_bookmark_of bookmarkId ask url slug =
     \<lparr>nb_id = bookmarkId, nb_ownerId = ca_accountId ask, nb_url = bu_url url, nb_urlCanonical = bu_canonical url, nb_host = bu_host url,
      nb_title = ca_title ask, nb_description = stored_description (ca_description ask),
      nb_pinned = (case ca_pinned ask of None \<Rightarrow> False | Some p \<Rightarrow> p), nb_slug = slug,
      nb_forwarding = (if slug = None then None else Some (case ca_forwarding ask of None \<Rightarrow> True | Some f \<Rightarrow> f))\<rparr>"

definition creation_of ::
    "(nat \<Rightarrow> string) \<Rightarrow> creation_ask \<Rightarrow> bookmark_url \<Rightarrow> string option \<Rightarrow> js_error + creation_request" where
  "creation_of newId ask url slug =
     (case bookmarkTagSelection newId 1 (ca_tagIds ask) (ca_tagNames ask) of
        Inl e \<Rightarrow> Inl e
      | Inr (selection, used) \<Rightarrow> Inr
          \<lparr>cq_bookmark = new_bookmark_of (newId 0) ask url slug, cq_ceiling = ca_ceiling ask,
           cq_events = [created_event (newId used) (newId 0) ask],
           cq_folderIds = js_unique (map js_lower (opt_list (ca_folderIds ask))),
           cq_tags = (case selection of None \<Rightarrow> \<lparr>ts_ids = [], ts_names = []\<rparr> | Some tagging \<Rightarrow> tagging)\<rparr>)"

definition record_accepted :: "'s ai_recorder option \<Rightarrow> string \<Rightarrow> string list \<Rightarrow> ('s, unit) tx" where
  "record_accepted aiUsage bookmarkId accepted =
     (if accepted = [] then tx_return ()
      else case aiUsage of None \<Rightarrow> tx_return () | Some recorder \<Rightarrow> ai_record recorder bookmarkId accepted)"

fun creation_outcome_of :: "ent_limit \<Rightarrow> creation_result \<Rightarrow> js_error + creation_outcome" where
  "creation_outcome_of (AtMost limit) (CreationLimit used) = Inr (CreateLimitReached limit used)"
| "creation_outcome_of Unlimited (CreationLimit used) = Inl (JsError ''the store refused a bookmark under an unlimited ceiling'')"
| "creation_outcome_of _ (Created b) = Inr (CreateDone b)"
| "creation_outcome_of _ CreationUnavailable = Inr CreateUnavailable"
| "creation_outcome_of _ CreationFolderNotFound = Inr CreateFolderNotFound"
| "creation_outcome_of _ CreationTagNotFound = Inr CreateTagNotFound"
| "creation_outcome_of _ CreationSlugTaken = Inr CreateSlugTaken"

text \<open>The answer of the store, then the count of the accepted fields.\<close>

definition finish_creation :: "'s ai_recorder option \<Rightarrow> (nat \<Rightarrow> string) \<Rightarrow> creation_ask \<Rightarrow> creation_result \<Rightarrow> ('s, creation_outcome) tx" where
  "finish_creation aiUsage newId ask result =
     (case creation_outcome_of (ca_ceiling ask) result of
        Inl e \<Rightarrow> tx_throw e
      | Inr outcome \<Rightarrow>
          tx_bind (case outcome of CreateDone _ \<Rightarrow> record_accepted aiUsage (newId 0) (aiFieldsOf (ca_aiFields ask)) | _ \<Rightarrow> tx_return ())
            (\<lambda>_. tx_return outcome))"

definition createBookmark ::
    "'s bookmark_store \<Rightarrow> (nat \<Rightarrow> string) \<Rightarrow> 's ai_recorder option \<Rightarrow> url_parser \<Rightarrow> creation_ask \<Rightarrow> ('s, creation_outcome) tx" where
  "createBookmark store newId aiUsage parse ask =
     (case normalizeBookmarkUrl parse (ca_url ask) of
        Inl reason \<Rightarrow> tx_return (CreateUrlRefused reason)
      | Inr url \<Rightarrow>
          tx_bind (checkLength ''title'' (ca_title ask) 1 BOOKMARK_TITLE_MAX_LENGTH) (\<lambda>_.
          tx_bind (check_description (stored_description (ca_description ask))) (\<lambda>_.
            case (case ca_slug ask of None \<Rightarrow> Some None | Some s \<Rightarrow> map_option Some (parseSlug s)) of
              None \<Rightarrow> tx_return CreateSlugInvalid
            | Some slug \<Rightarrow>
                if ca_forwarding ask = Some True \<and> slug = None then tx_return CreateForwardingRequiresSlug
                else case creation_of newId ask url slug of
                  Inl e \<Rightarrow> tx_throw e
                | Inr request \<Rightarrow> tx_bind (st_create store request) (finish_creation aiUsage newId ask))))"

section \<open>Changing\<close>

record bookmark_patch =
  pa_url :: "string option"
  pa_title :: "string option"
  pa_description :: "string option option"
  pa_pinned :: "bool option"
  pa_slug :: "string option option"
  pa_forwarding :: "bool option"
  pa_folderIds :: "string list option"
  pa_tagIds :: "string list option"
  pa_tagNames :: "string list option"

record update_ask =
  ua_bookmarkId :: string
  ua_accountId :: string
  ua_patch :: bookmark_patch
  ua_aiFields :: "string list option"
  ua_expectedVersions :: "nat list option"

datatype update_outcome =
    UpdateStored update_result
  | UpdateForbidden
  | UpdateUrlRefused url_refusal
  | UpdateSlugInvalid

text \<open>The slug of the patch: left out, cleared, or in its normal form; \<open>Inl\<close> where the grammar refuses it.\<close>

definition patch_slug :: "bookmark_patch \<Rightarrow> unit + string option option" where
  "patch_slug patch =
     (case pa_slug patch of
        None \<Rightarrow> Inr None
      | Some None \<Rightarrow> Inr (Some None)
      | Some (Some s) \<Rightarrow> (case parseSlug s of None \<Rightarrow> Inl () | Some slug \<Rightarrow> Inr (Some (Some slug))))"

definition changes_of :: "bookmark_patch \<Rightarrow> bookmark_url option \<Rightarrow> string option option \<Rightarrow> tag_selection option \<Rightarrow> bookmark_changes" where
  "changes_of patch url slug tagging =
     \<lparr>ch_url = url, ch_title = pa_title patch, ch_description = map_option stored_description (pa_description patch),
      ch_pinned = pa_pinned patch, ch_slug = slug, ch_forwarding = pa_forwarding patch,
      ch_folderIds = map_option (\<lambda>ids. js_unique (map js_lower ids)) (pa_folderIds patch), ch_tags = tagging\<rparr>"

definition hold_member :: "'s ai_recorder option \<Rightarrow> string list \<Rightarrow> ('s, bool) tx" where
  "hold_member aiUsage accepted =
     (if accepted = [] then tx_return True else case aiUsage of None \<Rightarrow> tx_return True | Some recorder \<Rightarrow> ai_hold recorder)"

definition store_update :: "'s bookmark_store \<Rightarrow> 's ai_recorder option \<Rightarrow> update_ask \<Rightarrow> bookmark_changes \<Rightarrow> ('s, update_outcome) tx" where
  "store_update store aiUsage ask changes =
     (let accountId = js_lower (ua_accountId ask); accepted = aiFieldsOf (ua_aiFields ask)
      in tx_bind (hold_member aiUsage accepted) (\<lambda>held.
         if \<not> held then tx_return (UpdateStored UpdateNotFound)
         else tx_bind (st_update store \<lparr>uq_bookmarkId = ua_bookmarkId ask, uq_ownerId = accountId, uq_changes = changes,
                        uq_expectedVersions = ua_expectedVersions ask\<rparr>) (\<lambda>result.
              tx_bind (if result = UpdateNotFound then st_sharedWith store (ua_bookmarkId ask) accountId else tx_return False) (\<lambda>shared.
              if shared then tx_return UpdateForbidden
              else tx_bind (case result of Updated _ \<Rightarrow> record_accepted aiUsage (ua_bookmarkId ask) accepted | _ \<Rightarrow> tx_return ())
                (\<lambda>_. tx_return (UpdateStored result))))))"

definition updateBookmark ::
    "'s bookmark_store \<Rightarrow> (nat \<Rightarrow> string) \<Rightarrow> 's ai_recorder option \<Rightarrow> url_parser \<Rightarrow> update_ask \<Rightarrow> ('s, update_outcome) tx" where
  "updateBookmark store newId aiUsage parse ask =
     (let patch = ua_patch ask
      in case (case pa_url patch of None \<Rightarrow> Inr None | Some u \<Rightarrow> map_sum id Some (normalizeBookmarkUrl parse u)) of
           Inl reason \<Rightarrow> tx_return (UpdateUrlRefused reason)
         | Inr url \<Rightarrow>
             tx_bind (case pa_title patch of None \<Rightarrow> tx_return () | Some t \<Rightarrow> checkLength ''title'' t 1 BOOKMARK_TITLE_MAX_LENGTH) (\<lambda>_.
             tx_bind (case pa_description patch of None \<Rightarrow> tx_return () | Some d \<Rightarrow> check_description (stored_description d)) (\<lambda>_.
               case patch_slug patch of
                 Inl _ \<Rightarrow> tx_return UpdateSlugInvalid
               | Inr slug \<Rightarrow>
                   if pa_forwarding patch = Some True \<and> slug = Some None then tx_return (UpdateStored UpdateForwardingRequiresSlug)
                   else case bookmarkTagSelection newId 0 (pa_tagIds patch) (pa_tagNames patch) of
                     Inl e \<Rightarrow> tx_throw e
                   | Inr (tagging, _) \<Rightarrow> store_update store aiUsage ask (changes_of patch url slug tagging))))"

section \<open>Deleting, reading, opening\<close>

datatype deletion_outcome = Deleted | DeleteForbidden | DeleteNotFound

definition deleteBookmark :: "'s bookmark_store \<Rightarrow> string \<Rightarrow> string \<Rightarrow> ('s, deletion_outcome) tx" where
  "deleteBookmark store bookmarkId account =
     (let accountId = js_lower account
      in tx_bind (st_remove store bookmarkId accountId) (\<lambda>removed.
         if removed then tx_return Deleted
         else tx_bind (st_sharedWith store bookmarkId accountId) (\<lambda>shared.
              tx_return (if shared then DeleteForbidden else DeleteNotFound))))"

definition readBookmark :: "'s bookmark_store \<Rightarrow> string \<Rightarrow> string \<Rightarrow> ('s, bookmark_record option) tx" where
  "readBookmark store bookmarkId account =
     tx_bind (st_find store bookmarkId) (\<lambda>found.
       tx_return (case found of
           None \<Rightarrow> None
         | Some b \<Rightarrow> if bk_sharedVia b \<noteq> None \<or> bk_ownerId b = Some (js_lower account) then Some b else None))"

datatype open_outcome = Opened string | OpenNotFound | OpenUrlRefused

text \<open>\<open>usage.record\<close> is the step \<open>record_use\<close>.\<close>

definition openBookmark :: "url_parser \<Rightarrow> 's bookmark_store \<Rightarrow> (string \<Rightarrow> ('s, unit) tx) \<Rightarrow> string \<Rightarrow> string \<Rightarrow> ('s, open_outcome) tx" where
  "openBookmark parse store record_use bookmarkId account =
     tx_bind (readBookmark store bookmarkId account) (\<lambda>found.
       case found of
         None \<Rightarrow> tx_return OpenNotFound
       | Some b \<Rightarrow>
           (case normalizeBookmarkUrl parse (bk_url b) of
              Inl _ \<Rightarrow> tx_return OpenUrlRefused
            | Inr destination \<Rightarrow> tx_bind (record_use (bk_id b)) (\<lambda>_. tx_return (Opened (bu_url destination)))))"

section \<open>Archiving\<close>

record 's archive_tx =
  at_workspaceId :: "string option"
  at_setArchived :: "string list \<Rightarrow> bool \<Rightarrow> ('s, nat option) tx"
  at_bump :: "('s, nat option) tx"
  at_audit :: "audit_input \<Rightarrow> ('s, unit) tx"

definition BookmarkArchiveError :: "string \<Rightarrow> js_error" where
  "BookmarkArchiveError message = NamedError ''BookmarkArchiveError'' message"

definition archive_event :: "string \<Rightarrow> bool \<Rightarrow> nat \<Rightarrow> audit_input" where
  "archive_event workspaceId archived changed =
     \<lparr>av_action = (if archived then ''bookmark.archived'' else ''bookmark.restored''), av_workspaceId = workspaceId,
      av_actor = ActorSystem ''system'', av_entity = None, av_metadata = JsObject [(''count'', JsText (js_to_string 10 changed))],
      av_ipPrefix = None\<rparr>"

definition setArchived :: "'s archive_tx \<Rightarrow> string \<Rightarrow> string list \<Rightarrow> bool \<Rightarrow> ('s, nat) tx" where
  "setArchived tx workspace ids archived =
     (let workspaceId = js_lower workspace; bookmarkIds = js_unique (map js_lower (filter uuid_pattern ids))
      in tx_bind (tx_require (map_option js_lower (at_workspaceId tx) = Some workspaceId)
            (BookmarkArchiveError ''the transaction does not act in the workspace of the request'')) (\<lambda>_.
         tx_bind (withEntitlementChange (at_bump tx)
             (tx_bind (at_setArchived tx bookmarkIds archived) (\<lambda>count.
                case count of
                  None \<Rightarrow> tx_throw (BookmarkArchiveError ''the workspace cannot be reached'')
                | Some n \<Rightarrow> tx_return n))) (\<lambda>changed.
         tx_bind (at_audit tx (archive_event workspaceId archived changed)) (\<lambda>_. tx_return changed))))"

definition archiveBookmarks :: "'s archive_tx \<Rightarrow> string \<Rightarrow> string list \<Rightarrow> ('s, nat) tx" where
  "archiveBookmarks tx workspace ids = setArchived tx workspace ids True"

definition restoreBookmarks :: "'s archive_tx \<Rightarrow> string \<Rightarrow> string list \<Rightarrow> ('s, nat) tx" where
  "restoreBookmarks tx workspace ids = setArchived tx workspace ids False"

end
