(* ===== verification/LibraryStore.thy ===== *)
theory LibraryStore
  imports LibraryServices
begin

text \<open>
  The services of the bookmarks on the database: the store of a request (\<open>storeOf\<close> of
  \<open>packages/server/src/routes/bookmarks/index.ts\<close>) with the jobs it queues
  (\<open>packages/server/src/worker/jobs/fetch-metadata.ts\<close>), the count of accepted suggestions
  (\<open>packages/db/src/repositories/ai-suggestions.ts\<close>), the entitlement version and the audit log of the transaction.
\<close>

section \<open>Accepted suggestions\<close>

definition holdMember :: "tenant_tx \<Rightarrow> (library, bool) tx" where
  "holdMember tx = tx_bind (requireWorkspace tx ''the AI suggestions of a workspace'') (\<lambda>_. lockTaggingOwner tx (tx_accountId tx))"

definition recordUsage :: "tenant_tx \<Rightarrow> string \<Rightarrow> string option \<Rightarrow> string list \<Rightarrow> (library, unit) tx" where
  "recordUsage tx usageId bookmarkId accepted =
     tx_bind (requireWorkspace tx ''the AI suggestions of a workspace'') (\<lambda>w db.
       if accepted = [] \<or> \<not> distinct accepted \<or> \<not> set accepted \<subseteq> {''title'', ''slug'', ''tags''} then
         Inl (RangeError ''the count of accepted fields names one to three of title, slug and tags, each once'')
       else if list_ex (\<lambda>u. au_id u = uuid_cast usageId) (lb_ai_usage db) then Inl (postgres_error ''23505'')
       else if \<not> is_member_of db (uuid_cast w) (uuid_cast (tx_accountId tx)) then Inl (postgres_error ''23503'')
       else Inr ((), db\<lparr>lb_ai_usage := lb_ai_usage db @
         [\<lparr>au_id = uuid_cast usageId, au_workspace_id = uuid_cast w, au_account_id = uuid_cast (tx_accountId tx),
           au_bookmark_id = map_option uuid_cast bookmarkId, au_fields_used = accepted\<rparr>]\<rparr>))"

text \<open>\<open>usageId\<close> is the identifier the count gets.\<close>

definition aiUsageOf :: "string \<Rightarrow> tenant_tx \<Rightarrow> library ai_recorder" where
  "aiUsageOf usageId tx =
     \<lparr>ai_hold = holdMember tx, ai_record = \<lambda>bookmarkId accepted. recordUsage tx usageId (Some bookmarkId) accepted\<rparr>"

section \<open>The store of a request\<close>

definition FETCH_METADATA_JOB :: string where
  "FETCH_METADATA_JOB = ''bookmark.fetchMetadata''"

text \<open>
  What the request draws from outside: fresh identifiers for the metadata job, the digest of a text in hexadecimal, and whether the
  schema of the job takes an identifier.
\<close>

record job_tools =
  jt_jobId :: string
  jt_sha256 :: "string \<Rightarrow> string"
  jt_schema_uuid :: "string \<Rightarrow> bool"

definition queueFetchMetadata :: "job_tools \<Rightarrow> string \<Rightarrow> string \<Rightarrow> string \<Rightarrow> string \<Rightarrow> js_error + queued_job" where
  "queueFetchMetadata tools bookmarkId workspaceId accountId urlCanonical =
     (if \<not> list_all (jt_schema_uuid tools) [bookmarkId, workspaceId, accountId] then Inl (NamedError ''ZodError'' FETCH_METADATA_JOB)
      else Inr
        \<lparr>qj_id = jt_jobId tools, qj_queue = FETCH_METADATA_JOB,
         qj_data = [(''bookmarkId'', JsText bookmarkId), (''workspaceId'', JsText workspaceId), (''accountId'', JsText accountId)],
         qj_singletonKey = Some (workspaceId @ '':'' @ bookmarkId @ '':'' @ jt_sha256 tools urlCanonical)\<rparr>)"

definition metadataJobOf :: "job_tools \<Rightarrow> tenant_tx \<Rightarrow> string \<Rightarrow> string \<Rightarrow> js_error + queued_job" where
  "metadataJobOf tools tx bookmarkId urlCanonical =
     (case tx_workspaceId tx of
        None \<Rightarrow> Inl (JsError ''a bookmark is written in a tenant transaction opened with a workspace'')
      | Some w \<Rightarrow> queueFetchMetadata tools bookmarkId w (tx_accountId tx) urlCanonical)"

fun event_jobs :: "domain_event list \<Rightarrow> js_error + queued_job list" where
  "event_jobs [] = Inr []"
| "event_jobs (event # events) =
     (case queueDomainEvent (de_eventId event) (de_name event) (de_payload event) of
        Inl e \<Rightarrow> Inl e
      | Inr job \<Rightarrow> map_sum id (\<lambda>jobs. job # jobs) (event_jobs events))"

fun ceiling_of :: "ent_limit \<Rightarrow> nat option" where
  "ceiling_of Unlimited = None"
| "ceiling_of (AtMost n) = Some n"

definition store_create :: "interference \<Rightarrow> (string \<Rightarrow> string) \<Rightarrow> job_tools \<Rightarrow> tenant_tx \<Rightarrow> creation_request \<Rightarrow> (library, creation_result) tx" where
  "store_create others name_key tools tx request =
     (case event_jobs (cq_events request) of
        Inl e \<Rightarrow> tx_throw e
      | Inr jobs \<Rightarrow>
          (case metadataJobOf tools tx (nb_id (cq_bookmark request)) (nb_urlCanonical (cq_bookmark request)) of
             Inl e \<Rightarrow> tx_throw e
           | Inr metadata \<Rightarrow>
               db_create others name_key tx
                 \<lparr>bc_bookmark = cq_bookmark request, bc_ceiling = ceiling_of (cq_ceiling request), bc_jobs = jobs @ [metadata],
                  bc_folderIds = cq_folderIds request, bc_tags = cq_tags request\<rparr>))"

definition store_change :: "interference \<Rightarrow> (string \<Rightarrow> string) \<Rightarrow> job_tools \<Rightarrow> tenant_tx \<Rightarrow> update_request \<Rightarrow> (library, update_result) tx" where
  "store_change others name_key tools tx request =
     (case (case ch_url (uq_changes request) of
              None \<Rightarrow> Inr []
            | Some url \<Rightarrow> map_sum id (\<lambda>job. [job]) (metadataJobOf tools tx (uq_bookmarkId request) (bu_canonical url))) of
        Inl e \<Rightarrow> tx_throw e
      | Inr jobs \<Rightarrow>
          db_update others name_key tx
            \<lparr>bp_bookmarkId = uq_bookmarkId request, bp_ownerId = uq_ownerId request, bp_changes = uq_changes request,
             bp_expectedVersions = uq_expectedVersions request, bp_jobsOnUrlChange = jobs\<rparr>)"

definition storeOf :: "interference \<Rightarrow> (string \<Rightarrow> string) \<Rightarrow> job_tools \<Rightarrow> tenant_tx \<Rightarrow> library bookmark_store" where
  "storeOf others name_key tools tx =
     \<lparr>st_create = store_create others name_key tools tx,
      st_find = find_bookmark name_key tx,
      st_sharedWith = db_sharedWith tx,
      st_update = store_change others name_key tools tx,
      st_remove = db_remove tx\<rparr>"

section \<open>The transaction of an archiving\<close>

text \<open>A step on the tables alone, in the transaction on the library.\<close>

definition on_tables :: "(tables, 'r) tx \<Rightarrow> (library, 'r) tx" where
  "on_tables m db =
     (case m (library_tables db) of
        Inl e \<Rightarrow> Inl e
      | Inr (r, t) \<Rightarrow> Inr (r, db\<lparr>workspaces := workspaces t\<rparr>))"

definition on_audit :: "tenant_tx \<Rightarrow> audit_record \<Rightarrow> (library, unit) tx" where
  "on_audit tx r db =
     (case audit_insert (library_tables db) (lb_now db) tx r (lb_audit db) of
        Inl e \<Rightarrow> Inl e
      | Inr (_, log) \<Rightarrow> Inr ((), db\<lparr>lb_audit := log\<rparr>))"

definition bookmarkArchiveTransaction :: "string \<Rightarrow> tenant_tx \<Rightarrow> library archive_tx" where
  "bookmarkArchiveTransaction auditId tx =
     \<lparr>at_workspaceId = tx_workspaceId tx, at_setArchived = db_setArchived tx, at_bump = on_tables (ent_bump tx),
      at_audit = audit_write (on_audit tx) auditId\<rparr>"

end
