(* ===== verification/LibraryShares.thy ===== *)
theory LibraryShares
  imports LibraryStore
begin

text \<open>
  Sharing: the shares of bookmarks and folders (\<open>packages/db/src/repositories/bookmark-shares.ts\<close>, \<open>folder-shares.ts\<close>, with the
  tables, policies and keys of \<open>packages/db/src/schema/shares.ts\<close> and \<open>packages/db/src/sql/650-bookmark-shares.sql\<close>,
  \<open>660-folder-shares.sql\<close>) and the services on them (\<open>packages/core/src/sharing\<close>). The two repositories make the same statements on
  two tables, which are read here as lists of \<open>share_row\<close>. \<open>between\<close> is what other transactions commit between two statements of
  a call.
\<close>

section \<open>The two tables\<close>

record share_row =
  sh_id :: string
  sh_workspace_id :: string
  sh_object_id :: string
  sh_target_account_id :: "string option"
  sh_target_team_id :: "string option"
  sh_granted_by :: "string option"
  sh_created_at :: nat

definition of_bookmark_share :: "bookmark_share_row \<Rightarrow> share_row" where
  "of_bookmark_share s =
     \<lparr>sh_id = bs_id s, sh_workspace_id = bs_workspace_id s, sh_object_id = bs_bookmark_id s, sh_target_account_id = bs_target_account_id s,
      sh_target_team_id = bs_target_team_id s, sh_granted_by = bs_granted_by s, sh_created_at = bs_created_at s\<rparr>"

definition to_bookmark_share :: "share_row \<Rightarrow> bookmark_share_row" where
  "to_bookmark_share s =
     \<lparr>bs_id = sh_id s, bs_workspace_id = sh_workspace_id s, bs_bookmark_id = sh_object_id s, bs_target_account_id = sh_target_account_id s,
      bs_target_team_id = sh_target_team_id s, bs_granted_by = sh_granted_by s, bs_created_at = sh_created_at s\<rparr>"

definition of_folder_share :: "folder_share_row \<Rightarrow> share_row" where
  "of_folder_share s =
     \<lparr>sh_id = fs_id s, sh_workspace_id = fs_workspace_id s, sh_object_id = fs_folder_id s, sh_target_account_id = fs_target_account_id s,
      sh_target_team_id = fs_target_team_id s, sh_granted_by = fs_granted_by s, sh_created_at = fs_created_at s\<rparr>"

definition to_folder_share :: "share_row \<Rightarrow> folder_share_row" where
  "to_folder_share s =
     \<lparr>fs_id = sh_id s, fs_workspace_id = sh_workspace_id s, fs_folder_id = sh_object_id s, fs_target_account_id = sh_target_account_id s,
      fs_target_team_id = sh_target_team_id s, fs_granted_by = sh_granted_by s, fs_created_at = sh_created_at s\<rparr>"

text \<open>A table of shares: its rows, how they are written, and the objects an account owns, which its policies ask for.\<close>

record share_table =
  tb_rows :: "library \<Rightarrow> share_row list"
  tb_put :: "share_row list \<Rightarrow> library \<Rightarrow> library"
  tb_owns :: "library \<Rightarrow> string \<Rightarrow> string \<Rightarrow> string \<Rightarrow> bool"
  tb_owner :: "library \<Rightarrow> string \<Rightarrow> string \<Rightarrow> string option"

definition bookmark_share_table :: share_table where
  "bookmark_share_table =
     \<lparr>tb_rows = \<lambda>db. map of_bookmark_share (bookmark_shares db),
      tb_put = \<lambda>rows db. db\<lparr>bookmark_shares := map to_bookmark_share rows\<rparr>,
      tb_owns = own_bookmark_id,
      tb_owner = \<lambda>db w i. Option.bind (find (\<lambda>b. bm_workspace_id b = w \<and> bm_id b = i) (bookmarks db)) bm_owner_id\<rparr>"

definition own_folder_id :: "library \<Rightarrow> string \<Rightarrow> string \<Rightarrow> string \<Rightarrow> bool" where
  "own_folder_id db a w i \<longleftrightarrow> list_ex (\<lambda>f. owned_folder w a f \<and> fo_id f = i) (lb_folders db)"

definition folder_share_table :: share_table where
  "folder_share_table =
     \<lparr>tb_rows = \<lambda>db. map of_folder_share (folder_shares db),
      tb_put = \<lambda>rows db. db\<lparr>folder_shares := map to_folder_share rows\<rparr>,
      tb_owns = own_folder_id,
      tb_owner = \<lambda>db w i. Option.bind (find (\<lambda>f. fo_workspace_id f = w \<and> fo_id f = i) (lb_folders db)) fo_owner_id\<rparr>"

section \<open>Targets\<close>

datatype share_target = ShareMember string | ShareTeam string

fun target_account :: "share_target \<Rightarrow> string option" where
  "target_account (ShareMember a) = Some (uuid_cast a)"
| "target_account (ShareTeam t) = None"

fun target_team :: "share_target \<Rightarrow> string option" where
  "target_team (ShareMember a) = None"
| "target_team (ShareTeam t) = Some (uuid_cast t)"

fun targetIdOf :: "share_target \<Rightarrow> string" where
  "targetIdOf (ShareMember a) = a"
| "targetIdOf (ShareTeam t) = t"

fun target_kind :: "share_target \<Rightarrow> string" where
  "target_kind (ShareMember a) = ''member''"
| "target_kind (ShareTeam t) = ''team''"

fun targetFieldOf :: "share_target \<Rightarrow> string" where
  "targetFieldOf (ShareMember a) = ''accountId''"
| "targetFieldOf (ShareTeam t) = ''teamId''"

definition names_target :: "share_target \<Rightarrow> share_row \<Rightarrow> bool" where
  "names_target target s \<longleftrightarrow>
     (case target of
        ShareMember a \<Rightarrow> sh_target_account_id s = Some (uuid_cast a)
      | ShareTeam t \<Rightarrow> sh_target_team_id s = Some (uuid_cast t))"

definition is_team_of :: "library \<Rightarrow> string \<Rightarrow> string \<Rightarrow> bool" where
  "is_team_of db w t \<longleftrightarrow> list_ex (\<lambda>x. te_workspace_id x = w \<and> te_id x = t) (lb_teams db)"

text \<open>The locking read of the target: the membership row or the row of the team.\<close>

definition target_held :: "library \<Rightarrow> string \<Rightarrow> share_target \<Rightarrow> bool" where
  "target_held db w target = (case target of ShareMember a \<Rightarrow> is_member_of db w (uuid_cast a) | ShareTeam t \<Rightarrow> is_team_of db w (uuid_cast t))"

section \<open>Reading\<close>

record share_record =
  sr_id :: string
  sr_objectId :: string
  sr_accountId :: "string option"
  sr_teamId :: "string option"
  sr_name :: string
  sr_email :: "string option"
  sr_createdAt :: nat

text \<open>The account of a share as the policies of \<open>accounts\<close> show it to the viewer.\<close>

definition share_account :: "library \<Rightarrow> string \<Rightarrow> string \<Rightarrow> share_row \<Rightarrow> account_row option" where
  "share_account db viewer w s =
     (case sh_target_account_id s of
        None \<Rightarrow> None
      | Some a \<Rightarrow> find (\<lambda>acct. ac_id acct = a \<and> visible_account db viewer w acct) (accounts db))"

definition share_team :: "library \<Rightarrow> share_row \<Rightarrow> team_row option" where
  "share_team db s =
     (case sh_target_team_id s of
        None \<Rightarrow> None
      | Some t \<Rightarrow> find (\<lambda>x. te_workspace_id x = sh_workspace_id s \<and> te_id x = t) (lb_teams db))"

definition share_name :: "library \<Rightarrow> string \<Rightarrow> string \<Rightarrow> share_row \<Rightarrow> string option" where
  "share_name db viewer w s =
     (case share_account db viewer w s of Some acct \<Rightarrow> Some (ac_display_name acct) | None \<Rightarrow> map_option te_name (share_team db s))"

definition share_record_of :: "library \<Rightarrow> string \<Rightarrow> string \<Rightarrow> share_row \<Rightarrow> js_error + share_record" where
  "share_record_of db viewer w s =
     (case share_name db viewer w s of
        None \<Rightarrow> Inl (JsError ''the target of a share cannot be read'')
      | Some name \<Rightarrow> Inr
          \<lparr>sr_id = sh_id s, sr_objectId = sh_object_id s, sr_accountId = sh_target_account_id s, sr_teamId = sh_target_team_id s,
           sr_name = name, sr_email = map_option ac_email (share_account db viewer w s), sr_createdAt = sh_created_at s\<rparr>)"

fun all_or_error :: "('e + 'a) list \<Rightarrow> 'e + 'a list" where
  "all_or_error [] = Inr []"
| "all_or_error (Inl e # _) = Inl e"
| "all_or_error (Inr x # rest) = map_sum id (\<lambda>xs. x # xs) (all_or_error rest)"

text \<open>\<open>picked\<close> is the filter of \<open>sharesOf\<close>: none, one identifier, or one target.\<close>

definition sharesOf :: "share_table \<Rightarrow> tenant_tx \<Rightarrow> string \<Rightarrow> (share_row \<Rightarrow> bool) \<Rightarrow> (library, share_record list) tx" where
  "sharesOf table tx objectId picked =
     with_workspace tx ''the shares of a workspace'' (\<lambda>w db.
       map_sum id (\<lambda>found. (found, db))
         (all_or_error (map (share_record_of db (uuid_cast (tx_accountId tx)) w)
           (sort_key (\<lambda>s. (sh_created_at s, sh_id s))
             (filter (\<lambda>s. sh_workspace_id s = w \<and> sh_object_id s = uuid_cast objectId \<and> picked s) (tb_rows table db))))))"

text \<open>The accounts other than the owner that a share reaches: the member it names, or the members of its team.\<close>

definition reached_by :: "library \<Rightarrow> share_row \<Rightarrow> string list" where
  "reached_by db s =
     (case sh_target_account_id s of None \<Rightarrow> [] | Some a \<Rightarrow> [a]) @
     (case sh_target_team_id s of
        None \<Rightarrow> []
      | Some t \<Rightarrow> map tm_account_id (filter (\<lambda>m. tm_workspace_id m = sh_workspace_id s \<and> tm_team_id m = t) (team_members db)))"

definition audienceOf :: "share_table \<Rightarrow> tenant_tx \<Rightarrow> string \<Rightarrow> (library, nat) tx" where
  "audienceOf table tx objectId =
     with_workspace tx ''the shares of a workspace'' (\<lambda>w. read_db (\<lambda>db.
       let owner = tb_owner table db w (uuid_cast objectId);
           shares = filter (\<lambda>s. sh_workspace_id s = w \<and> sh_object_id s = uuid_cast objectId) (tb_rows table db)
       in length (remdups (filter (\<lambda>a. Some a \<noteq> owner) (concat (map (reached_by db) shares))))))"

section \<open>Writing\<close>

text \<open>
  \<open>INSERT \<dots> ON CONFLICT DO NOTHING\<close> of one share: whether it was inserted. The policy admits a share of the account's own object in
  its own name; the keys are the identifier, and the object with the member or with the team.
\<close>

definition share_conflict :: "share_row \<Rightarrow> share_row \<Rightarrow> bool" where
  "share_conflict s x \<longleftrightarrow>
     sh_id x = sh_id s \<or>
     sh_object_id x = sh_object_id s \<and>
       (sh_target_account_id s \<noteq> None \<and> sh_target_account_id x = sh_target_account_id s \<or>
        sh_target_team_id s \<noteq> None \<and> sh_target_team_id x = sh_target_team_id s)"

definition share_references :: "library \<Rightarrow> share_row \<Rightarrow> bool" where
  "share_references db s \<longleftrightarrow>
     (case sh_target_account_id s of None \<Rightarrow> True | Some a \<Rightarrow> is_member_of db (sh_workspace_id s) a) \<and>
     (case sh_target_team_id s of None \<Rightarrow> True | Some t \<Rightarrow> is_team_of db (sh_workspace_id s) t)"

definition insert_share :: "share_table \<Rightarrow> tenant_tx \<Rightarrow> share_row \<Rightarrow> (library, bool) tx" where
  "insert_share table tx s db =
     (let account = uuid_cast (tx_accountId tx)
      in if sh_granted_by s \<noteq> Some account \<or> \<not> tb_owns table db account (sh_workspace_id s) (sh_object_id s) then Inl (postgres_error ''42501'')
         else if list_ex (share_conflict s) (tb_rows table db) then Inr (False, db)
         else if \<not> share_references db s then Inl (postgres_error ''23503'')
         else Inr (True, tb_put table (tb_rows table db @ [s]) db))"

definition share_row_of :: "string \<Rightarrow> nat \<Rightarrow> string \<Rightarrow> string \<Rightarrow> share_target \<Rightarrow> string \<Rightarrow> share_row" where
  "share_row_of w now i objectId target grantedBy =
     \<lparr>sh_id = uuid_cast i, sh_workspace_id = w, sh_object_id = uuid_cast objectId, sh_target_account_id = target_account target,
      sh_target_team_id = target_team target, sh_granted_by = Some (uuid_cast grantedBy), sh_created_at = now\<rparr>"

record new_share =
  ns_id :: string
  ns_objectId :: string
  ns_grantedBy :: string
  ns_target :: share_target

datatype share_grant = ShareGranted share_record | ShareExisting share_record | GrantUnknownTarget

definition GRANT_ATTEMPTS :: nat where
  "GRANT_ATTEMPTS = 3"

text \<open>The loop of \<open>grant\<close>, with the attempts that are left.\<close>

fun grant_attempts :: "(library \<Rightarrow> library) \<Rightarrow> share_table \<Rightarrow> tenant_tx \<Rightarrow> new_share \<Rightarrow> string \<Rightarrow> nat \<Rightarrow> (library, share_grant) tx" where
  "grant_attempts between table tx request w 0 = tx_throw (JsError ''a share could neither be written nor found'')"
| "grant_attempts between table tx request w (Suc left) =
     tx_bind (\<lambda>db. insert_share table tx (share_row_of w (lb_now db) (ns_id request) (ns_objectId request) (ns_target request) (ns_grantedBy request)) db) (\<lambda>inserted.
     tx_bind (\<lambda>db. Inr ((), between db)) (\<lambda>_.
     tx_bind (sharesOf table tx (ns_objectId request) (if inserted then (\<lambda>s. sh_id s = uuid_cast (ns_id request)) else names_target (ns_target request))) (\<lambda>found.
       case found of
         share # _ \<Rightarrow> tx_return (if inserted then ShareGranted share else ShareExisting share)
       | [] \<Rightarrow> grant_attempts between table tx request w left)))"

definition db_grant :: "(library \<Rightarrow> library) \<Rightarrow> share_table \<Rightarrow> tenant_tx \<Rightarrow> new_share \<Rightarrow> (library, share_grant) tx" where
  "db_grant between table tx request =
     with_workspace tx ''the shares of a workspace'' (\<lambda>w.
       tx_bind (read_db (\<lambda>db. target_held db w (ns_target request))) (\<lambda>held.
         if \<not> held then tx_return GrantUnknownTarget else grant_attempts between table tx request w GRANT_ATTEMPTS))"

text \<open>The delete policy shows the shares of the account's own objects.\<close>

definition delete_share :: "share_table \<Rightarrow> tenant_tx \<Rightarrow> string \<Rightarrow> string \<Rightarrow> string \<Rightarrow> (library, nat) tx" where
  "delete_share table tx w objectId shareId db =
     (let hit = (\<lambda>s. sh_workspace_id s = w \<and> sh_id s = uuid_cast shareId \<and> sh_object_id s = uuid_cast objectId \<and>
            tb_owns table db (uuid_cast (tx_accountId tx)) w (sh_object_id s))
      in Inr (length (filter hit (tb_rows table db)), tb_put table (filter (\<lambda>s. \<not> hit s) (tb_rows table db)) db))"

definition db_revoke :: "share_table \<Rightarrow> tenant_tx \<Rightarrow> string \<Rightarrow> string \<Rightarrow> (library, share_record option) tx" where
  "db_revoke table tx objectId shareId =
     tx_bind (sharesOf table tx objectId (\<lambda>s. sh_id s = uuid_cast shareId)) (\<lambda>found.
       case found of
         [] \<Rightarrow> tx_return None
       | share # _ \<Rightarrow>
           with_workspace tx ''the shares of a workspace'' (\<lambda>w.
             tx_bind (delete_share table tx w objectId shareId) (\<lambda>deleted.
             tx_return (if deleted = 1 then Some share else None))))"

datatype share_use = UseRead | UseGrant | UseRevoke

definition ownedBookmark :: "tenant_tx \<Rightarrow> string \<Rightarrow> string \<Rightarrow> share_use \<Rightarrow> (library, bool) tx" where
  "ownedBookmark tx bookmarkId ownerId use =
     with_workspace tx ''the shares of a workspace'' (\<lambda>w. read_db (\<lambda>db.
       length (filter (\<lambda>b. owned_here (uuid_cast ownerId) w b \<and> bm_id b = uuid_cast bookmarkId \<and> (use = UseGrant \<longrightarrow> bm_plan_archived_at b = None))
         (bookmarks db)) = 1))"

definition ownedFolder :: "tenant_tx \<Rightarrow> string \<Rightarrow> string \<Rightarrow> share_use \<Rightarrow> (library, bool) tx" where
  "ownedFolder tx folderId ownerId use =
     with_workspace tx ''the shares of a workspace'' (\<lambda>w. read_db (\<lambda>db.
       length (filter (\<lambda>f. owned_folder w (uuid_cast ownerId) f \<and> fo_id f = uuid_cast folderId) (lb_folders db)) = 1))"

definition share_sharedWith :: "tenant_tx \<Rightarrow> string \<Rightarrow> string \<Rightarrow> (library, bool) tx" where
  "share_sharedWith tx bookmarkId accountId =
     with_workspace tx ''the shares of a workspace'' (\<lambda>w.
       tx_bind (tx_require (js_lower accountId = js_lower (tx_accountId tx))
           (JsError ''only the account of the transaction asks whether a bookmark is shared with it'')) (\<lambda>_. read_db (\<lambda>db.
         length (filter (\<lambda>b. bm_id b = uuid_cast bookmarkId \<and> shared_row db w (uuid_cast accountId) b) (bookmarks db)) = 1)))"

section \<open>Sharing many\<close>

definition shareable :: "tenant_tx \<Rightarrow> string \<Rightarrow> string list \<Rightarrow> (library, string list) tx" where
  "shareable tx ownerId bookmarkIds =
     with_workspace tx ''the shares of a workspace'' (\<lambda>w.
       tx_bind (tx_require (js_lower ownerId = js_lower (tx_accountId tx)) (JsError ''only the account of the transaction shares its own bookmarks'')) (\<lambda>_.
       tx_bind (requireIdentifiers (distinctIdentifiers bookmarkIds) ''sharing bookmarks'') (\<lambda>_.
         ownedLiveBookmarks w ownerId bookmarkIds)))"

definition targetName :: "tenant_tx \<Rightarrow> share_target \<Rightarrow> (library, string option) tx" where
  "targetName tx target =
     with_workspace tx ''the shares of a workspace'' (\<lambda>w. read_db (\<lambda>db.
       case target of
         ShareMember a \<Rightarrow>
           if is_member_of db w (uuid_cast a) then
             map_option ac_display_name (find (\<lambda>acct. ac_id acct = uuid_cast a \<and> visible_account db (uuid_cast (tx_accountId tx)) w acct) (accounts db))
           else None
       | ShareTeam t \<Rightarrow> map_option te_name (find (\<lambda>x. te_workspace_id x = w \<and> te_id x = uuid_cast t) (lb_teams db))))"

definition unsharedWith :: "tenant_tx \<Rightarrow> string list \<Rightarrow> share_target \<Rightarrow> (library, string list) tx" where
  "unsharedWith tx bookmarkIds target =
     (if bookmarkIds = [] then tx_return []
      else with_workspace tx ''the shares of a workspace'' (\<lambda>w. read_db (\<lambda>db.
        sort (filter (\<lambda>i. \<not> list_ex (\<lambda>s. sh_workspace_id s = w \<and> sh_object_id s = i \<and> names_target target s) (tb_rows bookmark_share_table db)) bookmarkIds))))"

datatype share_many_result = SharedMany nat nat string | ManyUnknownTarget

text \<open>The shares of one statement, row after row: how many were inserted.\<close>

fun insert_shares :: "tenant_tx \<Rightarrow> share_row list \<Rightarrow> (library, nat) tx" where
  "insert_shares tx [] = tx_return 0"
| "insert_shares tx (s # rest) =
     tx_bind (insert_share bookmark_share_table tx s) (\<lambda>inserted.
     tx_bind (insert_shares tx rest) (\<lambda>n. tx_return (if inserted then Suc n else n)))"

text \<open>The passes of \<open>share\<close>: \<open>used\<close> is the number of identifiers drawn so far, \<open>left\<close> the inserts that are left.\<close>

fun share_passes ::
    "(library \<Rightarrow> library) \<Rightarrow> tenant_tx \<Rightarrow> (nat \<Rightarrow> string) \<Rightarrow> string \<Rightarrow> share_target \<Rightarrow> string list \<Rightarrow> string \<Rightarrow> nat \<Rightarrow> nat \<Rightarrow> nat \<Rightarrow>
     (library, share_many_result) tx" where
  "share_passes between tx newId ownerId target owned name 0 used granted =
     tx_bind (unsharedWith tx owned target) (\<lambda>missing.
       if missing = [] then tx_return (SharedMany (length owned) granted name)
       else tx_throw (JsError ''shares could neither be written nor found''))"
| "share_passes between tx newId ownerId target owned name (Suc n) used granted =
     tx_bind (unsharedWith tx owned target) (\<lambda>missing.
       if missing = [] then tx_return (SharedMany (length owned) granted name)
       else (let ids = map (\<lambda>k. js_lower (newId k)) [used..<used + length missing]
             in tx_bind (requireIdentifiers ids ''sharing bookmarks'') (\<lambda>_.
                tx_bind (with_workspace tx ''the shares of a workspace'' (\<lambda>w db.
                  insert_shares tx (map (\<lambda>(i, b). share_row_of w (lb_now db) i b target ownerId) (zip ids missing)) db)) (\<lambda>inserted.
                tx_bind (\<lambda>db. Inr ((), between db)) (\<lambda>_.
                  share_passes between tx newId ownerId target owned name n (used + length missing) (granted + inserted))))))"

definition db_share :: "(library \<Rightarrow> library) \<Rightarrow> tenant_tx \<Rightarrow> string list \<Rightarrow> string \<Rightarrow> share_target \<Rightarrow> (nat \<Rightarrow> string) \<Rightarrow> (library, share_many_result) tx" where
  "db_share between tx bookmarkIds ownerId target newId =
     tx_bind (shareable tx ownerId bookmarkIds) (\<lambda>owned.
     tx_bind (targetName tx target) (\<lambda>name.
       case name of
         None \<Rightarrow> tx_return ManyUnknownTarget
       | Some n \<Rightarrow> share_passes between tx newId ownerId target owned n GRANT_ATTEMPTS 0 0))"

definition memberCountOf :: "tenant_tx \<Rightarrow> share_target \<Rightarrow> string \<Rightarrow> (library, nat) tx" where
  "memberCountOf tx target ownerId =
     (case target of
        ShareMember a \<Rightarrow> tx_return 1
      | ShareTeam t \<Rightarrow> with_workspace tx ''the shares of a workspace'' (\<lambda>w. read_db (\<lambda>db.
          length (filter (\<lambda>m. tm_workspace_id m = w \<and> tm_team_id m = uuid_cast t \<and> tm_account_id m \<noteq> uuid_cast ownerId) (team_members db)))))"

record share_preview =
  sv_affected :: nat
  sv_kind :: string
  sv_id :: string
  sv_name :: string
  sv_memberCount :: nat
  sv_added :: nat

definition db_previewShare :: "tenant_tx \<Rightarrow> string list \<Rightarrow> string \<Rightarrow> share_target \<Rightarrow> (library, share_preview option) tx" where
  "db_previewShare tx bookmarkIds ownerId target =
     tx_bind (shareable tx ownerId bookmarkIds) (\<lambda>owned.
     tx_bind (targetName tx target) (\<lambda>name.
       case name of
         None \<Rightarrow> tx_return None
       | Some n \<Rightarrow>
           tx_bind (unsharedWith tx owned target) (\<lambda>missing.
           tx_bind (memberCountOf tx target ownerId) (\<lambda>members. tx_return (Some
             \<lparr>sv_affected = length owned, sv_kind = target_kind target, sv_id = targetIdOf target, sv_name = n,
              sv_memberCount = members, sv_added = length missing\<rparr>)))))"

section \<open>Shared folders\<close>

text \<open>The condition that a folder is shared with an account (\<open>packages/db/src/repositories/bookmark-access.ts\<close>).\<close>

definition folderSharedWith :: "library \<Rightarrow> string \<Rightarrow> string \<Rightarrow> string \<Rightarrow> bool" where
  "folderSharedWith db accountId w folderId \<longleftrightarrow>
     list_ex (\<lambda>fs. fs_workspace_id fs = w \<and> fs_folder_id fs = folderId \<and>
        (fs_target_account_id fs = Some accountId \<or> sql_in (fs_target_team_id fs) (teamsOfAccount (library_tables db) w accountId))) (folder_shares db)"

end
