(* ===== verification/LibraryLists.thy ===== *)
theory LibraryLists
  imports LibraryShares
begin

text \<open>
  The lists of bookmarks (\<open>packages/core/src/bookmarks/list.ts\<close> and the lists of \<open>packages/db/src/repositories/bookmarks.ts\<close>), with
  the text query (\<open>normalizeSearchQuery\<close> of \<open>packages/core/src/search/search.ts\<close>, \<open>sys_bookmark_match\<close> of
  \<open>packages/db/src/sql/610-bookmark-match.sql\<close>). A sort key is the value of its column, which the code prints as text and casts back.
  What the lists ask of the database beside its tables is a parameter (\<open>list_tools\<close>).
\<close>

section \<open>Filters\<close>

datatype list_scope = ScopeAll | ScopeMine | ScopeSharedWithMe | ScopeSharedByMe

record list_filter =
  lf_ownerId :: string
  lf_scope :: "list_scope option"
  lf_pinned :: "bool option"
  lf_hasSlug :: "bool option"
  lf_forwarding :: "bool option"
  lf_urlCanonical :: "string option"
  lf_folderId :: "string option"
  lf_tagIds :: "string list option"
  lf_q :: "string option"

record filter_ask =
  fa_accountId :: string
  fa_scope :: "list_scope option"
  fa_pinned :: "bool option"
  fa_hasSlug :: "bool option"
  fa_forwarding :: "bool option"
  fa_url :: "string option"
  fa_folderId :: "string option"
  fa_tagIds :: "string list option"
  fa_q :: "string option"

text \<open>
  \<open>lt_nfkc\<close> is the normalisation of Unicode, \<open>lt_collation\<close> the sort key of a text under the collation of the database,
  \<open>lt_words\<close> the full-text match of up to eight words and \<open>lt_similar\<close> the word similarity of \<open>pg_trgm\<close>.
\<close>

record list_tools =
  lt_nfkc :: "string \<Rightarrow> string"
  lt_collation :: "string \<Rightarrow> string"
  lt_words :: "string list \<Rightarrow> bookmark_row \<Rightarrow> bool"
  lt_similar :: "string \<Rightarrow> string \<Rightarrow> bool"

definition SEARCH_QUERY_MAX_LENGTH :: nat where
  "SEARCH_QUERY_MAX_LENGTH = 100"

text \<open>\<open>[\p{Cc}\p{Cf}\p{Zl}\p{Zp}]\<close> and \<open>\s\<close> on the characters of the range; the soft hyphen is a format character.\<close>

definition unsearchable :: "char \<Rightarrow> bool" where
  "unsearchable c \<longleftrightarrow> js_control c \<or> code_unit c = 173"

fun squeeze_spaces :: "string \<Rightarrow> string" where
  "squeeze_spaces [] = []"
| "squeeze_spaces [c] = (if js_space c then '' '' else [c])"
| "squeeze_spaces (c # d # rest) =
     (if js_space c then if js_space d then squeeze_spaces (d # rest) else CHR '' '' # squeeze_spaces (d # rest)
      else c # squeeze_spaces (d # rest))"

definition normalizeSearchQuery :: "(string \<Rightarrow> string) \<Rightarrow> string \<Rightarrow> string" where
  "normalizeSearchQuery nfkc query =
     (let cleaned = js_trim (squeeze_spaces (map (\<lambda>c. if unsearchable c then CHR '' '' else c) (nfkc query)))
      in js_trim (take SEARCH_QUERY_MAX_LENGTH cleaned))"

definition bookmarkListFilter :: "url_parser \<Rightarrow> list_tools \<Rightarrow> filter_ask \<Rightarrow> url_refusal + list_filter" where
  "bookmarkListFilter parse tools ask =
     (case (case fa_url ask of None \<Rightarrow> Inr None | Some u \<Rightarrow> map_sum id (\<lambda>v. Some (bu_canonical v)) (normalizeBookmarkUrl parse u)) of
        Inl reason \<Rightarrow> Inl reason
      | Inr canonical \<Rightarrow> Inr
          \<lparr>lf_ownerId = fa_accountId ask, lf_scope = fa_scope ask, lf_pinned = fa_pinned ask, lf_hasSlug = fa_hasSlug ask,
           lf_forwarding = fa_forwarding ask, lf_urlCanonical = canonical, lf_folderId = map_option js_lower (fa_folderId ask),
           lf_tagIds = map_option distinctIdentifiers (fa_tagIds ask),
           lf_q = map_option (normalizeSearchQuery (lt_nfkc tools)) (fa_q ask)\<rparr>)"

section \<open>The parts of a scope\<close>

datatype list_branch = BranchOwn | BranchShared | BranchSharedByMe

definition filter_tags :: "list_filter \<Rightarrow> string list" where
  "filter_tags filt = (case lf_tagIds filt of None \<Rightarrow> [] | Some ts \<Rightarrow> ts)"

definition filter_scope :: "list_filter \<Rightarrow> list_scope" where
  "filter_scope filt = (case lf_scope filt of None \<Rightarrow> ScopeMine | Some s \<Rightarrow> s)"

definition branchesOf :: "list_filter \<Rightarrow> list_branch list" where
  "branchesOf filt =
     (let own = filter_tags filt \<noteq> [] \<or> lf_urlCanonical filt \<noteq> None
      in case filter_scope filt of
           ScopeMine \<Rightarrow> [BranchOwn]
         | ScopeAll \<Rightarrow> if own then [BranchOwn] else [BranchOwn, BranchShared]
         | ScopeSharedWithMe \<Rightarrow> if own then [] else [BranchShared]
         | ScopeSharedByMe \<Rightarrow> [BranchSharedByMe])"

definition isOwnScope :: "list_filter \<Rightarrow> bool" where
  "isOwnScope filt \<longleftrightarrow> filter_scope filt = ScopeMine"

definition filed_in :: "library \<Rightarrow> string \<Rightarrow> bookmark_row \<Rightarrow> bool" where
  "filed_in db folderId b \<longleftrightarrow>
     list_ex (\<lambda>l. fb_workspace_id l = bm_workspace_id b \<and> fb_bookmark_id l = bm_id b \<and> fb_folder_id l = folderId \<and>
       list_ex (\<lambda>f. fo_workspace_id f = fb_workspace_id l \<and> fo_id f = fb_folder_id l \<and> fo_owner_id f = bm_owner_id b) (lb_folders db))
       (folder_bookmarks db)"

text \<open>The policies show the tags of the account \<open>viewer\<close> and the links that name one.\<close>

definition tagged_with :: "library \<Rightarrow> string \<Rightarrow> string \<Rightarrow> bookmark_row \<Rightarrow> bool" where
  "tagged_with db viewer tagId b \<longleftrightarrow>
     list_ex (\<lambda>l. bt_workspace_id l = bm_workspace_id b \<and> bt_bookmark_id l = bm_id b \<and> bt_tag_id l = tagId \<and>
       list_ex (\<lambda>t. tg_workspace_id t = bt_workspace_id l \<and> tg_id t = bt_tag_id l \<and> tg_owner_id t = viewer \<and> bm_owner_id b = Some (tg_owner_id t)) (lb_tags db))
       (lb_bookmark_tags db)"

definition bookmarkSharedByOwner :: "library \<Rightarrow> bookmark_row \<Rightarrow> bool" where
  "bookmarkSharedByOwner db b \<longleftrightarrow>
     list_ex (\<lambda>s. bs_workspace_id s = bm_workspace_id b \<and> bs_bookmark_id s = bm_id b) (bookmark_shares db) \<or>
     list_ex (\<lambda>l. fb_workspace_id l = bm_workspace_id b \<and> fb_bookmark_id l = bm_id b \<and>
       list_ex (\<lambda>fs. fs_workspace_id fs = fb_workspace_id l \<and> fs_folder_id fs = fb_folder_id l) (folder_shares db)) (folder_bookmarks db)"

definition holds_when :: "'v option \<Rightarrow> ('v \<Rightarrow> bool) \<Rightarrow> bool" where
  "holds_when wanted P = (case wanted of None \<Rightarrow> True | Some v \<Rightarrow> P v)"

definition pinned_condition :: "bool option \<Rightarrow> bool \<Rightarrow> bookmark_row \<Rightarrow> bool" where
  "pinned_condition pinned shared b \<longleftrightarrow> holds_when pinned (\<lambda>p. if shared then \<not> p else (bm_pinned_at b \<noteq> None) = p)"

text \<open>\<open>driven\<close>: the statement reads the bookmarks of the grants only, so the access rule is left out.\<close>

definition branchPredicate :: "library \<Rightarrow> string \<Rightarrow> string \<Rightarrow> list_filter \<Rightarrow> list_branch \<Rightarrow> bool \<Rightarrow> bookmark_row \<Rightarrow> bool" where
  "branchPredicate db viewer w filt branch driven b \<longleftrightarrow>
     (let shared = (branch = BranchShared); owner = uuid_cast (lf_ownerId filt)
      in bm_workspace_id b = w \<and>
         (if shared then bm_owner_id b \<noteq> Some owner else bm_owner_id b = Some owner) \<and>
         (shared \<and> \<not> driven \<longrightarrow> bookmarkReadableBy (library_tables db) owner b) \<and>
         (branch = BranchSharedByMe \<longrightarrow> bookmarkSharedByOwner db b) \<and>
         bm_plan_archived_at b = None \<and>
         pinned_condition (lf_pinned filt) shared b \<and>
         holds_when (lf_hasSlug filt) (\<lambda>h. (bm_slug b \<noteq> None) = h) \<and>
         holds_when (lf_forwarding filt) (\<lambda>f. bm_forwarding b = f) \<and>
         holds_when (lf_urlCanonical filt) (\<lambda>u. bm_url_canonical b = u) \<and>
         holds_when (lf_folderId filt) (\<lambda>i. filed_in db (uuid_cast i) b) \<and>
         (shared \<longrightarrow> holds_when (lf_folderId filt) (\<lambda>i. folderSharedWith db owner (bm_workspace_id b) (uuid_cast i))) \<and>
         list_all (\<lambda>t. tagged_with db viewer (uuid_cast t) b) (filter_tags filt))"

definition filterPredicate :: "library \<Rightarrow> string \<Rightarrow> string \<Rightarrow> list_filter \<Rightarrow> bookmark_row \<Rightarrow> bool" where
  "filterPredicate db viewer w filt b \<longleftrightarrow> list_ex (\<lambda>branch. branchPredicate db viewer w filt branch False b) (branchesOf filt)"

text \<open>The identifiers the predicates are built from are checked when a part of the scope is read.\<close>

definition check_filter :: "list_filter \<Rightarrow> ('s, unit) tx" where
  "check_filter filt =
     (if branchesOf filt = [] then tx_return ()
      else tx_bind (case lf_folderId filt of None \<Rightarrow> tx_return () | Some i \<Rightarrow> requireIdentifiers [i] ''listing the bookmarks of a folder'')
        (\<lambda>_. requireIdentifiers (filter_tags filt) ''listing the bookmarks of a tag''))"

section \<open>Orders and positions\<close>

datatype bookmark_sort = SortRecent | SortOldest | SortTitleAsc | SortTitleDesc | SortMostUsed | SortRecentlyOpened

datatype sort_value = NoValue | NumValue nat | TextValue string

fun sort_column :: "bookmark_sort \<Rightarrow> bookmark_row \<Rightarrow> sort_value" where
  "sort_column SortRecent b = NumValue (bm_created_at b)"
| "sort_column SortOldest b = NumValue (bm_created_at b)"
| "sort_column SortTitleAsc b = TextValue (js_lower (bm_title b))"
| "sort_column SortTitleDesc b = TextValue (js_lower (bm_title b))"
| "sort_column SortMostUsed b = NumValue (bm_open_count b)"
| "sort_column SortRecentlyOpened b = (case bm_last_opened_at b of None \<Rightarrow> NoValue | Some t \<Rightarrow> NumValue t)"

definition descending :: "bookmark_sort \<Rightarrow> bool" where
  "descending ord \<longleftrightarrow> ord \<noteq> SortOldest \<and> ord \<noteq> SortTitleAsc"

text \<open>A value as the database compares it; none is placed last by a descending order.\<close>

fun sort_rank :: "(string \<Rightarrow> string) \<Rightarrow> sort_value \<Rightarrow> nat \<times> string" where
  "sort_rank collation NoValue = (0, [])"
| "sort_rank collation (NumValue n) = (Suc n, [])"
| "sort_rank collation (TextValue s) = (1, collation s)"

type_synonym position = "sort_value \<times> string"

definition bookmark_position :: "bookmark_sort \<Rightarrow> bookmark_row \<Rightarrow> position" where
  "bookmark_position ord b = (sort_column ord b, bm_id b)"

definition position_rank :: "(string \<Rightarrow> string) \<Rightarrow> position \<Rightarrow> (nat \<times> string) \<times> string" where
  "position_rank collation p = (sort_rank collation (fst p), snd p)"

definition order_rows :: "list_tools \<Rightarrow> bookmark_sort \<Rightarrow> bookmark_row list \<Rightarrow> bookmark_row list" where
  "order_rows tools ord rows =
     (let sorted = sort_key (\<lambda>b. position_rank (lt_collation tools) (bookmark_position ord b)) rows
      in if descending ord then rev sorted else sorted)"

text \<open>The condition of \<open>afterPosition\<close> on a row; a comparison with a missing value is not true.\<close>

definition afterPosition :: "list_tools \<Rightarrow> bookmark_sort \<Rightarrow> position \<Rightarrow> bookmark_row \<Rightarrow> bool" where
  "afterPosition tools ord after b \<longleftrightarrow>
     (let rank = (\<lambda>x. position_rank (lt_collation tools) x); here = bookmark_position ord b; at = (fst after, uuid_cast (snd after))
      in if ord = SortRecentlyOpened then
           (if fst after = NoValue then fst here = NoValue \<and> snd here < snd at
            else fst here \<noteq> NoValue \<and> rank here < rank at \<or> fst here = NoValue)
         else if descending ord then rank here < rank at else rank at < rank here)"

definition check_position :: "bookmark_sort \<Rightarrow> position option \<Rightarrow> ('s, unit) tx" where
  "check_position ord after =
     tx_require (case after of None \<Rightarrow> True | Some p \<Rightarrow> ord = SortRecentlyOpened \<or> fst p \<noteq> NoValue)
       (JsError ''a cursor of this sort carries a sort key'')"

definition after_rows :: "list_tools \<Rightarrow> bookmark_sort \<Rightarrow> position option \<Rightarrow> bookmark_row \<Rightarrow> bool" where
  "after_rows tools ord after b = (case after of None \<Rightarrow> True | Some p \<Rightarrow> afterPosition tools ord p b)"

record list_request =
  lr_filter :: list_filter
  lr_sort :: bookmark_sort
  lr_after :: "position option"
  lr_limit :: nat

section \<open>The statements\<close>

text \<open>\<open>listQuery\<close> and \<open>countQuery\<close>: the account's own bookmarks.\<close>

definition own_page :: "list_tools \<Rightarrow> library \<Rightarrow> string \<Rightarrow> string \<Rightarrow> list_request \<Rightarrow> bookmark_row list" where
  "own_page tools db viewer w request =
     take (lr_limit request) (order_rows tools (lr_sort request)
       (filter (\<lambda>b. filterPredicate db viewer w (lr_filter request) b \<and> after_rows tools (lr_sort request) (lr_after request) b) (bookmarks db)))"

text \<open>A leg of \<open>pageStatement\<close>; the shared one reads the bookmarks of the set of grants.\<close>

definition in_grants :: "library \<Rightarrow> string \<Rightarrow> string \<Rightarrow> bookmark_row \<Rightarrow> bool" where
  "in_grants db viewer w b \<longleftrightarrow> bm_id b \<in> set (remdups (map fst (grantsTo (library_tables db) viewer w)))"

definition leg_rows :: "library \<Rightarrow> string \<Rightarrow> string \<Rightarrow> list_filter \<Rightarrow> list_branch \<Rightarrow> bookmark_row list" where
  "leg_rows db viewer w filt branch =
     (if branch = BranchShared then filter (\<lambda>b. in_grants db viewer w b \<and> branchPredicate db viewer w filt branch True b) (bookmarks db)
      else filter (branchPredicate db viewer w filt branch False) (bookmarks db))"

definition leg_page :: "list_tools \<Rightarrow> library \<Rightarrow> string \<Rightarrow> string \<Rightarrow> list_request \<Rightarrow> (bookmark_row \<Rightarrow> bool) \<Rightarrow> list_branch \<Rightarrow> bookmark_row list" where
  "leg_page tools db viewer w request picked branch =
     take (lr_limit request) (order_rows tools (lr_sort request)
       (filter (\<lambda>b. after_rows tools (lr_sort request) (lr_after request) b \<and> picked b) (leg_rows db viewer w (lr_filter request) branch)))"

definition pageStatement :: "list_tools \<Rightarrow> library \<Rightarrow> string \<Rightarrow> string \<Rightarrow> list_request \<Rightarrow> bookmark_row list" where
  "pageStatement tools db viewer w request =
     take (lr_limit request) (order_rows tools (lr_sort request)
       (concat (map (leg_page tools db viewer w request (\<lambda>_. True)) (branchesOf (lr_filter request)))))"

definition countStatement :: "library \<Rightarrow> string \<Rightarrow> string \<Rightarrow> list_filter \<Rightarrow> nat \<Rightarrow> nat" where
  "countStatement db viewer w filt limit =
     min (length (concat (map (\<lambda>branch. take limit (leg_rows db viewer w filt branch)) (branchesOf filt)))) limit"

text \<open>\<open>sys_bookmark_match\<close>: the readable bookmarks the text matches, in no order; the similar ones where nothing else matches.\<close>

definition match_text :: "string \<Rightarrow> string" where
  "match_text q = js_lower (rev (dropWhile (\<lambda>c. c = CHR '' '') (rev (dropWhile (\<lambda>c. c = CHR '' '') (squeeze_spaces (take 100 q))))))"

definition slug_starts :: "string \<Rightarrow> bookmark_row \<Rightarrow> bool" where
  "slug_starts text b = (case bm_slug b of None \<Rightarrow> False | Some slug \<Rightarrow> prefix text slug)"

definition sys_bookmark_match :: "list_tools \<Rightarrow> library \<Rightarrow> string \<Rightarrow> string \<Rightarrow> string \<Rightarrow> string list" where
  "sys_bookmark_match tools db a w q =
     (let text = match_text q;
          readable = filter (\<lambda>b. bm_workspace_id b = w \<and> (bm_owner_id b = Some a \<or> in_grants db a w b) \<and> bm_plan_archived_at b = None) (bookmarks db);
          strong = filter (\<lambda>b. slug_starts text b \<or> lt_words tools (take 8 (js_split '' '' text)) b) readable
      in if text = [] then []
         else if length text < 3 then map bm_id (filter (\<lambda>b. slug_starts text b \<or> prefix text (js_lower (bm_title b))) readable)
         else if strong \<noteq> [] then map bm_id strong
         else map bm_id (filter (\<lambda>b. lt_similar tools text (bm_title b) \<or> lt_similar tools text (bm_host b)) readable))"

definition FEW_MATCHES :: nat where
  "FEW_MATCHES = 10000"

text \<open>
  \<open>matchedPageStatement\<close>: the matches are probed when they are few, and else the parts of the scope are walked; with how many
  matches there are.
\<close>

definition matchedPageStatement :: "list_tools \<Rightarrow> library \<Rightarrow> string \<Rightarrow> string \<Rightarrow> list_request \<Rightarrow> string \<Rightarrow> bookmark_row list \<times> nat" where
  "matchedPageStatement tools db viewer w request q =
     (let m = sys_bookmark_match tools db viewer w q; n = length m; ord = lr_sort request;
          matches = (\<lambda>b. bm_id b \<in> set m);
          probed = take (lr_limit request) (order_rows tools ord (filter (\<lambda>b. matches b \<and>
            filterPredicate db viewer w (lr_filter request) b \<and> after_rows tools ord (lr_after request) b) (bookmarks db)));
          walked = concat (map (leg_page tools db viewer w request matches) (branchesOf (lr_filter request)))
      in (take (lr_limit request) (order_rows tools ord ((if n \<le> FEW_MATCHES then probed else []) @ (if n > FEW_MATCHES then walked else []))), n))"

definition matchesAreTheAnswer :: "tenant_tx \<Rightarrow> list_filter \<Rightarrow> bool" where
  "matchesAreTheAnswer tx filt \<longleftrightarrow>
     lf_q filt \<noteq> None \<and> js_lower (lf_ownerId filt) = js_lower (tx_accountId tx) \<and> lf_scope filt = Some ScopeAll \<and> lf_pinned filt = None \<and>
     lf_hasSlug filt = None \<and> lf_forwarding filt = None \<and> lf_urlCanonical filt = None \<and> lf_folderId filt = None \<and> filter_tags filt = []"

definition matchedCountStatement :: "list_tools \<Rightarrow> tenant_tx \<Rightarrow> library \<Rightarrow> string \<Rightarrow> list_filter \<Rightarrow> string \<Rightarrow> nat \<Rightarrow> nat" where
  "matchedCountStatement tools tx db w filt q limit =
     (let viewer = uuid_cast (tx_accountId tx); m = sys_bookmark_match tools db viewer w q
      in if matchesAreTheAnswer tx filt then min (length m) limit
         else length (take limit (filter (\<lambda>b. bm_id b \<in> set m \<and> filterPredicate db viewer w filt b) (bookmarks db))))"

section \<open>The repository\<close>

definition requireViewer :: "tenant_tx \<Rightarrow> list_filter \<Rightarrow> ('s, unit) tx" where
  "requireViewer tx filt =
     tx_require (js_lower (lf_ownerId filt) = js_lower (tx_accountId tx))
       (JsError ''only the account of the transaction lists the bookmarks that are shared with it or that it shares'')"

definition require_viewer_of :: "tenant_tx \<Rightarrow> list_filter \<Rightarrow> ('s, unit) tx" where
  "require_viewer_of tx filt = (if isOwnScope filt then tx_return () else requireViewer tx filt)"

text \<open>The rows of a page read again by identifier, in its order; a row whose route has ended since is left out.\<close>

definition rowsOfPage ::
    "(string \<Rightarrow> string) \<Rightarrow> tenant_tx \<Rightarrow> library \<Rightarrow> string \<Rightarrow> list_filter \<Rightarrow> (string \<times> sort_value) list \<Rightarrow> (bookmark_record \<times> sort_value) list" where
  "rowsOfPage name_key tx db w filt page =
     (let owner = uuid_cast (lf_ownerId filt);
          found = filter (\<lambda>b. bm_workspace_id b = w \<and>
            (if isOwnScope filt then bm_owner_id b = Some owner else bookmarkReadableBy (library_tables db) owner b) \<and>
            bm_plan_archived_at b = None \<and> bm_id b \<in> set (map fst page)) (bookmarks db);
          ordered = concat (map (\<lambda>(i, _). case find (\<lambda>b. bm_id b = i) found of None \<Rightarrow> [] | Some b \<Rightarrow> [b]) page);
          records = recordsOf name_key owner w ordered db
      in concat (map (\<lambda>(i, key). case find (\<lambda>r. bk_id r = i) records of None \<Rightarrow> [] | Some r \<Rightarrow> [(r, key)]) page))"

definition page_keys :: "bookmark_sort \<Rightarrow> bookmark_row list \<Rightarrow> (string \<times> sort_value) list" where
  "page_keys ord rows = map (\<lambda>b. (bm_id b, sort_column ord b)) rows"

definition matchedList ::
    "(string \<Rightarrow> string) \<Rightarrow> list_tools \<Rightarrow> tenant_tx \<Rightarrow> string \<Rightarrow> list_request \<Rightarrow> string \<Rightarrow> (library, (bookmark_record \<times> sort_value) list \<times> nat) tx" where
  "matchedList name_key tools tx w request q =
     tx_bind (require_viewer_of tx (lr_filter request)) (\<lambda>_.
     tx_bind (check_filter (lr_filter request)) (\<lambda>_.
     tx_bind (check_position (lr_sort request) (lr_after request)) (\<lambda>_.
       read_db (\<lambda>db.
         let (page, n) = matchedPageStatement tools db (uuid_cast (tx_accountId tx)) w request q
         in (rowsOfPage name_key tx db w (lr_filter request) (page_keys (lr_sort request) page), n)))))"

definition scopedList ::
    "(string \<Rightarrow> string) \<Rightarrow> list_tools \<Rightarrow> tenant_tx \<Rightarrow> string \<Rightarrow> list_request \<Rightarrow> (library, (bookmark_record \<times> sort_value) list) tx" where
  "scopedList name_key tools tx w request =
     tx_bind (requireViewer tx (lr_filter request)) (\<lambda>_.
       if branchesOf (lr_filter request) = [] then tx_return []
       else tx_bind (check_filter (lr_filter request)) (\<lambda>_.
            tx_bind (check_position (lr_sort request) (lr_after request)) (\<lambda>_. read_db (\<lambda>db.
              rowsOfPage name_key tx db w (lr_filter request)
                (page_keys (lr_sort request) (pageStatement tools db (uuid_cast (tx_accountId tx)) w request))))))"

definition ownList ::
    "(string \<Rightarrow> string) \<Rightarrow> list_tools \<Rightarrow> tenant_tx \<Rightarrow> string \<Rightarrow> list_request \<Rightarrow> (library, (bookmark_record \<times> sort_value) list) tx" where
  "ownList name_key tools tx w request =
     tx_bind (check_filter (lr_filter request)) (\<lambda>_.
     tx_bind (check_position (lr_sort request) (lr_after request)) (\<lambda>_. read_db (\<lambda>db.
       let owner = uuid_cast (lf_ownerId (lr_filter request))
       in map (\<lambda>b. (recordOf b (foldersOfBookmark name_key w owner (bm_id b) db) (tagsOfBookmark name_key w owner (bm_id b) db) None, sort_column (lr_sort request) b))
            (own_page tools db (uuid_cast (tx_accountId tx)) w request))))"

definition listOf ::
    "(string \<Rightarrow> string) \<Rightarrow> list_tools \<Rightarrow> tenant_tx \<Rightarrow> list_request \<Rightarrow> (library, (bookmark_record \<times> sort_value) list) tx" where
  "listOf name_key tools tx request =
     with_workspace tx ''listing bookmarks'' (\<lambda>w.
       case lf_q (lr_filter request) of
         Some q \<Rightarrow> tx_bind (matchedList name_key tools tx w request q) (\<lambda>r. tx_return (fst r))
       | None \<Rightarrow> if isOwnScope (lr_filter request) then ownList name_key tools tx w request else scopedList name_key tools tx w request)"

definition countOf :: "list_tools \<Rightarrow> tenant_tx \<Rightarrow> list_filter \<Rightarrow> nat \<Rightarrow> (library, nat) tx" where
  "countOf tools tx filt limit =
     with_workspace tx ''counting bookmarks'' (\<lambda>w.
       tx_bind (require_viewer_of tx filt) (\<lambda>_.
       case lf_q filt of
         Some q \<Rightarrow>
           tx_bind (if matchesAreTheAnswer tx filt then tx_return () else check_filter filt) (\<lambda>_.
             read_db (\<lambda>db. matchedCountStatement tools tx db w filt q limit))
       | None \<Rightarrow>
           tx_bind (check_filter filt) (\<lambda>_. read_db (\<lambda>db.
             if isOwnScope filt then length (take limit (filter (filterPredicate db (uuid_cast (tx_accountId tx)) w filt) (bookmarks db)))
             else countStatement db (uuid_cast (tx_accountId tx)) w filt limit))))"

definition listWithCountOf ::
    "(string \<Rightarrow> string) \<Rightarrow> list_tools \<Rightarrow> tenant_tx \<Rightarrow> list_request \<Rightarrow> nat \<Rightarrow> (library, (bookmark_record \<times> sort_value) list \<times> nat) tx" where
  "listWithCountOf name_key tools tx request limit =
     (if matchesAreTheAnswer tx (lr_filter request) then
        with_workspace tx ''listing bookmarks'' (\<lambda>w.
          tx_bind (matchedList name_key tools tx w request (case lf_q (lr_filter request) of None \<Rightarrow> [] | Some q \<Rightarrow> q)) (\<lambda>(rows, n).
            tx_return (rows, min n limit)))
      else tx_bind (listOf name_key tools tx request) (\<lambda>rows.
           tx_bind (countOf tools tx (lr_filter request) limit) (\<lambda>n. tx_return (rows, n))))"

definition db_ids :: "list_tools \<Rightarrow> tenant_tx \<Rightarrow> list_filter \<Rightarrow> nat \<Rightarrow> (library, string list) tx" where
  "db_ids tools tx filt limit =
     with_workspace tx ''listing bookmark identifiers'' (\<lambda>w.
       tx_bind (require_viewer_of tx filt) (\<lambda>_.
       tx_bind (check_filter filt) (\<lambda>_. read_db (\<lambda>db.
         let request = \<lparr>lr_filter = filt, lr_sort = SortRecent, lr_after = None, lr_limit = limit\<rparr>; viewer = uuid_cast (tx_accountId tx)
         in map bm_id (case lf_q filt of
              Some q \<Rightarrow> fst (matchedPageStatement tools db viewer w request q)
            | None \<Rightarrow> if isOwnScope filt then own_page tools db viewer w request else pageStatement tools db viewer w request)))))"

section \<open>The service\<close>

definition BOOKMARK_LIST_TOTAL_CAP :: nat where
  "BOOKMARK_LIST_TOTAL_CAP = 10000"

record list_ask =
  la_workspaceId :: string
  la_accountId :: string
  la_scope :: list_scope
  la_pinned :: "bool option"
  la_hasSlug :: "bool option"
  la_forwarding :: "bool option"
  la_url :: "string option"
  la_folderId :: "string option"
  la_tagIds :: "string list option"
  la_q :: "string option"
  la_sort :: bookmark_sort
  la_limit :: nat
  la_cursor :: "string option"

text \<open>What a cursor is bound to, which \<open>JSON.stringify\<close> writes so that no two scopes are alike; no tags are the same as none named.\<close>

type_synonym list_cursor_scope = "string \<times> string \<times> list_scope \<times> bookmark_sort \<times> list_filter"

record list_cursors =
  lc_seal :: "position \<Rightarrow> list_cursor_scope \<Rightarrow> string"
  lc_open :: "string \<Rightarrow> list_cursor_scope \<Rightarrow> position option"

record 's list_store =
  ls_listWithCount :: "list_request \<Rightarrow> nat \<Rightarrow> ('s, (bookmark_record \<times> sort_value) list \<times> nat) tx"

datatype list_outcome = ListedBookmarks "bookmark_record list" "string option" "nat option" | ListBadCursor | ListUrlRefused url_refusal

definition filter_ask_of :: "list_ask \<Rightarrow> filter_ask" where
  "filter_ask_of ask =
     \<lparr>fa_accountId = la_accountId ask, fa_scope = Some (la_scope ask), fa_pinned = la_pinned ask, fa_hasSlug = la_hasSlug ask,
      fa_forwarding = la_forwarding ask, fa_url = la_url ask, fa_folderId = la_folderId ask, fa_tagIds = la_tagIds ask, fa_q = la_q ask\<rparr>"

definition list_cursor_scope_of :: "list_ask \<Rightarrow> list_filter \<Rightarrow> list_cursor_scope" where
  "list_cursor_scope_of ask filt =
     (js_lower (la_workspaceId ask), js_lower (la_accountId ask), la_scope ask, la_sort ask,
      filt\<lparr>lf_ownerId := [], lf_scope := None, lf_tagIds := Some (filter_tags filt)\<rparr>)"

definition listBookmarks ::
    "url_parser \<Rightarrow> list_tools \<Rightarrow> 's list_store \<Rightarrow> list_cursors \<Rightarrow> list_ask \<Rightarrow> ('s, list_outcome) tx" where
  "listBookmarks parse tools store cursors ask =
     (case bookmarkListFilter parse tools (filter_ask_of ask) of
        Inl reason \<Rightarrow> tx_return (ListUrlRefused reason)
      | Inr filt \<Rightarrow>
          (let scope = list_cursor_scope_of ask filt
           in case (case la_cursor ask of None \<Rightarrow> Some None | Some c \<Rightarrow> map_option Some (lc_open cursors c scope)) of
                None \<Rightarrow> tx_return ListBadCursor
              | Some after \<Rightarrow>
                  tx_bind (ls_listWithCount store \<lparr>lr_filter = filt, lr_sort = la_sort ask, lr_after = after, lr_limit = la_limit ask + 1\<rparr>
                      (BOOKMARK_LIST_TOTAL_CAP + 1)) (\<lambda>(fetched, counted).
                    let rows = take (la_limit ask) fetched
                    in tx_return (ListedBookmarks (map fst rows)
                         (if length fetched > la_limit ask \<and> rows \<noteq> [] then
                            Some (lc_seal cursors (snd (last rows), bk_id (fst (last rows))) scope) else None)
                         (if counted > BOOKMARK_LIST_TOTAL_CAP then None else Some counted)))))"

definition listStoreOf :: "(string \<Rightarrow> string) \<Rightarrow> list_tools \<Rightarrow> tenant_tx \<Rightarrow> library list_store" where
  "listStoreOf name_key tools tx = \<lparr>ls_listWithCount = listWithCountOf name_key tools tx\<rparr>"

end
