(* ===== verification/Sharing.thy ===== *)
theory Sharing
  imports LibraryShares
begin

text \<open>
  The services of the shares (\<open>packages/core/src/sharing/bookmark-shares.ts\<close>, \<open>folder-shares.ts\<close>) over a store, and the stores on
  the database. The two services are one text but for the kind of object: \<open>entity\<close>.
\<close>

section \<open>The store\<close>

record share_list =
  sl_shares :: "share_record list"
  sl_audienceSize :: nat

record 's share_store =
  ss_owned :: "string \<Rightarrow> string \<Rightarrow> share_use \<Rightarrow> ('s, bool) tx"
  ss_sharedWith :: "string \<Rightarrow> string \<Rightarrow> ('s, bool) tx"
  ss_list :: "string \<Rightarrow> ('s, share_list) tx"
  ss_grant :: "new_share \<Rightarrow> ('s, share_grant) tx"
  ss_revoke :: "string \<Rightarrow> string \<Rightarrow> ('s, share_record option) tx"

datatype share_refusal = ShareForbidden | ShareNotFound

definition refusalFor :: "'s share_store \<Rightarrow> string \<Rightarrow> string \<Rightarrow> ('s, share_refusal) tx" where
  "refusalFor store objectId accountId =
     tx_bind (ss_sharedWith store objectId accountId) (\<lambda>shared. tx_return (if shared then ShareForbidden else ShareNotFound))"

section \<open>The services\<close>

datatype share_list_outcome = SharesListed share_list | ListRefused share_refusal

definition listShares :: "'s share_store \<Rightarrow> string \<Rightarrow> string \<Rightarrow> ('s, share_list_outcome) tx" where
  "listShares store objectId accountId =
     tx_bind (ss_owned store objectId accountId UseRead) (\<lambda>owned.
       if \<not> owned then tx_bind (refusalFor store objectId accountId) (\<lambda>r. tx_return (ListRefused r))
       else tx_bind (ss_list store objectId) (\<lambda>shares. tx_return (SharesListed shares)))"

text \<open>The caller, an account or a token of it: the actor without the system.\<close>

record share_ask =
  sa_workspaceId :: string
  sa_actor :: audit_actor
  sa_ipPrefix :: "string option"
  sa_objectId :: string

definition sa_accountId :: "share_ask \<Rightarrow> string" where
  "sa_accountId ask = (case actor_account (sa_actor ask) of None \<Rightarrow> [] | Some a \<Rightarrow> a)"

datatype share_grant_outcome =
    GrantDone share_record
  | GrantExisting share_record
  | GrantRefused share_refusal
  | GrantSelf
  | GrantTargetUnknown string

definition share_event :: "string \<Rightarrow> string \<Rightarrow> share_ask \<Rightarrow> string \<Rightarrow> string \<Rightarrow> string \<Rightarrow> audit_input" where
  "share_event action entity ask kind targetId name =
     \<lparr>av_action = action, av_workspaceId = sa_workspaceId ask, av_actor = sa_actor ask, av_entity = Some (entity, sa_objectId ask),
      av_metadata = JsObject [(''targetKind'', JsText kind), (''targetId'', JsText targetId), (''targetName'', JsText name)],
      av_ipPrefix = sa_ipPrefix ask\<rparr>"

definition is_self :: "share_target \<Rightarrow> string \<Rightarrow> bool" where
  "is_self target accountId = (case target of ShareMember a \<Rightarrow> js_lower a = js_lower accountId | ShareTeam t \<Rightarrow> False)"

definition grantShare ::
    "string \<Rightarrow> 's share_store \<Rightarrow> (audit_input \<Rightarrow> ('s, unit) tx) \<Rightarrow> string \<Rightarrow> share_ask \<Rightarrow> share_target \<Rightarrow> ('s, share_grant_outcome) tx" where
  "grantShare entity store audit newId ask target =
     tx_bind (ss_owned store (sa_objectId ask) (sa_accountId ask) UseGrant) (\<lambda>owned.
       if \<not> owned then tx_bind (refusalFor store (sa_objectId ask) (sa_accountId ask)) (\<lambda>r. tx_return (GrantRefused r))
       else if is_self target (sa_accountId ask) then tx_return GrantSelf
       else tx_bind (ss_grant store \<lparr>ns_id = newId, ns_objectId = sa_objectId ask, ns_grantedBy = sa_accountId ask, ns_target = target\<rparr>) (\<lambda>result.
         case result of
           GrantUnknownTarget \<Rightarrow> tx_return (GrantTargetUnknown (targetFieldOf target))
         | ShareExisting share \<Rightarrow> tx_return (GrantExisting share)
         | ShareGranted share \<Rightarrow>
             tx_bind (audit (share_event ''share.granted'' entity ask (target_kind target) (targetIdOf target) (sr_name share)))
               (\<lambda>_. tx_return (GrantDone share))))"

datatype share_revocation_outcome = Revoked share_record | RevokeRefused share_refusal

definition revoked_target :: "share_record \<Rightarrow> string option" where
  "revoked_target share = (case sr_accountId share of Some a \<Rightarrow> Some a | None \<Rightarrow> sr_teamId share)"

definition revokeShare ::
    "string \<Rightarrow> 's share_store \<Rightarrow> (audit_input \<Rightarrow> ('s, unit) tx) \<Rightarrow> share_ask \<Rightarrow> string \<Rightarrow> ('s, share_revocation_outcome) tx" where
  "revokeShare entity store audit ask shareId =
     tx_bind (ss_owned store (sa_objectId ask) (sa_accountId ask) UseRevoke) (\<lambda>owned.
       if \<not> owned then tx_bind (refusalFor store (sa_objectId ask) (sa_accountId ask)) (\<lambda>r. tx_return (RevokeRefused r))
       else tx_bind (ss_revoke store (sa_objectId ask) shareId) (\<lambda>found.
         case found of
           None \<Rightarrow> tx_return (RevokeRefused ShareNotFound)
         | Some share \<Rightarrow>
             (case revoked_target share of
                None \<Rightarrow> tx_throw (JsError ''a share names neither a member nor a team'')
              | Some targetId \<Rightarrow>
                  tx_bind (audit (share_event ''share.revoked'' entity ask (if sr_accountId share = None then ''team'' else ''member'') targetId (sr_name share)))
                    (\<lambda>_. tx_return (Revoked share)))))"

definition listBookmarkShares :: "'s share_store \<Rightarrow> string \<Rightarrow> string \<Rightarrow> ('s, share_list_outcome) tx" where
  "listBookmarkShares = listShares"

definition grantBookmarkShare :: "'s share_store \<Rightarrow> (audit_input \<Rightarrow> ('s, unit) tx) \<Rightarrow> string \<Rightarrow> share_ask \<Rightarrow> share_target \<Rightarrow> ('s, share_grant_outcome) tx" where
  "grantBookmarkShare = grantShare ''bookmark''"

definition revokeBookmarkShare :: "'s share_store \<Rightarrow> (audit_input \<Rightarrow> ('s, unit) tx) \<Rightarrow> share_ask \<Rightarrow> string \<Rightarrow> ('s, share_revocation_outcome) tx" where
  "revokeBookmarkShare = revokeShare ''bookmark''"

definition listFolderShares :: "'s share_store \<Rightarrow> string \<Rightarrow> string \<Rightarrow> ('s, share_list_outcome) tx" where
  "listFolderShares = listShares"

definition grantFolderShare :: "'s share_store \<Rightarrow> (audit_input \<Rightarrow> ('s, unit) tx) \<Rightarrow> string \<Rightarrow> share_ask \<Rightarrow> share_target \<Rightarrow> ('s, share_grant_outcome) tx" where
  "grantFolderShare = grantShare ''folder''"

definition revokeFolderShare :: "'s share_store \<Rightarrow> (audit_input \<Rightarrow> ('s, unit) tx) \<Rightarrow> share_ask \<Rightarrow> string \<Rightarrow> ('s, share_revocation_outcome) tx" where
  "revokeFolderShare = revokeShare ''folder''"

section \<open>The stores on the database\<close>

definition db_shares :: "share_table \<Rightarrow> tenant_tx \<Rightarrow> string \<Rightarrow> (library, share_list) tx" where
  "db_shares table tx objectId =
     tx_bind (sharesOf table tx objectId (\<lambda>_. True)) (\<lambda>shares.
     tx_bind (audienceOf table tx objectId) (\<lambda>n. tx_return \<lparr>sl_shares = shares, sl_audienceSize = n\<rparr>))"

definition bookmarkShareRepository :: "(library \<Rightarrow> library) \<Rightarrow> tenant_tx \<Rightarrow> library share_store" where
  "bookmarkShareRepository between tx =
     \<lparr>ss_owned = ownedBookmark tx, ss_sharedWith = share_sharedWith tx, ss_list = db_shares bookmark_share_table tx,
      ss_grant = db_grant between bookmark_share_table tx, ss_revoke = db_revoke bookmark_share_table tx\<rparr>"

text \<open>The folder is another member's and shared with the account (\<open>sharedWith\<close> of \<open>packages/db/src/repositories/folders.ts\<close>).\<close>

definition requireOwner :: "tenant_tx \<Rightarrow> string \<Rightarrow> ('s, unit) tx" where
  "requireOwner tx ownerId =
     tx_require (js_lower ownerId = tx_accountId tx) (JsError ''a folder is read and written for the account of the transaction only'')"

definition db_folderSharedWith :: "tenant_tx \<Rightarrow> string \<Rightarrow> string \<Rightarrow> (library, bool) tx" where
  "db_folderSharedWith tx folderId accountId =
     tx_bind (requireOwner tx accountId) (\<lambda>_. with_workspace tx ''the folders of a workspace'' (\<lambda>w. read_db (\<lambda>db.
       list_ex (\<lambda>f. fo_workspace_id f = w \<and> fo_id f = uuid_cast folderId \<and> fo_owner_id f \<noteq> Some (uuid_cast (tx_accountId tx)) \<and>
         folderSharedWith db (uuid_cast (tx_accountId tx)) w (fo_id f)) (lb_folders db))))"

definition folderShareRepository :: "(library \<Rightarrow> library) \<Rightarrow> tenant_tx \<Rightarrow> library share_store" where
  "folderShareRepository between tx =
     \<lparr>ss_owned = ownedFolder tx, ss_sharedWith = db_folderSharedWith tx, ss_list = db_shares folder_share_table tx,
      ss_grant = db_grant between folder_share_table tx, ss_revoke = db_revoke folder_share_table tx\<rparr>"

end
