(* ===== verification/LibraryBulk.thy ===== *)
theory LibraryBulk
  imports LibraryLists Sharing GoCore
begin

text \<open>
  Bulk actions on bookmarks and the select-all that feeds them (\<open>packages/core/src/bookmarks/bulk.ts\<close>) over a store, and the store
  on the database (\<open>bulkStoreOf\<close> of \<open>packages/server/src/routes/bookmarks/index.ts\<close>) with the statements only it uses
  (\<open>packages/db/src/repositories/bookmarks.ts\<close>, \<open>tag-links.ts\<close>).
\<close>

section \<open>The preview of a tagging\<close>

record preview_tag =
  pt_id :: string
  pt_name :: string
  pt_bookmarkCount :: nat
  pt_added :: nat

definition preview_entry :: "tag_ref \<Rightarrow> preview_tag" where
  "preview_entry t = \<lparr>pt_id = tr_id t, pt_name = tr_name t, pt_bookmarkCount = 0, pt_added = 0\<rparr>"

text \<open>\<open>preview.get(tag.id) ?? \<dots>\<close> changed and set again; a map keeps the place of an entry it has.\<close>

definition count_tag :: "tag_ref \<Rightarrow> preview_tag list \<Rightarrow> preview_tag list" where
  "count_tag t preview =
     (if list_ex (\<lambda>e. pt_id e = tr_id t) preview then
        map (\<lambda>e. if pt_id e = tr_id t then e\<lparr>pt_bookmarkCount := pt_bookmarkCount e + 1\<rparr> else e) preview
      else preview @ [(preview_entry t)\<lparr>pt_bookmarkCount := 1\<rparr>])"

definition add_tag :: "string list \<Rightarrow> tag_ref \<Rightarrow> preview_tag list \<Rightarrow> preview_tag list" where
  "add_tag has t preview =
     (if tr_id t \<in> set has then preview
      else map (\<lambda>e. if pt_id e = tr_id t then e\<lparr>pt_bookmarkCount := pt_bookmarkCount e + 1, pt_added := pt_added e + 1\<rparr> else e) preview)"

definition preview_bookmark :: "tag_ref list \<Rightarrow> tag_ref list \<Rightarrow> preview_tag list \<Rightarrow> preview_tag list" where
  "preview_bookmark wanted carried preview = fold (add_tag (map tr_id carried)) wanted (fold count_tag carried preview)"

definition preview_order :: "(string \<Rightarrow> string \<Rightarrow> int) \<Rightarrow> preview_tag \<Rightarrow> preview_tag \<Rightarrow> int" where
  "preview_order localeCompare a b =
     (let names = localeCompare (js_lower (pt_name a)) (js_lower (pt_name b))
      in if names \<noteq> 0 then names else localeCompare (pt_id a) (pt_id b))"

definition db_previewTags ::
    "(string \<Rightarrow> string) \<Rightarrow> (string \<Rightarrow> string \<Rightarrow> int) \<Rightarrow> tenant_tx \<Rightarrow> string list \<Rightarrow> string \<Rightarrow> string list \<Rightarrow> (library, (nat \<times> preview_tag list) option) tx" where
  "db_previewTags name_key localeCompare tx bookmarkIds ownerId tagIds =
     with_workspace tx ''previewing the tagging of bookmarks'' (\<lambda>w.
       tx_bind (require_own_account tx ownerId ''previews'') (\<lambda>_.
       tx_bind (ownedTags name_key tx ownerId tagIds) (\<lambda>wanted.
         if length wanted \<noteq> length (distinctIdentifiers tagIds) then tx_return None
         else tx_bind (ownedLiveBookmarks w ownerId bookmarkIds) (\<lambda>owned. read_db (\<lambda>db.
           let preview = fold (\<lambda>i. preview_bookmark wanted (tagsOfBookmark name_key w (uuid_cast ownerId) i db)) owned (map preview_entry wanted)
           in Some (length owned, js_sort (preview_order localeCompare) preview))))))"

section \<open>The store\<close>

record 's bulk_store =
  bl_ids :: "list_filter \<Rightarrow> nat \<Rightarrow> ('s, string list) tx"
  bl_sharedAmong :: "string list \<Rightarrow> string \<Rightarrow> ('s, string list) tx"
  bl_removeMany :: "string list \<Rightarrow> ('s, nat option) tx"
  bl_setPinned :: "string list \<Rightarrow> string \<Rightarrow> bool \<Rightarrow> ('s, nat) tx"
  bl_fileIn :: "string list \<Rightarrow> string \<Rightarrow> string \<Rightarrow> filing_mode \<Rightarrow> ('s, linking_result) tx"
  bl_tag :: "string list \<Rightarrow> string \<Rightarrow> string list \<Rightarrow> tagging_mode \<Rightarrow> ('s, linking_result) tx"
  bl_previewTags :: "string list \<Rightarrow> string \<Rightarrow> string list \<Rightarrow> ('s, (nat \<times> preview_tag list) option) tx"
  bl_share :: "string list \<Rightarrow> string \<Rightarrow> share_target \<Rightarrow> (nat \<Rightarrow> string) \<Rightarrow> ('s, share_many_result) tx"
  bl_previewShare :: "string list \<Rightarrow> string \<Rightarrow> share_target \<Rightarrow> ('s, share_preview option) tx"

definition bulkStoreOf ::
    "(library \<Rightarrow> library) \<Rightarrow> (string \<Rightarrow> string) \<Rightarrow> (string \<Rightarrow> string \<Rightarrow> int) \<Rightarrow> list_tools \<Rightarrow> tenant_tx \<Rightarrow> library bulk_store" where
  "bulkStoreOf between name_key localeCompare tools tx =
     \<lparr>bl_ids = db_ids tools tx, bl_sharedAmong = db_sharedAmong tx, bl_removeMany = db_removeMany tx, bl_setPinned = db_setPinned tx,
      bl_fileIn = db_fileIn tx, bl_tag = db_tag tx, bl_previewTags = db_previewTags name_key localeCompare tx,
      bl_share = db_share between tx, bl_previewShare = db_previewShare tx\<rparr>"

section \<open>The bookmarks a request names\<close>

definition BOOKMARK_BULK_IDS_MAX :: nat where
  "BOOKMARK_BULK_IDS_MAX = 1000"

definition BOOKMARK_SELECT_ALL_CAP :: nat where
  "BOOKMARK_SELECT_ALL_CAP = 5000"

datatype ids_outcome = IdsListed "string list" bool | IdsUrlRefused url_refusal

definition listBookmarkIds :: "url_parser \<Rightarrow> list_tools \<Rightarrow> 's bulk_store \<Rightarrow> filter_ask \<Rightarrow> ('s, ids_outcome) tx" where
  "listBookmarkIds parse tools store ask =
     (case bookmarkListFilter parse tools ask of
        Inl reason \<Rightarrow> tx_return (IdsUrlRefused reason)
      | Inr filt \<Rightarrow> tx_bind (bl_ids store filt (BOOKMARK_SELECT_ALL_CAP + 1)) (\<lambda>found.
          tx_return (IdsListed (take BOOKMARK_SELECT_ALL_CAP found) (length found > BOOKMARK_SELECT_ALL_CAP))))"

text \<open>A filter is asked for the account of the request.\<close>

datatype bulk_target = TargetIds "string list" | TargetFilter filter_ask

datatype named_bookmarks = Named "string list" | TooMany nat | NamedUrlRefused url_refusal

definition namedBookmarks :: "url_parser \<Rightarrow> list_tools \<Rightarrow> 's bulk_store \<Rightarrow> string \<Rightarrow> bulk_target \<Rightarrow> ('s, named_bookmarks) tx" where
  "namedBookmarks parse tools store accountId target =
     (case target of
        TargetIds ids \<Rightarrow>
          (let named = js_unique (map js_lower ids)
           in tx_return (if length named > BOOKMARK_BULK_IDS_MAX then TooMany BOOKMARK_BULK_IDS_MAX else Named named))
      | TargetFilter ask \<Rightarrow>
          (case bookmarkListFilter parse tools (ask\<lparr>fa_accountId := accountId\<rparr>) of
             Inl reason \<Rightarrow> tx_return (NamedUrlRefused reason)
           | Inr filt \<Rightarrow> tx_bind (bl_ids store filt (BOOKMARK_SELECT_ALL_CAP + 1)) (\<lambda>named.
               tx_return (if length named > BOOKMARK_SELECT_ALL_CAP then TooMany BOOKMARK_SELECT_ALL_CAP else Named named))))"

section \<open>The actions\<close>

datatype bulk_action = BulkDelete | BulkPin | BulkUnpin | BulkFile filing_mode | BulkTag tagging_mode | BulkShare

record bulk_ask =
  bu_workspaceId :: string
  bu_accountId :: string
  bu_actor :: audit_actor
  bu_ipPrefix :: "string option"
  bu_action :: bulk_action
  bu_target :: bulk_target
  bu_folderId :: "string option"
  bu_tagIds :: "string list option"
  bu_shareTarget :: "share_target option"

datatype bulk_outcome =
    BulkDone nat nat
  | BulkTooMany nat
  | BulkUrlRefused url_refusal
  | BulkUnavailable
  | BulkForbidden
  | BulkTargetNotFound
  | BulkSelf
  | BulkUnknownTarget string

text \<open>\<open>BulkDone requested affected\<close>; what was skipped is the difference.\<close>

definition skipped_not_found :: "nat \<Rightarrow> nat \<Rightarrow> int" where
  "skipped_not_found requested affected = int requested - int affected"

definition requiredFolder :: "string option \<Rightarrow> js_error + string" where
  "requiredFolder folderId = (case folderId of None \<Rightarrow> Inl (RangeError ''a folder action names a folder'') | Some i \<Rightarrow> Inr (js_lower i))"

fun lower_target :: "share_target \<Rightarrow> share_target" where
  "lower_target (ShareMember a) = ShareMember (js_lower a)"
| "lower_target (ShareTeam t) = ShareTeam (js_lower t)"

definition requiredShareTarget :: "share_target option \<Rightarrow> js_error + share_target" where
  "requiredShareTarget target =
     (case target of None \<Rightarrow> Inl (RangeError ''a share names a member or a team'') | Some t \<Rightarrow> Inr (lower_target t))"

definition requiredTags :: "string list option \<Rightarrow> js_error + string list" where
  "requiredTags tagIds =
     (if opt_list tagIds = [] then Inl (RangeError ''a tag action names tags'') else Inr (js_unique (map js_lower (opt_list tagIds))))"

definition bulk_event :: "string \<Rightarrow> bulk_ask \<Rightarrow> (string \<times> string) list \<Rightarrow> audit_input" where
  "bulk_event action ask metadata =
     \<lparr>av_action = action, av_workspaceId = js_lower (bu_workspaceId ask), av_actor = bu_actor ask, av_entity = None,
      av_metadata = JsObject (map (\<lambda>(k, v). (k, JsText v)) metadata), av_ipPrefix = bu_ipPrefix ask\<rparr>"

definition bulk_delete ::
    "'s bulk_store \<Rightarrow> (audit_input \<Rightarrow> ('s, unit) tx) \<Rightarrow> bulk_ask \<Rightarrow> nat \<Rightarrow> string list \<Rightarrow> ('s, bulk_outcome) tx" where
  "bulk_delete store audit ask requested bookmarkIds =
     (if bookmarkIds = [] then tx_return (BulkDone requested 0)
      else tx_bind (bl_removeMany store bookmarkIds) (\<lambda>deleted.
        case deleted of
          None \<Rightarrow> tx_return BulkUnavailable
        | Some n \<Rightarrow>
            tx_bind (if n > 0 then audit (bulk_event ''bookmark.bulk_deleted'' ask [(''count'', js_to_string 10 n)]) else tx_return ())
              (\<lambda>_. tx_return (BulkDone requested n))))"

definition bulk_share ::
    "'s bulk_store \<Rightarrow> (audit_input \<Rightarrow> ('s, unit) tx) \<Rightarrow> (nat \<Rightarrow> string) \<Rightarrow> bulk_ask \<Rightarrow> string \<Rightarrow> nat \<Rightarrow> string list \<Rightarrow> share_target \<Rightarrow> ('s, bulk_outcome) tx" where
  "bulk_share store audit newId ask accountId requested bookmarkIds target =
     (if target = ShareMember accountId then tx_return BulkSelf
      else tx_bind (bl_share store bookmarkIds accountId target newId) (\<lambda>shared.
        case shared of
          ManyUnknownTarget \<Rightarrow> tx_return (BulkUnknownTarget (targetFieldOf target))
        | SharedMany affected granted name \<Rightarrow>
            tx_bind (if granted > 0 then audit (bulk_event ''share.bulk_granted'' ask
                [(''count'', js_to_string 10 granted), (''targetKind'', target_kind target), (''targetId'', targetIdOf target), (''targetName'', name)])
              else tx_return ()) (\<lambda>_. tx_return (BulkDone requested affected))))"

definition linking_outcome :: "nat \<Rightarrow> linking_result \<Rightarrow> bulk_outcome" where
  "linking_outcome requested linked = (case linked of TargetNotFound \<Rightarrow> BulkTargetNotFound | LinkingDone n \<Rightarrow> BulkDone requested n)"

definition or_throw :: "js_error + 'a \<Rightarrow> ('a \<Rightarrow> ('s, 'r) tx) \<Rightarrow> ('s, 'r) tx" where
  "or_throw m f = (case m of Inl e \<Rightarrow> tx_throw e | Inr x \<Rightarrow> f x)"

definition bulk_act ::
    "'s bulk_store \<Rightarrow> (audit_input \<Rightarrow> ('s, unit) tx) \<Rightarrow> (nat \<Rightarrow> string) \<Rightarrow> bulk_ask \<Rightarrow> string \<Rightarrow> nat \<Rightarrow> string list \<Rightarrow> ('s, bulk_outcome) tx" where
  "bulk_act store audit newId ask accountId requested bookmarkIds =
     (case bu_action ask of
        BulkDelete \<Rightarrow> bulk_delete store audit ask requested bookmarkIds
      | BulkPin \<Rightarrow>
          if bookmarkIds = [] then tx_return (BulkDone requested 0)
          else tx_bind (bl_setPinned store bookmarkIds accountId True) (\<lambda>n. tx_return (BulkDone requested n))
      | BulkUnpin \<Rightarrow>
          if bookmarkIds = [] then tx_return (BulkDone requested 0)
          else tx_bind (bl_setPinned store bookmarkIds accountId False) (\<lambda>n. tx_return (BulkDone requested n))
      | BulkShare \<Rightarrow> or_throw (requiredShareTarget (bu_shareTarget ask)) (bulk_share store audit newId ask accountId requested bookmarkIds)
      | BulkTag mode \<Rightarrow> or_throw (requiredTags (bu_tagIds ask)) (\<lambda>tags.
          tx_bind (bl_tag store bookmarkIds accountId tags mode) (\<lambda>linked. tx_return (linking_outcome requested linked)))
      | BulkFile mode \<Rightarrow> or_throw (requiredFolder (bu_folderId ask)) (\<lambda>folder.
          tx_bind (bl_fileIn store bookmarkIds accountId folder mode) (\<lambda>linked. tx_return (linking_outcome requested linked))))"

text \<open>The selection holds a bookmark that is shared with the account.\<close>

definition holds_shared :: "'s bulk_store \<Rightarrow> string list \<Rightarrow> string \<Rightarrow> ('s, bool) tx" where
  "holds_shared store bookmarkIds accountId =
     (if bookmarkIds = [] then tx_return False
      else tx_bind (bl_sharedAmong store bookmarkIds accountId) (\<lambda>shared. tx_return (shared \<noteq> [])))"

definition bulkBookmarks ::
    "url_parser \<Rightarrow> list_tools \<Rightarrow> 's bulk_store \<Rightarrow> (audit_input \<Rightarrow> ('s, unit) tx) \<Rightarrow> (nat \<Rightarrow> string) \<Rightarrow> bulk_ask \<Rightarrow> ('s, bulk_outcome) tx" where
  "bulkBookmarks parse tools store audit newId ask =
     (let accountId = js_lower (bu_accountId ask)
      in tx_bind (namedBookmarks parse tools store accountId (bu_target ask)) (\<lambda>target.
         case target of
           TooMany n \<Rightarrow> tx_return (BulkTooMany n)
         | NamedUrlRefused reason \<Rightarrow> tx_return (BulkUrlRefused reason)
         | Named named \<Rightarrow>
             (let bookmarkIds = filter uuid_pattern named
              in tx_bind (holds_shared store bookmarkIds accountId) (\<lambda>shared.
                 if shared then tx_return BulkForbidden
                 else bulk_act store audit newId ask accountId (length named) bookmarkIds))))"

section \<open>The previews\<close>

datatype tag_preview_outcome =
    TagsPreviewed nat nat "preview_tag list"
  | TagPreviewTooMany nat
  | TagPreviewUrlRefused url_refusal
  | TagPreviewForbidden
  | TagPreviewTargetNotFound

definition previewBulkTags ::
    "url_parser \<Rightarrow> list_tools \<Rightarrow> 's bulk_store \<Rightarrow> string \<Rightarrow> bulk_target \<Rightarrow> string list \<Rightarrow> ('s, tag_preview_outcome) tx" where
  "previewBulkTags parse tools store account given tagIds =
     (let accountId = js_lower account
      in tx_bind (namedBookmarks parse tools store accountId given) (\<lambda>target.
         case target of
           TooMany n \<Rightarrow> tx_return (TagPreviewTooMany n)
         | NamedUrlRefused reason \<Rightarrow> tx_return (TagPreviewUrlRefused reason)
         | Named named \<Rightarrow>
             (let bookmarkIds = filter uuid_pattern named
              in tx_bind (holds_shared store bookmarkIds accountId) (\<lambda>shared.
                 if shared then tx_return TagPreviewForbidden
                 else or_throw (requiredTags (Some tagIds)) (\<lambda>tags.
                   tx_bind (bl_previewTags store bookmarkIds accountId tags) (\<lambda>previewed.
                     tx_return (case previewed of
                         None \<Rightarrow> TagPreviewTargetNotFound
                       | Some (affected, preview) \<Rightarrow> TagsPreviewed (length named) affected preview)))))))"

datatype share_preview_outcome =
    SharePreviewed nat share_preview
  | SharePreviewTooMany nat
  | SharePreviewUrlRefused url_refusal
  | SharePreviewForbidden
  | SharePreviewSelf
  | SharePreviewUnknownTarget string

definition previewBulkShare ::
    "url_parser \<Rightarrow> list_tools \<Rightarrow> 's bulk_store \<Rightarrow> string \<Rightarrow> bulk_target \<Rightarrow> share_target \<Rightarrow> ('s, share_preview_outcome) tx" where
  "previewBulkShare parse tools store account given shareTarget =
     (let accountId = js_lower account; audience = lower_target shareTarget
      in tx_bind (namedBookmarks parse tools store accountId given) (\<lambda>target.
         case target of
           TooMany n \<Rightarrow> tx_return (SharePreviewTooMany n)
         | NamedUrlRefused reason \<Rightarrow> tx_return (SharePreviewUrlRefused reason)
         | Named named \<Rightarrow>
             (let bookmarkIds = filter uuid_pattern named
              in tx_bind (holds_shared store bookmarkIds accountId) (\<lambda>shared.
                 if shared then tx_return SharePreviewForbidden
                 else if audience = ShareMember accountId then tx_return SharePreviewSelf
                 else tx_bind (bl_previewShare store bookmarkIds accountId audience) (\<lambda>previewed.
                   tx_return (case previewed of
                       None \<Rightarrow> SharePreviewUnknownTarget (targetFieldOf audience)
                     | Some preview \<Rightarrow> SharePreviewed (length named) preview))))))"

end
