(* ===== verification/LibraryLaws.thy ===== *)
theory LibraryLaws
  imports LibraryShares
begin

text \<open>
  The invariant of a library and the statements that keep it: keys and checks of the tables, the references of the links, and the
  counter of a workspace, which is the number of its bookmarks that are not plan-archived.
\<close>

section \<open>The invariant\<close>

definition live_in :: "string \<Rightarrow> bookmark_row \<Rightarrow> bool" where
  "live_in w b \<longleftrightarrow> bm_workspace_id b = w \<and> bm_plan_archived_at b = None"

definition live_count :: "library \<Rightarrow> string \<Rightarrow> nat" where
  "live_count db w = length (filter (live_in w) (bookmarks db))"

definition counts_ok :: "library \<Rightarrow> bool" where
  "counts_ok db \<longleftrightarrow> distinct (map ws_id (workspaces db)) \<and> (\<forall>x \<in> set (workspaces db). ws_bookmark_count x = live_count db (ws_id x))"

definition rows_ok :: "library \<Rightarrow> bool" where
  "rows_ok db \<longleftrightarrow>
     distinct (map bm_id (bookmarks db)) \<and> (\<forall>b \<in> set (bookmarks db). bookmark_checks b \<and> uuid_cast (bm_id b) = bm_id b) \<and>
     (\<forall>b \<in> set (bookmarks db). \<forall>c \<in> set (bookmarks db). slug_clash b c \<longrightarrow> bm_id b = bm_id c)"

definition folder_link_ok :: "library \<Rightarrow> folder_bookmark_row \<Rightarrow> bool" where
  "folder_link_ok db l \<longleftrightarrow>
     (\<exists>f \<in> set (lb_folders db). \<exists>b \<in> set (bookmarks db). fo_id f = fb_folder_id l \<and> bm_id b = fb_bookmark_id l \<and>
        fo_workspace_id f = fb_workspace_id l \<and> bm_workspace_id b = fb_workspace_id l \<and> fo_owner_id f = bm_owner_id b)"

definition tag_link_ok :: "library \<Rightarrow> bookmark_tag_row \<Rightarrow> bool" where
  "tag_link_ok db l \<longleftrightarrow>
     (\<exists>t \<in> set (lb_tags db). \<exists>b \<in> set (bookmarks db). tg_id t = bt_tag_id l \<and> bm_id b = bt_bookmark_id l \<and>
        tg_workspace_id t = bt_workspace_id l \<and> bm_workspace_id b = bt_workspace_id l \<and> Some (tg_owner_id t) = bm_owner_id b)"

definition links_ok :: "library \<Rightarrow> bool" where
  "links_ok db \<longleftrightarrow>
     distinct (map link_key (folder_bookmarks db)) \<and> (\<forall>l \<in> set (folder_bookmarks db). folder_link_ok db l) \<and>
     distinct (map tag_link_key (lb_bookmark_tags db)) \<and> (\<forall>l \<in> set (lb_bookmark_tags db). tag_link_ok db l)"

definition tags_ok :: "library \<Rightarrow> bool" where
  "tags_ok db \<longleftrightarrow>
     distinct (map tg_id (lb_tags db)) \<and> (\<forall>t \<in> set (lb_tags db). 1 \<le> length (tg_name t) \<and> length (tg_name t) \<le> 40) \<and>
     (\<forall>t \<in> set (lb_tags db). \<forall>u \<in> set (lb_tags db).
        tg_workspace_id t = tg_workspace_id u \<and> tg_owner_id t = tg_owner_id u \<and> same_name (tg_name t) (tg_name u) \<longrightarrow> tg_id t = tg_id u)"

text \<open>\<open>folders_owner_name_key\<close> takes ownerless folders for one owner's.\<close>

definition folder_checks :: "folder_row \<Rightarrow> bool" where
  "folder_checks f \<longleftrightarrow>
     uuid_cast (fo_id f) = fo_id f \<and> 1 \<le> length (fo_name f) \<and> length (fo_name f) \<le> 64 \<and> 1 \<le> length (fo_icon f) \<and> length (fo_icon f) \<le> 40 \<and>
     1 \<le> fo_color f \<and> fo_color f \<le> 8"

definition folder_clash :: "folder_row \<Rightarrow> folder_row \<Rightarrow> bool" where
  "folder_clash f g \<longleftrightarrow> fo_workspace_id f = fo_workspace_id g \<and> fo_owner_id f = fo_owner_id g \<and> same_name (fo_name f) (fo_name g)"

definition folders_ok :: "library \<Rightarrow> bool" where
  "folders_ok db \<longleftrightarrow>
     distinct (map fo_id (lb_folders db)) \<and> (\<forall>f \<in> set (lb_folders db). folder_checks f) \<and>
     (\<forall>f \<in> set (lb_folders db). \<forall>g \<in> set (lb_folders db). folder_clash f g \<longrightarrow> fo_id f = fo_id g)"

text \<open>A share has an identifier of its own and one target, and an object is shared with a target once; its object is there.\<close>

definition one_target :: "share_row \<Rightarrow> bool" where
  "one_target s \<longleftrightarrow> (sh_target_account_id s = None) \<noteq> (sh_target_team_id s = None)"

definition share_rows_ok :: "share_row list \<Rightarrow> bool" where
  "share_rows_ok rows \<longleftrightarrow>
     distinct (map sh_id rows) \<and> (\<forall>s \<in> set rows. one_target s) \<and>
     (\<forall>s \<in> set rows. \<forall>x \<in> set rows. share_conflict s x \<longrightarrow> sh_id s = sh_id x)"

definition bookmark_share_ok :: "library \<Rightarrow> bookmark_share_row \<Rightarrow> bool" where
  "bookmark_share_ok db s \<longleftrightarrow> (\<exists>b \<in> set (bookmarks db). bm_id b = bs_bookmark_id s \<and> bm_workspace_id b = bs_workspace_id s)"

definition folder_share_ok :: "library \<Rightarrow> folder_share_row \<Rightarrow> bool" where
  "folder_share_ok db s \<longleftrightarrow> (\<exists>f \<in> set (lb_folders db). fo_id f = fs_folder_id s \<and> fo_workspace_id f = fs_workspace_id s)"

definition shares_ok :: "library \<Rightarrow> bool" where
  "shares_ok db \<longleftrightarrow>
     share_rows_ok (map of_bookmark_share (bookmark_shares db)) \<and> share_rows_ok (map of_folder_share (folder_shares db)) \<and>
     (\<forall>s \<in> set (bookmark_shares db). bookmark_share_ok db s) \<and> (\<forall>s \<in> set (folder_shares db). folder_share_ok db s)"

definition library_ok :: "library \<Rightarrow> bool" where
  "library_ok db \<longleftrightarrow> counts_ok db \<and> rows_ok db \<and> links_ok db \<and> tags_ok db \<and> folders_ok db \<and> shares_ok db"

lemmas library_ok_defs = library_ok_def counts_ok_def rows_ok_def links_ok_def tags_ok_def

section \<open>Steps that keep a relation\<close>

definition keeps :: "('s \<Rightarrow> 's \<Rightarrow> bool) \<Rightarrow> ('s, 'r) tx \<Rightarrow> bool" where
  "keeps R m \<longleftrightarrow> (\<forall>s r s'. m s = Inr (r, s') \<longrightarrow> R s s')"

lemma keepsI: "(\<And>s r s'. m s = Inr (r, s') \<Longrightarrow> R s s') \<Longrightarrow> keeps R m"
  by (simp add: keeps_def)

lemma keepsD: "keeps R m \<Longrightarrow> m s = Inr (r, s') \<Longrightarrow> R s s'"
  by (simp add: keeps_def)

text \<open>A relation between the state before and after that composes: what a sequence of steps keeps.\<close>

locale kept_relation =
  fixes R :: "'s \<Rightarrow> 's \<Rightarrow> bool"
  assumes refl [simp]: "R s s"
    and trans: "R s s' \<Longrightarrow> R s' s'' \<Longrightarrow> R s s''"
begin

lemma keeps_return [simp]: "keeps R (tx_return x)"
  by (simp add: keeps_def)

lemma keeps_throw [simp]: "keeps R (tx_throw e)"
  by (simp add: keeps_def)

lemma keeps_require [simp]: "keeps R (tx_require b e)"
  by (simp add: keeps_def)

lemma keeps_read [simp]: "keeps R (read_db q)"
  by (simp add: keeps_def read_db_def)

lemma keeps_bind: "keeps R m \<Longrightarrow> (\<And>x. keeps R (f x)) \<Longrightarrow> keeps R (tx_bind m f)"
  unfolding keeps_def tx_bind_Inr_iff by (blast intro: trans)

lemma keeps_workspace: "(\<And>w. tx_workspaceId tx = Some w \<Longrightarrow> keeps R (f (uuid_cast w))) \<Longrightarrow> keeps R (with_workspace tx action f)"
  by (auto simp: keeps_def with_workspace_def tx_bind_Inr_iff)

lemma keeps_identifiers [simp]: "keeps R (requireIdentifiers ids action)"
  by (simp add: requireIdentifiers_def)

lemma keeps_requireWorkspace [simp]: "keeps R (requireWorkspace tx action)"
  by (simp add: keeps_def)

lemma keeps_require_own [simp]: "keeps R (require_own_account tx owner action)"
  by (simp add: require_own_account_def)

lemma keeps_write_links: "keeps R m \<Longrightarrow> keeps R (write_links needed m)"
  by (simp add: write_links_def keeps_bind)

lemmas keeps_intros = keeps_bind keeps_workspace keeps_write_links

end

text \<open>
  The contract of a store for the accounts \<open>mine\<close> holds of: each of its operations keeps the relation. The services such an account
  asks then keep it.
\<close>

locale bookmark_store_contract = kept_relation R
  for R :: "'s \<Rightarrow> 's \<Rightarrow> bool" +
  fixes mine :: "string \<Rightarrow> bool"
    and store :: "'s bookmark_store"
    and aiUsage :: "'s ai_recorder option"
  assumes mine_lower: "mine a \<Longrightarrow> mine (js_lower a)"
    and create_kept: "mine (nb_ownerId (cq_bookmark request)) \<Longrightarrow> keeps R (st_create store request)"
    and find_kept: "keeps R (st_find store i)"
    and sharedWith_kept: "keeps R (st_sharedWith store i a)"
    and update_kept: "mine (uq_ownerId change) \<Longrightarrow> keeps R (st_update store change)"
    and remove_kept: "keeps R (st_remove store i a)"
    and hold_kept: "aiUsage = Some recorder \<Longrightarrow> keeps R (ai_hold recorder)"
    and record_kept: "aiUsage = Some recorder \<Longrightarrow> keeps R (ai_record recorder i accepted)"
begin

lemma record_accepted_kept: "keeps R (record_accepted aiUsage i accepted)"
  using record_kept by (auto simp: record_accepted_def split: option.split)

lemma hold_member_kept: "keeps R (hold_member aiUsage accepted)"
  using hold_kept by (auto simp: hold_member_def split: option.split)

lemma checkLength_kept: "keeps R (checkLength field v lo hi)"
  by (simp add: checkLength_def)

lemma check_description_kept: "keeps R (check_description d)"
  by (simp add: check_description_def checkLength_kept split: option.split)

lemma finish_creation_kept: "keeps R (finish_creation aiUsage newId ask result)"
  by (auto simp: finish_creation_def record_accepted_kept intro!: keeps_bind split: sum.split creation_outcome.split)

lemma creation_of_owner: "creation_of newId ask url slug = Inr request \<Longrightarrow> nb_ownerId (cq_bookmark request) = ca_accountId ask"
  by (auto simp: creation_of_def new_bookmark_of_def split: sum.splits prod.splits)

lemma createBookmark_kept: "mine (ca_accountId ask) \<Longrightarrow> keeps R (createBookmark store newId aiUsage parse ask)"
  unfolding createBookmark_def
  by (auto simp: checkLength_kept check_description_kept finish_creation_kept creation_of_owner
      intro!: keeps_bind create_kept split: sum.split option.split)

lemma store_update_kept: "mine (ua_accountId ask) \<Longrightarrow> keeps R (store_update store aiUsage ask changes)"
  by (auto simp: store_update_def Let_def hold_member_kept sharedWith_kept record_accepted_kept mine_lower
      intro!: keeps_bind update_kept split: update_result.split)

lemma updateBookmark_kept: "mine (ua_accountId ask) \<Longrightarrow> keeps R (updateBookmark store newId aiUsage parse ask)"
  unfolding updateBookmark_def Let_def
  by (auto simp: checkLength_kept check_description_kept store_update_kept intro!: keeps_bind split: sum.split option.split)

lemma deleteBookmark_kept: "keeps R (deleteBookmark store i account)"
  by (auto simp: deleteBookmark_def Let_def remove_kept sharedWith_kept intro!: keeps_bind)

lemma readBookmark_kept: "keeps R (readBookmark store i account)"
  by (auto simp: readBookmark_def find_kept intro!: keeps_bind)

end

end
