(* ===== verification/LibraryInvariant.thy ===== *)
theory LibraryInvariant
  imports LibraryLaws
begin

text \<open>
  Every operation of the repository of bookmarks keeps the invariant of the library, and with it every service on the store of a
  request.
\<close>

definition preserves :: "('s \<Rightarrow> bool) \<Rightarrow> 's \<Rightarrow> 's \<Rightarrow> bool" where
  "preserves P s s' \<longleftrightarrow> (P s \<longrightarrow> P s')"

interpretation lib: kept_relation "preserves library_ok"
  by unfold_locales (auto simp: preserves_def)

section \<open>Frames\<close>

lemma live_count_frame [simp]:
  "live_count (db\<lparr>folder_bookmarks := x1\<rparr>) = live_count db"
  "live_count (db\<lparr>lb_bookmark_tags := x2\<rparr>) = live_count db"
  "live_count (db\<lparr>lb_tags := x3\<rparr>) = live_count db"
  "live_count (db\<lparr>lb_jobs := x4\<rparr>) = live_count db"
  "live_count (db\<lparr>workspaces := x5\<rparr>) = live_count db"
  "live_count (db\<lparr>lb_ai_usage := x6\<rparr>) = live_count db"
  "live_count (db\<lparr>lb_audit := x7\<rparr>) = live_count db"
  by (simp_all add: live_count_def fun_eq_iff)

lemma folder_link_frame [simp]:
  "folder_link_ok (db\<lparr>folder_bookmarks := x1\<rparr>) = folder_link_ok db"
  "folder_link_ok (db\<lparr>lb_bookmark_tags := x2\<rparr>) = folder_link_ok db"
  "folder_link_ok (db\<lparr>lb_tags := x3\<rparr>) = folder_link_ok db"
  "folder_link_ok (db\<lparr>lb_jobs := x4\<rparr>) = folder_link_ok db"
  "folder_link_ok (db\<lparr>workspaces := x5\<rparr>) = folder_link_ok db"
  "folder_link_ok (db\<lparr>lb_ai_usage := x6\<rparr>) = folder_link_ok db"
  "folder_link_ok (db\<lparr>lb_audit := x7\<rparr>) = folder_link_ok db"
  by (simp_all add: folder_link_ok_def fun_eq_iff)

lemma tag_link_frame [simp]:
  "tag_link_ok (db\<lparr>folder_bookmarks := x1\<rparr>) = tag_link_ok db"
  "tag_link_ok (db\<lparr>lb_bookmark_tags := x2\<rparr>) = tag_link_ok db"
  "tag_link_ok (db\<lparr>lb_jobs := x4\<rparr>) = tag_link_ok db"
  "tag_link_ok (db\<lparr>workspaces := x5\<rparr>) = tag_link_ok db"
  "tag_link_ok (db\<lparr>lb_ai_usage := x6\<rparr>) = tag_link_ok db"
  "tag_link_ok (db\<lparr>lb_audit := x7\<rparr>) = tag_link_ok db"
  by (simp_all add: tag_link_ok_def fun_eq_iff)

lemma shares_frame [simp]:
  "shares_ok (db\<lparr>folder_bookmarks := x1\<rparr>) = shares_ok db"
  "shares_ok (db\<lparr>lb_bookmark_tags := x2\<rparr>) = shares_ok db"
  "shares_ok (db\<lparr>lb_tags := x3\<rparr>) = shares_ok db"
  "shares_ok (db\<lparr>lb_jobs := x4\<rparr>) = shares_ok db"
  "shares_ok (db\<lparr>workspaces := x5\<rparr>) = shares_ok db"
  "shares_ok (db\<lparr>lb_ai_usage := x6\<rparr>) = shares_ok db"
  "shares_ok (db\<lparr>lb_audit := x7\<rparr>) = shares_ok db"
  by (simp_all add: shares_ok_def bookmark_share_ok_def folder_share_ok_def)

lemma folders_frame:
  "lb_folders db' = lb_folders db \<Longrightarrow> folders_ok db' = folders_ok db"
  by (simp add: folders_ok_def)

lemma folders_frames [simp]:
  "folders_ok (db\<lparr>folder_bookmarks := x1\<rparr>) = folders_ok db"
  "folders_ok (db\<lparr>lb_bookmark_tags := x2\<rparr>) = folders_ok db"
  "folders_ok (db\<lparr>lb_tags := x3\<rparr>) = folders_ok db"
  "folders_ok (db\<lparr>lb_jobs := x4\<rparr>) = folders_ok db"
  "folders_ok (db\<lparr>workspaces := x5\<rparr>) = folders_ok db"
  "folders_ok (db\<lparr>lb_ai_usage := x6\<rparr>) = folders_ok db"
  "folders_ok (db\<lparr>lb_audit := x7\<rparr>) = folders_ok db"
  "folders_ok (db\<lparr>bookmarks := x8\<rparr>) = folders_ok db"
  "folders_ok (db\<lparr>bookmark_shares := x9\<rparr>) = folders_ok db"
  "folders_ok (db\<lparr>folder_shares := x10\<rparr>) = folders_ok db"
  "folders_ok (db\<lparr>slug_preferences := x11\<rparr>) = folders_ok db"
  "folders_ok (db\<lparr>lb_now := x12\<rparr>) = folders_ok db"
  "folders_ok (move_count w g db) = folders_ok db"
  "folders_ok (delete_bookmarks P db) = folders_ok db"
  by (rule folders_frame, simp add: move_count_def delete_bookmarks_def Let_def)+

section \<open>Links\<close>

lemma insert_folder_links_ok:
  assumes "insert_folder_links tx rows db = Inr (n, db')" "distinct (map link_key rows)" "library_ok db"
  shows "library_ok db'"
proof -
  obtain a w where own: "list_all (own_folder_link db a w) rows"
    and db': "db' = db\<lparr>folder_bookmarks := folder_bookmarks db @ filter (\<lambda>l. link_key l \<notin> set (map link_key (folder_bookmarks db))) rows\<rparr>"
    using assms(1) by (auto simp: insert_folder_links_def with_workspace_def tx_bind_Inr_iff Let_def split: if_splits)
  have "folder_link_ok db l" if "l \<in> set rows" for l
    using own that by (fastforce simp: list_all_iff own_folder_link_def own_bookmark_id_def owned_folder_def owned_here_def list_ex_iff folder_link_ok_def)
  then show ?thesis
    using assms(2,3) by (auto simp: db' library_ok_defs distinct_map_filter)
qed

lemma insert_tag_links_ok:
  assumes "insert_tag_links tx w rows db = Inr (n, db')" "distinct (map tag_link_key rows)" "library_ok db"
  shows "library_ok db'"
proof -
  obtain a where own: "list_all (own_tag_link db a w) rows"
    and db': "db' = db\<lparr>lb_bookmark_tags := lb_bookmark_tags db @ filter (\<lambda>l. tag_link_key l \<notin> set (map tag_link_key (lb_bookmark_tags db))) rows\<rparr>"
    using assms(1) by (auto simp: insert_tag_links_def Let_def split: if_splits)
  have "tag_link_ok db l" if "l \<in> set rows" for l
    using own that by (fastforce simp: list_all_iff own_tag_link_def own_bookmark_id_def owned_tag_def owned_here_def list_ex_iff tag_link_ok_def)
  then show ?thesis
    using assms(2,3) by (auto simp: db' library_ok_defs distinct_map_filter)
qed

lemma distinct_product:
  "distinct xs \<Longrightarrow> distinct ys \<Longrightarrow> (\<And>x y. x \<in> set xs \<Longrightarrow> y \<in> set ys \<Longrightarrow> k (f x y) = (x, y)) \<Longrightarrow>
     distinct (map k (concat (map (\<lambda>x. map (f x) ys) xs)))"
  by (induction xs) (auto simp: distinct_map inj_on_def map_concat)

lemma insertLinks_kept: "keeps (preserves library_ok) (insertLinks tx folderIds bookmarkIds)"
proof -
  have "keeps (preserves library_ok) (insert_folder_links tx
      (concat (map (\<lambda>f. map (\<lambda>b. \<lparr>fb_workspace_id = w, fb_folder_id = f, fb_bookmark_id = b\<rparr>) (distinctIdentifiers bookmarkIds)) (distinctIdentifiers folderIds))))" for w
    by (rule keepsI, unfold preserves_def, rule impI, rule insert_folder_links_ok, assumption)
       (rule distinct_product, simp_all add: link_key_def)
  then show ?thesis
    by (auto simp: insertLinks_def Let_def intro!: lib.keeps_intros)
qed

lemma insertTagLinksMany_kept: "keeps (preserves library_ok) (insertTagLinksMany tx bookmarkIds tagIds)"
proof -
  have "keeps (preserves library_ok) (insert_tag_links tx w
      (concat (map (\<lambda>b. map (\<lambda>t. \<lparr>bt_workspace_id = w, bt_bookmark_id = b, bt_tag_id = t\<rparr>) (distinctIdentifiers tagIds)) (distinctIdentifiers bookmarkIds))))" for w
    by (rule keepsI, unfold preserves_def, rule impI, rule insert_tag_links_ok, assumption)
       (rule distinct_product, simp_all add: tag_link_key_def)
  then show ?thesis
    by (auto simp: insertTagLinksMany_def Let_def intro!: lib.keeps_intros)
qed

lemma insertTagLinks_kept: "keeps (preserves library_ok) (insertTagLinks tx bookmarkId tagIds)"
proof -
  have "keeps (preserves library_ok) (insert_tag_links tx w
      (map (\<lambda>t. \<lparr>bt_workspace_id = w, bt_bookmark_id = uuid_cast bookmarkId, bt_tag_id = t\<rparr>) (distinctIdentifiers tagIds)))" for w
    by (rule keepsI, unfold preserves_def, rule impI, rule insert_tag_links_ok, assumption)
       (simp_all add: tag_link_key_def distinct_map inj_on_def)
  then show ?thesis
    by (auto simp: insertTagLinks_def Let_def intro!: lib.keeps_intros)
qed

lemma delete_folder_links_kept: "keeps (preserves library_ok) (delete_folder_links tx w picked)"
  by (rule keepsI) (auto simp: delete_folder_links_def Let_def preserves_def library_ok_defs distinct_map_filter)

lemma delete_tag_links_kept: "keeps (preserves library_ok) (delete_tag_links tx w picked)"
  by (rule keepsI) (auto simp: delete_tag_links_def Let_def preserves_def library_ok_defs distinct_map_filter)

lemma delete_links_kept:
  "keeps (preserves library_ok) (deleteLinks tx folderIds bookmarkIds)"
  "keeps (preserves library_ok) (deleteLinksOutside tx keepFolderId bookmarkIds)"
  "keeps (preserves library_ok) (deleteTagLinks tx bookmarkId tagIds)"
  "keeps (preserves library_ok) (deleteTagLinksMany tx bookmarkIds tagIds)"
  by (auto simp: deleteLinks_def deleteLinksOutside_def deleteTagLinks_def deleteTagLinksMany_def Let_def
      delete_folder_links_kept delete_tag_links_kept intro!: lib.keeps_intros)

lemma locks_kept:
  "keeps (preserves library_ok) (lockOwnedFolders tx owner folderIds)"
  "keeps (preserves library_ok) (ownedTagsExist tx owner tagIds)"
  "keeps (preserves library_ok) (lockTaggingOwner tx owner)"
  "keeps (preserves library_ok) (lockTaggingTags tx owner tagging)"
  "keeps (preserves library_ok) (ownedLiveBookmarks w owner bookmarkIds)"
  by (auto simp: lockOwnedFolders_def ownedTagsExist_def lockTaggingOwner_def lockTaggingTags_def ownedLiveBookmarks_def Let_def
      intro!: lib.keeps_intros)

section \<open>Tags by name\<close>

lemma insert_tags_ok: "insert_tags account w owner names db = Inr db' \<Longrightarrow> library_ok db \<Longrightarrow> library_ok db'"
proof (induction account w owner names db rule: insert_tags.induct)
  case (2 account w owner n names db)
  let ?t = "\<lparr>tg_id = uuid_cast (tn_newId n), tg_workspace_id = w, tg_owner_id = owner, tg_name = tn_name n\<rparr>"
  let ?db = "db\<lparr>lb_tags := lb_tags db @ [?t]\<rparr>"
  have link: "tag_link_ok db l \<Longrightarrow> tag_link_ok ?db l" for l
    by (auto simp: tag_link_ok_def)
  have "library_ok ?db"
    if new: "\<not> list_ex (\<lambda>t. owned_tag w owner t \<and> same_name (tg_name t) (tn_name n)) (lb_tags db)"
      "\<not> list_ex (\<lambda>t. tg_id t = uuid_cast (tn_newId n)) (lb_tags db)" "tn_name n \<noteq> []" "\<not> 40 < length (tn_name n)"
  proof -
    have "tags_ok ?db"
      unfolding tags_ok_def
    proof (intro conjI)
      show "distinct (map tg_id (lb_tags ?db))"
        using "2.prems"(2) new(2) by (auto simp: library_ok_def tags_ok_def list_ex_iff)
      show "\<forall>t \<in> set (lb_tags ?db). 1 \<le> length (tg_name t) \<and> length (tg_name t) \<le> 40"
        using "2.prems"(2) new(3,4) by (auto simp: library_ok_def tags_ok_def Suc_le_eq)
      show "\<forall>t \<in> set (lb_tags ?db). \<forall>u \<in> set (lb_tags ?db).
          tg_workspace_id t = tg_workspace_id u \<and> tg_owner_id t = tg_owner_id u \<and> same_name (tg_name t) (tg_name u) \<longrightarrow> tg_id t = tg_id u"
      proof (intro ballI impI)
        fix t u
        assume t: "t \<in> set (lb_tags ?db)" and u: "u \<in> set (lb_tags ?db)"
          and same: "tg_workspace_id t = tg_workspace_id u \<and> tg_owner_id t = tg_owner_id u \<and> same_name (tg_name t) (tg_name u)"
        have clash: "\<not> (tg_workspace_id v = w \<and> tg_owner_id v = owner \<and> js_lower (tg_name v) = js_lower (tn_name n))"
          if "v \<in> set (lb_tags db)" for v
          using new(1) that by (auto simp: list_ex_iff owned_tag_def same_name_def)
        consider "t = ?t" "u = ?t" | "t = ?t" "u \<in> set (lb_tags db)" | "t \<in> set (lb_tags db)" "u = ?t"
          | "t \<in> set (lb_tags db)" "u \<in> set (lb_tags db)"
          using t u by auto
        then show "tg_id t = tg_id u"
        proof cases
          case 2
          then show ?thesis using clash [of u] same by (simp add: same_name_def)
        next
          case 3
          then show ?thesis using clash [of t] same by (simp add: same_name_def)
        next
          case 4
          then show ?thesis using "2.prems"(2) same unfolding library_ok_def tags_ok_def by blast
        qed simp
      qed
    qed
    then show ?thesis
      using "2.prems"(2) link by (simp add: library_ok_def counts_ok_def rows_ok_def links_ok_def)
  qed
  then show ?case
    using 2 by (auto split: if_splits)
qed simp

text \<open>What other transactions commit keeps the invariant.\<close>

definition interference_ok :: "interference \<Rightarrow> bool" where
  "interference_ok others \<longleftrightarrow> (\<forall>db. library_ok db \<longrightarrow> library_ok (if_locks others db) \<and> library_ok (if_names others db))"

lemma resolveTagNames_kept:
  assumes "interference_ok others"
  shows "keeps (preserves library_ok) (resolveTagNames others tx owner names)"
proof (rule keepsI)
  fix db r db'
  assume "resolveTagNames others tx owner names db = Inr (r, db')"
  then consider "db' = db"
    | created a w o' ns where "insert_tags a w o' ns db = Inr created" "db' = if_names others created \<or> db' = if_names others db"
    by (auto simp: resolveTagNames_def with_workspace_def tx_bind_Inr_iff Let_def split: if_splits sum.splits)
  then show "preserves library_ok db db'"
    using assms insert_tags_ok by cases (auto simp: preserves_def interference_ok_def)
qed

lemma tagIdsOf_kept: "interference_ok others \<Longrightarrow> keeps (preserves library_ok) (tagIdsOf others tx owner tagging)"
  by (auto simp: tagIdsOf_def resolveTagNames_kept intro!: lib.keeps_intros)

section \<open>Rewriting bookmarks\<close>

text \<open>What the references to a bookmark and the counter of its workspace see of it.\<close>

definition same_place :: "bookmark_row \<Rightarrow> bookmark_row \<Rightarrow> bool" where
  "same_place b c \<longleftrightarrow> bm_id c = bm_id b \<and> bm_workspace_id c = bm_workspace_id b \<and> bm_owner_id c = bm_owner_id b"

abbreviation rewritten :: "(bookmark_row \<Rightarrow> bookmark_row) \<Rightarrow> library \<Rightarrow> library" where
  "rewritten g db \<equiv> db\<lparr>bookmarks := map g (bookmarks db)\<rparr>"

lemma links_ok_rewritten:
  assumes "\<And>b. b \<in> set (bookmarks db) \<Longrightarrow> same_place b (g b)" "links_ok db"
  shows "links_ok (rewritten g db)"
proof -
  have "folder_link_ok (rewritten g db) l" if "folder_link_ok db l" for l
    using that assms(1) by (fastforce simp: folder_link_ok_def same_place_def)
  moreover have "tag_link_ok (rewritten g db) l" if "tag_link_ok db l" for l
    using that assms(1) by (fastforce simp: tag_link_ok_def same_place_def)
  ultimately show ?thesis
    using assms(2) by (simp add: links_ok_def)
qed

lemma rows_ok_rewritten:
  assumes g: "\<And>b. b \<in> set (bookmarks db) \<Longrightarrow> same_place b (g b) \<and> bm_slug (g b) = bm_slug b \<and> bookmark_checks (g b)" and ok: "rows_ok db"
  shows "rows_ok (rewritten g db)"
proof -
  have "map bm_id (map g (bookmarks db)) = map bm_id (bookmarks db)"
    using g by (simp add: same_place_def)
  moreover have "bm_id (g b) = bm_id (g c)" if "b \<in> set (bookmarks db)" "c \<in> set (bookmarks db)" "slug_clash (g b) (g c)" for b c
  proof -
    have "slug_clash b c"
      using that(3) g [OF that(1)] g [OF that(2)] by (simp add: slug_clash_def same_place_def)
    then show ?thesis
      using ok that g by (simp add: rows_ok_def same_place_def)
  qed
  moreover have "uuid_cast (bm_id (g b)) = bm_id (g b)" if "b \<in> set (bookmarks db)" for b
    using g [OF that] ok that by (simp add: rows_ok_def same_place_def)
  ultimately show ?thesis
    using g ok by (simp add: rows_ok_def del: map_map)
qed

lemma live_count_rewritten:
  "(\<And>b. b \<in> set (bookmarks db) \<Longrightarrow> live_in w (g b) = live_in w b) \<Longrightarrow> live_count (rewritten g db) w = live_count db w"
  by (simp add: live_count_def filter_map o_def cong: filter_cong)

lemma bump_version_same [simp]:
  "bm_id (bump_version b c) = bm_id c" "bm_workspace_id (bump_version b c) = bm_workspace_id c"
  "bm_owner_id (bump_version b c) = bm_owner_id c" "bm_slug (bump_version b c) = bm_slug c"
  "bm_plan_archived_at (bump_version b c) = bm_plan_archived_at c" "bookmark_checks (bump_version b c) = bookmark_checks c"
  by (simp_all add: bump_version_def bookmark_checks_def split: option.split)

lemma checks_rows [simp]:
  "bookmark_checks (pin_row now pinned b) = bookmark_checks b" "bookmark_checks (archive_row now archived b) = bookmark_checks b"
  by (simp_all add: pin_row_def archive_row_def) (simp_all add: bookmark_checks_def split: option.split)

lemma tags_ok_rewritten: "tags_ok (rewritten g db) = tags_ok db"
  by (simp add: tags_ok_def)

lemma shares_ok_rewritten:
  assumes "\<And>b. b \<in> set (bookmarks db) \<Longrightarrow> same_place b (g b)" "shares_ok db"
  shows "shares_ok (rewritten g db)"
proof -
  have "bookmark_share_ok (rewritten g db) s" if "bookmark_share_ok db s" for s
    using that assms(1) by (fastforce simp: bookmark_share_ok_def same_place_def)
  then show ?thesis
    using assms(2) by (simp add: shares_ok_def folder_share_ok_def)
qed

lemma db_setPinned_kept: "keeps (preserves library_ok) (db_setPinned tx bookmarkIds owner pinned)"
proof (rule keepsI)
  fix db r db'
  assume "db_setPinned tx bookmarkIds owner pinned db = Inr (r, db')"
  then obtain picked where db': "db' = rewritten (\<lambda>b. if picked b then pin_row (lb_now db) pinned b else b) db"
    by (auto simp: db_setPinned_def with_workspace_def tx_bind_Inr_iff Let_def)
  let ?g = "\<lambda>b. if picked b then pin_row (lb_now db) pinned b else b"
  have g: "same_place b (?g b) \<and> bm_slug (?g b) = bm_slug b \<and> live_in w (?g b) = live_in w b" for b w
    by (simp add: same_place_def pin_row_def live_in_def)
  show "preserves library_ok db db'"
    unfolding preserves_def
  proof
    assume ok: "library_ok db"
    have "bookmark_checks (?g b)" if "b \<in> set (bookmarks db)" for b
      using ok that by (simp add: library_ok_def rows_ok_def)
    then have "rows_ok (rewritten ?g db)" "links_ok (rewritten ?g db)" "shares_ok (rewritten ?g db)"
      using ok g rows_ok_rewritten [of db ?g] links_ok_rewritten [of db ?g] shares_ok_rewritten [of db ?g] by (simp_all add: library_ok_def)
    moreover have "live_count (rewritten ?g db) w = live_count db w" for w
      by (rule live_count_rewritten) (use g in blast)
    ultimately show "library_ok db'"
      using ok by (simp add: library_ok_def db' tags_ok_rewritten counts_ok_def)
  qed
qed

section \<open>The counter\<close>

lemma move_count_frame [simp]:
  "bookmarks (move_count w f db) = bookmarks db" "folder_bookmarks (move_count w f db) = folder_bookmarks db"
  "lb_bookmark_tags (move_count w f db) = lb_bookmark_tags db" "lb_tags (move_count w f db) = lb_tags db"
  "lb_folders (move_count w f db) = lb_folders db" "lb_now (move_count w f db) = lb_now db"
  "workspace_members (move_count w f db) = workspace_members db"
  by (simp_all add: move_count_def)

lemma move_count_rest [simp]:
  "rows_ok (move_count w f db) = rows_ok db" "links_ok (move_count w f db) = links_ok db" "tags_ok (move_count w f db) = tags_ok db"
  "shares_ok (move_count w f db) = shares_ok db"
  by (simp_all add: rows_ok_def links_ok_def tags_ok_def move_count_def)

lemma move_count_counts:
  assumes "counts_ok db" "workspaces db' = workspaces db" "live_count db' w = f (live_count db w)" "\<And>v. v \<noteq> w \<Longrightarrow> live_count db' v = live_count db v"
  shows "counts_ok (move_count w f db')"
proof -
  have "map ws_id (workspaces (move_count w f db')) = map ws_id (workspaces db)"
    using assms(2) by (simp add: move_count_def)
  moreover have "live_count (move_count w f db') = live_count db'"
    by (simp add: live_count_def fun_eq_iff)
  ultimately show ?thesis
    using assms by (auto simp: counts_ok_def move_count_def simp del: map_map)
qed

lemma lower_count_Inr:
  "lower_count w n db = Inr db' \<longleftrightarrow> (\<forall>x \<in> set (workspaces db). ws_id x = w \<longrightarrow> n \<le> ws_bookmark_count x) \<and> db' = move_count w (\<lambda>c. c - n) db"
  by (auto simp: lower_count_def list_ex_iff not_less)

section \<open>Deleting\<close>

lemma rows_ok_filter:
  assumes "rows_ok db" "bookmarks db' = filter Q (bookmarks db)"
  shows "rows_ok db'"
  unfolding rows_ok_def
proof (intro conjI ballI impI)
  show "distinct (map bm_id (bookmarks db'))"
    using assms by (simp add: rows_ok_def distinct_map_filter)
qed (use assms in \<open>auto simp only: rows_ok_def set_filter\<close>)

lemma links_of_deleted:
  "folder_bookmarks (delete_bookmarks P db) = filter (\<lambda>l. fb_bookmark_id l \<notin> set (map bm_id (filter P (bookmarks db)))) (folder_bookmarks db)"
  "lb_bookmark_tags (delete_bookmarks P db) = filter (\<lambda>l. bt_bookmark_id l \<notin> set (map bm_id (filter P (bookmarks db)))) (lb_bookmark_tags db)"
  by (simp_all add: delete_bookmarks_def Let_def)

lemma share_rows_ok_filtered:
  assumes "share_rows_ok (map g xs)"
  shows "share_rows_ok (map g (filter Q xs))"
proof -
  have "distinct (map sh_id (map g (filter Q xs)))"
    using assms by (simp add: share_rows_ok_def distinct_map_filter)
  moreover have "set (map g (filter Q xs)) \<subseteq> set (map g xs)"
    by auto
  ultimately show ?thesis
    using assms unfolding share_rows_ok_def by (intro conjI) blast+
qed

lemma delete_bookmarks_rest:
  assumes "library_ok db"
  shows "rows_ok (delete_bookmarks P db)" "links_ok (delete_bookmarks P db)" "tags_ok (delete_bookmarks P db)"
    "shares_ok (delete_bookmarks P db)"
proof -
  have kept: "\<not> P b" if "b \<in> set (bookmarks db)" "bm_id b \<notin> set (map bm_id (filter P (bookmarks db)))" for b
    using that by auto
  show "rows_ok (delete_bookmarks P db)"
    by (rule rows_ok_filter [of db _ "\<lambda>b. \<not> P b"]) (use assms in \<open>simp_all add: library_ok_def delete_bookmarks_def Let_def\<close>)
  have "tags_ok (delete_bookmarks P db) = tags_ok db"
    by (simp add: delete_bookmarks_def Let_def tags_ok_def)
  then show "tags_ok (delete_bookmarks P db)"
    using assms by (simp add: library_ok_def)
  have remain: "b \<in> set (bookmarks (delete_bookmarks P db))"
    if "b \<in> set (bookmarks db)" "bm_id b \<notin> set (map bm_id (filter P (bookmarks db)))" for b
    using that kept [OF that] by (simp add: delete_bookmarks_def Let_def)
  have shares: "bookmark_shares (delete_bookmarks P db) = filter (\<lambda>s. bs_bookmark_id s \<notin> set (map bm_id (filter P (bookmarks db)))) (bookmark_shares db)"
    "folder_shares (delete_bookmarks P db) = folder_shares db"
    by (simp_all add: delete_bookmarks_def Let_def)
  have frame: "lb_folders (delete_bookmarks P db) = lb_folders db" "lb_tags (delete_bookmarks P db) = lb_tags db"
    by (simp_all add: delete_bookmarks_def Let_def)
  have "folder_link_ok (delete_bookmarks P db) l"
    if "folder_link_ok db l" "fb_bookmark_id l \<notin> set (map bm_id (filter P (bookmarks db)))" for l
    using that unfolding folder_link_ok_def frame by (metis remain)
  moreover have "tag_link_ok (delete_bookmarks P db) l"
    if "tag_link_ok db l" "bt_bookmark_id l \<notin> set (map bm_id (filter P (bookmarks db)))" for l
    using that unfolding tag_link_ok_def frame by (metis remain)
  ultimately show "links_ok (delete_bookmarks P db)"
    using assms unfolding links_ok_def library_ok_def by (auto simp: links_of_deleted distinct_map_filter simp del: set_map)
  have "bookmark_share_ok (delete_bookmarks P db) s"
    if "bookmark_share_ok db s" "bs_bookmark_id s \<notin> set (map bm_id (filter P (bookmarks db)))" for s
    using that unfolding bookmark_share_ok_def by (metis remain)
  moreover have "folder_share_ok (delete_bookmarks P db) = folder_share_ok db"
    by (simp add: fun_eq_iff folder_share_ok_def frame)
  ultimately show "shares_ok (delete_bookmarks P db)"
    using assms unfolding shares_ok_def library_ok_def shares
    by (auto intro: share_rows_ok_filtered simp del: set_map)
qed

lemma delete_bookmarks_frame [simp]:
  "workspaces (delete_bookmarks P db) = workspaces db" "lb_tags (delete_bookmarks P db) = lb_tags db"
  by (simp_all add: delete_bookmarks_def Let_def)

lemma live_count_delete:
  "live_count (delete_bookmarks P db) w = live_count db w - length (filter (\<lambda>b. P b \<and> live_in w b) (bookmarks db))"
proof -
  have "length (filter (live_in w) (bookmarks db)) =
      length (filter (\<lambda>b. live_in w b \<and> P b) (bookmarks db)) + length (filter (\<lambda>b. live_in w b \<and> \<not> P b) (bookmarks db))"
    using sum_length_filter_compl [of P "filter (live_in w) (bookmarks db)"] by (simp add: conj_commute)
  then show ?thesis
    by (simp add: live_count_def delete_bookmarks_def Let_def conj_commute)
qed

text \<open>Deleting rows of one workspace and lowering its counter by those that were live.\<close>

lemma delete_and_lower_ok:
  assumes ok: "library_ok db" and P: "\<And>b. P b \<Longrightarrow> bm_workspace_id b = w"
    and n: "n = length (filter (\<lambda>b. P b \<and> bm_plan_archived_at b = None) (bookmarks db))"
  shows "library_ok (move_count w (\<lambda>c. c - n) (delete_bookmarks P db))"
proof -
  have here: "(P b \<and> live_in w b) = (P b \<and> bm_plan_archived_at b = None)" for b
    using P by (auto simp: live_in_def)
  have "(P b \<and> live_in v b) = False" if "v \<noteq> w" for v b
    using P that by (auto simp: live_in_def)
  then have "counts_ok (move_count w (\<lambda>c. c - n) (delete_bookmarks P db))"
    using ok by (intro move_count_counts [of db]) (simp_all add: library_ok_def live_count_delete here n)
  then show ?thesis
    using delete_bookmarks_rest [OF ok, of P] ok by (simp add: library_ok_def)
qed

lemma move_count_same [simp]: "move_count w (\<lambda>c. c - 0) db = db"
proof -
  have "map (\<lambda>x. if ws_id x = w then x\<lparr>ws_bookmark_count := ws_bookmark_count x\<rparr> else x) (workspaces db) = workspaces db"
    by (rule map_idI) simp
  then show ?thesis
    by (simp add: move_count_def)
qed

end
