(* ===== verification/LibraryKept.thy ===== *)
theory LibraryKept
  imports LibraryInvariant
begin

text \<open>
  The repository of bookmarks keeps the invariant of the library: deletion, archiving, changes and creation, each with the counter
  it moves.
\<close>

lemma map_sum_Pair_Inr [simp]: "map_sum id (Pair x) m = Inr (r, s) \<longleftrightarrow> r = x \<and> m = Inr s"
  by (cases m) auto

lemma map_sum_Inr_iff: "map_sum id f m = Inr y \<longleftrightarrow> (\<exists>x. m = Inr x \<and> y = f x)"
  by (cases m) auto

lemma map_sum_answer_Inr [simp]: "map_sum id (\<lambda>x. (x, s)) m = Inr (r, s') \<longleftrightarrow> m = Inr r \<and> s' = s"
  by (cases m) auto

section \<open>Deletion\<close>

lemma keyed_filter:
  "distinct (map k xs) \<Longrightarrow> x \<in> set xs \<Longrightarrow> filter (\<lambda>y. k y = k x \<and> Q y) xs = (if Q x then [x] else [])"
proof (induction xs)
  case (Cons y ys)
  then show ?case
    by (auto simp: filter_empty_conv) (metis imageI)+
qed simp

lemma sys_bookmark_delete_ok:
  assumes "sys_bookmark_delete a w i db = Inr (r, db')" "library_ok db"
  shows "library_ok db'"
proof (cases "db' = db")
  case False
  let ?P = "\<lambda>c. bm_id c = i \<and> owned_here a w c"
  have "live_workspace db w \<noteq> None" "find ?P (bookmarks db) \<noteq> None"
    using assms(1) False by (auto simp: sys_bookmark_delete_def split: if_splits option.splits)
  then obtain b where found: "find ?P (bookmarks db) = Some b" by blast
  then have b: "b \<in> set (bookmarks db)" "bm_id b = i" "owned_here a w b"
    by (auto simp: find_Some_iff)
  let ?n = "if bm_plan_archived_at b = None then 1 else 0"
  have "filter (\<lambda>c. bm_id c = bm_id b \<and> (owned_here a w c \<and> bm_plan_archived_at c = None)) (bookmarks db) =
      (if owned_here a w b \<and> bm_plan_archived_at b = None then [b] else [])"
    by (rule keyed_filter) (use assms(2) b(1) in \<open>simp_all add: library_ok_def rows_ok_def\<close>)
  then have "?n = length (filter (\<lambda>c. ?P c \<and> bm_plan_archived_at c = None) (bookmarks db))"
    using b by (simp add: conj_assoc)
  then have "library_ok (move_count w (\<lambda>c. c - ?n) (delete_bookmarks ?P db))"
    by (intro delete_and_lower_ok assms(2)) (auto simp: owned_here_def)
  moreover have "db' = move_count w (\<lambda>c. c - ?n) (delete_bookmarks ?P db)"
    using assms(1) found \<open>live_workspace db w \<noteq> None\<close>
    by (auto simp: sys_bookmark_delete_def Let_def lower_count_Inr move_count_same [simplified] split: if_splits)
  ultimately show ?thesis by simp
qed (use assms(2) in simp)

lemma sys_bookmark_delete_many_ok:
  assumes "sys_bookmark_delete_many a w ids db = Inr (r, db')" "library_ok db"
  shows "library_ok db'"
proof (cases "db' = db")
  case False
  let ?P = "\<lambda>b. owned_here a w b \<and> bm_id b \<in> set ids"
  let ?n = "length (filter (\<lambda>b. ?P b \<and> bm_plan_archived_at b = None) (bookmarks db))"
  have "library_ok (move_count w (\<lambda>c. c - ?n) (delete_bookmarks ?P db))"
    by (intro delete_and_lower_ok assms(2)) (auto simp: owned_here_def)
  moreover have "filter (\<lambda>b. bm_plan_archived_at b = None) (filter ?P (bookmarks db)) = filter (\<lambda>b. ?P b \<and> bm_plan_archived_at b = None) (bookmarks db)"
    by (simp add: conj_commute)
  then have "db' = move_count w (\<lambda>c. c - ?n) (delete_bookmarks ?P db)"
    using assms(1) False
    by (auto simp: sys_bookmark_delete_many_def Let_def lower_count_Inr move_count_same [simplified] simp del: filter_filter split: if_splits)
  ultimately show ?thesis by simp
qed (use assms(2) in simp)

lemma db_remove_kept: "keeps (preserves library_ok) (db_remove tx i owner)"
  by (auto simp: db_remove_def intro!: lib.keeps_intros)
     (rule keepsI, auto simp: preserves_def intro: sys_bookmark_delete_ok)

lemma db_removeMany_kept: "keeps (preserves library_ok) (db_removeMany tx ids)"
  by (auto simp: db_removeMany_def intro!: lib.keeps_intros)
     (rule keepsI, auto simp: preserves_def intro: sys_bookmark_delete_many_ok)

section \<open>Archiving\<close>

lemma archived_count:
  assumes "\<And>b. D b \<longleftrightarrow> archive_differs w ids archive b"
  shows "length (filter (live_in w) (map (\<lambda>b. if D b then archive_row now archive b else b) bs)) =
    (if archive then length (filter (live_in w) bs) - length (filter D bs) else length (filter (live_in w) bs) + length (filter D bs))"
    and "archive \<Longrightarrow> length (filter D bs) \<le> length (filter (live_in w) bs)"
    and "v \<noteq> w \<Longrightarrow> length (filter (live_in v) (map (\<lambda>b. if D b then archive_row now archive b else b) bs)) = length (filter (live_in v) bs)"
proof -
  have row: "live_in u (archive_row now archive b) \<longleftrightarrow> bm_workspace_id b = u \<and> \<not> archive" for u b
    by (simp add: archive_row_def live_in_def)
  have D: "D b \<Longrightarrow> bm_workspace_id b = w \<and> (live_in w b \<longleftrightarrow> archive)" for b
    using assms by (simp add: archive_differs_def live_in_def)
  show le: "length (filter D bs) \<le> length (filter (live_in w) bs)" if archive
    using D that by (induction bs) auto
  show "length (filter (live_in w) (map (\<lambda>b. if D b then archive_row now archive b else b) bs)) =
    (if archive then length (filter (live_in w) bs) - length (filter D bs) else length (filter (live_in w) bs) + length (filter D bs))"
  proof (cases archive)
    case True
    then have "length (filter (live_in w) (map (\<lambda>b. if D b then archive_row now archive b else b) bs)) + length (filter D bs) = length (filter (live_in w) bs)"
      using D row by (induction bs) auto
    then show ?thesis using True by simp
  next
    case False
    then show ?thesis using D row by (induction bs) auto
  qed
  show "length (filter (live_in v) (map (\<lambda>b. if D b then archive_row now archive b else b) bs)) = length (filter (live_in v) bs)" if "v \<noteq> w"
    using D row that by (induction bs) (auto simp: live_in_def)
qed

lemma sys_bookmark_archive_set_ok:
  assumes "sys_bookmark_archive_set a w ids archive db = Inr (r, db')" "library_ok db"
  shows "library_ok db'"
proof (cases "db' = db")
  case False
  let ?D = "archive_differs w ids archive"
  let ?g = "\<lambda>b. if ?D b then archive_row (lb_now db) archive b else b"
  let ?f = "\<lambda>c. if archive then c - length (filter ?D (bookmarks db)) else c + length (filter ?D (bookmarks db))"
  have db': "db' = move_count w ?f (rewritten ?g db)"
    using assms(1) False by (auto simp: sys_bookmark_archive_set_def Let_def lower_count_Inr split: if_splits)
  have same: "same_place b (?g b) \<and> bm_slug (?g b) = bm_slug b" for b
    by (simp add: same_place_def archive_row_def)
  have "bookmark_checks (?g b)" if "b \<in> set (bookmarks db)" for b
    using assms(2) that by (simp add: library_ok_def rows_ok_def)
  then have "rows_ok (rewritten ?g db)" "links_ok (rewritten ?g db)" "shares_ok (rewritten ?g db)"
    using assms(2) same rows_ok_rewritten [of db ?g] links_ok_rewritten [of db ?g] shares_ok_rewritten [of db ?g] by (simp_all add: library_ok_def)
  moreover have "counts_ok (move_count w ?f (rewritten ?g db))"
    by (rule move_count_counts [of db])
       (use assms(2) archived_count(1,3) [where D = "?D" and bs = "bookmarks db" and now = "lb_now db", OF HOL.refl]
         in \<open>simp_all add: library_ok_def live_count_def del: filter_map\<close>)
  ultimately show ?thesis
    using assms(2) by (simp add: library_ok_def db' tags_ok_rewritten)
qed (use assms(2) in simp)

lemma db_setArchived_kept: "keeps (preserves library_ok) (db_setArchived tx ids archived)"
  by (auto simp: db_setArchived_def intro!: lib.keeps_intros)
     (rule keepsI, auto simp: preserves_def intro: sys_bookmark_archive_set_ok)

section \<open>Changes\<close>

text \<open>A write to the columns of a row: its key, its place and its archive state stay.\<close>

definition stays :: "bookmark_row \<Rightarrow> bookmark_row \<Rightarrow> bool" where
  "stays b c \<longleftrightarrow> same_place b c \<and> bm_plan_archived_at c = bm_plan_archived_at b"

lemma stays_refl [simp]: "stays b b"
  by (simp add: stays_def same_place_def)

lemma stays_trans: "stays a b \<Longrightarrow> stays b c \<Longrightarrow> stays a c"
  by (simp add: stays_def same_place_def)

lemma stays_bump [simp]: "stays b (bump_version c d) = stays b d"
  by (simp add: stays_def same_place_def)

lemma column_sets_stay:
  assumes "put \<in> set (column_sets now changes b)"
  shows "stays c (put c)"
proof -
  have one: "\<exists>v. put = f v" if "put \<in> set (when_differs wanted x f)" for wanted x f
    using that by (auto simp: when_differs_def split: option.splits if_splits)
  show ?thesis
    using assms by (auto simp: column_sets_def set_url_def stays_def same_place_def dest!: one split: if_splits)
qed

lemma apply_sets_stay: "(\<And>put c. put \<in> set sets \<Longrightarrow> stays c (put c)) \<Longrightarrow> stays b (apply_sets sets b)"
proof (induction sets arbitrary: b)
  case (Cons put sets)
  have "stays b (put b)" "stays (put b) (apply_sets sets (put b))"
    using Cons.prems by (auto intro: Cons.IH)
  then have "stays b (apply_sets sets (put b))"
    by (rule stays_trans)
  then show ?case
    by (simp add: apply_sets_def)
qed (simp add: apply_sets_def)

lemma write_bookmark_ok:
  assumes "write_bookmark w i change db = Inr (r, db')" "\<And>b. stays b (change b)" "library_ok db"
  shows "library_ok db'"
proof (cases "find (\<lambda>b. bm_workspace_id b = w \<and> bm_id b = i) (bookmarks db)")
  case (Some old)
  let ?new = "bump_version old (change old)"
  let ?g = "\<lambda>b. if bm_id b = i then ?new else b"
  have old: "old \<in> set (bookmarks db)" "bm_id old = i"
    using Some by (auto simp: find_Some_iff)
  have db': "db' = rewritten ?g db" and checks: "bookmark_checks ?new"
    and free: "\<not> list_ex (\<lambda>c. bm_id c \<noteq> i \<and> slug_clash ?new c) (bookmarks db)"
    using assms(1) Some by (simp_all add: write_bookmark_def Let_def split: if_splits)
  have new: "stays old ?new"
    using assms(2) by simp
  have one: "b = old" if "b \<in> set (bookmarks db)" "bm_id b = i" for b
    using assms(3) that old by (auto simp: library_ok_def rows_ok_def distinct_map dest: inj_onD)
  have g: "stays b (?g b)" if "b \<in> set (bookmarks db)" for b
    using one [OF that] new by (cases "bm_id b = i") simp_all
  have "rows_ok (rewritten ?g db)"
    unfolding rows_ok_def
  proof (intro conjI ballI impI)
    have "map bm_id (map ?g (bookmarks db)) = map bm_id (bookmarks db)"
      using g by (simp add: stays_def same_place_def)
    then show "distinct (map bm_id (bookmarks (rewritten ?g db)))"
      using assms(3) by (simp add: library_ok_def rows_ok_def del: map_map)
    show "bookmark_checks b" "uuid_cast (bm_id b) = bm_id b" if "b \<in> set (bookmarks (rewritten ?g db))" for b
      using that checks new old assms(3) by (auto simp: library_ok_def rows_ok_def stays_def same_place_def)
    have sym: "slug_clash c b" if "slug_clash b c" for b c
      using that by (auto simp: slug_clash_def)
    show "bm_id b = bm_id c"
      if "b \<in> set (bookmarks (rewritten ?g db))" "c \<in> set (bookmarks (rewritten ?g db))" "slug_clash b c" for b c
    proof -
      have "(b = ?new \<or> b \<in> set (bookmarks db) \<and> bm_id b \<noteq> i) \<and> (c = ?new \<or> c \<in> set (bookmarks db) \<and> bm_id c \<noteq> i)"
        using that(1,2) by auto
      moreover have "bm_id b = bm_id c" if "b \<in> set (bookmarks db)" "c \<in> set (bookmarks db)"
        using assms(3) that \<open>slug_clash b c\<close> unfolding library_ok_def rows_ok_def by blast
      ultimately show ?thesis
        using free that(3) sym by (auto simp: list_ex_iff)
    qed
  qed
  moreover have "links_ok (rewritten ?g db)"
    by (rule links_ok_rewritten) (use g assms(3) in \<open>simp_all add: stays_def library_ok_def\<close>)
  moreover have "shares_ok (rewritten ?g db)"
    by (rule shares_ok_rewritten) (use g assms(3) in \<open>simp_all add: stays_def library_ok_def\<close>)
  moreover have "live_count (rewritten ?g db) v = live_count db v" for v
    by (rule live_count_rewritten) (use g in \<open>simp add: stays_def same_place_def live_in_def\<close>)
  ultimately show ?thesis
    using assms(3) by (simp add: db' library_ok_def counts_ok_def tags_ok_rewritten)
qed (use assms(1,3) in \<open>simp add: write_bookmark_def\<close>)

lemma change_row_kept:
  assumes "\<And>put c. put \<in> set sets \<Longrightarrow> stays c (put c)"
  shows "keeps (preserves library_ok) (change_row w i sets current)"
proof (rule keepsI, unfold preserves_def, rule impI)
  fix db r db'
  assume "change_row w i sets current db = Inr (r, db')" "library_ok db"
  then show "library_ok db'"
    using write_bookmark_ok [of w i "apply_sets sets" db "Some r" db', OF _ apply_sets_stay] assms
    by (auto simp: change_row_def tx_return_def split: if_splits sum.splits option.splits)
qed

lemma enqueue_kept: "keeps (preserves library_ok) (enqueueInTenantTransaction job)"
  by (rule keepsI)
     (auto simp: enqueueInTenantTransaction_def preserves_def library_ok_defs split: if_splits option.splits)

lemma enqueue_jobs_kept: "keeps (preserves library_ok) (enqueue_jobs jobs)"
  by (induction jobs) (auto simp: enqueue_kept intro!: lib.keeps_intros)

lemma apply_change_kept: "keeps (preserves library_ok) (apply_change name_key tx w request current wanted filed carried now)"
  by (auto simp: apply_change_def Let_def enqueue_jobs_kept delete_links_kept insertLinks_kept insertTagLinks_kept
      intro!: lib.keeps_intros change_row_kept column_sets_stay)

lemma check_change_kept: "keeps (preserves library_ok) (check_change tx w request current)"
  by (auto simp: check_change_def Let_def locks_kept intro!: lib.keeps_intros split: option.split)

lemma db_update_kept: "interference_ok others \<Longrightarrow> keeps (preserves library_ok) (db_update others name_key tx request)"
  by (auto simp: db_update_def Let_def locks_kept check_change_kept tagIdsOf_kept apply_change_kept
      intro!: lib.keeps_intros split: option.split)

section \<open>Creation\<close>

lemma insert_bookmark_ok:
  assumes "insert_bookmark b db = Inr db'" "rows_ok db" "links_ok db" "tags_ok db" "shares_ok db" "uuid_cast (bm_id b) = bm_id b"
  shows "rows_ok db' \<and> links_ok db' \<and> tags_ok db' \<and> shares_ok db'"
proof -
  have db': "db' = db\<lparr>bookmarks := bookmarks db @ [b]\<rparr>" and new: "bookmark_checks b" "\<not> list_ex (\<lambda>c. bm_id c = bm_id b) (bookmarks db)"
    "\<not> list_ex (slug_clash b) (bookmarks db)"
    using assms(1) by (simp_all add: insert_bookmark_def split: if_splits)
  have "rows_ok db'"
    unfolding rows_ok_def
  proof (intro conjI ballI impI)
    have old: "distinct (map bm_id (bookmarks db))" "\<forall>c \<in> set (bookmarks db). bookmark_checks c \<and> uuid_cast (bm_id c) = bm_id c"
      using assms(2) by (auto simp only: rows_ok_def)
    show "distinct (map bm_id (bookmarks db'))" "\<And>c. c \<in> set (bookmarks db') \<Longrightarrow> bookmark_checks c"
      "\<And>c. c \<in> set (bookmarks db') \<Longrightarrow> uuid_cast (bm_id c) = bm_id c"
      using new old assms(6) by (auto simp: db' list_ex_iff)
    have "\<not> slug_clash c b" if "c \<in> set (bookmarks db)" for c
      using new(3) that by (auto simp: list_ex_iff slug_clash_def)
    moreover have "bm_id c = bm_id d" if "c \<in> set (bookmarks db)" "d \<in> set (bookmarks db)" "slug_clash c d" for c d
      using assms(2) that unfolding rows_ok_def by blast
    ultimately show "bm_id c = bm_id d" if "c \<in> set (bookmarks db')" "d \<in> set (bookmarks db')" "slug_clash c d" for c d
      using that new(3) by (auto simp: db' list_ex_iff)
  qed
  moreover have "folder_link_ok db l \<Longrightarrow> folder_link_ok db' l" "tag_link_ok db k \<Longrightarrow> tag_link_ok db' k" for l k
    by (auto simp: db' folder_link_ok_def tag_link_ok_def)
  then have "links_ok db'"
    using assms(3) by (simp add: links_ok_def) (simp add: db')
  moreover have "tags_ok db'"
    using assms(4) by (simp add: db' tags_ok_def)
  moreover have "shares_ok db'"
    using assms(5) by (auto simp: db' shares_ok_def bookmark_share_ok_def folder_share_ok_def)
  ultimately show ?thesis by simp
qed

text \<open>A place is taken and its bookmark written: the counter and the rows move together.\<close>

lemma take_and_insert_ok:
  assumes "sys_bookmark_count_take a w ceiling db = (Taken n, db1)" "insert_bookmark row db1 = Inr db2"
    "bm_workspace_id row = w" "bm_plan_archived_at row = None" "library_ok db" "uuid_cast (bm_id row) = bm_id row"
  shows "library_ok db2"
proof -
  have db1: "db1 = move_count w (\<lambda>c. c + 1) db"
    using assms(1) by (auto simp: sys_bookmark_count_take_def split: if_splits option.splits)
  have db2: "db2 = db1\<lparr>bookmarks := bookmarks db1 @ [row]\<rparr>"
    using assms(2) by (simp add: insert_bookmark_def split: if_splits)
  have "counts_ok (move_count w (\<lambda>c. c + 1) (db\<lparr>bookmarks := bookmarks db @ [row]\<rparr>))"
    by (rule move_count_counts [of db]) (use assms(3-5) in \<open>simp_all add: library_ok_def live_count_def live_in_def\<close>)
  moreover have "db2 = move_count w (\<lambda>c. c + 1) (db\<lparr>bookmarks := bookmarks db @ [row]\<rparr>)"
    by (simp add: db1 db2 move_count_def)
  ultimately show ?thesis
    using insert_bookmark_ok [OF assms(2)] assms(5,6) by (simp add: library_ok_def db1)
qed

lemma create_links_kept:
  assumes "interference_ok others" "library_ok savepoint"
  shows "keeps (preserves library_ok) (create_links others tx creation i savepoint)"
proof -
  have "keeps (preserves library_ok) (\<lambda>_. Inr (Some result, if_locks others savepoint))"
    "keeps (preserves library_ok) (\<lambda>_. Inr (Some result, if_names others (if_locks others savepoint)))" for result :: creation_result
    using assms by (auto simp: keeps_def preserves_def interference_ok_def)
  then show ?thesis
    using assms(1) by (auto simp: create_links_def Let_def locks_kept insertLinks_kept insertTagLinks_kept tagIdsOf_kept
        intro!: lib.keeps_intros split: option.split)
qed

lemma create_place_kept:
  assumes "interference_ok others"
  shows "keeps (preserves library_ok) (create_place others name_key tx w creation)"
proof (rule keepsI, unfold preserves_def, rule impI)
  fix db r db'
  assume run: "create_place others name_key tx w creation db = Inr (r, db')" and ok: "library_ok db"
  obtain outcome db1 where take: "sys_bookmark_count_take (uuid_cast (tx_accountId tx)) w (bc_ceiling creation) db = (outcome, db1)"
    by fastforce
  show "library_ok db'"
  proof (cases outcome)
    case (Taken n)
    let ?row = "row_of_new w (lb_now db1) (bc_bookmark creation)"
    obtain db2 where ins: "insert_bookmark ?row db1 = Inr db2"
      using run by (auto simp: create_place_def take Taken Let_def split: sum.splits)
    have "library_ok db2"
      by (rule take_and_insert_ok [OF take [unfolded Taken] ins _ _ ok _]) (simp_all add: row_of_new_def)
    then have "library_ok (if_locks others db2)"
      using assms by (simp add: interference_ok_def)
    moreover have "keeps (preserves library_ok) (tx_bind (create_links others tx creation (bm_id ?row) db) (\<lambda>refused.
        case refused of Some result \<Rightarrow> tx_return result
        | None \<Rightarrow> tx_bind (enqueue_jobs (bc_jobs creation)) (\<lambda>_. read_db (q ?row))))" for q :: "bookmark_row \<Rightarrow> library \<Rightarrow> creation_result"
      using assms ok by (auto simp: create_links_kept enqueue_jobs_kept intro!: lib.keeps_intros split: option.split)
    ultimately show ?thesis
      using run keepsD unfolding preserves_def
      by (fastforce simp: create_place_def take Taken Let_def ins)
  qed (use run take ok in \<open>auto simp: create_place_def sys_bookmark_count_take_def split: if_splits option.splits\<close>)
qed

lemma db_create_kept: "interference_ok others \<Longrightarrow> keeps (preserves library_ok) (db_create others name_key tx creation)"
  by (auto simp: db_create_def Let_def locks_kept create_place_kept intro!: lib.keeps_intros)

end
