(* ===== verification/SharingLaws.thy ===== *)
theory SharingLaws
  imports LibraryKept Sharing
begin

text \<open>
  The laws of a table of shares as a locale, which the shares of bookmarks and the shares of folders provide: what a grant and a
  revocation write, and that they keep the invariant of the library.
\<close>

section \<open>A table of shares\<close>

text \<open>\<open>there\<close> says that the object of a share is in the library.\<close>

locale share_table_laws =
  fixes table :: share_table
    and there :: "library \<Rightarrow> share_row \<Rightarrow> bool"
  assumes rows_put [simp]: "tb_rows table (tb_put table rows db) = rows"
    and rows_sound: "library_ok db \<Longrightarrow> share_rows_ok (tb_rows table db) \<and> (\<forall>s \<in> set (tb_rows table db). there db s)"
    and put_sound: "library_ok db \<Longrightarrow> share_rows_ok rows \<Longrightarrow> (\<forall>s \<in> set rows. there db s) \<Longrightarrow> library_ok (tb_put table rows db)"
    and owned_there: "tb_owns table db a (sh_workspace_id s) (sh_object_id s) \<Longrightarrow> there db s"
begin

lemma insert_share_Inr:
  "insert_share table tx s db = Inr (inserted, db') \<longleftrightarrow>
     sh_granted_by s = Some (uuid_cast (tx_accountId tx)) \<and> tb_owns table db (uuid_cast (tx_accountId tx)) (sh_workspace_id s) (sh_object_id s) \<and>
     (if list_ex (share_conflict s) (tb_rows table db) then \<not> inserted \<and> db' = db
      else share_references db s \<and> inserted \<and> db' = tb_put table (tb_rows table db @ [s]) db)"
  by (auto simp: insert_share_def Let_def)

lemma insert_share_kept:
  assumes "one_target s"
  shows "keeps (preserves library_ok) (insert_share table tx s)"
proof (rule keepsI, unfold preserves_def, rule impI)
  fix db r db'
  assume run: "insert_share table tx s db = Inr (r, db')" and ok: "library_ok db"
  show "library_ok db'"
  proof (cases "list_ex (share_conflict s) (tb_rows table db)")
    case False
    have sym: "share_conflict x s \<Longrightarrow> share_conflict s x" for x
      by (auto simp: share_conflict_def)
    have old: "share_rows_ok (tb_rows table db)" "\<forall>x \<in> set (tb_rows table db). there db x"
      using rows_sound [OF ok] by simp_all
    have no: "\<not> share_conflict s x" "\<not> share_conflict x s" if "x \<in> set (tb_rows table db)" for x
      using False that sym by (auto simp: list_ex_iff)
    have "distinct (map sh_id (tb_rows table db @ [s]))"
      using old(1) no by (auto simp: share_rows_ok_def share_conflict_def)
    moreover have "sh_id x = sh_id y" if "x \<in> set (tb_rows table db)" "y \<in> set (tb_rows table db)" "share_conflict x y" for x y
      using that old(1) unfolding share_rows_ok_def by blast
    then have "sh_id x = sh_id y" if "x \<in> set (tb_rows table db @ [s])" "y \<in> set (tb_rows table db @ [s])" "share_conflict x y" for x y
      using that no by auto
    moreover have "\<forall>x \<in> set (tb_rows table db @ [s]). one_target x"
      using assms old(1) by (simp add: share_rows_ok_def)
    ultimately have "share_rows_ok (tb_rows table db @ [s])"
      unfolding share_rows_ok_def by blast
    moreover have "there db s"
      using run insert_share_Inr owned_there by blast
    ultimately show ?thesis
      using run False ok old(2) put_sound by (auto simp: insert_share_Inr)
  qed (use run ok in \<open>simp add: insert_share_Inr\<close>)
qed

lemma sharesOf_kept: "keeps (preserves library_ok) (sharesOf table tx objectId picked)"
  by (rule keepsI) (auto simp: sharesOf_def with_workspace_def tx_bind_Inr_iff preserves_def)

lemma sharesOf_same: "sharesOf table tx objectId picked db = Inr (found, db') \<Longrightarrow> db' = db"
  by (auto simp: sharesOf_def with_workspace_def tx_bind_Inr_iff)

lemma between_kept: "(\<And>db. library_ok db \<Longrightarrow> library_ok (between db)) \<Longrightarrow> keeps (preserves library_ok) (\<lambda>db. Inr ((), between db))"
  by (rule keepsI) (auto simp: preserves_def)

lemma new_row_one_target: "one_target (share_row_of w now i objectId target grantedBy)"
  by (cases target) (simp_all add: share_row_of_def one_target_def)

lemma insert_now_kept: "keeps (preserves library_ok) (\<lambda>db. insert_share table tx (share_row_of w (lb_now db) i objectId target grantedBy) db)"
  by (rule keepsI) (rule keepsD [OF insert_share_kept [OF new_row_one_target]])

lemma grant_attempts_kept:
  assumes "\<And>db. library_ok db \<Longrightarrow> library_ok (between db)"
  shows "keeps (preserves library_ok) (grant_attempts between table tx request w left)"
proof (induction left)
  case (Suc left)
  then show ?case
    by (auto simp: insert_now_kept sharesOf_kept between_kept [OF assms] intro!: lib.keeps_intros split: list.split)
qed simp

lemma db_grant_kept: "(\<And>db. library_ok db \<Longrightarrow> library_ok (between db)) \<Longrightarrow> keeps (preserves library_ok) (db_grant between table tx request)"
  by (auto simp: db_grant_def grant_attempts_kept intro!: lib.keeps_intros)

lemma delete_share_kept: "keeps (preserves library_ok) (delete_share table tx w objectId shareId)"
proof (rule keepsI, unfold preserves_def, rule impI)
  fix db r db'
  assume run: "delete_share table tx w objectId shareId db = Inr (r, db')" and ok: "library_ok db"
  let ?hit = "\<lambda>s. sh_workspace_id s = w \<and> sh_id s = uuid_cast shareId \<and> sh_object_id s = uuid_cast objectId \<and>
      tb_owns table db (uuid_cast (tx_accountId tx)) w (sh_object_id s)"
  have db': "db' = tb_put table (filter (\<lambda>s. \<not> ?hit s) (tb_rows table db)) db"
    using run by (simp add: delete_share_def Let_def)
  have "share_rows_ok (map (\<lambda>s. s) (filter (\<lambda>s. \<not> ?hit s) (tb_rows table db)))"
    by (rule share_rows_ok_filtered) (use rows_sound [OF ok] in simp)
  then show "library_ok db'"
    using rows_sound [OF ok] by (auto simp: db' intro!: put_sound [OF ok])
qed

lemma db_revoke_kept: "keeps (preserves library_ok) (db_revoke table tx objectId shareId)"
  by (auto simp: db_revoke_def sharesOf_kept delete_share_kept intro!: lib.keeps_intros split: list.split)

text \<open>What a grant and a revocation write when no other transaction interferes.\<close>

lemma sharesOf_rows:
  assumes "sharesOf table tx objectId picked db = Inr (found, db')" "tx_workspaceId tx = Some w"
  shows "map sr_id found = map sh_id (sort_key (\<lambda>s. (sh_created_at s, sh_id s))
    (filter (\<lambda>s. sh_workspace_id s = uuid_cast w \<and> sh_object_id s = uuid_cast objectId \<and> picked s) (tb_rows table db)))"
proof -
  have "all_or_error (map (share_record_of db a v) rows) = Inr found \<Longrightarrow> map sr_id found = map sh_id rows" for a v rows
    by (induction rows arbitrary: found) (auto simp: share_record_of_def map_sum_Inr_iff split: option.splits sum.splits)
  then show ?thesis
    using assms by (auto simp: sharesOf_def with_workspace_def tx_bind_Inr_iff split: sum.splits)
qed

lemma grant_attempts_result:
  assumes "grant_attempts (\<lambda>db. db) table tx request w n db = Inr (result, db')" "tx_workspaceId tx = Some v" "w = uuid_cast v"
  defines "row \<equiv> share_row_of w (lb_now db) (ns_id request) (ns_objectId request) (ns_target request) (ns_grantedBy request)"
  shows "tb_owns table db (uuid_cast (tx_accountId tx)) w (uuid_cast (ns_objectId request)) \<and>
    (if list_ex (share_conflict row) (tb_rows table db)
     then db' = db \<and> (\<exists>share. result = ShareExisting share) \<and> list_ex (\<lambda>s. sh_workspace_id s = w \<and>
         sh_object_id s = uuid_cast (ns_objectId request) \<and> names_target (ns_target request) s) (tb_rows table db)
     else db' = tb_put table (tb_rows table db @ [row]) db \<and> (\<exists>share. result = ShareGranted share))"
  using assms(1)
proof (induction n)
  case (Suc n)
  have row: "sh_workspace_id row = w" "sh_object_id row = uuid_cast (ns_objectId request)" "sh_id row = uuid_cast (ns_id request)"
    by (simp_all add: row_def share_row_of_def)
  obtain inserted db1 found where ins: "insert_share table tx row db = Inr (inserted, db1)"
    and read: "sharesOf table tx (ns_objectId request)
        (if inserted then (\<lambda>s. sh_id s = uuid_cast (ns_id request)) else names_target (ns_target request)) db1 = Inr (found, db1)"
    and rest: "(case found of share # _ \<Rightarrow> tx_return (if inserted then ShareGranted share else ShareExisting share)
        | [] \<Rightarrow> grant_attempts (\<lambda>db. db) table tx request w n) db1 = Inr (result, db')"
    using Suc.prems by (auto simp: tx_bind_Inr_iff row_def dest: sharesOf_same)
  have ids: "map sr_id found = map sh_id (sort_key (\<lambda>s. (sh_created_at s, sh_id s)) (filter (\<lambda>s. sh_workspace_id s = w \<and>
      sh_object_id s = uuid_cast (ns_objectId request) \<and> (if inserted then sh_id s = uuid_cast (ns_id request) else names_target (ns_target request) s))
      (tb_rows table db1)))"
    using sharesOf_rows [OF read assms(2)] by (simp add: assms(3) if_distrib [of "\<lambda>f. f _"] cong: if_cong)
  show ?case
  proof (cases "list_ex (share_conflict row) (tb_rows table db)")
    case True
    then have same: "\<not> inserted" "db1 = db" and own: "tb_owns table db (uuid_cast (tx_accountId tx)) w (uuid_cast (ns_objectId request))"
      using ins row by (auto simp: insert_share_Inr)
    show ?thesis
    proof (cases found)
      case Nil
      then show ?thesis using Suc.IH rest same True by simp
    next
      case (Cons share more)
      have "filter (\<lambda>s. sh_workspace_id s = w \<and> sh_object_id s = uuid_cast (ns_objectId request) \<and> names_target (ns_target request) s)
          (tb_rows table db) \<noteq> []"
        using ids Cons same by (intro notI) simp
      then show ?thesis
        using True own rest Cons same by (auto simp: filter_empty_conv list_ex_iff)
    qed
  next
    case False
    then have new: "inserted" "db1 = tb_put table (tb_rows table db @ [row]) db"
      and own: "tb_owns table db (uuid_cast (tx_accountId tx)) w (uuid_cast (ns_objectId request))"
      using ins row by (auto simp: insert_share_Inr)
    then have "row \<in> set (filter (\<lambda>s. sh_workspace_id s = w \<and> sh_object_id s = uuid_cast (ns_objectId request) \<and> sh_id s = uuid_cast (ns_id request)) (tb_rows table db1))"
      by (simp add: row)
    then have "filter (\<lambda>s. sh_workspace_id s = w \<and> sh_object_id s = uuid_cast (ns_objectId request) \<and> sh_id s = uuid_cast (ns_id request))
        (tb_rows table db1) \<noteq> []"
      by (rule list.set_cases) simp_all
    then have "found \<noteq> []"
      using ids new(1) by (intro notI) simp
    then show ?thesis
      using False own rest new by (auto split: list.splits)
  qed
qed simp

lemma db_grant_result:
  assumes "db_grant (\<lambda>db. db) table tx request db = Inr (result, db')" "tx_workspaceId tx = Some v" "result \<noteq> GrantUnknownTarget"
  defines "row \<equiv> share_row_of (uuid_cast v) (lb_now db) (ns_id request) (ns_objectId request) (ns_target request) (ns_grantedBy request)"
  shows "target_held db (uuid_cast v) (ns_target request) \<and> tb_owns table db (uuid_cast (tx_accountId tx)) (uuid_cast v) (uuid_cast (ns_objectId request)) \<and>
    (if list_ex (share_conflict row) (tb_rows table db)
     then db' = db \<and> (\<exists>share. result = ShareExisting share) \<and> list_ex (\<lambda>s. sh_workspace_id s = uuid_cast v \<and>
         sh_object_id s = uuid_cast (ns_objectId request) \<and> names_target (ns_target request) s) (tb_rows table db)
     else db' = tb_put table (tb_rows table db @ [row]) db \<and> (\<exists>share. result = ShareGranted share))"
  using assms(1,3) grant_attempts_result [of tx request "uuid_cast v" GRANT_ATTEMPTS db result db', OF _ assms(2) refl]
  by (auto simp: db_grant_def with_workspace_def tx_bind_Inr_iff read_db_def assms(2) row_def split: if_splits)

end

section \<open>The two tables\<close>

lemma bookmark_share_inverse [simp]:
  "of_bookmark_share (to_bookmark_share s) = s" "to_bookmark_share (of_bookmark_share x) = x" "of_folder_share (to_folder_share s) = s"
  "to_folder_share (of_folder_share y) = y"
  by (simp_all add: of_bookmark_share_def to_bookmark_share_def of_folder_share_def to_folder_share_def)

definition bookmark_there :: "library \<Rightarrow> share_row \<Rightarrow> bool" where
  "bookmark_there db s \<longleftrightarrow> bookmark_share_ok db (to_bookmark_share s)"

definition folder_there :: "library \<Rightarrow> share_row \<Rightarrow> bool" where
  "folder_there db s \<longleftrightarrow> folder_share_ok db (to_folder_share s)"

lemma put_shares_frame [simp]:
  "counts_ok (db\<lparr>bookmark_shares := x1\<rparr>) = counts_ok db" "rows_ok (db\<lparr>bookmark_shares := x1\<rparr>) = rows_ok db"
  "links_ok (db\<lparr>bookmark_shares := x1\<rparr>) = links_ok db" "tags_ok (db\<lparr>bookmark_shares := x1\<rparr>) = tags_ok db"
  "counts_ok (db\<lparr>folder_shares := x2\<rparr>) = counts_ok db" "rows_ok (db\<lparr>folder_shares := x2\<rparr>) = rows_ok db"
  "links_ok (db\<lparr>folder_shares := x2\<rparr>) = links_ok db" "tags_ok (db\<lparr>folder_shares := x2\<rparr>) = tags_ok db"
  by (simp_all add: counts_ok_def live_count_def rows_ok_def links_ok_def folder_link_ok_def tag_link_ok_def tags_ok_def)

interpretation bs: share_table_laws bookmark_share_table bookmark_there
proof unfold_locales
  fix db rows
  show "tb_rows bookmark_share_table (tb_put bookmark_share_table rows db) = rows"
    by (simp add: bookmark_share_table_def o_def)
next
  fix db
  assume "library_ok db"
  then show "share_rows_ok (tb_rows bookmark_share_table db) \<and> (\<forall>s \<in> set (tb_rows bookmark_share_table db). bookmark_there db s)"
    by (simp add: library_ok_def shares_ok_def bookmark_share_table_def bookmark_there_def)
next
  fix db rows
  assume "library_ok db" "share_rows_ok rows" "\<forall>s \<in> set rows. bookmark_there db s"
  then show "library_ok (tb_put bookmark_share_table rows db)"
    by (simp add: library_ok_def shares_ok_def bookmark_share_table_def bookmark_there_def o_def bookmark_share_ok_def folder_share_ok_def)
next
  fix db a and s :: share_row
  assume "tb_owns bookmark_share_table db a (sh_workspace_id s) (sh_object_id s)"
  then show "bookmark_there db s"
    by (auto simp: bookmark_share_table_def bookmark_there_def bookmark_share_ok_def own_bookmark_id_def owned_here_def to_bookmark_share_def list_ex_iff)
qed

interpretation fs: share_table_laws folder_share_table folder_there
proof unfold_locales
  fix db rows
  show "tb_rows folder_share_table (tb_put folder_share_table rows db) = rows"
    by (simp add: folder_share_table_def o_def)
next
  fix db
  assume "library_ok db"
  then show "share_rows_ok (tb_rows folder_share_table db) \<and> (\<forall>s \<in> set (tb_rows folder_share_table db). folder_there db s)"
    by (simp add: library_ok_def shares_ok_def folder_share_table_def folder_there_def)
next
  fix db rows
  assume "library_ok db" "share_rows_ok rows" "\<forall>s \<in> set rows. folder_there db s"
  then show "library_ok (tb_put folder_share_table rows db)"
    by (simp add: library_ok_def shares_ok_def folder_share_table_def folder_there_def o_def bookmark_share_ok_def folder_share_ok_def)
next
  fix db a and s :: share_row
  assume "tb_owns folder_share_table db a (sh_workspace_id s) (sh_object_id s)"
  then show "folder_there db s"
    by (auto simp: folder_share_table_def folder_there_def folder_share_ok_def own_folder_id_def owned_folder_def to_folder_share_def list_ex_iff)
qed

section \<open>Sharing many\<close>

lemma insert_shares_kept: "list_all one_target rows \<Longrightarrow> keeps (preserves library_ok) (insert_shares tx rows)"
  by (induction rows) (auto simp: bs.insert_share_kept intro!: lib.keeps_intros)

lemma insert_many_now_kept:
  "keeps (preserves library_ok) (\<lambda>db. insert_shares tx (map (\<lambda>(i, b). share_row_of w (lb_now db) i b target owner) pairs) db)"
  by (rule keepsI) (rule keepsD [OF insert_shares_kept], auto simp: list_all_iff bs.new_row_one_target)

lemma share_reads_kept:
  "keeps (preserves library_ok) (unsharedWith tx owned target)" "keeps (preserves library_ok) (targetName tx target)"
  "keeps (preserves library_ok) (shareable tx owner bookmarkIds)" "keeps (preserves library_ok) (memberCountOf tx target owner)"
  "keeps (preserves library_ok) (db_previewShare tx bookmarkIds owner target)"
proof -
  show reads: "keeps (preserves library_ok) (unsharedWith tx owned target)" "keeps (preserves library_ok) (targetName tx target)"
    "keeps (preserves library_ok) (shareable tx owner bookmarkIds)" "keeps (preserves library_ok) (memberCountOf tx target owner)" for owned
    by (auto simp: unsharedWith_def targetName_def shareable_def memberCountOf_def locks_kept intro!: lib.keeps_intros split: share_target.split)
  show "keeps (preserves library_ok) (db_previewShare tx bookmarkIds owner target)"
    by (auto simp: db_previewShare_def reads intro!: lib.keeps_intros split: option.split)
qed

lemma share_passes_kept:
  assumes "\<And>db. library_ok db \<Longrightarrow> library_ok (between db)"
  shows "keeps (preserves library_ok) (share_passes between tx newId owner target owned name left used granted)"
  by (induction left arbitrary: used granted)
     (auto simp: share_reads_kept Let_def insert_many_now_kept bs.between_kept [OF assms] intro!: lib.keeps_intros)

lemma db_share_kept:
  "(\<And>db. library_ok db \<Longrightarrow> library_ok (between db)) \<Longrightarrow> keeps (preserves library_ok) (db_share between tx bookmarkIds owner target newId)"
  by (auto simp: db_share_def share_reads_kept share_passes_kept intro!: lib.keeps_intros split: option.split)

end
