(* ===== verification/LibraryContract.thy ===== *)
theory LibraryContract
  imports LibraryKept LibraryStore
begin

text \<open>
  The store of a request meets the contract of the bookmark services: every operation of it, and with it every service, keeps the
  invariant of the library, whatever other transactions write meanwhile as long as they keep it too.
\<close>

section \<open>The remaining operations\<close>

lemma find_bookmark_kept: "keeps (preserves library_ok) (find_bookmark name_key tx i)"
  by (auto simp: find_bookmark_def intro!: lib.keeps_intros)

lemma db_sharedWith_kept: "keeps (preserves library_ok) (db_sharedWith tx i a)"
  by (auto simp: db_sharedWith_def intro!: lib.keeps_intros)

lemma db_sharedAmong_kept: "keeps (preserves library_ok) (db_sharedAmong tx ids a)"
  by (auto simp: db_sharedAmong_def intro!: lib.keeps_intros)

lemma ownedLiveBookmarks_kept: "keeps (preserves library_ok) (ownedLiveBookmarks w owner ids)"
  by (auto simp: ownedLiveBookmarks_def Let_def intro!: lib.keeps_intros)

lemma db_fileIn_kept: "keeps (preserves library_ok) (db_fileIn tx ids owner folder mode)"
  by (auto simp: db_fileIn_def ownedLiveBookmarks_kept locks_kept insertLinks_kept delete_links_kept intro!: lib.keeps_intros)

lemma db_tag_kept: "keeps (preserves library_ok) (db_tag tx ids owner tags mode)"
  by (auto simp: db_tag_def ownedLiveBookmarks_kept locks_kept insertTagLinksMany_kept delete_links_kept intro!: lib.keeps_intros)

section \<open>Accepted suggestions\<close>

lemma holdMember_kept: "keeps (preserves library_ok) (holdMember tx)"
  by (auto simp: holdMember_def locks_kept intro!: lib.keeps_intros)

lemma ai_usage_frame: "library_ok (db\<lparr>lb_ai_usage := rows\<rparr>) = library_ok db"
  by (simp add: library_ok_defs)

lemma recordUsage_kept: "keeps (preserves library_ok) (recordUsage tx usageId i accepted)"
  unfolding recordUsage_def
  by (intro lib.keeps_bind lib.keeps_requireWorkspace) (rule keepsI, auto simp: preserves_def ai_usage_frame split: if_splits)

section \<open>The store\<close>

lemma store_create_kept: "interference_ok others \<Longrightarrow> keeps (preserves library_ok) (store_create others name_key tools tx request)"
  by (auto simp: store_create_def db_create_kept split: sum.split)

lemma store_change_kept: "interference_ok others \<Longrightarrow> keeps (preserves library_ok) (store_change others name_key tools tx request)"
  by (auto simp: store_change_def db_update_kept split: sum.split)

text \<open>What is kept where the other transactions keep it.\<close>

definition sound_given :: "bool \<Rightarrow> library \<Rightarrow> bool" where
  "sound_given others_keep db \<longleftrightarrow> others_keep \<longrightarrow> library_ok db"

lemma keeps_sound:
  "(others_keep \<Longrightarrow> keeps (preserves library_ok) m) \<Longrightarrow> keeps (preserves (sound_given others_keep)) m"
  by (auto simp: keeps_def preserves_def sound_given_def)

interpretation library_store: bookmark_store_contract "preserves (sound_given (interference_ok others))" "\<lambda>_. True"
    "storeOf others name_key tools tx" "Some (aiUsageOf usageId tx)"
  for others name_key tools tx usageId
  by unfold_locales
     (auto simp: preserves_def storeOf_def aiUsageOf_def
       intro!: keeps_sound store_create_kept store_change_kept find_bookmark_kept db_sharedWith_kept db_remove_kept holdMember_kept recordUsage_kept)

section \<open>Archiving\<close>

lemma bump_workspaces_ok:
  "library_ok db \<Longrightarrow> library_ok (db\<lparr>workspaces := map (bump_row i) (workspaces db)\<rparr>)"
proof -
  have "ws_id (bump_row i x) = ws_id x" "ws_bookmark_count (bump_row i x) = ws_bookmark_count x" for x
    by (simp_all add: bump_row_def)
  then show "library_ok db \<Longrightarrow> library_ok (db\<lparr>workspaces := map (bump_row i) (workspaces db)\<rparr>)"
    by (auto simp: library_ok_defs o_def)
qed

lemma bump_kept: "keeps (preserves library_ok) (on_tables (ent_bump tx))"
  by (rule keepsI)
     (auto simp: preserves_def on_tables_def ent_bump_def tx_bind_def requireWorkspace_def tx_return_def tx_throw_def
       sys_workspace_bump_entitlement_version_def tables.defs bump_workspaces_ok split: option.splits sum.splits if_splits)

lemma on_audit_kept: "keeps (preserves library_ok) (on_audit tx r)"
  by (rule keepsI) (auto simp: preserves_def on_audit_def library_ok_defs split: sum.splits)

lemma audit_write_kept: "keeps (preserves library_ok) (audit_write (on_audit tx) auditId input)"
  by (auto simp: audit_write_def on_audit_kept intro!: lib.keeps_intros split: sum.split)

lemma setArchived_kept: "keeps (preserves library_ok) (setArchived (bookmarkArchiveTransaction auditId tx) workspace ids archived)"
  by (auto simp: setArchived_def Let_def bookmarkArchiveTransaction_def withEntitlementChange_def bump_kept audit_write_kept db_setArchived_kept
      intro!: lib.keeps_intros split: option.split)

end
