(* ===== verification/LibraryOwn.thy ===== *)
theory LibraryOwn
  imports LibraryContract
begin

text \<open>
  What an account's operations leave alone: the bookmarks and tags of the others, and every folder and membership. The services
  inherit it from the store through the same contract as the invariant.
\<close>

text \<open>A transaction no other one commits beside.\<close>

definition alone :: interference where
  "alone = \<lparr>if_locks = \<lambda>db. db, if_names = \<lambda>db. db\<rparr>"

definition foreign_bookmarks :: "string \<Rightarrow> library \<Rightarrow> bookmark_row list" where
  "foreign_bookmarks a db = filter (\<lambda>b. bm_owner_id b \<noteq> Some a) (bookmarks db)"

type_synonym others_rows = "bookmark_row list \<times> tag_row list \<times> folder_row list \<times> workspace_member_row list"

definition rows_of_others :: "string \<Rightarrow> library \<Rightarrow> others_rows" where
  "rows_of_others a db = (foreign_bookmarks a db, filter (\<lambda>t. tg_owner_id t \<noteq> a) (lb_tags db), lb_folders db, workspace_members db)"

definition theirs :: "string \<Rightarrow> others_rows \<Rightarrow> library \<Rightarrow> bool" where
  "theirs a x db \<longleftrightarrow> distinct (map bm_id (bookmarks db)) \<and> rows_of_others a db = x"

lemmas theirs_defs = theirs_def rows_of_others_def foreign_bookmarks_def

interpretation their: kept_relation "preserves (theirs a x)" for a x
  by unfold_locales (auto simp: preserves_def)

lemma keeps_same:
  "(\<And>s r s'. m s = Inr (r, s') \<Longrightarrow> bookmarks s' = bookmarks s \<and> lb_tags s' = lb_tags s \<and> lb_folders s' = lb_folders s \<and> workspace_members s' = workspace_members s) \<Longrightarrow>
   keeps (preserves (theirs a x)) m"
  by (rule keepsI) (simp add: preserves_def theirs_defs)

section \<open>Links, tags and jobs\<close>

lemma own_insert_links:
  "keeps (preserves (theirs a x)) (insert_folder_links tx folder_rows)"
  "keeps (preserves (theirs a x)) (insert_tag_links tx w tag_rows)"
  "keeps (preserves (theirs a x)) (delete_folder_links tx w folder_picked)"
  "keeps (preserves (theirs a x)) (delete_tag_links tx w tag_picked)"
  by (rule keeps_same, auto simp: insert_folder_links_def insert_tag_links_def delete_folder_links_def delete_tag_links_def with_workspace_def
      tx_bind_Inr_iff Let_def split: if_splits)+

lemma own_links:
  "keeps (preserves (theirs a x)) (insertLinks tx folderIds bookmarkIds)"
  "keeps (preserves (theirs a x)) (insertTagLinks tx bookmarkId tagIds)"
  "keeps (preserves (theirs a x)) (deleteLinks tx folderIds bookmarkIds)"
  "keeps (preserves (theirs a x)) (deleteTagLinks tx bookmarkId tagIds)"
  by (auto simp: insertLinks_def insertTagLinks_def deleteLinks_def deleteTagLinks_def Let_def own_insert_links intro!: their.keeps_intros)

lemma own_locks:
  "keeps (preserves (theirs a x)) (lockOwnedFolders tx owner folderIds)"
  "keeps (preserves (theirs a x)) (lockTaggingOwner tx owner)"
  "keeps (preserves (theirs a x)) (lockTaggingTags tx owner tagging)"
  "keeps (preserves (theirs a x)) (ownedTagsExist tx owner tagIds)"
  by (auto simp: lockOwnedFolders_def ownedTagsExist_def lockTaggingOwner_def lockTaggingTags_def Let_def intro!: their.keeps_intros)

lemma own_jobs: "keeps (preserves (theirs a x)) (enqueue_jobs jobs)"
proof -
  have "keeps (preserves (theirs a x)) (enqueueInTenantTransaction job)" for job
    by (rule keeps_same) (auto simp: enqueueInTenantTransaction_def split: if_splits option.splits)
  then show ?thesis
    by (induction jobs) (auto intro!: their.keeps_intros)
qed

lemma insert_tags_own:
  "insert_tags account w owner names db = Inr db' \<Longrightarrow> theirs account x db \<Longrightarrow> theirs account x db'"
  by (induction account w owner names db rule: insert_tags.induct) (auto simp: theirs_defs split: if_splits)

lemma own_tags: "keeps (preserves (theirs (uuid_cast (tx_accountId tx)) x)) (tagIdsOf alone tx owner tagging)"
proof -
  have "keeps (preserves (theirs (uuid_cast (tx_accountId tx)) x)) (resolveTagNames alone tx owner names)" for names
    by (rule keepsI)
       (auto simp: resolveTagNames_def with_workspace_def tx_bind_Inr_iff Let_def alone_def preserves_def split: if_splits sum.splits
         dest: insert_tags_own)
  then show ?thesis
    by (auto simp: tagIdsOf_def intro!: their.keeps_intros)
qed

section \<open>Bookmarks\<close>

lemma own_delete: "keeps (preserves (theirs a x)) (sys_bookmark_delete a w i)"
proof (rule keepsI)
  fix db db' :: library and r
  let ?left = "filter (\<lambda>c. \<not> (bm_id c = i \<and> owned_here a w c)) (bookmarks db)"
  assume "sys_bookmark_delete a w i db = Inr (r, db')"
  then have "db' = db \<or> bookmarks db' = ?left \<and> lb_tags db' = lb_tags db \<and> lb_folders db' = lb_folders db \<and> workspace_members db' = workspace_members db"
    by (auto simp: sys_bookmark_delete_def Let_def delete_bookmarks_def lower_count_Inr split: if_splits option.splits)
  moreover have "filter (\<lambda>b. bm_owner_id b \<noteq> Some a) ?left = filter (\<lambda>b. bm_owner_id b \<noteq> Some a) (bookmarks db)"
    unfolding filter_filter by (rule filter_cong) (auto simp: owned_here_def)
  moreover have "distinct (map bm_id ?left)" if "distinct (map bm_id (bookmarks db))"
    using that by (rule distinct_map_filter)
  ultimately show "preserves (theirs a x) db db'"
    by (elim disjE conjE; unfold preserves_def theirs_defs; intro impI; simp only: simp_thms) 
qed

lemma own_remove: "keeps (preserves (theirs (uuid_cast (tx_accountId tx)) x)) (db_remove tx i owner)"
  by (auto simp: db_remove_def own_delete intro!: their.keeps_intros)

text \<open>A row none of the others has is rewritten in its place.\<close>

lemma own_change_row:
  assumes "i \<notin> bm_id ` set (fst x)" "\<And>put c. put \<in> set sets \<Longrightarrow> stays c (put c)"
  shows "keeps (preserves (theirs a x)) (change_row w i sets current)"
proof (rule keepsI, unfold preserves_def, rule impI)
  fix db r db'
  assume run: "change_row w i sets current db = Inr (r, db')" and ok: "theirs a x db"
  show "theirs a x db'"
  proof (cases "db' = db")
    case False
    then obtain old where old: "find (\<lambda>b. bm_workspace_id b = w \<and> bm_id b = i) (bookmarks db) = Some old"
      and db': "db' = rewritten (\<lambda>b. if bm_id b = i then bump_version old (apply_sets sets old) else b) db"
      using run by (auto simp: change_row_def write_bookmark_def tx_return_def Let_def split: if_splits sum.splits option.splits)
    have row: "old \<in> set (bookmarks db)" "bm_id old = i"
      using old by (auto simp: find_Some_iff)
    have new: "stays old (bump_version old (apply_sets sets old))"
      using apply_sets_stay [of sets old] assms(2) by simp
    have mine: "bm_owner_id old = Some a"
      using ok row assms(1) by (auto simp: theirs_defs)
    have one: "b = old" if "b \<in> set (bookmarks db)" "bm_id b = i" for b
      using ok that row by (auto simp: theirs_def distinct_map dest: inj_onD)
    let ?g = "\<lambda>b. if bm_id b = i then bump_version old (apply_sets sets old) else b"
    have "map bm_id (map ?g (bookmarks db)) = map bm_id (bookmarks db)"
      using new row by (auto simp: stays_def same_place_def)
    moreover have "filter (\<lambda>b. bm_owner_id b \<noteq> Some a) (map ?g bs) = filter (\<lambda>b. bm_owner_id b \<noteq> Some a) bs"
      if "set bs \<subseteq> set (bookmarks db)" for bs
      using that mine new one by (induction bs) (auto simp: stays_def same_place_def)
    ultimately show ?thesis
      using ok by (simp add: db' theirs_defs del: map_map)
  qed (use ok in simp)
qed

lemma own_check_change: "keeps (preserves (theirs a x)) (check_change tx w request current)"
  by (auto simp: check_change_def Let_def own_locks intro!: their.keeps_intros split: option.split)

lemma own_apply_change:
  "uuid_cast (bp_bookmarkId request) \<notin> bm_id ` set (fst x) \<Longrightarrow>
   keeps (preserves (theirs a x)) (apply_change name_key tx w request current wanted filed carried now)"
  by (auto simp: apply_change_def Let_def own_jobs own_links intro!: their.keeps_intros own_change_row column_sets_stay)

lemma keeps_read_then:
  "(\<And>s. P s \<Longrightarrow> keeps (preserves P) (f (q s))) \<Longrightarrow> keeps (preserves P) (tx_bind (read_db q) f)"
  by (fastforce simp: keeps_def preserves_def tx_bind_Inr_iff read_db_def)

lemma own_row_not_theirs:
  assumes "theirs a x db" "find (own_live_row w a i) (bookmarks db) = Some b"
  shows "i \<notin> bm_id ` set (fst x)"
proof
  assume "i \<in> bm_id ` set (fst x)"
  then obtain c where c: "c \<in> set (bookmarks db)" "bm_owner_id c \<noteq> Some a" "bm_id c = i"
    using assms(1) by (auto simp: theirs_defs)
  have b: "b \<in> set (bookmarks db)" "bm_id b = i" "bm_owner_id b = Some a"
    using assms(2) by (auto simp: find_Some_iff own_live_row_def owned_here_def)
  have "b = c"
    using assms(1) b c by (auto simp: theirs_def distinct_map dest: inj_onD)
  then show False using b c by simp
qed

lemma own_update:
  assumes "uuid_cast (bp_ownerId request) = uuid_cast (tx_accountId tx)"
  shows "keeps (preserves (theirs (uuid_cast (tx_accountId tx)) x)) (db_update alone name_key tx request)"
proof -
  let ?P = "theirs (uuid_cast (tx_accountId tx)) x" and ?i = "uuid_cast (bp_bookmarkId request)"
  have found: "keeps (preserves ?P) (case find (own_live_row w (uuid_cast (tx_accountId tx)) ?i) (bookmarks db) of
      None \<Rightarrow> tx_return UpdateNotFound | Some current \<Rightarrow> f current)"
    if "?P db" "\<And>current. ?i \<notin> bm_id ` set (fst x) \<Longrightarrow> keeps (preserves ?P) (f current)" for w db f
    using own_row_not_theirs [OF that(1)] that(2) by (auto split: option.split)
  show ?thesis
    unfolding db_update_def Let_def assms
    by (intro their.keeps_workspace their.keeps_bind)
       (auto simp: own_locks own_check_change own_tags own_apply_change
         intro!: their.keeps_intros keeps_read_then found split: option.split)
qed

section \<open>Creation\<close>

lemma own_create_links:
  assumes "theirs (uuid_cast (tx_accountId tx)) x savepoint"
  shows "keeps (preserves (theirs (uuid_cast (tx_accountId tx)) x)) (create_links alone tx creation i savepoint)"
proof -
  have "keeps (preserves (theirs (uuid_cast (tx_accountId tx)) x)) (\<lambda>_. Inr (Some result, savepoint))" for result :: creation_result
    using assms by (simp add: keeps_def preserves_def)
  then show ?thesis
    by (auto simp: create_links_def Let_def alone_def [symmetric] own_locks own_links own_tags intro!: their.keeps_intros split: option.split)
       (simp_all add: alone_def)
qed

lemma own_create_place:
  assumes "uuid_cast (nb_ownerId (bc_bookmark creation)) = uuid_cast (tx_accountId tx)"
  shows "keeps (preserves (theirs (uuid_cast (tx_accountId tx)) x)) (create_place alone name_key tx w creation)"
proof (rule keepsI, unfold preserves_def, rule impI)
  fix db r db'
  let ?a = "uuid_cast (tx_accountId tx)"
  assume run: "create_place alone name_key tx w creation db = Inr (r, db')" and ok: "theirs ?a x db"
  obtain outcome db1 where take: "sys_bookmark_count_take ?a w (bc_ceiling creation) db = (outcome, db1)"
    by fastforce
  show "theirs ?a x db'"
  proof (cases outcome)
    case (Taken n)
    let ?row = "row_of_new w (lb_now db1) (bc_bookmark creation)"
    obtain db2 where ins: "insert_bookmark ?row db1 = Inr db2"
      using run by (auto simp: create_place_def take Taken Let_def split: sum.splits)
    have "theirs ?a x db1"
      using take ok by (auto simp: sys_bookmark_count_take_def theirs_defs split: if_splits option.splits)
    moreover have "db2 = db1\<lparr>bookmarks := bookmarks db1 @ [?row]\<rparr> \<and> \<not> list_ex (\<lambda>c. bm_id c = bm_id ?row) (bookmarks db1)"
      using ins unfolding insert_bookmark_def by (simp split: if_splits)
    moreover have "bm_owner_id ?row = Some ?a"
      using assms by (simp add: row_of_new_def)
    ultimately have "theirs ?a x db2"
      by (auto simp: theirs_defs list_ex_iff)
    moreover have "keeps (preserves (theirs ?a x)) (tx_bind (create_links alone tx creation (bm_id ?row) db) (\<lambda>refused.
        case refused of Some result \<Rightarrow> tx_return result
        | None \<Rightarrow> tx_bind (enqueue_jobs (bc_jobs creation)) (\<lambda>_. read_db (q ?row))))" for q :: "bookmark_row \<Rightarrow> library \<Rightarrow> creation_result"
      using ok by (auto simp: own_create_links own_jobs intro!: their.keeps_intros split: option.split)
    ultimately show ?thesis
      using run keepsD unfolding preserves_def
      by (fastforce simp: create_place_def take Taken Let_def ins alone_def)
  qed (use run take ok in \<open>auto simp: create_place_def sys_bookmark_count_take_def split: if_splits option.splits\<close>)
qed

lemma own_create:
  "uuid_cast (nb_ownerId (bc_bookmark creation)) = uuid_cast (tx_accountId tx) \<Longrightarrow>
   keeps (preserves (theirs (uuid_cast (tx_accountId tx)) x)) (db_create alone name_key tx creation)"
  by (auto simp: db_create_def Let_def own_locks own_create_place intro!: their.keeps_intros)

section \<open>The store\<close>

lemma own_reads:
  "keeps (preserves (theirs a x)) (find_bookmark name_key tx i)" "keeps (preserves (theirs a x)) (db_sharedWith tx i b)"
  "keeps (preserves (theirs a x)) (holdMember tx)"
  by (auto simp: find_bookmark_def db_sharedWith_def holdMember_def own_locks intro!: their.keeps_intros)

lemma own_usage: "keeps (preserves (theirs a x)) (recordUsage tx usageId i accepted)"
  by (rule keeps_same) (auto simp: recordUsage_def tx_bind_Inr_iff split: if_splits)

interpretation own_store: bookmark_store_contract "preserves (theirs (uuid_cast (tx_accountId tx)) x)"
    "\<lambda>i. uuid_cast i = uuid_cast (tx_accountId tx)" "storeOf alone name_key tools tx" "Some (aiUsageOf usageId tx)"
  for x name_key tools tx usageId
proof unfold_locales
  show "uuid_cast (js_lower i) = uuid_cast (tx_accountId tx)" if "uuid_cast i = uuid_cast (tx_accountId tx)" for i
    using that by (simp add: uuid_cast_def)
qed (auto simp: preserves_def storeOf_def aiUsageOf_def store_create_def store_change_def
      own_reads own_usage own_remove own_create own_update split: sum.split)

end
