(* ===== verification/LibraryListLaws.thy ===== *)
theory LibraryListLaws
  imports LibraryLists LibraryLaws Keyset
begin

text \<open>
  The statements of the lists answer the first rows of one ordering: the union of the parts of a scope, the probe of few matches and
  the walk of many are the same page.
\<close>

section \<open>Strictly sorted lists\<close>

text \<open>A strict order sorts a set in one way only.\<close>

lemma strictly_sorted_unique:
  assumes "\<And>x. \<not> lt x x" "\<And>x y z. lt x y \<Longrightarrow> lt y z \<Longrightarrow> lt x z"
  shows "sorted_wrt lt xs \<Longrightarrow> sorted_wrt lt ys \<Longrightarrow> set xs = set ys \<Longrightarrow> xs = ys"
proof (induction xs arbitrary: ys)
  case (Cons x xs)
  then obtain y ys' where ys: "ys = y # ys'" by (cases ys) auto
  have "x = y"
  proof (rule ccontr)
    assume "x \<noteq> y"
    then have "lt y x" "lt x y"
      using Cons.prems ys by auto
    then show False using assms by blast
  qed
  moreover have "x \<notin> set xs" "y \<notin> set ys'"
    using Cons.prems(1,2) ys assms(1) by auto
  ultimately have "set xs = set ys'"
    using Cons.prems(3) ys by auto
  then show ?case
    using Cons ys \<open>x = y\<close> by simp
qed simp

lemma take_filter_prefix: "\<forall>x \<in> set (take n xs). Q x \<Longrightarrow> take n (filter Q xs) = take n xs"
proof (induction xs arbitrary: n)
  case (Cons x xs)
  then show ?case by (cases n) auto
qed simp

text \<open>What is after the first \<open>n\<close> of a part is after the first \<open>n\<close> of the whole.\<close>

lemma first_of_part:
  assumes lt: "\<And>x. \<not> lt x x" "\<And>x y z. lt x y \<Longrightarrow> lt y z \<Longrightarrow> lt x z"
    and whole: "sorted_wrt lt ws" and part: "sorted_wrt lt ps" "set ps \<subseteq> set ws" and x: "x \<in> set ps" "x \<in> set (take n ws)"
  shows "x \<in> set (take n ps)"
proof (rule ccontr)
  assume "x \<notin> set (take n ps)"
  then have late: "x \<in> set (drop n ps)"
    using x(1) by (metis UnE append_take_drop_id set_append)
  then have long: "length (take n ps) = n"
    by (metis drop_eq_Nil empty_iff length_take list.set(1) min.absorb2 nat_le_linear)
  have before: "lt y x" if "y \<in> set (take n ps)" for y
    using part(1) late that by (metis append_take_drop_id sorted_wrt_append)
  obtain i where i: "i < length (take n ws)" "take n ws ! i = x"
    using x(2) by (auto simp: in_set_conv_nth)
  have "y \<in> set (take i ws)" if "y \<in> set (take n ps)" for y
  proof -
    have y: "y \<in> set ws" "lt y x"
      using that part(2) before by (auto dest: in_set_takeD)
    then have "y \<notin> set (drop i ws)"
    proof -
      have "drop i ws = x # drop (Suc i) ws"
        using i Cons_nth_drop_Suc [of i ws] by simp
      then have "\<forall>z \<in> set (drop i ws). z = x \<or> lt x z"
        using sorted_wrt_drop [OF whole, of i] by auto
      then show ?thesis using y(2) lt by metis
    qed
    then show ?thesis
      using y(1) by (metis UnE append_take_drop_id set_append)
  qed
  then have "set (take n ps) \<subseteq> set (take i ws)" by blast
  moreover have "distinct ps"
    using part(1) lt(1) by (induction ps) auto
  ultimately have "n \<le> i"
    using long card_mono [of "set (take i ws)" "set (take n ps)"] card_length [of "take i ws"] distinct_card [of "take n ps"] by simp
  then show False using i(1) by simp
qed

section \<open>The orders of a list\<close>

definition before :: "list_tools \<Rightarrow> bookmark_sort \<Rightarrow> bookmark_row \<Rightarrow> bookmark_row \<Rightarrow> bool" where
  "before tools ord b c \<longleftrightarrow>
     (let rank = (\<lambda>x. position_rank (lt_collation tools) (bookmark_position ord x))
      in if descending ord then rank c < rank b else rank b < rank c)"

lemma before_irrefl [simp]: "\<not> before tools ord b b"
  by (simp add: before_def Let_def)

lemma before_trans: "before tools ord a b \<Longrightarrow> before tools ord b c \<Longrightarrow> before tools ord a c"
  by (auto simp: before_def Let_def split: if_splits)

lemma set_order_rows [simp]: "set (order_rows tools ord rows) = set rows"
  by (simp add: order_rows_def Let_def)

lemma length_order_rows [simp]: "length (order_rows tools ord rows) = length rows"
  by (simp add: order_rows_def Let_def)

lemma order_rows_Nil [simp]: "order_rows tools ord [] = []"
  by (simp add: order_rows_def)

lemma order_rows_sorted:
  assumes "distinct (map bm_id rows)"
  shows "sorted_wrt (before tools ord) (order_rows tools ord rows)"
proof -
  let ?rank = "\<lambda>b. position_rank (lt_collation tools) (bookmark_position ord b)"
  let ?xs = "sort_key ?rank rows"
  have "distinct (map bm_id ?xs)"
    using assms by (metis mset_map mset_eq_imp_distinct_iff mset_sort)
  then have "bm_id (?xs ! i) \<noteq> bm_id (?xs ! j)" if "i < j" "j < length ?xs" for i j
    using that by (simp add: distinct_conv_nth)
  then have "?rank (?xs ! i) < ?rank (?xs ! j)" if "i < j" "j < length ?xs" for i j
  proof -
    have "?rank (?xs ! i) \<le> ?rank (?xs ! j)"
      using that sorted_nth_mono [OF sorted_sort_key [of ?rank rows], of i j] by simp
    moreover have "?rank (?xs ! i) \<noteq> ?rank (?xs ! j)"
      using \<open>\<And>i j. i < j \<Longrightarrow> j < length ?xs \<Longrightarrow> bm_id (?xs ! i) \<noteq> bm_id (?xs ! j)\<close> [OF that] by (simp add: position_rank_def bookmark_position_def)
    ultimately show ?thesis by simp
  qed
  then have "sorted_wrt (\<lambda>b c. ?rank b < ?rank c) ?xs"
    by (simp add: sorted_wrt_iff_nth_less)
  then show ?thesis
    by (simp add: order_rows_def before_def [abs_def] Let_def sorted_wrt_rev)
qed

text \<open>The only strictly sorted list of the rows.\<close>

lemma order_rows_eqI:
  assumes "sorted_wrt (before tools ord) xs" "set xs = set rows" "distinct (map bm_id rows)"
  shows "order_rows tools ord rows = xs"
  by (rule strictly_sorted_unique [of "before tools ord"])
     (use assms before_trans order_rows_sorted in \<open>auto\<close>)

lemma order_rows_filter:
  assumes "distinct (map bm_id rows)"
  shows "order_rows tools ord (filter Q rows) = filter Q (order_rows tools ord rows)"
  by (rule order_rows_eqI) (use assms order_rows_sorted in \<open>auto simp: sorted_wrt_filter distinct_map_filter\<close>)

lemma filter_ordered:
  "distinct (map bm_id rows) \<Longrightarrow> filter Q (order_rows tools ord (filter P rows)) = order_rows tools ord (filter (\<lambda>b. Q b \<and> P b) rows)"
  by (simp add: distinct_map_filter conj_commute flip: order_rows_filter)

lemma distinct_ids_set_eq: "distinct (map bm_id xs) \<Longrightarrow> set ys = set xs \<Longrightarrow> distinct (map bm_id ys) \<Longrightarrow> order_rows tools ord ys = order_rows tools ord xs"
  by (rule order_rows_eqI) (simp_all add: order_rows_sorted)

text \<open>The first \<open>n\<close> of the first \<open>n\<close> of two parts are the first \<open>n\<close> of both.\<close>

lemma take_merged:
  assumes "distinct (map bm_id (xs @ ys))"
  shows "take n (order_rows tools ord (take n (order_rows tools ord xs) @ take n (order_rows tools ord ys))) = take n (order_rows tools ord (xs @ ys))"
    (is "take n (order_rows tools ord ?u) = take n ?whole")
proof -
  have dx: "distinct (map bm_id xs)" "distinct (map bm_id ys)"
    using assms by simp_all
  have d: "distinct (map bm_id (order_rows tools ord zs))" if "distinct (map bm_id zs)" for zs
    using that unfolding order_rows_def Let_def
    by (auto simp: rev_map [symmetric]) (metis mset_map mset_eq_imp_distinct_iff mset_sort)+
  have "set (map bm_id (take n (order_rows tools ord zs))) \<subseteq> set (map bm_id zs)" for zs
    by (auto dest: in_set_takeD)
  then have "set (map bm_id (take n (order_rows tools ord xs))) \<inter> set (map bm_id (take n (order_rows tools ord ys))) = {}"
    using assms unfolding map_append distinct_append by blast
  moreover have "distinct (map bm_id (take n zs))" if "distinct (map bm_id zs)" for zs
    using that by (simp add: take_map [symmetric])
  ultimately have "distinct (map bm_id ?u)"
    using d [OF dx(1)] d [OF dx(2)] unfolding map_append distinct_append by blast
  then have "order_rows tools ord ?u = filter (\<lambda>b. b \<in> set ?u) ?whole"
    by (intro order_rows_eqI sorted_wrt_filter order_rows_sorted assms) (auto dest: in_set_takeD)
  moreover have "\<forall>b \<in> set (take n ?whole). b \<in> set ?u"
  proof
    fix b
    assume b: "b \<in> set (take n ?whole)"
    then have "b \<in> set xs \<union> set ys"
      using in_set_takeD [OF b] by simp
    then consider "b \<in> set xs" | "b \<in> set ys"
      by blast
    then have "b \<in> set (take n (order_rows tools ord xs)) \<or> b \<in> set (take n (order_rows tools ord ys))"
    proof cases
      case 1
      then show ?thesis
        using first_of_part [of "before tools ord" ?whole "order_rows tools ord xs" b n] before_trans b assms dx
        by (auto simp: order_rows_sorted)
    next
      case 2
      then show ?thesis
        using first_of_part [of "before tools ord" ?whole "order_rows tools ord ys" b n] before_trans b assms dx
        by (auto simp: order_rows_sorted)
    qed
    then show "b \<in> set ?u" by simp
  qed
  ultimately show ?thesis
    by (simp add: take_filter_prefix)
qed

section \<open>The pages\<close>

text \<open>The rows a filter admits, and those of them after a position, in the order of the sort.\<close>

definition listed_rows :: "list_tools \<Rightarrow> library \<Rightarrow> string \<Rightarrow> string \<Rightarrow> list_filter \<Rightarrow> bookmark_sort \<Rightarrow> bookmark_row list" where
  "listed_rows tools db viewer w filt ord =
     order_rows tools ord (filter (\<lambda>b. filterPredicate db viewer w filt b \<and>
       (case lf_q filt of None \<Rightarrow> True | Some q \<Rightarrow> bm_id b \<in> set (sys_bookmark_match tools db viewer w q))) (bookmarks db))"

definition page_rows :: "list_tools \<Rightarrow> library \<Rightarrow> string \<Rightarrow> string \<Rightarrow> list_request \<Rightarrow> bookmark_row list" where
  "page_rows tools db viewer w request =
     take (lr_limit request) (filter (after_rows tools (lr_sort request) (lr_after request))
       (listed_rows tools db viewer w (lr_filter request) (lr_sort request)))"

lemma in_grants_readable:
  "bm_owner_id b \<noteq> Some viewer \<Longrightarrow> bm_workspace_id b = w \<Longrightarrow> in_grants db viewer w b \<longleftrightarrow> bookmarkReadableBy (library_tables db) viewer b"
  by (auto simp: in_grants_def bookmarkReadableBy_def list_ex_iff) force+

lemma leg_rows_eq:
  assumes "branch = BranchShared \<longrightarrow> uuid_cast (lf_ownerId filt) = viewer"
  shows "leg_rows db viewer w filt branch = filter (branchPredicate db viewer w filt branch False) (bookmarks db)"
proof (cases "branch = BranchShared")
  case True
  have "(in_grants db viewer w b \<and> branchPredicate db viewer w filt BranchShared True b) = branchPredicate db viewer w filt BranchShared False b" for b
    using assms True in_grants_readable [of b viewer w db] by (auto simp: branchPredicate_def Let_def)
  then show ?thesis
    using True by (simp add: leg_rows_def)
qed (simp add: leg_rows_def)

lemma branches_cases:
  obtains "branchesOf filt = []" | branch where "branchesOf filt = [branch]" | "branchesOf filt = [BranchOwn, BranchShared]"
  by (cases "filter_scope filt"; cases "filter_tags filt = [] \<and> lf_urlCanonical filt = None") (auto simp: branchesOf_def Let_def)

lemma own_not_shared: "branchPredicate db viewer w filt BranchOwn False b \<Longrightarrow> \<not> branchPredicate db viewer w filt BranchShared False b"
  by (auto simp: branchPredicate_def Let_def)

lemma distinct_ids_filter: "distinct (map bm_id xs) \<Longrightarrow> distinct (map bm_id (filter Q xs))"
  by (rule distinct_map_filter)

text \<open>The legs together are the rows the filter admits: the union needs no step that removes repeats.\<close>

lemma union_of_legs:
  assumes "distinct (map bm_id (bookmarks db))" "branchesOf filt = [BranchOwn, BranchShared]"
  shows "order_rows tools ord (filter (\<lambda>b. Q b \<and> branchPredicate db viewer w filt BranchOwn False b) (bookmarks db) @
      filter (\<lambda>b. Q b \<and> branchPredicate db viewer w filt BranchShared False b) (bookmarks db)) =
    order_rows tools ord (filter (\<lambda>b. Q b \<and> filterPredicate db viewer w filt b) (bookmarks db))"
    and "distinct (map bm_id (filter (\<lambda>b. Q b \<and> branchPredicate db viewer w filt BranchOwn False b) (bookmarks db) @
      filter (\<lambda>b. Q b \<and> branchPredicate db viewer w filt BranchShared False b) (bookmarks db)))"
proof -
  have inj: "b = c" if "b \<in> set (bookmarks db)" "c \<in> set (bookmarks db)" "bm_id b = bm_id c" for b c
    using assms(1) that by (simp add: distinct_map inj_on_def)
  show d: "distinct (map bm_id (filter (\<lambda>b. Q b \<and> branchPredicate db viewer w filt BranchOwn False b) (bookmarks db) @
      filter (\<lambda>b. Q b \<and> branchPredicate db viewer w filt BranchShared False b) (bookmarks db)))"
    using assms(1) own_not_shared inj by (auto simp: distinct_map_filter) blast
  show "order_rows tools ord (filter (\<lambda>b. Q b \<and> branchPredicate db viewer w filt BranchOwn False b) (bookmarks db) @
      filter (\<lambda>b. Q b \<and> branchPredicate db viewer w filt BranchShared False b) (bookmarks db)) =
    order_rows tools ord (filter (\<lambda>b. Q b \<and> filterPredicate db viewer w filt b) (bookmarks db))"
    by (rule distinct_ids_set_eq) (use assms d in \<open>auto simp: filterPredicate_def distinct_map_filter simp del: map_append\<close>)
qed

lemma merged_legs:
  assumes "distinct (map bm_id (bookmarks db))" "isOwnScope filt \<or> uuid_cast (lf_ownerId filt) = viewer"
    "lr_filter request = filt" "lr_sort request = ord" "lr_limit request = n"
  shows "take n (order_rows tools ord (concat (map (leg_page tools db viewer w request picked) (branchesOf filt)))) =
    take n (order_rows tools ord (filter (\<lambda>b. (after_rows tools ord (lr_after request) b \<and> picked b) \<and> filterPredicate db viewer w filt b) (bookmarks db)))"
proof -
  have shared: "BranchShared \<in> set (branchesOf filt) \<Longrightarrow> uuid_cast (lf_ownerId filt) = viewer"
    using assms(2) by (auto simp: branchesOf_def isOwnScope_def Let_def split: list_scope.splits)
  let ?Q = "\<lambda>b. after_rows tools ord (lr_after request) b \<and> picked b"
  have leg: "leg_page tools db viewer w request picked branch =
      take n (order_rows tools ord (filter (\<lambda>b. ?Q b \<and> branchPredicate db viewer w filt branch False b) (bookmarks db)))"
    if "branch \<in> set (branchesOf filt)" for branch
  proof -
    have "branch = BranchShared \<longrightarrow> uuid_cast (lf_ownerId filt) = viewer"
      using that shared by auto
    then show ?thesis
      by (simp add: leg_page_def leg_rows_eq assms(3-5) conj_ac)
  qed
  show ?thesis
  proof (rule branches_cases [of filt])
    assume none: "branchesOf filt = []"
    then have "filter (\<lambda>b. ?Q b \<and> filterPredicate db viewer w filt b) (bookmarks db) = []"
      by (simp add: filterPredicate_def)
    then show ?thesis
      using none by simp
  next
    fix branch
    assume one: "branchesOf filt = [branch]"
    let ?S = "order_rows tools ord (filter (\<lambda>b. ?Q b \<and> branchPredicate db viewer w filt branch False b) (bookmarks db))"
    have "take n (order_rows tools ord (take n ?S @ take n (order_rows tools ord []))) = take n (order_rows tools ord
        (filter (\<lambda>b. ?Q b \<and> branchPredicate db viewer w filt branch False b) (bookmarks db) @ []))"
      by (rule take_merged) (use assms(1) in \<open>simp add: distinct_map_filter\<close>)
    then have "take n (order_rows tools ord (take n ?S)) = take n ?S"
      by simp
    then show ?thesis
      using one leg by (simp add: filterPredicate_def)
  next
    assume two: "branchesOf filt = [BranchOwn, BranchShared]"
    then have "concat (map (leg_page tools db viewer w request picked) (branchesOf filt)) =
        take n (order_rows tools ord (filter (\<lambda>b. ?Q b \<and> branchPredicate db viewer w filt BranchOwn False b) (bookmarks db))) @
        take n (order_rows tools ord (filter (\<lambda>b. ?Q b \<and> branchPredicate db viewer w filt BranchShared False b) (bookmarks db)))"
      using leg by simp
    then show ?thesis
      by (simp only: take_merged [OF union_of_legs(2) [OF assms(1) two]] union_of_legs(1) [OF assms(1) two])
  qed
qed

lemma pageStatement_rows:
  assumes "distinct (map bm_id (bookmarks db))" "uuid_cast (lf_ownerId (lr_filter request)) = viewer" "lf_q (lr_filter request) = None"
  shows "pageStatement tools db viewer w request = page_rows tools db viewer w request"
  using merged_legs [OF assms(1) _ refl refl refl, of request viewer tools w "\<lambda>_. True"] assms
  by (simp add: pageStatement_def page_rows_def listed_rows_def filter_ordered)

lemma own_page_rows:
  assumes "distinct (map bm_id (bookmarks db))" "lf_q (lr_filter request) = None"
  shows "own_page tools db viewer w request = page_rows tools db viewer w request"
  using assms by (simp add: own_page_def page_rows_def listed_rows_def filter_ordered conj_commute)

lemma matchedPage_rows:
  assumes "distinct (map bm_id (bookmarks db))" "isOwnScope (lr_filter request) \<or> uuid_cast (lf_ownerId (lr_filter request)) = viewer"
    "lf_q (lr_filter request) = Some q"
  shows "fst (matchedPageStatement tools db viewer w request q) = page_rows tools db viewer w request"
proof -
  let ?m = "\<lambda>b. bm_id b \<in> set (sys_bookmark_match tools db viewer w q)"
  let ?sort = "lr_sort request" and ?n = "lr_limit request"
  let ?all = "order_rows tools ?sort (filter (\<lambda>b. after_rows tools ?sort (lr_after request) b \<and> filterPredicate db viewer w (lr_filter request) b \<and> ?m b) (bookmarks db))"
  have all: "page_rows tools db viewer w request = take ?n ?all"
    using assms(1,3) by (simp add: page_rows_def listed_rows_def filter_ordered)
  have again: "take ?n (order_rows tools ?sort (take ?n ?all)) = take ?n ?all"
    using take_merged [of "filter (\<lambda>b. after_rows tools ?sort (lr_after request) b \<and> filterPredicate db viewer w (lr_filter request) b \<and> ?m b) (bookmarks db)"
        "[]" ?n tools ?sort] assms(1) by (simp add: distinct_map_filter)
  show ?thesis
  proof (cases "length (sys_bookmark_match tools db viewer w q) \<le> FEW_MATCHES")
    case True
    then show ?thesis
      using again by (simp add: matchedPageStatement_def Let_def all conj_ac)
  next
    case False
    then show ?thesis
      using merged_legs [OF assms(1,2) refl refl refl, of tools w ?m]
      by (simp add: matchedPageStatement_def Let_def all conj_ac)
  qed
qed

section \<open>The counts\<close>

lemma length_listed:
  "length (listed_rows tools db viewer w filt ord) = length (filter (\<lambda>b. filterPredicate db viewer w filt b \<and>
     (case lf_q filt of None \<Rightarrow> True | Some q \<Rightarrow> bm_id b \<in> set (sys_bookmark_match tools db viewer w q))) (bookmarks db))"
  by (simp add: listed_rows_def)

lemma min_sum: "min (min a n + min b n) n = min (a + b) (n :: nat)"
  by simp

lemma countStatement_rows:
  assumes "uuid_cast (lf_ownerId filt) = viewer" "lf_q filt = None"
  shows "countStatement db viewer w filt n = min (length (listed_rows tools db viewer w filt ord)) n"
proof (rule branches_cases [of filt])
  assume two: "branchesOf filt = [BranchOwn, BranchShared]"
  have "length (filter (\<lambda>b. P b \<or> Q b) xs) = length (filter P xs) + length (filter Q xs)" if "\<And>b. P b \<Longrightarrow> \<not> Q b" for P Q and xs :: "bookmark_row list"
    using that by (induction xs) auto
  then have "length (listed_rows tools db viewer w filt ord) =
      length (leg_rows db viewer w filt BranchOwn) + length (leg_rows db viewer w filt BranchShared)"
    using two assms own_not_shared by (simp add: length_listed leg_rows_eq filterPredicate_def)
  then show ?thesis
    using two by (simp add: countStatement_def)
qed (use assms in \<open>simp_all add: countStatement_def length_listed leg_rows_eq filterPredicate_def\<close>)

text \<open>A bookmark the text matches is one the account reads and the plan shows, so a filter of the text alone is the answer of the function.\<close>

lemma match_readable:
  assumes "i \<in> set (sys_bookmark_match tools db viewer w q)"
  shows "\<exists>b \<in> set (bookmarks db). bm_id b = i \<and> bm_workspace_id b = w \<and> (bm_owner_id b = Some viewer \<or> in_grants db viewer w b) \<and> bm_plan_archived_at b = None"
  using assms by (auto simp: sys_bookmark_match_def Let_def split: if_splits)

lemma distinct_matches: "distinct (map bm_id (bookmarks db)) \<Longrightarrow> distinct (sys_bookmark_match tools db viewer w q)"
  by (auto simp: sys_bookmark_match_def Let_def distinct_map_filter)

lemma matches_are_the_answer:
  assumes "distinct (map bm_id (bookmarks db))" "matchesAreTheAnswer tx filt" "lf_q filt = Some q" "uuid_cast (tx_accountId tx) = viewer"
  shows "length (sys_bookmark_match tools db viewer w q) = length (listed_rows tools db viewer w filt ord)"
proof -
  let ?m = "sys_bookmark_match tools db viewer w q"
  have owner: "uuid_cast (lf_ownerId filt) = viewer" and branches: "branchesOf filt = [BranchOwn, BranchShared]"
    using assms(2,4) by (auto simp: matchesAreTheAnswer_def uuid_cast_def branchesOf_def filter_scope_def)
  have admitted: "filterPredicate db viewer w filt b" if m: "bm_id b \<in> set ?m" and b: "b \<in> set (bookmarks db)" for b
  proof -
    obtain c where c: "c \<in> set (bookmarks db)" "bm_id c = bm_id b" "bm_workspace_id c = w" "bm_owner_id c = Some viewer \<or> in_grants db viewer w c"
      "bm_plan_archived_at c = None"
      using match_readable [OF m] by blast
    then have "c = b"
      using assms(1) b by (auto simp: distinct_map dest: inj_onD)
    then show ?thesis
      using assms(2) c branches owner in_grants_readable [of b viewer w db]
      by (auto simp: filterPredicate_def branchPredicate_def Let_def matchesAreTheAnswer_def holds_when_def pinned_condition_def)
  qed
  then have "filter (\<lambda>b. filterPredicate db viewer w filt b \<and> bm_id b \<in> set ?m) (bookmarks db) = filter (\<lambda>b. bm_id b \<in> set ?m) (bookmarks db)"
    by (auto intro: filter_cong)
  moreover have "set (map bm_id (filter (\<lambda>b. bm_id b \<in> set ?m) (bookmarks db))) = set ?m"
    using match_readable [of _ tools db viewer w q] by (force simp: image_iff)
  then have "length (filter (\<lambda>b. bm_id b \<in> set ?m) (bookmarks db)) = length ?m"
    using distinct_card [OF distinct_matches [OF assms(1), of tools viewer w q]]
      distinct_card [OF distinct_map_filter [OF assms(1), of "\<lambda>b. bm_id b \<in> set ?m"]] by simp
  ultimately show ?thesis
    using assms(3) by (simp add: length_listed)
qed

end
