(* ===== verification/LibraryPages.thy ===== *)
theory LibraryPages
  imports LibraryListLaws
begin

text \<open>
  What a reader of a list of bookmarks gets: a page is the first rows after the cursor with the capped total, and following the
  cursors lists every bookmark the filter admits once. The listing rests on the interface \<open>keyset\<close>.
\<close>

section \<open>Records\<close>

text \<open>The record a reader gets of a bookmark it can read.\<close>

definition record_for :: "(string \<Rightarrow> string) \<Rightarrow> library \<Rightarrow> string \<Rightarrow> string \<Rightarrow> bookmark_row \<Rightarrow> bookmark_record" where
  "record_for name_key db w viewer b =
     recordOf b (foldersOfBookmark name_key w viewer (bm_id b) db) (tagsOfBookmark name_key w viewer (bm_id b) db)
       (if bm_owner_id b = Some viewer then None else sharingOf db viewer w b)"

lemma record_for_id [simp]: "bk_id (record_for name_key db w viewer b) = bm_id b"
  by (simp add: record_for_def recordOf_def)

lemma first_via_None_iff: "first_via grants i = None \<longleftrightarrow> \<not> list_ex (\<lambda>g. fst g = i) grants"
  by (auto simp: first_via_def list_ex_iff filter_empty_conv split: list.split)
     (metis (mono_tags, lifting) filter_empty_conv list.distinct(1) map_is_Nil_conv sort_key_Nil_iff)

lemma sharing_of_readable:
  "bookmarkReadableBy (library_tables db) viewer b \<Longrightarrow> bm_workspace_id b = w \<Longrightarrow> bm_owner_id b \<noteq> Some viewer \<Longrightarrow> sharingOf db viewer w b \<noteq> None"
  by (auto simp: sharingOf_def first_via_None_iff bookmarkReadableBy_def)

lemma recordsOf_readable:
  assumes "\<And>b. b \<in> set rows \<Longrightarrow> bm_workspace_id b = w \<and> bookmarkReadableBy (library_tables db) viewer b"
  shows "recordsOf name_key viewer w rows db = map (record_for name_key db w viewer) rows"
  using assms
proof (induction rows)
  case (Cons b rows)
  have "bm_owner_id b = Some viewer \<or> sharingOf db viewer w b \<noteq> None"
    using sharing_of_readable Cons.prems [of b] by auto
  then show ?case
    using Cons
    by (auto simp: recordsOf_def record_for_def Let_def split: option.split)
qed (simp add: recordsOf_def)

section \<open>Rows read again\<close>

text \<open>A row a filter admits is live, of the workspace and readable by the member who lists.\<close>

lemma admitted_readable:
  assumes "filterPredicate db viewer w filt b"
  shows "bm_workspace_id b = w \<and> bm_plan_archived_at b = None \<and> bookmarkReadableBy (library_tables db) (uuid_cast (lf_ownerId filt)) b \<and>
    (isOwnScope filt \<longrightarrow> bm_owner_id b = Some (uuid_cast (lf_ownerId filt)))"
proof -
  obtain branch where branch: "branch \<in> set (branchesOf filt)" "branchPredicate db viewer w filt branch False b"
    using assms by (auto simp: filterPredicate_def list_ex_iff)
  have "isOwnScope filt \<Longrightarrow> branch = BranchOwn"
    using branch(1) by (simp add: isOwnScope_def branchesOf_def)
  then show ?thesis
    using branch(2) by (auto simp: branchPredicate_def Let_def bookmarkReadableBy_def split: if_splits)
qed

lemma page_rows_admitted:
  assumes "b \<in> set (page_rows tools db viewer w request)"
  shows "b \<in> set (bookmarks db) \<and> filterPredicate db viewer w (lr_filter request) b"
  using assms by (auto simp: page_rows_def listed_rows_def dest: in_set_takeD)

lemma find_by_id:
  "distinct (map k xs) \<Longrightarrow> x \<in> set xs \<Longrightarrow> find (\<lambda>y. k y = k x) xs = Some x"
  by (induction xs) auto

lemma rowsOfPage_eq:
  assumes "distinct (map bm_id (bookmarks db))" "distinct (map bm_id page)" "set page \<subseteq> set (bookmarks db)"
    "\<And>b. b \<in> set page \<Longrightarrow> filterPredicate db viewer w filt b"
  shows "rowsOfPage name_key tx db w filt (page_keys ord page) =
    map (\<lambda>b. (record_for name_key db w (uuid_cast (lf_ownerId filt)) b, sort_column ord b)) page"
proof -
  let ?owner = "uuid_cast (lf_ownerId filt)"
  define found where "found = filter (\<lambda>b. bm_workspace_id b = w \<and>
      (if isOwnScope filt then bm_owner_id b = Some ?owner else bookmarkReadableBy (library_tables db) ?owner b) \<and>
      bm_plan_archived_at b = None \<and> bm_id b \<in> set (map fst (page_keys ord page))) (bookmarks db)"
  have in_found: "b \<in> set found" if "b \<in> set page" for b
    using that assms(3) admitted_readable [OF assms(4) [OF that]] by (auto simp: page_keys_def found_def)
  have "find (\<lambda>c. bm_id c = bm_id b) found = Some b" if "b \<in> set page" for b
    by (rule find_by_id) (use assms(1) in_found [OF that] in \<open>auto simp: distinct_map_filter found_def\<close>)
  then have "concat (map (\<lambda>(i, _). case find (\<lambda>b. bm_id b = i) found of None \<Rightarrow> [] | Some b \<Rightarrow> [b]) (page_keys ord xs)) = xs" if "set xs \<subseteq> set page" for xs
    using that by (induction xs) (auto simp: page_keys_def)
  then have ordered: "concat (map (\<lambda>(i, _). case find (\<lambda>b. bm_id b = i) found of None \<Rightarrow> [] | Some b \<Rightarrow> [b]) (page_keys ord page)) = page"
    by simp
  have records: "recordsOf name_key ?owner w page db = map (record_for name_key db w ?owner) page"
    by (rule recordsOf_readable) (use admitted_readable assms(4) in blast)
  have "find (\<lambda>r. bk_id r = bm_id b) (map (record_for name_key db w ?owner) page) = Some (record_for name_key db w ?owner b)"
    if "b \<in> set page" for b
  proof -
    have "find (\<lambda>r. bk_id r = bk_id (record_for name_key db w ?owner b)) (map (record_for name_key db w ?owner) page) = Some (record_for name_key db w ?owner b)"
      by (rule find_by_id) (use that assms(2) in \<open>auto simp: o_def\<close>)
    then show ?thesis by simp
  qed
  then have "concat (map (\<lambda>(i, key). case find (\<lambda>r. bk_id r = i) (map (record_for name_key db w ?owner) page) of None \<Rightarrow> [] | Some r \<Rightarrow> [(r, key)])
      (page_keys ord xs)) = map (\<lambda>b. (record_for name_key db w ?owner b, sort_column ord b)) xs" if "set xs \<subseteq> set page" for xs
    using that by (induction xs) (auto simp: page_keys_def)
  then show ?thesis
    unfolding rowsOfPage_def Let_def found_def [symmetric] ordered records by simp
qed

lemma distinct_page_rows: "distinct (map bm_id (bookmarks db)) \<Longrightarrow> distinct (map bm_id (page_rows tools db viewer w request))"
proof -
  assume "distinct (map bm_id (bookmarks db))"
  then have "distinct (map bm_id (filter Q (bookmarks db)))" for Q
    by (rule distinct_map_filter)
  then have "distinct (map bm_id (order_rows tools ord (filter Q (bookmarks db))))" for Q ord
    unfolding order_rows_def Let_def by (auto simp: rev_map [symmetric]) (metis mset_map mset_eq_imp_distinct_iff mset_sort)+
  then show ?thesis
    by (simp add: page_rows_def listed_rows_def distinct_map_filter flip: take_map)
qed

lemma page_rows_read_again:
  assumes "distinct (map bm_id (bookmarks db))"
  shows "rowsOfPage name_key tx db w (lr_filter request) (page_keys (lr_sort request) (page_rows tools db viewer w request)) =
    map (\<lambda>b. (record_for name_key db w (uuid_cast (lf_ownerId (lr_filter request))) b, sort_column (lr_sort request) b))
      (page_rows tools db viewer w request)"
  by (rule rowsOfPage_eq [OF assms distinct_page_rows [OF assms]]) (use page_rows_admitted in blast)+

section \<open>A page and its count\<close>

definition filter_checked :: "list_filter \<Rightarrow> bool" where
  "filter_checked filt \<longleftrightarrow> branchesOf filt = [] \<or>
     (case lf_folderId filt of None \<Rightarrow> True | Some i \<Rightarrow> uuid_pattern i) \<and> list_all uuid_pattern (filter_tags filt)"

lemma check_filter_Inr [simp]: "check_filter filt s = Inr r \<longleftrightarrow> filter_checked filt \<and> r = ((), s)"
  by (auto simp: check_filter_def filter_checked_def tx_bind_Inr_iff split: option.split)

lemma list_checks_Inr [simp]:
  "requireViewer tx filt s = Inr r \<longleftrightarrow> js_lower (lf_ownerId filt) = js_lower (tx_accountId tx) \<and> r = ((), s)"
  "require_viewer_of tx filt s = Inr r \<longleftrightarrow> (isOwnScope filt \<or> js_lower (lf_ownerId filt) = js_lower (tx_accountId tx)) \<and> r = ((), s)"
  "check_position ord after s = Inr r \<longleftrightarrow> (case after of None \<Rightarrow> True | Some p \<Rightarrow> ord = SortRecentlyOpened \<or> fst p \<noteq> NoValue) \<and> r = ((), s)"
  by (auto simp: requireViewer_def require_viewer_of_def check_position_def)

lemma records_shown:
  "map (\<lambda>b. (recordOf b (foldersOfBookmark name_key w owner (bm_id b) db) (tagsOfBookmark name_key w owner (bm_id b) db) None, sort_column ord b)) rows =
   map (\<lambda>b. (record_for name_key db w owner b, sort_column ord b)) rows"
  if "\<And>b. b \<in> set rows \<Longrightarrow> bm_owner_id b = Some owner"
  using that by (simp add: record_for_def)

lemma snd_matchedPage: "matchedPageStatement tools db viewer w request q = (page, n) \<Longrightarrow> n = length (sys_bookmark_match tools db viewer w q)"
  by (simp add: matchedPageStatement_def Let_def)

text \<open>The rows and the count a list is answered from, whichever way the statement reads them.\<close>

lemma listWithCount_rows:
  assumes ok: "distinct (map bm_id (bookmarks db))" and w: "tx_workspaceId tx = Some v" "w = uuid_cast v"
    and viewer: "js_lower (lf_ownerId (lr_filter request)) = js_lower (tx_accountId tx)" "viewer = uuid_cast (tx_accountId tx)"
    and run: "listWithCountOf name_key tools tx request limit db = Inr ((rows, n), db')"
  shows "db' = db \<and> rows = map (\<lambda>b. (record_for name_key db w viewer b, sort_column (lr_sort request) b)) (page_rows tools db viewer w request) \<and>
    n = min (length (listed_rows tools db viewer w (lr_filter request) (lr_sort request))) limit"
proof -
  let ?filt = "lr_filter request" and ?ord = "lr_sort request"
  have owner: "uuid_cast (lf_ownerId ?filt) = viewer"
    using viewer by (simp add: uuid_cast_def)
  have matched: "db'' = db \<and> rs = map (\<lambda>b. (record_for name_key db w viewer b, sort_column ?ord b)) (page_rows tools db viewer w request) \<and>
      m = length (sys_bookmark_match tools db viewer w q)"
    if "matchedList name_key tools tx w request q db = Inr ((rs, m), db'')" "lf_q ?filt = Some q" for q rs m db''
    using that page_rows_read_again [OF ok, of name_key tx w request tools viewer] matchedPage_rows [OF ok _ that(2), of viewer tools w] owner
    by (auto simp: matchedList_def tx_bind_Inr_iff read_db_def viewer(2) [symmetric] snd_matchedPage split: prod.splits)
  show ?thesis
  proof (cases "matchesAreTheAnswer tx ?filt")
    case True
    then obtain q where q: "lf_q ?filt = Some q"
      by (auto simp: matchesAreTheAnswer_def)
    then show ?thesis
      using run True matched [OF _ q] matches_are_the_answer [OF ok True q viewer(2) [symmetric], of tools w ?ord]
      by (auto simp: listWithCountOf_def with_workspace_def tx_bind_Inr_iff w split: prod.splits)
  next
    case False
    then obtain db1 where list: "listOf name_key tools tx request db = Inr (rows, db1)" and count: "countOf tools tx ?filt limit db1 = Inr (n, db')"
      using run by (auto simp: listWithCountOf_def tx_bind_Inr_iff)
    have page: "db1 = db \<and> rows = map (\<lambda>b. (record_for name_key db w viewer b, sort_column ?ord b)) (page_rows tools db viewer w request)"
    proof (cases "lf_q ?filt")
      case (Some q)
      then show ?thesis
        using list matched [OF _ Some] by (auto simp: listOf_def with_workspace_def tx_bind_Inr_iff w)
    next
      case None
      show ?thesis
      proof (cases "isOwnScope ?filt")
        case True
        have "bm_owner_id b = Some viewer" if "b \<in> set (page_rows tools db viewer w request)" for b
          using admitted_readable page_rows_admitted [OF that] True owner by blast
        then show ?thesis
          using list None True by (auto simp: listOf_def with_workspace_def ownList_def tx_bind_Inr_iff read_db_def w(1) w(2) [symmetric]
              viewer(2) [symmetric] owner own_page_rows [OF ok None] Let_def records_shown)
      next
        case False
        then show ?thesis
          using list None page_rows_read_again [OF ok, of name_key tx w request tools viewer]
          by (auto simp: listOf_def with_workspace_def scopedList_def tx_bind_Inr_iff read_db_def w(1) w(2) [symmetric]
              viewer(2) [symmetric] owner pageStatement_rows [OF ok owner None] split: if_splits)
             (simp_all add: page_rows_def listed_rows_def filterPredicate_def)
      qed
    qed
    have "n = min (length (listed_rows tools db viewer w ?filt ?ord)) limit \<and> db' = db1"
    proof (cases "lf_q ?filt")
      case (Some q)
      then show ?thesis
        using count page False by (auto simp: countOf_def with_workspace_def tx_bind_Inr_iff read_db_def w matchedCountStatement_def Let_def
            viewer(2) [symmetric] length_listed conj_commute min.commute)
    next
      case None
      then show ?thesis
        using count page by (auto simp: countOf_def with_workspace_def tx_bind_Inr_iff read_db_def w viewer(2) [symmetric]
            countStatement_rows [OF owner None, of db "uuid_cast v" limit tools ?ord] length_listed min.commute split: if_splits)
    qed
    then show ?thesis
      using page by simp
  qed
qed

section \<open>Following the cursors\<close>

definition list_precedes :: "bookmark_sort \<Rightarrow> (nat \<times> string) \<times> string \<Rightarrow> (nat \<times> string) \<times> string \<Rightarrow> bool" where
  "list_precedes ord p q \<longleftrightarrow> (if descending ord then q < p else p < q)"

definition list_key :: "list_tools \<Rightarrow> bookmark_sort \<Rightarrow> bookmark_row \<Rightarrow> (nat \<times> string) \<times> string" where
  "list_key tools ord b = position_rank (lt_collation tools) (bookmark_position ord b)"

definition list_fetch ::
    "list_tools \<Rightarrow> library \<Rightarrow> string \<Rightarrow> string \<Rightarrow> list_filter \<Rightarrow> bookmark_sort \<Rightarrow> ((nat \<times> string) \<times> string) option \<Rightarrow> nat \<Rightarrow> bookmark_row list" where
  "list_fetch tools db viewer w filt ord after n =
     take n (filter (\<lambda>b. case after of None \<Rightarrow> True | Some p \<Rightarrow> list_precedes ord p (list_key tools ord b)) (listed_rows tools db viewer w filt ord))"

lemma order_rows_weakly_sorted:
  "sorted_wrt (\<lambda>b c. \<not> list_precedes ord (list_key tools ord c) (list_key tools ord b)) (order_rows tools ord rows)"
proof -
  let ?rank = "list_key tools ord"
  have "sorted_wrt (\<lambda>b c. ?rank b \<le> ?rank c) (sort_key ?rank rows)"
    using sorted_sort_key [of ?rank rows] by (simp add: sorted_wrt_map)
  then show ?thesis
    by (auto simp: order_rows_def Let_def list_precedes_def list_key_def [symmetric] sorted_wrt_rev not_less)
qed

interpretation list_pages: keyset "list_precedes ord" "list_key tools ord" "listed_rows tools db viewer w filt ord" "list_fetch tools db viewer w filt ord"
  for tools db viewer w filt ord
proof unfold_locales
  show "sorted_wrt (\<lambda>x y. \<not> list_precedes ord (list_key tools ord y) (list_key tools ord x)) (listed_rows tools db viewer w filt ord)"
    unfolding listed_rows_def by (rule order_rows_weakly_sorted)
qed (auto simp: list_precedes_def list_fetch_def split: if_splits)

definition position_key :: "list_tools \<Rightarrow> position \<Rightarrow> (nat \<times> string) \<times> string" where
  "position_key tools p = position_rank (lt_collation tools) (fst p, uuid_cast (snd p))"

text \<open>The condition on the rows after a position, with the never opened ones last, is the order of the list.\<close>

lemma afterPosition_precedes: "afterPosition tools ord p b \<longleftrightarrow> list_precedes ord (position_key tools p) (list_key tools ord b)"
proof (cases "ord = SortRecentlyOpened")
  case True
  obtain v i where p: "p = (v, i)" by fastforce
  show ?thesis
    using True p by (cases v; cases "bm_last_opened_at b")
      (simp_all add: afterPosition_def Let_def list_precedes_def position_key_def list_key_def position_rank_def bookmark_position_def descending_def)
qed (simp add: afterPosition_def Let_def list_precedes_def position_key_def list_key_def position_rank_def bookmark_position_def)

lemma page_rows_fetch:
  "page_rows tools db viewer w \<lparr>lr_filter = filt, lr_sort = ord, lr_after = after, lr_limit = n\<rparr> =
   list_fetch tools db viewer w filt ord (map_option (position_key tools) after) n"
  by (cases after) (simp_all add: page_rows_def list_fetch_def after_rows_def [abs_def] afterPosition_precedes)

definition list_cursors_ok :: "list_cursors \<Rightarrow> bool" where
  "list_cursors_ok cursors \<longleftrightarrow> (\<forall>p scope. lc_open cursors (lc_seal cursors p scope) scope = Some p)"

text \<open>The place in the list a cursor of the reader opens at.\<close>

definition list_opens ::
    "list_tools \<Rightarrow> list_cursors \<Rightarrow> list_cursor_scope \<Rightarrow> bookmark_sort \<Rightarrow> string option \<Rightarrow> ((nat \<times> string) \<times> string) option \<Rightarrow> bool" where
  "list_opens tools cursors scope ord c after \<longleftrightarrow>
     (case c of None \<Rightarrow> after = None
      | Some text \<Rightarrow> \<exists>p. lc_open cursors text scope = Some p \<and> (ord = SortRecentlyOpened \<or> fst p \<noteq> NoValue) \<and> after = Some (position_key tools p))"

definition list_page ::
    "url_parser \<Rightarrow> list_tools \<Rightarrow> library list_store \<Rightarrow> list_cursors \<Rightarrow> list_ask \<Rightarrow> library \<Rightarrow> string option \<Rightarrow> (bookmark_record list \<times> string option) option" where
  "list_page parse tools store cursors ask db c =
     (case listBookmarks parse tools store cursors (ask\<lparr>la_cursor := c\<rparr>) db of
        Inr (ListedBookmarks items next_cursor counted, _) \<Rightarrow> Some (items, next_cursor)
      | _ \<Rightarrow> None)"

lemma ask_cursor_frame [simp]:
  "filter_ask_of (ask\<lparr>la_cursor := c\<rparr>) = filter_ask_of ask"
  "list_cursor_scope_of (ask\<lparr>la_cursor := c\<rparr>) filt = list_cursor_scope_of ask filt"
  by (simp_all add: filter_ask_of_def list_cursor_scope_of_def)

text \<open>A list whose filter is well formed is answered.\<close>

lemma listWithCount_answers:
  assumes "tx_workspaceId tx = Some v" "js_lower (lf_ownerId (lr_filter request)) = js_lower (tx_accountId tx)" "filter_checked (lr_filter request)"
    "case lr_after request of None \<Rightarrow> True | Some p \<Rightarrow> lr_sort request = SortRecentlyOpened \<or> fst p \<noteq> NoValue"
  shows "\<exists>rows n. listWithCountOf name_key tools tx request limit db = Inr ((rows, n), db)"
proof -
  have checks: "check_filter (lr_filter request) s = Inr ((), s)" "requireViewer tx (lr_filter request) s = Inr ((), s)"
    "require_viewer_of tx (lr_filter request) s = Inr ((), s)" "check_position (lr_sort request) (lr_after request) s = Inr ((), s)" for s :: library
    using assms(2-4) by simp_all
  show ?thesis
    by (auto simp: listWithCountOf_def listOf_def countOf_def with_workspace_def requireWorkspace_def assms(1) matchedList_def ownList_def scopedList_def
        tx_bind_def checks read_db_def tx_return_def split: prod.split option.split)
qed

lemma sort_column_valued: "ord = SortRecentlyOpened \<or> sort_column ord b \<noteq> NoValue"
  by (cases ord) simp_all

lemma listed_row_id:
  "rows_ok db \<Longrightarrow> b \<in> set (listed_rows tools db viewer w filt ord) \<Longrightarrow> uuid_cast (bm_id b) = bm_id b"
  by (auto simp: rows_ok_def listed_rows_def)

lemma cursor_opens_last:
  assumes "list_cursors_ok cursors" "uuid_cast (bm_id b) = bm_id b"
  shows "list_opens tools cursors scope ord (Some (lc_seal cursors (sort_column ord b, bm_id b) scope)) (Some (list_key tools ord b))"
proof -
  have "lc_open cursors (lc_seal cursors (sort_column ord b, bm_id b) scope) scope = Some (sort_column ord b, bm_id b)"
    using assms(1) unfolding list_cursors_ok_def by blast
  then show ?thesis
    unfolding list_opens_def option.case
    by (intro exI [of _ "(sort_column ord b, bm_id b)"])
       (use assms(2) sort_column_valued [of ord b] in \<open>simp add: position_key_def list_key_def bookmark_position_def\<close>)
qed

text \<open>A request of a member, whose filter is the one the service makes of it.\<close>

definition list_request_ok :: "url_parser \<Rightarrow> list_tools \<Rightarrow> tenant_tx \<Rightarrow> list_ask \<Rightarrow> list_filter \<Rightarrow> bool" where
  "list_request_ok parse tools tx ask filt \<longleftrightarrow>
     bookmarkListFilter parse tools (filter_ask_of ask) = Inr filt \<and> filter_checked filt \<and>
     js_lower (la_accountId ask) = js_lower (tx_accountId tx) \<and> tx_workspaceId tx \<noteq> None"

lemma list_filter_owner: "bookmarkListFilter parse tools ask = Inr filt \<Longrightarrow> lf_ownerId filt = fa_accountId ask"
  by (auto simp: bookmarkListFilter_def split: sum.splits option.splits)

lemma page_of_list:
  assumes db: "rows_ok db" and cursors: "list_cursors_ok cursors" and ask: "list_request_ok parse tools tx ask filt"
    and w: "tx_workspaceId tx = Some v"
    and opens: "list_opens tools cursors (list_cursor_scope_of ask filt) (la_sort ask) (la_cursor ask) after"
  defines "viewer \<equiv> uuid_cast (tx_accountId tx)" and "n \<equiv> length (listed_rows tools db (uuid_cast (tx_accountId tx)) (uuid_cast v) filt (la_sort ask))"
    and "fetched \<equiv> list_fetch tools db (uuid_cast (tx_accountId tx)) (uuid_cast v) filt (la_sort ask) after (la_limit ask + 1)"
  shows "listBookmarks parse tools (listStoreOf name_key tools tx) cursors ask db =
    Inr (ListedBookmarks (map (record_for name_key db (uuid_cast v) viewer) (take (la_limit ask) fetched))
      (if length fetched > la_limit ask \<and> take (la_limit ask) fetched \<noteq> [] then
         Some (lc_seal cursors (bookmark_position (la_sort ask) (last (take (la_limit ask) fetched))) (list_cursor_scope_of ask filt)) else None)
      (if n > BOOKMARK_LIST_TOTAL_CAP then None else Some n), db)"
proof -
  define place where "place = (case la_cursor ask of None \<Rightarrow> None | Some c \<Rightarrow> lc_open cursors c (list_cursor_scope_of ask filt))"
  let ?request = "\<lparr>lr_filter = filt, lr_sort = la_sort ask, lr_after = place, lr_limit = la_limit ask + 1\<rparr>"
  have filt: "bookmarkListFilter parse tools (filter_ask_of ask) = Inr filt" "filter_checked filt"
    "js_lower (lf_ownerId filt) = js_lower (tx_accountId tx)"
    using ask list_filter_owner [of parse tools "filter_ask_of ask" filt] by (auto simp: list_request_ok_def filter_ask_of_def)
  have place: "(case la_cursor ask of None \<Rightarrow> Some None | Some c \<Rightarrow> map_option Some (lc_open cursors c (list_cursor_scope_of ask filt))) = Some place"
    "after = map_option (position_key tools) place" "case place of None \<Rightarrow> True | Some p \<Rightarrow> la_sort ask = SortRecentlyOpened \<or> fst p \<noteq> NoValue"
    using opens by (auto simp: place_def list_opens_def split: option.splits)
  obtain rows m where run: "listWithCountOf name_key tools tx ?request (BOOKMARK_LIST_TOTAL_CAP + 1) db = Inr ((rows, m), db)"
    using listWithCount_answers [OF w, of ?request name_key tools "BOOKMARK_LIST_TOTAL_CAP + 1" db] filt place(3)
    unfolding list_request.simps by blast
  have got: "rows = map (\<lambda>b. (record_for name_key db (uuid_cast v) viewer b, sort_column (la_sort ask) b)) fetched"
    "m = min n (BOOKMARK_LIST_TOTAL_CAP + 1)"
    using listWithCount_rows [OF _ w refl _ refl run] db filt(3)
    by (simp_all add: rows_ok_def page_rows_fetch place(2) fetched_def n_def viewer_def)
  show ?thesis
    using run
    by (auto simp: listBookmarks_def filt(1) place(1) Let_def listStoreOf_def tx_bind_def tx_return_def got take_map o_def last_map bookmark_position_def)
qed

lemma list_page_answers:
  assumes db: "rows_ok db" and cursors: "list_cursors_ok cursors" and ask: "list_request_ok parse tools tx ask filt"
    and w: "tx_workspaceId tx = Some v"
    and opens: "list_opens tools cursors (list_cursor_scope_of ask filt) (la_sort ask) c after"
  defines "viewer \<equiv> uuid_cast (tx_accountId tx)"
    and "fetched \<equiv> list_fetch tools db (uuid_cast (tx_accountId tx)) (uuid_cast v) filt (la_sort ask) after (la_limit ask + 1)"
  shows "list_page parse tools (listStoreOf name_key tools tx) cursors ask db c =
    Some (map (record_for name_key db (uuid_cast v) viewer) (take (la_limit ask) fetched),
      if length fetched > la_limit ask \<and> take (la_limit ask) fetched \<noteq> [] then
        Some (lc_seal cursors (bookmark_position (la_sort ask) (last (take (la_limit ask) fetched))) (list_cursor_scope_of ask filt)) else None)"
proof -
  have "list_request_ok parse tools tx (ask\<lparr>la_cursor := c\<rparr>) filt"
    using ask by (simp add: list_request_ok_def)
  then show ?thesis
    using page_of_list [OF db cursors _ w, of parse tools "ask\<lparr>la_cursor := c\<rparr>" filt after name_key] opens
    by (simp add: list_page_def viewer_def fetched_def)
qed

text \<open>The cursor of a page opens at its last row.\<close>

lemma list_fetch_listed: "b \<in> set (take m (list_fetch tools db viewer w filt ord after n)) \<Longrightarrow> b \<in> set (listed_rows tools db viewer w filt ord)"
  by (auto simp: list_fetch_def dest!: in_set_takeD)

lemma next_cursor_opens:
  assumes "rows_ok db" "list_cursors_ok cursors" "take m (list_fetch tools db viewer w filt ord after n) \<noteq> []"
  defines "row \<equiv> last (take m (list_fetch tools db viewer w filt ord after n))"
  shows "list_opens tools cursors scope ord (Some (lc_seal cursors (bookmark_position ord row) scope)) (Some (list_key tools ord row))"
proof -
  have "row \<in> set (listed_rows tools db viewer w filt ord)"
    unfolding row_def by (rule list_fetch_listed) (rule last_in_set [OF assms(3)])
  then show ?thesis
    using cursor_opens_last [OF assms(2) listed_row_id [OF assms(1)]] by (simp add: bookmark_position_def)
qed

lemma listed_keys_distinct:
  assumes "rows_ok db"
  shows "distinct (map (list_key tools ord) (listed_rows tools db viewer w filt ord))"
proof -
  have "distinct (map (snd \<circ> list_key tools ord) (listed_rows tools db viewer w filt ord))"
    using assms distinct_page_rows [of db tools viewer w "\<lparr>lr_filter = filt, lr_sort = ord, lr_after = None, lr_limit = length (listed_rows tools db viewer w filt ord)\<rparr>"]
    by (simp add: rows_ok_def page_rows_def after_rows_def [abs_def] o_def list_key_def position_rank_def bookmark_position_def)
  then show ?thesis
    by (simp add: distinct_map_filter distinct_map o_def) (auto simp: inj_on_def)
qed

lemma pages_of_list:
  assumes db: "rows_ok db" and cursors: "list_cursors_ok cursors" and ask: "list_request_ok parse tools tx ask filt"
    and w: "tx_workspaceId tx = Some v" and limit: "1 \<le> la_limit ask"
    and fuel: "length (listed_rows tools db (uuid_cast (tx_accountId tx)) (uuid_cast v) filt (la_sort ask)) \<le> fuel * la_limit ask" "1 \<le> fuel"
  shows "cursor_walk (list_page parse tools (listStoreOf name_key tools tx) cursors ask db) fuel None =
    Some (map (record_for name_key db (uuid_cast v) (uuid_cast (tx_accountId tx)))
      (listed_rows tools db (uuid_cast (tx_accountId tx)) (uuid_cast v) filt (la_sort ask)))"
proof -
  let ?rows = "listed_rows tools db (uuid_cast (tx_accountId tx)) (uuid_cast v) filt (la_sort ask)"
    and ?fetch = "list_fetch tools db (uuid_cast (tx_accountId tx)) (uuid_cast v) filt (la_sort ask)"
    and ?opens = "list_opens tools cursors (list_cursor_scope_of ask filt) (la_sort ask)"
  have "cursor_walk (list_page parse tools (listStoreOf name_key tools tx) cursors ask db) fuel None =
      (if keyset_ends ?fetch (list_key tools (la_sort ask)) (la_limit ask) fuel None
       then Some (map (record_for name_key db (uuid_cast v) (uuid_cast (tx_accountId tx)))
         (keyset_walk ?fetch (list_key tools (la_sort ask)) (la_limit ask) fuel None))
       else None)"
  proof (rule cursor_walk_keyset [where opens = ?opens])
    fix c after
    assume c: "?opens c after"
    show "\<exists>c'. list_page parse tools (listStoreOf name_key tools tx) cursors ask db c =
        Some (map (record_for name_key db (uuid_cast v) (uuid_cast (tx_accountId tx))) (take (la_limit ask) (?fetch after (la_limit ask + 1))),
          if length (?fetch after (la_limit ask + 1)) > la_limit ask \<and> take (la_limit ask) (?fetch after (la_limit ask + 1)) \<noteq> [] then Some c' else None) \<and>
        (length (?fetch after (la_limit ask + 1)) > la_limit ask \<and> take (la_limit ask) (?fetch after (la_limit ask + 1)) \<noteq> [] \<longrightarrow>
          ?opens (Some c') (Some (list_key tools (la_sort ask) (last (take (la_limit ask) (?fetch after (la_limit ask + 1)))))))"
      using list_page_answers [OF db cursors ask w c] next_cursor_opens [OF db cursors] by blast
  qed (simp add: list_opens_def)
  moreover have "keyset_walk ?fetch (list_key tools (la_sort ask)) (la_limit ask) fuel None = ?rows"
    by (rule list_pages.walk_complete [OF listed_keys_distinct [OF db] limit fuel(1)])
  moreover have "keyset_ends ?fetch (list_key tools (la_sort ask)) (la_limit ask) fuel None"
    by (rule list_pages.walk_ends [OF listed_keys_distinct [OF db] limit fuel])
  ultimately show ?thesis by simp
qed

end
