(* ===== verification/LibraryBulkLaws.thy ===== *)
theory LibraryBulkLaws
  imports LibraryBulk SharingLaws LibraryOwn LibraryPages
begin

text \<open>
  The contracts of the stores behind the bulk actions and the sharing services, met by the stores on the database: what every operation
  of a store keeps, the services keep. Both the invariant of the library and the rows of the other members are kept so.
\<close>

section \<open>The bulk actions\<close>

locale bulk_store_contract = kept_relation R
  for R :: "'s \<Rightarrow> 's \<Rightarrow> bool" +
  fixes mine :: "string \<Rightarrow> bool"
    and store :: "'s bulk_store"
    and audit :: "audit_input \<Rightarrow> ('s, unit) tx"
  assumes mine_lower: "mine a \<Longrightarrow> mine (js_lower a)"
    and ids_kept: "keeps R (bl_ids store filt n)"
    and sharedAmong_kept: "keeps R (bl_sharedAmong store ids a)"
    and removeMany_kept: "keeps R (bl_removeMany store ids)"
    and setPinned_kept: "mine a \<Longrightarrow> keeps R (bl_setPinned store ids a pinned)"
    and fileIn_kept: "mine a \<Longrightarrow> keeps R (bl_fileIn store ids a folder filing)"
    and tag_kept: "mine a \<Longrightarrow> keeps R (bl_tag store ids a tags tagging)"
    and previewTags_kept: "keeps R (bl_previewTags store ids a tags)"
    and share_kept: "mine a \<Longrightarrow> keeps R (bl_share store ids a target newId)"
    and previewShare_kept: "keeps R (bl_previewShare store ids a target)"
    and audit_kept: "keeps R (audit event)"
begin

lemma namedBookmarks_kept: "keeps R (namedBookmarks parse tools store account target)"
  by (auto simp: namedBookmarks_def Let_def ids_kept intro!: keeps_bind split: bulk_target.split sum.split)

lemma holds_shared_kept: "keeps R (holds_shared store ids a)"
  by (auto simp: holds_shared_def sharedAmong_kept intro!: keeps_bind)

lemma or_throw_kept: "(\<And>x. m = Inr x \<Longrightarrow> keeps R (f x)) \<Longrightarrow> keeps R (or_throw m f)"
  by (auto simp: or_throw_def split: sum.split)

lemma bulk_act_kept: "mine a \<Longrightarrow> keeps R (bulk_act store audit newId ask a requested ids)"
  by (auto simp: bulk_act_def bulk_delete_def bulk_share_def removeMany_kept audit_kept setPinned_kept fileIn_kept tag_kept share_kept
      intro!: keeps_bind or_throw_kept split: bulk_action.split option.split share_many_result.split)

lemma bulkBookmarks_kept: "mine (bu_accountId ask) \<Longrightarrow> keeps R (bulkBookmarks parse tools store audit newId ask)"
  by (auto simp: bulkBookmarks_def Let_def namedBookmarks_kept holds_shared_kept bulk_act_kept mine_lower intro!: keeps_bind split: named_bookmarks.split)

lemma listBookmarkIds_kept: "keeps R (listBookmarkIds parse tools store ask)"
  by (auto simp: listBookmarkIds_def ids_kept intro!: keeps_bind split: sum.split)

lemma previews_kept:
  "keeps R (previewBulkTags parse tools store account given tagIds)"
  "keeps R (previewBulkShare parse tools store account given shareTarget)"
  by (auto simp: previewBulkTags_def previewBulkShare_def Let_def namedBookmarks_kept holds_shared_kept previewTags_kept previewShare_kept
      intro!: keeps_bind or_throw_kept split: named_bookmarks.split)

end

lemma db_previewTags_kept: "keeps (preserves library_ok) (db_previewTags name_key localeCompare tx ids owner tags)"
  by (auto simp: db_previewTags_def ownedTags_def Let_def ownedLiveBookmarks_kept intro!: lib.keeps_intros)

lemma db_ids_kept: "keeps (preserves library_ok) (db_ids tools tx filt n)"
  by (auto simp: db_ids_def require_viewer_of_def requireViewer_def check_filter_def intro!: lib.keeps_intros split: option.split)

definition between_ok :: "(library \<Rightarrow> library) \<Rightarrow> bool" where
  "between_ok between \<longleftrightarrow> (\<forall>db. library_ok db \<longrightarrow> library_ok (between db))"

interpretation library_bulk: bulk_store_contract "preserves (sound_given (between_ok between))" "\<lambda>_. True"
    "bulkStoreOf between name_key localeCompare tools tx" "audit_write (on_audit tx) auditId"
  for between name_key localeCompare tools tx auditId
  by unfold_locales
     (auto simp: preserves_def bulkStoreOf_def between_ok_def
       intro!: keeps_sound db_ids_kept db_sharedAmong_kept db_removeMany_kept db_setPinned_kept db_fileIn_kept db_tag_kept db_previewTags_kept
         db_share_kept share_reads_kept audit_write_kept)

section \<open>Bulk actions and the others\<close>

lemma own_delete_many: "keeps (preserves (theirs a x)) (sys_bookmark_delete_many a w ids)"
proof (rule keepsI)
  fix db db' :: library and r
  let ?left = "filter (\<lambda>c. \<not> (owned_here a w c \<and> bm_id c \<in> set ids)) (bookmarks db)"
  assume "sys_bookmark_delete_many a w ids db = Inr (r, db')"
  then have "db' = db \<or> bookmarks db' = ?left \<and> lb_tags db' = lb_tags db \<and> lb_folders db' = lb_folders db \<and> workspace_members db' = workspace_members db"
    by (auto simp: sys_bookmark_delete_many_def Let_def delete_bookmarks_def lower_count_Inr split: if_splits)
  moreover have "filter (\<lambda>b. bm_owner_id b \<noteq> Some a) ?left = filter (\<lambda>b. bm_owner_id b \<noteq> Some a) (bookmarks db)"
    unfolding filter_filter by (rule filter_cong) (auto simp: owned_here_def)
  moreover have "distinct (map bm_id ?left)" if "distinct (map bm_id (bookmarks db))"
    using that by (rule distinct_map_filter)
  ultimately show "preserves (theirs a x) db db'"
    by (elim disjE conjE; unfold preserves_def theirs_defs; intro impI; simp only: simp_thms)
qed

lemma own_setPinned:
  assumes "uuid_cast owner = a"
  shows "keeps (preserves (theirs a x)) (db_setPinned tx ids owner pinned)"
proof (rule keepsI)
  fix db db' :: library and r
  assume "db_setPinned tx ids owner pinned db = Inr (r, db')"
  then obtain w where run: "db' = rewritten (\<lambda>b. if (owned_here a w b \<and> bm_plan_archived_at b = None \<and> bm_id b \<in> uuid_cast ` set ids) \<and>
      (bm_pinned_at b \<noteq> None) \<noteq> pinned then pin_row (lb_now db) pinned b else b) db"
    unfolding db_setPinned_def with_workspace_def tx_bind_Inr_iff Let_def assms by auto
  define picked where "picked b \<longleftrightarrow> (owned_here a w b \<and> bm_plan_archived_at b = None \<and> bm_id b \<in> uuid_cast ` set ids) \<and>
      (bm_pinned_at b \<noteq> None) \<noteq> pinned" for b
  have picked: "\<And>b. picked b \<Longrightarrow> bm_owner_id b = Some a" and db': "db' = rewritten (\<lambda>b. if picked b then pin_row (lb_now db) pinned b else b) db"
    using run by (simp_all only: picked_def owned_here_def)
  let ?g = "\<lambda>b. if picked b then pin_row (lb_now db) pinned b else b"
  have g: "bm_id (?g b) = bm_id b" "bm_owner_id (?g b) = bm_owner_id b" for b
    by (simp_all add: pin_row_def)
  have "filter (\<lambda>b. bm_owner_id b \<noteq> Some a) (map ?g bs) = filter (\<lambda>b. bm_owner_id b \<noteq> Some a) bs" for bs
    using picked g(2) by (induction bs) auto
  moreover have "map bm_id (map ?g (bookmarks db)) = map bm_id (bookmarks db)"
    using g(1) by simp
  ultimately show "preserves (theirs a x) db db'"
    by (simp add: preserves_def theirs_defs db' del: map_map)
qed

lemma own_many_links:
  "keeps (preserves (theirs a x)) (insertTagLinksMany tx bookmarkIds tagIds)"
  "keeps (preserves (theirs a x)) (deleteTagLinksMany tx bookmarkIds tagIds)"
  "keeps (preserves (theirs a x)) (deleteLinksOutside tx folderId bookmarkIds)"
  "keeps (preserves (theirs a x)) (ownedLiveBookmarks w owner bookmarkIds)"
  by (auto simp: insertTagLinksMany_def deleteTagLinksMany_def deleteLinksOutside_def ownedLiveBookmarks_def Let_def own_insert_links
      intro!: their.keeps_intros)

lemma own_insert_share: "keeps (preserves (theirs a x)) (insert_share bookmark_share_table tx s)"
  by (rule keeps_same) (auto simp: insert_share_def Let_def bookmark_share_table_def split: if_splits)

lemma own_insert_shares: "keeps (preserves (theirs a x)) (insert_shares tx rows)"
  by (induction rows) (auto simp: own_insert_share intro!: their.keeps_intros)

lemma own_share_reads:
  "keeps (preserves (theirs a x)) (unsharedWith tx owned target)" "keeps (preserves (theirs a x)) (targetName tx target)"
  "keeps (preserves (theirs a x)) (shareable tx owner bookmarkIds)" "keeps (preserves (theirs a x)) (memberCountOf tx target owner)"
  by (auto simp: unsharedWith_def targetName_def shareable_def memberCountOf_def own_many_links intro!: their.keeps_intros split: share_target.split)

lemma own_passes: "keeps (preserves (theirs a x)) (share_passes (\<lambda>db. db) tx newId owner target owned name left used granted)"
proof (induction left arbitrary: used granted)
  case (Suc left)
  have "keeps (preserves (theirs a x)) (\<lambda>db. Inr ((), db))"
    by (rule keepsI) (simp add: preserves_def)
  moreover have "keeps (preserves (theirs a x)) (\<lambda>db. insert_shares tx (rows db) db)" for rows
    by (rule keepsI) (rule keepsD [OF own_insert_shares])
  ultimately show ?case
    using Suc by (auto simp: Let_def own_share_reads intro!: their.keeps_intros)
qed (auto simp: own_share_reads intro!: their.keeps_intros)

lemma own_audit: "keeps (preserves (theirs a x)) (audit_write (on_audit tx) auditId event)"
proof -
  have "keeps (preserves (theirs a x)) (on_audit tx r)" for r
    by (rule keeps_same) (auto simp: on_audit_def split: sum.splits)
  then show ?thesis
    by (simp add: audit_write_def split: sum.split)
qed

interpretation own_bulk: bulk_store_contract "preserves (theirs (uuid_cast (tx_accountId tx)) x)"
    "\<lambda>i. uuid_cast i = uuid_cast (tx_accountId tx)" "bulkStoreOf (\<lambda>db. db) name_key localeCompare tools tx" "audit_write (on_audit tx) auditId"
  for x name_key localeCompare tools tx auditId
proof unfold_locales
  show "uuid_cast (js_lower i) = uuid_cast (tx_accountId tx)" if "uuid_cast i = uuid_cast (tx_accountId tx)" for i
    using that by (simp add: uuid_cast_def)
qed (auto simp: preserves_def bulkStoreOf_def db_ids_def require_viewer_of_def requireViewer_def check_filter_def db_sharedAmong_def db_removeMany_def
      own_delete_many own_setPinned db_fileIn_def own_locks own_links own_many_links db_tag_def db_previewTags_def ownedTags_def Let_def
      db_share_def own_share_reads own_passes db_previewShare_def own_audit intro!: their.keeps_intros split: option.split)

end
