(* ===== verification/LibraryCommit.thy ===== *)
theory LibraryCommit
  imports LibraryTables GoDb
begin

text \<open>
  What the database does when a transaction commits: the deferred triggers of \<open>packages/db/src/sql/670-slug-preference-cleanup.sql\<close>. Each
  row of \<open>bookmark_shares\<close>, \<open>folder_shares\<close>, \<open>folder_bookmarks\<close> and \<open>team_members\<close> that the transaction deleted takes the remembered choices
  it may have given access to, once no other route reads their bookmark.
\<close>

definition slug_preference_bookmark_readable :: "library \<Rightarrow> string \<Rightarrow> string \<Rightarrow> string \<Rightarrow> bool" where
  "slug_preference_bookmark_readable db w a bookmarkId \<longleftrightarrow>
     list_ex (\<lambda>b. bm_workspace_id b = w \<and> bm_id b = bookmarkId \<and> sql_readable (library_tables db) a b) (bookmarks db)"

text \<open>The rows of a table a transaction deleted: there before it, and not when it ends.\<close>

definition deleted_rows :: "'r list \<Rightarrow> 'r list \<Rightarrow> 'r list" where
  "deleted_rows before after = filter (\<lambda>r. r \<notin> set after) before"

text \<open>The choices the trigger of some deleted row is about; the folder's links are read as the transaction leaves them.\<close>

definition choice_judged :: "library \<Rightarrow> library \<Rightarrow> slug_preference_row \<Rightarrow> bool" where
  "choice_judged before after p \<longleftrightarrow>
     list_ex (\<lambda>s. bs_workspace_id s = sp_workspace_id p \<and> bs_bookmark_id s = sp_bookmark_id p)
       (deleted_rows (bookmark_shares before) (bookmark_shares after)) \<or>
     list_ex (\<lambda>l. fb_workspace_id l = sp_workspace_id p \<and> fb_bookmark_id l = sp_bookmark_id p)
       (deleted_rows (folder_bookmarks before) (folder_bookmarks after)) \<or>
     list_ex (\<lambda>s. fs_workspace_id s = sp_workspace_id p \<and>
         list_ex (\<lambda>l. fb_workspace_id l = fs_workspace_id s \<and> fb_folder_id l = fs_folder_id s \<and> fb_bookmark_id l = sp_bookmark_id p) (folder_bookmarks after))
       (deleted_rows (folder_shares before) (folder_shares after)) \<or>
     list_ex (\<lambda>m. tm_workspace_id m = sp_workspace_id p \<and> tm_account_id m = sp_account_id p)
       (deleted_rows (team_members before) (team_members after))"

definition slug_preferences_forget_unreadable :: "library \<Rightarrow> library \<Rightarrow> library" where
  "slug_preferences_forget_unreadable before after =
     after\<lparr>slug_preferences := filter (\<lambda>p. \<not> (choice_judged before after p \<and>
       \<not> slug_preference_bookmark_readable after (sp_workspace_id p) (sp_account_id p) (sp_bookmark_id p))) (slug_preferences after)\<rparr>"

text \<open>A transaction that threw is rolled back; one that did not commits, and its triggers run.\<close>

definition committed :: "library \<Rightarrow> (library, unit) tx \<Rightarrow> library \<Rightarrow> library" where
  "committed before run started =
     (case run started of Inl _ \<Rightarrow> before | Inr (_, db') \<Rightarrow> slug_preferences_forget_unreadable before db')"

text \<open>The triggers write remembered choices only.\<close>

lemma forget_frame:
  "slug_preferences_forget_unreadable before after = after\<lparr>slug_preferences := slug_preferences (slug_preferences_forget_unreadable before after)\<rparr>"
  by (simp add: slug_preferences_forget_unreadable_def)

text \<open>Choices are judged by links alone when no share and no membership went: those for the bookmarks of the links that did.\<close>

lemma judged_by_links:
  assumes "bookmark_shares after = bookmark_shares before" "team_members after = team_members before"
    "\<forall>s \<in> set (folder_shares before). s \<notin> set (folder_shares after) \<longrightarrow> (\<forall>l \<in> set (folder_bookmarks after). fb_folder_id l \<noteq> fs_folder_id s)"
  shows "choice_judged before after p \<longleftrightarrow>
    (\<exists>l \<in> set (folder_bookmarks before). l \<notin> set (folder_bookmarks after) \<and> fb_workspace_id l = sp_workspace_id p \<and> fb_bookmark_id l = sp_bookmark_id p)"
  using assms by (auto simp: choice_judged_def deleted_rows_def list_ex_iff)

end
