(* ===== verification/LibraryRequests.thy ===== *)
theory LibraryRequests
  imports LibraryBulkLaws LibraryCommit
begin

text \<open>
  The requests on a library, each in a transaction of its own that is committed when the service answers and rolled back when it throws
  (\<open>packages/server/src/routes/bookmarks\<close>, \<open>packages/db/src/tenant-tx.ts\<close>), with the contract of the stores of shares.
\<close>

section \<open>Sharing\<close>

locale share_store_contract = kept_relation R
  for R :: "'s \<Rightarrow> 's \<Rightarrow> bool" +
  fixes store :: "'s share_store"
    and audit :: "audit_input \<Rightarrow> ('s, unit) tx"
  assumes owned_kept: "keeps R (ss_owned store i a u)"
    and reached_kept: "keeps R (ss_sharedWith store i a)"
    and shares_kept: "keeps R (ss_list store i)"
    and grant_kept: "keeps R (ss_grant store request)"
    and revoke_kept: "keeps R (ss_revoke store i s)"
    and audit_kept: "keeps R (audit event)"
begin

lemma refusalFor_kept: "keeps R (refusalFor store i a)"
  by (auto simp: refusalFor_def reached_kept intro!: keeps_bind)

lemma listShares_kept: "keeps R (listShares store i a)"
  by (auto simp: listShares_def owned_kept refusalFor_kept shares_kept intro!: keeps_bind)

lemma grantShare_kept: "keeps R (grantShare entity store audit newId ask target)"
  by (auto simp: grantShare_def owned_kept refusalFor_kept grant_kept audit_kept intro!: keeps_bind split: share_grant.split)

lemma revokeShare_kept: "keeps R (revokeShare entity store audit ask shareId)"
  by (auto simp: revokeShare_def owned_kept refusalFor_kept revoke_kept audit_kept intro!: keeps_bind split: option.split)

end

lemma share_asks_kept:
  "keeps (preserves library_ok) (ownedBookmark tx i a u)" "keeps (preserves library_ok) (ownedFolder tx i a u)"
  "keeps (preserves library_ok) (share_sharedWith tx i a)" "keeps (preserves library_ok) (db_folderSharedWith tx i a)"
  by (auto simp: ownedBookmark_def ownedFolder_def share_sharedWith_def db_folderSharedWith_def requireOwner_def intro!: lib.keeps_intros)

lemma db_shares_kept:
  "keeps (preserves library_ok) (db_shares bookmark_share_table tx i)" "keeps (preserves library_ok) (db_shares folder_share_table tx i)"
  by (auto simp: db_shares_def audienceOf_def bs.sharesOf_kept fs.sharesOf_kept Let_def intro!: lib.keeps_intros)

interpretation bookmark_sharing: share_store_contract "preserves (sound_given (between_ok between))" "bookmarkShareRepository between tx" "audit_write (on_audit tx) auditId"
  for between tx auditId
  by unfold_locales
     (auto simp: preserves_def bookmarkShareRepository_def between_ok_def
       intro!: keeps_sound share_asks_kept db_shares_kept bs.db_grant_kept bs.db_revoke_kept audit_write_kept)

interpretation folder_sharing: share_store_contract "preserves (sound_given (between_ok between))" "folderShareRepository between tx" "audit_write (on_audit tx) auditId"
  for between tx auditId
  by unfold_locales
     (auto simp: preserves_def folderShareRepository_def between_ok_def
       intro!: keeps_sound share_asks_kept db_shares_kept fs.db_grant_kept fs.db_revoke_kept audit_write_kept)

text \<open>The rows of the others are not written by a sharing either.\<close>

lemma own_sharing_reads:
  "keeps (preserves (theirs a x)) (ownedBookmark tx i b u)" "keeps (preserves (theirs a x)) (ownedFolder tx i b u)"
  "keeps (preserves (theirs a x)) (share_sharedWith tx i b)" "keeps (preserves (theirs a x)) (db_folderSharedWith tx i b)"
  "keeps (preserves (theirs a x)) (sharesOf table tx i picked)" "keeps (preserves (theirs a x)) (db_shares table tx i)"
proof -
  show reads: "keeps (preserves (theirs a x)) (sharesOf table tx i picked)" for picked
    by (rule keepsI) (auto simp: sharesOf_def with_workspace_def tx_bind_Inr_iff preserves_def)
  show "keeps (preserves (theirs a x)) (ownedBookmark tx i b u)" "keeps (preserves (theirs a x)) (ownedFolder tx i b u)"
    "keeps (preserves (theirs a x)) (share_sharedWith tx i b)" "keeps (preserves (theirs a x)) (db_folderSharedWith tx i b)"
    "keeps (preserves (theirs a x)) (db_shares table tx i)"
    by (auto simp: ownedBookmark_def ownedFolder_def share_sharedWith_def db_folderSharedWith_def requireOwner_def db_shares_def audienceOf_def
        reads Let_def intro!: their.keeps_intros)
qed

definition shares_only :: "share_table \<Rightarrow> bool" where
  "shares_only table \<longleftrightarrow> (\<forall>rows db. bookmarks (tb_put table rows db) = bookmarks db \<and> lb_tags (tb_put table rows db) = lb_tags db \<and>
     lb_folders (tb_put table rows db) = lb_folders db \<and> workspace_members (tb_put table rows db) = workspace_members db)"

lemma share_tables_only [simp]: "shares_only bookmark_share_table" "shares_only folder_share_table"
  by (simp_all add: shares_only_def bookmark_share_table_def folder_share_table_def)

lemma own_sharing_writes:
  assumes "shares_only table"
  shows "keeps (preserves (theirs a x)) (db_grant (\<lambda>db. db) table tx request)"
    and "keeps (preserves (theirs a x)) (db_revoke table tx i s)"
proof -
  have insert: "keeps (preserves (theirs a x)) (\<lambda>db. insert_share table tx (row db) db)" for row
    by (rule keeps_same) (use assms in \<open>auto simp: insert_share_def Let_def shares_only_def split: if_splits\<close>)
  have idle: "keeps (preserves (theirs a x)) ((\<lambda>db. Inr ((), db)) :: (library, unit) tx)"
    by (rule keepsI) (simp add: preserves_def)
  have "keeps (preserves (theirs a x)) (grant_attempts (\<lambda>db. db) table tx request w left)" for w left
    by (induction left) (auto simp: insert idle own_sharing_reads intro!: their.keeps_intros split: list.split)
  then show "keeps (preserves (theirs a x)) (db_grant (\<lambda>db. db) table tx request)"
    by (auto simp: db_grant_def intro!: their.keeps_intros)
  have "keeps (preserves (theirs a x)) (delete_share table tx w i s)" for w
    by (rule keeps_same) (use assms in \<open>auto simp: delete_share_def Let_def shares_only_def\<close>)
  then show "keeps (preserves (theirs a x)) (db_revoke table tx i s)"
    by (auto simp: db_revoke_def own_sharing_reads intro!: their.keeps_intros split: list.split)
qed

interpretation own_bookmark_sharing: share_store_contract "preserves (theirs a x)" "bookmarkShareRepository (\<lambda>db. db) tx" "audit_write (on_audit tx) auditId"
  for a x tx auditId
  by unfold_locales (auto simp: preserves_def bookmarkShareRepository_def own_sharing_reads own_sharing_writes own_audit)

interpretation own_folder_sharing: share_store_contract "preserves (theirs a x)" "folderShareRepository (\<lambda>db. db) tx" "audit_write (on_audit tx) auditId"
  for a x tx auditId
  by unfold_locales (auto simp: preserves_def folderShareRepository_def own_sharing_reads own_sharing_writes own_audit)

section \<open>Requests\<close>

text \<open>What a request finds: its transaction and time, fresh identifiers, the platform, and what other transactions commit meanwhile.\<close>

record request_env =
  re_tx :: tenant_tx
  re_now :: nat
  re_newId :: "nat \<Rightarrow> string"
  re_auditId :: string
  re_usageId :: string
  re_parse :: url_parser
  re_name_key :: "string \<Rightarrow> string"
  re_compare :: "string \<Rightarrow> string \<Rightarrow> int"
  re_lists :: list_tools
  re_cursors :: list_cursors
  re_jobs :: job_tools
  re_others :: interference
  re_between :: "library \<Rightarrow> library"

datatype shared_object = SharedBookmark | SharedFolder

datatype library_call =
    CreateCall creation_ask
  | UpdateCall update_ask
  | DeleteCall string string
  | ReadCall string string
  | ListCall list_ask
  | IdsCall filter_ask
  | BulkCall bulk_ask
  | TagPreviewCall string bulk_target "string list"
  | SharePreviewCall string bulk_target share_target
  | SharesCall shared_object string string
  | GrantCall shared_object share_ask share_target
  | RevokeCall shared_object share_ask string
  | ArchiveCall string "string list" bool

definition share_store_of :: "request_env \<Rightarrow> shared_object \<Rightarrow> library share_store" where
  "share_store_of env object =
     (case object of
        SharedBookmark \<Rightarrow> bookmarkShareRepository (re_between env) (re_tx env)
      | SharedFolder \<Rightarrow> folderShareRepository (re_between env) (re_tx env))"

definition entity_of :: "shared_object \<Rightarrow> string" where
  "entity_of object = (case object of SharedBookmark \<Rightarrow> ''bookmark'' | SharedFolder \<Rightarrow> ''folder'')"

definition env_store :: "request_env \<Rightarrow> library bookmark_store" where
  "env_store env = storeOf (re_others env) (re_name_key env) (re_jobs env) (re_tx env)"

definition env_usage :: "request_env \<Rightarrow> library ai_recorder option" where
  "env_usage env = Some (aiUsageOf (re_usageId env) (re_tx env))"

definition env_bulk :: "request_env \<Rightarrow> library bulk_store" where
  "env_bulk env = bulkStoreOf (re_between env) (re_name_key env) (re_compare env) (re_lists env) (re_tx env)"

definition env_audit :: "request_env \<Rightarrow> audit_input \<Rightarrow> (library, unit) tx" where
  "env_audit env = audit_write (on_audit (re_tx env)) (re_auditId env)"

definition ignoring :: "('s, 'r) tx \<Rightarrow> ('s, unit) tx" where
  "ignoring m = tx_bind m (\<lambda>_. tx_return ())"

fun run_call :: "request_env \<Rightarrow> library_call \<Rightarrow> (library, unit) tx" where
  "run_call env (CreateCall ask) = ignoring (createBookmark (env_store env) (re_newId env) (env_usage env) (re_parse env) ask)"
| "run_call env (UpdateCall ask) = ignoring (updateBookmark (env_store env) (re_newId env) (env_usage env) (re_parse env) ask)"
| "run_call env (DeleteCall i account) = ignoring (deleteBookmark (env_store env) i account)"
| "run_call env (ReadCall i account) = ignoring (readBookmark (env_store env) i account)"
| "run_call env (ListCall ask) = ignoring (listBookmarks (re_parse env) (re_lists env) (listStoreOf (re_name_key env) (re_lists env) (re_tx env)) (re_cursors env) ask)"
| "run_call env (IdsCall ask) = ignoring (listBookmarkIds (re_parse env) (re_lists env) (env_bulk env) ask)"
| "run_call env (BulkCall ask) = ignoring (bulkBookmarks (re_parse env) (re_lists env) (env_bulk env) (env_audit env) (re_newId env) ask)"
| "run_call env (TagPreviewCall account given tags) = ignoring (previewBulkTags (re_parse env) (re_lists env) (env_bulk env) account given tags)"
| "run_call env (SharePreviewCall account given target) = ignoring (previewBulkShare (re_parse env) (re_lists env) (env_bulk env) account given target)"
| "run_call env (SharesCall object i account) = ignoring (listShares (share_store_of env object) i account)"
| "run_call env (GrantCall object ask target) =
     ignoring (grantShare (entity_of object) (share_store_of env object) (env_audit env) (re_newId env 0) ask target)"
| "run_call env (RevokeCall object ask shareId) =
     ignoring (revokeShare (entity_of object) (share_store_of env object) (env_audit env) ask shareId)"
| "run_call env (ArchiveCall workspace ids archived) =
     ignoring (setArchived (bookmarkArchiveTransaction (re_auditId env) (re_tx env)) workspace ids archived)"

definition serve_call :: "request_env \<Rightarrow> library_call \<Rightarrow> library \<Rightarrow> library" where
  "serve_call env call db = committed db (run_call env call) (db\<lparr>lb_now := re_now env\<rparr>)"

definition serve_calls :: "(request_env \<times> library_call) list \<Rightarrow> library \<Rightarrow> library" where
  "serve_calls requests = fold (\<lambda>(env, call). serve_call env call) requests"

section \<open>What every request keeps\<close>

definition others_ok :: "request_env \<Rightarrow> bool" where
  "others_ok env \<longleftrightarrow> interference_ok (re_others env) \<and> between_ok (re_between env)"

lemma keeps_ignoring: "kept_relation R \<Longrightarrow> keeps R m \<Longrightarrow> keeps R (ignoring m)"
  by (simp add: ignoring_def kept_relation.keeps_bind kept_relation.keeps_return)

lemma sound_given_True [simp]: "sound_given True = library_ok"
  by (simp add: sound_given_def [abs_def])

lemma listBookmarks_kept:
  "keeps (preserves P) (listBookmarks parse tools (listStoreOf name_key tools tx) cursors ask)"
proof -
  have kept: "kept_relation (preserves P)"
    by unfold_locales (auto simp: preserves_def)
  have "keeps (preserves P) (listWithCountOf name_key tools tx request n)" for request n
    by (rule keepsI)
       (auto simp: preserves_def listWithCountOf_def listOf_def countOf_def matchedList_def scopedList_def ownList_def with_workspace_def
         tx_bind_Inr_iff read_db_def split: if_splits prod.splits option.splits)
  then show ?thesis
    by (auto simp: listBookmarks_def listStoreOf_def Let_def kept_relation.keeps_return [OF kept]
        intro!: kept_relation.keeps_bind [OF kept] split: sum.split option.split prod.split)
qed

lemma run_call_kept: "others_ok env \<Longrightarrow> keeps (preserves library_ok) (run_call env call)"
  unfolding others_ok_def
  using library_store.createBookmark_kept [where others = "re_others env"] library_store.updateBookmark_kept [where others = "re_others env"]
    library_store.deleteBookmark_kept [where others = "re_others env"] library_store.readBookmark_kept [where others = "re_others env"]
    library_bulk.bulkBookmarks_kept [where between = "re_between env"] library_bulk.listBookmarkIds_kept [where between = "re_between env"]
    library_bulk.previews_kept [where between = "re_between env"] bookmark_sharing.listShares_kept [where between = "re_between env"]
    bookmark_sharing.grantShare_kept [where between = "re_between env"] bookmark_sharing.revokeShare_kept [where between = "re_between env"]
    folder_sharing.listShares_kept [where between = "re_between env"] folder_sharing.grantShare_kept [where between = "re_between env"]
    folder_sharing.revokeShare_kept [where between = "re_between env"]
  by (cases call)
     (auto simp: env_store_def env_usage_def env_bulk_def env_audit_def share_store_of_def listBookmarks_kept setArchived_kept
       intro!: keeps_ignoring lib.kept_relation_axioms split: shared_object.split)

lemma now_kept: "library_ok (db\<lparr>lb_now := t\<rparr>) = library_ok db"
  by (simp add: library_ok_def counts_ok_def live_count_def rows_ok_def links_ok_def folder_link_ok_def tag_link_ok_def tags_ok_def folders_ok_def shares_ok_def
      bookmark_share_ok_def folder_share_ok_def)

lemma forget_kept: "library_ok (slug_preferences_forget_unreadable start db) = library_ok db"
  by (simp add: slug_preferences_forget_unreadable_def library_ok_def counts_ok_def live_count_def rows_ok_def links_ok_def folder_link_ok_def tag_link_ok_def
      tags_ok_def folders_ok_def shares_ok_def bookmark_share_ok_def folder_share_ok_def)

lemma serve_call_kept: "others_ok env \<Longrightarrow> library_ok db \<Longrightarrow> library_ok (serve_call env call db)"
  using keepsD [OF run_call_kept [of env call], of "db\<lparr>lb_now := re_now env\<rparr>"]
  by (auto simp: serve_call_def committed_def preserves_def now_kept forget_kept split: sum.split)

section \<open>What a member's requests leave alone\<close>

text \<open>The account a request acts for, which the server takes from the session; an archiving is of the operator's.\<close>

fun call_account :: "library_call \<Rightarrow> string option" where
  "call_account (CreateCall ask) = Some (ca_accountId ask)"
| "call_account (UpdateCall ask) = Some (ua_accountId ask)"
| "call_account (DeleteCall i account) = Some account"
| "call_account (ReadCall i account) = Some account"
| "call_account (ListCall ask) = Some (la_accountId ask)"
| "call_account (IdsCall ask) = Some (fa_accountId ask)"
| "call_account (BulkCall ask) = Some (bu_accountId ask)"
| "call_account (TagPreviewCall account given tags) = Some account"
| "call_account (SharePreviewCall account given target) = Some account"
| "call_account (SharesCall object i account) = Some account"
| "call_account (GrantCall object ask target) = Some (sa_accountId ask)"
| "call_account (RevokeCall object ask shareId) = Some (sa_accountId ask)"
| "call_account (ArchiveCall workspace ids archived) = None"

definition made_by_member :: "request_env \<Rightarrow> library_call \<Rightarrow> bool" where
  "made_by_member env call \<longleftrightarrow>
     (case call_account call of None \<Rightarrow> False | Some a \<Rightarrow> uuid_cast a = uuid_cast (tx_accountId (re_tx env)))"

definition env_alone :: "request_env \<Rightarrow> bool" where
  "env_alone env \<longleftrightarrow> re_others env = alone \<and> re_between env = (\<lambda>db. db)"

lemma own_call:
  assumes "env_alone env" "made_by_member env call"
  shows "keeps (preserves (theirs (uuid_cast (tx_accountId (re_tx env))) x)) (run_call env call)"
  using assms
  by (cases call)
     (auto simp: env_alone_def made_by_member_def env_store_def env_usage_def env_bulk_def env_audit_def share_store_of_def listBookmarks_kept
       own_store.createBookmark_kept own_store.updateBookmark_kept own_store.deleteBookmark_kept own_store.readBookmark_kept
       own_bulk.bulkBookmarks_kept own_bulk.listBookmarkIds_kept own_bulk.previews_kept
       own_bookmark_sharing.listShares_kept own_bookmark_sharing.grantShare_kept own_bookmark_sharing.revokeShare_kept
       own_folder_sharing.listShares_kept own_folder_sharing.grantShare_kept own_folder_sharing.revokeShare_kept
       intro!: keeps_ignoring their.kept_relation_axioms split: shared_object.split)

lemma forgetting_leaves: "rows_of_others a (slug_preferences_forget_unreadable start db) = rows_of_others a db"
  by (simp add: slug_preferences_forget_unreadable_def rows_of_others_def foreign_bookmarks_def)

lemma serve_call_own:
  assumes "env_alone env" "made_by_member env call" "distinct (map bm_id (bookmarks db))"
  shows "rows_of_others (uuid_cast (tx_accountId (re_tx env))) (serve_call env call db) = rows_of_others (uuid_cast (tx_accountId (re_tx env))) db"
proof (cases "run_call env call (db\<lparr>lb_now := re_now env\<rparr>)")
  case (Inr answer)
  then obtain u db' where run: "run_call env call (db\<lparr>lb_now := re_now env\<rparr>) = Inr (u, db')"
    by (cases answer) simp
  have "theirs (uuid_cast (tx_accountId (re_tx env))) (rows_of_others (uuid_cast (tx_accountId (re_tx env))) db) (db\<lparr>lb_now := re_now env\<rparr>)"
    using assms(3) by (simp add: theirs_defs)
  then show ?thesis
    using keepsD [OF own_call [OF assms(1,2)] run]
    by (simp add: preserves_def serve_call_def committed_def run theirs_def forgetting_leaves)
qed (simp add: serve_call_def committed_def)

end
