(* ===== verification/LibraryOutcomes.thy ===== *)
theory LibraryOutcomes
  imports LibraryRequests
begin

text \<open>
  What the repository writes for each answer, where no other transaction commits meanwhile: a creation adds one row and counts it or
  writes nothing, a change rewrites one row, a bulk action reaches only bookmarks it names, and a share adds the readers of its target.
\<close>

section \<open>Bookmarks and counters that stay\<close>

definition same_bookmarks :: "library \<Rightarrow> library \<Rightarrow> bool" where
  "same_bookmarks s s' \<longleftrightarrow> bookmarks s' = bookmarks s \<and> workspaces s' = workspaces s"

interpretation books: kept_relation same_bookmarks
  by unfold_locales (auto simp: same_bookmarks_def)

lemma links_keep_bookmarks:
  "keeps same_bookmarks (insertLinks tx folderIds bookmarkIds)"
  "keeps same_bookmarks (insertTagLinks tx bookmarkId tagIds)"
  "keeps same_bookmarks (deleteLinks tx folderIds bookmarkIds)"
  "keeps same_bookmarks (deleteTagLinks tx bookmarkId tagIds)"
proof -
  have raw: "keeps same_bookmarks (insert_folder_links tx folder_rows)" "keeps same_bookmarks (insert_tag_links tx w tag_rows)"
    "keeps same_bookmarks (delete_folder_links tx w folder_picked)" "keeps same_bookmarks (delete_tag_links tx w tag_picked)"
    for w folder_rows tag_rows folder_picked tag_picked
    by (rule keepsI, auto simp: same_bookmarks_def insert_folder_links_def insert_tag_links_def delete_folder_links_def delete_tag_links_def
        with_workspace_def tx_bind_Inr_iff Let_def split: if_splits)+
  show "keeps same_bookmarks (insertLinks tx folderIds bookmarkIds)" "keeps same_bookmarks (insertTagLinks tx bookmarkId tagIds)"
    "keeps same_bookmarks (deleteLinks tx folderIds bookmarkIds)" "keeps same_bookmarks (deleteTagLinks tx bookmarkId tagIds)"
    by (auto simp: insertLinks_def insertTagLinks_def deleteLinks_def deleteTagLinks_def Let_def raw intro!: books.keeps_intros)
qed

lemma locks_keep_bookmarks:
  "keeps same_bookmarks (lockOwnedFolders tx owner folderIds)" "keeps same_bookmarks (lockTaggingTags tx owner tagging)"
  by (auto simp: lockOwnedFolders_def lockTaggingTags_def Let_def intro!: books.keeps_intros)

lemma jobs_keep_bookmarks: "keeps same_bookmarks (enqueue_jobs jobs)"
proof -
  have "keeps same_bookmarks (enqueueInTenantTransaction job)" for job
    by (rule keepsI) (auto simp: same_bookmarks_def enqueueInTenantTransaction_def split: if_splits option.splits)
  then show ?thesis
    by (induction jobs) (auto intro!: books.keeps_intros)
qed

lemma insert_tags_keep_bookmarks: "insert_tags account w owner names db = Inr db' \<Longrightarrow> same_bookmarks db db'"
  by (induction account w owner names db rule: insert_tags.induct) (auto simp: same_bookmarks_def split: if_splits)

lemma tags_keep_bookmarks: "keeps same_bookmarks (tagIdsOf alone tx owner tagging)"
proof -
  have "keeps same_bookmarks (resolveTagNames alone tx owner names)" for names
    by (rule keepsI)
       (auto simp: resolveTagNames_def with_workspace_def tx_bind_Inr_iff Let_def alone_def split: if_splits sum.splits dest: insert_tags_keep_bookmarks)
  then show ?thesis
    by (auto simp: tagIdsOf_def intro!: books.keeps_intros)
qed

section \<open>Creating\<close>

lemma create_links_result:
  assumes "create_links alone tx creation i savepoint db = Inr (refused, db')"
  shows "case refused of None \<Rightarrow> same_bookmarks db db' | Some result \<Rightarrow> db' = savepoint \<and> (result = CreationFolderNotFound \<or> result = CreationTagNotFound)"
proof -
  note kept = keepsD [OF links_keep_bookmarks(1)] keepsD [OF links_keep_bookmarks(2)] keepsD [OF locks_keep_bookmarks(1)] keepsD [OF locks_keep_bookmarks(2)]
    keepsD [OF tags_keep_bookmarks]
  show ?thesis
    using assms
    by (auto simp: create_links_def Let_def tx_bind_Inr_iff alone_def [symmetric] split: if_splits option.splits dest!: kept)
       (auto simp: alone_def same_bookmarks_def)
qed

lemma db_create_result:
  assumes "db_create alone name_key tx creation db = Inr (result, db')" "tx_workspaceId tx = Some v"
  defines "row \<equiv> row_of_new (uuid_cast v) (lb_now db) (bc_bookmark creation)"
  shows "case result of
      Created b \<Rightarrow> bookmarks db' = bookmarks db @ [row] \<and> workspaces db' = workspaces (move_count (uuid_cast v) Suc db) \<and>
        b = recordOf row (bk_folders b) (bk_tags b) None \<and>
        (\<exists>n. sys_bookmark_count_take (uuid_cast (tx_accountId tx)) (uuid_cast v) (bc_ceiling creation) db = (Taken n, move_count (uuid_cast v) Suc db)) \<and>
        (\<exists>db1. insert_bookmark row (move_count (uuid_cast v) Suc db) = Inr db1)
    | CreationLimit used \<Rightarrow> db' = db \<and> sys_bookmark_count_take (uuid_cast (tx_accountId tx)) (uuid_cast v) (bc_ceiling creation) db = (LimitReached used, db)
    | _ \<Rightarrow> db' = db"
proof -
  consider "db' = db" "result = CreationFolderNotFound \<or> result = CreationTagNotFound \<or> result = CreationSlugTaken"
    | "create_place alone name_key tx (uuid_cast v) creation db = Inr (result, db')"
    using assms(1,2)
    by (auto simp: db_create_def with_workspace_def Let_def tx_bind_Inr_iff lockOwnedFolders_def ownedTagsExist_def read_db_def split: if_splits)
  then show ?thesis
  proof cases
    case 2
    obtain outcome db1 where take: "sys_bookmark_count_take (uuid_cast (tx_accountId tx)) (uuid_cast v) (bc_ceiling creation) db = (outcome, db1)"
      by fastforce
    have moved: "(case outcome of Taken n \<Rightarrow> db1 = move_count (uuid_cast v) Suc db | _ \<Rightarrow> db1 = db)"
      using take by (auto simp: sys_bookmark_count_take_def split: if_splits option.splits)
    show ?thesis
    proof (cases outcome)
      case (Taken n)
      have db1: "db1 = move_count (uuid_cast v) Suc db"
        using moved Taken by simp
      have row: "row_of_new (uuid_cast v) (lb_now db1) (bc_bookmark creation) = row"
        by (simp add: row_def db1)
      obtain db2 where ins: "insert_bookmark row db1 = Inr db2"
        using 2 by (auto simp: create_place_def take Taken Let_def row split: sum.splits)
      have db2: "bookmarks db2 = bookmarks db @ [row]" "workspaces db2 = workspaces db1"
        using ins by (auto simp: insert_bookmark_def db1 split: if_splits)
      obtain refused db3 where links: "create_links alone tx creation (bm_id row) db db2 = Inr (refused, db3)"
        and rest: "(case refused of Some r \<Rightarrow> tx_return r
          | None \<Rightarrow> tx_bind (enqueue_jobs (bc_jobs creation)) (\<lambda>_. read_db (\<lambda>db. Created (recordOf row
              (foldersOfBookmark name_key (uuid_cast v) (uuid_cast (nb_ownerId (bc_bookmark creation))) (bm_id row) db)
              (tagsOfBookmark name_key (uuid_cast v) (uuid_cast (nb_ownerId (bc_bookmark creation))) (bm_id row) db) None)))) db3 = Inr (result, db')"
        using 2 by (auto simp: create_place_def take Taken Let_def row ins alone_def tx_bind_Inr_iff)
      note placed = create_links_result [OF links]
      show ?thesis
      proof (cases refused)
        case None
        then obtain db4 where "enqueue_jobs (bc_jobs creation) db3 = Inr ((), db4)" "db' = db4"
          and made: "\<exists>filed carried. result = Created (recordOf row filed carried None)"
          using rest by (auto simp: tx_bind_Inr_iff read_db_def)
        then have "same_bookmarks db3 db'"
          using keepsD [OF jobs_keep_bookmarks] by blast
        then show ?thesis
          using made placed None db2 take Taken ins by (auto simp: same_bookmarks_def db1 recordOf_def)
      next
        case (Some r)
        then show ?thesis
          using rest placed by auto
      qed
    qed (use 2 take moved in \<open>auto simp: create_place_def\<close>)
  qed auto
qed

text \<open>The service: what it answers, after the checks of the request.\<close>

definition new_row :: "request_env \<Rightarrow> creation_ask \<Rightarrow> string \<Rightarrow> library \<Rightarrow> bookmark_url \<Rightarrow> string option \<Rightarrow> bookmark_row" where
  "new_row env ask w db url slug = row_of_new w (lb_now db) (new_bookmark_of (re_newId env 0) ask url slug)"

lemma recordUsage_keeps_bookmarks: "keeps same_bookmarks (recordUsage tx usageId i accepted)"
  by (rule keepsI) (auto simp: recordUsage_def same_bookmarks_def tx_bind_Inr_iff split: if_splits)

lemma finish_creation_result:
  assumes "finish_creation (env_usage env) newId ask result db = Inr (outcome, db')"
  shows "creation_outcome_of (ca_ceiling ask) result = Inr outcome \<and> (if \<exists>b. outcome = CreateDone b then same_bookmarks db db' else db' = db)"
  using assms keepsD [OF recordUsage_keeps_bookmarks]
  by (auto simp: finish_creation_def record_accepted_def env_usage_def aiUsageOf_def tx_bind_Inr_iff same_bookmarks_def
      split: sum.splits creation_outcome.splits if_splits)

lemma create_result:
  assumes "createBookmark (env_store env) (re_newId env) (env_usage env) (re_parse env) ask db = Inr (outcome, db')"
    "env_alone env" "tx_workspaceId (re_tx env) = Some v"
  shows "case outcome of
      CreateDone b \<Rightarrow> \<exists>url slug. normalizeBookmarkUrl (re_parse env) (ca_url ask) = Inr url \<and>
        bookmarks db' = bookmarks db @ [new_row env ask (uuid_cast v) db url slug] \<and> workspaces db' = workspaces (move_count (uuid_cast v) Suc db) \<and>
        b = recordOf (new_row env ask (uuid_cast v) db url slug) (bk_folders b) (bk_tags b) None \<and>
        (\<exists>n. sys_bookmark_count_take (uuid_cast (tx_accountId (re_tx env))) (uuid_cast v) (ceiling_of (ca_ceiling ask)) db = (Taken n, move_count (uuid_cast v) Suc db))
    | CreateLimitReached limit used \<Rightarrow> db' = db \<and> ca_ceiling ask = AtMost limit \<and>
        sys_bookmark_count_take (uuid_cast (tx_accountId (re_tx env))) (uuid_cast v) (Some limit) db = (LimitReached used, db)
    | _ \<Rightarrow> db' = db"
proof (cases "normalizeBookmarkUrl (re_parse env) (ca_url ask)")
  case (Inr url)
  consider "db' = db" "outcome = CreateSlugInvalid \<or> outcome = CreateForwardingRequiresSlug"
    | slug request result db1 where "creation_of (re_newId env) ask url slug = Inr request"
      "st_create (env_store env) request db = Inr (result, db1)" "finish_creation (env_usage env) (re_newId env) ask result db1 = Inr (outcome, db')"
    using assms(1) by (auto simp: createBookmark_def Inr tx_bind_Inr_iff checkLength_def check_description_def split: if_splits option.splits sum.splits)
  then show ?thesis
  proof cases
    case (2 slug request result db1)
    obtain jobs where run: "db_create alone (re_name_key env) (re_tx env)
        \<lparr>bc_bookmark = cq_bookmark request, bc_ceiling = ceiling_of (cq_ceiling request), bc_jobs = jobs,
         bc_folderIds = cq_folderIds request, bc_tags = cq_tags request\<rparr> db = Inr (result, db1)"
      using 2(2) assms(2) by (auto simp: env_store_def storeOf_def store_create_def env_alone_def split: sum.splits)
    have request: "cq_bookmark request = new_bookmark_of (re_newId env 0) ask url slug" "cq_ceiling request = ca_ceiling ask"
      using 2(1) by (auto simp: creation_of_def split: sum.splits prod.splits)
    note made = db_create_result [OF run assms(3), unfolded bookmark_creation.simps request]
    show ?thesis
      using made finish_creation_result [OF 2(3)] Inr
      by (cases "ca_ceiling ask"; cases result) (auto simp: new_row_def same_bookmarks_def)
  qed auto
qed (use assms(1) in \<open>simp add: createBookmark_def\<close>)

section \<open>Changing\<close>

text \<open>The row a change leaves: the columns that differ are set, and the version moves by one when a member sees a difference.\<close>

definition changed_row :: "nat \<Rightarrow> bookmark_changes \<Rightarrow> bookmark_row \<Rightarrow> bookmark_row" where
  "changed_row now changes old = (if column_sets now changes old = [] then old else bump_version old (apply_sets (column_sets now changes old) old))"

definition replace_row :: "bookmark_row \<Rightarrow> bookmark_row list \<Rightarrow> bookmark_row list" where
  "replace_row new rows = map (\<lambda>b. if bm_id b = bm_id new then new else b) rows"

lemma replace_same: "distinct (map bm_id rows) \<Longrightarrow> b \<in> set rows \<Longrightarrow> replace_row b rows = rows"
  by (auto simp: replace_row_def distinct_map inj_on_def intro!: map_idI)

lemma find_in_place:
  assumes "distinct (map bm_id rows)" "find (own_live_row w owner i) rows = Some b"
  shows "find (\<lambda>c. bm_workspace_id c = w \<and> bm_id c = i) rows = Some b" "b \<in> set rows" "bm_id b = i"
proof -
  show b: "b \<in> set rows" "bm_id b = i"
    using assms(2) by (auto simp: find_Some_iff own_live_row_def)
  have "bm_workspace_id b = w"
    using assms(2) by (auto simp: find_Some_iff own_live_row_def owned_here_def)
  then show "find (\<lambda>c. bm_workspace_id c = w \<and> bm_id c = i) rows = Some b"
    using assms(1) b by (induction rows) auto
qed

lemma change_row_result:
  assumes "change_row w i (column_sets now changes old) old db = Inr (row, db')" "distinct (map bm_id (bookmarks db))"
    "find (own_live_row w owner i) (bookmarks db) = Some old"
  shows "row = changed_row now changes old \<and> bookmarks db' = replace_row row (bookmarks db) \<and> workspaces db' = workspaces db"
proof (cases "column_sets now changes old = []")
  case True
  then show ?thesis
    using assms(1) replace_same [OF assms(2)] find_in_place [OF assms(2,3)] by (simp add: change_row_def changed_row_def)
next
  case False
  let ?new = "bump_version old (apply_sets (column_sets now changes old) old)"
  have "stays old ?new"
    using apply_sets_stay [of "column_sets now changes old" old] column_sets_stay by auto
  then have i: "bm_id ?new = i"
    using find_in_place(3) [OF assms(2,3)] by (simp add: stays_def same_place_def)
  show ?thesis
    using assms(1) False find_in_place(1) [OF assms(2,3)] i
    by (auto simp: change_row_def changed_row_def write_bookmark_def Let_def replace_row_def split: sum.splits option.splits if_splits)
qed

lemma apply_change_result:
  assumes "apply_change name_key tx w request old wanted filed carried now db = Inr (result, db')" "distinct (map bm_id (bookmarks db))"
    "find (own_live_row w owner (uuid_cast (bp_bookmarkId request))) (bookmarks db) = Some old"
  defines "new \<equiv> changed_row now (bp_changes request) old"
  shows "workspaces db' = workspaces db \<and> bookmarks db' = replace_row new (bookmarks db) \<and>
    (\<exists>b. (result = Updated b \<or> result = Unchanged b \<and> new = old) \<and> b = recordOf new (bk_folders b) (bk_tags b) None)"
proof -
  have books: "keeps same_bookmarks (write_links needed m)" if "keeps same_bookmarks m" for needed and m :: "(library, nat) tx"
    using that by (rule books.keeps_write_links)
  note kept = keepsD [OF books [OF links_keep_bookmarks(1)]] keepsD [OF books [OF links_keep_bookmarks(2)]] keepsD [OF books [OF links_keep_bookmarks(3)]]
    keepsD [OF books [OF links_keep_bookmarks(4)]] keepsD [OF jobs_keep_bookmarks]
  consider "result = Unchanged (recordOf old filed carried None)" "db' = db" "column_sets now (bp_changes request) old = []"
    | row db1 b where "change_row w (uuid_cast (bp_bookmarkId request)) (column_sets now (bp_changes request) old) old db = Inr (row, db1)"
      "same_bookmarks db1 db'" "result = Updated b" "b = recordOf row (bk_folders b) (bk_tags b) None"
    using assms(1)
    by (auto simp: apply_change_def Let_def tx_bind_Inr_iff read_db_def recordOf_def same_bookmarks_def split: if_splits dest!: kept)
  then show ?thesis
  proof cases
    case 1
    then show ?thesis
      using replace_same [OF assms(2)] find_in_place(2) [OF assms(2,3)] by (simp add: new_def changed_row_def recordOf_def)
  next
    case (2 row db1 b)
    then show ?thesis
      using change_row_result [OF 2(1) assms(2,3)] by (auto simp: new_def same_bookmarks_def)
  qed
qed

definition version_admitted :: "nat list option \<Rightarrow> bookmark_row \<Rightarrow> bool" where
  "version_admitted versions b \<longleftrightarrow> (case versions of None \<Rightarrow> True | Some vs \<Rightarrow> bm_version b \<in> set vs)"

lemma check_change_result:
  assumes "check_change tx w request old db = Inr (refused, db')"
  shows "db' = db" "refused = None \<Longrightarrow> version_admitted (bp_expectedVersions request) old"
    "refused = Some result \<Longrightarrow> \<not> (\<exists>b. result = Updated b \<or> result = Unchanged b)"
proof -
  have locks: "lockOwnedFolders tx owner ids s = Inr (r, s') \<Longrightarrow> s' = s" "lockTaggingTags tx owner tagging s = Inr (r, s') \<Longrightarrow> s' = s"
    for owner ids tagging r s s'
    by (auto simp: lockOwnedFolders_def lockTaggingTags_def with_workspace_def Let_def tx_bind_Inr_iff read_db_def split: if_splits)
  show "db' = db" "refused = None \<Longrightarrow> version_admitted (bp_expectedVersions request) old"
    "refused = Some result \<Longrightarrow> \<not> (\<exists>b. result = Updated b \<or> result = Unchanged b)"
    using assms
    by (auto simp: check_change_def Let_def tx_bind_Inr_iff read_db_def version_admitted_def split: if_splits option.splits dest!: locks)
qed

lemma tagIdsOf_None: "tagIdsOf alone tx owner tagging db = Inr (None, db') \<Longrightarrow> db' = db"
  by (auto simp: tagIdsOf_def resolveTagNames_def with_workspace_def tx_bind_Inr_iff Let_def alone_def split: if_splits sum.splits)

lemma db_update_result:
  assumes run: "db_update alone name_key tx request db = Inr (result, db')" and w: "tx_workspaceId tx = Some v" and ids: "distinct (map bm_id (bookmarks db))"
  shows "if \<exists>b. result = Updated b \<or> result = Unchanged b
    then \<exists>old new b. find (own_live_row (uuid_cast v) (uuid_cast (bp_ownerId request)) (uuid_cast (bp_bookmarkId request))) (bookmarks db) = Some old \<and>
      version_admitted (bp_expectedVersions request) old \<and> new = changed_row (lb_now db) (bp_changes request) old \<and>
      workspaces db' = workspaces db \<and> bookmarks db' = replace_row new (bookmarks db) \<and>
      (result = Updated b \<or> result = Unchanged b \<and> new = old) \<and> b = recordOf new (bk_folders b) (bk_tags b) None
    else db' = db"
proof -
  let ?i = "uuid_cast (bp_bookmarkId request)" and ?owner = "uuid_cast (bp_ownerId request)" and ?changes = "bp_changes request"
  consider "db' = db" "\<not> (\<exists>b. result = Updated b \<or> result = Unchanged b)"
    | old wanted db1 filed carried where "find (own_live_row (uuid_cast v) ?owner ?i) (bookmarks db) = Some old"
      "version_admitted (bp_expectedVersions request) old" "same_bookmarks db db1"
      "apply_change name_key tx (uuid_cast v) request old wanted filed carried (lb_now db) db1 = Inr (result, db')"
  proof -
    obtain member where member: "(if names_new_tags ?changes then lockTaggingOwner tx (bp_ownerId request) else tx_return True) db = Inr (member, db)"
      using run by (auto simp: db_update_def Let_def with_workspace_def w tx_bind_Inr_iff lockTaggingOwner_def read_db_def split: if_splits)
    show ?thesis
    proof (cases "member \<and> find (own_live_row (uuid_cast v) ?owner ?i) (bookmarks db) \<noteq> None")
      case False
      then show ?thesis
        using run member that(1) by (auto simp: db_update_def Let_def with_workspace_def w tx_bind_Inr_iff read_db_def split: if_splits)
    next
      case True
      then obtain old where old: "find (own_live_row (uuid_cast v) ?owner ?i) (bookmarks db) = Some old"
        by blast
      obtain refused db0 where check: "check_change tx (uuid_cast v) request old db = Inr (refused, db0)"
        using run member True old by (auto simp: db_update_def Let_def with_workspace_def w tx_bind_Inr_iff read_db_def split: if_splits)
      note checked = check_change_result [OF check]
      show ?thesis
      proof (cases refused)
        case (Some r)
        then have "result = r" "db' = db"
          using run member True old check checked(1) by (auto simp: db_update_def Let_def with_workspace_def w tx_bind_Inr_iff read_db_def split: if_splits)
        then show ?thesis
          using that(1) checked(3) Some by blast
      next
        case None
        then obtain filed carried wanted db1
          where tags: "(case ch_tags ?changes of None \<Rightarrow> tx_return (Some None)
              | Some tagging \<Rightarrow> tx_bind (tagIdsOf alone tx (bp_ownerId request) tagging) (\<lambda>ids. tx_return (map_option Some ids))) db = Inr (wanted, db1)"
          and rest: "(case wanted of None \<Rightarrow> tx_return UpdateTagNotFound
              | Some ids \<Rightarrow> apply_change name_key tx (uuid_cast v) request old ids filed carried (lb_now db)) db1 = Inr (result, db')"
          using run member True old check checked(1)
          by (auto simp: db_update_def Let_def with_workspace_def w tx_bind_Inr_iff read_db_def split: if_splits)
        have "same_bookmarks db db1" "wanted = None \<Longrightarrow> db1 = db"
          using tags keepsD [OF tags_keep_bookmarks] tagIdsOf_None by (auto simp: tx_bind_Inr_iff split: option.splits)
        then show ?thesis
          using rest that(1) that(2) [OF old] checked(2) [OF None] by (cases wanted) auto
      qed
    qed
  qed
  then show ?thesis
  proof cases
    case (2 old wanted db1 filed carried)
    have "distinct (map bm_id (bookmarks db1))" "find (own_live_row (uuid_cast v) ?owner ?i) (bookmarks db1) = Some old"
      using 2(1,3) ids by (simp_all add: same_bookmarks_def)
    from apply_change_result [OF 2(4) this] show ?thesis
      using 2(1-3) by (auto simp: same_bookmarks_def)
  qed auto
qed

text \<open>The service: a change stored is one row rewritten, and any other answer leaves the library as it was.\<close>

lemma update_result:
  assumes run: "updateBookmark (env_store env) (re_newId env) (env_usage env) (re_parse env) ask db = Inr (outcome, db')"
    and env: "env_alone env" "tx_workspaceId (re_tx env) = Some v" and ids: "distinct (map bm_id (bookmarks db))"
  shows "if \<exists>b. outcome = UpdateStored (Updated b) \<or> outcome = UpdateStored (Unchanged b)
    then \<exists>changes old new b. find (own_live_row (uuid_cast v) (uuid_cast (ua_accountId ask)) (uuid_cast (ua_bookmarkId ask))) (bookmarks db) = Some old \<and>
      version_admitted (ua_expectedVersions ask) old \<and> new = changed_row (lb_now db) changes old \<and>
      workspaces db' = workspaces db \<and> bookmarks db' = replace_row new (bookmarks db) \<and>
      (outcome = UpdateStored (Updated b) \<or> outcome = UpdateStored (Unchanged b) \<and> new = old) \<and> b = recordOf new (bk_folders b) (bk_tags b) None
    else db' = db"
proof -
  have reads: "holdMember (re_tx env) s = Inr (r, s') \<Longrightarrow> s' = s" "db_sharedWith (re_tx env) i a s = Inr (r, s') \<Longrightarrow> s' = s" for i a r s s'
    by (auto simp: holdMember_def lockTaggingOwner_def db_sharedWith_def require_own_account_def with_workspace_def tx_bind_Inr_iff read_db_def)
  have update: "st_update (env_store env) request s = Inr (result, s') \<Longrightarrow> distinct (map bm_id (bookmarks s)) \<Longrightarrow>
      if \<exists>b. result = Updated b \<or> result = Unchanged b
      then \<exists>old new b. find (own_live_row (uuid_cast v) (uuid_cast (uq_ownerId request)) (uuid_cast (uq_bookmarkId request))) (bookmarks s) = Some old \<and>
        version_admitted (uq_expectedVersions request) old \<and> new = changed_row (lb_now s) (uq_changes request) old \<and>
        workspaces s' = workspaces s \<and> bookmarks s' = replace_row new (bookmarks s) \<and>
        (result = Updated b \<or> result = Unchanged b \<and> new = old) \<and> b = recordOf new (bk_folders b) (bk_tags b) None
      else s' = s" for request s result s'
    using db_update_result [of "re_name_key env" "re_tx env" _ s result s', OF _ env(2)] env(1)
    by (fastforce simp: env_store_def storeOf_def store_change_def env_alone_def split: sum.splits)
  consider "db' = db" "\<not> (\<exists>b. outcome = UpdateStored (Updated b) \<or> outcome = UpdateStored (Unchanged b))"
    | changes where "store_update (env_store env) (env_usage env) ask changes db = Inr (outcome, db')"
    using run by (auto simp: updateBookmark_def Let_def tx_bind_Inr_iff checkLength_def check_description_def split: sum.splits option.splits if_splits)
  then show ?thesis
  proof cases
    case (2 changes)
    let ?request = "\<lparr>uq_bookmarkId = ua_bookmarkId ask, uq_ownerId = js_lower (ua_accountId ask), uq_changes = changes, uq_expectedVersions = ua_expectedVersions ask\<rparr>"
    consider "db' = db" "outcome = UpdateStored UpdateNotFound \<or> outcome = UpdateForbidden"
      | result db1 where "st_update (env_store env) ?request db = Inr (result, db1)" "outcome = UpdateStored result"
        "if \<exists>b. result = Updated b then same_bookmarks db1 db' else db' = db1"
    proof -
      obtain held where "hold_member (env_usage env) (aiFieldsOf (ua_aiFields ask)) db = Inr (held, db)"
        using 2 reads(1) by (auto simp: store_update_def Let_def tx_bind_Inr_iff hold_member_def env_usage_def aiUsageOf_def split: if_splits)
      note held = this
      show ?thesis
      proof (cases held)
        case False
        then show ?thesis
          using 2 held that(1) by (auto simp: store_update_def Let_def tx_bind_Inr_iff)
      next
        case True
        then obtain result db1 shared where stored: "st_update (env_store env) ?request db = Inr (result, db1)"
          and asked: "(if result = UpdateNotFound then st_sharedWith (env_store env) (ua_bookmarkId ask) (js_lower (ua_accountId ask)) else tx_return False) db1 = Inr (shared, db1)"
          and rest: "(if shared then tx_return UpdateForbidden else tx_bind (case result of Updated _ \<Rightarrow> record_accepted (env_usage env) (ua_bookmarkId ask) (aiFieldsOf (ua_aiFields ask))
              | _ \<Rightarrow> tx_return ()) (\<lambda>_. tx_return (UpdateStored result))) db1 = Inr (outcome, db')"
          using 2 held reads(2)
          by (auto simp: store_update_def Let_def tx_bind_Inr_iff env_store_def storeOf_def split: if_splits)
        show ?thesis
        proof (cases shared)
          case True
          then show ?thesis
            using update [OF stored] ids asked rest that(1) by (auto split: if_splits)
        next
          case False
          then show ?thesis
            using that(2) [OF stored] rest keepsD [OF recordUsage_keeps_bookmarks]
            by (auto simp: tx_bind_Inr_iff record_accepted_def env_usage_def aiUsageOf_def same_bookmarks_def split: update_result.splits if_splits)
        qed
      qed
    qed
    then show ?thesis
    proof cases
      case (2 result db1)
      then show ?thesis
        using update [OF 2(1) ids] by (auto simp: same_bookmarks_def split: if_splits)
    qed auto
  qed auto
qed

section \<open>Sharing\<close>

lemma audit_write_rows:
  "audit_write (on_audit tx) auditId event db = Inr (r, db') \<Longrightarrow>
   bookmarks db' = bookmarks db \<and> bookmark_shares db' = bookmark_shares db \<and> folder_shares db' = folder_shares db \<and>
   folder_bookmarks db' = folder_bookmarks db \<and> team_members db' = team_members db \<and> workspaces db' = workspaces db"
  by (auto simp: audit_write_def on_audit_def split: sum.splits)

lemma ownedBookmark_reads: "ownedBookmark tx i a u db = Inr (r, db') \<Longrightarrow> db' = db"
  by (auto simp: ownedBookmark_def with_workspace_def tx_bind_Inr_iff read_db_def)

lemma granted_parts:
  assumes "grantBookmarkShare (bookmarkShareRepository between tx) audit newId ask target db = Inr (GrantDone share, db')"
  shows "\<exists>db1. db_grant between bookmark_share_table tx
      \<lparr>ns_id = newId, ns_objectId = sa_objectId ask, ns_grantedBy = sa_accountId ask, ns_target = target\<rparr> db = Inr (ShareGranted share, db1) \<and>
    audit (share_event ''share.granted'' ''bookmark'' ask (target_kind target) (targetIdOf target) (sr_name share)) db1 = Inr ((), db')"
proof -
  obtain owned where owned: "ownedBookmark tx (sa_objectId ask) (sa_accountId ask) UseGrant db = Inr (owned, db)"
    using assms ownedBookmark_reads by (fastforce simp: grantBookmarkShare_def grantShare_def bookmarkShareRepository_def tx_bind_Inr_iff)
  obtain result db1 where grant: "db_grant between bookmark_share_table tx
      \<lparr>ns_id = newId, ns_objectId = sa_objectId ask, ns_grantedBy = sa_accountId ask, ns_target = target\<rparr> db = Inr (result, db1)"
    and rest: "(case result of GrantUnknownTarget \<Rightarrow> tx_return (GrantTargetUnknown (targetFieldOf target))
      | ShareExisting share \<Rightarrow> tx_return (GrantExisting share)
      | ShareGranted share \<Rightarrow> tx_bind (audit (share_event ''share.granted'' ''bookmark'' ask (target_kind target) (targetIdOf target) (sr_name share)))
          (\<lambda>_. tx_return (GrantDone share))) db1 = Inr (GrantDone share, db')"
    using assms owned
    by (auto simp: grantBookmarkShare_def grantShare_def bookmarkShareRepository_def tx_bind_Inr_iff refusalFor_def split: if_splits)
  have "result = ShareGranted share"
    using rest by (cases result) (auto simp: tx_bind_Inr_iff)
  then show ?thesis
    using grant rest by (auto simp: tx_bind_Inr_iff)
qed

lemma granted_rows:
  assumes "grantBookmarkShare (bookmarkShareRepository (\<lambda>db. db) tx) (audit_write (on_audit tx) auditId) newId ask target db = Inr (GrantDone share, db')"
    "tx_workspaceId tx = Some v"
  defines "row \<equiv> share_row_of (uuid_cast v) (lb_now db) newId (sa_objectId ask) target (sa_accountId ask)"
  shows "bookmark_shares db' = bookmark_shares db @ [to_bookmark_share row] \<and> \<not> list_ex (share_conflict row) (map of_bookmark_share (bookmark_shares db)) \<and>
    target_held db (uuid_cast v) target \<and> own_bookmark_id db (uuid_cast (tx_accountId tx)) (uuid_cast v) (uuid_cast (sa_objectId ask)) \<and>
    bookmarks db' = bookmarks db \<and> folder_shares db' = folder_shares db \<and> folder_bookmarks db' = folder_bookmarks db \<and> team_members db' = team_members db"
proof -
  obtain db1 where grant: "db_grant (\<lambda>db. db) bookmark_share_table tx
      \<lparr>ns_id = newId, ns_objectId = sa_objectId ask, ns_grantedBy = sa_accountId ask, ns_target = target\<rparr> db = Inr (ShareGranted share, db1)"
    and "audit_write (on_audit tx) auditId (share_event ''share.granted'' ''bookmark'' ask (target_kind target) (targetIdOf target) (sr_name share)) db1 = Inr ((), db')"
    using granted_parts [OF assms(1)] by blast
  then show ?thesis
    using bs.db_grant_result [OF grant assms(2)] audit_write_rows by (auto simp: row_def bookmark_share_table_def o_def split: if_splits)
qed

text \<open>The accounts a target stands for.\<close>

definition reached_through :: "library \<Rightarrow> string \<Rightarrow> share_target \<Rightarrow> string \<Rightarrow> bool" where
  "reached_through db w target a \<longleftrightarrow>
     (case target of ShareMember m \<Rightarrow> a = uuid_cast m | ShareTeam t \<Rightarrow> member_of_team (library_tables db) w a (uuid_cast t))"

lemma readable_after_share:
  assumes "bookmark_shares db' = bookmark_shares db @ [to_bookmark_share (share_row_of w now i objectId target by_account)]"
    "folder_shares db' = folder_shares db" "folder_bookmarks db' = folder_bookmarks db" "team_members db' = team_members db"
  shows "bookmarkReadableBy (library_tables db') a b \<longleftrightarrow>
    bookmarkReadableBy (library_tables db) a b \<or> bm_id b = uuid_cast objectId \<and> bm_workspace_id b = w \<and> reached_through db w target a"
proof -
  have t: "targets (library_tables db') u a x y = targets (library_tables db) u a x y" for u x y
    using assms(4) by (simp add: targets_def member_of_team_def tables.defs split: option.split)
  have "shared_by_folder (library_tables db') a b = shared_by_folder (library_tables db) a b"
    using assms(2,3) by (simp add: shared_by_folder_def t) (simp add: tables.defs)
  moreover have "shared_directly (library_tables db') a b \<longleftrightarrow> shared_directly (library_tables db) a b \<or>
      bm_id b = uuid_cast objectId \<and> bm_workspace_id b = w \<and> targets (library_tables db) w a (target_account target) (target_team target)"
    unfolding shared_directly_def t using assms(1) by (auto simp: to_bookmark_share_def share_row_of_def tables.defs)
  moreover have "targets (library_tables db) w a (target_account target) (target_team target) = reached_through db w target a"
    by (cases target) (auto simp: targets_def reached_through_def)
  ultimately show ?thesis
    by (auto simp: bookmarkReadableBy_iff may_read_def)
qed

lemma of_bookmark_share_sel [simp]:
  "sh_id (of_bookmark_share s) = bs_id s" "sh_workspace_id (of_bookmark_share s) = bs_workspace_id s" "sh_object_id (of_bookmark_share s) = bs_bookmark_id s"
  by (simp_all add: of_bookmark_share_def)

lemma revoked_rows:
  assumes "revokeBookmarkShare (bookmarkShareRepository (\<lambda>db. db) tx) (audit_write (on_audit tx) auditId) ask shareId db = Inr (Revoked share, db')"
    "tx_workspaceId tx = Some v"
  shows "bookmark_shares db' = filter (\<lambda>s. \<not> (bs_workspace_id s = uuid_cast v \<and> bs_id s = uuid_cast shareId \<and> bs_bookmark_id s = uuid_cast (sa_objectId ask) \<and>
      own_bookmark_id db (uuid_cast (tx_accountId tx)) (uuid_cast v) (bs_bookmark_id s))) (bookmark_shares db)"
proof -
  obtain db1 where revoke: "db_revoke bookmark_share_table tx (sa_objectId ask) shareId db = Inr (Some share, db1)"
    and audit: "bookmark_shares db' = bookmark_shares db1"
  proof -
    obtain owned where owned: "ownedBookmark tx (sa_objectId ask) (sa_accountId ask) UseRevoke db = Inr (owned, db)"
      using assms(1) ownedBookmark_reads by (fastforce simp: revokeBookmarkShare_def revokeShare_def bookmarkShareRepository_def tx_bind_Inr_iff)
    obtain found db1 where revoke: "db_revoke bookmark_share_table tx (sa_objectId ask) shareId db = Inr (found, db1)"
      and rest: "(case found of None \<Rightarrow> tx_return (RevokeRefused ShareNotFound)
        | Some share \<Rightarrow> (case revoked_target share of None \<Rightarrow> tx_throw (JsError ''a share names neither a member nor a team'')
            | Some targetId \<Rightarrow> tx_bind (audit_write (on_audit tx) auditId (share_event ''share.revoked'' ''bookmark'' ask
                (if sr_accountId share = None then ''team'' else ''member'') targetId (sr_name share))) (\<lambda>_. tx_return (Revoked share)))) db1 = Inr (Revoked share, db')"
      using assms(1) owned
      by (auto simp: revokeBookmarkShare_def revokeShare_def bookmarkShareRepository_def tx_bind_Inr_iff refusalFor_def split: if_splits)
    then have "found = Some share"
      by (auto simp: tx_bind_Inr_iff split: option.splits)
    then show ?thesis
      using that revoke rest by (auto simp: tx_bind_Inr_iff split: option.splits dest!: audit_write_rows)
  qed
  have "db1 = tb_put bookmark_share_table (filter (\<lambda>s. \<not> (sh_workspace_id s = uuid_cast v \<and> sh_id s = uuid_cast shareId \<and> sh_object_id s = uuid_cast (sa_objectId ask) \<and>
      tb_owns bookmark_share_table db (uuid_cast (tx_accountId tx)) (uuid_cast v) (sh_object_id s))) (tb_rows bookmark_share_table db)) db"
  proof -
    obtain found where "sharesOf bookmark_share_table tx (sa_objectId ask) (\<lambda>s. sh_id s = uuid_cast shareId) db = Inr (found, db)"
      using revoke bs.sharesOf_same by (fastforce simp: db_revoke_def tx_bind_Inr_iff)
    then show ?thesis
      using revoke by (cases found) (auto simp: db_revoke_def tx_bind_Inr_iff with_workspace_def assms(2) delete_share_def Let_def split: if_splits)
  qed
  then show ?thesis
    using audit by (simp add: bookmark_share_table_def filter_map o_def)
qed

lemma granted_id:
  assumes "tx_workspaceId tx = Some v"
  shows "grant_attempts between bookmark_share_table tx request w left db = Inr (ShareGranted share, db') \<Longrightarrow> sr_id share = uuid_cast (ns_id request)"
proof (induction left arbitrary: db)
  case (Suc left)
  obtain inserted db1 found where found: "sharesOf bookmark_share_table tx (ns_objectId request)
      (if inserted then (\<lambda>s. sh_id s = uuid_cast (ns_id request)) else names_target (ns_target request)) (between db1) = Inr (found, between db1)"
    and rest: "(case found of share # _ \<Rightarrow> tx_return (if inserted then ShareGranted share else ShareExisting share)
        | [] \<Rightarrow> grant_attempts between bookmark_share_table tx request w left) (between db1) = Inr (ShareGranted share, db')"
    using Suc.prems bs.sharesOf_same by (fastforce simp: tx_bind_Inr_iff)
  show ?case
  proof (cases found)
    case (Cons x xs)
    then have "inserted" "x = share"
      using rest by (auto split: if_splits)
    moreover have "sr_id x \<in> set (map sr_id found)"
      by (simp add: Cons)
    ultimately show ?thesis
      unfolding bs.sharesOf_rows [OF found assms] by auto
  qed (use rest Suc.IH in simp)
qed simp

lemma granted_share_id:
  assumes "grantBookmarkShare (bookmarkShareRepository (\<lambda>db. db) tx) audit newId ask target db = Inr (GrantDone share, db')" "tx_workspaceId tx = Some v"
  shows "sr_id share = uuid_cast newId"
  using granted_parts [OF assms(1)] granted_id [OF assms(2)]
  by (fastforce simp: db_grant_def with_workspace_def tx_bind_Inr_iff read_db_def split: if_splits)

lemma revoked_again:
  assumes "\<not> list_ex (share_conflict row) (map of_bookmark_share shares)" "sh_id row = i"
    "sh_workspace_id row = w" "sh_object_id row = object"
  shows "filter (\<lambda>s. \<not> (bs_workspace_id s = w \<and> bs_id s = i \<and> bs_bookmark_id s = object)) (shares @ [to_bookmark_share row]) = shares"
  using assms by (auto simp: list_ex_iff share_conflict_def to_bookmark_share_def filter_id_conv)

section \<open>Acting on many\<close>

lemma named_rows_bounded:
  assumes "distinct (map bm_id rows)" "\<And>b. P b \<Longrightarrow> bm_id b \<in> f ` set ids"
  shows "length (filter P rows) \<le> length ids"
proof -
  have "length (filter P rows) = card (bm_id ` set (filter P rows))"
    using distinct_card [OF distinct_map_filter [OF assms(1), of P]] by simp
  also have "\<dots> \<le> card (f ` set ids)"
    using assms(2) by (intro card_mono) auto
  also have "\<dots> \<le> length ids"
    using card_image_le [of "set ids" f] card_length [of ids] by simp
  finally show ?thesis .
qed

lemma owned_bounded:
  assumes "ownedLiveBookmarks w owner ids db = Inr (owned, db')" "distinct (map bm_id (bookmarks db))"
  shows "db' = db" "length owned \<le> length ids"
proof -
  show "db' = db"
    using assms(1) by (auto simp: ownedLiveBookmarks_def Let_def tx_bind_Inr_iff read_db_def split: if_splits)
  show "length owned \<le> length ids"
    using assms named_rows_bounded [OF assms(2), of "\<lambda>b. owned_here (uuid_cast owner) w b \<and> bm_plan_archived_at b = None \<and> bm_id b \<in> set (distinctIdentifiers ids)" js_lower ids]
    by (auto simp: ownedLiveBookmarks_def Let_def tx_bind_Inr_iff read_db_def split: if_splits)
qed

lemma linking_bounded:
  assumes "distinct (map bm_id (bookmarks db))"
  shows "db_fileIn tx ids owner folder filing db = Inr (linked, db') \<Longrightarrow> (case linked of TargetNotFound \<Rightarrow> db' = db | LinkingDone n \<Rightarrow> n \<le> length ids)"
    and "db_tag tx ids owner tags tagging db = Inr (linked, db') \<Longrightarrow> (case linked of TargetNotFound \<Rightarrow> db' = db | LinkingDone n \<Rightarrow> n \<le> length ids)"
proof -
  have locks: "lockOwnedFolders tx owner fs s = Inr (r, s') \<Longrightarrow> s' = s" "lockTaggingTags tx owner tagging s = Inr (r, s') \<Longrightarrow> s' = s"
    for owner fs tagging r s s'
    by (auto simp: lockOwnedFolders_def lockTaggingTags_def with_workspace_def Let_def tx_bind_Inr_iff read_db_def split: if_splits)
  show "db_fileIn tx ids owner folder filing db = Inr (linked, db') \<Longrightarrow> (case linked of TargetNotFound \<Rightarrow> db' = db | LinkingDone n \<Rightarrow> n \<le> length ids)"
    using owned_bounded [OF _ assms] locks(1)
    by (fastforce simp: db_fileIn_def with_workspace_def tx_bind_Inr_iff require_own_account_def split: if_splits)
  show "db_tag tx ids owner tags tagging db = Inr (linked, db') \<Longrightarrow> (case linked of TargetNotFound \<Rightarrow> db' = db | LinkingDone n \<Rightarrow> n \<le> length ids)"
    using owned_bounded [OF _ assms] locks(2)
    by (fastforce simp: db_tag_def with_workspace_def tx_bind_Inr_iff require_own_account_def split: if_splits)
qed

lemma share_many_bounded:
  assumes "db_share between tx ids owner target newId db = Inr (result, db')" "distinct (map bm_id (bookmarks db))"
  shows "case result of ManyUnknownTarget \<Rightarrow> db' = db | SharedMany n granted name \<Rightarrow> n \<le> length ids"
proof -
  have passes: "share_passes between tx newId owner target owned name left used granted s = Inr (r, s') \<Longrightarrow> \<exists>g. r = SharedMany (length owned) g name"
    for owned name left used granted s r s'
  proof (induction left arbitrary: used granted s)
    case (Suc left)
    then show ?case
      by (auto simp: tx_bind_Inr_iff Let_def split: if_splits)
  qed (auto simp: tx_bind_Inr_iff split: if_splits)
  obtain owned where owned: "shareable tx owner ids db = Inr (owned, db)" "length owned \<le> length ids"
    using assms owned_bounded [OF _ assms(2)] by (fastforce simp: db_share_def shareable_def with_workspace_def tx_bind_Inr_iff)
  then show ?thesis
    using assms(1) passes
    by (auto simp: db_share_def tx_bind_Inr_iff targetName_def with_workspace_def read_db_def split: option.splits) fastforce
qed

lemma many_bounded:
  assumes "distinct (map bm_id (bookmarks db))"
  shows "db_removeMany tx ids db = Inr (removed, db') \<Longrightarrow> (case removed of None \<Rightarrow> db' = db | Some n \<Rightarrow> n \<le> length ids)"
    and "db_setPinned tx ids owner pinned db = Inr (n, db') \<Longrightarrow> n \<le> length ids"
proof -
  show "db_removeMany tx ids db = Inr (removed, db') \<Longrightarrow> (case removed of None \<Rightarrow> db' = db | Some n \<Rightarrow> n \<le> length ids)"
    using named_rows_bounded [OF assms, of "\<lambda>b. owned_here (uuid_cast (tx_accountId tx)) w b \<and> bm_id b \<in> uuid_cast ` set ids" uuid_cast ids for w]
    by (auto simp: db_removeMany_def sys_bookmark_delete_many_def with_workspace_def tx_bind_Inr_iff Let_def split: if_splits)
  show "db_setPinned tx ids owner pinned db = Inr (n, db') \<Longrightarrow> n \<le> length ids"
    using named_rows_bounded [OF assms, of "\<lambda>b. owned_here (uuid_cast owner) w b \<and> bm_plan_archived_at b = None \<and> bm_id b \<in> uuid_cast ` set ids" uuid_cast ids for w]
    by (auto simp: db_setPinned_def with_workspace_def tx_bind_Inr_iff Let_def)
qed

text \<open>The identifiers a request names, and what the service does with them.\<close>

lemma bulk_parts:
  assumes "bulkBookmarks parse tools (bulkStoreOf between name_key localeCompare tools tx) audit newId ask db = Inr (outcome, db')"
  shows "db' = db \<and> (\<forall>r n. outcome \<noteq> BulkDone r n) \<or>
    (\<exists>named. namedBookmarks parse tools (bulkStoreOf between name_key localeCompare tools tx) (js_lower (bu_accountId ask)) (bu_target ask) db = Inr (Named named, db) \<and>
       bulk_act (bulkStoreOf between name_key localeCompare tools tx) audit newId ask (js_lower (bu_accountId ask)) (length named)
         (filter uuid_pattern named) db = Inr (outcome, db'))"
proof -
  let ?store = "bulkStoreOf between name_key localeCompare tools tx" and ?account = "js_lower (bu_accountId ask)"
  have ids: "db_ids tools tx filt n s = Inr (r, s') \<Longrightarrow> s' = s" for filt n r s s'
    by (auto simp: db_ids_def with_workspace_def tx_bind_Inr_iff read_db_def)
  have named: "namedBookmarks parse tools ?store ?account target s = Inr (r, s') \<Longrightarrow> s' = s" for target r s s'
    using ids by (auto simp: namedBookmarks_def bulkStoreOf_def tx_bind_Inr_iff Let_def split: bulk_target.splits sum.splits)
  have shared: "holds_shared ?store is a s = Inr (r, s') \<Longrightarrow> s' = s" for "is" a r s s'
    by (auto simp: holds_shared_def bulkStoreOf_def db_sharedAmong_def require_own_account_def with_workspace_def tx_bind_Inr_iff read_db_def split: if_splits)
  obtain target where target: "namedBookmarks parse tools ?store ?account (bu_target ask) db = Inr (target, db)"
    using assms named by (fastforce simp: bulkBookmarks_def Let_def tx_bind_Inr_iff)
  show ?thesis
  proof (cases target)
    case (Named ids)
    obtain held where "holds_shared ?store (filter uuid_pattern ids) ?account db = Inr (held, db)"
      using assms target Named shared by (fastforce simp: bulkBookmarks_def Let_def tx_bind_Inr_iff)
    then show ?thesis
      using assms target Named by (auto simp: bulkBookmarks_def Let_def tx_bind_Inr_iff split: if_splits)
  qed (use assms target in \<open>auto simp: bulkBookmarks_def Let_def tx_bind_Inr_iff\<close>)
qed

lemma bulk_act_bounded:
  assumes "bulk_act (bulkStoreOf between name_key localeCompare tools tx) audit newId ask account requested ids db = Inr (outcome, db')"
    "distinct (map bm_id (bookmarks db))" "length ids \<le> requested"
  shows "(\<exists>n. outcome = BulkDone requested n \<and> n \<le> requested) \<or> db' = db \<and> (\<forall>r n. outcome \<noteq> BulkDone r n)"
proof -
  note many = many_bounded [OF assms(2)] and linking = linking_bounded [OF assms(2)]
  show ?thesis
  proof (cases "bu_action ask")
    case BulkDelete
    then show ?thesis
      using assms(1,3) many(1) by (fastforce simp: bulk_act_def bulk_delete_def bulkStoreOf_def tx_bind_Inr_iff split: if_splits option.splits)
  next
    case BulkShare
    then show ?thesis
      using assms(1,3) share_many_bounded [OF _ assms(2)]
      by (fastforce simp: bulk_act_def bulk_share_def or_throw_def bulkStoreOf_def tx_bind_Inr_iff split: if_splits sum.splits share_many_result.splits)
  next
    case (BulkFile filing)
    then show ?thesis
      using assms(1,3) linking(1)
      by (fastforce simp: bulk_act_def or_throw_def bulkStoreOf_def tx_bind_Inr_iff linking_outcome_def split: sum.splits linking_result.splits)
  next
    case (BulkTag tagging)
    then show ?thesis
      using assms(1,3) linking(2)
      by (fastforce simp: bulk_act_def or_throw_def bulkStoreOf_def tx_bind_Inr_iff linking_outcome_def split: sum.splits linking_result.splits)
  qed (use assms(1,3) many(2) in \<open>fastforce simp: bulk_act_def bulkStoreOf_def tx_bind_Inr_iff split: if_splits\<close>)+
qed

lemma bulk_delete_rows:
  assumes "bulk_act (bulkStoreOf between name_key localeCompare tools tx) (audit_write (on_audit tx) auditId) newId ask account requested ids db = Inr (BulkDone r n, db')"
    "bu_action ask = BulkDelete" "tx_workspaceId tx = Some v"
  shows "bookmarks db' = filter (\<lambda>b. \<not> (owned_here (uuid_cast (tx_accountId tx)) (uuid_cast v) b \<and> bm_id b \<in> uuid_cast ` set ids)) (bookmarks db) \<and>
    n = length (filter (\<lambda>b. owned_here (uuid_cast (tx_accountId tx)) (uuid_cast v) b \<and> bm_id b \<in> uuid_cast ` set ids) (bookmarks db))"
proof (cases "ids = []")
  case False
  obtain removed db1 where remove: "db_removeMany tx ids db = Inr (removed, db1)"
    and rest: "(case removed of None \<Rightarrow> tx_return BulkUnavailable
      | Some k \<Rightarrow> tx_bind (if k > 0 then audit_write (on_audit tx) auditId (bulk_event ''bookmark.bulk_deleted'' ask [(''count'', js_to_string 10 k)]) else tx_return ())
          (\<lambda>_. tx_return (BulkDone requested k))) db1 = Inr (BulkDone r n, db')"
    using assms(1,2) False by (auto simp: bulk_act_def bulk_delete_def bulkStoreOf_def tx_bind_Inr_iff)
  have "removed = Some n" "bookmarks db' = bookmarks db1"
    using rest by (auto simp: tx_bind_Inr_iff split: option.splits if_splits dest!: audit_write_rows)
  then show ?thesis
    using remove
    by (auto simp: db_removeMany_def with_workspace_def tx_bind_Inr_iff assms(3) sys_bookmark_delete_many_def Let_def delete_bookmarks_def lower_count_Inr split: if_splits)
qed (use assms(1,2) in \<open>auto simp: bulk_act_def bulk_delete_def\<close>)

end
