(* ===== verification/LibraryProperties.thy ===== *)
theory LibraryProperties
  imports LibraryOutcomes
begin

text \<open>
  The properties of the bookmarks of a member: what every request keeps, what it leaves alone, and what creating, changing, listing,
  sharing and acting on many answers and writes, each at an example library.
\<close>

section \<open>An example library\<close>

definition lib_ada :: string where
  "lib_ada = ''aaaaaaaa-0000-4000-8000-000000000001''"

definition lib_olu :: string where
  "lib_olu = ''aaaaaaaa-0000-4000-8000-000000000002''"

definition lib_space :: string where
  "lib_space = ''cccccccc-0000-4000-8000-000000000001''"

definition lib_docs :: string where
  "lib_docs = ''bbbbbbbb-0000-4000-8000-000000000001''"

definition lib_plan :: string where
  "lib_plan = ''bbbbbbbb-0000-4000-8000-000000000002''"

definition lib_row :: "string \<Rightarrow> string \<Rightarrow> string \<Rightarrow> nat \<Rightarrow> bookmark_row" where
  "lib_row i owner title at_time =
     \<lparr>bm_id = i, bm_workspace_id = lib_space, bm_owner_id = Some owner, bm_url = ''https://a.example/x'', bm_url_canonical = ''https://a.example/x'',
      bm_host = ''a.example'', bm_title = title, bm_description = None, bm_slug = None, bm_forwarding = False, bm_pinned_at = None,
      bm_plan_archived_at = None, bm_open_count = 0, bm_last_opened_at = None, bm_version = 1, bm_created_at = at_time\<rparr>"

definition example_library :: library where
  "example_library =
     \<lparr>bookmarks = [lib_row lib_docs lib_ada ''Docs'' 1, lib_row lib_plan lib_olu ''Plan'' 2],
      bookmark_shares = [\<lparr>bs_id = ''dddddddd-0000-4000-8000-000000000001'', bs_workspace_id = lib_space, bs_bookmark_id = lib_plan,
        bs_target_account_id = Some lib_ada, bs_target_team_id = None, bs_granted_by = Some lib_olu, bs_created_at = 0\<rparr>],
      folder_shares = [], folder_bookmarks = [], team_members = [], slug_preferences = [],
      accounts = [\<lparr>ac_id = lib_ada, ac_display_name = ''Ada'', ac_email = ''ada@a.example''\<rparr>, \<lparr>ac_id = lib_olu, ac_display_name = ''Olu'', ac_email = ''olu@a.example''\<rparr>],
      workspaces = [\<lparr>ws_id = lib_space, ws_name = ''One'', ws_entitlement_version = 0, ws_bookmark_count = 2, ws_deleting_at = None\<rparr>],
      workspace_members = [\<lparr>wm_workspace_id = lib_space, wm_account_id = lib_ada, wm_role = RoleMember\<rparr>,
        \<lparr>wm_workspace_id = lib_space, wm_account_id = lib_olu, wm_role = RoleOwner\<rparr>],
      lb_folders = [], lb_tags = [], lb_bookmark_tags = [], lb_teams = [],
      lb_queues = [(''bookmark.fetchMetadata'', True), (''event.bookmark.created'', False)], lb_jobs = [], lb_audit = [], lb_ai_usage = [], lb_now = 7\<rparr>"

lemma example_library_ok: "library_ok example_library"
  by code_simp

definition lib_tx :: tenant_tx where
  "lib_tx = \<lparr>tx_accountId = lib_ada, tx_workspaceId = Some lib_space\<rparr>"

text \<open>A cursor that writes the position down: the kind of its key, the length of its text in unary, and the two texts.\<close>

definition unary :: "nat \<Rightarrow> string" where
  "unary n = replicate n (CHR ''1'') @ ''.''"

fun plain_seal :: "position \<Rightarrow> list_cursor_scope \<Rightarrow> string" where
  "plain_seal (NoValue, i) scope = CHR ''n'' # i"
| "plain_seal (NumValue k, i) scope = CHR ''d'' # unary k @ i"
| "plain_seal (TextValue s, i) scope = CHR ''t'' # unary (length s) @ s @ i"

definition unary_of :: "string \<Rightarrow> nat \<times> string" where
  "unary_of text = (length (takeWhile (\<lambda>c. c = CHR ''1'') text), drop 1 (dropWhile (\<lambda>c. c = CHR ''1'') text))"

fun plain_open :: "string \<Rightarrow> list_cursor_scope \<Rightarrow> position option" where
  "plain_open [] scope = None"
| "plain_open (c # rest) scope =
     (let (n, tail) = unary_of rest
      in if c = CHR ''n'' then Some (NoValue, rest)
         else if c = CHR ''d'' then Some (NumValue n, tail)
         else Some (TextValue (take n tail), drop n tail))"

definition list_cursors_plain :: list_cursors where
  "list_cursors_plain = \<lparr>lc_seal = plain_seal, lc_open = plain_open\<rparr>"

lemma unary_of_unary [simp]: "unary_of (unary n @ rest) = (n, rest)"
  by (simp add: unary_of_def unary_def takeWhile_append dropWhile_append)

lemma list_cursors_plain_ok: "list_cursors_ok list_cursors_plain"
proof -
  have "plain_open (plain_seal p scope) scope = Some p" for p scope
    by (cases "(p, scope)" rule: plain_seal.cases) simp_all
  then show ?thesis
    by (simp add: list_cursors_ok_def list_cursors_plain_def)
qed

definition lib_lists :: list_tools where
  "lib_lists = \<lparr>lt_nfkc = \<lambda>s. s, lt_collation = \<lambda>s. s, lt_words = \<lambda>ws b. False, lt_similar = \<lambda>a b. a = b\<rparr>"

definition lib_env :: request_env where
  "lib_env =
     \<lparr>re_tx = lib_tx, re_now = 8, re_newId = \<lambda>n. ''eeeeeeee-0000-4000-8000-00000000000'' @ js_to_string 16 n,
      re_auditId = ''ffffffff-0000-4000-8000-000000000001'', re_usageId = ''ffffffff-0000-4000-8000-000000000002'', re_parse = example_parser,
      re_name_key = \<lambda>s. s, re_compare = compareCodeUnits, re_lists = lib_lists, re_cursors = list_cursors_plain,
      re_jobs = \<lparr>jt_jobId = ''ffffffff-0000-4000-8000-000000000003'', jt_sha256 = \<lambda>s. s, jt_schema_uuid = uuid_pattern\<rparr>,
      re_others = alone, re_between = \<lambda>db. db\<rparr>"

definition lib_creation :: creation_ask where
  "lib_creation =
     \<lparr>ca_workspaceId = lib_space, ca_accountId = lib_ada, ca_url = ''https://a.example/x/'', ca_title = ''New'', ca_description = None,
      ca_pinned = None, ca_slug = Some ''new'', ca_forwarding = None, ca_folderIds = None, ca_tagIds = None, ca_tagNames = Some [''work''],
      ca_aiFields = None, ca_ceiling = AtMost 3\<rparr>"

section \<open>What every request keeps\<close>

text \<open>
  No sequence of requests breaks the library: the bookmark counter of a workspace is the number of its bookmarks that are
  not plan-archived, keys and checks of the tables hold, and every link and share refers to rows of its workspace, of one owner, as
  long as what other transactions commit meanwhile does not break it. A request that fails leaves the library as it was.
\<close>

theorem requests_keep_library:
  assumes "\<forall>(env, call) \<in> set requests. others_ok env" "library_ok db"
  shows "library_ok (serve_calls requests db)"
  using assms
proof (induction requests arbitrary: db)
  case (Cons request requests)
  obtain env call where request: "request = (env, call)"
    by fastforce
  have "library_ok (serve_call env call db)"
    using Cons.prems by (intro serve_call_kept) (auto simp: request)
  then have "library_ok (serve_calls requests (serve_call env call db))"
    using Cons.prems(1) by (intro Cons.IH) auto
  then show ?case
    by (simp add: serve_calls_def request)
qed (simp add: serve_calls_def)

lemma lib_env_ok: "others_ok lib_env"
  by (simp add: others_ok_def lib_env_def interference_ok_def between_ok_def alone_def)

theorem requests_keep_library_witness:
  "library_ok (serve_calls [(lib_env, CreateCall lib_creation), (lib_env, DeleteCall lib_docs lib_ada)] example_library)"
  by (rule requests_keep_library) (simp_all add: lib_env_ok example_library_ok)

text \<open>
  A member's request changes no bookmark and no tag of anyone else, and no folder and no membership at all, whatever
  bookmarks, folders and tags it names; so sharing gives read access only.
\<close>

theorem requests_leave_others_alone:
  assumes "env_alone env" "made_by_member env call" "rows_ok db"
  shows "rows_of_others (uuid_cast (tx_accountId (re_tx env))) (serve_call env call db) = rows_of_others (uuid_cast (tx_accountId (re_tx env))) db"
  by (rule serve_call_own) (use assms in \<open>simp_all add: rows_ok_def\<close>)

theorem requests_leave_others_alone_witness:
  "rows_of_others lib_ada (serve_call lib_env (DeleteCall lib_plan lib_ada) example_library) = rows_of_others lib_ada example_library"
  using requests_leave_others_alone [of lib_env "DeleteCall lib_plan lib_ada" example_library] example_library_ok
  by (simp add: env_alone_def made_by_member_def lib_env_def lib_tx_def library_ok_def) code_simp

section \<open>Creating\<close>



lemma lib_env_simps: "env_alone lib_env" "tx_workspaceId (re_tx lib_env) = Some lib_space" "uuid_cast lib_space = lib_space" "uuid_cast lib_ada = lib_ada"
  "tx_accountId (re_tx lib_env) = lib_ada"
  by (simp_all add: env_alone_def lib_env_def lib_tx_def) code_simp+


section \<open>Changing\<close>

text \<open>
  Claim C8: a change answered with the bookmark was made to the account's own live bookmark of that identifier, in a version the request
  accepts; that row alone is rewritten, its version moves by one exactly when something a member sees is different, and the answer
  shows the row as it is now. Any other answer, a version that is not accepted among them, leaves the library as it was.
\<close>

theorem change_is_versioned:
  assumes "updateBookmark (env_store env) (re_newId env) (env_usage env) (re_parse env) ask db = Inr (outcome, db')"
    "env_alone env" "tx_workspaceId (re_tx env) = Some w" "library_ok db"
  shows "if \<exists>b. outcome = UpdateStored (Updated b) \<or> outcome = UpdateStored (Unchanged b)
    then \<exists>old new b. old \<in> set (bookmarks db) \<and> own_live_row (uuid_cast w) (uuid_cast (ua_accountId ask)) (uuid_cast (ua_bookmarkId ask)) old \<and>
      version_admitted (ua_expectedVersions ask) old \<and> bookmarks db' = replace_row new (bookmarks db) \<and> bm_id new = bm_id old \<and>
      bm_version new = bm_version old + (if seen_columns new = seen_columns old then 0 else 1) \<and>
      (outcome = UpdateStored (Updated b) \<or> outcome = UpdateStored (Unchanged b) \<and> new = old) \<and> b = recordOf new (bk_folders b) (bk_tags b) None
    else db' = db"
proof (cases "\<exists>b. outcome = UpdateStored (Updated b) \<or> outcome = UpdateStored (Unchanged b)")
  case True
  have "distinct (map bm_id (bookmarks db))"
    using assms(4) by (simp add: library_ok_def rows_ok_def)
  from update_result [OF assms(1-3) this] True
  obtain changes old new b where old: "find (own_live_row (uuid_cast w) (uuid_cast (ua_accountId ask)) (uuid_cast (ua_bookmarkId ask))) (bookmarks db) = Some old"
    and rest: "version_admitted (ua_expectedVersions ask) old" "new = changed_row (lb_now db) changes old" "bookmarks db' = replace_row new (bookmarks db)"
      "outcome = UpdateStored (Updated b) \<or> outcome = UpdateStored (Unchanged b) \<and> new = old" "b = recordOf new (bk_folders b) (bk_tags b) None"
    by auto
  have "old \<in> set (bookmarks db)" "own_live_row (uuid_cast w) (uuid_cast (ua_accountId ask)) (uuid_cast (ua_bookmarkId ask)) old"
    using old by (auto simp: find_Some_iff)
  moreover have "stays old new"
    using apply_sets_stay [of "column_sets (lb_now db) changes old" old] column_sets_stay by (auto simp: rest(2) changed_row_def)
  then have "bm_id new = bm_id old"
    by (simp add: stays_def same_place_def)
  moreover have "bm_version new = bm_version old + (if seen_columns new = seen_columns old then 0 else 1)"
    by (simp add: rest(2) changed_row_def bump_version_def seen_columns_def)
  ultimately show ?thesis
    unfolding if_P [OF True] using rest(1,3-5) by blast
next
  case False
  then show ?thesis
    using update_result [OF assms(1-3)] assms(4) by (auto simp: library_ok_def rows_ok_def)
qed

definition lib_change :: update_ask where
  "lib_change =
     \<lparr>ua_bookmarkId = lib_docs, ua_accountId = lib_ada,
      ua_patch = \<lparr>pa_url = None, pa_title = Some ''Manual'', pa_description = None, pa_pinned = None, pa_slug = None, pa_forwarding = None,
        pa_folderIds = None, pa_tagIds = None, pa_tagNames = None\<rparr>,
      ua_aiFields = None, ua_expectedVersions = Some [1]\<rparr>"

theorem change_is_versioned_witness:
  "\<exists>b new db'. updateBookmark (env_store lib_env) (re_newId lib_env) (env_usage lib_env) (re_parse lib_env) lib_change example_library =
       Inr (UpdateStored (Updated b), db') \<and>
     bookmarks db' = replace_row new (bookmarks example_library) \<and> bm_id new = lib_docs \<and> b = recordOf new (bk_folders b) (bk_tags b) None"
proof -
  have "case updateBookmark (env_store lib_env) (re_newId lib_env) (env_usage lib_env) (re_parse lib_env) lib_change example_library of
      Inl _ \<Rightarrow> False | Inr (outcome, db') \<Rightarrow> (case outcome of UpdateStored (Updated b) \<Rightarrow> True | _ \<Rightarrow> False)"
    by code_simp
  then obtain b db' where run: "updateBookmark (env_store lib_env) (re_newId lib_env) (env_usage lib_env) (re_parse lib_env) lib_change example_library =
      Inr (UpdateStored (Updated b), db')"
    by (auto split: sum.splits prod.splits update_outcome.splits update_result.splits)
  have "uuid_cast lib_docs = lib_docs"
    by code_simp
  then show ?thesis
    using change_is_versioned [OF run lib_env_simps(1,2) example_library_ok] run by (auto simp: own_live_row_def lib_change_def)
qed

section \<open>Listing\<close>

text \<open>
  Claim C9: a page of a member's bookmarks shows, of every bookmark the filter admits, in the order of the list, the first ones after
  the place its cursor stands for, each as the member may see it; it offers a cursor exactly when more follow, and tells their number
  unless that is above ten thousand. Reading changes nothing.
\<close>

theorem bookmark_list_page:
  assumes "library_ok db" "list_cursors_ok cursors" "list_request_ok parse tools tx ask filt" "tx_workspaceId tx = Some w"
    "list_opens tools cursors (list_cursor_scope_of ask filt) (la_sort ask) (la_cursor ask) after" "1 \<le> la_limit ask"
  defines "rows \<equiv> listed_rows tools db (uuid_cast (tx_accountId tx)) (uuid_cast w) filt (la_sort ask)"
  defines "rest \<equiv> filter (\<lambda>b. case after of None \<Rightarrow> True | Some p \<Rightarrow> list_precedes (la_sort ask) p (list_key tools (la_sort ask) b)) rows"
  shows "\<exists>next_cursor. listBookmarks parse tools (listStoreOf name_key tools tx) cursors ask db =
      Inr (ListedBookmarks (map (record_for name_key db (uuid_cast w) (uuid_cast (tx_accountId tx))) (take (la_limit ask) rest)) next_cursor
        (if length rows > 10000 then None else Some (length rows)), db) \<and>
    (next_cursor \<noteq> None \<longleftrightarrow> length rest > la_limit ask)"
proof -
  have "take (la_limit ask) (list_fetch tools db (uuid_cast (tx_accountId tx)) (uuid_cast w) filt (la_sort ask) after (la_limit ask + 1)) = take (la_limit ask) rest"
    by (simp add: list_fetch_def rest_def rows_def)
  moreover have "length (list_fetch tools db (uuid_cast (tx_accountId tx)) (uuid_cast w) filt (la_sort ask) after (la_limit ask + 1)) > la_limit ask \<longleftrightarrow>
      length rest > la_limit ask"
    by (auto simp: list_fetch_def rest_def rows_def)
  ultimately show ?thesis
    using page_of_list [OF _ assms(2-5), of db name_key] assms(1,6)
    by (auto simp: library_ok_def BOOKMARK_LIST_TOTAL_CAP_def rows_def)
qed

definition lib_list :: "string option \<Rightarrow> list_ask" where
  "lib_list cursor =
     \<lparr>la_workspaceId = lib_space, la_accountId = lib_ada, la_scope = ScopeAll, la_pinned = None, la_hasSlug = None, la_forwarding = None, la_url = None,
      la_folderId = None, la_tagIds = None, la_q = None, la_sort = SortTitleDesc, la_limit = 1, la_cursor = cursor\<rparr>"

definition lib_filter :: list_filter where
  "lib_filter =
     \<lparr>lf_ownerId = lib_ada, lf_scope = Some ScopeAll, lf_pinned = None, lf_hasSlug = None, lf_forwarding = None, lf_urlCanonical = None,
      lf_folderId = None, lf_tagIds = None, lf_q = None\<rparr>"

lemma lib_list_request: "list_request_ok example_parser lib_lists lib_tx (lib_list cursor) lib_filter"
  by (simp add: list_request_ok_def bookmarkListFilter_def filter_ask_of_def lib_list_def lib_filter_def filter_checked_def filter_tags_def lib_tx_def)

lemma lib_list_rows: "map bm_title (listed_rows lib_lists example_library lib_ada lib_space lib_filter SortTitleDesc) = [''Plan'', ''Docs'']"
  by code_simp

lemma lib_list_size: "length (listed_rows lib_lists example_library lib_ada lib_space lib_filter SortTitleDesc) = 2"
  using arg_cong [OF lib_list_rows, of length] by simp

theorem bookmark_list_page_witness:
  "\<exists>items next_cursor. listBookmarks example_parser lib_lists (listStoreOf (\<lambda>s. s) lib_lists lib_tx) list_cursors_plain (lib_list None) example_library =
      Inr (ListedBookmarks items next_cursor (Some 2), example_library) \<and> map bk_title items = [''Plan''] \<and> next_cursor \<noteq> None"
proof -
  have title: "bk_title (record_for (\<lambda>s. s) example_library w a b) = bm_title b" for w a b
    by (simp add: record_for_def recordOf_def)
  have "map bm_title (take 1 (listed_rows lib_lists example_library lib_ada lib_space lib_filter SortTitleDesc)) = [''Plan'']"
    using lib_list_rows by (simp flip: take_map)
  then show ?thesis
    using bookmark_list_page [OF example_library_ok list_cursors_plain_ok lib_list_request [of None], of lib_space None "\<lambda>s. s"] lib_list_size
    by (auto simp: lib_tx_def lib_list_def list_opens_def lib_env_simps title o_def)
qed

text \<open>
  Claim C10: a member who follows the cursors gets every bookmark the filter admits exactly once, in the order of the list, and comes to
  a page without a cursor within as many pages as their number needs (one, when there is none): the walk is a list only when it ends.
\<close>

theorem bookmark_pages_complete:
  assumes "library_ok db" "list_cursors_ok cursors" "list_request_ok parse tools tx ask filt" "tx_workspaceId tx = Some w" "1 \<le> la_limit ask"
    "length (listed_rows tools db (uuid_cast (tx_accountId tx)) (uuid_cast w) filt (la_sort ask)) \<le> pages * la_limit ask" "1 \<le> pages"
  shows "cursor_walk (list_page parse tools (listStoreOf name_key tools tx) cursors ask db) pages None =
    Some (map (record_for name_key db (uuid_cast w) (uuid_cast (tx_accountId tx)))
      (listed_rows tools db (uuid_cast (tx_accountId tx)) (uuid_cast w) filt (la_sort ask)))"
  by (rule pages_of_list) (use assms in \<open>simp_all add: library_ok_def\<close>)

theorem bookmark_pages_complete_witness:
  "\<exists>items. cursor_walk (list_page example_parser lib_lists (listStoreOf (\<lambda>s. s) lib_lists lib_tx) list_cursors_plain (lib_list None) example_library) 2 None =
     Some items \<and> map bk_title items = [''Plan'', ''Docs'']"
proof -
  have title: "bk_title (record_for (\<lambda>s. s) example_library w a b) = bm_title b" for w a b
    by (simp add: record_for_def recordOf_def)
  show ?thesis
    using bookmark_pages_complete [OF example_library_ok list_cursors_plain_ok lib_list_request [of None], of lib_space 2 "\<lambda>s. s"] lib_list_rows lib_list_size
    by (auto simp: lib_tx_def lib_list_def lib_env_simps title o_def)
qed

section \<open>Sharing\<close>

text \<open>
  Claim C11: a share that is granted lets exactly the member it names, or exactly the members of the team it names, read the one bookmark
  of the caller it is for, beside whoever could read it before; it is for a bookmark of the caller, and nobody's access to any other
  bookmark changes.
\<close>

theorem grant_reaches_its_target:
  assumes "grantBookmarkShare (bookmarkShareRepository (\<lambda>db. db) tx) (audit_write (on_audit tx) auditId) newId ask target db = Inr (GrantDone share, db')"
    "tx_workspaceId tx = Some w"
  shows "own_bookmark_id db (uuid_cast (tx_accountId tx)) (uuid_cast w) (uuid_cast (sa_objectId ask)) \<and>
    (\<forall>a b. bookmarkReadableBy (library_tables db') a b \<longleftrightarrow> bookmarkReadableBy (library_tables db) a b \<or>
       bm_id b = uuid_cast (sa_objectId ask) \<and> bm_workspace_id b = uuid_cast w \<and> reached_through db (uuid_cast w) target a)"
  using granted_rows [OF assms] readable_after_share by blast

definition lib_share_ask :: share_ask where
  "lib_share_ask = \<lparr>sa_workspaceId = lib_space, sa_actor = ActorAccount lib_ada ''Ada'', sa_ipPrefix = None, sa_objectId = lib_docs\<rparr>"

definition lib_new_share :: string where
  "lib_new_share = ''dddddddd-0000-4000-8000-000000000002''"

definition lib_grant :: "(library, share_grant_outcome) tx" where
  "lib_grant = grantBookmarkShare (bookmarkShareRepository (\<lambda>db. db) lib_tx) (audit_write (on_audit lib_tx) ''ffffffff-0000-4000-8000-000000000001'') lib_new_share lib_share_ask (ShareMember lib_olu)"

definition lib_revoke :: "(library, share_revocation_outcome) tx" where
  "lib_revoke = revokeBookmarkShare (bookmarkShareRepository (\<lambda>db. db) lib_tx) (audit_write (on_audit lib_tx) ''ffffffff-0000-4000-8000-000000000002'') lib_share_ask lib_new_share"

lemma answers_iff: "(case m of Inl _ \<Rightarrow> False | Inr (x, s) \<Rightarrow> P x s) \<longleftrightarrow> (\<exists>x s. m = Inr (x, s) \<and> P x s)"
  by (auto split: sum.split prod.split)

lemma lib_grant_runs: "\<exists>share db'. lib_grant example_library = Inr (GrantDone share, db') \<and> (\<exists>share' db''. lib_revoke db' = Inr (Revoked share', db''))"
proof -
  have "case lib_grant example_library of Inl _ \<Rightarrow> False | Inr (outcome, db') \<Rightarrow> (case outcome of GrantDone _ \<Rightarrow> True | _ \<Rightarrow> False) \<and>
      (case lib_revoke db' of Inl _ \<Rightarrow> False | Inr (revocation, _) \<Rightarrow> (case revocation of Revoked _ \<Rightarrow> True | _ \<Rightarrow> False))"
    by code_simp
  then obtain outcome db' revocation db'' where "lib_grant example_library = Inr (outcome, db')" "lib_revoke db' = Inr (revocation, db'')"
    and "case outcome of GrantDone _ \<Rightarrow> True | _ \<Rightarrow> False" "case revocation of Revoked _ \<Rightarrow> True | _ \<Rightarrow> False"
    unfolding answers_iff by blast
  then show ?thesis
    by (cases outcome; cases revocation) auto
qed

theorem grant_reaches_its_target_witness:
  "\<exists>share db'. lib_grant example_library = Inr (GrantDone share, db') \<and>
     bookmarkReadableBy (library_tables db') lib_olu (lib_row lib_docs lib_ada ''Docs'' 1) \<and>
     \<not> bookmarkReadableBy (library_tables example_library) lib_olu (lib_row lib_docs lib_ada ''Docs'' 1)"
proof -
  obtain share db' where run: "lib_grant example_library = Inr (GrantDone share, db')"
    using lib_grant_runs by blast
  have ids: "uuid_cast lib_docs = lib_docs" "uuid_cast lib_olu = lib_olu" "\<not> bookmarkReadableBy (library_tables example_library) lib_olu (lib_row lib_docs lib_ada ''Docs'' 1)"
    by code_simp+
  have "\<forall>a b. bookmarkReadableBy (library_tables db') a b \<longleftrightarrow> bookmarkReadableBy (library_tables example_library) a b \<or>
      bm_id b = uuid_cast (sa_objectId lib_share_ask) \<and> bm_workspace_id b = uuid_cast lib_space \<and> reached_through example_library (uuid_cast lib_space) (ShareMember lib_olu) a"
    using grant_reaches_its_target [OF run [unfolded lib_grant_def], of lib_space] by (simp add: lib_tx_def)
  then show ?thesis
    using run ids by (simp add: lib_share_ask_def lib_row_def lib_env_simps reached_through_def)
qed

text \<open>
  Claim C12: revoking a share that was just granted leaves the shares exactly as they were before it, so everyone reads what they could
  read before.
\<close>

theorem revocation_undoes_grant:
  assumes "grantBookmarkShare (bookmarkShareRepository (\<lambda>db. db) tx) (audit_write (on_audit tx) auditId) newId ask target db = Inr (GrantDone share, db1)"
    "revokeBookmarkShare (bookmarkShareRepository (\<lambda>db. db) tx) (audit_write (on_audit tx) auditId') ask (sr_id share) db1 = Inr (Revoked share', db2)"
    "tx_workspaceId tx = Some w"
  shows "bookmark_shares db2 = bookmark_shares db"
proof -
  let ?row = "share_row_of (uuid_cast w) (lb_now db) newId (sa_objectId ask) target (sa_accountId ask)"
  note granted = granted_rows [OF assms(1,3)]
  have "own_bookmark_id db1 (uuid_cast (tx_accountId tx)) (uuid_cast w) (uuid_cast (sa_objectId ask))"
    using granted by (simp add: own_bookmark_id_def)
  then have "bookmark_shares db2 = filter (\<lambda>s. \<not> (bs_workspace_id s = uuid_cast w \<and> bs_id s = uuid_cast newId \<and> bs_bookmark_id s = uuid_cast (sa_objectId ask)))
      (bookmark_shares db1)"
    unfolding revoked_rows [OF assms(2,3)] granted_share_id [OF assms(1,3)] by (intro filter_cong) auto
  then show ?thesis
    using revoked_again [of ?row "bookmark_shares db" "uuid_cast newId" "uuid_cast w" "uuid_cast (sa_objectId ask)"] granted by (simp add: share_row_of_def)
qed

theorem revocation_undoes_grant_witness:
  "\<exists>share db1 share' db2. lib_grant example_library = Inr (GrantDone share, db1) \<and> lib_revoke db1 = Inr (Revoked share', db2) \<and>
     bookmark_shares db2 = bookmark_shares example_library"
proof -
  obtain share db1 share' db2 where runs: "lib_grant example_library = Inr (GrantDone share, db1)" "lib_revoke db1 = Inr (Revoked share', db2)"
    using lib_grant_runs by blast
  have space: "tx_workspaceId lib_tx = Some lib_space" and i: "uuid_cast lib_new_share = lib_new_share"
    by (simp add: lib_tx_def) code_simp
  have "sr_id share = lib_new_share"
    using granted_share_id [OF runs(1) [unfolded lib_grant_def] space] i by simp
  then show ?thesis
    using revocation_undoes_grant [OF runs(1) [unfolded lib_grant_def] _ space] runs by (metis lib_revoke_def)
qed

section \<open>Acting on many\<close>

text \<open>
  A bulk action that is answered as done reports no more bookmarks affected than the request named, so what was skipped is
  never negative; every other answer, a selection that holds somebody else's shared bookmark among them, has written nothing.
\<close>

theorem bulk_counts_add_up:
  assumes "bulkBookmarks parse tools (bulkStoreOf between name_key localeCompare tools tx) audit newId ask db = Inr (outcome, db')" "library_ok db"
  shows "(\<exists>requested affected. outcome = BulkDone requested affected \<and> 0 \<le> skipped_not_found requested affected) \<or>
    db' = db \<and> (\<forall>requested affected. outcome \<noteq> BulkDone requested affected)"
proof -
  have rows: "distinct (map bm_id (bookmarks db))"
    using assms(2) by (simp add: library_ok_def rows_ok_def)
  show ?thesis
    using bulk_parts [OF assms(1)] bulk_act_bounded [OF _ rows] length_filter_le
    by (fastforce simp: skipped_not_found_def)
qed

definition lib_bulk :: "string list \<Rightarrow> bulk_ask" where
  "lib_bulk ids =
     \<lparr>bu_workspaceId = lib_space, bu_accountId = lib_ada, bu_actor = ActorAccount lib_ada ''Ada'', bu_ipPrefix = None, bu_action = BulkDelete,
      bu_target = TargetIds ids, bu_folderId = None, bu_tagIds = None, bu_shareTarget = None\<rparr>"

definition lib_delete :: "string list \<Rightarrow> (library, bulk_outcome) tx" where
  "lib_delete ids = bulkBookmarks example_parser lib_lists (bulkStoreOf (\<lambda>db. db) (\<lambda>s. s) compareCodeUnits lib_lists lib_tx)
     (audit_write (on_audit lib_tx) ''ffffffff-0000-4000-8000-000000000001'') (\<lambda>n. []) (lib_bulk ids)"

theorem bulk_counts_add_up_witness: "lib_delete [lib_docs, lib_plan] example_library = Inr (BulkForbidden, example_library)"
proof -
  have "case lib_delete [lib_docs, lib_plan] example_library of Inl _ \<Rightarrow> False | Inr (outcome, db') \<Rightarrow> outcome = BulkForbidden"
    by code_simp
  then obtain db' where run: "lib_delete [lib_docs, lib_plan] example_library = Inr (BulkForbidden, db')"
    unfolding answers_iff by blast
  show ?thesis
    using bulk_counts_add_up [OF run [unfolded lib_delete_def] example_library_ok] run by simp
qed

text \<open>
  Claim C13: a bulk deletion by identifier that is answered as done has deleted exactly the caller's own bookmarks of the workspace that it
  names, and reports their number.
\<close>

theorem bulk_deletion_is_exact:
  assumes "bulkBookmarks parse tools (bulkStoreOf between name_key localeCompare tools tx) (audit_write (on_audit tx) auditId) newId ask db =
      Inr (BulkDone requested affected, db')"
    "bu_action ask = BulkDelete" "bu_target ask = TargetIds ids" "tx_workspaceId tx = Some w"
  defines "named b \<equiv> owned_here (uuid_cast (tx_accountId tx)) (uuid_cast w) b \<and> (\<exists>i \<in> set ids. uuid_pattern (js_lower i) \<and> uuid_cast i = bm_id b)"
  shows "bookmarks db' = filter (\<lambda>b. \<not> named b) (bookmarks db) \<and> affected = length (filter named (bookmarks db))"
proof -
  have "namedBookmarks parse tools (bulkStoreOf between name_key localeCompare tools tx) a (bu_target ask) db = Inr (Named found, db) \<Longrightarrow>
      found = js_unique (map js_lower ids)" for a found
    using assms(3) by (auto simp: namedBookmarks_def Let_def split: if_splits)
  then have acted: "bulk_act (bulkStoreOf between name_key localeCompare tools tx) (audit_write (on_audit tx) auditId) newId ask (js_lower (bu_accountId ask))
      (length (js_unique (map js_lower ids))) (filter uuid_pattern (js_unique (map js_lower ids))) db = Inr (BulkDone requested affected, db')"
    using bulk_parts [OF assms(1)] by auto
  have named: "bm_id b \<in> uuid_cast ` set (filter uuid_pattern (js_unique (map js_lower ids))) \<longleftrightarrow> (\<exists>i \<in> set ids. uuid_pattern (js_lower i) \<and> uuid_cast i = bm_id b)" for b
    by (auto simp: image_iff)
  show ?thesis
    unfolding named_def named [symmetric] by (rule bulk_delete_rows [OF acted assms(2,4)])
qed

theorem bulk_deletion_is_exact_witness:
  "\<exists>db'. lib_delete [lib_docs, ''no identifier''] example_library = Inr (BulkDone 2 1, db') \<and> map bm_title (bookmarks db') = [''Plan'']"
proof -
  have "case lib_delete [lib_docs, ''no identifier''] example_library of Inl _ \<Rightarrow> False | Inr (outcome, db') \<Rightarrow> outcome = BulkDone 2 1"
    by code_simp
  then obtain db' where run: "lib_delete [lib_docs, ''no identifier''] example_library = Inr (BulkDone 2 1, db')"
    unfolding answers_iff by blast
  let ?named = "\<lambda>b. owned_here (uuid_cast lib_ada) (uuid_cast lib_space) b \<and>
      (\<exists>i \<in> set [lib_docs, ''no identifier'']. uuid_pattern (js_lower i) \<and> uuid_cast i = bm_id b)"
  have "bookmarks db' = filter (\<lambda>b. \<not> ?named b) (bookmarks example_library)"
    using bulk_deletion_is_exact [OF run [unfolded lib_delete_def], of "[lib_docs, ''no identifier'']" lib_space]
    by (simp add: lib_bulk_def lib_tx_def)
  moreover have "map bm_title (filter (\<lambda>b. \<not> ?named b) (bookmarks example_library)) = [''Plan'']"
    by code_simp
  ultimately show ?thesis
    using run by simp
qed

end
