(* ===== verification/Markup.thy ===== *)
theory Markup
  imports JsString
begin

text \<open>
  The scanner of untrusted HTML that the page metadata and the import of bookmark files share
  (\<open>packages/core/src/bookmarks/metadata.ts\<close>). A text here is the list of its UTF-16 code units, since a character reference may
  denote any character. A position of the code is the rest of the text from there, so a search that moves a cursor is a function to what
  is left, and it ends because that is shorter. \<open>lower\<close> is \<open>toLowerCase\<close>.
\<close>

section \<open>Code units\<close>

type_synonym units = "nat list"

definition lit :: "string \<Rightarrow> units" where
  "lit s = map of_char s"

definition unit_space :: "nat \<Rightarrow> bool" where
  "unit_space c \<longleftrightarrow>
     9 \<le> c \<and> c \<le> 13 \<or> c = 32 \<or> c = 160 \<or> c = 5760 \<or> 8192 \<le> c \<and> c \<le> 8202 \<or> c = 8232 \<or> c = 8233 \<or> c = 8239 \<or> c = 8287 \<or> c = 12288 \<or> c = 65279"

definition unit_digit :: "nat \<Rightarrow> bool" where
  "unit_digit c \<longleftrightarrow> 48 \<le> c \<and> c \<le> 57"

definition isLetter :: "nat \<Rightarrow> bool" where
  "isLetter c \<longleftrightarrow> 65 \<le> c \<and> c \<le> 90 \<or> 97 \<le> c \<and> c \<le> 122"

definition unit_hex :: "nat \<Rightarrow> bool" where
  "unit_hex c \<longleftrightarrow> unit_digit c \<or> 65 \<le> c \<and> c \<le> 70 \<or> 97 \<le> c \<and> c \<le> 102"

definition isSpace :: "nat \<Rightarrow> bool" where
  "isSpace c \<longleftrightarrow> c = 32 \<or> c = 9 \<or> c = 10 \<or> c = 12 \<or> c = 13"

definition ascii_lower :: "nat \<Rightarrow> nat" where
  "ascii_lower c = (if 65 \<le> c \<and> c \<le> 90 then c + 32 else c)"

text \<open>\<open>/\s+/g\<close> replaced by one space, and \<open>trim\<close>.\<close>

fun collapse :: "units \<Rightarrow> units" where
  "collapse [] = []"
| "collapse [c] = [if unit_space c then 32 else c]"
| "collapse (c # d # rest) =
     (if unit_space c then if unit_space d then collapse (d # rest) else 32 # collapse (d # rest) else c # collapse (d # rest))"

definition trim :: "units \<Rightarrow> units" where
  "trim t = rev (dropWhile unit_space (rev (dropWhile unit_space t)))"

text \<open>The text before and after the first unit \<open>c\<close> (\<open>indexOf\<close>).\<close>

fun split_at :: "nat \<Rightarrow> units \<Rightarrow> (units \<times> units) option" where
  "split_at c [] = None"
| "split_at c (d # rest) = (if d = c then Some ([], rest) else map_option (\<lambda>(l, r). (d # l, r)) (split_at c rest))"

fun after_marker :: "units \<Rightarrow> units \<Rightarrow> units option" where
  "after_marker m [] = None"
| "after_marker m (d # rest) = (if prefix m (d # rest) then Some (drop (length m) (d # rest)) else after_marker m rest)"

lemma split_at_length: "split_at c t = Some (l, r) \<Longrightarrow> length r < length t"
  by (induction t arbitrary: l) (auto split: if_splits)

lemma after_marker_length: "after_marker m t = Some r \<Longrightarrow> length r \<le> length t"
proof (induction t)
  case (Cons d t)
  then show ?case by (auto split: if_splits)
qed simp

lemma split_at_append: "c \<notin> set t \<Longrightarrow> split_at c (t @ c # rest) = Some (t, rest)"
  by (induction t) auto

section \<open>Character references\<close>

definition latin1_names :: "string list" where
  "latin1_names = js_split '' ''
     (''nbsp iexcl cent pound curren yen brvbar sect uml copy ordf laquo not shy reg macr deg plusmn sup2 sup3 acute micro para middot cedil sup1 ordm raquo frac14 frac12 frac34 iquest '' @
      ''Agrave Aacute Acirc Atilde Auml Aring AElig Ccedil Egrave Eacute Ecirc Euml Igrave Iacute Icirc Iuml ETH Ntilde Ograve Oacute Ocirc Otilde Ouml times Oslash Ugrave Uacute Ucirc Uuml Yacute THORN szlig '' @
      ''agrave aacute acirc atilde auml aring aelig ccedil egrave eacute ecirc euml igrave iacute icirc iuml eth ntilde ograve oacute ocirc otilde ouml divide oslash ugrave uacute ucirc uuml yacute thorn yuml'')"

definition NAMED_ENTITIES :: "(units \<times> nat) list" where
  "NAMED_ENTITIES =
     map (\<lambda>(name, c). (lit name, c))
       [(''amp'', 38), (''lt'', 60), (''gt'', 62), (''quot'', 34), (''apos'', 39), (''ndash'', 8211), (''mdash'', 8212), (''lsquo'', 8216),
        (''rsquo'', 8217), (''sbquo'', 8218), (''ldquo'', 8220), (''rdquo'', 8221), (''bdquo'', 8222), (''bull'', 8226), (''hellip'', 8230),
        (''euro'', 8364), (''trade'', 8482)] @
     map (\<lambda>(name, k). (lit name, 160 + k)) (zip latin1_names [0..<96])"

definition from_code_point :: "nat \<Rightarrow> units" where
  "from_code_point c = (if c < 65536 then [c] else [55296 + (c - 65536) div 1024, 56320 + (c - 65536) mod 1024])"

definition referenced :: "nat \<Rightarrow> units" where
  "referenced c = (if c = 0 \<or> c > 1114111 \<or> 55296 \<le> c \<and> c \<le> 57343 then [65533] else from_code_point c)"

definition digit_of :: "nat \<Rightarrow> nat" where
  "digit_of c = (if unit_digit c then c - 48 else if c \<le> 70 then c - 55 else c - 87)"

definition number_of :: "nat \<Rightarrow> units \<Rightarrow> nat" where
  "number_of base ds = foldl (\<lambda>n d. n * base + digit_of d) 0 ds"

text \<open>
  \<open>CHARACTER_REFERENCE\<close> on the text after an ampersand: the units it stands for and what follows. A run of the digits or letters of an
  alternative ends before the semicolon, so it is the longest there is.
\<close>

definition numeric_reference :: "nat \<Rightarrow> (nat \<Rightarrow> bool) \<Rightarrow> nat \<Rightarrow> units \<Rightarrow> (units \<times> units) option" where
  "numeric_reference base P most t =
     (let ds = takeWhile P t
      in case dropWhile P t of
           c # rest \<Rightarrow> if c = 59 \<and> 1 \<le> length ds \<and> length ds \<le> most then Some (referenced (number_of base ds), rest) else None
         | [] \<Rightarrow> None)"

definition named_reference :: "units \<Rightarrow> (units \<times> units) option" where
  "named_reference t =
     (let alnum = (\<lambda>c. isLetter c \<or> unit_digit c); name = takeWhile alnum t
      in case dropWhile alnum t of
           c # rest \<Rightarrow>
             if c = 59 \<and> 2 \<le> length name \<and> length name \<le> 32 \<and> isLetter (hd name) then
               map_option (\<lambda>u. ([u], rest)) (map_of NAMED_ENTITIES name)
             else None
         | [] \<Rightarrow> None)"

definition reference_at :: "units \<Rightarrow> (units \<times> units) option" where
  "reference_at t =
     (case t of
        c # rest \<Rightarrow>
          if c = 35 then
            (case rest of
               x # remains \<Rightarrow> if x = 120 \<or> x = 88 then numeric_reference 16 unit_hex 6 remains else numeric_reference 10 unit_digit 7 rest
             | [] \<Rightarrow> None)
          else named_reference t
      | [] \<Rightarrow> None)"

lemma numeric_reference_length: "numeric_reference base P most t = Some (u, rest) \<Longrightarrow> length rest < length t"
  using length_dropWhile_le [of P t] by (auto simp: numeric_reference_def Let_def split: list.splits if_splits)

lemma named_reference_length: "named_reference t = Some (u, rest) \<Longrightarrow> length rest < length t"
  using length_dropWhile_le [of "\<lambda>c. isLetter c \<or> unit_digit c" t]
  by (auto simp: named_reference_def Let_def split: list.splits if_splits)

lemma reference_at_length: "reference_at t = Some (u, rest) \<Longrightarrow> length rest < length t"
  by (fastforce simp: reference_at_def dest: numeric_reference_length named_reference_length split: list.splits if_splits)

text \<open>An unknown reference is left as written, and so are the units of a text that is none.\<close>

function decodeCharacterReferences :: "units \<Rightarrow> units" where
  "decodeCharacterReferences [] = []"
| "decodeCharacterReferences (c # rest) =
     (case (if c = 38 then reference_at rest else None) of
        Some (u, remains) \<Rightarrow> u @ decodeCharacterReferences remains
      | None \<Rightarrow> c # decodeCharacterReferences rest)"
  by pat_completeness auto
termination
  by (relation "measure length") (auto dest!: reference_at_length split: if_splits)

section \<open>Tags\<close>

record start_tag =
  st_name :: units
  st_attributes :: "(units \<times> units) list"
  st_selfClosing :: bool

definition MAX_ATTRIBUTES :: nat where
  "MAX_ATTRIBUTES = 64"

text \<open>The value of an attribute from the text after its name, with what follows it; nothing where the text ends in it.\<close>

definition attribute_value :: "units \<Rightarrow> (units \<times> units) option" where
  "attribute_value t =
     (case dropWhile isSpace t of
        c # remains \<Rightarrow>
          if c \<noteq> 61 then Some ([], t)
          else
            (let v = dropWhile isSpace remains
             in case v of
                  q # quoted \<Rightarrow>
                    if q = 34 \<or> q = 39 then split_at q quoted
                    else Some (takeWhile (\<lambda>d. \<not> isSpace d \<and> d \<noteq> 62) v, dropWhile (\<lambda>d. \<not> isSpace d \<and> d \<noteq> 62) v)
                | [] \<Rightarrow> Some ([], []))
      | [] \<Rightarrow> Some ([], t))"

definition add_attribute :: "bool \<Rightarrow> units \<Rightarrow> units \<Rightarrow> (units \<times> units) list \<Rightarrow> (units \<times> units) list" where
  "add_attribute collect name v attributes =
     (if collect \<and> length attributes < MAX_ATTRIBUTES \<and> map_of attributes name = None then attributes @ [(name, v)] else attributes)"

lemma attribute_value_length: "attribute_value t = Some (v, rest) \<Longrightarrow> length rest \<le> length t"
proof -
  assume v: "attribute_value t = Some (v, rest)"
  have shorter: "length (dropWhile P u) \<le> length u" for P and u :: units
    by (rule length_dropWhile_le)
  show ?thesis
  proof (cases "dropWhile isSpace t")
    case (Cons c w)
    then have w: "length w \<le> length t" "length (dropWhile isSpace w) \<le> length w"
      using shorter [of isSpace t] shorter [of isSpace w] by simp_all
    show ?thesis
    proof (cases "dropWhile isSpace w")
      case (Cons q quoted)
      then show ?thesis
        using v w \<open>dropWhile isSpace t = c # w\<close> shorter [of "\<lambda>d. \<not> isSpace d \<and> d \<noteq> 62" "q # quoted"]
        by (auto simp: attribute_value_def Let_def simp del: dropWhile.simps split: if_splits dest!: split_at_length)
    qed (use v w Cons in \<open>auto simp: attribute_value_def Let_def simp del: dropWhile_eq_Nil_conv split: if_splits\<close>)
  qed (use v in \<open>simp add: attribute_value_def del: dropWhile_eq_Nil_conv\<close>)
qed

function read_attributes :: "(units \<Rightarrow> units) \<Rightarrow> bool \<Rightarrow> (units \<times> units) list \<Rightarrow> units \<Rightarrow> ((units \<times> units) list \<times> bool \<times> units) option" where
  "read_attributes lower collect attributes t =
     (let gap = takeWhile (\<lambda>c. isSpace c \<or> c = 47) t; closing = (gap \<noteq> [] \<and> last gap = 47)
      in case dropWhile (\<lambda>c. isSpace c \<or> c = 47) t of
           [] \<Rightarrow> None
         | c # rest \<Rightarrow>
             if c = 62 then Some (attributes, closing, rest)
             else
               (let P = (\<lambda>d. \<not> (isSpace d \<or> d = 47 \<or> d = 62 \<or> d = 61)); name = lower (c # takeWhile P rest)
                in case attribute_value (dropWhile P rest) of
                     None \<Rightarrow> None
                   | Some (v, remains) \<Rightarrow> read_attributes lower collect (add_attribute collect name v attributes) remains))"
  by pat_completeness auto
termination
proof (relation "measure (\<lambda>(lower, collect, attributes, t). length t)", goal_cases)
  case (2 lower collect attributes t gap closing c rest P name pair v remains)
  have "length (c # rest) \<le> length t"
    using 2(3) length_dropWhile_le [of "\<lambda>c. isSpace c \<or> c = 47" t] by simp
  moreover have "length remains \<le> length (dropWhile P rest)"
    using 2(7,8) attribute_value_length [of "dropWhile P rest" v remains] 2(5) by simp
  moreover have "length (dropWhile P rest) \<le> length rest"
    by (rule length_dropWhile_le)
  ultimately show ?case by simp
qed simp

declare read_attributes.simps [simp del]

lemma read_attributes_length: "read_attributes lower collect attributes t = Some (a, s, rest) \<Longrightarrow> length rest < length t"
proof (induction lower collect attributes t rule: read_attributes.induct)
  case (1 lower collect attributes t)
  let ?P = "\<lambda>d. \<not> (isSpace d \<or> d = 47 \<or> d = 62 \<or> d = 61)"
  obtain c remains where at: "dropWhile (\<lambda>c. isSpace c \<or> c = 47) t = c # remains"
    using 1(2) by (cases "dropWhile (\<lambda>c. isSpace c \<or> c = 47) t") (simp_all add: read_attributes.simps [of lower collect attributes t])
  have len: "length (c # remains) \<le> length t"
    using at length_dropWhile_le [of "\<lambda>c. isSpace c \<or> c = 47" t] by simp
  show ?case
  proof (cases "c = 62")
    case True
    then show ?thesis using 1(2) at len by (simp add: read_attributes.simps [of lower collect attributes t] Let_def)
  next
    case False
    then obtain v left where v: "attribute_value (dropWhile ?P remains) = Some (v, left)"
      using 1(2) at by (cases "attribute_value (dropWhile ?P remains)") (auto simp: read_attributes.simps [of lower collect attributes t] Let_def)
    have "length rest < length left"
      using 1(1) [OF refl refl at False refl refl v refl] 1(2) at False v
      by (simp add: read_attributes.simps [of lower collect attributes t] Let_def)
    moreover have "length left \<le> length remains"
      using attribute_value_length [OF v] length_dropWhile_le [of ?P remains] by linarith
    ultimately show ?thesis using len by simp
  qed
qed

text \<open>\<open>readStartTag\<close> on the text after the \<open><\<close>.\<close>

definition readStartTag :: "(units \<Rightarrow> units) \<Rightarrow> units set \<Rightarrow> units \<Rightarrow> (start_tag \<times> units) option" where
  "readStartTag lower kept t =
     (let P = (\<lambda>c. \<not> isSpace c \<and> c \<noteq> 47 \<and> c \<noteq> 62); name = lower (takeWhile P t)
      in map_option (\<lambda>(attributes, closing, rest). (\<lparr>st_name = name, st_attributes = attributes, st_selfClosing = closing\<rparr>, rest))
           (read_attributes lower (name \<in> kept) [] (dropWhile P t)))"

lemma readStartTag_length: "readStartTag lower kept t = Some (tag, rest) \<Longrightarrow> length rest < length t"
  using length_dropWhile_le [of "\<lambda>c. \<not> isSpace c \<and> c \<noteq> 47 \<and> c \<noteq> 62" t]
  by (fastforce simp: readStartTag_def Let_def dest: read_attributes_length)

section \<open>Markup\<close>

text \<open>A piece of markup with the text after it.\<close>

datatype markup =
    MarkupStart start_tag units
  | MarkupEnd units units
  | MarkupOther units
  | MarkupEof

text \<open>The markup that begins after a \<open><\<close>, if any does: \<open>None\<close> is text.\<close>

definition comment_end :: "units \<Rightarrow> markup" where
  "comment_end t =
     (if prefix (lit ''>'') t then MarkupOther (drop 1 t)
      else if prefix (lit ''->'') t then MarkupOther (drop 2 t)
      else case after_marker (lit ''-->'') t of None \<Rightarrow> MarkupEof | Some rest \<Rightarrow> MarkupOther rest)"

definition markup_at :: "(units \<Rightarrow> units) \<Rightarrow> units set \<Rightarrow> units \<Rightarrow> markup option" where
  "markup_at lower kept t =
     (case t of
        [] \<Rightarrow> None
      | c # remains \<Rightarrow>
          if c = 33 \<and> prefix (lit ''--'') remains then Some (comment_end (drop 2 remains))
          else if c = 33 \<or> c = 63 \<or> c = 47 then Some
            (case split_at 62 remains of
               None \<Rightarrow> MarkupEof
             | Some (inner, rest) \<Rightarrow>
                 if c \<noteq> 47 then MarkupOther rest else MarkupEnd (lower (takeWhile (\<lambda>d. \<not> isSpace d \<and> d \<noteq> 47) inner)) rest)
          else if \<not> isLetter c then None
          else Some (case readStartTag lower kept t of None \<Rightarrow> MarkupEof | Some (tag, rest) \<Rightarrow> MarkupStart tag rest))"

text \<open>The text before the next piece of markup, and that piece.\<close>

function nextMarkup :: "(units \<Rightarrow> units) \<Rightarrow> units set \<Rightarrow> units \<Rightarrow> units \<times> markup" where
  "nextMarkup lower kept t =
     (case split_at 60 t of
        None \<Rightarrow> (t, MarkupEof)
      | Some (skipped, rest) \<Rightarrow>
          (case markup_at lower kept rest of
             Some token \<Rightarrow> (skipped, token)
           | None \<Rightarrow> map_prod (\<lambda>remains. skipped @ 60 # remains) id (nextMarkup lower kept rest)))"
  by pat_completeness auto
termination
  by (relation "measure (\<lambda>(lower, kept, t). length t)") (auto dest: split_at_length)

declare nextMarkup.simps [simp del]

fun markup_rest :: "markup \<Rightarrow> units option" where
  "markup_rest (MarkupStart tag rest) = Some rest"
| "markup_rest (MarkupEnd name rest) = Some rest"
| "markup_rest (MarkupOther rest) = Some rest"
| "markup_rest MarkupEof = None"

lemma markup_at_length: "markup_at lower kept t = Some token \<Longrightarrow> markup_rest token = Some rest \<Longrightarrow> length rest \<le> length t"
  by (auto simp: markup_at_def comment_end_def split: list.splits if_splits option.splits
      dest!: split_at_length readStartTag_length after_marker_length)

lemma nextMarkup_length: "nextMarkup lower kept t = (skipped, token) \<Longrightarrow> markup_rest token = Some rest \<Longrightarrow> length rest < length t"
proof (induction lower kept t arbitrary: skipped rule: nextMarkup.induct)
  case (1 lower kept t)
  show ?case
  proof (cases "split_at 60 t")
    case None
    then show ?thesis using 1(2,3) by (auto simp: nextMarkup.simps [of lower kept t])
  next
    case (Some p)
    then obtain l r where p: "split_at 60 t = Some (l, r)" by (cases p) simp
    have len: "length r < length t" by (rule split_at_length [OF p])
    show ?thesis
    proof (cases "markup_at lower kept r")
      case None
      obtain l' token' where n: "nextMarkup lower kept r = (l', token')" by force
      then have "token' = token"
        using 1(2) p None by (simp add: nextMarkup.simps [of lower kept t])
      then show ?thesis
        using 1(1) [OF p refl None] n 1(3) len by fastforce
    next
      case (Some m)
      then show ?thesis
        using 1(2,3) p markup_at_length [of lower kept r token rest] len by (simp add: nextMarkup.simps [of lower kept t])
    qed
  qed
qed

section \<open>Elements of text\<close>

definition RAW_TEXT_ELEMENTS :: "units list" where
  "RAW_TEXT_ELEMENTS = map lit [''script'', ''style'', ''textarea'', ''xmp'', ''iframe'', ''noembed'', ''noframes'']"

definition isRawTextElement :: "units \<Rightarrow> bool" where
  "isRawTextElement name \<longleftrightarrow> name \<in> set RAW_TEXT_ELEMENTS"

text \<open>\<open></name(?=[\s/>])\<close> without regard to the case of ASCII letters; what is left begins with the closing tag.\<close>

definition closes :: "units \<Rightarrow> units \<Rightarrow> bool" where
  "closes name t \<longleftrightarrow>
     (let m = lit ''</'' @ name
      in map ascii_lower (take (length m) t) = m \<and>
         (case drop (length m) t of [] \<Rightarrow> False | c # _ \<Rightarrow> unit_space c \<or> c = 47 \<or> c = 62))"

fun find_closing :: "units \<Rightarrow> units \<Rightarrow> units option" where
  "find_closing name [] = None"
| "find_closing name (c # rest) = (if closes name (c # rest) then Some (c # rest) else find_closing name rest)"

definition rawTextEnd :: "units \<Rightarrow> units \<Rightarrow> units option" where
  "rawTextEnd name t = (if isRawTextElement name \<or> name = lit ''title'' then find_closing name t else None)"

lemma rawTextEnd_length: "rawTextEnd name t = Some rest \<Longrightarrow> length rest \<le> length t"
proof -
  have "find_closing name t = Some rest \<Longrightarrow> length rest \<le> length t"
    by (induction t) (auto split: if_splits)
  then show "rawTextEnd name t = Some rest \<Longrightarrow> ?thesis"
    by (simp add: rawTextEnd_def split: if_splits)
qed

end
