(* ===== verification/Netscape.thy ===== *)
theory Netscape
  imports Markup
begin

text \<open>
  The bookmark files of browsers: the reader (\<open>packages/core/src/import/netscape.ts\<close>) and the writer
  (\<open>packages/core/src/export/netscape.ts\<close>). The codecs of UTF-8 are parameters.
\<close>

section \<open>Reading\<close>

text \<open>A bookmark of an import file (\<open>packages/contracts/src/operations/import.ts\<close>).\<close>

record import_bookmark =
  ib_url :: units
  ib_title :: "units option"
  ib_description :: "units option"
  ib_slug :: "units option"
  ib_forwarding :: "bool option"
  ib_pinned :: "bool option"
  ib_folders :: "units list option"
  ib_tags :: "units list option"

definition IMPORT_MAX_BOOKMARKS :: nat where
  "IMPORT_MAX_BOOKMARKS = 5000"

definition MAX_FOLDER_DEPTH :: nat where
  "MAX_FOLDER_DEPTH = 128"

definition TEXT_MAX_LENGTH :: nat where
  "TEXT_MAX_LENGTH = 4096"

definition MAX_TAGS_PER_BOOKMARK :: nat where
  "MAX_TAGS_PER_BOOKMARK = 1000"

definition netscape_kept :: "units set" where
  "netscape_kept = {lit ''a'', lit ''h3''}"

definition ENTRY_TAGS :: "units list" where
  "ENTRY_TAGS = map lit [''a'', ''dt'', ''dd'', ''dl'', ''h1'', ''h2'', ''h3'', ''hr'', ''p'']"

datatype collecting =
    CollectLink units "units option" "units list" units
  | CollectFolder units

definition tidy :: "units \<Rightarrow> units" where
  "tidy t = trim (collapse t)"

definition plain :: "units \<Rightarrow> units" where
  "plain t = tidy (decodeCharacterReferences t)"

text \<open>\<open>split\<close> at a unit.\<close>

fun units_split :: "nat \<Rightarrow> units \<Rightarrow> units list" where
  "units_split c [] = [[]]"
| "units_split c (d # rest) = (if d = c then [] # units_split c rest else (d # hd (units_split c rest)) # tl (units_split c rest))"

definition tagsOf :: "units option \<Rightarrow> units list" where
  "tagsOf attribute =
     (case attribute of
        None \<Rightarrow> []
      | Some a \<Rightarrow> filter (\<lambda>t. t \<noteq> []) (map tidy (take MAX_TAGS_PER_BOOKMARK (units_split 44 (decodeCharacterReferences a)))))"

record walk_state =
  wk_bookmarks :: "import_bookmark list"
  wk_folders :: "units option list"
  wk_overflow :: nat
  wk_links :: nat
  wk_named :: "units option"
  wk_collecting :: "collecting option"

definition walk_begin :: walk_state where
  "walk_begin = \<lparr>wk_bookmarks = [], wk_folders = [], wk_overflow = 0, wk_links = 0, wk_named = None, wk_collecting = None\<rparr>"

definition folderHere :: "walk_state \<Rightarrow> units option" where
  "folderHere s = (if wk_folders s = [] then None else last (wk_folders s))"

definition link_read :: "units \<Rightarrow> units option \<Rightarrow> units list \<Rightarrow> units \<Rightarrow> import_bookmark" where
  "link_read href folder tags title =
     \<lparr>ib_url = href, ib_title = Some title, ib_description = None, ib_slug = None, ib_forwarding = None, ib_pinned = None,
      ib_folders = Some (case folder of None \<Rightarrow> [] | Some f \<Rightarrow> [f]), ib_tags = Some tags\<rparr>"

definition finish :: "walk_state \<Rightarrow> walk_state" where
  "finish s =
     (case wk_collecting s of
        None \<Rightarrow> s
      | Some (CollectLink href folder tags t) \<Rightarrow>
          s\<lparr>wk_bookmarks := wk_bookmarks s @ [link_read href folder tags (plain t)], wk_collecting := None\<rparr>
      | Some (CollectFolder t) \<Rightarrow> s\<lparr>wk_named := (if plain t = [] then None else Some (plain t)), wk_collecting := None\<rparr>)"

text \<open>The text before a piece of markup, while the text of an entry is read.\<close>

definition more_text :: "units \<Rightarrow> units \<Rightarrow> units" where
  "more_text skipped t = (if length t < TEXT_MAX_LENGTH then t @ take TEXT_MAX_LENGTH skipped else t)"

definition collect_text :: "units \<Rightarrow> walk_state \<Rightarrow> walk_state" where
  "collect_text skipped s =
     (case wk_collecting s of
        None \<Rightarrow> s
      | Some (CollectLink href folder tags t) \<Rightarrow> s\<lparr>wk_collecting := Some (CollectLink href folder tags (more_text skipped t))\<rparr>
      | Some (CollectFolder t) \<Rightarrow> s\<lparr>wk_collecting := Some (CollectFolder (more_text skipped t))\<rparr>)"

definition is_link :: "collecting option \<Rightarrow> bool" where
  "is_link c = (case c of Some (CollectLink _ _ _ _) \<Rightarrow> True | _ \<Rightarrow> False)"

definition is_folder :: "collecting option \<Rightarrow> bool" where
  "is_folder c = (case c of Some (CollectFolder _) \<Rightarrow> True | _ \<Rightarrow> False)"

definition walk_end :: "units \<Rightarrow> walk_state \<Rightarrow> walk_state" where
  "walk_end name s =
     (if name = lit ''a'' \<and> is_link (wk_collecting s) \<or> name = lit ''h3'' \<and> is_folder (wk_collecting s) then finish s
      else if name = lit ''dl'' then
        (let s' = (finish s)\<lparr>wk_named := None\<rparr>
         in if wk_overflow s' > 0 then s'\<lparr>wk_overflow := wk_overflow s' - 1\<rparr> else s'\<lparr>wk_folders := butlast (wk_folders s')\<rparr>)
      else s)"

text \<open>A start tag, or nothing when the file has too many links.\<close>

definition walk_entry :: "start_tag \<Rightarrow> walk_state \<Rightarrow> walk_state option" where
  "walk_entry tag before =
     (let s = finish before; name = st_name tag
      in if name = lit ''h3'' then Some (s\<lparr>wk_collecting := Some (CollectFolder [])\<rparr>)
         else if name = lit ''dl'' then
           (let named = (case wk_named s of None \<Rightarrow> folderHere s | Some n \<Rightarrow> Some n); s' = s\<lparr>wk_named := None\<rparr>
            in Some (if length (wk_folders s') < MAX_FOLDER_DEPTH then s'\<lparr>wk_folders := wk_folders s' @ [named]\<rparr>
                     else s'\<lparr>wk_overflow := wk_overflow s' + 1\<rparr>))
         else if name = lit ''a'' then
           (case map_of (st_attributes tag) (lit ''href'') of
              None \<Rightarrow> Some s
            | Some href \<Rightarrow>
                if wk_links s + 1 > IMPORT_MAX_BOOKMARKS then None
                else Some (s\<lparr>wk_links := wk_links s + 1,
                  wk_collecting := Some (CollectLink (decodeCharacterReferences href) (folderHere s)
                    (tagsOf (map_of (st_attributes tag) (lit ''tags''))) [])\<rparr>))
         else Some s)"

lemma nextMarkup_shorter:
  "nextMarkup lower kept t = (skipped, MarkupStart tag rest) \<Longrightarrow> length rest < length t"
  "nextMarkup lower kept t = (skipped, MarkupEnd name rest) \<Longrightarrow> length rest < length t"
  "nextMarkup lower kept t = (skipped, MarkupOther rest) \<Longrightarrow> length rest < length t"
  by (auto dest: nextMarkup_length)

text \<open>The walk from a state and the rest of the file: the bookmarks, or nothing for too many.\<close>

function netscape_walk :: "(units \<Rightarrow> units) \<Rightarrow> walk_state \<Rightarrow> units \<Rightarrow> import_bookmark list option" where
  "netscape_walk lower s t =
     (case nextMarkup lower netscape_kept t of (skipped, token) \<Rightarrow>
        (let s' = collect_text skipped s
         in case token of
              MarkupEof \<Rightarrow> Some (wk_bookmarks (finish s'))
            | MarkupOther rest \<Rightarrow> netscape_walk lower s' rest
            | MarkupEnd name rest \<Rightarrow> netscape_walk lower (walk_end name s') rest
            | MarkupStart tag rest \<Rightarrow>
                if isRawTextElement (st_name tag) \<or> st_name tag = lit ''title'' then
                  (case rawTextEnd (st_name tag) rest of
                     None \<Rightarrow> Some (wk_bookmarks (finish s'))
                   | Some closing \<Rightarrow> netscape_walk lower s' closing)
                else if st_name tag \<notin> set ENTRY_TAGS then netscape_walk lower s' rest
                else (case walk_entry tag s' of
                        None \<Rightarrow> None
                      | Some s'' \<Rightarrow> netscape_walk lower s'' rest)))"
  by pat_completeness auto
termination
  by (relation "measure (\<lambda>(lower, s, t). length t)") (auto dest!: nextMarkup_shorter [OF sym] rawTextEnd_length simp: Let_def)

declare netscape_walk.simps [simp del]

definition parseNetscapeBookmarks :: "(nat list \<Rightarrow> units) \<Rightarrow> (units \<Rightarrow> units) \<Rightarrow> nat list \<Rightarrow> import_bookmark list option" where
  "parseNetscapeBookmarks decode lower file = netscape_walk lower walk_begin (filter (\<lambda>c. c \<noteq> 0) (decode file))"

section \<open>Writing\<close>

record netscape_row =
  nr_id :: string
  nr_url :: units
  nr_title :: units
  nr_slug :: "units option"
  nr_tags :: "units list"

record netscape_section =
  ns_section_id :: string
  ns_name :: units

record shared_export_row =
  xs_id :: string
  xs_url :: units
  xs_title :: units
  xs_description :: "units option"
  xs_slug :: "units option"
  xs_ownerName :: "units option"

text \<open>The reads of the export, each in a transaction of its own: a page after an identifier, of at most so many rows.\<close>

record 's netscape_store =
  nx_sections :: "string \<Rightarrow> string option \<Rightarrow> nat \<Rightarrow> string list option \<Rightarrow> ('s, netscape_section list) tx"
  nx_folderBookmarks :: "string \<Rightarrow> string \<Rightarrow> string option \<Rightarrow> nat \<Rightarrow> string list option \<Rightarrow> ('s, netscape_row list) tx"
  nx_unfiledBookmarks :: "string \<Rightarrow> string option \<Rightarrow> nat \<Rightarrow> string list option \<Rightarrow> ('s, netscape_row list) tx"
  nx_shared :: "string \<Rightarrow> string option \<Rightarrow> nat \<Rightarrow> string list option \<Rightarrow> ('s, shared_export_row list) tx"

record export_ask =
  xa_accountId :: string
  xa_includeShared :: bool
  xa_only :: "string list option"

definition readsShared :: "export_ask \<Rightarrow> bool" where
  "readsShared ask \<longleftrightarrow> xa_includeShared ask \<or> xa_only ask \<noteq> None"

definition EXPORT_PAGE_SIZE :: nat where
  "EXPORT_PAGE_SIZE = 500"

definition escape_unit :: "nat \<Rightarrow> units" where
  "escape_unit c =
     (if c = 38 then lit ''&amp;'' else if c = 60 then lit ''&lt;'' else if c = 62 then lit ''&gt;''
      else if c = 34 then lit ''&quot;'' else if c = 39 then lit ''&#39;'' else [c])"

definition escapeHtml :: "units \<Rightarrow> units" where
  "escapeHtml t = concat (map escape_unit t)"

definition NETSCAPE_HEAD :: units where
  "NETSCAPE_HEAD =
     lit ''<!DOCTYPE NETSCAPE-Bookmark-file-1>'' @ [10] @
     lit ''<META HTTP-EQUIV=\"Content-Type\" CONTENT=\"text/html; charset=UTF-8\">'' @ [10] @
     lit ''<TITLE>Bookmarks</TITLE>'' @ [10] @
     lit ''<H1>Bookmarks</H1>'' @ [10] @
     lit ''<DL><p>'' @ [10]"

fun units_join :: "nat \<Rightarrow> units list \<Rightarrow> units" where
  "units_join c [] = []"
| "units_join c [t] = t"
| "units_join c (t # rest) = t @ c # units_join c rest"

definition netscape_link :: "units \<Rightarrow> units option \<Rightarrow> units list \<Rightarrow> units \<Rightarrow> units \<Rightarrow> units" where
  "netscape_link url slug tags title indent =
     indent @ lit ''<DT><A HREF=\"'' @ escapeHtml url @ lit ''\"'' @
     (case slug of None \<Rightarrow> [] | Some s \<Rightarrow> lit '' SHORTCUTURL=\"'' @ escapeHtml s @ lit ''\"'') @
     (if tags = [] then [] else lit '' TAGS=\"'' @ escapeHtml (units_join 44 tags) @ lit ''\"'') @
     lit ''>'' @ escapeHtml title @ lit ''</A>'' @ [10]"

definition row_link :: "units \<Rightarrow> netscape_row \<Rightarrow> units" where
  "row_link indent r = netscape_link (nr_url r) (nr_slug r) (nr_tags r) (nr_title r) indent"

definition shared_link :: "units \<Rightarrow> shared_export_row \<Rightarrow> units" where
  "shared_link indent r = netscape_link (xs_url r) (xs_slug r) [] (xs_title r) indent"

text \<open>
  A loop over pages of \<open>page_size\<close> rows: what \<open>act\<close> makes of each page, until a page is not full; \<open>fuel\<close> bounds the pages, and a full page
  that is the last one allowed is an error of the model.
\<close>

definition empty_pages :: js_error where
  "empty_pages = RangeError ''more pages than the bound of the model''"

fun page_loop ::
    "nat \<Rightarrow> nat \<Rightarrow> ('r \<Rightarrow> 'p) \<Rightarrow> ('p option \<Rightarrow> nat \<Rightarrow> ('s, 'r list) tx) \<Rightarrow> ('r list \<Rightarrow> ('s, 'w list) tx) \<Rightarrow> 'p option \<Rightarrow> ('s, 'w list) tx" where
  "page_loop 0 page_size key fetch act after = tx_throw empty_pages"
| "page_loop (Suc fuel) page_size key fetch act after =
     tx_bind (fetch after page_size) (\<lambda>rows.
     tx_bind (act rows) (\<lambda>written.
       if length rows < page_size then tx_return written
       else tx_bind (page_loop fuel page_size key fetch act (if rows = [] then after else Some (key (last rows)))) (\<lambda>rest.
            tx_return (written @ rest))))"

definition written_rows :: "('r \<Rightarrow> units) \<Rightarrow> 'r list \<Rightarrow> ('s, units list) tx" where
  "written_rows print rows = tx_return (if rows = [] then [] else [concat (map print rows)])"

definition section_pieces :: "nat \<Rightarrow> nat \<Rightarrow> 's netscape_store \<Rightarrow> string \<Rightarrow> string list option \<Rightarrow> netscape_section \<Rightarrow> ('s, units list) tx" where
  "section_pieces fuel page_size store owner only folder =
     tx_bind (page_loop fuel page_size nr_id (\<lambda>after n. nx_folderBookmarks store owner (ns_section_id folder) after n only)
         (written_rows (row_link (lit ''        ''))) None) (\<lambda>links.
       tx_return ([lit ''    <DT><H3>'' @ escapeHtml (ns_name folder) @ lit ''</H3>'' @ [10] @ lit ''    <DL><p>'' @ [10]] @ links @
         [lit ''    </DL><p>'' @ [10]]))"

fun each_piece :: "('r \<Rightarrow> ('s, units list) tx) \<Rightarrow> 'r list \<Rightarrow> ('s, units list) tx" where
  "each_piece f [] = tx_return []"
| "each_piece f (r # rest) = tx_bind (f r) (\<lambda>x. tx_bind (each_piece f rest) (\<lambda>xs. tx_return (x @ xs)))"

text \<open>The pieces of the file; a read that fails ends the stream with an error.\<close>

definition netscape_pieces :: "nat \<Rightarrow> nat \<Rightarrow> 's netscape_store \<Rightarrow> export_ask \<Rightarrow> ('s, units list) tx" where
  "netscape_pieces fuel page_size store ask =
     (let owner = js_lower (xa_accountId ask); only = xa_only ask
      in tx_bind (page_loop fuel page_size nr_id (\<lambda>after n. nx_unfiledBookmarks store owner after n only) (written_rows (row_link (lit ''    ''))) None) (\<lambda>unfiled.
         tx_bind (if readsShared ask then
             page_loop fuel page_size xs_id (\<lambda>after n. nx_shared store owner after n only) (written_rows (shared_link (lit ''    ''))) None
           else tx_return []) (\<lambda>shared.
         tx_bind (page_loop fuel page_size ns_section_id (\<lambda>after n. nx_sections store owner after n only)
             (each_piece (section_pieces fuel page_size store owner only)) None) (\<lambda>sections.
           tx_return ([NETSCAPE_HEAD] @ unfiled @ shared @ sections @ [lit ''</DL><p>'' @ [10]])))))"

text \<open>The bytes of the stream.\<close>

definition exportNetscapeStream :: "(units \<Rightarrow> nat list) \<Rightarrow> nat \<Rightarrow> nat \<Rightarrow> 's netscape_store \<Rightarrow> export_ask \<Rightarrow> ('s, nat list) tx" where
  "exportNetscapeStream encode fuel page_size store ask =
     tx_bind (netscape_pieces fuel page_size store ask) (\<lambda>pieces. tx_return (concat (map encode pieces)))"

end
