(* ===== verification/NetscapeLaws.thy ===== *)
theory NetscapeLaws
  imports Netscape
begin

text \<open>
  What the reader of bookmark files makes of a file the writer has written: each piece of the file is read as the step of the walk it
  stands for, whatever the texts in it, since an escaped text holds no markup.
\<close>

text \<open>\<open>toLowerCase\<close> on ASCII.\<close>

definition lower_ok :: "(units \<Rightarrow> units) \<Rightarrow> bool" where
  "lower_ok lower \<longleftrightarrow> (\<forall>t. (\<forall>c \<in> set t. c < 128) \<longrightarrow> lower t = map ascii_lower t)"

lemma lit_simps [simp]: "lit [] = []" "lit (c # s) = of_char c # lit s"
  by (simp_all add: lit_def)

section \<open>Escaping\<close>

lemma escapeHtml_simps [simp]: "escapeHtml [] = []" "escapeHtml (c # t) = escape_unit c @ escapeHtml t"
  by (simp_all add: escapeHtml_def)

lemma escape_unit_plain: "x \<in> {60, 62, 34, 39} \<Longrightarrow> x \<notin> set (escape_unit c)"
  by (auto simp: escape_unit_def)

lemma escapeHtml_plain [simp]:
  "60 \<notin> set (escapeHtml t)" "62 \<notin> set (escapeHtml t)" "34 \<notin> set (escapeHtml t)"
  using escape_unit_plain [of 60] escape_unit_plain [of 62] escape_unit_plain [of 34] by (auto simp: escapeHtml_def)

lemma escapeHtml_zero: "0 \<notin> set t \<Longrightarrow> 0 \<notin> set (escapeHtml t)"
  by (auto simp: escapeHtml_def escape_unit_def)

text \<open>A reference of the writer is read back.\<close>

lemma escaped_references:
  "reference_at (97 # 109 # 112 # 59 # t) = Some ([38], t)"
  "reference_at (108 # 116 # 59 # t) = Some ([60], t)"
  "reference_at (103 # 116 # 59 # t) = Some ([62], t)"
  "reference_at (113 # 117 # 111 # 116 # 59 # t) = Some ([34], t)"
  "reference_at (35 # 51 # 57 # 59 # t) = Some ([39], t)"
  by (simp_all add: reference_at_def named_reference_def numeric_reference_def Let_def isLetter_def unit_digit_def NAMED_ENTITIES_def
      referenced_def from_code_point_def number_of_def digit_of_def)

lemma decode_escape [simp]: "decodeCharacterReferences (escapeHtml t) = t"
  by (induction t) (simp_all add: escape_unit_def escaped_references)

section \<open>Tags\<close>

lemma split_at_skip: "c \<notin> set t \<Longrightarrow> split_at c (t @ rest) = map_option (\<lambda>(l, r). (t @ l, r)) (split_at c rest)"
  by (induction t) (auto simp: option.map_comp o_def case_prod_unfold option.map_ident intro!: option.map_cong)

lemma nextMarkup_skip: "60 \<notin> set t \<Longrightarrow> nextMarkup lower kept (t @ rest) = map_prod ((@) t) id (nextMarkup lower kept rest)"
  by (subst (1 2) nextMarkup.simps)
    (auto simp: split_at_skip prod.map_comp o_def id_def split: option.split)

lemma nextMarkup_at: "markup_at lower kept rest = Some token \<Longrightarrow> nextMarkup lower kept (60 # rest) = ([], token)"
  by (simp add: nextMarkup.simps [of lower kept "60 # rest"])

lemma nextMarkup_after: "60 \<notin> set t \<Longrightarrow> markup_at lower kept rest = Some token \<Longrightarrow> nextMarkup lower kept (t @ 60 # rest) = (t, token)"
  by (simp add: nextMarkup_skip nextMarkup_at)

lemma read_quoted:
  assumes "lower_ok lower" "\<forall>c \<in> set name. c < 128 \<and> \<not> isSpace c \<and> c \<notin> {47, 61, 62}" "name \<noteq> []" "34 \<notin> set v"
  shows "read_attributes lower collect attributes (32 # name @ 61 # 34 # v @ 34 # rest) =
    read_attributes lower collect (add_attribute collect (map ascii_lower name) v attributes) rest"
proof -
  obtain c cs where name: "name = c # cs"
    using assms(3) by (cases name) auto
  let ?P = "\<lambda>d. \<not> (isSpace d \<or> d = 47 \<or> d = 62 \<or> d = 61)"
  have "takeWhile ?P (cs @ 61 # 34 # v @ 34 # rest) = cs" "dropWhile ?P (cs @ 61 # 34 # v @ 34 # rest) = 61 # 34 # v @ 34 # rest"
    using assms(2) name by (simp_all add: takeWhile_append dropWhile_append)
  moreover have "attribute_value (61 # 34 # v @ 34 # rest) = Some (v, rest)"
    using assms(4) by (simp add: attribute_value_def isSpace_def split_at_append)
  moreover have "lower name = map ascii_lower name"
    using assms(1,2) by (simp add: lower_ok_def)
  ultimately show ?thesis
    using assms(2) unfolding name by (subst read_attributes.simps) (simp add: Let_def isSpace_def)
qed

lemma read_closed: "read_attributes lower collect attributes (62 # rest) = Some (attributes, False, rest)"
  by (simp add: read_attributes.simps [of lower collect attributes "62 # rest"] isSpace_def)

lemma start_tag_at:
  assumes "lower_ok lower" "\<forall>c \<in> set name. c < 128 \<and> \<not> isSpace c \<and> c \<noteq> 47 \<and> c \<noteq> 62" "isLetter (hd name)" "name \<noteq> []"
    and "d = 32 \<or> d = 62"
    and "read_attributes lower (map ascii_lower name \<in> kept) [] (d # rest) = Some (a, False, left)"
  shows "markup_at lower kept (name @ d # rest) = Some (MarkupStart \<lparr>st_name = map ascii_lower name, st_attributes = a, st_selfClosing = False\<rparr> left)"
proof -
  let ?P = "\<lambda>c. \<not> isSpace c \<and> c \<noteq> 47 \<and> c \<noteq> 62"
  have "takeWhile ?P (name @ d # rest) = name" "dropWhile ?P (name @ d # rest) = d # rest"
    using assms(2,5) by (auto simp: takeWhile_append dropWhile_append isSpace_def)
  moreover have "lower name = map ascii_lower name"
    using assms(1,2) by (simp add: lower_ok_def)
  ultimately have "readStartTag lower kept (name @ d # rest) = Some (\<lparr>st_name = map ascii_lower name, st_attributes = a, st_selfClosing = False\<rparr>, left)"
    using assms(6) by (simp add: readStartTag_def Let_def)
  moreover obtain c cs where "name = c # cs"
    using assms(4) by (cases name) auto
  ultimately show ?thesis
    using assms(3) by (auto simp: markup_at_def isLetter_def)
qed

lemma bare_tag_at:
  assumes "lower_ok lower" "\<forall>c \<in> set name. c < 128 \<and> \<not> isSpace c \<and> c \<noteq> 47 \<and> c \<noteq> 62" "isLetter (hd name)" "name \<noteq> []"
  shows "markup_at lower kept (name @ 62 # rest) = Some (MarkupStart \<lparr>st_name = map ascii_lower name, st_attributes = [], st_selfClosing = False\<rparr> rest)"
  by (rule start_tag_at [OF assms]) (simp_all add: read_closed)

lemma end_tag_at:
  assumes "lower_ok lower" "\<forall>c \<in> set name. c < 128 \<and> \<not> isSpace c \<and> c \<noteq> 47 \<and> c \<noteq> 62"
  shows "markup_at lower kept (47 # name @ 62 # rest) = Some (MarkupEnd (map ascii_lower name) rest)"
proof -
  have "split_at 62 (name @ 62 # rest) = Some (name, rest)"
    by (rule split_at_append) (use assms(2) in auto)
  moreover have "takeWhile (\<lambda>d. \<not> isSpace d \<and> d \<noteq> 47) name = name"
    using assms(2) by (intro takeWhile_eq_all_conv [THEN iffD2]) blast
  moreover have "lower name = map ascii_lower name"
    using assms(1,2) by (simp add: lower_ok_def)
  ultimately show ?thesis
    by (simp add: markup_at_def del: takeWhile_eq_all_conv)
qed

section \<open>The steps of the walk\<close>

lemma collect_none [simp]: "wk_collecting s = None \<Longrightarrow> collect_text t s = s"
  by (simp add: collect_text_def)

lemma finish_none [simp]: "wk_collecting s = None \<Longrightarrow> finish s = s"
  by (simp add: finish_def)

lemma walk_skip:
  assumes "wk_collecting s = None" "60 \<notin> set t"
  shows "netscape_walk lower s (t @ rest) = netscape_walk lower s rest"
  using assms by (subst (1 2) netscape_walk.simps) (simp add: nextMarkup_skip case_prod_unfold Let_def)

lemma walk_start_tag:
  assumes "60 \<notin> set t" "markup_at lower netscape_kept rest = Some (MarkupStart tag left)" "st_name tag \<in> set ENTRY_TAGS"
  shows "netscape_walk lower s (t @ 60 # rest) =
    (case walk_entry tag (collect_text t s) of None \<Rightarrow> None | Some s' \<Rightarrow> netscape_walk lower s' left)"
proof -
  have "\<not> isRawTextElement (st_name tag)" "st_name tag \<noteq> lit ''title''"
    using assms(3) by (auto simp: ENTRY_TAGS_def isRawTextElement_def RAW_TEXT_ELEMENTS_def)
  then show ?thesis
    using assms by (subst netscape_walk.simps) (simp add: nextMarkup_after Let_def)
qed

lemma walk_end_tag:
  assumes "60 \<notin> set t" "markup_at lower netscape_kept rest = Some (MarkupEnd name left)"
  shows "netscape_walk lower s (t @ 60 # rest) = netscape_walk lower (walk_end name (collect_text t s)) left"
  using assms by (subst netscape_walk.simps) (simp add: nextMarkup_after Let_def)

text \<open>The tags of the writer, which are read alike everywhere.\<close>

lemma written_tags:
  assumes "lower_ok lower"
  shows "markup_at lower kept (68 # 84 # 62 # rest) = Some (MarkupStart \<lparr>st_name = lit ''dt'', st_attributes = [], st_selfClosing = False\<rparr> rest)"
    and "markup_at lower kept (68 # 76 # 62 # rest) = Some (MarkupStart \<lparr>st_name = lit ''dl'', st_attributes = [], st_selfClosing = False\<rparr> rest)"
    and "markup_at lower kept (72 # 51 # 62 # rest) = Some (MarkupStart \<lparr>st_name = lit ''h3'', st_attributes = [], st_selfClosing = False\<rparr> rest)"
    and "markup_at lower kept (72 # 49 # 62 # rest) = Some (MarkupStart \<lparr>st_name = lit ''h1'', st_attributes = [], st_selfClosing = False\<rparr> rest)"
    and "markup_at lower kept (112 # 62 # rest) = Some (MarkupStart \<lparr>st_name = lit ''p'', st_attributes = [], st_selfClosing = False\<rparr> rest)"
    and "markup_at lower kept (84 # 73 # 84 # 76 # 69 # 62 # rest) = Some (MarkupStart \<lparr>st_name = lit ''title'', st_attributes = [], st_selfClosing = False\<rparr> rest)"
    and "markup_at lower kept (47 # 65 # 62 # rest) = Some (MarkupEnd (lit ''a'') rest)"
    and "markup_at lower kept (47 # 72 # 51 # 62 # rest) = Some (MarkupEnd (lit ''h3'') rest)"
    and "markup_at lower kept (47 # 72 # 49 # 62 # rest) = Some (MarkupEnd (lit ''h1'') rest)"
    and "markup_at lower kept (47 # 68 # 76 # 62 # rest) = Some (MarkupEnd (lit ''dl'') rest)"
    and "markup_at lower kept (47 # 84 # 73 # 84 # 76 # 69 # 62 # rest) = Some (MarkupEnd (lit ''title'') rest)"
  using bare_tag_at [OF assms, of "lit ''DT''" kept rest] bare_tag_at [OF assms, of "lit ''DL''" kept rest]
    bare_tag_at [OF assms, of "lit ''H3''" kept rest] bare_tag_at [OF assms, of "lit ''H1''" kept rest]
    bare_tag_at [OF assms, of "lit ''p''" kept rest] bare_tag_at [OF assms, of "lit ''TITLE''" kept rest]
    end_tag_at [OF assms, of "lit ''A''" kept rest] end_tag_at [OF assms, of "lit ''H3''" kept rest]
    end_tag_at [OF assms, of "lit ''H1''" kept rest] end_tag_at [OF assms, of "lit ''DL''" kept rest]
    end_tag_at [OF assms, of "lit ''TITLE''" kept rest]
  by (simp_all add: isSpace_def isLetter_def ascii_lower_def)

text \<open>The attributes of a link.\<close>

definition link_attributes :: "units \<Rightarrow> units option \<Rightarrow> units list \<Rightarrow> (units \<times> units) list" where
  "link_attributes url slug tags =
     [(lit ''href'', escapeHtml url)] @
     (case slug of None \<Rightarrow> [] | Some s \<Rightarrow> [(lit ''shortcuturl'', escapeHtml s)]) @
     (if tags = [] then [] else [(lit ''tags'', escapeHtml (units_join 44 tags))])"

lemma link_tag_at:
  assumes "lower_ok lower"
  shows "markup_at lower netscape_kept
      (65 # lit '' HREF=\"'' @ escapeHtml url @ 34 #
        (case slug of None \<Rightarrow> [] | Some s \<Rightarrow> lit '' SHORTCUTURL=\"'' @ escapeHtml s @ lit ''\"'') @
        (if tags = [] then [] else lit '' TAGS=\"'' @ escapeHtml (units_join 44 tags) @ lit ''\"'') @ 62 # rest) =
    Some (MarkupStart \<lparr>st_name = lit ''a'', st_attributes = link_attributes url slug tags, st_selfClosing = False\<rparr> rest)"
proof -
  note one = read_quoted [OF assms, of "lit ''HREF''"] read_quoted [OF assms, of "lit ''SHORTCUTURL''"] read_quoted [OF assms, of "lit ''TAGS''"]
  have "read_attributes lower True [] (lit '' HREF=\"'' @ escapeHtml url @ 34 #
        (case slug of None \<Rightarrow> [] | Some s \<Rightarrow> lit '' SHORTCUTURL=\"'' @ escapeHtml s @ lit ''\"'') @
        (if tags = [] then [] else lit '' TAGS=\"'' @ escapeHtml (units_join 44 tags) @ lit ''\"'') @ 62 # rest) =
      Some (link_attributes url slug tags, False, rest)"
    using one by (auto simp: isSpace_def ascii_lower_def add_attribute_def MAX_ATTRIBUTES_def link_attributes_def read_closed split: option.split)
  then show ?thesis
    using start_tag_at [OF assms, of "[65]" 32 netscape_kept] by (simp add: isSpace_def isLetter_def ascii_lower_def netscape_kept_def)
qed

section \<open>Links\<close>

lemma link_attributes_map [simp]:
  "map_of (link_attributes url slug tags) (lit ''href'') = Some (escapeHtml url)"
  "map_of (link_attributes url slug tags) (lit ''tags'') = (if tags = [] then None else Some (escapeHtml (units_join 44 tags)))"
  by (simp_all add: link_attributes_def split: option.split)

lemma units_split_nonempty [simp]: "units_split c t \<noteq> []"
  by (cases t) auto

lemma units_split_append: "units_split c (t @ c # u) = units_split c t @ units_split c u"
  by (induction t) (auto simp: hd_append tl_append split: list.split)

lemma units_split_join: "tags \<noteq> [] \<Longrightarrow> units_split c (units_join c tags) = concat (map (units_split c) tags)"
  by (induction c tags rule: units_join.induct) (auto simp: units_split_append)

text \<open>The tags a link is read with: a name that holds a comma is several.\<close>

definition read_tags :: "units list \<Rightarrow> units list" where
  "read_tags tags = filter (\<lambda>t. t \<noteq> []) (map tidy (take MAX_TAGS_PER_BOOKMARK (concat (map (units_split 44) tags))))"

lemma tagsOf_link: "tagsOf (if tags = [] then None else Some (escapeHtml (units_join 44 tags))) = read_tags tags"
  by (simp add: tagsOf_def read_tags_def units_split_join)

definition add_link :: "import_bookmark \<Rightarrow> walk_state \<Rightarrow> walk_state" where
  "add_link b s = s\<lparr>wk_bookmarks := wk_bookmarks s @ [b], wk_links := wk_links s + 1\<rparr>"

lemma plain_escape [simp]: "plain (escapeHtml t) = tidy t"
  by (simp add: plain_def)

lemma more_text_short [simp]: "length t \<le> TEXT_MAX_LENGTH \<Longrightarrow> more_text t [] = t"
  by (simp add: more_text_def TEXT_MAX_LENGTH_def)

lemma entry_link:
  assumes "wk_collecting s = None" "wk_links s < IMPORT_MAX_BOOKMARKS"
  shows "walk_entry \<lparr>st_name = lit ''a'', st_attributes = link_attributes url slug tags, st_selfClosing = False\<rparr> s =
    Some (s\<lparr>wk_links := wk_links s + 1, wk_collecting := Some (CollectLink url (folderHere s) (read_tags tags) [])\<rparr>)"
proof -
  have "lit ''a'' \<noteq> lit ''h3''" "lit ''a'' \<noteq> lit ''dl''"
    by simp_all
  then show ?thesis
    using assms by (simp add: walk_entry_def tagsOf_link del: lit_simps)
qed

lemma walk_link:
  assumes low: "lower_ok lower" and s: "wk_collecting s = None" "wk_links s < IMPORT_MAX_BOOKMARKS"
    and indent: "60 \<notin> set indent" and title: "length (escapeHtml title) \<le> TEXT_MAX_LENGTH"
  shows "netscape_walk lower s (netscape_link url slug tags title indent @ rest) =
    netscape_walk lower (add_link (link_read url (folderHere s) (read_tags tags) (tidy title)) s) rest"
proof -
  let ?attributes = "65 # lit '' HREF=\"'' @ escapeHtml url @ 34 #
        (case slug of None \<Rightarrow> [] | Some s \<Rightarrow> lit '' SHORTCUTURL=\"'' @ escapeHtml s @ lit ''\"'') @
        (if tags = [] then [] else lit '' TAGS=\"'' @ escapeHtml (units_join 44 tags) @ lit ''\"'')"
  let ?begun = "s\<lparr>wk_links := wk_links s + 1, wk_collecting := Some (CollectLink url (folderHere s) (read_tags tags) [])\<rparr>"
  let ?read = "add_link (link_read url (folderHere s) (read_tags tags) (tidy title)) s"
  let ?file = "indent @ 60 # 68 # 84 # 62 # 60 # ?attributes @ 62 # escapeHtml title @ 60 # 47 # 65 # 62 # 10 # rest"
  have same: "s\<lparr>wk_links := n, wk_bookmarks := bs, wk_collecting := None\<rparr> = s\<lparr>wk_bookmarks := bs, wk_links := n\<rparr>" for n bs
    using s(1) by (cases s) simp
  have written: "netscape_link url slug tags title indent @ rest = ?file"
    by (simp add: netscape_link_def)
  have "netscape_walk lower s ?file = netscape_walk lower s ([] @ 60 # ?attributes @ 62 # escapeHtml title @ 60 # 47 # 65 # 62 # 10 # rest)"
    using s by (subst walk_start_tag [OF indent written_tags(1) [OF low]]) (simp_all add: ENTRY_TAGS_def walk_entry_def)
  also have "\<dots> = netscape_walk lower ?begun (escapeHtml title @ 60 # 47 # 65 # 62 # 10 # rest)"
    using walk_start_tag [of "[]", OF _ link_tag_at [OF low, of url slug tags "escapeHtml title @ 60 # 47 # 65 # 62 # 10 # rest"], of s] s
    by (simp add: entry_link ENTRY_TAGS_def del: lit_simps)
  also have "\<dots> = netscape_walk lower ?read ([10] @ rest)"
    by (subst walk_end_tag [OF _ written_tags(7) [OF low]])
      (simp_all add: collect_text_def title walk_end_def is_link_def finish_def add_link_def same)
  also have "\<dots> = netscape_walk lower ?read rest"
    by (rule walk_skip) (simp_all add: add_link_def s(1))
  finally show ?thesis unfolding written .
qed

section \<open>The file\<close>

text \<open>What a file holds: links outside folders, and the sections of the folders.\<close>

record written_link =
  wl_url :: units
  wl_slug :: "units option"
  wl_tags :: "units list"
  wl_title :: units

definition print_link :: "units \<Rightarrow> written_link \<Rightarrow> units" where
  "print_link indent l = netscape_link (wl_url l) (wl_slug l) (wl_tags l) (wl_title l) indent"

definition print_section :: "units \<times> written_link list \<Rightarrow> units" where
  "print_section sec =
     lit ''    <DT><H3>'' @ escapeHtml (fst sec) @ lit ''</H3>'' @ [10] @ lit ''    <DL><p>'' @ [10] @
     concat (map (print_link (lit ''        '')) (snd sec)) @ lit ''    </DL><p>'' @ [10]"

definition print_file :: "written_link list \<Rightarrow> (units \<times> written_link list) list \<Rightarrow> units" where
  "print_file loose sections =
     NETSCAPE_HEAD @ concat (map (print_link (lit ''    '')) loose) @ concat (map print_section sections) @ lit ''</DL><p>'' @ [10]"

text \<open>What it is read as.\<close>

definition read_link :: "units option \<Rightarrow> written_link \<Rightarrow> import_bookmark" where
  "read_link folder l = link_read (wl_url l) folder (read_tags (wl_tags l)) (tidy (wl_title l))"

definition folder_named :: "units \<Rightarrow> units option" where
  "folder_named name = (if tidy name = [] then None else Some (tidy name))"

definition read_file :: "written_link list \<Rightarrow> (units \<times> written_link list) list \<Rightarrow> import_bookmark list" where
  "read_file loose sections = map (read_link None) loose @ concat (map (\<lambda>(name, links). map (read_link (folder_named name)) links) sections)"

definition short_text :: "units \<Rightarrow> bool" where
  "short_text t \<longleftrightarrow> length (escapeHtml t) \<le> TEXT_MAX_LENGTH"

definition add_links :: "import_bookmark list \<Rightarrow> walk_state \<Rightarrow> walk_state" where
  "add_links bs s = s\<lparr>wk_bookmarks := wk_bookmarks s @ bs, wk_links := wk_links s + length bs\<rparr>"

lemma add_links_simps [simp]:
  "add_links [] s = s"
  "add_links bs (add_link b s) = add_links (b # bs) s"
  "add_links bs (add_links cs s) = add_links (cs @ bs) s"
  "wk_collecting (add_links bs s) = wk_collecting s"
  "wk_collecting (add_link b s) = wk_collecting s"
  "wk_folders (add_links bs s) = wk_folders s"
  "wk_overflow (add_links bs s) = wk_overflow s"
  "wk_named (add_links bs s) = wk_named s"
  "wk_links (add_links bs s) = wk_links s + length bs"
  "wk_links (add_link b s) = wk_links s + 1"
  "wk_bookmarks (add_links bs s) = wk_bookmarks s @ bs"
  "folderHere (add_links bs s) = folderHere s"
  "folderHere (add_link b s) = folderHere s"
  by (simp_all add: add_links_def add_link_def folderHere_def)

lemma walk_links:
  assumes "lower_ok lower" "60 \<notin> set indent"
  shows "wk_collecting s = None \<Longrightarrow> wk_links s + length links \<le> IMPORT_MAX_BOOKMARKS \<Longrightarrow> \<forall>l \<in> set links. short_text (wl_title l) \<Longrightarrow>
    netscape_walk lower s (concat (map (print_link indent) links) @ rest) =
    netscape_walk lower (add_links (map (read_link (folderHere s)) links) s) rest"
proof (induction links arbitrary: s)
  case (Cons l links)
  have "netscape_walk lower s (print_link indent l @ concat (map (print_link indent) links) @ rest) =
      netscape_walk lower (add_link (read_link (folderHere s) l) s) (concat (map (print_link indent) links) @ rest)"
    using Cons.prems assms by (simp add: print_link_def read_link_def short_text_def walk_link)
  then show ?case
    using Cons.prems Cons.IH [of "add_link (read_link (folderHere s) l) s"] by simp
qed simp

text \<open>The tags of the writer as steps, where no entry is read.\<close>

lemma walk_written:
  assumes low: "lower_ok lower" and s: "wk_collecting s = None" and t: "60 \<notin> set t"
  shows "netscape_walk lower s (t @ 60 # 68 # 84 # 62 # rest) = netscape_walk lower s rest"
    and "netscape_walk lower s (t @ 60 # 112 # 62 # rest) = netscape_walk lower s rest"
    and "netscape_walk lower s (t @ 60 # 72 # 49 # 62 # rest) = netscape_walk lower s rest"
    and "netscape_walk lower s (t @ 60 # 47 # 72 # 49 # 62 # rest) = netscape_walk lower s rest"
    and "netscape_walk lower s (t @ 60 # 47 # 84 # 73 # 84 # 76 # 69 # 62 # rest) = netscape_walk lower s rest"
    and "netscape_walk lower s (t @ 60 # 72 # 51 # 62 # rest) = netscape_walk lower (s\<lparr>wk_collecting := Some (CollectFolder [])\<rparr>) rest"
    and "length (wk_folders s) < MAX_FOLDER_DEPTH \<Longrightarrow>
      netscape_walk lower s (t @ 60 # 68 # 76 # 62 # rest) =
      netscape_walk lower (s\<lparr>wk_named := None, wk_folders := wk_folders s @ [case wk_named s of None \<Rightarrow> folderHere s | Some n \<Rightarrow> Some n]\<rparr>) rest"
    and "wk_overflow s = 0 \<Longrightarrow>
      netscape_walk lower s (t @ 60 # 47 # 68 # 76 # 62 # rest) = netscape_walk lower (s\<lparr>wk_named := None, wk_folders := butlast (wk_folders s)\<rparr>) rest"
  using walk_start_tag [OF t written_tags(1) [OF low, of netscape_kept rest], of s] walk_start_tag [OF t written_tags(2) [OF low, of netscape_kept rest], of s]
    walk_start_tag [OF t written_tags(3) [OF low, of netscape_kept rest], of s] walk_start_tag [OF t written_tags(4) [OF low, of netscape_kept rest], of s]
    walk_start_tag [OF t written_tags(5) [OF low, of netscape_kept rest], of s]
    walk_end_tag [OF t written_tags(9) [OF low, of netscape_kept rest], of s] walk_end_tag [OF t written_tags(10) [OF low, of netscape_kept rest], of s]
    walk_end_tag [OF t written_tags(11) [OF low, of netscape_kept rest], of s] s
  by (simp_all add: ENTRY_TAGS_def walk_entry_def walk_end_def is_link_def is_folder_def Let_def)

lemma walk_folder_name:
  assumes low: "lower_ok lower" and name: "short_text name" and s: "wk_collecting s = None"
  shows "netscape_walk lower (s\<lparr>wk_collecting := Some (CollectFolder [])\<rparr>) (escapeHtml name @ 60 # 47 # 72 # 51 # 62 # rest) =
    netscape_walk lower (s\<lparr>wk_named := folder_named name\<rparr>) rest"
proof -
  have same: "s\<lparr>wk_named := n, wk_collecting := None\<rparr> = s\<lparr>wk_named := n\<rparr>" for n
    using s by (cases s) simp
  show ?thesis
    using walk_end_tag [OF _ written_tags(8) [OF low, of netscape_kept rest], of "escapeHtml name" "s\<lparr>wk_collecting := Some (CollectFolder [])\<rparr>"] name
    by (simp add: short_text_def collect_text_def walk_end_def is_link_def is_folder_def finish_def folder_named_def same more_text_def TEXT_MAX_LENGTH_def)
qed

lemma walk_section:
  assumes low: "lower_ok lower" and s: "wk_collecting s = None" "wk_overflow s = 0" "wk_named s = None" "wk_folders s = [None]"
    and links: "wk_links s + length links \<le> IMPORT_MAX_BOOKMARKS" "\<forall>l \<in> set links. short_text (wl_title l)" and name: "short_text name"
  shows "netscape_walk lower s (print_section (name, links) @ rest) =
    netscape_walk lower (add_links (map (read_link (folder_named name)) links) s) rest"
proof -
  let ?in = "s\<lparr>wk_folders := [None, folder_named name]\<rparr>"
  let ?file = "[32, 32, 32, 32] @ 60 # 68 # 84 # 62 # [] @ 60 # 72 # 51 # 62 # escapeHtml name @ 60 # 47 # 72 # 51 # 62 #
      [10, 32, 32, 32, 32] @ 60 # 68 # 76 # 62 # [] @ 60 # 112 # 62 # [10] @ concat (map (print_link (lit ''        '')) links) @
      [32, 32, 32, 32] @ 60 # 47 # 68 # 76 # 62 # [] @ 60 # 112 # 62 # [10] @ rest"
  have written: "print_section (name, links) @ rest = ?file"
    by (simp add: print_section_def)
  note go = walk_written [OF low]
  have named: "s\<lparr>wk_named := None, wk_folders := fs\<rparr> = s\<lparr>wk_folders := fs\<rparr>" for fs
    using s(3) by (cases s) simp
  have "netscape_walk lower s ?file =
      netscape_walk lower (s\<lparr>wk_named := folder_named name\<rparr>) ([10, 32, 32, 32, 32] @ 60 # 68 # 76 # 62 # [] @ 60 # 112 # 62 # [10] @
        concat (map (print_link (lit ''        '')) links) @ [32, 32, 32, 32] @ 60 # 47 # 68 # 76 # 62 # [] @ 60 # 112 # 62 # [10] @ rest)"
    using s by (subst go(1), simp, simp, subst go(6), simp, simp, subst walk_folder_name [OF low name]) simp_all
  also have "\<dots> = netscape_walk lower ?in ([] @ 60 # 112 # 62 # [10] @
        concat (map (print_link (lit ''        '')) links) @ [32, 32, 32, 32] @ 60 # 47 # 68 # 76 # 62 # [] @ 60 # 112 # 62 # [10] @ rest)"
    using s by (subst go(7)) (simp_all add: named MAX_FOLDER_DEPTH_def folderHere_def split: option.split)
  also have "\<dots> = netscape_walk lower ?in (concat (map (print_link (lit ''        '')) links) @
        [32, 32, 32, 32] @ 60 # 47 # 68 # 76 # 62 # [] @ 60 # 112 # 62 # [10] @ rest)"
    using s by (subst go(2), simp, simp, subst walk_skip) simp_all
  also have "\<dots> = netscape_walk lower (add_links (map (read_link (folder_named name)) links) ?in)
        ([32, 32, 32, 32] @ 60 # 47 # 68 # 76 # 62 # [] @ 60 # 112 # 62 # [10] @ rest)"
    using s links by (subst walk_links [OF low]) (simp_all add: folderHere_def)
  also have "\<dots> = netscape_walk lower (add_links (map (read_link (folder_named name)) links) s) ([] @ 60 # 112 # 62 # [10] @ rest)"
  proof -
    have closed: "(add_links bs ?in)\<lparr>wk_named := None, wk_folders := [None]\<rparr> = add_links bs s" for bs
      using s by (cases s) (simp add: add_links_def)
    show ?thesis using s by (subst go(8)) (simp_all add: closed)
  qed
  also have "\<dots> = netscape_walk lower (add_links (map (read_link (folder_named name)) links) s) rest"
    using s by (subst go(2), simp, simp, subst walk_skip) simp_all
  finally show ?thesis unfolding written .
qed

lemma walk_sections:
  assumes low: "lower_ok lower"
  shows "wk_collecting s = None \<Longrightarrow> wk_overflow s = 0 \<Longrightarrow> wk_named s = None \<Longrightarrow> wk_folders s = [None] \<Longrightarrow>
    wk_links s + length (concat (map snd sections)) \<le> IMPORT_MAX_BOOKMARKS \<Longrightarrow>
    \<forall>(name, links) \<in> set sections. short_text name \<and> (\<forall>l \<in> set links. short_text (wl_title l)) \<Longrightarrow>
    netscape_walk lower s (concat (map print_section sections) @ rest) =
    netscape_walk lower (add_links (concat (map (\<lambda>(name, links). map (read_link (folder_named name)) links) sections)) s) rest"
proof (induction sections arbitrary: s)
  case (Cons sec sections)
  obtain name links where sec: "sec = (name, links)" by force
  have "netscape_walk lower s (print_section (name, links) @ concat (map print_section sections) @ rest) =
      netscape_walk lower (add_links (map (read_link (folder_named name)) links) s) (concat (map print_section sections) @ rest)"
    using Cons.prems sec by (intro walk_section [OF low]) auto
  then show ?case
    using Cons.prems Cons.IH [of "add_links (map (read_link (folder_named name)) links) s"] sec by simp
qed simp

lemma skipped_markup:
  assumes "60 \<notin> set t" "markup_at lower netscape_kept rest = Some (MarkupOther left)" "wk_collecting s = None"
  shows "netscape_walk lower s (t @ 60 # rest) = netscape_walk lower s left"
  using assms by (subst netscape_walk.simps) (simp add: nextMarkup_after)

lemma walk_head:
  assumes low: "lower_ok lower"
  shows "netscape_walk lower walk_begin (NETSCAPE_HEAD @ rest) = netscape_walk lower (walk_begin\<lparr>wk_folders := [None]\<rparr>) rest"
proof -
  let ?dl = "[10] @ 60 # 68 # 76 # 62 # [] @ 60 # 112 # 62 # [10] @ rest"
  let ?h1 = "[10] @ 60 # 72 # 49 # 62 # lit ''Bookmarks'' @ 60 # 47 # 72 # 49 # 62 # ?dl"
  let ?title = "lit ''Bookmarks'' @ 60 # 47 # 84 # 73 # 84 # 76 # 69 # 62 # ?h1"
  let ?meta = "lit ''META'' @ 32 # lit ''HTTP-EQUIV'' @ 61 # 34 # lit ''Content-Type'' @ 34 # 32 # lit ''CONTENT'' @ 61 # 34 #
      lit ''text/html; charset=UTF-8'' @ 34 # 62 # [10] @ 60 # 84 # 73 # 84 # 76 # 69 # 62 # ?title"
  have written: "NETSCAPE_HEAD @ rest = [] @ 60 # lit ''!DOCTYPE NETSCAPE-Bookmark-file-1'' @ 62 # [10] @ 60 # ?meta"
    by (simp add: NETSCAPE_HEAD_def)
  have none: "wk_collecting walk_begin = None"
    by (simp add: walk_begin_def)
  have doctype: "markup_at lower netscape_kept (lit ''!DOCTYPE NETSCAPE-Bookmark-file-1'' @ 62 # left) = Some (MarkupOther left)" for left
    using split_at_append [of 62 "lit ''DOCTYPE NETSCAPE-Bookmark-file-1''" left] by (simp add: markup_at_def)
  have unkept: "read_attributes lower False [] (32 # name @ 61 # 34 # v @ 34 # left) = read_attributes lower False [] left"
    if "\<forall>c \<in> set name. c < 128 \<and> \<not> isSpace c \<and> c \<notin> {47, 61, 62}" "name \<noteq> []" "34 \<notin> set v" for name v left
    using read_quoted [OF low that] by (simp add: add_attribute_def)
  have "read_attributes lower False [] (32 # lit ''HTTP-EQUIV'' @ 61 # 34 # lit ''Content-Type'' @ 34 # 32 # lit ''CONTENT'' @ 61 # 34 #
      lit ''text/html; charset=UTF-8'' @ 34 # 62 # left) = Some ([], False, left)" for left
    by (subst unkept, simp add: isSpace_def, simp, simp, subst unkept, simp add: isSpace_def, simp, simp) (rule read_closed)
  then have "read_attributes lower (map ascii_lower (lit ''META'') \<in> netscape_kept) [] (32 # lit ''HTTP-EQUIV'' @ 61 # 34 # lit ''Content-Type'' @ 34 #
      32 # lit ''CONTENT'' @ 61 # 34 # lit ''text/html; charset=UTF-8'' @ 34 # 62 # left) = Some ([], False, left)" for left
    by (simp add: netscape_kept_def ascii_lower_def)
  then have meta: "markup_at lower netscape_kept (lit ''META'' @ 32 # lit ''HTTP-EQUIV'' @ 61 # 34 # lit ''Content-Type'' @ 34 # 32 # lit ''CONTENT'' @ 61 # 34 #
      lit ''text/html; charset=UTF-8'' @ 34 # 62 # left) =
      Some (MarkupStart \<lparr>st_name = map ascii_lower (lit ''META''), st_attributes = [], st_selfClosing = False\<rparr> left)" for left
    by (intro start_tag_at [OF low]) (simp_all add: isSpace_def isLetter_def)
  note tags = isRawTextElement_def RAW_TEXT_ELEMENTS_def ENTRY_TAGS_def
  have over_meta: "netscape_walk lower walk_begin ([10] @ 60 # ?meta) = netscape_walk lower walk_begin ([10] @ 60 # 84 # 73 # 84 # 76 # 69 # 62 # ?title)"
    by (subst netscape_walk.simps, subst nextMarkup_after [OF _ meta]) (simp_all add: none tags ascii_lower_def)
  have over_title: "netscape_walk lower walk_begin ([10] @ 60 # 84 # 73 # 84 # 76 # 69 # 62 # ?title) = netscape_walk lower walk_begin ?h1"
    using walk_written(5) [OF low none, of "[]" ?h1]
    by (subst netscape_walk.simps, subst nextMarkup_after [OF _ written_tags(6) [OF low]])
      (simp_all add: none tags rawTextEnd_def closes_def unit_space_def ascii_lower_def)
  have "netscape_walk lower walk_begin (NETSCAPE_HEAD @ rest) = netscape_walk lower walk_begin ?h1"
    unfolding written by (subst skipped_markup [OF _ doctype none], simp, unfold over_meta over_title, rule refl)
  also have "\<dots> = netscape_walk lower (walk_begin\<lparr>wk_folders := [None]\<rparr>) ([] @ 60 # 112 # 62 # [10] @ rest)"
    by (subst walk_written(3) [OF low none], simp, subst walk_written(4) [OF low none], simp, subst walk_written(7) [OF low none])
      (simp_all add: walk_begin_def folderHere_def MAX_FOLDER_DEPTH_def)
  also have "\<dots> = netscape_walk lower (walk_begin\<lparr>wk_folders := [None]\<rparr>) rest"
    by (subst walk_written(2) [OF low], simp add: none, simp, subst walk_skip) (simp_all add: none)
  finally show ?thesis .
qed

text \<open>A file is read as what was written in it, up to white space and the commas of tags.\<close>

definition file_ok :: "written_link list \<Rightarrow> (units \<times> written_link list) list \<Rightarrow> bool" where
  "file_ok loose sections \<longleftrightarrow>
     length loose + length (concat (map snd sections)) \<le> IMPORT_MAX_BOOKMARKS \<and>
     (\<forall>l \<in> set loose. short_text (wl_title l)) \<and>
     (\<forall>(name, links) \<in> set sections. short_text name \<and> (\<forall>l \<in> set links. short_text (wl_title l)))"

lemma walk_file:
  assumes low: "lower_ok lower" and ok: "file_ok loose sections"
  shows "netscape_walk lower walk_begin (print_file loose sections) = Some (read_file loose sections)"
proof -
  let ?s = "walk_begin\<lparr>wk_folders := [None]\<rparr>"
  let ?last = "lit ''</DL><p>'' @ [10]"
  let ?bs = "map (read_link None) loose @ concat (map (\<lambda>(name, links). map (read_link (folder_named name)) links) sections)"
  have s: "wk_collecting ?s = None" "wk_overflow ?s = 0" "wk_named ?s = None" "wk_folders ?s = [None]" "wk_links ?s = 0" "folderHere ?s = None"
    by (simp_all add: walk_begin_def folderHere_def)
  have "netscape_walk lower walk_begin (print_file loose sections) =
      netscape_walk lower ?s (concat (map (print_link (lit ''    '')) loose) @ concat (map print_section sections) @ ?last)"
    unfolding print_file_def by (rule walk_head [OF low])
  also have "\<dots> = netscape_walk lower (add_links (map (read_link None) loose) ?s) (concat (map print_section sections) @ ?last)"
    using ok s by (subst walk_links [OF low]) (simp_all add: file_ok_def)
  also have "\<dots> = netscape_walk lower (add_links ?bs ?s) ?last"
    using ok s by (subst walk_sections [OF low]) (simp_all add: file_ok_def)
  also have "\<dots> = netscape_walk lower ((add_links ?bs ?s)\<lparr>wk_named := None, wk_folders := []\<rparr>) ([] @ 60 # 112 # 62 # [10])"
    using walk_written(8) [OF low, of "add_links ?bs ?s" "[]" "60 # 112 # 62 # [10]"] s by simp
  also have "\<dots> = netscape_walk lower ((add_links ?bs ?s)\<lparr>wk_named := None, wk_folders := []\<rparr>) [10]"
    by (rule walk_written(2) [OF low]) (simp_all add: s)
  also have "\<dots> = Some ?bs"
    by (subst netscape_walk.simps, subst nextMarkup.simps) (simp add: walk_begin_def)
  finally show ?thesis by (simp add: read_file_def)
qed

end
