(* ===== verification/LibraryExport.thy ===== *)
theory LibraryExport
  imports LibraryBulk LibraryLaws NetscapeLaws Keyset
begin

text \<open>
  The reads of the export (\<open>packages/db/src/repositories/export.ts\<close>), its selection and its start (\<open>packages/core/src/export/selection.ts\<close>,
  \<open>export.ts\<close>). A page is a list of rows in the order of a key, after a key; the bytes of a text are compared as its characters.
\<close>

section \<open>The conditions\<close>

definition requireExportOwner :: "tenant_tx \<Rightarrow> string \<Rightarrow> ('s, string) tx" where
  "requireExportOwner tx ownerId =
     tx_bind (tx_require (js_lower ownerId = tx_accountId tx) (JsError ''the export is read for the account of the transaction only''))
       (\<lambda>_. tx_return (tx_accountId tx))"

definition requireLimit :: "nat \<Rightarrow> ('s, unit) tx" where
  "requireLimit limit = tx_require (1 \<le> limit) (JsError ''an export page takes a positive whole limit'')"

definition uuidArray :: "string list \<Rightarrow> ('s, string list) tx" where
  "uuidArray only =
     tx_bind (tx_require (list_all uuid_pattern only) (JsError ''an export selection takes identifiers only'')) (\<lambda>_. tx_return (map uuid_cast only))"

definition selection_of :: "string list option \<Rightarrow> ('s, string list option) tx" where
  "selection_of only = (case only of None \<Rightarrow> tx_return None | Some ids \<Rightarrow> tx_bind (uuidArray ids) (\<lambda>xs. tx_return (Some xs)))"

definition selected :: "string list option \<Rightarrow> bookmark_row \<Rightarrow> bool" where
  "selected only b = (case only of None \<Rightarrow> True | Some ids \<Rightarrow> bm_id b \<in> set ids)"

definition usedFolder :: "library \<Rightarrow> string \<Rightarrow> string list option \<Rightarrow> folder_row \<Rightarrow> bool" where
  "usedFolder db owner only f =
     (case only of
        None \<Rightarrow> True
      | Some ids \<Rightarrow> list_ex (\<lambda>l. fb_workspace_id l = fo_workspace_id f \<and> fb_folder_id l = fo_id f \<and> fb_bookmark_id l \<in> set ids \<and>
          list_ex (\<lambda>b. bm_workspace_id b = fb_workspace_id l \<and> bm_id b = fb_bookmark_id l \<and> bm_owner_id b = Some owner) (bookmarks db))
          (folder_bookmarks db))"

definition usedTag :: "library \<Rightarrow> string \<Rightarrow> string list option \<Rightarrow> tag_row \<Rightarrow> bool" where
  "usedTag db owner only t =
     (case only of
        None \<Rightarrow> True
      | Some ids \<Rightarrow> list_ex (\<lambda>l. bt_workspace_id l = tg_workspace_id t \<and> bt_tag_id l = tg_id t \<and> bt_bookmark_id l \<in> set ids \<and>
          list_ex (\<lambda>b. bm_workspace_id b = bt_workspace_id l \<and> bm_id b = bt_bookmark_id l \<and> bm_owner_id b = Some owner) (bookmarks db))
          (lb_bookmark_tags db))"

definition sharedWith :: "library \<Rightarrow> string \<Rightarrow> string \<Rightarrow> string list option \<Rightarrow> bookmark_row \<Rightarrow> bool" where
  "sharedWith db w member only b \<longleftrightarrow>
     bm_workspace_id b = w \<and> in_grants db member w b \<and> bm_owner_id b \<noteq> Some member \<and> bm_plan_archived_at b = None \<and> selected only b"

definition tagNamesOf :: "library \<Rightarrow> string \<Rightarrow> bookmark_row \<Rightarrow> string list" where
  "tagNamesOf db owner b =
     sort (concat (map (\<lambda>l. map tg_name (filter (\<lambda>t. tg_workspace_id t = bt_workspace_id l \<and> tg_id t = bt_tag_id l \<and> tg_owner_id t = owner) (lb_tags db)))
       (filter (\<lambda>l. bt_workspace_id l = bm_workspace_id b \<and> bt_bookmark_id l = bm_id b) (lb_bookmark_tags db))))"

definition folderNamesOf :: "library \<Rightarrow> string \<Rightarrow> bookmark_row \<Rightarrow> string list" where
  "folderNamesOf db owner b =
     sort (concat (map (\<lambda>l. map fo_name (filter (\<lambda>f. fo_workspace_id f = fb_workspace_id l \<and> fo_id f = fb_folder_id l \<and> fo_owner_id f = Some owner) (lb_folders db)))
       (filter (\<lambda>l. fb_workspace_id l = bm_workspace_id b \<and> fb_bookmark_id l = bm_id b) (folder_bookmarks db))))"

section \<open>The statements\<close>

text \<open>\<open>ORDER BY key LIMIT limit\<close>, resumed after a key.\<close>

definition export_page :: "('r \<Rightarrow> string) \<Rightarrow> string option \<Rightarrow> nat \<Rightarrow> 'r list \<Rightarrow> 'r list" where
  "export_page key after limit rows =
     take limit (sort_key key (filter (\<lambda>r. case after of None \<Rightarrow> True | Some a \<Rightarrow> a < key r) rows))"

definition own_bookmark :: "string \<Rightarrow> string \<Rightarrow> string list option \<Rightarrow> bookmark_row \<Rightarrow> bool" where
  "own_bookmark w owner only b \<longleftrightarrow> bm_workspace_id b = w \<and> bm_owner_id b = Some owner \<and> selected only b"

definition own_folder :: "library \<Rightarrow> string \<Rightarrow> string \<Rightarrow> string list option \<Rightarrow> folder_row \<Rightarrow> bool" where
  "own_folder db w owner only f \<longleftrightarrow> owned_folder w owner f \<and> usedFolder db owner only f"

definition own_tag :: "library \<Rightarrow> string \<Rightarrow> string \<Rightarrow> string list option \<Rightarrow> tag_row \<Rightarrow> bool" where
  "own_tag db w owner only t \<longleftrightarrow> owned_tag w owner t \<and> usedTag db owner only t"

text \<open>What every read checks before its statement: the workspace, the owner, the limit and the selection.\<close>

definition export_read :: "tenant_tx \<Rightarrow> string \<Rightarrow> nat \<Rightarrow> string list option \<Rightarrow> (string \<Rightarrow> string \<Rightarrow> string list option \<Rightarrow> library \<Rightarrow> 'r) \<Rightarrow> (library, 'r) tx" where
  "export_read tx ownerId limit only statement =
     with_workspace tx ''the export'' (\<lambda>w.
     tx_bind (requireExportOwner tx ownerId) (\<lambda>owner.
     tx_bind (requireLimit limit) (\<lambda>_.
     tx_bind (selection_of only) (\<lambda>ids. read_db (statement w owner ids)))))"

record export_summary =
  xm_workspaceName :: string
  xm_bookmarks :: nat
  xm_folders :: nat
  xm_tags :: nat
  xm_shared :: nat

definition summaryStatement :: "tenant_tx \<Rightarrow> string \<Rightarrow> bool \<Rightarrow> string list option \<Rightarrow> (library, export_summary option) tx" where
  "summaryStatement tx ownerId includeShared only =
     with_workspace tx ''the export'' (\<lambda>w.
     tx_bind (requireExportOwner tx ownerId) (\<lambda>owner.
     tx_bind (selection_of only) (\<lambda>ids.
     read_db (\<lambda>db. map_option (\<lambda>x. \<lparr>xm_workspaceName = ws_name x,
       xm_bookmarks = length (filter (own_bookmark w owner ids) (bookmarks db)),
       xm_folders = length (filter (own_folder db w owner ids) (lb_folders db)),
       xm_tags = length (filter (own_tag db w owner ids) (lb_tags db)),
       xm_shared = (if includeShared then length (filter (sharedWith db w owner ids) (bookmarks db)) else 0)\<rparr>)
       (find (\<lambda>x. ws_id x = w) (workspaces db))))))"

record export_folder_row =
  xf_name :: string
  xf_icon :: string
  xf_color :: nat

definition foldersStatement :: "tenant_tx \<Rightarrow> string \<Rightarrow> string option \<Rightarrow> nat \<Rightarrow> string list option \<Rightarrow> (library, export_folder_row list) tx" where
  "foldersStatement tx ownerId after limit only =
     export_read tx ownerId limit only (\<lambda>w owner ids db.
       map (\<lambda>f. \<lparr>xf_name = fo_name f, xf_icon = fo_icon f, xf_color = fo_color f\<rparr>)
         (export_page fo_name after limit (filter (own_folder db w owner ids) (lb_folders db))))"

definition tagsStatement :: "tenant_tx \<Rightarrow> string \<Rightarrow> string option \<Rightarrow> nat \<Rightarrow> string list option \<Rightarrow> (library, string list) tx" where
  "tagsStatement tx ownerId after limit only =
     export_read tx ownerId limit only (\<lambda>w owner ids db. map tg_name (export_page tg_name after limit (filter (own_tag db w owner ids) (lb_tags db))))"

record export_bookmark_row =
  xb_id :: string
  xb_url :: string
  xb_title :: string
  xb_description :: "string option"
  xb_slug :: "string option"
  xb_forwarding :: bool
  xb_pinned :: bool
  xb_planArchived :: bool
  xb_folders :: "string list"
  xb_tags :: "string list"

definition export_bookmark_of :: "library \<Rightarrow> string \<Rightarrow> bookmark_row \<Rightarrow> export_bookmark_row" where
  "export_bookmark_of db owner b =
     \<lparr>xb_id = bm_id b, xb_url = bm_url b, xb_title = bm_title b, xb_description = bm_description b, xb_slug = bm_slug b,
      xb_forwarding = bm_forwarding b, xb_pinned = (bm_pinned_at b \<noteq> None), xb_planArchived = (bm_plan_archived_at b \<noteq> None),
      xb_folders = folderNamesOf db owner b, xb_tags = tagNamesOf db owner b\<rparr>"

definition bookmarksStatement :: "tenant_tx \<Rightarrow> string \<Rightarrow> string option \<Rightarrow> nat \<Rightarrow> string list option \<Rightarrow> (library, export_bookmark_row list) tx" where
  "bookmarksStatement tx ownerId after limit only =
     export_read tx ownerId limit only (\<lambda>w owner ids db.
       map (export_bookmark_of db owner) (export_page bm_id (map_option uuid_cast after) limit (filter (own_bookmark w owner ids) (bookmarks db))))"

record export_preference_row =
  xp_slug :: string
  xp_bookmarkId :: string

definition kept_choice :: "library \<Rightarrow> string \<Rightarrow> string \<Rightarrow> string list option \<Rightarrow> slug_preference_row \<Rightarrow> bool" where
  "kept_choice db w owner only p \<longleftrightarrow>
     sp_workspace_id p = w \<and> sp_account_id p = owner \<and>
     list_ex (\<lambda>b. bm_workspace_id b = sp_workspace_id p \<and> bm_id b = sp_bookmark_id p \<and> bm_owner_id b = Some owner \<and> bm_slug b = Some (sp_slug p) \<and>
       bm_forwarding b \<and> selected only b) (bookmarks db)"

definition goPreferencesStatement :: "tenant_tx \<Rightarrow> string \<Rightarrow> string option \<Rightarrow> nat \<Rightarrow> string list option \<Rightarrow> (library, export_preference_row list) tx" where
  "goPreferencesStatement tx ownerId after limit only =
     export_read tx ownerId limit only (\<lambda>w owner ids db.
       map (\<lambda>p. \<lparr>xp_slug = sp_slug p, xp_bookmarkId = sp_bookmark_id p\<rparr>)
         (export_page sp_slug after limit (filter (kept_choice db w owner ids) (slug_preferences db))))"

definition shared_row_of :: "library \<Rightarrow> string \<Rightarrow> string \<Rightarrow> bookmark_row \<Rightarrow> shared_export_row" where
  "shared_row_of db member w b =
     \<lparr>xs_id = bm_id b, xs_url = lit (bm_url b), xs_title = lit (bm_title b), xs_description = map_option lit (bm_description b),
      xs_slug = map_option lit (bm_slug b), xs_ownerName = map_option (\<lambda>acct. lit (bo_displayName acct)) (bookmark_owner_of db member w (bm_owner_id b))\<rparr>"

definition sharedStatement :: "tenant_tx \<Rightarrow> string \<Rightarrow> string option \<Rightarrow> nat \<Rightarrow> string list option \<Rightarrow> (library, shared_export_row list) tx" where
  "sharedStatement tx accountId after limit only =
     export_read tx accountId limit only (\<lambda>w member ids db.
       map (shared_row_of db member w) (export_page bm_id (map_option uuid_cast after) limit (filter (sharedWith db w member ids) (bookmarks db))))"

definition sectionsStatement :: "tenant_tx \<Rightarrow> string \<Rightarrow> string option \<Rightarrow> nat \<Rightarrow> string list option \<Rightarrow> (library, netscape_section list) tx" where
  "sectionsStatement tx ownerId after limit only =
     export_read tx ownerId limit only (\<lambda>w owner ids db.
       map (\<lambda>f. \<lparr>ns_section_id = fo_id f, ns_name = lit (fo_name f)\<rparr>)
         (export_page fo_id (map_option uuid_cast after) limit (filter (own_folder db w owner ids) (lb_folders db))))"

definition netscape_row_of :: "library \<Rightarrow> string \<Rightarrow> bookmark_row \<Rightarrow> netscape_row" where
  "netscape_row_of db owner b =
     \<lparr>nr_id = bm_id b, nr_url = lit (bm_url b), nr_title = lit (bm_title b), nr_slug = map_option lit (bm_slug b), nr_tags = map lit (tagNamesOf db owner b)\<rparr>"

text \<open>\<open>folder_bookmarks JOIN bookmarks\<close>: the bookmarks of the links of a folder.\<close>

definition filed_rows :: "library \<Rightarrow> string \<Rightarrow> string \<Rightarrow> string list option \<Rightarrow> string \<Rightarrow> bookmark_row list" where
  "filed_rows db w owner only folderId =
     concat (map (\<lambda>l. filter (\<lambda>b. bm_workspace_id b = fb_workspace_id l \<and> bm_id b = fb_bookmark_id l \<and> bm_owner_id b = Some owner \<and> selected only b) (bookmarks db))
       (filter (\<lambda>l. fb_workspace_id l = w \<and> fb_folder_id l = folderId \<and> list_ex (\<lambda>f. owned_folder w owner f \<and> fo_id f = folderId) (lb_folders db))
         (folder_bookmarks db)))"

definition folderBookmarksStatement :: "tenant_tx \<Rightarrow> string \<Rightarrow> string \<Rightarrow> string option \<Rightarrow> nat \<Rightarrow> string list option \<Rightarrow> (library, netscape_row list) tx" where
  "folderBookmarksStatement tx ownerId folderId after limit only =
     export_read tx ownerId limit only (\<lambda>w owner ids db.
       map (netscape_row_of db owner) (export_page bm_id (map_option uuid_cast after) limit (filed_rows db w owner ids (uuid_cast folderId))))"

definition unfiled :: "library \<Rightarrow> string \<Rightarrow> bookmark_row \<Rightarrow> bool" where
  "unfiled db owner b \<longleftrightarrow>
     \<not> list_ex (\<lambda>l. fb_workspace_id l = bm_workspace_id b \<and> fb_bookmark_id l = bm_id b \<and>
          list_ex (\<lambda>f. fo_workspace_id f = fb_workspace_id l \<and> fo_id f = fb_folder_id l \<and> fo_owner_id f = Some owner) (lb_folders db)) (folder_bookmarks db)"

definition unfiledBookmarksStatement :: "tenant_tx \<Rightarrow> string \<Rightarrow> string option \<Rightarrow> nat \<Rightarrow> string list option \<Rightarrow> (library, netscape_row list) tx" where
  "unfiledBookmarksStatement tx ownerId after limit only =
     export_read tx ownerId limit only (\<lambda>w owner ids db.
       map (netscape_row_of db owner)
         (export_page bm_id (map_option uuid_cast after) limit (filter (\<lambda>b. own_bookmark w owner ids b \<and> unfiled db owner b) (bookmarks db))))"

definition exportRepository :: "tenant_tx \<Rightarrow> library netscape_store" where
  "exportRepository tx =
     \<lparr>nx_sections = sectionsStatement tx, nx_folderBookmarks = folderBookmarksStatement tx, nx_unfiledBookmarks = unfiledBookmarksStatement tx,
      nx_shared = sharedStatement tx\<rparr>"

section \<open>The start of an export\<close>

record export_start =
  es_workspaceId :: string
  es_actor :: audit_actor
  es_ipPrefix :: "string option"
  es_ask :: export_ask

datatype export_start_outcome = ExportStarted export_summary | ExportUnavailable

definition startExport ::
    "(string \<Rightarrow> bool \<Rightarrow> string list option \<Rightarrow> ('s, export_summary option) tx) \<Rightarrow> (audit_input \<Rightarrow> ('s, unit) tx) \<Rightarrow> export_start \<Rightarrow> ('s, export_start_outcome) tx" where
  "startExport summary audit start =
     tx_bind (summary (js_lower (xa_accountId (es_ask start))) (readsShared (es_ask start)) (xa_only (es_ask start))) (\<lambda>found.
       case found of
         None \<Rightarrow> tx_return ExportUnavailable
       | Some x \<Rightarrow>
           tx_bind (audit \<lparr>av_action = ''export.created'', av_workspaceId = js_lower (es_workspaceId start), av_actor = es_actor start, av_entity = None,
               av_metadata = JsObject [(''bookmarks'', JsText (js_to_string 10 (xm_bookmarks x))), (''folders'', JsText (js_to_string 10 (xm_folders x))),
                 (''tags'', JsText (js_to_string 10 (xm_tags x))), (''shared'', JsText (js_to_string 10 (xm_shared x)))],
               av_ipPrefix = es_ipPrefix start\<rparr>)
             (\<lambda>_. tx_return (ExportStarted x)))"

section \<open>The selection\<close>

datatype export_selection = SelectIds "string list" | SelectFilter filter_ask

datatype export_selection_outcome = ExportSelected "string list" | ExportTooMany nat | ExportUrlRefused url_refusal

definition EXPORT_SELECTION_IDS_MAX :: nat where
  "EXPORT_SELECTION_IDS_MAX = 100"

definition resolveExportSelection ::
    "url_parser \<Rightarrow> list_tools \<Rightarrow> (list_filter \<Rightarrow> nat \<Rightarrow> ('s, string list) tx) \<Rightarrow> export_selection \<Rightarrow> ('s, export_selection_outcome) tx" where
  "resolveExportSelection parser tools ids selection =
     (case selection of
        SelectIds named \<Rightarrow>
          (let only = js_unique (map js_lower named)
           in tx_return (if length only > EXPORT_SELECTION_IDS_MAX then ExportTooMany EXPORT_SELECTION_IDS_MAX else ExportSelected only))
      | SelectFilter filt \<Rightarrow>
          (case bookmarkListFilter parser tools filt of
             Inl reason \<Rightarrow> tx_return (ExportUrlRefused reason)
           | Inr parsed \<Rightarrow>
               tx_bind (ids parsed (BOOKMARK_SELECT_ALL_CAP + 1)) (\<lambda>found.
                 tx_return (if length found > BOOKMARK_SELECT_ALL_CAP then ExportTooMany BOOKMARK_SELECT_ALL_CAP else ExportSelected (map js_lower found)))))"

end
