(* ===== verification/LibraryExportLaws.thy ===== *)
theory LibraryExportLaws
  imports LibraryExport
begin

text \<open>
  A member's export as a bookmark file: every page of every read is in the file, and the reader of bookmark files makes of it the
  member's bookmarks, filed as they are in the library.
\<close>

section \<open>Loops over pages\<close>

context keyset begin

lemma loop_from:
  assumes ids: "distinct (map key rows)" and full_page: "1 \<le> full_page"
    and fetches: "\<And>after n. after \<in> insert None (Some ` key ` set rows) \<Longrightarrow> 1 \<le> n \<Longrightarrow> store after n s = Inr (map view (fetch after n), s)"
    and keys: "\<And>r. r \<in> set rows \<Longrightarrow> key' (view r) = key r"
    and act: "\<And>rs. set rs \<subseteq> set rows \<Longrightarrow> \<exists>ps. act (map view rs) s = Inr (ps, s) \<and> concat ps = concat (map print rs)"
  shows "n \<le> length rows \<Longrightarrow> after = (if n = 0 then None else Some (key (rows ! (n - 1)))) \<Longrightarrow> length rows - n < fuel * full_page \<Longrightarrow>
    \<exists>ps. page_loop fuel full_page key' store act after s = Inr (ps, s) \<and> concat ps = concat (map print (drop n rows))"
proof (induction fuel arbitrary: n after)
  case (Suc fuel)
  let ?page = "take full_page (drop n rows)"
  have after: "after \<in> insert None (Some ` key ` set rows)"
    using Suc.prems(1,2) by (auto intro!: imageI)
  have got: "store after full_page s = Inr (map view ?page, s)"
    using Suc.prems(1,2) after_drop [OF ids, of n] fetches [OF after full_page] by (simp add: fetched)
  obtain ps where ps: "act (map view ?page) s = Inr (ps, s)" "concat ps = concat (map print ?page)"
    using act [of ?page] by (meson order_trans set_drop_subset set_take_subset)
  show ?case
  proof (cases "length rows - n < full_page")
    case True
    then show ?thesis using got ps by (simp add: tx_bind_def tx_return_def)
  next
    case False
    then have full: "length ?page = full_page" by simp
    have at: "last ?page = rows ! (n + full_page - 1)"
      using False full_page by (simp add: last_conv_nth)
    have last: "key' (last (map view ?page)) = key (rows ! (n + full_page - 1))"
    proof -
      have "?page \<noteq> []" using full full_page by auto
      moreover have "n + full_page - 1 < length rows" using False full_page by auto
      ultimately show ?thesis using at by (simp add: last_map keys)
    qed
    obtain qs where qs: "page_loop fuel full_page key' store act (Some (key (rows ! (n + full_page - 1)))) s = Inr (qs, s)"
        "concat qs = concat (map print (drop (n + full_page) rows))"
    proof -
      have "n + full_page \<le> length rows" "length rows - (n + full_page) < fuel * full_page"
        using False full_page Suc.prems(1,3) by auto
      then show thesis
        using Suc.IH [of "n + full_page" "Some (key (rows ! (n + full_page - 1)))"] full_page that by auto
    qed
    have "concat (map print (drop n rows)) = concat (map print ?page) @ concat (map print (drop (n + full_page) rows))"
      by (metis append_take_drop_id concat_append drop_drop add.commute map_append)
    moreover have "map view ?page \<noteq> []" using full full_page by auto
    ultimately show ?thesis
      using got ps qs last full by (simp add: tx_bind_def tx_return_def del: map_is_Nil_conv)
  qed
qed simp

lemmas loop_complete = loop_from [where n = 0 and after = None, unfolded drop_0 diff_zero, OF _ _ _ _ _ le0 if_P [OF refl, symmetric]]

end

interpretation export_pages: keyset "(<)" key "sort_key key rows" "\<lambda>after n. export_page key after n rows"
  for key :: "'r \<Rightarrow> string" and rows
proof unfold_locales
  show "sorted_wrt (\<lambda>x y. \<not> key y < key x) (sort_key key rows)"
    using sorted_sort_key [of key rows] by (simp add: sorted_map not_less)
qed (auto simp: export_page_def filter_sort split: option.splits)

lemma each_piece_complete:
  assumes "\<And>r. r \<in> set rs \<Longrightarrow> \<exists>ps. f (view r) s = Inr (ps, s) \<and> concat ps = print r"
  shows "\<exists>ps. each_piece f (map view rs) s = Inr (ps, s) \<and> concat ps = concat (map print rs)"
  using assms
proof (induction rs)
  case (Cons r rs)
  obtain ps where "f (view r) s = Inr (ps, s)" "concat ps = print r"
    using Cons.prems by auto
  moreover obtain qs where "each_piece f (map view rs) s = Inr (qs, s)" "concat qs = concat (map print rs)"
    using Cons by auto
  ultimately show ?case by (simp add: tx_bind_def tx_return_def)
qed (simp add: tx_return_def)

lemma written_rows_complete: "\<exists>ps. written_rows print (map view rs) s = Inr (ps, s) \<and> concat ps = concat (map (\<lambda>r. print (view r)) rs)"
  by (simp add: written_rows_def tx_return_def comp_def)

text \<open>A loop over the pages of a read that casts its cursor to an identifier.\<close>

lemma cast_loop:
  assumes store: "\<And>after n. 1 \<le> n \<Longrightarrow> store after n s = Inr (map view (export_page k (map_option uuid_cast after) n rows), s)"
    and ids: "distinct (map k rows)" "\<And>r. r \<in> set rows \<Longrightarrow> uuid_cast (k r) = k r"
    and keys: "\<And>r. key' (view r) = k r"
    and act: "\<And>rs. set rs \<subseteq> set rows \<Longrightarrow> \<exists>ps. act (map view rs) s = Inr (ps, s) \<and> concat ps = concat (map print rs)"
    and bound: "1 \<le> page" "length rows < fuel * page"
  shows "\<exists>ps. page_loop fuel page key' store act None s = Inr (ps, s) \<and> concat ps = concat (map print (sort_key k rows))"
proof (rule export_pages.loop_complete [where view = view])
  show "distinct (map k (sort_key k rows))"
    using ids(1) by (simp add: distinct_map)
  show "store after n s = Inr (map view (export_page k after n rows), s)"
    if "after \<in> insert None (Some ` k ` set (sort_key k rows))" "1 \<le> n" for after n
    using store [OF that(2), of after] that(1) ids(2) by auto
qed (use keys act bound in auto)

section \<open>What a member exports\<close>

definition exported_link :: "library \<Rightarrow> string \<Rightarrow> bookmark_row \<Rightarrow> written_link" where
  "exported_link db a b =
     \<lparr>wl_url = lit (bm_url b), wl_slug = map_option lit (bm_slug b), wl_tags = map lit (tagNamesOf db a b), wl_title = lit (bm_title b)\<rparr>"

definition exported_shared :: "bookmark_row \<Rightarrow> written_link" where
  "exported_shared b = \<lparr>wl_url = lit (bm_url b), wl_slug = map_option lit (bm_slug b), wl_tags = [], wl_title = lit (bm_title b)\<rparr>"

definition filed_under :: "library \<Rightarrow> folder_row \<Rightarrow> bookmark_row \<Rightarrow> bool" where
  "filed_under db f b \<longleftrightarrow>
     list_ex (\<lambda>l. fb_workspace_id l = bm_workspace_id b \<and> fb_folder_id l = fo_id f \<and> fb_bookmark_id l = bm_id b) (folder_bookmarks db)"

definition exported_loose :: "library \<Rightarrow> string \<Rightarrow> string \<Rightarrow> string list option \<Rightarrow> bool \<Rightarrow> written_link list" where
  "exported_loose db w a only shared =
     map (exported_link db a) (sort_key bm_id (filter (\<lambda>b. own_bookmark w a only b \<and> unfiled db a b) (bookmarks db))) @
     (if shared then map exported_shared (sort_key bm_id (filter (sharedWith db w a only) (bookmarks db))) else [])"

definition exported_sections :: "library \<Rightarrow> string \<Rightarrow> string \<Rightarrow> string list option \<Rightarrow> (units \<times> written_link list) list" where
  "exported_sections db w a only =
     map (\<lambda>f. (lit (fo_name f), map (exported_link db a) (sort_key bm_id (filter (\<lambda>b. own_bookmark w a only b \<and> filed_under db f b) (bookmarks db)))))
       (sort_key fo_id (filter (own_folder db w a only) (lb_folders db)))"

text \<open>A transaction of the member in the workspace, and a selection of identifiers.\<close>

definition export_ready :: "tenant_tx \<Rightarrow> string \<Rightarrow> string \<Rightarrow> string list option \<Rightarrow> bool" where
  "export_ready tx w a only \<longleftrightarrow>
     map_option uuid_cast (tx_workspaceId tx) = Some w \<and> tx_accountId tx = a \<and> js_lower a = a \<and> (case only of None \<Rightarrow> True | Some ids \<Rightarrow> list_all uuid_pattern ids)"

abbreviation selection_ids :: "string list option \<Rightarrow> string list option" where
  "selection_ids only \<equiv> map_option (map uuid_cast) only"

lemma export_read_ready:
  "export_ready tx w a only \<Longrightarrow> 1 \<le> n \<Longrightarrow> export_read tx a n only statement db = Inr (statement w a (selection_ids only) db, db)"
  by (auto simp: export_ready_def export_read_def with_workspace_def requireWorkspace_def requireExportOwner_def requireLimit_def selection_of_def
      uuidArray_def tx_bind_def tx_return_def tx_require_def read_db_def split: option.splits)

lemma row_links:
  "row_link indent (netscape_row_of db a b) = print_link indent (exported_link db a b)"
  "shared_link indent (shared_row_of db a w b) = print_link indent (exported_shared b)"
  by (simp_all add: row_link_def shared_link_def print_link_def netscape_row_of_def shared_row_of_def exported_link_def exported_shared_def)

lemma written_links:
  "\<exists>ps. written_rows (row_link indent) (map (netscape_row_of db a) rs) s = Inr (ps, s) \<and> concat ps = concat (map (print_link indent) (map (exported_link db a) rs))"
  "\<exists>ps. written_rows (shared_link indent) (map (shared_row_of db a w) rs) s = Inr (ps, s) \<and> concat ps = concat (map (print_link indent) (map exported_shared rs))"
  using written_rows_complete [of "row_link indent" "netscape_row_of db a" rs s] written_rows_complete [of "shared_link indent" "shared_row_of db a w" rs s]
  by (simp_all add: row_links comp_def)

section \<open>The loops of the file\<close>

text \<open>A join on a key of both sides has that key.\<close>

lemma join_distinct:
  assumes "distinct (map f ls)" "distinct (map k xs)" "\<And>l x. P l x \<Longrightarrow> k x = f l"
  shows "distinct (map k (concat (map (\<lambda>l. filter (P l) xs) ls)))"
  using assms(1)
proof (induction ls)
  case (Cons l ls)
  have "distinct (map k (filter (P l) xs))"
    using assms(2) by (rule distinct_map_filter)
  then show ?case using Cons assms(3) by fastforce
qed simp

text \<open>The keys the pages of an export go by.\<close>

definition export_ok :: "library \<Rightarrow> bool" where
  "export_ok db \<longleftrightarrow> distinct (map bm_id (bookmarks db)) \<and> distinct (map fo_id (lb_folders db)) \<and> distinct (map link_key (folder_bookmarks db)) \<and>
     (\<forall>b \<in> set (bookmarks db). uuid_cast (bm_id b) = bm_id b) \<and> (\<forall>f \<in> set (lb_folders db). uuid_cast (fo_id f) = fo_id f)"

lemma library_ids:
  assumes "library_ok db"
  shows "distinct (map bm_id (bookmarks db))" "distinct (map fo_id (lb_folders db))"
    and "b \<in> set (bookmarks db) \<Longrightarrow> uuid_cast (bm_id b) = bm_id b" "f \<in> set (lb_folders db) \<Longrightarrow> uuid_cast (fo_id f) = fo_id f"
    and "b \<in> set (bookmarks db) \<Longrightarrow> length (bm_title b) \<le> 300" "f \<in> set (lb_folders db) \<Longrightarrow> length (fo_name f) \<le> 64"
  using assms by (auto simp: library_ok_def rows_ok_def folders_ok_def folder_checks_def bookmark_checks_def)

lemma library_export_ok: "library_ok db \<Longrightarrow> export_ok db"
  using library_ids(1-4) by (auto simp: export_ok_def library_ok_def links_ok_def)

text \<open>The join of a folder's links with the bookmarks holds the bookmarks filed under it, each once.\<close>

lemma filed_rows_same:
  assumes ok: "export_ok db" and f: "f \<in> set (lb_folders db)" "owned_folder w a f"
  shows "distinct (map bm_id (filed_rows db w a only (fo_id f)))"
    and "sort_key bm_id (filed_rows db w a only (fo_id f)) = sort_key bm_id (filter (\<lambda>b. own_bookmark w a only b \<and> filed_under db f b) (bookmarks db))"
    and "set (filed_rows db w a only (fo_id f)) \<subseteq> set (bookmarks db)"
proof -
  let ?links = "filter (\<lambda>l. fb_workspace_id l = w \<and> fb_folder_id l = fo_id f) (folder_bookmarks db)"
  let ?of = "\<lambda>l. filter (\<lambda>b. bm_workspace_id b = fb_workspace_id l \<and> bm_id b = fb_bookmark_id l \<and> bm_owner_id b = Some a \<and> selected only b) (bookmarks db)"
  let ?rows = "filter (\<lambda>b. own_bookmark w a only b \<and> filed_under db f b) (bookmarks db)"
  have ids: "distinct (map bm_id (bookmarks db))"
    using ok by (simp add: export_ok_def)
  have here: "list_ex (\<lambda>g. owned_folder w a g \<and> fo_id g = fo_id f) (lb_folders db)"
    using f by (auto simp: list_ex_iff)
  have eq: "filed_rows db w a only (fo_id f) = concat (map ?of ?links)"
    using here by (simp add: filed_rows_def)
  have links: "distinct (map fb_bookmark_id ?links)"
    using ok by (auto simp: export_ok_def distinct_map inj_on_def link_key_def)
  show one: "distinct (map bm_id (filed_rows db w a only (fo_id f)))"
    unfolding eq by (rule join_distinct [OF links ids]) simp
  have same: "set (filed_rows db w a only (fo_id f)) = set ?rows"
    unfolding eq by (auto simp: own_bookmark_def filed_under_def list_ex_iff)
  then show "set (filed_rows db w a only (fo_id f)) \<subseteq> set (bookmarks db)" by auto
  have "mset (filed_rows db w a only (fo_id f)) = mset ?rows"
    using same one ids by (intro iffD1 [OF set_eq_iff_mset_eq_distinct]) (simp_all add: distinct_map)
  then show "sort_key bm_id (filed_rows db w a only (fo_id f)) = sort_key bm_id ?rows"
    using one by (intro sort_key_inj_key_eq) (simp_all add: distinct_map)
qed

lemma export_ids:
  assumes "export_ok db"
  shows "distinct (map bm_id (bookmarks db))" "distinct (map fo_id (lb_folders db))"
    and "b \<in> set (bookmarks db) \<Longrightarrow> uuid_cast (bm_id b) = bm_id b" "f \<in> set (lb_folders db) \<Longrightarrow> uuid_cast (fo_id f) = fo_id f"
  using assms by (auto simp: export_ok_def)

text \<open>The loop over a folder's bookmarks, and the section of the folder.\<close>

lemma section_complete:
  assumes ok: "export_ok db" and ready: "export_ready tx w a only" and f: "f \<in> set (lb_folders db)" "owned_folder w a f"
    and bound: "1 \<le> page" "length (bookmarks db) < fuel * page"
  shows "\<exists>ps. section_pieces fuel page (exportRepository tx) a only \<lparr>ns_section_id = fo_id f, ns_name = lit (fo_name f)\<rparr> db = Inr (ps, db) \<and>
    concat ps = print_section (lit (fo_name f), map (exported_link db a)
      (sort_key bm_id (filter (\<lambda>b. own_bookmark w a (selection_ids only) b \<and> filed_under db f b) (bookmarks db))))"
proof -
  let ?rows = "filed_rows db w a (selection_ids only) (fo_id f)"
  have short: "length ?rows \<le> length (bookmarks db)"
    using filed_rows_same(1,3) [OF ok f, of "selection_ids only"] export_ids(1) [OF ok]
    by (metis card_mono distinct_card distinct_map List.finite_set)
  obtain ps where ps: "page_loop fuel page nr_id (\<lambda>after n. folderBookmarksStatement tx a (fo_id f) after n only)
      (written_rows (row_link (lit ''        ''))) None db = Inr (ps, db)"
    "concat ps = concat (map (\<lambda>b. print_link (lit ''        '') (exported_link db a b)) (sort_key bm_id ?rows))"
    using cast_loop [where view = "netscape_row_of db a" and k = bm_id and rows = ?rows and s = db and page = page and fuel = fuel and key' = nr_id
        and store = "\<lambda>after n. folderBookmarksStatement tx a (fo_id f) after n only" and act = "written_rows (row_link (lit ''        ''))"
        and print = "\<lambda>b. print_link (lit ''        '') (exported_link db a b)"]
      written_links(1) [of "lit ''        ''" db a _ db] filed_rows_same(1,3) [OF ok f, of "selection_ids only"] export_ids(3,4) [OF ok] f bound short
    by (auto simp: folderBookmarksStatement_def export_read_ready [OF ready] netscape_row_of_def comp_def)
  show ?thesis
    using ps unfolding filed_rows_same(2) [OF ok f, of "selection_ids only"]
    by (simp add: section_pieces_def exportRepository_def tx_bind_def tx_return_def print_section_def comp_def)
qed

lemma pieces_complete:
  assumes ok: "export_ok db" and ready: "export_ready tx w a (xa_only ask)" and account: "js_lower (xa_accountId ask) = a"
    and bound: "1 \<le> page" "length (bookmarks db) < fuel * page" "length (lb_folders db) < fuel * page"
  shows "\<exists>ps. netscape_pieces fuel page (exportRepository tx) ask db = Inr (ps, db) \<and>
    concat ps = print_file (exported_loose db w a (selection_ids (xa_only ask)) (readsShared ask)) (exported_sections db w a (selection_ids (xa_only ask)))"
proof -
  let ?only = "xa_only ask" and ?ids = "selection_ids (xa_only ask)"
  let ?own = "filter (\<lambda>b. own_bookmark w a ?ids b \<and> unfiled db a b) (bookmarks db)" and ?shared = "filter (sharedWith db w a ?ids) (bookmarks db)"
    and ?folders = "filter (own_folder db w a ?ids) (lb_folders db)"
  have few: "length (filter P xs) < fuel * page" if "length xs < fuel * page" for P :: "'x \<Rightarrow> bool" and xs
    using le_less_trans [OF length_filter_le that] .
  obtain us where us: "page_loop fuel page nr_id (\<lambda>after n. unfiledBookmarksStatement tx a after n ?only) (written_rows (row_link (lit ''    ''))) None db = Inr (us, db)"
      "concat us = concat (map (\<lambda>b. print_link (lit ''    '') (exported_link db a b)) (sort_key bm_id ?own))"
    using cast_loop [where view = "netscape_row_of db a" and k = bm_id and rows = ?own and s = db and page = page and fuel = fuel and key' = nr_id
        and store = "\<lambda>after n. unfiledBookmarksStatement tx a after n ?only" and act = "written_rows (row_link (lit ''    ''))"
        and print = "\<lambda>b. print_link (lit ''    '') (exported_link db a b)"]
      written_links(1) [of "lit ''    ''" db a _ db] export_ids(1,3) [OF ok] bound few [OF bound(2)]
    by (auto simp: unfiledBookmarksStatement_def export_read_ready [OF ready] netscape_row_of_def comp_def distinct_map_filter)
  obtain ss where ss: "page_loop fuel page xs_id (\<lambda>after n. sharedStatement tx a after n ?only) (written_rows (shared_link (lit ''    ''))) None db = Inr (ss, db)"
      "concat ss = concat (map (\<lambda>b. print_link (lit ''    '') (exported_shared b)) (sort_key bm_id ?shared))"
    using cast_loop [where view = "shared_row_of db a w" and k = bm_id and rows = ?shared and s = db and page = page and fuel = fuel and key' = xs_id
        and store = "\<lambda>after n. sharedStatement tx a after n ?only" and act = "written_rows (shared_link (lit ''    ''))"
        and print = "\<lambda>b. print_link (lit ''    '') (exported_shared b)"]
      written_links(2) [of "lit ''    ''" db a w _ db] export_ids(1,3) [OF ok] bound few [OF bound(2)]
    by (auto simp: sharedStatement_def export_read_ready [OF ready] shared_row_of_def comp_def distinct_map_filter)
  let ?sec = "\<lambda>f. print_section (lit (fo_name f), map (exported_link db a) (sort_key bm_id (filter (\<lambda>b. own_bookmark w a ?ids b \<and> filed_under db f b) (bookmarks db))))"
    and ?view = "\<lambda>f. \<lparr>ns_section_id = fo_id f, ns_name = lit (fo_name f)\<rparr>"
  have "\<exists>ps. each_piece (section_pieces fuel page (exportRepository tx) a ?only) (map ?view fs) db = Inr (ps, db) \<and> concat ps = concat (map ?sec fs)"
    if "set fs \<subseteq> set ?folders" for fs
    using that by (intro each_piece_complete section_complete [OF ok ready _ _ bound(1,2)]) (auto simp: own_folder_def)
  then obtain fs where fs: "page_loop fuel page ns_section_id (\<lambda>after n. sectionsStatement tx a after n ?only)
      (each_piece (section_pieces fuel page (exportRepository tx) a ?only)) None db = Inr (fs, db)"
      "concat fs = concat (map ?sec (sort_key fo_id ?folders))"
    using cast_loop [where view = ?view and k = fo_id and rows = ?folders and s = db and page = page and fuel = fuel and key' = ns_section_id
        and store = "\<lambda>after n. sectionsStatement tx a after n ?only" and act = "each_piece (section_pieces fuel page (exportRepository tx) a ?only)"
        and print = ?sec] export_ids(2,4) [OF ok] bound few [OF bound(3)]
    by (auto simp: sectionsStatement_def export_read_ready [OF ready] distinct_map_filter)
  show ?thesis
    using us ss fs by (simp add: netscape_pieces_def exportRepository_def account Let_def tx_bind_def tx_return_def print_file_def exported_loose_def
      exported_sections_def comp_def)
qed

section \<open>The file is read back\<close>

text \<open>The codecs of UTF-8, on texts of units below 256.\<close>

definition codec_ok :: "(units \<Rightarrow> nat list) \<Rightarrow> (nat list \<Rightarrow> units) \<Rightarrow> bool" where
  "codec_ok encode decode \<longleftrightarrow> (\<forall>ps. (\<forall>c \<in> set (concat ps). c < 256) \<longrightarrow> decode (concat (map encode ps)) = concat ps)"

text \<open>A text of the database holds no character zero.\<close>

definition zero_free :: "string \<Rightarrow> bool" where
  "zero_free s \<longleftrightarrow> CHR 0x00 \<notin> set s"

definition texts_ok :: "library \<Rightarrow> bool" where
  "texts_ok db \<longleftrightarrow>
     (\<forall>b \<in> set (bookmarks db). zero_free (bm_url b) \<and> zero_free (bm_title b) \<and> (case bm_slug b of None \<Rightarrow> True | Some t \<Rightarrow> zero_free t)) \<and>
     (\<forall>f \<in> set (lb_folders db). zero_free (fo_name f)) \<and> (\<forall>t \<in> set (lb_tags db). zero_free (tg_name t))"

text \<open>The units of the file.\<close>

definition plain_units :: "units \<Rightarrow> bool" where
  "plain_units t \<longleftrightarrow> (\<forall>c \<in> set t. 0 < c \<and> c < 256)"

lemma plain_units_simps [simp]:
  "plain_units []" "plain_units (c # t) \<longleftrightarrow> 0 < c \<and> c < 256 \<and> plain_units t" "plain_units (t @ u) \<longleftrightarrow> plain_units t \<and> plain_units u"
  "plain_units (concat ts) \<longleftrightarrow> (\<forall>t \<in> set ts. plain_units t)"
  by (auto simp: plain_units_def)

lemma plain_lit [simp]: "zero_free s \<Longrightarrow> plain_units (lit s)"
  by (induction s) (auto simp: zero_free_def simp flip: of_char_eq_iff [where ?'a = nat])

lemma plain_escape_units [simp]: "plain_units t \<Longrightarrow> plain_units (escapeHtml t)"
  by (induction t) (auto simp: escape_unit_def)

lemma plain_join [simp]: "(\<And>t. t \<in> set ts \<Longrightarrow> plain_units t) \<Longrightarrow> plain_units (units_join 44 ts)"
  by (induction "44 :: nat" ts rule: units_join.induct) auto

definition plain_link :: "written_link \<Rightarrow> bool" where
  "plain_link l \<longleftrightarrow> plain_units (wl_url l) \<and> plain_units (wl_title l) \<and> (case wl_slug l of None \<Rightarrow> True | Some t \<Rightarrow> plain_units t) \<and> (\<forall>t \<in> set (wl_tags l). plain_units t)"

lemma plain_print_link: "plain_link l \<Longrightarrow> plain_units indent \<Longrightarrow> plain_units (print_link indent l)"
  by (auto simp: plain_link_def print_link_def netscape_link_def split: option.splits)

lemma plain_head: "plain_units NETSCAPE_HEAD"
  by (simp add: NETSCAPE_HEAD_def)

lemma plain_file:
  assumes "\<And>l. l \<in> set loose \<Longrightarrow> plain_link l"
    and "\<And>name links l. (name, links) \<in> set sections \<Longrightarrow> plain_units name \<and> (l \<in> set links \<longrightarrow> plain_link l)"
  shows "plain_units (print_file loose sections)"
proof -
  have "plain_units (print_section sec)" if "sec \<in> set sections" for sec
    using assms(2) [of "fst sec" "snd sec"] that by (auto simp: print_section_def intro!: plain_print_link)
  then show ?thesis
    using assms(1) by (auto simp: print_file_def plain_head intro!: plain_print_link)
qed

lemma exported_link_plain:
  assumes "texts_ok db" "b \<in> set (bookmarks db)"
  shows "plain_link (exported_link db a b)" "plain_link (exported_shared b)"
proof -
  have "zero_free n" if "n \<in> set (tagNamesOf db a b)" for n
    using that assms(1) by (auto simp: tagNamesOf_def texts_ok_def)
  then show "plain_link (exported_link db a b)" "plain_link (exported_shared b)"
    using assms by (auto simp: plain_link_def exported_link_def exported_shared_def texts_ok_def split: option.splits)
qed

lemma exported_plain:
  assumes "texts_ok db"
  shows "plain_units (print_file (exported_loose db w a only shared) (exported_sections db w a only))"
  using assms by (intro plain_file) (auto simp: exported_loose_def exported_sections_def exported_link_plain texts_ok_def split: if_splits)

lemma escape_length: "length (escapeHtml t) \<le> 6 * length t"
  by (induction t) (auto simp: escape_unit_def)

lemma short_lit: "length s \<le> 300 \<Longrightarrow> short_text (lit s)"
  using escape_length [of "lit s"] by (simp add: short_text_def TEXT_MAX_LENGTH_def lit_def)

definition exported_links :: "library \<Rightarrow> string \<Rightarrow> string \<Rightarrow> string list option \<Rightarrow> bool \<Rightarrow> nat" where
  "exported_links db w a only shared = length (exported_loose db w a only shared) + length (concat (map snd (exported_sections db w a only)))"

lemma exported_file_ok:
  assumes "library_ok db" "exported_links db w a only shared \<le> IMPORT_MAX_BOOKMARKS"
  shows "file_ok (exported_loose db w a only shared) (exported_sections db w a only)"
proof -
  have title: "short_text (lit (bm_title b))" if "b \<in> set (bookmarks db)" for b
    using library_ids(5) [OF assms(1) that] by (rule short_lit)
  have name: "short_text (lit (fo_name f))" if "f \<in> set (lb_folders db)" for f
    using library_ids(6) [OF assms(1) that] by (intro short_lit) simp
  show ?thesis
    using assms(2) by (auto simp: file_ok_def exported_links_def exported_loose_def exported_sections_def exported_link_def exported_shared_def
      intro!: title name split: if_splits)
qed

text \<open>What an export writes, decoded: the file of the member's bookmarks, folders and tags.\<close>

lemma export_written:
  assumes "export_ok db" "texts_ok db" "export_ready tx w a (xa_only ask)" "js_lower (xa_accountId ask) = a"
    and "1 \<le> page" "length (bookmarks db) < fuel * page" "length (lb_folders db) < fuel * page" "codec_ok encode decode"
  shows "\<exists>written. exportNetscapeStream encode fuel page (exportRepository tx) ask db = Inr (written, db) \<and>
    decode written = print_file (exported_loose db w a (selection_ids (xa_only ask)) (readsShared ask)) (exported_sections db w a (selection_ids (xa_only ask)))"
proof -
  let ?file = "print_file (exported_loose db w a (selection_ids (xa_only ask)) (readsShared ask)) (exported_sections db w a (selection_ids (xa_only ask)))"
  obtain ps where ps: "netscape_pieces fuel page (exportRepository tx) ask db = Inr (ps, db)" "concat ps = ?file"
    using pieces_complete [OF assms(1,3-7)] by blast
  have "decode (concat (map encode ps)) = ?file"
    using assms(8) exported_plain [OF assms(2), of w a] ps(2) unfolding codec_ok_def plain_units_def by metis
  then show ?thesis
    using ps(1) by (simp add: exportNetscapeStream_def tx_bind_def tx_return_def)
qed

lemma export_read_back:
  assumes ok: "library_ok db" "texts_ok db" and ready: "export_ready tx w a (xa_only ask)" and account: "js_lower (xa_accountId ask) = a"
    and bound: "1 \<le> page" "length (bookmarks db) < fuel * page" "length (lb_folders db) < fuel * page"
    and few: "exported_links db w a (selection_ids (xa_only ask)) (readsShared ask) \<le> IMPORT_MAX_BOOKMARKS"
    and codecs: "codec_ok encode decode" "lower_ok lower"
  shows "\<exists>written. exportNetscapeStream encode fuel page (exportRepository tx) ask db = Inr (written, db) \<and>
    parseNetscapeBookmarks decode lower written =
      Some (read_file (exported_loose db w a (selection_ids (xa_only ask)) (readsShared ask)) (exported_sections db w a (selection_ids (xa_only ask))))"
proof -
  let ?file = "print_file (exported_loose db w a (selection_ids (xa_only ask)) (readsShared ask)) (exported_sections db w a (selection_ids (xa_only ask)))"
  obtain written where written: "exportNetscapeStream encode fuel page (exportRepository tx) ask db = Inr (written, db)" "decode written = ?file"
    using export_written [OF library_export_ok [OF ok(1)] ok(2) ready account bound codecs(1)] by blast
  have "filter (\<lambda>c. c \<noteq> 0) ?file = ?file"
    using exported_plain [OF ok(2), of w a] by (auto simp: plain_units_def filter_id_conv)
  then show ?thesis
    using written walk_file [OF codecs(2) exported_file_ok [OF ok(1) few]] by (simp add: parseNetscapeBookmarks_def)
qed

end
