(* ===== verification/ExportProperties.thy ===== *)
theory ExportProperties
  imports LibraryExportLaws LibraryProperties
begin

text \<open>
  The properties of the export of a member's bookmarks as a bookmark file, and an example library with a folder and a tag.
\<close>

section \<open>An example\<close>

definition lib_folder :: string where
  "lib_folder = ''eeeeeeee-0000-4000-8000-000000000001''"

definition lib_tag :: string where
  "lib_tag = ''ffffffff-0000-4000-8000-000000000001''"

definition filed_library :: library where
  "filed_library = example_library\<lparr>
     lb_folders := [\<lparr>fo_id = lib_folder, fo_workspace_id = lib_space, fo_owner_id = Some lib_ada, fo_name = ''R&D <1>'', fo_icon = ''folder'', fo_color = 1,
       fo_version = 1, fo_updated_at = 3\<rparr>],
     lb_tags := [\<lparr>tg_id = lib_tag, tg_workspace_id = lib_space, tg_owner_id = lib_ada, tg_name = ''work''\<rparr>],
     folder_bookmarks := [\<lparr>fb_workspace_id = lib_space, fb_folder_id = lib_folder, fb_bookmark_id = lib_docs\<rparr>],
     lb_bookmark_tags := [\<lparr>bt_workspace_id = lib_space, bt_bookmark_id = lib_docs, bt_tag_id = lib_tag\<rparr>]\<rparr>"

definition lib_export :: export_ask where
  "lib_export = \<lparr>xa_accountId = lib_ada, xa_includeShared = True, xa_only = None\<rparr>"

text \<open>UTF-8 of units below 256: one byte or two.\<close>

definition utf8_of :: "units \<Rightarrow> nat list" where
  "utf8_of t = concat (map (\<lambda>c. if c < 128 then [c] else [192 + c div 64, 128 + c mod 64]) t)"

fun utf8_read :: "nat list \<Rightarrow> units" where
  "utf8_read (c # d # rest) = (if c < 128 then c # utf8_read (d # rest) else ((c - 192) * 64 + (d - 128)) # utf8_read rest)"
| "utf8_read rest = rest"

lemma utf8_read_of: "(\<forall>c \<in> set t. c < 256) \<Longrightarrow> utf8_read (utf8_of t) = t"
proof (induction t)
  case (Cons c t)
  have one: "utf8_read (c # rest) = c # utf8_read rest" if "c < 128" for rest
    using that by (cases rest) simp_all
  show ?case using Cons one by (simp add: utf8_of_def)
qed (simp add: utf8_of_def)

lemma utf8_codec: "codec_ok utf8_of utf8_read"
proof -
  have join: "concat (map utf8_of ps) = utf8_of (concat ps)" for ps
    by (induction ps) (simp_all add: utf8_of_def)
  show ?thesis by (simp add: codec_ok_def join utf8_read_of)
qed

lemma filed_library_ok: "library_ok filed_library" "texts_ok filed_library"
  by code_simp+

lemma lib_export_ready: "export_ready lib_tx lib_space lib_ada (xa_only lib_export)" "js_lower (xa_accountId lib_export) = lib_ada"
  by code_simp+

lemma ascii_lower_ok: "lower_ok (map ascii_lower)"
  by (simp add: lower_ok_def)

section \<open>The round trip\<close>

text \<open>
  Claim C18: the bookmark file of a member's export is read back, by the reader of the import, as the member's bookmarks: those in no
  folder and (when asked for) those shared with the member first, then each folder's under its name, with the address and, up to white
  space and the commas of a tag, the title and the tags of each. The codecs of UTF-8 undo each other, \<open>lower\<close> is
  \<open>toLowerCase\<close>, nothing is written during the download, and the file holds no more links than an import takes.
\<close>

theorem netscape_export_reads_back:
  assumes ok: "library_ok db" "texts_ok db" and ready: "export_ready tx w a (xa_only ask)" and account: "js_lower (xa_accountId ask) = a"
    and bound: "1 \<le> page" "length (bookmarks db) < fuel * page" "length (lb_folders db) < fuel * page"
    and few: "exported_links db w a (selection_ids (xa_only ask)) (readsShared ask) \<le> IMPORT_MAX_BOOKMARKS"
    and codecs: "codec_ok encode decode" "lower_ok lower"
  shows "\<exists>written. exportNetscapeStream encode fuel page (exportRepository tx) ask db = Inr (written, db) \<and>
    parseNetscapeBookmarks decode lower written =
      Some (read_file (exported_loose db w a (selection_ids (xa_only ask)) (readsShared ask)) (exported_sections db w a (selection_ids (xa_only ask))))"
  by (rule export_read_back [OF assms])

theorem netscape_export_reads_back_witness:
  "\<exists>written. exportNetscapeStream utf8_of 2 2 (exportRepository lib_tx) lib_export filed_library = Inr (written, filed_library) \<and>
    parseNetscapeBookmarks utf8_read (map ascii_lower) written =
      Some [link_read (lit ''https://a.example/x'') None [] (lit ''Plan''),
        link_read (lit ''https://a.example/x'') (Some (lit ''R&D <1>'')) [lit ''work''] (lit ''Docs'')]"
proof -
  have "read_file (exported_loose filed_library lib_space lib_ada None True) (exported_sections filed_library lib_space lib_ada None) =
      [link_read (lit ''https://a.example/x'') None [] (lit ''Plan''),
       link_read (lit ''https://a.example/x'') (Some (lit ''R&D <1>'')) [lit ''work''] (lit ''Docs'')]"
    by code_simp
  moreover have "readsShared lib_export" "xa_only lib_export = None"
    by code_simp+
  moreover have "1 \<le> (2 :: nat)" "length (bookmarks filed_library) < 2 * 2" "length (lb_folders filed_library) < 2 * 2"
      "exported_links filed_library lib_space lib_ada None True \<le> IMPORT_MAX_BOOKMARKS"
    by code_simp+
  ultimately show ?thesis
    using netscape_export_reads_back [OF filed_library_ok lib_export_ready, of 2 2, OF _ _ _ _ utf8_codec ascii_lower_ok] by simp
qed

section \<open>Nothing missing and nothing more\<close>




















end
