(* ===== verification/LibraryTags.thy ===== *)
theory LibraryTags
  imports LibraryServices
begin

text \<open>
  The tags of a member: the services (\<open>packages/core/src/tags/\<close>) over a store, and the store on the database
  (\<open>packages/db/src/repositories/tags.ts\<close> with the locks and the copy of a merge of \<open>tag-links.ts\<close>). The time a tag was made is left out.
  What other transactions commit between two statements of a call is a parameter where the code guards against it.
\<close>

section \<open>The store\<close>

record tag_record =
  tc_id :: string
  tc_name :: string
  tc_bookmarkCount :: nat

record new_tag =
  nt_id :: string
  nt_ownerId :: string
  nt_name :: string

datatype tag_sort = TagsByName | TagsByCount

datatype tag_creation = TagCreated tag_record | TagNameTaken

record tag_position =
  tp_count :: "nat option"
  tp_name :: string
  tp_id :: string

record tag_list_request =
  tl_ownerId :: string
  tl_sort :: tag_sort
  tl_after :: "tag_position option"
  tl_limit :: nat

record tag_rename_request =
  rn_tagId :: string
  rn_ownerId :: string
  rn_name :: string

datatype tag_rename = TagRenamed tag_record | TagUnchanged tag_record | RenameTaken | RenameNotFound

record tag_merge_request =
  mr_sourceId :: string
  mr_targetId :: string
  mr_ownerId :: string

datatype tag_merge = TagMerged tag_record | MergeNotFound | SameTag

record 's tag_store =
  tgs_create :: "new_tag \<Rightarrow> ('s, tag_creation) tx"
  tgs_list :: "tag_list_request \<Rightarrow> ('s, tag_record list) tx"
  tgs_count :: "string \<Rightarrow> nat \<Rightarrow> ('s, nat) tx"
  tgs_rename :: "tag_rename_request \<Rightarrow> ('s, tag_rename) tx"
  tgs_merge :: "tag_merge_request \<Rightarrow> ('s, tag_merge) tx"
  tgs_remove :: "string \<Rightarrow> string \<Rightarrow> ('s, bool) tx"

section \<open>The services\<close>

datatype tag_creation_outcome = TagMade tag_creation | TagNameRefused name_refusal

definition createTag :: "'s tag_store \<Rightarrow> string \<Rightarrow> string \<Rightarrow> string \<Rightarrow> ('s, tag_creation_outcome) tx" where
  "createTag store newId accountId name =
     (case normalizeTagName name of
        Inl reason \<Rightarrow> tx_return (TagNameRefused reason)
      | Inr n \<Rightarrow> tx_bind (tgs_create store \<lparr>nt_id = newId, nt_ownerId = js_lower accountId, nt_name = n\<rparr>) (\<lambda>made. tx_return (TagMade made)))"

definition deleteTag :: "'s tag_store \<Rightarrow> string \<Rightarrow> string \<Rightarrow> ('s, bool) tx" where
  "deleteTag store tagId accountId = tgs_remove store tagId (js_lower accountId)"

definition mergeTag :: "'s tag_store \<Rightarrow> string \<Rightarrow> string \<Rightarrow> string \<Rightarrow> ('s, tag_merge) tx" where
  "mergeTag store tagId intoTagId accountId =
     tgs_merge store \<lparr>mr_sourceId = js_lower tagId, mr_targetId = js_lower intoTagId, mr_ownerId = js_lower accountId\<rparr>"

datatype tag_rename_outcome = RenameDone tag_rename | RenameNameRefused name_refusal

definition renameTag :: "'s tag_store \<Rightarrow> string \<Rightarrow> string \<Rightarrow> string \<Rightarrow> ('s, tag_rename_outcome) tx" where
  "renameTag store tagId accountId name =
     (case normalizeTagName name of
        Inl reason \<Rightarrow> tx_return (RenameNameRefused reason)
      | Inr n \<Rightarrow> tx_bind (tgs_rename store \<lparr>rn_tagId = tagId, rn_ownerId = js_lower accountId, rn_name = n\<rparr>) (\<lambda>r. tx_return (RenameDone r)))"

definition TAG_LIST_TOTAL_CAP :: nat where
  "TAG_LIST_TOTAL_CAP = 10000"

definition capped_total :: "nat \<Rightarrow> nat \<Rightarrow> nat option" where
  "capped_total cap counted = (if counted > cap then None else Some counted)"

text \<open>The scope of a cursor: the workspace, the account and the order.\<close>

type_synonym tag_cursor_scope = "string \<times> string \<times> tag_sort"

record tag_cursors =
  tk_seal :: "tag_position \<Rightarrow> tag_cursor_scope \<Rightarrow> string"
  tk_open :: "string \<Rightarrow> tag_cursor_scope \<Rightarrow> tag_position option"

record tag_list_ask =
  ta_workspaceId :: string
  ta_accountId :: string
  ta_sort :: tag_sort
  ta_limit :: nat
  ta_cursor :: "string option"

datatype tag_list_outcome = TagsListed "tag_record list" "string option" "nat option" | TagsBadCursor

definition tagCursorScope :: "tag_list_ask \<Rightarrow> tag_cursor_scope" where
  "tagCursorScope ask = (js_lower (ta_workspaceId ask), js_lower (ta_accountId ask), ta_sort ask)"

text \<open>A cursor opened at a position of the order; the outer \<open>None\<close> is a bad cursor.\<close>

definition tag_after_of :: "tag_cursors \<Rightarrow> tag_list_ask \<Rightarrow> tag_position option option" where
  "tag_after_of cursors ask =
     (case ta_cursor ask of
        None \<Rightarrow> Some None
      | Some c \<Rightarrow>
          (case tk_open cursors c (tagCursorScope ask) of
             None \<Rightarrow> None
           | Some p \<Rightarrow> if (ta_sort ask = TagsByCount) \<noteq> (tp_count p \<noteq> None) then None else Some (Some p)))"

definition listTags :: "'s tag_store \<Rightarrow> tag_cursors \<Rightarrow> tag_list_ask \<Rightarrow> ('s, tag_list_outcome) tx" where
  "listTags store cursors ask =
     (case tag_after_of cursors ask of
        None \<Rightarrow> tx_return TagsBadCursor
      | Some after \<Rightarrow>
          (let ownerId = js_lower (ta_accountId ask)
           in tx_bind (tgs_list store \<lparr>tl_ownerId = ownerId, tl_sort = ta_sort ask, tl_after = after, tl_limit = ta_limit ask + 1\<rparr>) (\<lambda>fetched.
              tx_bind (tgs_count store ownerId (TAG_LIST_TOTAL_CAP + 1)) (\<lambda>counted.
                let items = take (ta_limit ask) fetched
                in tx_return (TagsListed items
                     (if length fetched > ta_limit ask \<and> items \<noteq> [] then
                        Some (tk_seal cursors \<lparr>tp_count = (if ta_sort ask = TagsByCount then Some (tc_bookmarkCount (last items)) else None),
                          tp_name = tc_name (last items), tp_id = tc_id (last items)\<rparr> (tagCursorScope ask))
                      else None)
                     (capped_total TAG_LIST_TOTAL_CAP counted))))))"

definition tagStats :: "'s tag_store \<Rightarrow> string \<Rightarrow> nat \<Rightarrow> ('s, tag_record list \<times> nat option) tx" where
  "tagStats store accountId limit =
     tx_bind (tgs_list store \<lparr>tl_ownerId = js_lower accountId, tl_sort = TagsByCount, tl_after = None, tl_limit = limit\<rparr>) (\<lambda>items.
     tx_bind (tgs_count store (js_lower accountId) (TAG_LIST_TOTAL_CAP + 1)) (\<lambda>counted.
       tx_return (items, capped_total TAG_LIST_TOTAL_CAP counted)))"

section \<open>The statements\<close>

definition requireTagOwner :: "tenant_tx \<Rightarrow> string \<Rightarrow> ('s, unit) tx" where
  "requireTagOwner tx ownerId =
     tx_require (js_lower ownerId = tx_accountId tx) (JsError ''a tag is read and written for the account of the transaction only'')"

text \<open>The bookmarks a tag is linked to that are not plan-archived.\<close>

definition tag_count :: "library \<Rightarrow> tag_row \<Rightarrow> nat" where
  "tag_count db t =
     length (concat (map (\<lambda>l. filter (\<lambda>b. bm_workspace_id b = bt_workspace_id l \<and> bm_id b = bt_bookmark_id l \<and> bm_plan_archived_at b = None) (bookmarks db))
       (filter (\<lambda>l. bt_workspace_id l = tg_workspace_id t \<and> bt_tag_id l = tg_id t) (lb_bookmark_tags db))))"

definition tag_record_of :: "library \<Rightarrow> tag_row \<Rightarrow> tag_record" where
  "tag_record_of db t = \<lparr>tc_id = tg_id t, tc_name = tg_name t, tc_bookmarkCount = tag_count db t\<rparr>"

definition tag_rank :: "(string \<Rightarrow> string) \<Rightarrow> tag_sort \<Rightarrow> tag_record \<Rightarrow> int \<times> string \<times> string" where
  "tag_rank name_key ord r =
     (case ord of TagsByName \<Rightarrow> 0 | TagsByCount \<Rightarrow> - int (tc_bookmarkCount r), name_key (tc_name r), tc_id r)"

definition tag_follows :: "(string \<Rightarrow> string) \<Rightarrow> tag_sort \<Rightarrow> tag_position option \<Rightarrow> tag_record \<Rightarrow> bool" where
  "tag_follows name_key ord after r =
     (case after of
        None \<Rightarrow> True
      | Some p \<Rightarrow>
          (let by_name = (name_key (tp_name p), uuid_cast (tp_id p)) < (name_key (tc_name r), tc_id r)
           in case ord of
                TagsByName \<Rightarrow> by_name
              | TagsByCount \<Rightarrow>
                  (case tp_count p of None \<Rightarrow> True | Some c \<Rightarrow> tc_bookmarkCount r < c \<or> tc_bookmarkCount r = c \<and> by_name)))"

definition tagsQuery :: "(string \<Rightarrow> string) \<Rightarrow> string \<Rightarrow> string \<Rightarrow> tag_sort \<Rightarrow> tag_position option \<Rightarrow> nat option \<Rightarrow> string option \<Rightarrow> library \<Rightarrow> tag_record list" where
  "tagsQuery name_key w owner ord after limit tagId db =
     (let rows = sort_key (tag_rank name_key ord) (filter (tag_follows name_key ord after)
            (map (tag_record_of db) (filter (\<lambda>t. owned_tag w owner t \<and> (case tagId of None \<Rightarrow> True | Some i \<Rightarrow> tg_id t = i)) (lb_tags db))))
      in case limit of None \<Rightarrow> rows | Some n \<Rightarrow> take n rows)"

definition own_tag_row :: "string \<Rightarrow> string \<Rightarrow> string \<Rightarrow> tag_row \<Rightarrow> bool" where
  "own_tag_row w owner tagId t \<longleftrightarrow> owned_tag w owner t \<and> tg_id t = tagId"

text \<open>A tag's links go with it.\<close>

definition delete_tags :: "(tag_row \<Rightarrow> bool) \<Rightarrow> library \<Rightarrow> library" where
  "delete_tags P db =
     (let gone = map tg_id (filter P (lb_tags db))
      in db\<lparr>lb_tags := filter (\<lambda>t. \<not> P t) (lb_tags db), lb_bookmark_tags := filter (\<lambda>l. bt_tag_id l \<notin> set gone) (lb_bookmark_tags db)\<rparr>)"

section \<open>The repository\<close>

text \<open>A call for the account of the transaction in its workspace.\<close>

definition for_tag_owner :: "tenant_tx \<Rightarrow> string \<Rightarrow> (string \<Rightarrow> string \<Rightarrow> (library, 'r) tx) \<Rightarrow> (library, 'r) tx" where
  "for_tag_owner tx ownerId f =
     tx_bind (requireTagOwner tx ownerId) (\<lambda>_. with_workspace tx ''the tags of a workspace'' (\<lambda>w. f w (uuid_cast (tx_accountId tx))))"

definition db_createTag :: "tenant_tx \<Rightarrow> new_tag \<Rightarrow> (library, tag_creation) tx" where
  "db_createTag tx new =
     for_tag_owner tx (nt_ownerId new) (\<lambda>w owner db.
       let taken = list_ex (\<lambda>t. owned_tag w owner t \<and> same_name (tg_name t) (nt_name new)) (lb_tags db)
       in case insert_tags owner w owner [\<lparr>tn_name = nt_name new, tn_newId = nt_id new\<rparr>] db of
            Inl e \<Rightarrow> Inl e
          | Inr db' \<Rightarrow>
              if taken then Inr (TagNameTaken, db')
              else case find (own_tag_row w owner (uuid_cast (nt_id new))) (lb_tags db') of
                None \<Rightarrow> Inl (JsError ''an inserted tag cannot be read back'')
              | Some t \<Rightarrow> Inr (TagCreated \<lparr>tc_id = tg_id t, tc_name = tg_name t, tc_bookmarkCount = 0\<rparr>, db'))"

definition db_listTags :: "(string \<Rightarrow> string) \<Rightarrow> tenant_tx \<Rightarrow> tag_list_request \<Rightarrow> (library, tag_record list) tx" where
  "db_listTags name_key tx request =
     for_tag_owner tx (tl_ownerId request) (\<lambda>w owner.
       read_db (tagsQuery name_key w owner (tl_sort request) (tl_after request) (Some (tl_limit request)) None))"

definition db_countTags :: "tenant_tx \<Rightarrow> string \<Rightarrow> nat \<Rightarrow> (library, nat) tx" where
  "db_countTags tx ownerId limit =
     for_tag_owner tx ownerId (\<lambda>w owner. read_db (\<lambda>db. length (take limit (filter (owned_tag w owner) (lb_tags db)))))"

text \<open>\<open>UPDATE tags SET name\<close> where no other tag of the owner has the name; the check of the table.\<close>

definition update_tag_name :: "string \<Rightarrow> string \<Rightarrow> string \<Rightarrow> string \<Rightarrow> library \<Rightarrow> js_error + bool \<times> library" where
  "update_tag_name w owner tagId name db =
     (if \<not> list_ex (own_tag_row w owner tagId) (lb_tags db) \<or>
         list_ex (\<lambda>t. owned_tag w owner t \<and> same_name (tg_name t) name \<and> tg_id t \<noteq> tagId) (lb_tags db) then Inr (False, db)
      else if length name < 1 \<or> length name > 40 then Inl (postgres_error ''23514'')
      else Inr (True, db\<lparr>lb_tags := map (\<lambda>t. if own_tag_row w owner tagId t then t\<lparr>tg_name := name\<rparr> else t) (lb_tags db)\<rparr>))"

text \<open>\<open>meanwhile\<close>: what others commit after the tag was read.\<close>

definition db_renameTag :: "(library \<Rightarrow> library) \<Rightarrow> (string \<Rightarrow> string) \<Rightarrow> tenant_tx \<Rightarrow> tag_rename_request \<Rightarrow> (library, tag_rename) tx" where
  "db_renameTag meanwhile name_key tx request =
     for_tag_owner tx (rn_ownerId request) (\<lambda>w owner db.
       let i = uuid_cast (rn_tagId request); name = rn_name request;
           answer = (\<lambda>made db'. case tagsQuery name_key w owner TagsByName None None (Some i) db' of
             [] \<Rightarrow> Inr (RenameNotFound, db') | r # _ \<Rightarrow> Inr (made r, db'))
       in case find (own_tag_row w owner i) (lb_tags db) of
            None \<Rightarrow> Inr (RenameNotFound, db)
          | Some current \<Rightarrow>
              if tg_name current = name then answer TagUnchanged (meanwhile db)
              else case update_tag_name w owner i name (meanwhile db) of
                Inl e \<Rightarrow> Inl e
              | Inr (True, db') \<Rightarrow> answer TagRenamed db'
              | Inr (False, db') \<Rightarrow> Inr (if list_ex (own_tag_row w owner i) (lb_tags db') then RenameTaken else RenameNotFound, db'))"

definition db_removeTag :: "tenant_tx \<Rightarrow> string \<Rightarrow> string \<Rightarrow> (library, bool) tx" where
  "db_removeTag tx tagId ownerId =
     for_tag_owner tx ownerId (\<lambda>w owner db.
       Inr (list_ex (own_tag_row w owner (uuid_cast tagId)) (lb_tags db), delete_tags (own_tag_row w owner (uuid_cast tagId)) db))"

section \<open>Merging\<close>

definition MERGE_LOCK_ROUNDS :: nat where
  "MERGE_LOCK_ROUNDS = 5"

definition links_of_tag :: "library \<Rightarrow> string \<Rightarrow> string \<Rightarrow> bookmark_tag_row list" where
  "links_of_tag db w tagId = filter (\<lambda>l. bt_workspace_id l = w \<and> bt_tag_id l = tagId) (lb_bookmark_tags db)"

text \<open>
  A round locks the bookmarks of the source's links and then the tags; \<open>meanwhile\<close> is what others commit between the two. A link of a
  bookmark that is not locked undoes the round, which has written nothing.
\<close>

fun merge_lock_rounds :: "(nat \<Rightarrow> library \<Rightarrow> library) \<Rightarrow> string \<Rightarrow> string \<Rightarrow> string \<Rightarrow> string list \<Rightarrow> nat \<Rightarrow> (library, bool) tx" where
  "merge_lock_rounds meanwhile w owner source wanted 0 db = Inl (JsError ''the links of a tag kept changing while it was locked for a merge'')"
| "merge_lock_rounds meanwhile w owner source wanted (Suc left) db =
     (let held = map bm_id (filter (\<lambda>b. bm_workspace_id b = w \<and> bm_id b \<in> set (map bt_bookmark_id (links_of_tag db w source))) (bookmarks db));
          db' = meanwhile left db;
          locked = filter (\<lambda>t. owned_tag w owner t \<and> tg_id t \<in> set wanted) (lb_tags db');
          complete = (length locked = length wanted \<and>
            (length wanted \<noteq> 2 \<or> list_all (\<lambda>l. bt_bookmark_id l \<in> set held) (links_of_tag db' w source)))
      in if length locked \<noteq> length wanted \<or> complete then Inr (complete, db')
         else merge_lock_rounds meanwhile w owner source wanted left db')"

definition lockTagsForMerge :: "(nat \<Rightarrow> library \<Rightarrow> library) \<Rightarrow> tenant_tx \<Rightarrow> string \<Rightarrow> string \<Rightarrow> string \<Rightarrow> (library, bool) tx" where
  "lockTagsForMerge meanwhile tx ownerId sourceId targetId =
     with_workspace tx ''merging tags'' (\<lambda>w.
       tx_bind (requireIdentifiers [sourceId, targetId] ''merging tags'') (\<lambda>_.
         merge_lock_rounds meanwhile w (uuid_cast ownerId) (uuid_cast sourceId) (map uuid_cast (sort (js_unique [sourceId, targetId]))) MERGE_LOCK_ROUNDS))"

definition copyTagLinks :: "tenant_tx \<Rightarrow> string \<Rightarrow> string \<Rightarrow> (library, nat) tx" where
  "copyTagLinks tx sourceId targetId =
     with_workspace tx ''merging tags'' (\<lambda>w.
       tx_bind (requireIdentifiers [sourceId, targetId] ''merging tags'') (\<lambda>_ db.
         insert_tag_links tx w (map (\<lambda>l. l\<lparr>bt_tag_id := uuid_cast targetId\<rparr>) (links_of_tag db w (uuid_cast sourceId))) db))"

definition db_mergeTags :: "(nat \<Rightarrow> library \<Rightarrow> library) \<Rightarrow> (string \<Rightarrow> string) \<Rightarrow> tenant_tx \<Rightarrow> tag_merge_request \<Rightarrow> (library, tag_merge) tx" where
  "db_mergeTags meanwhile name_key tx request =
     (let sourceId = mr_sourceId request; targetId = mr_targetId request; owner = uuid_cast (tx_accountId tx)
      in tx_bind (requireTagOwner tx (mr_ownerId request)) (\<lambda>_.
         tx_bind (lockTagsForMerge meanwhile tx owner sourceId targetId) (\<lambda>found.
           if \<not> found then tx_return MergeNotFound
           else if sourceId = targetId then tx_return SameTag
           else tx_bind (copyTagLinks tx sourceId targetId) (\<lambda>_.
                tx_bind (db_removeTag tx sourceId owner) (\<lambda>deleted.
                  if \<not> deleted then tx_throw (JsError ''a merged tag cannot be deleted'')
                  else with_workspace tx ''the tags of a workspace'' (\<lambda>w db.
                    case tagsQuery name_key w owner TagsByName None None (Some (uuid_cast targetId)) db of
                      [] \<Rightarrow> Inl (JsError ''a merged tag cannot be read back'')
                    | r # _ \<Rightarrow> Inr (TagMerged r, db)))))))"

definition tagRepository :: "(library \<Rightarrow> library) \<Rightarrow> (nat \<Rightarrow> library \<Rightarrow> library) \<Rightarrow> (string \<Rightarrow> string) \<Rightarrow> tenant_tx \<Rightarrow> library tag_store" where
  "tagRepository between rounds name_key tx =
     \<lparr>tgs_create = db_createTag tx, tgs_list = db_listTags name_key tx, tgs_count = db_countTags tx, tgs_rename = db_renameTag between name_key tx,
      tgs_merge = db_mergeTags rounds name_key tx, tgs_remove = db_removeTag tx\<rparr>"

end
