(* ===== verification/LibraryFolders.thy ===== *)
theory LibraryFolders
  imports LibraryTags Sharing GoDb
begin

text \<open>
  The folders of a member: the services (\<open>packages/core/src/folders/\<close>) over a store, and the store on the database
  (\<open>packages/db/src/repositories/folders.ts\<close>, with the trigger of \<open>packages/db/src/sql/520-folders.sql\<close>). The time a folder was made is
  left out; the time of its last change, which the code prints as text and casts back, is a number.
\<close>

section \<open>Names and styles\<close>

definition FOLDER_NAME_MAX_LENGTH :: nat where
  "FOLDER_NAME_MAX_LENGTH = 64"

definition FOLDER_ICONS :: "string list" where
  "FOLDER_ICONS =
    [''folder'', ''folder-open'', ''folder-heart'', ''folder-code'', ''folder-archive'', ''briefcase'', ''building-2'', ''book'',
    ''book-open'', ''bookmark'', ''star'', ''heart'', ''house'', ''newspaper'', ''graduation-cap'', ''flask-conical'', ''code'',
    ''terminal'', ''cpu'', ''database'', ''server'', ''cloud'', ''globe'', ''map'', ''map-pin'', ''plane'', ''car'',
    ''utensils'', ''coffee'', ''shopping-cart'', ''gift'', ''music'', ''film'', ''camera'', ''image'', ''video'', ''gamepad-2'',
    ''palette'', ''lightbulb'', ''rocket'', ''target'', ''trophy'', ''flag'', ''tag'', ''wallet'', ''credit-card'', ''dumbbell'',
    ''leaf'', ''sun'', ''moon'', ''zap'', ''shield'', ''lock'', ''users'', ''mail'', ''calendar'', ''inbox'', ''package'',
    ''wrench'', ''sparkles'']"

definition FOLDER_COLOR_MIN :: nat where
  "FOLDER_COLOR_MIN = 1"

definition FOLDER_COLOR_MAX :: nat where
  "FOLDER_COLOR_MAX = 8"

definition FOLDER_DEFAULT_ICON :: string where
  "FOLDER_DEFAULT_ICON = ''folder''"

definition FOLDER_DEFAULT_COLOR :: nat where
  "FOLDER_DEFAULT_COLOR = 1"

definition normalizeFolderName :: "string \<Rightarrow> name_refusal + string" where
  "normalizeFolderName name =
     (let trimmed = js_trim name
      in if length trimmed < 1 then Inl NameEmpty
         else if length trimmed > FOLDER_NAME_MAX_LENGTH then Inl NameTooLong
         else Inr trimmed)"

definition assertFolderStyle :: "string option \<Rightarrow> nat option \<Rightarrow> ('s, unit) tx" where
  "assertFolderStyle icon color =
     tx_bind (tx_require (case icon of None \<Rightarrow> True | Some i \<Rightarrow> i \<in> set FOLDER_ICONS) (RangeError ''a folder icon is one of the published list'')) (\<lambda>_.
       tx_require (case color of None \<Rightarrow> True | Some c \<Rightarrow> FOLDER_COLOR_MIN \<le> c \<and> c \<le> FOLDER_COLOR_MAX) (RangeError ''a folder colour is 1 to 8''))"

section \<open>The store\<close>

record folder_team =
  ft_id :: string
  ft_name :: string

record folder_share_summary =
  fss_memberCount :: nat
  fss_teams :: "folder_team list"

record folder_record =
  fd_id :: string
  fd_ownerId :: "string option"
  fd_name :: string
  fd_icon :: string
  fd_color :: nat
  fd_bookmarkCount :: nat
  fd_version :: nat
  fd_updatedAt :: nat
  fd_owner :: "bookmark_owner option"
  fd_shareSummary :: "folder_share_summary option"

record new_folder =
  nf_id :: string
  nf_ownerId :: string
  nf_name :: string
  nf_icon :: string
  nf_color :: nat

datatype folder_sort = FoldersByName | FoldersByCount | FoldersByUpdated
datatype folder_scope = FoldersAll | FoldersMine | FoldersShared
datatype folder_creation = FolderCreated folder_record | FolderNameTaken

record folder_position =
  fp_count :: "nat option"
  fp_updated :: "nat option"
  fp_name :: string
  fp_id :: string

record folder_list_request =
  fl_viewerId :: string
  fl_scope :: folder_scope
  fl_search :: "string option"
  fl_sort :: folder_sort
  fl_after :: "folder_position option"
  fl_limit :: nat

record folder_changes =
  fg_name :: "string option"
  fg_icon :: "string option"
  fg_color :: "nat option"

record folder_update_request =
  fu_folderId :: string
  fu_ownerId :: string
  fu_changes :: folder_changes
  fu_expectedVersions :: "nat list option"

datatype folder_update =
    FolderUpdated folder_record
  | FolderUnchanged folder_record
  | FolderStale
  | FolderUpdateTaken
  | FolderUpdateNotFound
  | FolderUpdateForbidden

record filing_request =
  fq_folderId :: string
  fq_ownerId :: string
  fq_bookmarkIds :: "string list"

datatype folder_filing = FilingDone folder_record nat | FilingNotFound | FilingForbidden

record 's folder_store =
  fls_create :: "new_folder \<Rightarrow> ('s, folder_creation) tx"
  fls_find :: "string \<Rightarrow> string \<Rightarrow> ('s, folder_record option) tx"
  fls_list :: "folder_list_request \<Rightarrow> ('s, folder_record list) tx"
  fls_count :: "string \<Rightarrow> folder_scope \<Rightarrow> string option \<Rightarrow> nat \<Rightarrow> ('s, nat) tx"
  fls_sharedWith :: "string \<Rightarrow> string \<Rightarrow> ('s, bool) tx"
  fls_update :: "folder_update_request \<Rightarrow> ('s, folder_update) tx"
  fls_remove :: "string \<Rightarrow> string \<Rightarrow> ('s, bool) tx"
  fls_file :: "filing_request \<Rightarrow> ('s, folder_filing) tx"
  fls_unfile :: "filing_request \<Rightarrow> ('s, folder_filing) tx"
  fls_sharedAmong :: "string list \<Rightarrow> string \<Rightarrow> ('s, string list) tx"

section \<open>The services\<close>

datatype folder_creation_outcome = FolderMade folder_creation | FolderNameRefused name_refusal

definition createFolder :: "'s folder_store \<Rightarrow> string \<Rightarrow> string \<Rightarrow> string \<Rightarrow> string option \<Rightarrow> nat option \<Rightarrow> ('s, folder_creation_outcome) tx" where
  "createFolder store newId accountId name icon color =
     (case normalizeFolderName name of
        Inl reason \<Rightarrow> tx_return (FolderNameRefused reason)
      | Inr n \<Rightarrow>
          tx_bind (assertFolderStyle icon color) (\<lambda>_.
          tx_bind (fls_create store \<lparr>nf_id = newId, nf_ownerId = js_lower accountId, nf_name = n,
              nf_icon = (case icon of None \<Rightarrow> FOLDER_DEFAULT_ICON | Some i \<Rightarrow> i), nf_color = (case color of None \<Rightarrow> FOLDER_DEFAULT_COLOR | Some c \<Rightarrow> c)\<rparr>)
            (\<lambda>made. tx_return (FolderMade made))))"

datatype folder_deletion = FolderDeleted | FolderNotFound | FolderForbidden

definition deleteFolder :: "'s folder_store \<Rightarrow> string \<Rightarrow> string \<Rightarrow> ('s, folder_deletion) tx" where
  "deleteFolder store folderId account =
     (let accountId = js_lower account
      in tx_bind (fls_remove store folderId accountId) (\<lambda>removed.
           if removed then tx_return FolderDeleted
           else tx_bind (fls_sharedWith store folderId accountId) (\<lambda>shared. tx_return (if shared then FolderForbidden else FolderNotFound))))"

definition filingRequestOf :: "string \<Rightarrow> string \<Rightarrow> string list \<Rightarrow> filing_request" where
  "filingRequestOf folderId accountId bookmarkIds =
     \<lparr>fq_folderId = js_lower folderId, fq_ownerId = js_lower accountId, fq_bookmarkIds = js_unique (map js_lower bookmarkIds)\<rparr>"

definition judged :: "'s folder_store \<Rightarrow> filing_request \<Rightarrow> folder_filing \<Rightarrow> ('s, folder_filing) tx" where
  "judged store request answer =
     (if answer \<noteq> FilingNotFound then tx_return answer
      else tx_bind (fls_sharedWith store (fq_folderId request) (fq_ownerId request)) (\<lambda>shared.
        if shared then tx_return FilingForbidden
        else tx_bind (fls_sharedAmong store (fq_bookmarkIds request) (fq_ownerId request)) (\<lambda>among.
          tx_return (if length among > 0 then FilingForbidden else answer))))"

definition fileBookmarks :: "'s folder_store \<Rightarrow> string \<Rightarrow> string \<Rightarrow> string list \<Rightarrow> ('s, folder_filing) tx" where
  "fileBookmarks store folderId accountId bookmarkIds =
     (let request = filingRequestOf folderId accountId bookmarkIds in tx_bind (fls_file store request) (judged store request))"

definition unfileBookmarks :: "'s folder_store \<Rightarrow> string \<Rightarrow> string \<Rightarrow> string list \<Rightarrow> ('s, folder_filing) tx" where
  "unfileBookmarks store folderId accountId bookmarkIds =
     (let request = filingRequestOf folderId accountId bookmarkIds in tx_bind (fls_unfile store request) (judged store request))"

definition readFolder :: "'s folder_store \<Rightarrow> string \<Rightarrow> string \<Rightarrow> ('s, folder_record option) tx" where
  "readFolder store folderId accountId = fls_find store folderId (js_lower accountId)"

datatype folder_update_outcome = FolderUpdateDone folder_update | FolderUpdateNameRefused name_refusal

text \<open>The name a patch gives, where it gives one.\<close>

definition patchedName :: "folder_changes \<Rightarrow> name_refusal + string option" where
  "patchedName patch = (case fg_name patch of None \<Rightarrow> Inr None | Some n \<Rightarrow> map_sum id Some (normalizeFolderName n))"

definition updateFolder :: "'s folder_store \<Rightarrow> string \<Rightarrow> string \<Rightarrow> folder_changes \<Rightarrow> nat list option \<Rightarrow> ('s, folder_update_outcome) tx" where
  "updateFolder store folderId account patch expectedVersions =
     (case patchedName patch of
        Inl reason \<Rightarrow> tx_return (FolderUpdateNameRefused reason)
      | Inr name \<Rightarrow>
          tx_bind (assertFolderStyle (fg_icon patch) (fg_color patch)) (\<lambda>_.
            (let accountId = js_lower account
             in tx_bind (fls_update store \<lparr>fu_folderId = folderId, fu_ownerId = accountId, fu_changes = patch\<lparr>fg_name := name\<rparr>,
                  fu_expectedVersions = expectedVersions\<rparr>) (\<lambda>result.
                if result = FolderUpdateNotFound then
                  tx_bind (fls_sharedWith store folderId accountId) (\<lambda>shared. tx_return (FolderUpdateDone (if shared then FolderUpdateForbidden else result)))
                else tx_return (FolderUpdateDone result)))))"

definition FOLDER_LIST_TOTAL_CAP :: nat where
  "FOLDER_LIST_TOTAL_CAP = 10000"

type_synonym folder_cursor_scope = "string \<times> string \<times> folder_scope \<times> string option \<times> folder_sort"

record folder_cursors =
  fk_seal :: "folder_position \<Rightarrow> folder_cursor_scope \<Rightarrow> string"
  fk_open :: "string \<Rightarrow> folder_cursor_scope \<Rightarrow> folder_position option"

record folder_list_ask =
  fx_workspaceId :: string
  fx_accountId :: string
  fx_scope :: folder_scope
  fx_search :: "string option"
  fx_sort :: folder_sort
  fx_limit :: nat
  fx_cursor :: "string option"

datatype folder_list_outcome = FoldersListed "folder_record list" "string option" "nat option" | FoldersBadCursor

definition folderCursorScope :: "folder_list_ask \<Rightarrow> folder_cursor_scope" where
  "folderCursorScope ask = (js_lower (fx_workspaceId ask), js_lower (fx_accountId ask), fx_scope ask, fx_search ask, fx_sort ask)"

definition fitsSort :: "folder_position \<Rightarrow> folder_sort \<Rightarrow> bool" where
  "fitsSort p ord \<longleftrightarrow> (ord = FoldersByCount) = (fp_count p \<noteq> None) \<and> (ord = FoldersByUpdated) = (fp_updated p \<noteq> None)"

definition folder_after_of :: "folder_cursors \<Rightarrow> folder_list_ask \<Rightarrow> folder_position option option" where
  "folder_after_of cursors ask =
     (case fx_cursor ask of
        None \<Rightarrow> Some None
      | Some c \<Rightarrow>
          (case fk_open cursors c (folderCursorScope ask) of
             None \<Rightarrow> None
           | Some p \<Rightarrow> if fitsSort p (fx_sort ask) then Some (Some p) else None))"

definition folder_position_of :: "folder_sort \<Rightarrow> folder_record \<Rightarrow> folder_position" where
  "folder_position_of ord r =
     \<lparr>fp_count = (if ord = FoldersByCount then Some (fd_bookmarkCount r) else None), fp_updated = (if ord = FoldersByUpdated then Some (fd_updatedAt r) else None),
      fp_name = fd_name r, fp_id = fd_id r\<rparr>"

definition listFolders :: "'s folder_store \<Rightarrow> folder_cursors \<Rightarrow> folder_list_ask \<Rightarrow> ('s, folder_list_outcome) tx" where
  "listFolders store cursors ask =
     (case folder_after_of cursors ask of
        None \<Rightarrow> tx_return FoldersBadCursor
      | Some after \<Rightarrow>
          (let viewerId = js_lower (fx_accountId ask)
           in tx_bind (fls_list store \<lparr>fl_viewerId = viewerId, fl_scope = fx_scope ask, fl_search = fx_search ask, fl_sort = fx_sort ask,
                 fl_after = after, fl_limit = fx_limit ask + 1\<rparr>) (\<lambda>fetched.
              tx_bind (fls_count store viewerId (fx_scope ask) (fx_search ask) (FOLDER_LIST_TOTAL_CAP + 1)) (\<lambda>counted.
                let items = take (fx_limit ask) fetched
                in tx_return (FoldersListed items
                     (if length fetched > fx_limit ask \<and> items \<noteq> [] then
                        Some (fk_seal cursors (folder_position_of (fx_sort ask) (last items)) (folderCursorScope ask))
                      else None)
                     (capped_total FOLDER_LIST_TOTAL_CAP counted))))))"

section \<open>The statements\<close>

text \<open>The bookmarks filed in a folder that are not plan-archived.\<close>

definition folder_count :: "library \<Rightarrow> folder_row \<Rightarrow> nat" where
  "folder_count db f =
     length (concat (map (\<lambda>l. filter (\<lambda>b. bm_workspace_id b = fb_workspace_id l \<and> bm_id b = fb_bookmark_id l \<and> bm_plan_archived_at b = None) (bookmarks db))
       (filter (\<lambda>l. fb_workspace_id l = fo_workspace_id f \<and> fb_folder_id l = fo_id f) (folder_bookmarks db))))"

definition inScope :: "library \<Rightarrow> string \<Rightarrow> string \<Rightarrow> folder_scope \<Rightarrow> folder_row \<Rightarrow> bool" where
  "inScope db w viewer scope f \<longleftrightarrow>
     (let own = (fo_owner_id f = Some viewer); shared = (fo_owner_id f \<noteq> Some viewer \<and> folderSharedWith db viewer (fo_workspace_id f) (fo_id f))
      in fo_workspace_id f = w \<and> (case scope of FoldersMine \<Rightarrow> own | FoldersShared \<Rightarrow> shared | FoldersAll \<Rightarrow> own \<or> shared))"

definition containsPattern :: "string \<Rightarrow> string" where
  "containsPattern search = ''%'' @ like_escape search @ ''%''"

text \<open>\<open>ILIKE\<close> compares without regard to case.\<close>

definition matchesSearch :: "string option \<Rightarrow> folder_row \<Rightarrow> bool" where
  "matchesSearch search f = (case search of None \<Rightarrow> True | Some t \<Rightarrow> sql_like (js_lower (containsPattern t)) (js_lower (fo_name f)))"

definition folderOwnerOf :: "library \<Rightarrow> string \<Rightarrow> string \<Rightarrow> folder_row \<Rightarrow> bookmark_owner option" where
  "folderOwnerOf db viewer w f = (if fo_owner_id f = Some viewer then None else bookmark_owner_of db viewer w (fo_owner_id f))"

definition shareSummaryOf :: "(string \<Rightarrow> string) \<Rightarrow> library \<Rightarrow> string \<Rightarrow> string \<Rightarrow> folder_share_summary" where
  "shareSummaryOf name_key db w folderId =
     (let shares = filter (\<lambda>s. fs_workspace_id s = w \<and> fs_folder_id s = folderId) (folder_shares db)
      in \<lparr>fss_memberCount = length (filter (\<lambda>s. fs_target_account_id s \<noteq> None) shares),
          fss_teams = map (\<lambda>t. \<lparr>ft_id = te_id t, ft_name = te_name t\<rparr>) (sort_key (\<lambda>t. (name_key (te_name t), te_id t))
            (concat (map (\<lambda>s. filter (\<lambda>t. te_workspace_id t = fs_workspace_id s \<and> Some (te_id t) = fs_target_team_id s) (lb_teams db)) shares)))\<rparr>)"

definition folder_record_of :: "(string \<Rightarrow> string) \<Rightarrow> library \<Rightarrow> string \<Rightarrow> string \<Rightarrow> folder_row \<Rightarrow> folder_record" where
  "folder_record_of name_key db w viewer f =
     \<lparr>fd_id = fo_id f, fd_ownerId = fo_owner_id f, fd_name = fo_name f, fd_icon = fo_icon f, fd_color = fo_color f,
      fd_bookmarkCount = folder_count db f, fd_version = fo_version f, fd_updatedAt = fo_updated_at f,
      fd_owner = folderOwnerOf db viewer w f,
      fd_shareSummary = (if fo_owner_id f = Some viewer then Some (shareSummaryOf name_key db w (fo_id f)) else None)\<rparr>"

definition order_folders :: "(string \<Rightarrow> string) \<Rightarrow> folder_sort \<Rightarrow> folder_record list \<Rightarrow> folder_record list" where
  "order_folders name_key ord rows =
     (case ord of
        FoldersByName \<Rightarrow> sort_key (\<lambda>r. (name_key (fd_name r), fd_id r)) rows
      | FoldersByCount \<Rightarrow> sort_key (\<lambda>r. (- int (fd_bookmarkCount r), name_key (fd_name r), fd_id r)) rows
      | FoldersByUpdated \<Rightarrow> rev (sort_key (\<lambda>r. (fd_updatedAt r, fd_id r)) rows))"

definition folder_follows :: "(string \<Rightarrow> string) \<Rightarrow> folder_sort \<Rightarrow> folder_position option \<Rightarrow> folder_record \<Rightarrow> bool" where
  "folder_follows name_key ord after r =
     (case after of
        None \<Rightarrow> True
      | Some p \<Rightarrow>
          (let by_name = (name_key (fp_name p), uuid_cast (fp_id p)) < (name_key (fd_name r), fd_id r)
           in case ord of
                FoldersByName \<Rightarrow> by_name
              | FoldersByUpdated \<Rightarrow> (case fp_updated p of None \<Rightarrow> True | Some u \<Rightarrow> (fd_updatedAt r, fd_id r) < (u, uuid_cast (fp_id p)))
              | FoldersByCount \<Rightarrow>
                  (case fp_count p of None \<Rightarrow> True | Some c \<Rightarrow> fd_bookmarkCount r < c \<or> fd_bookmarkCount r = c \<and> by_name)))"

record folders_request =
  fz_viewerId :: string
  fz_scope :: folder_scope
  fz_search :: "string option"
  fz_sort :: folder_sort
  fz_after :: "folder_position option"
  fz_limit :: "nat option"
  fz_folderId :: "string option"

definition folders_found :: "(string \<Rightarrow> string) \<Rightarrow> string \<Rightarrow> folders_request \<Rightarrow> library \<Rightarrow> folder_record list" where
  "folders_found name_key w request db =
     (let rows = order_folders name_key (fz_sort request) (filter (folder_follows name_key (fz_sort request) (fz_after request))
            (map (folder_record_of name_key db w (fz_viewerId request))
              (filter (\<lambda>f. inScope db w (fz_viewerId request) (fz_scope request) f \<and>
                 (case fz_folderId request of None \<Rightarrow> True | Some i \<Rightarrow> fo_id f = uuid_cast i) \<and> matchesSearch (fz_search request) f) (lb_folders db))))
      in case fz_limit request of None \<Rightarrow> rows | Some n \<Rightarrow> take n rows)"

definition foldersOf :: "(string \<Rightarrow> string) \<Rightarrow> tenant_tx \<Rightarrow> folders_request \<Rightarrow> (library, folder_record list) tx" where
  "foldersOf name_key tx request = with_workspace tx ''the folders of a workspace'' (\<lambda>w. read_db (folders_found name_key w request))"

text \<open>The request that reads one folder.\<close>

definition one_folder :: "tenant_tx \<Rightarrow> folder_scope \<Rightarrow> string \<Rightarrow> folders_request" where
  "one_folder tx scope folderId =
     \<lparr>fz_viewerId = uuid_cast (tx_accountId tx), fz_scope = scope, fz_search = None, fz_sort = FoldersByName, fz_after = None, fz_limit = None,
      fz_folderId = Some folderId\<rparr>"

definition read_back :: "(string \<Rightarrow> string) \<Rightarrow> tenant_tx \<Rightarrow> string \<Rightarrow> string \<Rightarrow> (library, folder_record) tx" where
  "read_back name_key tx folderId missing =
     tx_bind (foldersOf name_key tx (one_folder tx FoldersMine folderId)) (\<lambda>found.
       case found of [] \<Rightarrow> tx_throw (JsError missing) | r # _ \<Rightarrow> tx_return r)"

section \<open>The rows\<close>

definition own_folder_row :: "string \<Rightarrow> string \<Rightarrow> string \<Rightarrow> folder_row \<Rightarrow> bool" where
  "own_folder_row w owner folderId f \<longleftrightarrow> owned_folder w owner f \<and> fo_id f = folderId"

definition folder_row_checks :: "folder_row \<Rightarrow> bool" where
  "folder_row_checks f \<longleftrightarrow>
     1 \<le> length (fo_name f) \<and> length (fo_name f) \<le> 64 \<and> 1 \<le> length (fo_icon f) \<and> length (fo_icon f) \<le> 40 \<and> 1 \<le> fo_color f \<and> fo_color f \<le> 8"

text \<open>\<open>INSERT \<dots> ON CONFLICT (workspace_id, owner_id, name) DO NOTHING\<close>: whether a row was inserted.\<close>

definition insert_folder :: "folder_row \<Rightarrow> library \<Rightarrow> js_error + bool \<times> library" where
  "insert_folder f db =
     (if \<not> folder_row_checks f then Inl (postgres_error ''23514'')
      else if list_ex (\<lambda>g. fo_workspace_id g = fo_workspace_id f \<and> fo_owner_id g = fo_owner_id f \<and> same_name (fo_name g) (fo_name f)) (lb_folders db) then
        Inr (False, db)
      else if list_ex (\<lambda>g. fo_id g = fo_id f) (lb_folders db) then Inl (postgres_error ''23505'')
      else if (case fo_owner_id f of None \<Rightarrow> False | Some owner \<Rightarrow> \<not> is_member_of db (fo_workspace_id f) owner) then Inl (postgres_error ''23503'')
      else Inr (True, db\<lparr>lb_folders := lb_folders db @ [f]\<rparr>))"

text \<open>The triggers \<open>folders_bump_version\<close> and \<open>folders_set_updated_at\<close>.\<close>

definition bump_folder :: "nat \<Rightarrow> folder_row \<Rightarrow> folder_row \<Rightarrow> folder_row" where
  "bump_folder now old new =
     new\<lparr>fo_version := (if (fo_owner_id new, fo_name new, fo_icon new, fo_color new) \<noteq> (fo_owner_id old, fo_name old, fo_icon old, fo_color old)
           then fo_version old + 1 else fo_version old), fo_updated_at := now\<rparr>"

definition folder_set :: "folder_changes \<Rightarrow> folder_row \<Rightarrow> folder_row" where
  "folder_set changes f =
     f\<lparr>fo_name := (case fg_name changes of None \<Rightarrow> fo_name f | Some n \<Rightarrow> n), fo_icon := (case fg_icon changes of None \<Rightarrow> fo_icon f | Some i \<Rightarrow> i),
       fo_color := (case fg_color changes of None \<Rightarrow> fo_color f | Some c \<Rightarrow> c)\<rparr>"

definition folder_changed :: "folder_changes \<Rightarrow> folder_row \<Rightarrow> bool" where
  "folder_changed changes f \<longleftrightarrow>
     fg_name changes \<notin> {None, Some (fo_name f)} \<or> fg_icon changes \<notin> {None, Some (fo_icon f)} \<or> fg_color changes \<notin> {None, Some (fo_color f)}"

text \<open>The update of the locked row, whether it found it: not where another folder of the owner has the new name.\<close>

definition update_folder :: "folder_row \<Rightarrow> folder_changes \<Rightarrow> library \<Rightarrow> js_error + bool \<times> library" where
  "update_folder current changes db =
     (let new = bump_folder (lb_now db) current (folder_set changes current)
      in if fg_name changes \<notin> {None, Some (fo_name current)} \<and>
            list_ex (\<lambda>g. fo_workspace_id g = fo_workspace_id current \<and> fo_owner_id g = fo_owner_id current \<and> same_name (fo_name g) (fo_name new) \<and>
              fo_id g \<noteq> fo_id current) (lb_folders db) then Inr (False, db)
         else if \<not> folder_row_checks new then Inl (postgres_error ''23514'')
         else Inr (True, db\<lparr>lb_folders := map (\<lambda>g. if fo_id g = fo_id current then new else g) (lb_folders db)\<rparr>))"

text \<open>The filings and the shares of a folder go with it.\<close>

definition delete_folders :: "(folder_row \<Rightarrow> bool) \<Rightarrow> library \<Rightarrow> library" where
  "delete_folders P db =
     (let gone = map fo_id (filter P (lb_folders db))
      in db\<lparr>lb_folders := filter (\<lambda>f. \<not> P f) (lb_folders db), folder_bookmarks := filter (\<lambda>l. fb_folder_id l \<notin> set gone) (folder_bookmarks db),
            folder_shares := filter (\<lambda>s. fs_folder_id s \<notin> set gone) (folder_shares db)\<rparr>)"

section \<open>The repository\<close>

definition for_folder_owner :: "tenant_tx \<Rightarrow> string \<Rightarrow> (string \<Rightarrow> string \<Rightarrow> (library, 'r) tx) \<Rightarrow> (library, 'r) tx" where
  "for_folder_owner tx ownerId f =
     tx_bind (requireOwner tx ownerId) (\<lambda>_. with_workspace tx ''the folders of a workspace'' (\<lambda>w. f w (uuid_cast (tx_accountId tx))))"

definition db_createFolder :: "(string \<Rightarrow> string) \<Rightarrow> tenant_tx \<Rightarrow> new_folder \<Rightarrow> (library, folder_creation) tx" where
  "db_createFolder name_key tx new =
     for_folder_owner tx (nf_ownerId new) (\<lambda>w owner.
       tx_bind (\<lambda>db. insert_folder \<lparr>fo_id = uuid_cast (nf_id new), fo_workspace_id = w, fo_owner_id = Some owner, fo_name = nf_name new, fo_icon = nf_icon new,
           fo_color = nf_color new, fo_version = 1, fo_updated_at = lb_now db\<rparr> db) (\<lambda>inserted.
         if \<not> inserted then tx_return FolderNameTaken
         else tx_bind (read_back name_key tx (nf_id new) ''an inserted folder cannot be read back'') (\<lambda>r. tx_return (FolderCreated r))))"

definition db_findFolder :: "(string \<Rightarrow> string) \<Rightarrow> tenant_tx \<Rightarrow> string \<Rightarrow> string \<Rightarrow> (library, folder_record option) tx" where
  "db_findFolder name_key tx folderId viewerId =
     for_folder_owner tx viewerId (\<lambda>w viewer.
       tx_bind (foldersOf name_key tx (one_folder tx FoldersAll folderId)) (\<lambda>found. tx_return (case found of [] \<Rightarrow> None | r # _ \<Rightarrow> Some r)))"

definition db_listFolders :: "(string \<Rightarrow> string) \<Rightarrow> tenant_tx \<Rightarrow> folder_list_request \<Rightarrow> (library, folder_record list) tx" where
  "db_listFolders name_key tx request =
     for_folder_owner tx (fl_viewerId request) (\<lambda>w viewer.
       foldersOf name_key tx \<lparr>fz_viewerId = viewer, fz_scope = fl_scope request, fz_search = fl_search request, fz_sort = fl_sort request,
         fz_after = fl_after request, fz_limit = Some (fl_limit request), fz_folderId = None\<rparr>)"

definition db_countFolders :: "tenant_tx \<Rightarrow> string \<Rightarrow> folder_scope \<Rightarrow> string option \<Rightarrow> nat \<Rightarrow> (library, nat) tx" where
  "db_countFolders tx viewerId scope search limit =
     for_folder_owner tx viewerId (\<lambda>w viewer. read_db (\<lambda>db.
       length (take limit (filter (\<lambda>f. inScope db w viewer scope f \<and> matchesSearch search f) (lb_folders db)))))"

definition db_updateFolder :: "(string \<Rightarrow> string) \<Rightarrow> tenant_tx \<Rightarrow> folder_update_request \<Rightarrow> (library, folder_update) tx" where
  "db_updateFolder name_key tx request =
     for_folder_owner tx (fu_ownerId request) (\<lambda>w owner.
       let missing = ''a locked folder cannot be read back''
       in tx_bind (read_db (\<lambda>db. find (own_folder_row w owner (uuid_cast (fu_folderId request))) (lb_folders db))) (\<lambda>found.
            case found of
              None \<Rightarrow> tx_return FolderUpdateNotFound
            | Some current \<Rightarrow>
                if (case fu_expectedVersions request of None \<Rightarrow> False | Some vs \<Rightarrow> fo_version current \<notin> set vs) then tx_return FolderStale
                else if folder_changed (fu_changes request) current then
                  tx_bind (update_folder current (fu_changes request)) (\<lambda>updated.
                    if \<not> updated then tx_return FolderUpdateTaken
                    else tx_bind (read_back name_key tx (fu_folderId request) missing) (\<lambda>r. tx_return (FolderUpdated r)))
                else tx_bind (read_back name_key tx (fu_folderId request) missing) (\<lambda>r. tx_return (FolderUnchanged r))))"

definition db_removeFolder :: "tenant_tx \<Rightarrow> string \<Rightarrow> string \<Rightarrow> (library, bool) tx" where
  "db_removeFolder tx folderId ownerId =
     for_folder_owner tx ownerId (\<lambda>w owner db.
       Inr (list_ex (own_folder_row w owner (uuid_cast folderId)) (lb_folders db), delete_folders (own_folder_row w owner (uuid_cast folderId)) db))"

definition changeFiling :: "(string \<Rightarrow> string) \<Rightarrow> tenant_tx \<Rightarrow> bool \<Rightarrow> filing_request \<Rightarrow> (library, folder_filing) tx" where
  "changeFiling name_key tx filing request =
     (let folderId = fq_folderId request; bookmarkIds = fq_bookmarkIds request; owner = tx_accountId tx
      in tx_bind (requireOwner tx (fq_ownerId request)) (\<lambda>_.
         tx_bind (lockOwnedFolders tx owner [folderId]) (\<lambda>folder.
           if \<not> folder then tx_return FilingNotFound
           else tx_bind (lockOwnedBookmarks tx owner bookmarkIds (\<not> filing)) (\<lambda>found.
             if \<not> found then tx_return FilingNotFound
             else tx_bind (if filing then insertLinks tx [folderId] bookmarkIds else deleteLinks tx [folderId] bookmarkIds) (\<lambda>changed.
                  tx_bind (read_back name_key tx folderId ''a locked folder cannot be read back'') (\<lambda>r. tx_return (FilingDone r changed)))))))"

definition folderRepository :: "(string \<Rightarrow> string) \<Rightarrow> tenant_tx \<Rightarrow> library folder_store" where
  "folderRepository name_key tx =
     \<lparr>fls_create = db_createFolder name_key tx, fls_find = db_findFolder name_key tx, fls_list = db_listFolders name_key tx,
      fls_count = db_countFolders tx, fls_sharedWith = db_folderSharedWith tx, fls_update = db_updateFolder name_key tx,
      fls_remove = db_removeFolder tx, fls_file = changeFiling name_key tx True, fls_unfile = changeFiling name_key tx False,
      fls_sharedAmong = db_sharedAmong tx\<rparr>"

end
