(* ===== verification/LibraryFolderLaws.thy ===== *)
theory LibraryFolderLaws
  imports LibraryFolders LibraryRequests
begin

text \<open>
  Every operation on tags and folders keeps the invariant of the library, and an account's operations leave the rows of the others as
  they are. The services inherit both from their store through its contract.
\<close>

section \<open>The contracts\<close>

locale tag_store_contract = kept_relation R
  for R :: "'s \<Rightarrow> 's \<Rightarrow> bool" +
  fixes store :: "'s tag_store"
  assumes create_kept: "keeps R (tgs_create store new)"
    and list_kept: "keeps R (tgs_list store request)"
    and count_kept: "keeps R (tgs_count store i n)"
    and rename_kept: "keeps R (tgs_rename store renaming)"
    and merge_kept: "keeps R (tgs_merge store merging)"
    and remove_kept: "keeps R (tgs_remove store i a)"
begin

lemma createTag_kept: "keeps R (createTag store newId a name)"
  by (auto simp: createTag_def create_kept intro!: keeps_bind split: sum.split)

lemma renameTag_kept: "keeps R (renameTag store i a name)"
  by (auto simp: renameTag_def rename_kept intro!: keeps_bind split: sum.split)

lemma mergeTag_kept: "keeps R (mergeTag store i j a)"
  by (simp add: mergeTag_def merge_kept)

lemma deleteTag_kept: "keeps R (deleteTag store i a)"
  by (simp add: deleteTag_def remove_kept)

lemma listTags_kept: "keeps R (listTags store cursors ask)"
  by (auto simp: listTags_def list_kept count_kept Let_def intro!: keeps_bind split: option.split)

lemma tagStats_kept: "keeps R (tagStats store a n)"
  by (auto simp: tagStats_def list_kept count_kept intro!: keeps_bind)

end

locale folder_store_contract = kept_relation R
  for R :: "'s \<Rightarrow> 's \<Rightarrow> bool" +
  fixes store :: "'s folder_store"
  assumes create_kept: "keeps R (fls_create store new)"
    and find_kept: "keeps R (fls_find store i a)"
    and list_kept: "keeps R (fls_list store request)"
    and count_kept: "keeps R (fls_count store a scope search n)"
    and reached_kept: "keeps R (fls_sharedWith store i a)"
    and update_kept: "keeps R (fls_update store changing)"
    and remove_kept: "keeps R (fls_remove store i a)"
    and file_kept: "keeps R (fls_file store filing)"
    and unfile_kept: "keeps R (fls_unfile store filing)"
    and among_kept: "keeps R (fls_sharedAmong store is a)"
begin

lemma createFolder_kept: "keeps R (createFolder store newId a name icon color)"
  by (auto simp: createFolder_def assertFolderStyle_def create_kept intro!: keeps_bind split: sum.split)

lemma updateFolder_kept: "keeps R (updateFolder store i a patch versions)"
  by (auto simp: updateFolder_def assertFolderStyle_def update_kept reached_kept Let_def intro!: keeps_bind split: sum.split)

lemma deleteFolder_kept: "keeps R (deleteFolder store i a)"
  by (auto simp: deleteFolder_def remove_kept reached_kept Let_def intro!: keeps_bind)

lemma filing_kept: "keeps R (fileBookmarks store i a bs)" "keeps R (unfileBookmarks store i a bs)"
  by (auto simp: fileBookmarks_def unfileBookmarks_def judged_def file_kept unfile_kept reached_kept among_kept Let_def intro!: keeps_bind)

lemma readFolder_kept: "keeps R (readFolder store i a)"
  by (simp add: readFolder_def find_kept)

lemma listFolders_kept: "keeps R (listFolders store cursors ask)"
  by (auto simp: listFolders_def list_kept count_kept Let_def intro!: keeps_bind split: option.split)

end

section \<open>Tags\<close>

lemma tags_ok_map:
  assumes "tags_ok db" "\<And>t. tg_id (g t) = tg_id t" "\<And>t. tg_workspace_id (g t) = tg_workspace_id t" "\<And>t. tg_owner_id (g t) = tg_owner_id t"
    and "\<And>t. t \<in> set (lb_tags db) \<Longrightarrow> 1 \<le> length (tg_name (g t)) \<and> length (tg_name (g t)) \<le> 40"
    and "\<And>t u. t \<in> set (lb_tags db) \<Longrightarrow> u \<in> set (lb_tags db) \<Longrightarrow> tg_workspace_id t = tg_workspace_id u \<Longrightarrow> tg_owner_id t = tg_owner_id u \<Longrightarrow>
      same_name (tg_name (g t)) (tg_name (g u)) \<Longrightarrow> tg_id t = tg_id u"
  shows "tags_ok (db\<lparr>lb_tags := map g (lb_tags db)\<rparr>)"
  using assms by (simp add: tags_ok_def comp_def)

lemma tag_link_map:
  assumes "\<And>t. tg_id (g t) = tg_id t" "\<And>t. tg_workspace_id (g t) = tg_workspace_id t" "\<And>t. tg_owner_id (g t) = tg_owner_id t" "tag_link_ok db l"
  shows "tag_link_ok (db\<lparr>lb_tags := map g (lb_tags db)\<rparr>) l"
  using assms by (simp add: tag_link_ok_def)

lemma tag_name_ok:
  assumes "update_tag_name w owner i name db = Inr (b, db')" "library_ok db"
  shows "library_ok db'"
proof (cases b)
  case False
  then show ?thesis using assms by (auto simp: update_tag_name_def split: if_splits)
next
  case True
  let ?g = "\<lambda>t. if own_tag_row w owner i t then t\<lparr>tg_name := name\<rparr> else t"
  have db': "db' = db\<lparr>lb_tags := map ?g (lb_tags db)\<rparr>" and free: "\<not> list_ex (\<lambda>t. owned_tag w owner t \<and> same_name (tg_name t) name \<and> tg_id t \<noteq> i) (lb_tags db)"
    and fits: "1 \<le> length name" "length name \<le> 40"
    using assms(1) True by (auto simp: update_tag_name_def Suc_le_eq split: if_splits)
  have same: "tg_id (?g t) = tg_id t" "tg_workspace_id (?g t) = tg_workspace_id t" "tg_owner_id (?g t) = tg_owner_id t" for t
    by simp_all
  have ok: "tags_ok db" using assms(2) by (simp add: library_ok_def)
  have clash: "tg_id t = i" if "t \<in> set (lb_tags db)" "owned_tag w owner t" "js_lower (tg_name t) = js_lower name" for t
    using free that by (auto simp: list_ex_iff same_name_def)
  have "tg_id t = tg_id u"
    if t: "t \<in> set (lb_tags db)" and u: "u \<in> set (lb_tags db)" and place: "tg_workspace_id t = tg_workspace_id u" "tg_owner_id t = tg_owner_id u"
      and name: "same_name (tg_name (?g t)) (tg_name (?g u))" for t u
  proof (cases "own_tag_row w owner i t \<or> own_tag_row w owner i u")
    case True
    then have own: "owned_tag w owner t" "owned_tag w owner u"
      using place by (auto simp: own_tag_row_def owned_tag_def)
    then show ?thesis
      using True name clash [OF t own(1)] clash [OF u own(2)] by (auto simp: own_tag_row_def same_name_def split: if_splits)
  next
    case False
    then show ?thesis using ok t u place name unfolding tags_ok_def by simp
  qed
  note unique = this
  have "1 \<le> length (tg_name (?g t)) \<and> length (tg_name (?g t)) \<le> 40" if "t \<in> set (lb_tags db)" for t
    using ok fits that by (simp add: tags_ok_def)
  then have "tags_ok (db\<lparr>lb_tags := map ?g (lb_tags db)\<rparr>)"
    by (rule tags_ok_map [of db ?g, OF ok same(1) same(2) same(3)]) (assumption, rule unique)
  then have "tags_ok db'"
    by (simp only: db')
  moreover have "tag_link_ok db' l" if "tag_link_ok db l" for l
    unfolding db' using same that by (rule tag_link_map [of ?g])
  ultimately show ?thesis
    using assms(2) by (simp add: db' library_ok_def counts_ok_def rows_ok_def links_ok_def)
qed

lemma delete_tags_ok: "library_ok db \<Longrightarrow> library_ok (delete_tags P db)"
proof -
  assume ok: "library_ok db"
  let ?db = "delete_tags P db"
  have link: "tag_link_ok ?db l" if "tag_link_ok db l" "bt_tag_id l \<notin> tg_id ` set (filter P (lb_tags db))" for l
    using that by (force simp: delete_tags_def tag_link_ok_def Let_def)
  have "tags_ok ?db"
    using ok by (auto simp: library_ok_def tags_ok_def delete_tags_def Let_def distinct_map_filter)
  moreover have "links_ok ?db"
    using ok link by (auto simp: library_ok_def links_ok_def delete_tags_def Let_def distinct_map_filter)
  ultimately show ?thesis
    using ok by (simp add: library_ok_def counts_ok_def rows_ok_def delete_tags_def Let_def)
qed

lemma copied_links:
  assumes "links_ok db"
  shows "distinct (map tag_link_key (map (\<lambda>l. l\<lparr>bt_tag_id := t\<rparr>) (links_of_tag db w s)))"
  using assms by (auto simp: links_ok_def links_of_tag_def distinct_map inj_on_def tag_link_key_def intro: bookmark_tag_row.equality)

lemma merge_lock_rounds_ok:
  assumes "\<And>n. between_ok (meanwhile n)"
  shows "merge_lock_rounds meanwhile w owner source wanted left db = Inr (found, db') \<Longrightarrow> library_ok db \<Longrightarrow> library_ok db'"
  using assms by (induction left arbitrary: db) (auto simp: between_ok_def Let_def split: if_splits)

lemma for_tag_owner_kept: "(\<And>w owner. keeps (preserves library_ok) (f w owner)) \<Longrightarrow> keeps (preserves library_ok) (for_tag_owner tx a f)"
  by (auto simp: for_tag_owner_def requireTagOwner_def intro!: lib.keeps_intros)

lemma db_createTag_kept: "keeps (preserves library_ok) (db_createTag tx new)"
  unfolding db_createTag_def
proof (rule for_tag_owner_kept, rule keepsI, unfold preserves_def, rule impI)
  fix w owner r and db db' :: library
  let ?names = "[\<lparr>tn_name = nt_name new, tn_newId = nt_id new\<rparr>]"
  assume "(let taken = list_ex (\<lambda>t. owned_tag w owner t \<and> same_name (tg_name t) (nt_name new)) (lb_tags db)
       in case insert_tags owner w owner ?names db of
            Inl e \<Rightarrow> Inl e
          | Inr db' \<Rightarrow>
              if taken then Inr (TagNameTaken, db')
              else case find (own_tag_row w owner (uuid_cast (nt_id new))) (lb_tags db') of
                None \<Rightarrow> Inl (JsError ''an inserted tag cannot be read back'')
              | Some t \<Rightarrow> Inr (TagCreated \<lparr>tc_id = tg_id t, tc_name = tg_name t, tc_bookmarkCount = 0\<rparr>, db')) = Inr (r, db')"
    and ok: "library_ok db"
  then have "insert_tags owner w owner ?names db = Inr db'"
    unfolding Let_def by (simp split: sum.splits if_splits option.splits del: insert_tags.simps)
  then show "library_ok db'" using ok by (rule insert_tags_ok)
qed

lemma db_removeTag_kept: "keeps (preserves library_ok) (db_removeTag tx i a)"
  unfolding db_removeTag_def by (rule for_tag_owner_kept, rule keepsI) (auto simp: preserves_def delete_tags_ok)

lemma db_renameTag_kept:
  assumes "between_ok meanwhile"
  shows "keeps (preserves library_ok) (db_renameTag meanwhile name_key tx request)"
  unfolding db_renameTag_def Let_def
proof (rule for_tag_owner_kept, rule keepsI, unfold preserves_def, rule impI, goal_cases)
  case (1 w owner db r db')
  have "library_ok (meanwhile db)"
    using assms 1(2) by (simp add: between_ok_def)
  then show ?case
    using 1 tag_name_ok by (auto split: option.splits if_splits sum.splits prod.splits bool.splits list.splits)
qed

lemma copyTagLinks_kept: "keeps (preserves library_ok) (copyTagLinks tx s t)"
proof -
  have "keeps (preserves library_ok) (\<lambda>db. insert_tag_links tx w (map (\<lambda>l. l\<lparr>bt_tag_id := uuid_cast t\<rparr>) (links_of_tag db w (uuid_cast s))) db)" for w
    by (rule keepsI, unfold preserves_def, rule impI, rule insert_tag_links_ok, assumption, rule copied_links) (simp_all add: library_ok_def)
  then show ?thesis
    by (auto simp: copyTagLinks_def intro!: lib.keeps_intros)
qed

lemma db_mergeTags_kept:
  assumes "\<And>n. between_ok (meanwhile n)"
  shows "keeps (preserves library_ok) (db_mergeTags meanwhile name_key tx request)"
proof -
  have "keeps (preserves library_ok) (merge_lock_rounds meanwhile w owner source wanted left)" for w owner source wanted left
    using merge_lock_rounds_ok [OF assms] by (auto simp: keeps_def preserves_def)
  then have "keeps (preserves library_ok) (lockTagsForMerge meanwhile tx owner s t)" for owner s t
    by (auto simp: lockTagsForMerge_def intro!: lib.keeps_intros)
  moreover have "keeps (preserves library_ok) (\<lambda>db. case tagsQuery name_key w owner TagsByName None None (Some i) db of
      [] \<Rightarrow> Inl (JsError ''a merged tag cannot be read back'') | r # _ \<Rightarrow> Inr (TagMerged r, db))" for w owner i
    by (rule keepsI) (auto simp: preserves_def split: list.splits)
  ultimately show ?thesis
    by (auto simp: db_mergeTags_def requireTagOwner_def Let_def copyTagLinks_kept db_removeTag_kept intro!: lib.keeps_intros)
qed

lemma tag_reads_kept:
  "keeps (preserves library_ok) (db_listTags name_key tx request)" "keeps (preserves library_ok) (db_countTags tx a n)"
  by (auto simp: db_listTags_def db_countTags_def intro!: for_tag_owner_kept)

interpretation library_tags: tag_store_contract "preserves (sound_given (between_ok between \<and> (\<forall>n. between_ok (rounds n))))" "tagRepository between rounds name_key tx"
  for between rounds name_key tx
  by unfold_locales
     (auto simp: preserves_def tagRepository_def intro!: keeps_sound tag_reads_kept db_createTag_kept db_renameTag_kept db_mergeTags_kept db_removeTag_kept)

section \<open>Folders\<close>

lemma folder_row_checks_ok: "folder_row_checks f \<Longrightarrow> uuid_cast (fo_id f) = fo_id f \<Longrightarrow> folder_checks f"
  by (simp add: folder_row_checks_def folder_checks_def)

lemma insert_folder_ok:
  assumes "insert_folder f db = Inr (b, db')" "uuid_cast (fo_id f) = fo_id f" "library_ok db"
  shows "library_ok db'"
proof (cases b)
  case False
  then show ?thesis using assms by (auto simp: insert_folder_def split: if_splits)
next
  case True
  have db': "db' = db\<lparr>lb_folders := lb_folders db @ [f]\<rparr>" and checks: "folder_row_checks f"
    and free: "\<not> list_ex (\<lambda>g. fo_workspace_id g = fo_workspace_id f \<and> fo_owner_id g = fo_owner_id f \<and> same_name (fo_name g) (fo_name f)) (lb_folders db)"
    and new: "\<not> list_ex (\<lambda>g. fo_id g = fo_id f) (lb_folders db)"
    using assms(1) True by (auto simp: insert_folder_def split: if_splits)
  have clash: "\<not> folder_clash g f" "\<not> folder_clash f g" if "g \<in> set (lb_folders db)" for g
    using free that by (auto simp: list_ex_iff folder_clash_def same_name_def)
  have "folders_ok db'"
    using assms(3) new clash folder_row_checks_ok [OF checks assms(2)] by (auto simp: db' library_ok_def folders_ok_def list_ex_iff)
  moreover have "folder_link_ok db' l" if "folder_link_ok db l" for l
    using that by (auto simp: db' folder_link_ok_def)
  moreover have "folder_share_ok db' s" if "folder_share_ok db s" for s
    using that by (auto simp: db' folder_share_ok_def)
  ultimately show ?thesis
    using assms(3)
    by (simp add: db' library_ok_def counts_ok_def live_count_def rows_ok_def links_ok_def tag_link_ok_def tags_ok_def shares_ok_def bookmark_share_ok_def)
qed

lemma folders_ok_map:
  assumes "folders_ok db" "\<And>f. fo_id (g f) = fo_id f"
    and "\<And>f. f \<in> set (lb_folders db) \<Longrightarrow> folder_checks (g f)"
    and "\<And>e f. e \<in> set (lb_folders db) \<Longrightarrow> f \<in> set (lb_folders db) \<Longrightarrow> folder_clash (g e) (g f) \<Longrightarrow> fo_id e = fo_id f"
  shows "folders_ok (db\<lparr>lb_folders := map g (lb_folders db)\<rparr>)"
  using assms by (simp add: folders_ok_def comp_def)

lemma folder_references_map:
  assumes "\<And>f. f \<in> set (lb_folders db) \<Longrightarrow> fo_id (g f) = fo_id f \<and> fo_workspace_id (g f) = fo_workspace_id f \<and> fo_owner_id (g f) = fo_owner_id f"
  shows "folder_link_ok db l \<Longrightarrow> folder_link_ok (db\<lparr>lb_folders := map g (lb_folders db)\<rparr>) l"
    and "folder_share_ok db s \<Longrightarrow> folder_share_ok (db\<lparr>lb_folders := map g (lb_folders db)\<rparr>) s"
  using assms by (simp_all add: folder_link_ok_def folder_share_ok_def)

lemma bump_folder_simps [simp]:
  "fo_id (bump_folder now old new) = fo_id new" "fo_workspace_id (bump_folder now old new) = fo_workspace_id new"
  "fo_owner_id (bump_folder now old new) = fo_owner_id new" "fo_name (bump_folder now old new) = fo_name new"
  "fo_icon (bump_folder now old new) = fo_icon new" "fo_color (bump_folder now old new) = fo_color new"
  by (simp_all add: bump_folder_def)

lemma folder_set_simps [simp]:
  "fo_id (folder_set changes f) = fo_id f" "fo_workspace_id (folder_set changes f) = fo_workspace_id f" "fo_owner_id (folder_set changes f) = fo_owner_id f"
  by (simp_all add: folder_set_def)

lemma update_folder_ok:
  assumes "update_folder current changes db = Inr (b, db')" "current \<in> set (lb_folders db)" "library_ok db"
  shows "library_ok db'"
proof (cases b)
  case False
  then show ?thesis using assms by (auto simp: update_folder_def Let_def split: if_splits)
next
  case True
  define new where "new = bump_folder (lb_now db) current (folder_set changes current)"
  define g where "g = (\<lambda>f. if fo_id f = fo_id current then new else f)"
  have new: "fo_id new = fo_id current" "fo_workspace_id new = fo_workspace_id current" "fo_owner_id new = fo_owner_id current"
    by (simp_all add: new_def)
  have ok: "folders_ok db" and ids: "distinct (map fo_id (lb_folders db))"
    using assms(3) by (simp_all add: library_ok_def folders_ok_def)
  have db': "db' = db\<lparr>lb_folders := map g (lb_folders db)\<rparr>" and checks: "folder_row_checks new"
    and free: "fg_name changes \<notin> {None, Some (fo_name current)} \<Longrightarrow> \<forall>f \<in> set (lb_folders db). folder_clash f new \<longrightarrow> fo_id f = fo_id current"
    using assms(1) True new by (auto simp: update_folder_def Let_def new_def g_def list_ex_iff folder_clash_def split: if_splits)
  have only: "f = current" if "f \<in> set (lb_folders db)" "fo_id f = fo_id current" for f
    using distinct_key_eq [OF ids that(1) assms(2) that(2)] .
  have same_key: "fo_name new = fo_name current" if "fg_name changes \<in> {None, Some (fo_name current)}"
    using that by (auto simp: new_def folder_set_def)
  have clash: "fo_id f = fo_id current" if "f \<in> set (lb_folders db)" "folder_clash f new" for f
  proof (cases "fg_name changes \<in> {None, Some (fo_name current)}")
    case True
    then have "folder_clash f current"
      using that(2) same_key new by (simp add: folder_clash_def)
    then show ?thesis using ok that(1) assms(2) unfolding folders_ok_def by blast
  qed (use free that in blast)
  have sym: "folder_clash e f \<Longrightarrow> folder_clash f e" for e f
    by (simp add: folder_clash_def same_name_def)
  have g: "fo_id (g f) = fo_id f" for f
    by (simp add: g_def new)
  have place: "fo_id (g f) = fo_id f \<and> fo_workspace_id (g f) = fo_workspace_id f \<and> fo_owner_id (g f) = fo_owner_id f" if "f \<in> set (lb_folders db)" for f
    using only [OF that] new by (auto simp: g_def)
  have valid: "folder_checks (g f)" if "f \<in> set (lb_folders db)" for f
    using ok that checks only assms(2) new by (auto simp: g_def folders_ok_def folder_checks_def folder_row_checks_def)
  have unique: "fo_id e = fo_id f" if "e \<in> set (lb_folders db)" "f \<in> set (lb_folders db)" "folder_clash (g e) (g f)" for e f
  proof (cases "fo_id e = fo_id current \<or> fo_id f = fo_id current")
    case True
    then show ?thesis using that clash [of e] clash [of f] sym [of new f] by (auto simp: g_def split: if_splits)
  next
    case False
    then show ?thesis using that ok unfolding folders_ok_def by (simp add: g_def)
  qed
  have "folders_ok db'"
    unfolding db' by (rule folders_ok_map [OF ok g valid unique])
  then show ?thesis
    using assms(3) folder_references_map [of db g, OF place] unfolding db'
    by (simp add: library_ok_def counts_ok_def live_count_def rows_ok_def links_ok_def tag_link_ok_def tags_ok_def shares_ok_def bookmark_share_ok_def)
qed

lemma delete_folders_ok: "library_ok db \<Longrightarrow> library_ok (delete_folders P db)"
proof -
  assume ok: "library_ok db"
  let ?db = "delete_folders P db"
  have link: "folder_link_ok ?db l" if "folder_link_ok db l" "fb_folder_id l \<notin> fo_id ` set (filter P (lb_folders db))" for l
    using that by (force simp: delete_folders_def folder_link_ok_def Let_def)
  have share: "folder_share_ok ?db s" if "folder_share_ok db s" "fs_folder_id s \<notin> fo_id ` set (filter P (lb_folders db))" for s
    using that by (force simp: delete_folders_def folder_share_ok_def Let_def)
  have "folders_ok ?db"
    using ok by (auto simp: library_ok_def folders_ok_def delete_folders_def Let_def distinct_map_filter)
  moreover have "links_ok ?db"
    using ok link by (auto simp: library_ok_def links_ok_def delete_folders_def Let_def distinct_map_filter tag_link_ok_def)
  moreover have "shares_ok ?db"
    using ok share
    by (auto simp: library_ok_def shares_ok_def share_rows_ok_def delete_folders_def Let_def distinct_map inj_on_def bookmark_share_ok_def)
  ultimately show ?thesis
    using ok by (simp add: library_ok_def counts_ok_def live_count_def rows_ok_def tags_ok_def delete_folders_def Let_def)
qed

lemma for_folder_owner_kept: "(\<And>w owner. keeps (preserves library_ok) (f w owner)) \<Longrightarrow> keeps (preserves library_ok) (for_folder_owner tx a f)"
  by (auto simp: for_folder_owner_def requireOwner_def intro!: lib.keeps_intros)

lemma folder_reads_kept:
  "keeps (preserves library_ok) (foldersOf name_key tx request)" "keeps (preserves library_ok) (read_back name_key tx i missing)"
  "keeps (preserves library_ok) (db_findFolder name_key tx i a)" "keeps (preserves library_ok) (db_listFolders name_key tx listing)"
  "keeps (preserves library_ok) (db_countFolders tx a scope search n)"
proof -
  show reads: "keeps (preserves library_ok) (foldersOf name_key tx request)" for request
    by (auto simp: foldersOf_def intro!: lib.keeps_intros)
  show "keeps (preserves library_ok) (read_back name_key tx i missing)"
    by (auto simp: read_back_def reads intro!: lib.keeps_intros split: list.split)
  show "keeps (preserves library_ok) (db_findFolder name_key tx i a)" "keeps (preserves library_ok) (db_listFolders name_key tx listing)"
    "keeps (preserves library_ok) (db_countFolders tx a scope search n)"
    by (auto simp: db_findFolder_def db_listFolders_def db_countFolders_def reads intro!: for_folder_owner_kept lib.keeps_intros)
qed

lemma insert_folder_kept: "uuid_cast i = i \<Longrightarrow> (\<And>db. fo_id (f db) = i) \<Longrightarrow> keeps (preserves library_ok) (\<lambda>db. insert_folder (f db) db)"
  by (rule keepsI) (auto simp: preserves_def intro: insert_folder_ok)

lemma db_createFolder_kept: "keeps (preserves library_ok) (db_createFolder name_key tx new)"
  unfolding db_createFolder_def
  by (intro for_folder_owner_kept lib.keeps_bind insert_folder_kept [where i = "uuid_cast (nf_id new)"]) (auto simp: folder_reads_kept intro!: lib.keeps_bind)

lemma tx_bind_read: "tx_bind (read_db q) f db = f (q db) db"
  by (simp add: tx_bind_def read_db_def)

lemma tx_bind_passed: "tx_bind (tx_return x) f = f x" "tx_bind (tx_require True e) g = g ()"
  by (simp_all add: tx_bind_def tx_return_def tx_require_def fun_eq_iff)

lemma read_back_Inr:
  "read_back name_key tx i missing db = Inr (r, db') \<Longrightarrow>
     db' = db \<and> (\<exists>w. tx_workspaceId tx = Some w \<and> r \<in> set (folders_found name_key (uuid_cast w) (one_folder tx FoldersMine i) db))"
  by (auto simp: read_back_def foldersOf_def with_workspace_def requireWorkspace_def read_db_def tx_bind_def tx_return_def tx_throw_def split: list.splits option.splits)

lemma db_updateFolder_Inr:
  assumes "db_updateFolder name_key tx request db = Inr (r, db')"
  shows "db' = db \<and> (\<forall>rec. r \<noteq> FolderUpdated rec) \<or>
    (\<exists>w current rec. find (own_folder_row w (uuid_cast (tx_accountId tx)) (uuid_cast (fu_folderId request))) (lb_folders db) = Some current \<and>
       (\<forall>vs. fu_expectedVersions request = Some vs \<longrightarrow> fo_version current \<in> set vs) \<and> folder_changed (fu_changes request) current \<and>
       update_folder current (fu_changes request) db = Inr (True, db') \<and> r = FolderUpdated rec \<and>
       rec \<in> set (folders_found name_key w (one_folder tx FoldersMine (fu_folderId request)) db'))"
proof -
  let ?a = "uuid_cast (tx_accountId tx)"
  obtain w where w: "tx_workspaceId tx = Some w" and own: "(js_lower (fu_ownerId request) = tx_accountId tx) = True"
    using assms by (auto simp: db_updateFolder_def for_folder_owner_def with_workspace_def tx_bind_Inr_iff requireOwner_def)
  let ?found = "find (own_folder_row (uuid_cast w) ?a (uuid_cast (fu_folderId request))) (lb_folders db)"
  show ?thesis
  proof (cases ?found)
    case None
    then show ?thesis
      using assms w own by (simp add: db_updateFolder_def for_folder_owner_def with_workspace_def requireWorkspace_def requireOwner_def tx_require_def read_db_def tx_bind_def tx_return_def Let_def)
  next
    case (Some current)
    let ?missing = "''a locked folder cannot be read back''"
    let ?stale = "case fu_expectedVersions request of None \<Rightarrow> False | Some vs \<Rightarrow> fo_version current \<notin> set vs"
    have run: "(if ?stale then tx_return FolderStale
        else if folder_changed (fu_changes request) current then
          tx_bind (update_folder current (fu_changes request)) (\<lambda>updated.
            if \<not> updated then tx_return FolderUpdateTaken
            else tx_bind (read_back name_key tx (fu_folderId request) ?missing) (\<lambda>r. tx_return (FolderUpdated r)))
        else tx_bind (read_back name_key tx (fu_folderId request) ?missing) (\<lambda>r. tx_return (FolderUnchanged r))) db = Inr (r, db')"
      using assms w own Some
      unfolding db_updateFolder_def for_folder_owner_def with_workspace_def requireWorkspace_def requireOwner_def Let_def
      by (simp only: tx_bind_read tx_bind_passed option.case w own)
    show ?thesis
    proof (cases "\<not> ?stale \<and> folder_changed (fu_changes request) current")
      case True
      then obtain updated s where up: "update_folder current (fu_changes request) db = Inr (updated, s)"
        and rest: "(if \<not> updated then tx_return FolderUpdateTaken
            else tx_bind (read_back name_key tx (fu_folderId request) ?missing) (\<lambda>r. tx_return (FolderUpdated r))) s = Inr (r, db')"
        using run by (auto simp: tx_bind_Inr_iff simp del: not_None_eq split del: if_split)
      show ?thesis
      proof (cases updated)
        case True
        then obtain rec where rec: "r = FolderUpdated rec" "db' = s" "rec \<in> set (folders_found name_key (uuid_cast w) (one_folder tx FoldersMine (fu_folderId request)) s)"
          using rest w by (auto simp: tx_bind_Inr_iff dest: read_back_Inr)
        then show ?thesis
          using Some up True \<open>\<not> ?stale \<and> folder_changed (fu_changes request) current\<close> by (auto split: option.splits)
      next
        case False
        then have "s = db" using up by (auto simp: update_folder_def Let_def split: if_splits)
        then show ?thesis using rest False by simp
      qed
    next
      case False
      then show ?thesis
        using run by (cases ?stale) (auto simp: tx_bind_Inr_iff dest: read_back_Inr)
    qed
  qed
qed

lemma own_folder_found: "find (own_folder_row w a i) fs = Some f \<Longrightarrow> f \<in> set fs \<and> fo_workspace_id f = w \<and> fo_owner_id f = Some a \<and> fo_id f = i"
  by (auto simp: find_Some_iff own_folder_row_def owned_folder_def)

lemma db_updateFolder_kept: "keeps (preserves library_ok) (db_updateFolder name_key tx request)"
  by (rule keepsI) (auto simp: preserves_def dest!: db_updateFolder_Inr own_folder_found intro: update_folder_ok)

lemma db_removeFolder_kept: "keeps (preserves library_ok) (db_removeFolder tx i a)"
  unfolding db_removeFolder_def by (rule for_folder_owner_kept, rule keepsI) (auto simp: preserves_def delete_folders_ok)

lemma changeFiling_kept: "keeps (preserves library_ok) (changeFiling name_key tx filing request)"
proof -
  have "keeps (preserves library_ok) (lockOwnedBookmarks tx a is archived)" for a "is" archived
    by (auto simp: lockOwnedBookmarks_def Let_def intro!: lib.keeps_intros)
  then show ?thesis
    by (auto simp: changeFiling_def requireOwner_def Let_def locks_kept insertLinks_kept delete_links_kept folder_reads_kept intro!: lib.keeps_intros)
qed

interpretation library_folders: folder_store_contract "preserves library_ok" "folderRepository name_key tx"
  for name_key tx
  by unfold_locales
     (auto simp: folderRepository_def folder_reads_kept db_createFolder_kept db_updateFolder_kept db_removeFolder_kept changeFiling_kept share_asks_kept
       db_sharedAmong_def intro!: lib.keeps_intros)

section \<open>The rows of the others\<close>

text \<open>The bookmarks, tags and folders of everyone but \<open>a\<close>, and the memberships.\<close>

definition others_data :: "string \<Rightarrow> library \<Rightarrow> others_rows" where
  "others_data a db =
     (foreign_bookmarks a db, filter (\<lambda>t. tg_owner_id t \<noteq> a) (lb_tags db), filter (\<lambda>f. fo_owner_id f \<noteq> Some a) (lb_folders db), workspace_members db)"

definition apart :: "string \<Rightarrow> others_rows \<Rightarrow> library \<Rightarrow> bool" where
  "apart a x db \<longleftrightarrow> distinct (map fo_id (lb_folders db)) \<and> others_data a db = x"

lemmas apart_defs = apart_def others_data_def foreign_bookmarks_def

interpretation apart: kept_relation "preserves (apart a x)" for a x
  by unfold_locales (auto simp: preserves_def)

lemma keeps_apart:
  "(\<And>s r s'. m s = Inr (r, s') \<Longrightarrow> bookmarks s' = bookmarks s \<and> lb_tags s' = lb_tags s \<and> lb_folders s' = lb_folders s \<and> workspace_members s' = workspace_members s) \<Longrightarrow>
   keeps (preserves (apart a x)) m"
  by (rule keepsI) (simp add: preserves_def apart_defs)

lemma apart_links:
  "keeps (preserves (apart a x)) (insertLinks tx folderIds bookmarkIds)" "keeps (preserves (apart a x)) (deleteLinks tx folderIds bookmarkIds)"
  "keeps (preserves (apart a x)) (copyTagLinks tx i j)"
  by (rule keeps_apart, auto simp: insertLinks_def deleteLinks_def copyTagLinks_def insert_folder_links_def delete_folder_links_def insert_tag_links_def
      with_workspace_def tx_bind_Inr_iff Let_def tx_return_def requireIdentifiers_def split: if_splits)+

lemma apart_locks:
  "keeps (preserves (apart a x)) (lockOwnedFolders tx b folderIds)" "keeps (preserves (apart a x)) (lockOwnedBookmarks tx b bookmarkIds archived)"
  by (auto simp: lockOwnedFolders_def lockOwnedBookmarks_def Let_def intro!: apart.keeps_intros)

subsection \<open>Tags\<close>

lemma apart_tag_owner:
  "(\<And>w. keeps (preserves (apart a x)) (f w (uuid_cast (tx_accountId tx)))) \<Longrightarrow> keeps (preserves (apart a x)) (for_tag_owner tx b f)"
  by (auto simp: for_tag_owner_def requireTagOwner_def intro!: apart.keeps_intros)

lemma insert_tags_apart:
  "insert_tags account w owner names db = Inr db' \<Longrightarrow> apart account x db \<Longrightarrow> apart account x db'"
  by (induction account w owner names db rule: insert_tags.induct) (auto simp: apart_defs split: if_splits)

lemma tag_name_apart: "update_tag_name w a i name db = Inr (b, db') \<Longrightarrow> apart a x db \<Longrightarrow> apart a x db'"
proof -
  assume "update_tag_name w a i name db = Inr (b, db')" and ok: "apart a x db"
  then have "db' = db \<or> db' = db\<lparr>lb_tags := map (\<lambda>t. if own_tag_row w a i t then t\<lparr>tg_name := name\<rparr> else t) (lb_tags db)\<rparr>"
    by (auto simp: update_tag_name_def split: if_splits)
  moreover have "filter (\<lambda>t. tg_owner_id t \<noteq> a) (map (\<lambda>t. if own_tag_row w a i t then t\<lparr>tg_name := name\<rparr> else t) ts) = filter (\<lambda>t. tg_owner_id t \<noteq> a) ts" for ts
    by (induction ts) (auto simp: own_tag_row_def owned_tag_def)
  ultimately show ?thesis
    using ok by (auto simp: apart_defs)
qed

lemma delete_tags_apart: "apart a x db \<Longrightarrow> apart a x (delete_tags (own_tag_row w a i) db)"
proof -
  assume "apart a x db"
  moreover have "filter (\<lambda>t. tg_owner_id t \<noteq> a) (filter (\<lambda>t. \<not> own_tag_row w a i t) ts) = filter (\<lambda>t. tg_owner_id t \<noteq> a) ts" for ts
    unfolding filter_filter by (rule filter_cong) (auto simp: own_tag_row_def owned_tag_def)
  ultimately show ?thesis
    by (simp add: apart_defs delete_tags_def Let_def)
qed

lemma apart_createTag: "keeps (preserves (apart (uuid_cast (tx_accountId tx)) x)) (db_createTag tx new)"
  unfolding db_createTag_def
  by (rule apart_tag_owner, rule keepsI)
     (auto simp: preserves_def Let_def split: sum.splits if_splits option.splits simp del: insert_tags.simps dest: insert_tags_apart)

lemma apart_removeTag: "keeps (preserves (apart (uuid_cast (tx_accountId tx)) x)) (db_removeTag tx i b)"
  unfolding db_removeTag_def by (rule apart_tag_owner, rule keepsI) (auto simp: preserves_def delete_tags_apart)

lemma apart_renameTag: "keeps (preserves (apart (uuid_cast (tx_accountId tx)) x)) (db_renameTag (\<lambda>db. db) name_key tx request)"
  unfolding db_renameTag_def Let_def
proof (rule apart_tag_owner, rule keepsI, unfold preserves_def, rule impI, goal_cases)
  case (1 w db r db')
  then show ?case
    using tag_name_apart by (auto split: option.splits if_splits sum.splits prod.splits bool.splits list.splits)
qed

lemma merge_rounds_alone: "merge_lock_rounds (\<lambda>_ db. db) w owner source wanted left db = Inr (found, db') \<Longrightarrow> db' = db"
  by (induction left) (auto simp: Let_def split: if_splits)

lemma apart_mergeTags: "keeps (preserves (apart (uuid_cast (tx_accountId tx)) x)) (db_mergeTags (\<lambda>_ db. db) name_key tx request)"
proof -
  let ?a = "uuid_cast (tx_accountId tx)"
  have "keeps (preserves (apart ?a x)) (merge_lock_rounds (\<lambda>_ db. db) w owner source wanted left)" for w owner source wanted left
    by (rule keepsI) (auto simp: preserves_def dest: merge_rounds_alone)
  then have "keeps (preserves (apart ?a x)) (lockTagsForMerge (\<lambda>_ db. db) tx owner s t)" for owner s t
    by (auto simp: lockTagsForMerge_def intro!: apart.keeps_intros)
  moreover have "keeps (preserves (apart ?a x)) (\<lambda>db. case tagsQuery name_key w owner TagsByName None None (Some i) db of
      [] \<Rightarrow> Inl (JsError ''a merged tag cannot be read back'') | r # _ \<Rightarrow> Inr (TagMerged r, db))" for w owner i
    by (rule keepsI) (auto simp: preserves_def split: list.splits)
  ultimately show ?thesis
    by (auto simp: db_mergeTags_def requireTagOwner_def Let_def apart_links apart_removeTag intro!: apart.keeps_intros)
qed

interpretation own_tags: tag_store_contract "preserves (apart (uuid_cast (tx_accountId tx)) x)" "tagRepository (\<lambda>db. db) (\<lambda>_ db. db) name_key tx"
  for tx x name_key
  by unfold_locales
     (auto simp: tagRepository_def apart_createTag apart_renameTag apart_mergeTags apart_removeTag db_listTags_def db_countTags_def intro!: apart_tag_owner)

subsection \<open>Folders\<close>

lemma apart_folder_owner:
  "(\<And>w. keeps (preserves (apart a x)) (f w (uuid_cast (tx_accountId tx)))) \<Longrightarrow> uuid_cast (tx_accountId tx) = a \<Longrightarrow> keeps (preserves (apart a x)) (for_folder_owner tx b f)"
  by (auto simp: for_folder_owner_def requireOwner_def intro!: apart.keeps_intros)

lemma apart_folder_reads:
  "keeps (preserves (apart a x)) (foldersOf name_key tx request)" "keeps (preserves (apart a x)) (read_back name_key tx i missing)"
  by (auto simp: read_back_def foldersOf_def intro!: apart.keeps_intros split: list.split)

lemma insert_folder_apart: "insert_folder f db = Inr (b, db') \<Longrightarrow> fo_owner_id f = Some a \<Longrightarrow> apart a x db \<Longrightarrow> apart a x db'"
  by (fastforce simp: insert_folder_def apart_defs list_ex_iff split: if_splits)

lemma update_folder_apart:
  assumes "update_folder current changes db = Inr (b, db')" "current \<in> set (lb_folders db)" "fo_owner_id current = Some a" "apart a x db"
  shows "apart a x db'"
proof -
  define new where "new = bump_folder (lb_now db) current (folder_set changes current)"
  define g where "g = (\<lambda>f. if fo_id f = fo_id current then new else f)"
  have db': "db' = db \<or> db' = db\<lparr>lb_folders := map g (lb_folders db)\<rparr>"
    using assms(1) by (auto simp: update_folder_def Let_def new_def g_def split: if_splits)
  have ids: "distinct (map fo_id (lb_folders db))"
    using assms(4) by (simp add: apart_def)
  have only: "f = current" if "f \<in> set (lb_folders db)" "fo_id f = fo_id current" for f
    using distinct_key_eq [OF ids that(1) assms(2) that(2)] .
  have "filter (\<lambda>f. fo_owner_id f \<noteq> Some a) (map g fs) = filter (\<lambda>f. fo_owner_id f \<noteq> Some a) fs" if "set fs \<subseteq> set (lb_folders db)" for fs
    using that by (induction fs) (auto simp: g_def new_def assms(3) dest: only)
  moreover have "distinct (map fo_id (map g (lb_folders db)))"
  proof -
    have "map fo_id (map g (lb_folders db)) = map fo_id (lb_folders db)"
      by (simp add: g_def new_def)
    then show ?thesis using ids by (simp only:)
  qed
  ultimately show ?thesis
    using db' assms(4) by (auto simp: apart_defs simp del: map_map)
qed

lemma delete_folders_apart: "apart a x db \<Longrightarrow> apart a x (delete_folders (own_folder_row w a i) db)"
proof -
  assume "apart a x db"
  moreover have "filter (\<lambda>f. fo_owner_id f \<noteq> Some a) (filter (\<lambda>f. \<not> own_folder_row w a i f) fs) = filter (\<lambda>f. fo_owner_id f \<noteq> Some a) fs" for fs
    unfolding filter_filter by (rule filter_cong) (auto simp: own_folder_row_def owned_folder_def)
  ultimately show ?thesis
    by (simp add: apart_defs delete_folders_def Let_def distinct_map_filter)
qed

lemma apart_createFolder: "keeps (preserves (apart (uuid_cast (tx_accountId tx)) x)) (db_createFolder name_key tx new)"
proof -
  have "keeps (preserves (apart a x)) (\<lambda>db. insert_folder (f db) db)" if "\<And>db. fo_owner_id (f db) = Some a" for a and f :: "library \<Rightarrow> folder_row"
    using that by (auto simp: keeps_def preserves_def intro: insert_folder_apart)
  then show ?thesis
    unfolding db_createFolder_def by (intro apart_folder_owner apart.keeps_bind) (auto simp: apart_folder_reads intro!: apart.keeps_bind)
qed

lemma apart_updateFolder: "keeps (preserves (apart (uuid_cast (tx_accountId tx)) x)) (db_updateFolder name_key tx request)"
  by (rule keepsI)
     (auto simp: preserves_def dest!: db_updateFolder_Inr own_folder_found intro: update_folder_apart)

lemma apart_removeFolder: "keeps (preserves (apart (uuid_cast (tx_accountId tx)) x)) (db_removeFolder tx i b)"
  unfolding db_removeFolder_def by (rule apart_folder_owner, rule keepsI) (auto simp: preserves_def delete_folders_apart)

interpretation own_folders: folder_store_contract "preserves (apart (uuid_cast (tx_accountId tx)) x)" "folderRepository name_key tx"
  for tx x name_key
  by unfold_locales
     (auto simp: folderRepository_def apart_createFolder apart_updateFolder apart_removeFolder changeFiling_def db_findFolder_def db_listFolders_def
       db_countFolders_def db_folderSharedWith_def db_sharedAmong_def requireOwner_def Let_def apart_folder_reads apart_links apart_locks
       intro!: apart_folder_owner apart.keeps_intros)

end
