(* ===== verification/LibraryMembers.thy ===== *)
theory LibraryMembers
  imports LibraryFolderLaws
begin

text \<open>
  The requests of a member on bookmarks, shares, tags and folders (\<open>packages/server/src/routes/tags\<close>, \<open>folders\<close> beside those of
  \<open>LibraryRequests\<close>), each in a transaction of its own.
\<close>

record member_env =
  me_request :: request_env
  me_rounds :: "nat \<Rightarrow> library \<Rightarrow> library"
  me_tagCursors :: tag_cursors
  me_folderCursors :: folder_cursors

datatype member_call =
    BookmarkCall library_call
  | TagCreateCall string string
  | TagRenameCall string string string
  | TagMergeCall string string string
  | TagDeleteCall string string
  | TagListCall tag_list_ask
  | TagStatsCall string nat
  | FolderCreateCall string string "string option" "nat option"
  | FolderUpdateCall string string folder_changes "nat list option"
  | FolderDeleteCall string string
  | FolderFileCall string string "string list"
  | FolderUnfileCall string string "string list"
  | FolderReadCall string string
  | FolderListCall folder_list_ask

definition env_tags :: "member_env \<Rightarrow> library tag_store" where
  "env_tags env = tagRepository (re_between (me_request env)) (me_rounds env) (re_name_key (me_request env)) (re_tx (me_request env))"

definition env_folders :: "member_env \<Rightarrow> library folder_store" where
  "env_folders env = folderRepository (re_name_key (me_request env)) (re_tx (me_request env))"

fun run_member_call :: "member_env \<Rightarrow> member_call \<Rightarrow> (library, unit) tx" where
  "run_member_call env (BookmarkCall call) = run_call (me_request env) call"
| "run_member_call env (TagCreateCall account name) = ignoring (createTag (env_tags env) (re_newId (me_request env) 0) account name)"
| "run_member_call env (TagRenameCall i account name) = ignoring (renameTag (env_tags env) i account name)"
| "run_member_call env (TagMergeCall i j account) = ignoring (mergeTag (env_tags env) i j account)"
| "run_member_call env (TagDeleteCall i account) = ignoring (deleteTag (env_tags env) i account)"
| "run_member_call env (TagListCall ask) = ignoring (listTags (env_tags env) (me_tagCursors env) ask)"
| "run_member_call env (TagStatsCall account n) = ignoring (tagStats (env_tags env) account n)"
| "run_member_call env (FolderCreateCall account name icon color) =
     ignoring (createFolder (env_folders env) (re_newId (me_request env) 0) account name icon color)"
| "run_member_call env (FolderUpdateCall i account patch versions) = ignoring (updateFolder (env_folders env) i account patch versions)"
| "run_member_call env (FolderDeleteCall i account) = ignoring (deleteFolder (env_folders env) i account)"
| "run_member_call env (FolderFileCall i account ids) = ignoring (fileBookmarks (env_folders env) i account ids)"
| "run_member_call env (FolderUnfileCall i account ids) = ignoring (unfileBookmarks (env_folders env) i account ids)"
| "run_member_call env (FolderReadCall i account) = ignoring (readFolder (env_folders env) i account)"
| "run_member_call env (FolderListCall ask) = ignoring (listFolders (env_folders env) (me_folderCursors env) ask)"

definition serve_member :: "member_env \<Rightarrow> member_call \<Rightarrow> library \<Rightarrow> library" where
  "serve_member env call db = committed db (run_member_call env call) (db\<lparr>lb_now := re_now (me_request env)\<rparr>)"

definition serve_members :: "(member_env \<times> member_call) list \<Rightarrow> library \<Rightarrow> library" where
  "serve_members requests = fold (\<lambda>(env, call). serve_member env call) requests"

section \<open>What they keep\<close>

text \<open>What other transactions commit meanwhile keeps the invariant.\<close>

definition members_ok :: "member_env \<Rightarrow> bool" where
  "members_ok env \<longleftrightarrow> others_ok (me_request env) \<and> (\<forall>n. between_ok (me_rounds env n))"

lemma run_member_call_kept: "members_ok env \<Longrightarrow> keeps (preserves library_ok) (run_member_call env call)"
proof -
  assume ok: "members_ok env"
  then have others: "others_ok (me_request env)" and
    tags: "between_ok (re_between (me_request env)) \<and> (\<forall>n. between_ok (me_rounds env n))"
    by (simp_all add: members_ok_def others_ok_def)
  note tag_store = library_tags.createTag_kept library_tags.renameTag_kept library_tags.mergeTag_kept library_tags.deleteTag_kept
    library_tags.listTags_kept library_tags.tagStats_kept
  have sound: "sound_given (between_ok (re_between (me_request env)) \<and> (\<forall>n. between_ok (me_rounds env n))) = library_ok"
    using tags by simp
  show ?thesis
    by (cases call)
       (simp_all add: run_call_kept [OF others] env_tags_def env_folders_def keeps_ignoring [OF lib.kept_relation_axioms]
         tag_store [where between = "re_between (me_request env)" and rounds = "me_rounds env", unfolded sound]
         library_folders.createFolder_kept library_folders.updateFolder_kept library_folders.deleteFolder_kept library_folders.filing_kept
         library_folders.readFolder_kept library_folders.listFolders_kept)
qed

lemma serve_member_kept: "members_ok env \<Longrightarrow> library_ok db \<Longrightarrow> library_ok (serve_member env call db)"
  using keepsD [OF run_member_call_kept [of env call], of "db\<lparr>lb_now := re_now (me_request env)\<rparr>"]
  by (auto simp: serve_member_def committed_def preserves_def now_kept forget_kept split: sum.split)

lemma serve_members_kept:
  "\<forall>(env, call) \<in> set requests. members_ok env \<Longrightarrow> library_ok db \<Longrightarrow> library_ok (serve_members requests db)"
proof (induction requests arbitrary: db)
  case (Cons request requests)
  obtain env call where request: "request = (env, call)"
    by fastforce
  have "library_ok (serve_member env call db)"
    using Cons.prems by (intro serve_member_kept) (auto simp: request)
  then have "library_ok (serve_members requests (serve_member env call db))"
    using Cons.prems(1) by (intro Cons.IH) auto
  then show ?case
    by (simp add: serve_members_def request)
qed (simp add: serve_members_def)

section \<open>What they leave alone\<close>

fun member_account :: "member_call \<Rightarrow> string option" where
  "member_account (BookmarkCall call) = call_account call"
| "member_account (TagCreateCall account name) = Some account"
| "member_account (TagRenameCall i account name) = Some account"
| "member_account (TagMergeCall i j account) = Some account"
| "member_account (TagDeleteCall i account) = Some account"
| "member_account (TagListCall ask) = Some (ta_accountId ask)"
| "member_account (TagStatsCall account n) = Some account"
| "member_account (FolderCreateCall account name icon color) = Some account"
| "member_account (FolderUpdateCall i account patch versions) = Some account"
| "member_account (FolderDeleteCall i account) = Some account"
| "member_account (FolderFileCall i account ids) = Some account"
| "member_account (FolderUnfileCall i account ids) = Some account"
| "member_account (FolderReadCall i account) = Some account"
| "member_account (FolderListCall ask) = Some (fx_accountId ask)"

definition of_member :: "member_env \<Rightarrow> member_call \<Rightarrow> bool" where
  "of_member env call \<longleftrightarrow>
     (case member_account call of None \<Rightarrow> False | Some a \<Rightarrow> uuid_cast a = uuid_cast (tx_accountId (re_tx (me_request env))))"

definition member_alone :: "member_env \<Rightarrow> bool" where
  "member_alone env \<longleftrightarrow> env_alone (me_request env) \<and> me_rounds env = (\<lambda>_ db. db)"

lemma run_member_call_apart:
  assumes "member_alone env" "\<nexists>c. call = BookmarkCall c"
  shows "keeps (preserves (apart (uuid_cast (tx_accountId (re_tx (me_request env)))) x)) (run_member_call env call)"
  using assms
  by (cases call)
     (simp_all add: member_alone_def env_alone_def env_tags_def env_folders_def keeps_ignoring [OF apart.kept_relation_axioms]
       own_tags.createTag_kept own_tags.renameTag_kept own_tags.mergeTag_kept own_tags.deleteTag_kept own_tags.listTags_kept own_tags.tagStats_kept
       own_folders.createFolder_kept own_folders.updateFolder_kept own_folders.deleteFolder_kept own_folders.filing_kept own_folders.readFolder_kept
       own_folders.listFolders_kept)

lemma forgetting_apart: "others_data a (slug_preferences_forget_unreadable start db) = others_data a db"
  by (simp add: slug_preferences_forget_unreadable_def others_data_def foreign_bookmarks_def)

lemma serve_member_apart:
  assumes "member_alone env" "of_member env call" "library_ok db"
  shows "others_data (uuid_cast (tx_accountId (re_tx (me_request env)))) (serve_member env call db) = others_data (uuid_cast (tx_accountId (re_tx (me_request env)))) db"
proof (cases "\<exists>c. call = BookmarkCall c")
  case True
  then obtain c where call: "call = BookmarkCall c" by blast
  have "serve_member env call db = serve_call (me_request env) c db"
    by (simp add: serve_member_def serve_call_def committed_def call)
  moreover have "made_by_member (me_request env) c"
    using assms(2) by (simp add: of_member_def made_by_member_def call)
  ultimately show ?thesis
    using serve_call_own [of "me_request env" c db] assms
    by (simp add: member_alone_def library_ok_def rows_ok_def rows_of_others_def others_data_def)
next
  case False
  let ?a = "uuid_cast (tx_accountId (re_tx (me_request env)))" and ?db = "db\<lparr>lb_now := re_now (me_request env)\<rparr>"
  have "apart ?a (others_data ?a db) ?db"
    using assms(3) by (simp add: apart_defs library_ok_def folders_ok_def)
  then show ?thesis
    using keepsD [OF run_member_call_apart [OF assms(1) False], of ?db]
    by (auto simp: serve_member_def committed_def preserves_def apart_def forgetting_apart split: sum.split)
qed

end
