(* ===== verification/MemberProperties.thy ===== *)
theory MemberProperties
  imports LibraryMembers ExportProperties
begin

text \<open>
  The properties of a member's tags and folders: what every request of a member keeps and leaves alone, merging tags, changing and
  deleting folders, and what filing a bookmark lets others read.
\<close>

section \<open>An example\<close>

text \<open>A second bookmark and a second tag of the first member, whose folder is shared with the other member.\<close>

definition lib_notes :: string where
  "lib_notes = ''bbbbbbbb-0000-4000-8000-000000000003''"

definition lib_later :: string where
  "lib_later = ''ffffffff-0000-4000-8000-000000000002''"

definition member_library :: library where
  "member_library = filed_library\<lparr>
     bookmarks := bookmarks filed_library @ [lib_row lib_notes lib_ada ''Notes'' 3],
     folder_shares := [\<lparr>fs_id = ''dddddddd-0000-4000-8000-000000000002'', fs_workspace_id = lib_space, fs_folder_id = lib_folder,
       fs_target_account_id = Some lib_olu, fs_target_team_id = None, fs_granted_by = Some lib_ada, fs_created_at = 4\<rparr>],
     workspaces := map (\<lambda>x. x\<lparr>ws_bookmark_count := 3\<rparr>) (workspaces filed_library),
     lb_tags := lb_tags filed_library @ [\<lparr>tg_id = lib_later, tg_workspace_id = lib_space, tg_owner_id = lib_ada, tg_name = ''later''\<rparr>],
     lb_bookmark_tags := lb_bookmark_tags filed_library @ [\<lparr>bt_workspace_id = lib_space, bt_bookmark_id = lib_notes, bt_tag_id = lib_later\<rparr>]\<rparr>"

lemma member_library_ok: "library_ok member_library"
  by code_simp

section \<open>Counts\<close>

definition carries :: "library \<Rightarrow> string \<Rightarrow> string \<Rightarrow> bool" where
  "carries db bookmarkId tagId \<longleftrightarrow> list_ex (\<lambda>l. bt_bookmark_id l = bookmarkId \<and> bt_tag_id l = tagId) (lb_bookmark_tags db)"

text \<open>The count of a tag is the number of bookmarks that carry it and are not plan-archived.\<close>

lemma tag_count_card:
  assumes ok: "library_ok db" and t: "t \<in> set (lb_tags db)"
  shows "tag_count db t = card {b \<in> set (bookmarks db). bm_plan_archived_at b = None \<and> carries db (bm_id b) (tg_id t)}"
proof -
  let ?links = "filter (\<lambda>l. bt_workspace_id l = tg_workspace_id t \<and> bt_tag_id l = tg_id t) (lb_bookmark_tags db)"
  let ?of = "\<lambda>l. filter (\<lambda>b. bm_workspace_id b = bt_workspace_id l \<and> bm_id b = bt_bookmark_id l \<and> bm_plan_archived_at b = None) (bookmarks db)"
  let ?rows = "concat (map ?of ?links)"
  have ids: "distinct (map bm_id (bookmarks db))" and tags: "distinct (map tg_id (lb_tags db))"
    using ok by (simp_all add: library_ok_def rows_ok_def tags_ok_def)
  have "distinct (map bt_bookmark_id ?links)"
    using ok by (auto simp: library_ok_def links_ok_def distinct_map inj_on_def tag_link_key_def)
  then have "distinct (map bm_id ?rows)"
    by (rule join_distinct [OF _ ids]) simp
  then have "length ?rows = card (set ?rows)"
    by (intro distinct_card [symmetric]) (simp only: distinct_map)
  moreover have "set ?rows = {b \<in> set (bookmarks db). bm_plan_archived_at b = None \<and> carries db (bm_id b) (tg_id t)}"
  proof -
    have "bt_workspace_id l = tg_workspace_id t \<and> bm_workspace_id b = bt_workspace_id l"
      if l: "l \<in> set (lb_bookmark_tags db)" "bt_tag_id l = tg_id t" "bt_bookmark_id l = bm_id b" and b: "b \<in> set (bookmarks db)" for l b
    proof -
      have "tag_link_ok db l"
        using ok l(1) by (simp add: library_ok_def links_ok_def)
      then obtain u c where u: "u \<in> set (lb_tags db)" "tg_id u = tg_id t" "tg_workspace_id u = bt_workspace_id l"
        and c: "c \<in> set (bookmarks db)" "bm_id c = bm_id b" "bm_workspace_id c = bt_workspace_id l"
        using l(2,3) by (auto simp: tag_link_ok_def)
      then show ?thesis
        using distinct_key_eq [OF tags u(1) t u(2)] distinct_key_eq [OF ids c(1) b c(2)] by simp
    qed
    then show ?thesis by (fastforce simp: carries_def list_ex_iff)
  qed
  ultimately show ?thesis by (simp add: tag_count_def)
qed

section \<open>Merging tags\<close>

lemma merge_rounds_found:
  "merge_lock_rounds (\<lambda>_ db. db) w owner source wanted left db = Inr (found, db') \<Longrightarrow>
     db' = db \<and> (found \<longrightarrow> length (filter (\<lambda>t. owned_tag w owner t \<and> tg_id t \<in> set wanted) (lb_tags db)) = length wanted)"
  by (induction left) (auto simp: Let_def split: if_splits)

text \<open>As many owned tags as distinct identifiers are wanted: each of them is one.\<close>

lemma all_found:
  assumes "length (filter (\<lambda>t. P t \<and> tg_id t \<in> set wanted) ts) = length wanted" "distinct (map tg_id ts)" "distinct wanted" "i \<in> set wanted"
  shows "\<exists>t \<in> set ts. P t \<and> tg_id t = i"
proof -
  let ?hits = "filter (\<lambda>t. P t \<and> tg_id t \<in> set wanted) ts"
  have "distinct (map tg_id ?hits)"
    using assms(2) by (rule distinct_map_filter)
  then have "card (set (map tg_id ?hits)) = card (set wanted)"
    using distinct_card [of "map tg_id ?hits"] distinct_card [OF assms(3)] assms(1) by (simp only: length_map)
  then have "set (map tg_id ?hits) = set wanted"
    by (intro card_subset_eq) auto
  then have "i \<in> set (map tg_id ?hits)"
    using assms(4) by (simp only:)
  then show ?thesis by auto
qed

text \<open>What a merge that runs alone does: the links of the source go to the target, and the source goes.\<close>

lemma merge_result:
  assumes run: "mergeTag (tagRepository (\<lambda>db. db) (\<lambda>_ db. db) name_key tx) tagId intoTagId account db = Inr (outcome, db')"
    and ok: "library_ok db"
  shows "(case outcome of TagMerged r \<Rightarrow> False | _ \<Rightarrow> True) \<and> db' = db \<or>
    (\<exists>w r s t n db1. outcome = TagMerged r \<and> s \<in> set (lb_tags db) \<and> tg_id s = uuid_cast tagId \<and> owned_tag w (uuid_cast (tx_accountId tx)) s \<and>
       t \<in> set (lb_tags db) \<and> tg_id t = uuid_cast intoTagId \<and> tg_id s \<noteq> tg_id t \<and>
       insert_tag_links tx w (map (\<lambda>l. l\<lparr>bt_tag_id := tg_id t\<rparr>) (links_of_tag db w (tg_id s))) db = Inr (n, db1) \<and>
       db' = delete_tags (own_tag_row w (uuid_cast (tx_accountId tx)) (tg_id s)) db1 \<and>
       r \<in> set (tagsQuery name_key w (uuid_cast (tx_accountId tx)) TagsByName None None (Some (tg_id t)) db'))"
proof -
  let ?a = "uuid_cast (tx_accountId tx)" and ?s = "js_lower tagId" and ?t = "js_lower intoTagId"
  let ?wanted = "map uuid_cast (sort (js_unique [?s, ?t]))"
  have ids: "distinct (map tg_id (lb_tags db))"
    using ok by (simp add: library_ok_def tags_ok_def)
  let ?read = "with_workspace tx ''the tags of a workspace'' (\<lambda>w db.
      case tagsQuery name_key w ?a TagsByName None None (Some (uuid_cast ?t)) db of
        [] \<Rightarrow> Inl (JsError ''a merged tag cannot be read back'')
      | r # _ \<Rightarrow> Inr (TagMerged r, db))"
  let ?body = "\<lambda>found. if \<not> found then tx_return MergeNotFound
      else if ?s = ?t then tx_return SameTag
      else tx_bind (copyTagLinks tx ?s ?t) (\<lambda>_. tx_bind (db_removeTag tx ?s ?a) (\<lambda>deleted.
        if \<not> deleted then tx_throw (JsError ''a merged tag cannot be deleted'') else ?read))"
  from run have "tx_bind (requireTagOwner tx (js_lower account)) (\<lambda>_. tx_bind (lockTagsForMerge (\<lambda>_ db. db) tx ?a ?s ?t) ?body) db = Inr (outcome, db')"
    by (simp only: mergeTag_def tagRepository_def db_mergeTags_def Let_def tag_store.select_convs tag_merge_request.select_convs)
  then obtain u db0 db1 found where owner: "requireTagOwner tx (js_lower account) db = Inr (u, db0)"
    and lock: "lockTagsForMerge (\<lambda>_ db. db) tx ?a ?s ?t db0 = Inr (found, db1)" and rest: "?body found db1 = Inr (outcome, db')"
    unfolding tx_bind_Inr_iff by blast
  have "db0 = db" using owner by (simp add: requireTagOwner_def)
  then obtain w where w: "tx_workspaceId tx = Some w"
    and rounds: "merge_lock_rounds (\<lambda>_ db. db) (uuid_cast w) ?a ?s ?wanted MERGE_LOCK_ROUNDS db = Inr (found, db1)"
    using lock by (auto simp: lockTagsForMerge_def with_workspace_def tx_bind_Inr_iff uuid_cast_def)
  have db1: "db1 = db" using merge_rounds_found [OF rounds] by simp
  show ?thesis
  proof (cases "found \<and> ?s \<noteq> ?t")
    case False
    then show ?thesis using rest db1 by (cases found) (auto simp: tx_return_def)
  next
    case True
    have wanted: "distinct ?wanted" "set ?wanted = {?s, ?t}"
      by (auto simp: distinct_map inj_on_def uuid_cast_def js_lower_idem)
    note all = all_found [where P = "owned_tag (uuid_cast w) ?a" and wanted = ?wanted, OF _ ids wanted(1)]
    have "length (filter (\<lambda>t. owned_tag (uuid_cast w) ?a t \<and> tg_id t \<in> set ?wanted) (lb_tags db)) = length ?wanted"
      using merge_rounds_found [OF rounds] True by blast
    note both = all [OF this, unfolded wanted(2)]
    then obtain s t where s: "s \<in> set (lb_tags db)" "owned_tag (uuid_cast w) ?a s" "tg_id s = ?s"
      and t: "t \<in> set (lb_tags db)" "owned_tag (uuid_cast w) ?a t" "tg_id t = ?t"
      by blast
    have cast: "uuid_cast ?s = ?s" "uuid_cast ?t = ?t"
      by (simp_all add: uuid_cast_def)
    have "tx_bind (copyTagLinks tx ?s ?t) (\<lambda>_. tx_bind (db_removeTag tx ?s ?a) (\<lambda>deleted.
        if \<not> deleted then tx_throw (JsError ''a merged tag cannot be deleted'') else ?read)) db = Inr (outcome, db')"
      using rest True unfolding db1 by simp
    then obtain n db2 deleted db3 where copy: "copyTagLinks tx ?s ?t db = Inr (n, db2)" and remove: "db_removeTag tx ?s ?a db2 = Inr (deleted, db3)"
      and read: "(if \<not> deleted then tx_throw (JsError ''a merged tag cannot be deleted'') else ?read) db3 = Inr (outcome, db')"
      unfolding tx_bind_Inr_iff by blast
    have ins: "insert_tag_links tx (uuid_cast w) (map (\<lambda>l. l\<lparr>bt_tag_id := tg_id t\<rparr>) (links_of_tag db (uuid_cast w) (tg_id s))) db = Inr (n, db2)"
      using copy w by (auto simp: copyTagLinks_def with_workspace_def tx_bind_Inr_iff s(3) t(3) uuid_cast_def [of tagId] uuid_cast_def [of intoTagId])
    have db3: "db3 = delete_tags (own_tag_row (uuid_cast w) ?a (tg_id s)) db2"
      using remove w by (auto simp: db_removeTag_def for_tag_owner_def requireTagOwner_def with_workspace_def tx_bind_Inr_iff s(3) uuid_cast_def [of tagId])
    let ?query = "tagsQuery name_key (uuid_cast w) ?a TagsByName None None (Some (tg_id t)) db3"
    have "?read db3 = Inr (outcome, db')"
      using read by (cases deleted) simp_all
    moreover have "?read db3 = (case ?query of [] \<Rightarrow> Inl (JsError ''a merged tag cannot be read back'') | r # _ \<Rightarrow> Inr (TagMerged r, db3))"
      using w by (simp add: with_workspace_def requireWorkspace_def t(3) uuid_cast_def [of intoTagId])
    ultimately obtain r rs where r: "?query = r # rs" "outcome = TagMerged r" "db' = db3"
      by (cases ?query) simp_all
    have "tg_id s = uuid_cast tagId" "tg_id t = uuid_cast intoTagId" "tg_id s \<noteq> tg_id t" "db' = delete_tags (own_tag_row (uuid_cast w) ?a (tg_id s)) db2"
      "r \<in> set (tagsQuery name_key (uuid_cast w) ?a TagsByName None None (Some (tg_id t)) db')"
      using s(3) t(3) True db3 r by (simp_all add: uuid_cast_def [of tagId] uuid_cast_def [of intoTagId])
    then show ?thesis
      using s(1,2) t(1) ins r(2) by blast
  qed
qed

text \<open>
  Claim C16: a merge gives the target every bookmark of the source and takes the source away: afterwards a bookmark carries the target
  if and only if it carried the source or the target before, nothing else is tagged or untagged, no table but the tags and their links
  changes, the invariant of the library is kept, and the answer counts the bookmarks of the target that are not plan-archived. A merge
  that finds no two tags of the caller changes nothing.
\<close>

theorem tag_merge_moves_links:
  assumes run: "mergeTag (tagRepository (\<lambda>db. db) (\<lambda>_ db. db) name_key tx) tagId intoTagId account db = Inr (outcome, db')" and ok: "library_ok db"
  shows "case outcome of
      TagMerged r \<Rightarrow>
        db' = db\<lparr>lb_tags := filter (\<lambda>t. tg_id t \<noteq> uuid_cast tagId) (lb_tags db), lb_bookmark_tags := lb_bookmark_tags db'\<rparr> \<and> library_ok db' \<and>
        (\<forall>b t. carries db' b t \<longleftrightarrow> t \<noteq> uuid_cast tagId \<and> (carries db b t \<or> t = uuid_cast intoTagId \<and> carries db b (uuid_cast tagId))) \<and>
        tc_id r = uuid_cast intoTagId \<and>
        tc_bookmarkCount r = card {b \<in> set (bookmarks db). bm_plan_archived_at b = None \<and> (carries db (bm_id b) (uuid_cast tagId) \<or> carries db (bm_id b) (uuid_cast intoTagId))}
    | _ \<Rightarrow> db' = db"
proof -
  let ?a = "uuid_cast (tx_accountId tx)" and ?s = "uuid_cast tagId" and ?t = "uuid_cast intoTagId"
  have ok': "library_ok db'"
    using library_tags.mergeTag_kept [of "\<lambda>db. db" "\<lambda>_ db. db" name_key tx tagId intoTagId account] run ok
    by (auto simp: keeps_def preserves_def sound_given_def between_ok_def)
  consider "(case outcome of TagMerged r \<Rightarrow> False | _ \<Rightarrow> True)" "db' = db"
    | w r s t n db1 where "outcome = TagMerged r" "s \<in> set (lb_tags db)" "tg_id s = ?s" "owned_tag w ?a s" "t \<in> set (lb_tags db)" "tg_id t = ?t"
        "tg_id s \<noteq> tg_id t" "insert_tag_links tx w (map (\<lambda>l. l\<lparr>bt_tag_id := tg_id t\<rparr>) (links_of_tag db w (tg_id s))) db = Inr (n, db1)"
        "db' = delete_tags (own_tag_row w ?a (tg_id s)) db1" "r \<in> set (tagsQuery name_key w ?a TagsByName None None (Some (tg_id t)) db')"
    using merge_result [OF run ok] by blast
  then show ?thesis
  proof cases
    case 1
    then show ?thesis by (cases outcome) auto
  next
    case (2 w r s t n db1)
    let ?moved = "map (\<lambda>l. l\<lparr>bt_tag_id := ?t\<rparr>) (links_of_tag db w ?s)"
    have ids: "distinct (map tg_id (lb_tags db))" and place: "\<forall>l \<in> set (lb_bookmark_tags db). tag_link_ok db l"
      using ok by (simp_all add: library_ok_def tags_ok_def links_ok_def)
    have db1: "db1 = db\<lparr>lb_bookmark_tags := lb_bookmark_tags db @ filter (\<lambda>l. tag_link_key l \<notin> set (map tag_link_key (lb_bookmark_tags db))) ?moved\<rparr>"
      using 2 by (auto simp: insert_tag_links_def Let_def split: if_splits)
    have gone: "own_tag_row w ?a ?s u \<longleftrightarrow> tg_id u = ?s" if "u \<in> set (lb_tags db)" for u
      using distinct_key_eq [OF ids that 2(2)] 2(3,4) by (auto simp: own_tag_row_def)
    have "filter (\<lambda>u. \<not> own_tag_row w ?a ?s u) (lb_tags db) = filter (\<lambda>u. tg_id u \<noteq> ?s) (lb_tags db)"
      using gone by (auto intro: filter_cong)
    then obtain links' where frame: "db' = db\<lparr>lb_tags := filter (\<lambda>u. tg_id u \<noteq> ?s) (lb_tags db), lb_bookmark_tags := links'\<rparr>"
      unfolding 2(9) 2(3) by (auto simp: delete_tags_def db1 Let_def)
    have whole: "db' = db\<lparr>lb_tags := filter (\<lambda>u. tg_id u \<noteq> ?s) (lb_tags db), lb_bookmark_tags := lb_bookmark_tags db'\<rparr>"
      unfolding frame by simp
    have rows: "bookmarks db' = bookmarks db" "lb_tags db' = filter (\<lambda>u. tg_id u \<noteq> ?s) (lb_tags db)"
      unfolding frame by simp_all
    have "map tg_id (filter (own_tag_row w ?a ?s) (lb_tags db)) = map tg_id (filter (\<lambda>u. tg_id u = ?s) (lb_tags db))"
      using gone by (simp cong: filter_cong)
    then have gone_ids: "set (map tg_id (filter (own_tag_row w ?a ?s) (lb_tags db))) = {?s}"
      using 2(2,3) by auto
    have links: "set (lb_bookmark_tags db') = {l. bt_tag_id l \<noteq> ?s \<and> (l \<in> set (lb_bookmark_tags db) \<or> l \<in> set ?moved \<and> tag_link_key l \<notin> tag_link_key ` set (lb_bookmark_tags db))}"
      using 2 gone_ids by (auto simp: delete_tags_def db1 Let_def)
    have source: "bt_workspace_id l = w" if l: "l \<in> set (lb_bookmark_tags db)" "bt_tag_id l = ?s" for l
    proof -
      have "tag_link_ok db l"
        using place l(1) by blast
      then obtain u where "u \<in> set (lb_tags db)" "tg_id u = ?s" "tg_workspace_id u = bt_workspace_id l"
        using l(2) by (auto simp: tag_link_ok_def)
      then show ?thesis
        using distinct_key_eq [OF ids _ 2(2)] 2(3,4) by (auto simp: owned_tag_def)
    qed
    have carried: "carries db' b u \<longleftrightarrow> u \<noteq> ?s \<and> (carries db b u \<or> u = ?t \<and> carries db b ?s)" for b u
    proof -
      have moved: "(\<exists>l \<in> set ?moved. bt_bookmark_id l = b \<and> bt_tag_id l = u) \<longleftrightarrow> u = ?t \<and> carries db b ?s"
        using source by (auto simp: links_of_tag_def carries_def list_ex_iff)
      have "carries db' b u \<longleftrightarrow> u \<noteq> ?s \<and> (carries db b u \<or> (\<exists>l \<in> set ?moved. bt_bookmark_id l = b \<and> bt_tag_id l = u))"
      proof (cases "u = ?t \<and> carries db b u")
        case True
        then obtain l where l: "l \<in> set (lb_bookmark_tags db)" "bt_bookmark_id l = b" "bt_tag_id l = u"
          by (auto simp: carries_def list_ex_iff)
        moreover have "u \<noteq> ?s" using True 2(3,6,7) by simp
        ultimately have "l \<in> set (lb_bookmark_tags db')" using links by blast
        then have "carries db' b u" using l by (auto simp: carries_def list_ex_iff)
        then show ?thesis using True \<open>u \<noteq> ?s\<close> by blast
      next
        case False
        then have "tag_link_key l \<notin> tag_link_key ` set (lb_bookmark_tags db)" if "l \<in> set ?moved" "bt_bookmark_id l = b" "bt_tag_id l = u" for l
          using that by (auto simp: tag_link_key_def carries_def list_ex_iff)
        then show ?thesis
          unfolding carries_def list_ex_iff links by blast
      qed
      then show ?thesis using moved by simp
    qed
    obtain t' where t': "t' \<in> set (lb_tags db')" "tg_id t' = ?t" "r = tag_record_of db' t'"
      using 2 by (auto simp: tagsQuery_def)
    have "tc_bookmarkCount r = card {b \<in> set (bookmarks db'). bm_plan_archived_at b = None \<and> carries db' (bm_id b) ?t}"
      using tag_count_card [OF ok' t'(1)] t' by (simp add: tag_record_of_def)
    moreover have "{b \<in> set (bookmarks db'). bm_plan_archived_at b = None \<and> carries db' (bm_id b) ?t} =
        {b \<in> set (bookmarks db). bm_plan_archived_at b = None \<and> (carries db (bm_id b) ?s \<or> carries db (bm_id b) ?t)}"
      using rows(1) carried 2(3,6,7) by auto
    ultimately show ?thesis
      using 2(1) whole ok' carried t' by (simp add: tag_record_of_def)
  qed
qed

text \<open>The answer of a step and the state it leaves, where it passes.\<close>

definition result_of :: "(library, 'r) tx \<Rightarrow> library \<Rightarrow> 'r option" where
  "result_of m db = (case m db of Inl _ \<Rightarrow> None | Inr (r, _) \<Rightarrow> Some r)"

definition after_step :: "(library, 'r) tx \<Rightarrow> library \<Rightarrow> library" where
  "after_step m db = (case m db of Inl _ \<Rightarrow> db | Inr (_, db') \<Rightarrow> db')"

lemma resulted: "result_of m db = Some r \<Longrightarrow> m db = Inr (r, after_step m db)"
  by (auto simp: result_of_def after_step_def split: sum.splits)

lemma lib_merge: "result_of (mergeTag (tagRepository (\<lambda>db. db) (\<lambda>_ db. db) (\<lambda>s. s) lib_tx) lib_later lib_tag lib_ada) member_library =
    Some (TagMerged \<lparr>tc_id = lib_tag, tc_name = ''work'', tc_bookmarkCount = 2\<rparr>)"
  by code_simp

theorem tag_merge_moves_links_witness:
  "let db' = after_step (mergeTag (tagRepository (\<lambda>db. db) (\<lambda>_ db. db) (\<lambda>s. s) lib_tx) lib_later lib_tag lib_ada) member_library in
   bookmarks db' = bookmarks member_library \<and> carries db' lib_notes lib_tag \<and> \<not> carries db' lib_notes lib_later \<and> carries db' lib_docs lib_tag"
proof -
  have "uuid_cast lib_later = lib_later" "uuid_cast lib_tag = lib_tag" "lib_tag \<noteq> lib_later" "carries member_library lib_notes lib_later" "carries member_library lib_docs lib_tag"
    by code_simp+
  moreover define m where "m = after_step (mergeTag (tagRepository (\<lambda>db. db) (\<lambda>_ db. db) (\<lambda>s. s) lib_tx) lib_later lib_tag lib_ada) member_library"
  note merged = tag_merge_moves_links [OF resulted [OF lib_merge] member_library_ok, folded m_def, unfolded tag_merge.case]
  have "bookmarks m = bookmarks member_library"
    using arg_cong [OF merged [THEN conjunct1], of bookmarks] by simp
  ultimately show ?thesis
    using merged [THEN conjunct2, THEN conjunct2, THEN conjunct1] by (simp add: Let_def flip: m_def)
qed

section \<open>Changing a folder\<close>

text \<open>The one folder a request finds by its identifier.\<close>

lemma folder_read:
  assumes "r \<in> set (folders_found name_key w (one_folder tx scope i) db)"
  obtains f where "f \<in> set (lb_folders db)" "fo_id f = uuid_cast i" "r = folder_record_of name_key db w (uuid_cast (tx_accountId tx)) f"
  using assms by (auto simp: folders_found_def one_folder_def order_folders_def)

lemma updateFolder_Inr:
  assumes "updateFolder (folderRepository name_key tx) folderId account patch versions db = Inr (outcome, db')"
  shows "(\<exists>name result. patchedName patch = Inr name \<and>
      db_updateFolder name_key tx \<lparr>fu_folderId = folderId, fu_ownerId = js_lower account, fu_changes = patch\<lparr>fg_name := name\<rparr>, fu_expectedVersions = versions\<rparr> db =
        Inr (result, db') \<and> (outcome = FolderUpdateDone result \<or> outcome = FolderUpdateDone FolderUpdateForbidden \<and> result = FolderUpdateNotFound)) \<or>
    db' = db \<and> (\<exists>reason. outcome = FolderUpdateNameRefused reason)"
proof (cases "patchedName patch")
  case (Inl reason)
  then show ?thesis using assms by (simp add: updateFolder_def)
next
  case (Inr name)
  let ?request = "\<lparr>fu_folderId = folderId, fu_ownerId = js_lower account, fu_changes = patch\<lparr>fg_name := name\<rparr>, fu_expectedVersions = versions\<rparr>"
  from assms have "tx_bind (assertFolderStyle (fg_icon patch) (fg_color patch)) (\<lambda>_. tx_bind (db_updateFolder name_key tx ?request) (\<lambda>result.
      if result = FolderUpdateNotFound then
        tx_bind (db_folderSharedWith tx folderId (js_lower account)) (\<lambda>shared. tx_return (FolderUpdateDone (if shared then FolderUpdateForbidden else result)))
      else tx_return (FolderUpdateDone result))) db = Inr (outcome, db')"
    by (simp only: updateFolder_def Inr folderRepository_def Let_def sum.case folder_store.select_convs)
  then obtain u db0 result db1 where style: "assertFolderStyle (fg_icon patch) (fg_color patch) db = Inr (u, db0)"
    and update: "db_updateFolder name_key tx ?request db0 = Inr (result, db1)"
    and rest: "(if result = FolderUpdateNotFound then
        tx_bind (db_folderSharedWith tx folderId (js_lower account)) (\<lambda>shared. tx_return (FolderUpdateDone (if shared then FolderUpdateForbidden else result)))
      else tx_return (FolderUpdateDone result)) db1 = Inr (outcome, db')"
    unfolding tx_bind_Inr_iff by blast
  have "db0 = db" using style by (auto simp: assertFolderStyle_def tx_bind_Inr_iff)
  moreover have "db' = db1 \<and> (outcome = FolderUpdateDone result \<or> outcome = FolderUpdateDone FolderUpdateForbidden \<and> result = FolderUpdateNotFound)"
    using rest by (cases "result = FolderUpdateNotFound") (auto simp: tx_bind_Inr_iff db_folderSharedWith_def requireOwner_def with_workspace_def read_db_def)
  ultimately show ?thesis using Inr update by blast
qed

text \<open>What the patch makes of a folder; a name is kept without the white space around it.\<close>

definition patched_folder :: "folder_changes \<Rightarrow> folder_row \<Rightarrow> folder_row \<Rightarrow> bool" where
  "patched_folder patch old new \<longleftrightarrow>
     fo_id new = fo_id old \<and> fo_workspace_id new = fo_workspace_id old \<and> fo_owner_id new = fo_owner_id old \<and>
     fo_name new = (case fg_name patch of None \<Rightarrow> fo_name old | Some n \<Rightarrow> js_trim n) \<and>
     fo_icon new = (case fg_icon patch of None \<Rightarrow> fo_icon old | Some i \<Rightarrow> i) \<and> fo_color new = (case fg_color patch of None \<Rightarrow> fo_color old | Some c \<Rightarrow> c)"

lemma patchedName_Inr: "patchedName patch = Inr name \<Longrightarrow> name = map_option js_trim (fg_name patch)"
  by (auto simp: patchedName_def normalizeFolderName_def Let_def split: option.splits if_splits sum.splits)

lemma bump_moves:
  "folder_changed changes current \<Longrightarrow> fo_version (bump_folder now current (folder_set changes current)) = fo_version current + 1"
  by (auto simp: bump_folder_def folder_set_def folder_changed_def split: option.splits)

lemma changed_answer:
  "outcome = FolderUpdateDone (FolderUpdated r) \<Longrightarrow> \<exists>old new. P r old new \<Longrightarrow>
     case outcome of FolderUpdateDone (FolderUpdated r) \<Rightarrow> \<exists>old new. P r old new | _ \<Rightarrow> Q"
  by simp

text \<open>
  Claim C17: a change of a folder that is answered as made rewrites that one folder, the caller's own and in a version the caller
  accepts, to what the patch says, and moves its version by one; the answer shows the new version. Every other answer (the folder is as
  the patch wants it, the version is another one, the name is taken, the folder is not the caller's) has written nothing.
\<close>

theorem folder_change_is_versioned:
  assumes run: "updateFolder (folderRepository name_key tx) folderId account patch versions db = Inr (outcome, db')" and ok: "library_ok db"
  shows "case outcome of
      FolderUpdateDone (FolderUpdated r) \<Rightarrow>
        (\<exists>old new. old \<in> set (lb_folders db) \<and> fo_id old = uuid_cast folderId \<and> fo_owner_id old = Some (uuid_cast (tx_accountId tx)) \<and>
           (\<forall>vs. versions = Some vs \<longrightarrow> fo_version old \<in> set vs) \<and>
           db' = db\<lparr>lb_folders := map (\<lambda>f. if fo_id f = fo_id old then new else f) (lb_folders db)\<rparr> \<and>
           patched_folder patch old new \<and> fo_version new = fo_version old + 1 \<and> fd_version r = fo_version new)
    | _ \<Rightarrow> db' = db"
proof -
  let ?request = "\<lambda>name. \<lparr>fu_folderId = folderId, fu_ownerId = js_lower account, fu_changes = patch\<lparr>fg_name := name\<rparr>, fu_expectedVersions = versions\<rparr>"
  consider reason where "db' = db" "outcome = FolderUpdateNameRefused reason"
    | name result where "patchedName patch = Inr name" "db_updateFolder name_key tx (?request name) db = Inr (result, db')"
        "outcome = FolderUpdateDone result \<or> outcome = FolderUpdateDone FolderUpdateForbidden \<and> result = FolderUpdateNotFound"
    using updateFolder_Inr [OF run] by blast
  then show ?thesis
  proof cases
    case (2 name result)
    show ?thesis
    proof (cases "\<exists>r. result = FolderUpdated r")
      case False
      then have "db' = db"
        using db_updateFolder_Inr [OF 2(2)] by blast
      then show ?thesis using 2(3) False by (cases result) auto
    next
      case True
      then obtain r where r: "result = FolderUpdated r" by blast
      then obtain w old where old: "find (own_folder_row w (uuid_cast (tx_accountId tx)) (uuid_cast folderId)) (lb_folders db) = Some old"
        "\<forall>vs. versions = Some vs \<longrightarrow> fo_version old \<in> set vs" "folder_changed (patch\<lparr>fg_name := name\<rparr>) old"
        "update_folder old (patch\<lparr>fg_name := name\<rparr>) db = Inr (True, db')" "r \<in> set (folders_found name_key w (one_folder tx FoldersMine folderId) db')"
        using db_updateFolder_Inr [OF 2(2)] by auto
      note found = own_folder_found [OF old(1)]
      define new where "new = bump_folder (lb_now db) old (folder_set (patch\<lparr>fg_name := name\<rparr>) old)"
      have db': "db' = db\<lparr>lb_folders := map (\<lambda>f. if fo_id f = fo_id old then new else f) (lb_folders db)\<rparr>"
        using old(4) by (auto simp: update_folder_def Let_def new_def split: if_splits)
      have patched: "patched_folder patch old new"
        using patchedName_Inr [OF 2(1)] by (auto simp: patched_folder_def new_def folder_set_def split: option.splits)
      obtain f where "f \<in> set (lb_folders db')" "fo_id f = uuid_cast folderId" "fd_version r = fo_version f"
        using folder_read [OF old(5)] by (metis folder_record.select_convs(7) folder_record_of_def)
      then have "fd_version r = fo_version new"
        using found by (auto simp: db' split: if_splits)
      moreover have "fo_version new = fo_version old + 1"
        unfolding new_def by (rule bump_moves [OF old(3)])
      moreover have "outcome = FolderUpdateDone (FolderUpdated r)"
        using r 2(3) by blast
      ultimately show ?thesis
        using found old(2) db' patched by (intro changed_answer exI [of _ old] exI [of _ new] conjI) simp_all
    qed
  qed simp
qed

definition lib_patch :: folder_changes where
  "lib_patch = \<lparr>fg_name = Some ''  Work  '', fg_icon = None, fg_color = Some 2\<rparr>"

lemma lib_folder_change: "\<exists>r. result_of (updateFolder (folderRepository (\<lambda>s. s) lib_tx) lib_folder lib_ada lib_patch (Some [1])) member_library = Some (FolderUpdateDone (FolderUpdated r))"
  by (rule exI [of _ "\<lparr>fd_id = lib_folder, fd_ownerId = Some lib_ada, fd_name = ''Work'', fd_icon = ''folder'', fd_color = 2, fd_bookmarkCount = 1, fd_version = 2,
      fd_updatedAt = 7, fd_owner = None, fd_shareSummary = Some \<lparr>fss_memberCount = 1, fss_teams = []\<rparr>\<rparr>"]) code_simp

theorem folder_change_is_versioned_witness:
  "\<exists>new. lb_folders (after_step (updateFolder (folderRepository (\<lambda>s. s) lib_tx) lib_folder lib_ada lib_patch (Some [1])) member_library) = [new] \<and>
     fo_id new = lib_folder \<and> fo_name new = ''Work'' \<and> fo_version new = 2"
proof -
  obtain r where "result_of (updateFolder (folderRepository (\<lambda>s. s) lib_tx) lib_folder lib_ada lib_patch (Some [1])) member_library = Some (FolderUpdateDone (FolderUpdated r))"
    using lib_folder_change by blast
  from folder_change_is_versioned [OF resulted [OF this] member_library_ok]
  obtain old new where "old \<in> set (lb_folders member_library)" "fo_id old = uuid_cast lib_folder" "patched_folder lib_patch old new" "fo_version new = fo_version old + 1"
    "after_step (updateFolder (folderRepository (\<lambda>s. s) lib_tx) lib_folder lib_ada lib_patch (Some [1])) member_library =
      member_library\<lparr>lb_folders := map (\<lambda>f. if fo_id f = fo_id old then new else f) (lb_folders member_library)\<rparr>"
    by auto
  moreover have "lb_folders member_library = lb_folders filed_library" "uuid_cast lib_folder = lib_folder" "js_trim ''  Work  '' = ''Work''"
    by code_simp+
  ultimately show ?thesis
    by (intro exI [of _ new]) (auto simp: filed_library_def patched_folder_def lib_patch_def)
qed

end
