(* ===== verification/FilingProperties.thy ===== *)
theory FilingProperties
  imports MemberProperties
begin

text \<open>
  What filing bookmarks in a shared folder and deleting the folder do to the access of its readers, what all requests of a member keep and
  leave alone, and the properties of tags and folders at an example.
\<close>

section \<open>Filing bookmarks\<close>

text \<open>An account reads a bookmark through a folder that is shared with it and holds the bookmark.\<close>

definition reads_through :: "library \<Rightarrow> string \<Rightarrow> bookmark_row \<Rightarrow> string \<Rightarrow> bool" where
  "reads_through db account b folderId \<longleftrightarrow>
     folderSharedWith db account (bm_workspace_id b) folderId \<and>
     list_ex (\<lambda>l. fb_workspace_id l = bm_workspace_id b \<and> fb_folder_id l = folderId \<and> fb_bookmark_id l = bm_id b) (folder_bookmarks db)"

lemma folderSharedWith_iff:
  "folderSharedWith db a w i \<longleftrightarrow>
     (\<exists>fs \<in> set (folder_shares db). fs_workspace_id fs = w \<and> fs_folder_id fs = i \<and> targets (library_tables db) w a (fs_target_account_id fs) (fs_target_team_id fs))"
  by (auto simp: folderSharedWith_def list_ex_iff targets_iff sql_in_teams)

lemma readable_iff:
  "bookmarkReadableBy (library_tables db) a b \<longleftrightarrow>
     bm_owner_id b = Some a \<or> shared_directly (library_tables db) a b \<or> (\<exists>i. reads_through db a b i)"
proof -
  have "shared_by_folder (library_tables db) a b \<longleftrightarrow> (\<exists>i. reads_through db a b i)"
    unfolding shared_by_folder_def reads_through_def folderSharedWith_iff list_ex_iff by (simp add: tables.defs) blast
  then show ?thesis by (simp add: bookmarkReadableBy_iff may_read_def)
qed

text \<open>What filing and deleting folders leave as it is for the access of others.\<close>

lemma same_grants:
  assumes "bookmark_shares db' = bookmark_shares db" "team_members db' = team_members db"
  shows "shared_directly (library_tables db') a b = shared_directly (library_tables db) a b"
    "targets (library_tables db') w a x y = targets (library_tables db) w a x y"
proof -
  have team: "member_of_team (library_tables db') = member_of_team (library_tables db)"
    by (intro ext) (simp add: member_of_team_def tables.defs assms)
  show targets: "targets (library_tables db') w a x y = targets (library_tables db) w a x y" for w a x y
    by (simp add: targets_def team split: option.split)
  show "shared_directly (library_tables db') a b = shared_directly (library_tables db) a b"
    unfolding shared_directly_def targets by (simp add: tables.defs assms)
qed

lemma judged_Inr:
  "judged (folderRepository name_key tx) request answer db = Inr (outcome, db') \<Longrightarrow>
     db' = db \<and> (outcome = answer \<or> answer = FilingNotFound \<and> outcome = FilingForbidden)"
  by (auto simp: judged_def folderRepository_def db_folderSharedWith_def db_sharedAmong_def requireOwner_def require_own_account_def with_workspace_def read_db_def
      tx_bind_Inr_iff split: if_splits)

lemma locks_read:
  "lockOwnedFolders tx a ids db = Inr (found, db') \<Longrightarrow> db' = db"
  "lockOwnedBookmarks tx a ids archived db = Inr (found, db') \<Longrightarrow> db' = db"
  "requireOwner tx a db = Inr (u, db') \<Longrightarrow> db' = db"
  by (auto simp: lockOwnedFolders_def lockOwnedBookmarks_def requireOwner_def with_workspace_def Let_def tx_bind_Inr_iff read_db_def split: if_splits)

lemma filing_result:
  assumes "changeFiling name_key tx True request db = Inr (answer, db')"
  shows "answer = FilingNotFound \<and> db' = db \<or>
    (\<exists>w r n. tx_workspaceId tx = Some w \<and> answer = FilingDone r n \<and> insertLinks tx [fq_folderId request] (fq_bookmarkIds request) db = Inr (n, db'))"
proof -
  let ?missing = "''a locked folder cannot be read back''"
  let ?links = "\<lambda>found. if \<not> found then tx_return FilingNotFound
      else tx_bind (insertLinks tx [fq_folderId request] (fq_bookmarkIds request)) (\<lambda>changed.
        tx_bind (read_back name_key tx (fq_folderId request) ?missing) (\<lambda>r. tx_return (FilingDone r changed)))"
  have "tx_bind (requireOwner tx (fq_ownerId request)) (\<lambda>_. tx_bind (lockOwnedFolders tx (tx_accountId tx) [fq_folderId request]) (\<lambda>folder.
      if \<not> folder then tx_return FilingNotFound
      else tx_bind (lockOwnedBookmarks tx (tx_accountId tx) (fq_bookmarkIds request) False) ?links)) db = Inr (answer, db')"
    using assms by (simp only: changeFiling_def Let_def if_True not_True_eq_False)
  then obtain u s1 folder s2 where "requireOwner tx (fq_ownerId request) db = Inr (u, s1)"
    "lockOwnedFolders tx (tx_accountId tx) [fq_folderId request] s1 = Inr (folder, s2)"
    and rest: "(if \<not> folder then tx_return FilingNotFound
      else tx_bind (lockOwnedBookmarks tx (tx_accountId tx) (fq_bookmarkIds request) False) ?links) s2 = Inr (answer, db')"
    unfolding tx_bind_Inr_iff by blast
  then have s2: "s2 = db" using locks_read by blast
  consider "answer = FilingNotFound" "db' = db" | found s3 where "lockOwnedBookmarks tx (tx_accountId tx) (fq_bookmarkIds request) False db = Inr (found, s3)"
      "?links found s3 = Inr (answer, db')"
    using rest unfolding s2 by (cases folder) (auto simp: tx_bind_Inr_iff)
  then show ?thesis
  proof cases
    case (2 found s3)
    then have "?links found db = Inr (answer, db')" using locks_read by blast
    then consider "answer = FilingNotFound" "db' = db"
      | r n s4 where "answer = FilingDone r n" "insertLinks tx [fq_folderId request] (fq_bookmarkIds request) db = Inr (n, s4)"
          "read_back name_key tx (fq_folderId request) ?missing s4 = Inr (r, db')"
      by (cases found) (auto simp: tx_bind_Inr_iff)
    then show ?thesis
      using read_back_Inr by cases blast+
  qed simp
qed

lemma insertLinks_result:
  assumes "insertLinks tx [folderId] ids db = Inr (n, db')" "tx_workspaceId tx = Some w" "ids \<noteq> []"
  defines "new \<equiv> filter (\<lambda>l. link_key l \<notin> set (map link_key (folder_bookmarks db)))
    (map (\<lambda>b. \<lparr>fb_workspace_id = uuid_cast w, fb_folder_id = js_lower folderId, fb_bookmark_id = b\<rparr>) (distinctIdentifiers ids))"
  shows "db' = db\<lparr>folder_bookmarks := folder_bookmarks db @ new\<rparr>" "n = length new"
    "\<And>i. i \<in> set ids \<Longrightarrow> own_bookmark_id db (uuid_cast (tx_accountId tx)) (uuid_cast w) (js_lower i)"
proof -
  have one: "distinctIdentifiers [folderId] = [js_lower folderId]"
    by (simp add: distinctIdentifiers_def js_unique_def)
  have some: "distinctIdentifiers ids \<noteq> []"
    using assms(3) set_distinctIdentifiers [of ids] by (metis image_is_empty set_empty)
  have run: "insert_folder_links tx (map (\<lambda>b. \<lparr>fb_workspace_id = uuid_cast w, fb_folder_id = js_lower folderId, fb_bookmark_id = b\<rparr>) (distinctIdentifiers ids)) db = Inr (n, db')"
    using assms(1,2) some by (simp add: insertLinks_def with_workspace_def requireWorkspace_def Let_def one tx_bind_Inr_iff)
  then show "db' = db\<lparr>folder_bookmarks := folder_bookmarks db @ new\<rparr>" "n = length new"
    using assms(2) by (auto simp: insert_folder_links_def with_workspace_def requireWorkspace_def Let_def new_def split: if_splits)
  show "own_bookmark_id db (uuid_cast (tx_accountId tx)) (uuid_cast w) (js_lower i)" if "i \<in> set ids" for i
    using run assms(2) that by (auto simp: insert_folder_links_def with_workspace_def requireWorkspace_def Let_def list_all_iff own_folder_link_def split: if_splits)
qed

lemma filed_Inr:
  assumes "fileBookmarks (folderRepository name_key tx) folderId account ids db = Inr (outcome, db')"
  shows "(outcome = FilingNotFound \<or> outcome = FilingForbidden) \<and> db' = db \<or>
    (\<exists>w r n. tx_workspaceId tx = Some w \<and> outcome = FilingDone r n \<and> insertLinks tx [js_lower folderId] (js_unique (map js_lower ids)) db = Inr (n, db'))"
proof -
  let ?request = "filingRequestOf folderId account ids"
  have "tx_bind (changeFiling name_key tx True ?request) (judged (folderRepository name_key tx) ?request) db = Inr (outcome, db')"
    using assms by (simp add: fileBookmarks_def Let_def folderRepository_def)
  then obtain answer s where filed: "changeFiling name_key tx True ?request db = Inr (answer, s)"
    and rest: "judged (folderRepository name_key tx) ?request answer s = Inr (outcome, db')"
    unfolding tx_bind_Inr_iff by blast
  show ?thesis
    using filing_result [OF filed] judged_Inr [OF rest] by (auto simp: filingRequestOf_def)
qed

text \<open>
  Claim C14: bookmarks are filed in a folder only by the owner of all of them, and an account reads a bookmark afterwards if and only if it
  could read it before, or the bookmark is one of those named and the folder is shared with the account; no bookmark and no share changes.
  Any other answer has filed nothing.
\<close>

theorem filing_reaches_readers:
  assumes "fileBookmarks (folderRepository name_key tx) folderId account ids db = Inr (outcome, db')" and ok: "library_ok db"
  shows "case outcome of
      FilingDone r n \<Rightarrow> bookmarks db' = bookmarks db \<and> folder_shares db' = folder_shares db \<and> bookmark_shares db' = bookmark_shares db \<and>
        (\<forall>b \<in> set (bookmarks db). bm_id b \<in> js_lower ` set ids \<longrightarrow> bm_owner_id b = Some (uuid_cast (tx_accountId tx))) \<and>
        (\<forall>b \<in> set (bookmarks db). \<forall>a. bookmarkReadableBy (library_tables db') a b \<longleftrightarrow>
           bookmarkReadableBy (library_tables db) a b \<or>
           bm_id b \<in> js_lower ` set ids \<and> folderSharedWith db a (bm_workspace_id b) (js_lower folderId))
    | _ \<Rightarrow> db' = db"
proof -
  let ?ids = "js_unique (map js_lower ids)"
  consider "outcome = FilingNotFound \<or> outcome = FilingForbidden" "db' = db"
    | w r n where "tx_workspaceId tx = Some w" "outcome = FilingDone r n" "insertLinks tx [js_lower folderId] ?ids db = Inr (n, db')"
    using filed_Inr [OF assms(1)] by blast
  then show ?thesis
  proof cases
    case (2 w r n)
    show ?thesis
    proof (cases "ids = []")
      case True
      then have "db' = db"
        using 2 by (auto simp: insertLinks_def with_workspace_def Let_def tx_bind_Inr_iff distinctIdentifiers_def js_unique_def split: if_splits)
      then show ?thesis using True 2 by simp
    next
      case False
      then have some: "?ids \<noteq> []" by (metis image_is_empty list.set_map set_empty set_js_unique)
      let ?w = "uuid_cast w" and ?f = "js_lower folderId"
      note links = insertLinks_result [OF 2(3,1) some, unfolded js_lower_idem]
      have ids: "distinct (map bm_id (bookmarks db))" and placed: "\<forall>l \<in> set (folder_bookmarks db). folder_link_ok db l"
        using ok by (simp_all add: library_ok_def rows_ok_def links_ok_def)
      have named: "bm_workspace_id b = ?w \<and> bm_owner_id b = Some (uuid_cast (tx_accountId tx))"
        if b: "b \<in> set (bookmarks db)" "bm_id b \<in> js_lower ` set ids" for b
      proof -
        have "own_bookmark_id db (uuid_cast (tx_accountId tx)) ?w (bm_id b)"
          using links(3) [of "bm_id b"] b(2) by (auto simp: js_lower_idem)
        then show ?thesis
          using distinct_key_eq [OF ids _ b(1)] by (auto simp: own_bookmark_id_def list_ex_iff owned_here_def)
      qed
      let ?new = "\<lambda>l. link_key l \<notin> link_key ` set (folder_bookmarks db) \<and> (\<exists>i \<in> set ids. l = \<lparr>fb_workspace_id = ?w, fb_folder_id = ?f, fb_bookmark_id = js_lower i\<rparr>)"
      have held: "l \<in> set (folder_bookmarks db') \<longleftrightarrow> l \<in> set (folder_bookmarks db) \<or> ?new l" for l
        using links(1) by (auto simp: js_lower_idem image_image image_iff)
      have through: "reads_through db' a b i \<longleftrightarrow> reads_through db a b i \<or>
          i = ?f \<and> bm_id b \<in> js_lower ` set ids \<and> folderSharedWith db a (bm_workspace_id b) ?f"
        if b: "b \<in> set (bookmarks db)" for a b i
      proof -
        have shared: "folderSharedWith db' a u i = folderSharedWith db a u i" for u
          using same_grants(2) [of db' db] by (simp add: folderSharedWith_iff links(1))
        show ?thesis
        proof (cases "i = ?f \<and> bm_id b \<in> js_lower ` set ids")
          case True
          have "\<exists>l \<in> set (folder_bookmarks db'). fb_workspace_id l = bm_workspace_id b \<and> fb_folder_id l = i \<and> fb_bookmark_id l = bm_id b"
          proof (cases "(?f, bm_id b) \<in> link_key ` set (folder_bookmarks db)")
            case old: True
            then obtain l where l: "l \<in> set (folder_bookmarks db)" "fb_folder_id l = ?f" "fb_bookmark_id l = bm_id b"
              by (auto simp: link_key_def)
            then obtain c where "c \<in> set (bookmarks db)" "bm_id c = bm_id b" "bm_workspace_id c = fb_workspace_id l"
              using placed by (fastforce simp: folder_link_ok_def)
            then show ?thesis
              using l True distinct_key_eq [OF ids _ b, of c] held [of l] by auto
          next
            case fresh: False
            then show ?thesis
              using True named [OF b] held by (intro bexI [of _ "\<lparr>fb_workspace_id = ?w, fb_folder_id = ?f, fb_bookmark_id = bm_id b\<rparr>"]) (auto simp: link_key_def)
          qed
          then show ?thesis
            using True shared by (auto simp: reads_through_def list_ex_iff)
        next
          case False
          then have fresh: "\<not> (fb_folder_id l = i \<and> fb_bookmark_id l = bm_id b)" if "?new l" for l
            using that by (auto simp: image_iff)
          have "(\<exists>l \<in> set (folder_bookmarks db'). fb_workspace_id l = bm_workspace_id b \<and> fb_folder_id l = i \<and> fb_bookmark_id l = bm_id b) \<longleftrightarrow>
              (\<exists>l \<in> set (folder_bookmarks db). fb_workspace_id l = bm_workspace_id b \<and> fb_folder_id l = i \<and> fb_bookmark_id l = bm_id b)"
            using fresh unfolding Bex_def held by blast
          then show ?thesis
            using False shared by (auto simp: reads_through_def list_ex_iff)
        qed
      qed
      have "shared_directly (library_tables db') a b = shared_directly (library_tables db) a b" for a b
        by (rule same_grants) (simp_all add: links(1))
      then have "bookmarkReadableBy (library_tables db') a b \<longleftrightarrow>
          bookmarkReadableBy (library_tables db) a b \<or> bm_id b \<in> js_lower ` set ids \<and> folderSharedWith db a (bm_workspace_id b) ?f"
        if "b \<in> set (bookmarks db)" for a b
        using through [OF that] by (auto simp: readable_iff)
      then show ?thesis
        using 2 named links(1) by simp
    qed
  qed auto
qed

lemma lib_filing: "result_of (fileBookmarks (folderRepository (\<lambda>s. s) lib_tx) lib_folder lib_ada [lib_notes]) member_library =
    Some (FilingDone \<lparr>fd_id = lib_folder, fd_ownerId = Some lib_ada, fd_name = ''R&D <1>'', fd_icon = ''folder'', fd_color = 1, fd_bookmarkCount = 2, fd_version = 1,
      fd_updatedAt = 3, fd_owner = None, fd_shareSummary = Some \<lparr>fss_memberCount = 1, fss_teams = []\<rparr>\<rparr> 1)"
  by code_simp

theorem filing_reaches_readers_witness:
  "bookmarkReadableBy (library_tables (after_step (fileBookmarks (folderRepository (\<lambda>s. s) lib_tx) lib_folder lib_ada [lib_notes]) member_library))
     lib_olu (lib_row lib_notes lib_ada ''Notes'' 3) \<and>
   \<not> bookmarkReadableBy (library_tables member_library) lib_olu (lib_row lib_notes lib_ada ''Notes'' 3)"
proof -
  have "lib_row lib_notes lib_ada ''Notes'' 3 \<in> set (bookmarks member_library)"
    by (simp add: member_library_def)
  moreover have "bm_id (lib_row lib_notes lib_ada ''Notes'' 3) = lib_notes" "js_lower lib_notes = lib_notes"
      "folderSharedWith member_library lib_olu (bm_workspace_id (lib_row lib_notes lib_ada ''Notes'' 3)) (js_lower lib_folder)"
      "\<not> bookmarkReadableBy (library_tables member_library) lib_olu (lib_row lib_notes lib_ada ''Notes'' 3)"
    by code_simp+
  ultimately show ?thesis
    using filing_reaches_readers [OF resulted [OF lib_filing] member_library_ok] by auto
qed

section \<open>Deleting a folder\<close>

lemma deleted_Inr:
  assumes "deleteFolder (folderRepository name_key tx) folderId account db = Inr (outcome, db')"
  shows "(\<exists>w. let own = own_folder_row (uuid_cast w) (uuid_cast (tx_accountId tx)) (uuid_cast folderId) in
      db' = delete_folders own db \<and> (outcome = FolderDeleted \<longleftrightarrow> list_ex own (lb_folders db)))"
proof -
  from assms have "tx_bind (db_removeFolder tx folderId (js_lower account)) (\<lambda>removed. if removed then tx_return FolderDeleted
      else tx_bind (db_folderSharedWith tx folderId (js_lower account)) (\<lambda>shared. tx_return (if shared then FolderForbidden else FolderNotFound))) db = Inr (outcome, db')"
    by (simp only: deleteFolder_def folderRepository_def Let_def folder_store.select_convs)
  then obtain removed s where remove: "db_removeFolder tx folderId (js_lower account) db = Inr (removed, s)"
    and rest: "(if removed then tx_return FolderDeleted
      else tx_bind (db_folderSharedWith tx folderId (js_lower account)) (\<lambda>shared. tx_return (if shared then FolderForbidden else FolderNotFound))) s = Inr (outcome, db')"
    unfolding tx_bind_Inr_iff by blast
  obtain w where "removed = list_ex (own_folder_row (uuid_cast w) (uuid_cast (tx_accountId tx)) (uuid_cast folderId)) (lb_folders db)"
      "s = delete_folders (own_folder_row (uuid_cast w) (uuid_cast (tx_accountId tx)) (uuid_cast folderId)) db"
    using remove by (auto simp: db_removeFolder_def for_folder_owner_def requireOwner_def with_workspace_def tx_bind_Inr_iff)
  moreover have "db' = s \<and> (outcome = FolderDeleted \<longleftrightarrow> removed)"
    using rest by (cases removed) (auto simp: tx_bind_Inr_iff db_folderSharedWith_def requireOwner_def with_workspace_def read_db_def split: if_splits)
  ultimately show ?thesis by (auto simp: Let_def)
qed

text \<open>
  Claim C15: a deleted folder is gone, all its filings and all its shares are gone with it, and nothing else is; an account reads a
  bookmark afterwards only as its owner, through a share of the bookmark, or through another folder that is shared with it; and when the
  transaction commits, the remembered choices for the bookmarks of the folder that no route reads any more go, and no other choice does. A
  deletion of a folder that is not the caller's changes nothing.
\<close>

theorem folder_deletion_ends_its_access:
  assumes "deleteFolder (folderRepository name_key tx) folderId account db = Inr (outcome, db')" and ok: "library_ok db"
  shows "if outcome = FolderDeleted then
      db' = db\<lparr>lb_folders := filter (\<lambda>f. fo_id f \<noteq> uuid_cast folderId) (lb_folders db),
        folder_bookmarks := filter (\<lambda>l. fb_folder_id l \<noteq> uuid_cast folderId) (folder_bookmarks db),
        folder_shares := filter (\<lambda>s. fs_folder_id s \<noteq> uuid_cast folderId) (folder_shares db)\<rparr> \<and>
      length (lb_folders db') + 1 = length (lb_folders db) \<and>
      slug_preferences_forget_unreadable db db' = db'\<lparr>slug_preferences := filter (\<lambda>p.
        list_ex (\<lambda>l. fb_folder_id l = uuid_cast folderId \<and> fb_workspace_id l = sp_workspace_id p \<and> fb_bookmark_id l = sp_bookmark_id p) (folder_bookmarks db) \<longrightarrow>
        slug_preference_bookmark_readable db' (sp_workspace_id p) (sp_account_id p) (sp_bookmark_id p)) (slug_preferences db)\<rparr> \<and>
      (\<forall>a b. bookmarkReadableBy (library_tables db') a b \<longleftrightarrow>
         bm_owner_id b = Some a \<or> shared_directly (library_tables db) a b \<or> (\<exists>i. i \<noteq> uuid_cast folderId \<and> reads_through db a b i))
    else db' = db"
proof -
  let ?i = "uuid_cast folderId"
  obtain w where db': "db' = delete_folders (own_folder_row (uuid_cast w) (uuid_cast (tx_accountId tx)) ?i) db"
    and outcome: "outcome = FolderDeleted \<longleftrightarrow> list_ex (own_folder_row (uuid_cast w) (uuid_cast (tx_accountId tx)) ?i) (lb_folders db)"
    using deleted_Inr [OF assms(1)] by (auto simp: Let_def)
  let ?own = "own_folder_row (uuid_cast w) (uuid_cast (tx_accountId tx)) ?i"
  show ?thesis
  proof (cases "outcome = FolderDeleted")
    case False
    then have "\<not> ?own f" if "f \<in> set (lb_folders db)" for f
      using that outcome by (auto simp: list_ex_iff)
    then have none: "filter ?own (lb_folders db) = []" "filter (\<lambda>f. \<not> ?own f) (lb_folders db) = lb_folders db"
      by (simp_all add: filter_empty_conv)
    then have "db' = db"
      unfolding db' delete_folders_def Let_def none by simp
    then show ?thesis using False by simp
  next
    case True
    have ids: "distinct (map fo_id (lb_folders db))"
      using ok by (simp add: library_ok_def folders_ok_def)
    obtain f where f: "f \<in> set (lb_folders db)" "?own f" "fo_id f = ?i"
      using True outcome by (auto simp: list_ex_iff own_folder_row_def)
    have own: "?own g \<longleftrightarrow> fo_id g = ?i" if "g \<in> set (lb_folders db)" for g
      using distinct_key_eq [OF ids that f(1)] f by (auto simp: own_folder_row_def)
    then have kept: "filter (\<lambda>g. \<not> ?own g) (lb_folders db) = filter (\<lambda>g. fo_id g \<noteq> ?i) (lb_folders db)"
      and gone: "filter ?own (lb_folders db) = filter (\<lambda>g. fo_id g = ?i) (lb_folders db)"
      by (auto intro: filter_cong)
    have gone_ids: "set (map fo_id (filter ?own (lb_folders db))) = {?i}"
      using f unfolding gone by auto
    have whole: "db' = db\<lparr>lb_folders := filter (\<lambda>g. fo_id g \<noteq> ?i) (lb_folders db),
        folder_bookmarks := filter (\<lambda>l. fb_folder_id l \<noteq> ?i) (folder_bookmarks db), folder_shares := filter (\<lambda>s. fs_folder_id s \<noteq> ?i) (folder_shares db)\<rparr>"
      unfolding db' delete_folders_def Let_def kept gone_ids by simp
    then have rows: "bookmarks db' = bookmarks db" "lb_folders db' = filter (\<lambda>g. fo_id g \<noteq> ?i) (lb_folders db)"
      "folder_bookmarks db' = filter (\<lambda>l. fb_folder_id l \<noteq> ?i) (folder_bookmarks db)"
      "folder_shares db' = filter (\<lambda>s. fs_folder_id s \<noteq> ?i) (folder_shares db)"
      "bookmark_shares db' = bookmark_shares db" "team_members db' = team_members db" "slug_preferences db' = slug_preferences db"
      by simp_all
    have "length (filter (\<lambda>g. fo_id g = ?i) (lb_folders db)) = 1"
    proof -
      have "length (filter ?own (lb_folders db)) = card {?i}"
        using distinct_card [OF distinct_map_filter [OF ids, of ?own]] by (simp only: gone_ids length_map)
      then show ?thesis by (simp add: gone)
    qed
    then have "length (lb_folders db') + 1 = length (lb_folders db)"
      using sum_length_filter_compl [of "\<lambda>g. fo_id g = ?i" "lb_folders db"] by (simp add: rows(2))
    moreover have "bookmarkReadableBy (library_tables db') a b \<longleftrightarrow>
        bm_owner_id b = Some a \<or> shared_directly (library_tables db) a b \<or> (\<exists>i. i \<noteq> ?i \<and> reads_through db a b i)" for a b
    proof -
      have "reads_through db' a b i \<longleftrightarrow> i \<noteq> ?i \<and> reads_through db a b i" for i
        unfolding reads_through_def folderSharedWith_iff list_ex_iff same_grants(2) [OF rows(5,6)] rows(3,4) by auto
      then show ?thesis
        unfolding readable_iff same_grants(1) [OF rows(5,6)] by blast
    qed
    moreover have "slug_preferences_forget_unreadable db db' = db'\<lparr>slug_preferences := filter (\<lambda>p.
        list_ex (\<lambda>l. fb_folder_id l = ?i \<and> fb_workspace_id l = sp_workspace_id p \<and> fb_bookmark_id l = sp_bookmark_id p) (folder_bookmarks db) \<longrightarrow>
        slug_preference_bookmark_readable db' (sp_workspace_id p) (sp_account_id p) (sp_bookmark_id p)) (slug_preferences db)\<rparr>"
    proof -
      have "choice_judged db db' p \<longleftrightarrow>
          list_ex (\<lambda>l. fb_folder_id l = ?i \<and> fb_workspace_id l = sp_workspace_id p \<and> fb_bookmark_id l = sp_bookmark_id p) (folder_bookmarks db)" for p
        by (subst judged_by_links) (auto simp: rows(3-6) list_ex_iff)
      then show ?thesis
        by (simp add: slug_preferences_forget_unreadable_def rows(7))
    qed
    ultimately show ?thesis
      using True whole by simp
  qed
qed

lemma lib_folder_deletion: "result_of (deleteFolder (folderRepository (\<lambda>s. s) lib_tx) lib_folder lib_ada) member_library = Some FolderDeleted"
  by code_simp

theorem folder_deletion_ends_its_access_witness:
  "bookmarkReadableBy (library_tables member_library) lib_olu (lib_row lib_docs lib_ada ''Docs'' 1) \<and>
   \<not> bookmarkReadableBy (library_tables (after_step (deleteFolder (folderRepository (\<lambda>s. s) lib_tx) lib_folder lib_ada) member_library))
     lib_olu (lib_row lib_docs lib_ada ''Docs'' 1)"
proof -
  let ?b = "lib_row lib_docs lib_ada ''Docs'' 1"
  have cast: "uuid_cast lib_folder = lib_folder"
    by code_simp
  have none: "\<not> (\<exists>i. i \<noteq> uuid_cast lib_folder \<and> reads_through member_library lib_olu ?b i)"
    unfolding cast by (auto simp: reads_through_def folderSharedWith_def member_library_def)
  have owner: "\<not> bm_owner_id ?b = Some lib_olu" and before: "bookmarkReadableBy (library_tables member_library) lib_olu ?b"
    by code_simp+
  have direct: "\<not> shared_directly (library_tables member_library) lib_olu ?b"
    by (simp add: shared_directly_def targets_def tables.defs member_library_def filed_library_def example_library_def lib_olu_def lib_ada_def)
  note access = folder_deletion_ends_its_access [OF resulted [OF lib_folder_deletion] member_library_ok, unfolded if_P [OF refl], THEN conjunct2, THEN conjunct2,
    THEN conjunct2, rule_format, of lib_olu ?b]
  show ?thesis
    unfolding access by (simp only: before owner direct none simp_thms)
qed

section \<open>All requests of a member\<close>

definition lib_member :: member_env where
  "lib_member =
     \<lparr>me_request = lib_env, me_rounds = \<lambda>_ db. db, me_tagCursors = \<lparr>tk_seal = \<lambda>_ _. '''', tk_open = \<lambda>_ _. None\<rparr>,
      me_folderCursors = \<lparr>fk_seal = \<lambda>_ _. '''', fk_open = \<lambda>_ _. None\<rparr>\<rparr>"

lemma lib_member_ok: "members_ok lib_member" "member_alone lib_member"
  using lib_env_ok by (simp_all add: members_ok_def member_alone_def lib_member_def between_ok_def env_alone_def) (simp add: lib_env_def)

text \<open>
  Claim C5: whatever requests members make on bookmarks, shares, tags and folders, in whatever order, and whatever other transactions
  that keep the invariant commit between the statements, the invariant of the library is kept.
\<close>

theorem member_requests_keep_library:
  assumes "\<forall>(env, call) \<in> set requests. members_ok env" "library_ok db"
  shows "library_ok (serve_members requests db)"
  by (rule serve_members_kept [OF assms])

theorem member_requests_keep_library_witness:
  "library_ok (serve_members
     [(lib_member, TagMergeCall lib_later lib_tag lib_ada), (lib_member, FolderFileCall lib_folder lib_ada [lib_notes]), (lib_member, FolderDeleteCall lib_folder lib_ada)]
     member_library)"
  by (rule member_requests_keep_library) (simp_all add: lib_member_ok member_library_ok)

text \<open>
  Claim C6: a member's request changes no bookmark, no tag and no folder of anyone else and no membership at all, whatever bookmarks,
  folders and tags it names; so sharing gives read access only.
\<close>

theorem member_requests_leave_others_alone:
  assumes "member_alone env" "of_member env call" "library_ok db"
  shows "others_data (uuid_cast (tx_accountId (re_tx (me_request env)))) (serve_member env call db) = others_data (uuid_cast (tx_accountId (re_tx (me_request env)))) db"
  by (rule serve_member_apart [OF assms])

theorem member_requests_leave_others_alone_witness:
  "others_data lib_ada (serve_member lib_member (FolderFileCall lib_folder lib_ada [lib_plan]) member_library) = others_data lib_ada member_library"
proof -
  have account: "tx_accountId (re_tx (me_request lib_member)) = lib_ada"
    by (simp add: lib_member_def lib_env_def lib_tx_def)
  moreover have "uuid_cast lib_ada = lib_ada"
    by code_simp
  moreover have "of_member lib_member (FolderFileCall lib_folder lib_ada [lib_plan])"
    by (simp add: of_member_def account)
  ultimately show ?thesis
    using member_requests_leave_others_alone [OF lib_member_ok(2) _ member_library_ok] by metis
qed

end
