(* ===== verification/Spec2Isabelle.thy ===== *)
theory Spec2Isabelle
  imports Url GoListings Usage Address EntitlementChecks HttpProperties RequestHash RateProperties AuditProperties LibraryProperties ExportProperties FilingProperties
begin

text \<open>
  A model of the server side of Slugbase, a bookmark manager for workspaces (TypeScript on Node.js over PostgreSQL). Every path below
  lies under \<open>src/packages\<close>.

  \<^bold>\<open>The program.\<close> A request enters the chain of \<open>server/src/http\<close>: it is given a context, bounded, authenticated, held to the access
  mode, the cross-site rules and the rate limits, validated, authorized and, if it asks for that, made idempotent; then a handler of
  \<open>server/src/routes\<close> opens a tenant transaction (\<open>db/src/tenant.ts\<close>) and calls a service of \<open>core/src\<close>. A service is written against
  a store, an interface of its own; the repositories of \<open>db/src/repositories\<close> implement the stores with statements that row-level
  policies and system operations (\<open>db/src/sql\<close>) bound. What a service answers becomes a response or a problem document.

  \<^bold>\<open>How it is modelled.\<close> A transaction step is a function of a state that answers a value and the state after it, or an error
  (\<open>tx\<close> of \<open>Prelude\<close>); a thrown error rolls the transaction back, so it leaves no state. A store is a record of such steps, a service a
  function of a store, a repository a store over the tables, and a table the list of its rows. Where several transactions matter, they are
  steps of a relation (\<open>Entitlements\<close>, \<open>Usage\<close>, \<open>Idempotency\<close>, \<open>RateLimit\<close>), or what the others commit between two
  statements is a function the operation is given (\<open>interference\<close>, \<open>between\<close>). A thrown JavaScript error is \<open>js_error\<close>. A text of
  the model is a JavaScript string of code units up to \<open>U+00FF\<close> (\<open>JsString\<close>).

  \<^bold>\<open>Theories.\<close>
  \<^item> \<open>Prelude\<close>, \<open>JsString\<close>, \<open>Keyset\<close>: transaction steps, the string operations of the language, and reading a list page by page:
    the locale \<open>keyset\<close> with the lemma that following its pages is complete, and its interpretations \<open>audit_pages\<close> and \<open>list_pages\<close>.
  \<^item> \<open>Tables\<close>, \<open>Access\<close>: the tables of \<open>db/src/schema\<close>, the tenant transaction, and who can read a bookmark
    (\<open>db/src/repositories/bookmark-access.ts\<close>).
  \<^item> \<open>Slug\<close>, \<open>Url\<close>, \<open>GoCore\<close>, \<open>GoLaws\<close>, \<open>GoDb\<close>, \<open>GoDbLaws\<close>, \<open>GoProperties\<close>, \<open>GoListings\<close>: the slugs of
    \<open>core/src/go\<close> and the addresses of \<open>core/src/bookmarks/url.ts\<close>; the services, what they rely on of their store as the locales
    \<open>go_read_laws\<close>, \<open>go_resolve_laws\<close> and \<open>go_choose_laws\<close>, the repository of \<open>db/src/repositories/go.ts\<close> and the interpretation
    \<open>go_db\<close> that it keeps to them.
  \<^item> \<open>LibraryTables\<close>, \<open>LibraryLinks\<close>, \<open>LibraryDb\<close>, \<open>LibraryServices\<close>, \<open>LibraryStore\<close>: creating, changing, deleting,
    filing, tagging and archiving bookmarks (\<open>core/src/bookmarks\<close>, \<open>db/src/repositories/bookmarks.ts\<close>, \<open>folder-links.ts\<close>,
    \<open>tag-links.ts\<close> and the system operations of \<open>db/src/sql/470\<close>, \<open>480\<close>, \<open>500\<close>, \<open>540\<close>, \<open>550\<close>).
  \<^item> \<open>LibraryShares\<close>, \<open>Sharing\<close>, \<open>SharingLaws\<close>: the shares of bookmarks and folders (\<open>core/src/sharing\<close>,
    \<open>db/src/repositories/bookmark-shares.ts\<close>, \<open>folder-shares.ts\<close>); the two tables of shares are one locale, \<open>share_table_laws\<close>.
  \<^item> \<open>LibraryLists\<close>, \<open>LibraryListLaws\<close>, \<open>LibraryPages\<close>: filters, orders, the text query, pages and counts.
  \<^item> \<open>LibraryBulk\<close>: select-all, the bulk actions and their previews (\<open>core/src/bookmarks/bulk.ts\<close>).
  \<^item> \<open>LibraryLaws\<close>, \<open>LibraryInvariant\<close>, \<open>LibraryKept\<close>, \<open>LibraryContract\<close>, \<open>LibraryOwn\<close>, \<open>LibraryBulkLaws\<close>,
    \<open>LibraryRequests\<close>, \<open>LibraryOutcomes\<close>, \<open>LibraryProperties\<close>: the invariant of a library (\<open>library_ok\<close>) and the rows that are
    not an account's own (\<open>theirs\<close>). Both are relations between a state and the state after it, and the locale \<open>kept_relation\<close> has the
    rules by which composed steps keep one. The locales \<open>bookmark_store_contract\<close>, \<open>bulk_store_contract\<close> and
    \<open>share_store_contract\<close> say that each operation of a store keeps the relation and conclude that each service does; they are
    interpreted for both relations on the stores of the database.
  \<^item> \<open>LibraryTags\<close>, \<open>LibraryFolders\<close>, \<open>LibraryFolderLaws\<close>, \<open>LibraryMembers\<close>, \<open>MemberProperties\<close>, \<open>FilingProperties\<close>:
    the tags and the folders of a member (\<open>core/src/tags\<close>, \<open>core/src/folders\<close>, \<open>db/src/repositories/tags.ts\<close>, \<open>folders.ts\<close>, the
    merge of \<open>tag-links.ts\<close>, the trigger of \<open>db/src/sql/520-folders.sql\<close>). The locales \<open>tag_store_contract\<close> and
    \<open>folder_store_contract\<close> extend the contracts above to them, and \<open>LibraryMembers\<close> composes every request of a member.
  \<^item> \<open>LibraryCommit\<close>: what the database does when a request commits, the deferred triggers of
    \<open>db/src/sql/670-slug-preference-cleanup.sql\<close> that take the remembered choices no route reads any more; \<open>serve_call\<close> and
    \<open>serve_member\<close> end with it.
  \<^item> \<open>Markup\<close>, \<open>Netscape\<close>, \<open>NetscapeLaws\<close>: the scanner of untrusted markup (\<open>core/src/bookmarks/metadata.ts\<close>) and the bookmark
    files of browsers, read (\<open>core/src/import/netscape.ts\<close>) and written (\<open>core/src/export/netscape.ts\<close>). Their texts are lists of UTF-16
    code units.
  \<^item> \<open>LibraryExport\<close>, \<open>LibraryExportLaws\<close>, \<open>ExportProperties\<close>: the statements of \<open>db/src/repositories/export.ts\<close>, the selection and
    the start of an export (\<open>core/src/export\<close>); the pages of a statement are the interpretation \<open>export_pages\<close> of \<open>keyset\<close>.
  \<^item> \<open>Usage\<close>: the buffer of counted opens, its flushes and its shutdown (\<open>server/src/usage/buffer.ts\<close>, \<open>db/src/system/usage.ts\<close>), with
    calls of the store that are rejected before or after the database wrote the batch, and the opens a shutdown loses.
  \<^item> \<open>Entitlements\<close>, \<open>EntitlementChecks\<close>: the catalog, the memo of a request and the process cache under interleaved loads, with the
    asks of the requests as history, and the checks, over answers read afresh (\<open>core/src/entitlements\<close>,
    \<open>db/src/repositories/entitlements.ts\<close>).
  \<^item> \<open>Address\<close>, \<open>RateLimit\<close>, \<open>RateRegistry\<close>, \<open>RateProperties\<close>: addresses (\<open>adapters/src/egress/address.ts\<close>), token
    buckets (\<open>db/src/sql/040-rate-limit.sql\<close>, \<open>adapters/src/rate-limit\<close>) and the registry of their limits.
  \<^item> \<open>HttpProblem\<close>, \<open>HttpContext\<close>, \<open>HttpRate\<close>, \<open>HttpStages\<close>, \<open>HttpPolicy\<close>, \<open>Idempotency\<close>, \<open>HttpChain\<close>,
    \<open>HttpLaws\<close>, \<open>HttpAnswers\<close>, \<open>HttpProperties\<close>, \<open>RequestHash\<close>: the request chain of \<open>server/src/http\<close>, stage by stage,
    with the idempotency keys of \<open>db/src/repositories/idempotency.ts\<close>. A handler is a parameter of the chain; where an answer depends
    on the request it is for, the handlers leave the request, its route and its ID as they are (\<open>handlers_stay\<close>).
  \<^item> \<open>AuditLog\<close>, \<open>AuditProperties\<close>, \<open>Events\<close>: the audit log and the domain events (\<open>core/src/audit\<close>, \<open>core/src/events\<close>).

  \<^bold>\<open>What the lemmas show.\<close> The numbered texts of the theories state the properties of the program: no sequence of requests breaks a
  library or writes the rows of another member; a merge of tags moves every link; filing and deleting a folder change who reads a bookmark
  exactly as far as the folder is shared; the bookmark file of an export is read back by the import; lists and pages are complete and in
  order; a resolution names only what may be read; a
  handler runs only for a request that passed every stage its operation declares; a bucket grants no more than its capacity and refill;
  an idempotent request runs once; every open that was counted is in a row, still to be written, or lost in a shutdown that could not
  write it. Each rests on the lemmas of the theories it names, and where it has hypotheses
  the lemma after it, with the suffix \<open>_witness\<close>, applies it to a concrete input.

  \<^bold>\<open>Parameters.\<close> What is not in the repository is an argument of the definitions that use it: the WHATWG URL parser, the collation of
  the database and \<open>localeCompare\<close>, full-text match, trigram similarity and NFKC, \<open>isIP\<close>, SHA-256, the codecs of UTF-8 and JSON, the
  schemas of the operations (functions of the Zod library), the signed cursors, the identifiers that are drawn, and the clock. A property
  that relies on one of them names what it relies on, such as that a cursor opens in the scope it was sealed for.

  \<^bold>\<open>Bounds.\<close> Every definition terminates; the retry loops of the code carry the number of attempts that are left (\<open>GRANT_ATTEMPTS\<close>), and
  the walks over pages the number of pages, which their theorems show to be enough. Word arithmetic is modelled where the code shifts
  and masks (\<open>Address\<close>); the numbers elsewhere stay far below \<open>2^53\<close>, and where a text may exceed it the parser says so (\<open>safe_or_none\<close>).

  \<^bold>\<open>Not modelled.\<close> Teams, members, invitations and workspaces as entities with their services, sign-in and sessions, the preview and
  the run of an import, the JSON file of an export, the administration of an instance, the fetching of pages and icons with the walk that
  picks their metadata, the worker, and the checks of migrations. A request that waits for an idempotency key is decided on the keys its
  wait ended with; the wait itself is in the step relation of \<open>Idempotency\<close> only. The web application, mail, the clients of other services, log lines, spans
  and metrics carry no logic of the server and stay out.
\<close>

end
